(* ===== verification/VsmcPrelude.thy ===== *)
theory VsmcPrelude
  imports Complex_Main
begin

text \<open>
  Shared vocabulary of the development: exceptions as values, the C# \<open>long\<close> with its
  wrap-around, \<open>Math.Clamp\<close>, the string operations the sources use, decimal formatting,
  and the named collections of simplification rules that the component theories fill.

  \<^item> A C# string is a list of characters whose code points are below 256. \<open>Trim\<close>,
    \<open>ToLowerInvariant\<close> and \<open>OrdinalIgnoreCase\<close> are exact on that range.
  \<^item> A \<open>double\<close> is a real number: rounding, infinities and NaN are outside the model.
  \<^item> A \<open>long\<close> is an integer in two's complement; increments wrap (unchecked arithmetic).
\<close>

named_theorems text_eval \<open>evaluation of closed strings\<close>
named_theorems frame_simps \<open>fields an operation leaves alone\<close>
named_theorems handler_defs \<open>definitions of the command handlers\<close>
named_theorems outcome_simps \<open>evaluation of outcomes with exceptions\<close>

section \<open>Exceptions as values\<close>

datatype exn =
    ArgumentOutOfRange string
  | ArgumentException string
  | InvalidOperation string
  | TypeError string

text \<open>
  An operation that may throw returns either the exception or its value, and in both cases
  the state it leaves behind: a C# or JavaScript exception does not undo the assignments made
  before it.
\<close>

type_synonym ('a, 's) outcome = "(exn + 'a) \<times> 's"

definition chain :: "('a, 's) outcome \<Rightarrow> ('a \<Rightarrow> 's \<Rightarrow> ('b, 's) outcome) \<Rightarrow> ('b, 's) outcome" where
  "chain r k = (case fst r of Inl e \<Rightarrow> (Inl e, snd r) | Inr a \<Rightarrow> k a (snd r))"

definition throws :: "('a, 's) outcome \<Rightarrow> bool" where
  "throws r = (case fst r of Inl _ \<Rightarrow> True | Inr _ \<Rightarrow> False)"

lemma chain_Inl [simp, outcome_simps]: "chain (Inl e, s) k = (Inl e, s)"
  by (simp add: chain_def)

lemma chain_Inr [simp, outcome_simps]: "chain (Inr a, s) k = k a s"
  by (simp add: chain_def)

lemma throws_Inl [simp, outcome_simps]: "throws (Inl e, s)"
  by (simp add: throws_def)

lemma throws_Inr [simp, outcome_simps]: "\<not> throws (Inr a, s)"
  by (simp add: throws_def)

text \<open>An invariant that both parts of a chain keep is kept by the chain, thrown or not.\<close>

lemma chain_keeps:
  assumes "P (snd r)" and "\<And>a. P (snd r) \<Longrightarrow> P (snd (k a (snd r)))"
  shows "P (snd (chain r k))"
  using assms by (simp add: chain_def split: sum.split)

lemma chain_not_throws:
  assumes "\<not> throws r" and "\<And>a. \<not> throws (k a (snd r))"
  shows "\<not> throws (chain r k)"
  using assms by (cases "fst r") (simp_all add: chain_def throws_def)

lemma not_throws_cases:
  assumes "\<not> throws r"
  obtains a where "r = (Inr a, snd r)"
  using assms by (cases r) (auto simp: throws_def split: sum.splits)

section \<open>Machine integers and clamping\<close>

definition wrap64 :: "int \<Rightarrow> int" where
  "wrap64 x = (x + 2 ^ 63) mod 2 ^ 64 - 2 ^ 63"

definition in_long :: "int \<Rightarrow> bool" where
  "in_long x \<longleftrightarrow> - (2 ^ 63) \<le> x \<and> x < 2 ^ 63"

definition long_inc :: "int \<Rightarrow> int" where
  "long_inc x = wrap64 (x + 1)"

lemma wrap64_in_long: "in_long (wrap64 x)"
proof -
  have "0 \<le> (x + 2 ^ 63) mod 2 ^ 64" and "(x + 2 ^ 63) mod 2 ^ 64 < 2 ^ 64"
    by simp_all
  then show ?thesis by (simp add: in_long_def wrap64_def)
qed

lemma wrap64_id: "in_long x \<Longrightarrow> wrap64 x = x"
  by (simp add: in_long_def wrap64_def)

lemma long_inc_exact: "- (2 ^ 63) \<le> x \<Longrightarrow> x < 2 ^ 63 - 1 \<Longrightarrow> long_inc x = x + 1"
  unfolding long_inc_def by (rule wrap64_id) (simp add: in_long_def)

lemma long_inc_overflows: "long_inc (2 ^ 63 - 1) = - (2 ^ 63)"
  by (simp add: long_inc_def wrap64_def)

definition clampr :: "real \<Rightarrow> real \<Rightarrow> real \<Rightarrow> real" where
  "clampr lo hi x = (if x < lo then lo else if hi < x then hi else x)"

lemma clampr_bounds: "lo \<le> hi \<Longrightarrow> lo \<le> clampr lo hi x \<and> clampr lo hi x \<le> hi"
  by (simp add: clampr_def)

lemma clampr_id: "lo \<le> x \<Longrightarrow> x \<le> hi \<Longrightarrow> clampr lo hi x = x"
  by (simp add: clampr_def)

lemma clampr_abs: "0 \<le> b \<Longrightarrow> \<bar>clampr (- b) b x\<bar> \<le> b"
  by (simp add: clampr_def abs_le_iff)

definition clampi :: "int \<Rightarrow> int \<Rightarrow> int \<Rightarrow> int" where
  "clampi lo hi x = (if x < lo then lo else if hi < x then hi else x)"

lemma clampi_bounds: "lo \<le> hi \<Longrightarrow> lo \<le> clampi lo hi x \<and> clampi lo hi x \<le> hi"
  by (simp add: clampi_def)

section \<open>Strings\<close>

definition is_space :: "char \<Rightarrow> bool" where
  "is_space c = (let n = (of_char c :: nat) in (9 \<le> n \<and> n \<le> 13) \<or> n = 32 \<or> n = 133 \<or> n = 160)"

definition lower_char :: "char \<Rightarrow> char" where
  "lower_char c = (let n = (of_char c :: nat)
     in if (65 \<le> n \<and> n \<le> 90) \<or> (192 \<le> n \<and> n \<le> 222 \<and> n \<noteq> 215) then char_of (n + 32) else c)"

definition upper_char :: "char \<Rightarrow> char" where
  "upper_char c = (let n = (of_char c :: nat)
     in if (97 \<le> n \<and> n \<le> 122) \<or> (224 \<le> n \<and> n \<le> 254 \<and> n \<noteq> 247) then char_of (n - 32) else c)"

definition to_lower :: "string \<Rightarrow> string" where
  "to_lower s = map lower_char s"

definition to_upper :: "string \<Rightarrow> string" where
  "to_upper s = map upper_char s"

definition trim_start :: "string \<Rightarrow> string" where
  "trim_start s = dropWhile is_space s"

definition trim :: "string \<Rightarrow> string" where
  "trim s = rev (dropWhile is_space (rev (trim_start s)))"

definition is_blank :: "string \<Rightarrow> bool" where
  "is_blank s = list_all is_space s"

definition eq_ignore_case :: "string \<Rightarrow> string \<Rightarrow> bool" where
  "eq_ignore_case a b \<longleftrightarrow> to_upper a = to_upper b"

lemma eq_ignore_case_refl [simp]: "eq_ignore_case a a"
  by (simp add: eq_ignore_case_def)

lemma eq_ignore_case_sym: "eq_ignore_case a b \<Longrightarrow> eq_ignore_case b a"
  by (simp add: eq_ignore_case_def)

lemma eq_ignore_case_trans: "eq_ignore_case a b \<Longrightarrow> eq_ignore_case b c \<Longrightarrow> eq_ignore_case a c"
  by (simp add: eq_ignore_case_def)

fun join_with :: "string \<Rightarrow> string list \<Rightarrow> string" where
  "join_with sep [] = []"
| "join_with sep [x] = x"
| "join_with sep (x # y # ys) = x @ sep @ join_with sep (y # ys)"

section \<open>Decimal text\<close>

definition digit_char :: "nat \<Rightarrow> char" where
  "digit_char d = char_of (48 + d)"

fun show_nat :: "nat \<Rightarrow> string" where
  "show_nat n = (if n < 10 then [digit_char n] else show_nat (n div 10) @ [digit_char (n mod 10)])"

declare show_nat.simps [simp del]

definition show_int :: "int \<Rightarrow> string" where
  "show_int i = (if i < 0 then ''-'' @ show_nat (nat (- i)) else show_nat (nat i))"

definition pad_left :: "nat \<Rightarrow> char \<Rightarrow> string \<Rightarrow> string" where
  "pad_left w c s = replicate (w - length s) c @ s"

text \<open>
  Fixed-point text with \<open>d\<close> decimals, rounding the magnitude half up: the \<open>F3\<close> format of
  .NET and \<open>Number.prototype.toFixed\<close> of JavaScript (below \<open>10 ^ 21\<close>).
\<close>

definition round_half_up :: "real \<Rightarrow> nat" where
  "round_half_up x = nat \<lfloor>x + 1 / 2\<rfloor>"

definition show_fixed :: "nat \<Rightarrow> real \<Rightarrow> string" where
  "show_fixed d x =
     (let m = round_half_up (\<bar>x\<bar> * 10 ^ d);
          body = show_nat (m div 10 ^ d) @ (if d = 0 then [] else ''.'' @ pad_left d (CHR ''0'') (show_nat (m mod 10 ^ d)))
      in if x < 0 then ''-'' @ body else body)"

lemmas char_eval [text_eval] = char_of_def bit_Suc_0_iff

lemmas text_defs [text_eval] =
  is_space_def lower_char_def upper_char_def to_lower_def to_upper_def trim_start_def trim_def is_blank_def
  eq_ignore_case_def digit_char_def show_int_def pad_left_def round_half_up_def show_fixed_def show_nat.simps Let_def

lemma show_nat_nonempty [simp]: "show_nat n \<noteq> []"
  by (subst show_nat.simps) simp

text \<open>The names a JavaScript object literal inherits from \<open>Object.prototype\<close>.\<close>

definition inherited_names :: "string list" where
  "inherited_names = [''constructor'', ''hasOwnProperty'', ''isPrototypeOf'', ''propertyIsEnumerable'', ''toLocaleString'',
     ''toString'', ''valueOf'', ''__proto__'', ''__defineGetter__'', ''__defineSetter__'', ''__lookupGetter__'', ''__lookupSetter__'']"

end
