(* ===== verification/Contracts.thy ===== *)
theory Contracts
  imports VsmcPrelude
begin

text \<open>
  The data contracts of the runtime (\<open>src/VirtualSmartMotionCell.Contracts\<close>): the enumerations
  with their \<open>ToString\<close> names, command requests and results, machine events and their payloads,
  the recovery checkpoint and the state snapshots.

  The readings of the environment are numbered: a \<open>DateTimeOffset.UtcNow\<close> or
  \<open>Guid.NewGuid()\<close> is represented by its index among all readings so far, so two GUIDs are equal
  only when they are the same reading.
\<close>

type_synonym reading = nat

section \<open>Enumerations\<close>

datatype machine_mode =
    MM_Offline | MM_Manual | MM_Automatic | MM_Maintenance | MM_Recovery
  | MM_Undefined int \<comment> \<open>an enum variable may hold a value that no member names\<close>

datatype execution_state =
    ES_Stopped | ES_Initializing | ES_Homing | ES_Ready | ES_Starting | ES_Running | ES_Pausing
  | ES_Paused | ES_Stopping | ES_Aborting | ES_Recovering | ES_RecoveryRequired | ES_Faulted

datatype production_step =
    PS_None | PS_WaitForPart | PS_MoveToPick | PS_Pick | PS_MoveToInspect | PS_Inspect
  | PS_MoveToPlace | PS_Place | PS_ReturnHome | PS_Complete

datatype axis_motion_state = AM_Disabled | AM_Standstill | AM_Homing | AM_Moving | AM_Holding | AM_Faulted

datatype alarm_lifecycle = AL_ActiveUnacknowledged | AL_ActiveAcknowledged | AL_ClearedUnacknowledged | AL_Historical

datatype alarm_severity = SV_Information | SV_Warning | SV_Error | SV_Critical

datatype command_status = CS_Accepted | CS_Rejected | CS_Failed

datatype part_quality = PQ_Unknown | PQ_Good | PQ_Reject

datatype order_status = OS_Queued | OS_Active | OS_Paused | OS_Completed | OS_Cancelled

datatype recipe_lifecycle = RL_Draft | RL_Approved | RL_Active | RL_Retired

datatype recovery_action = RA_DiscardAndReset | RA_RehomeAndReset | RA_ResumeSimulation

datatype integration_health = IH_Unknown | IH_Healthy | IH_Degraded | IH_Offline

datatype motion_fault = MF_None | MF_DriveFaultX | MF_DriveFaultY | MF_FollowingError | MF_FrozenAxisX | MF_FrozenAxisY

fun mode_name :: "machine_mode \<Rightarrow> string" where
  "mode_name MM_Offline = ''Offline''"
| "mode_name MM_Manual = ''Manual''"
| "mode_name MM_Automatic = ''Automatic''"
| "mode_name MM_Maintenance = ''Maintenance''"
| "mode_name MM_Recovery = ''Recovery''"
| "mode_name (MM_Undefined v) = show_int v"

fun execution_name :: "execution_state \<Rightarrow> string" where
  "execution_name ES_Stopped = ''Stopped''"
| "execution_name ES_Initializing = ''Initializing''"
| "execution_name ES_Homing = ''Homing''"
| "execution_name ES_Ready = ''Ready''"
| "execution_name ES_Starting = ''Starting''"
| "execution_name ES_Running = ''Running''"
| "execution_name ES_Pausing = ''Pausing''"
| "execution_name ES_Paused = ''Paused''"
| "execution_name ES_Stopping = ''Stopping''"
| "execution_name ES_Aborting = ''Aborting''"
| "execution_name ES_Recovering = ''Recovering''"
| "execution_name ES_RecoveryRequired = ''RecoveryRequired''"
| "execution_name ES_Faulted = ''Faulted''"

fun step_name :: "production_step \<Rightarrow> string" where
  "step_name PS_None = ''None''"
| "step_name PS_WaitForPart = ''WaitForPart''"
| "step_name PS_MoveToPick = ''MoveToPick''"
| "step_name PS_Pick = ''Pick''"
| "step_name PS_MoveToInspect = ''MoveToInspect''"
| "step_name PS_Inspect = ''Inspect''"
| "step_name PS_MoveToPlace = ''MoveToPlace''"
| "step_name PS_Place = ''Place''"
| "step_name PS_ReturnHome = ''ReturnHome''"
| "step_name PS_Complete = ''Complete''"

fun order_status_name :: "order_status \<Rightarrow> string" where
  "order_status_name OS_Queued = ''Queued''"
| "order_status_name OS_Active = ''Active''"
| "order_status_name OS_Paused = ''Paused''"
| "order_status_name OS_Completed = ''Completed''"
| "order_status_name OS_Cancelled = ''Cancelled''"

fun motion_fault_name :: "motion_fault \<Rightarrow> string" where
  "motion_fault_name MF_None = ''None''"
| "motion_fault_name MF_DriveFaultX = ''DriveFaultX''"
| "motion_fault_name MF_DriveFaultY = ''DriveFaultY''"
| "motion_fault_name MF_FollowingError = ''FollowingError''"
| "motion_fault_name MF_FrozenAxisX = ''FrozenAxisX''"
| "motion_fault_name MF_FrozenAxisY = ''FrozenAxisY''"

fun integration_health_name :: "integration_health \<Rightarrow> string" where
  "integration_health_name IH_Unknown = ''Unknown''"
| "integration_health_name IH_Healthy = ''Healthy''"
| "integration_health_name IH_Degraded = ''Degraded''"
| "integration_health_name IH_Offline = ''Offline''"

section \<open>Commands\<close>

record command_request =
  cr_type :: "string option"
  cr_axis :: "string option"
  cr_value :: "real option"
  cr_mode :: "string option"
  cr_fault :: "string option"
  cr_requested_by :: "string option"
  cr_correlation_id :: "string option"
  cr_order_id :: "string option"
  cr_quantity :: "int option"
  cr_recipe_id :: "string option"
  cr_recipe_revision :: "int option"
  cr_recovery_action :: "string option"

text \<open>A request that carries only a type, as the HMI buttons send it.\<close>

definition plain_request :: "string \<Rightarrow> command_request" where
  "plain_request ty = \<lparr>cr_type = Some ty, cr_axis = None, cr_value = None, cr_mode = None, cr_fault = None,
     cr_requested_by = None, cr_correlation_id = None, cr_order_id = None, cr_quantity = None,
     cr_recipe_id = None, cr_recipe_revision = None, cr_recovery_action = None\<rparr>"

record command_result =
  res_command_id :: string
  res_status :: command_status
  res_code :: string
  res_reasons :: "string list"
  res_completed_at :: reading
  res_revision :: int
  res_correlation_id :: string

definition accepted_result :: "string \<Rightarrow> int \<Rightarrow> string \<Rightarrow> string \<Rightarrow> reading \<Rightarrow> command_result" where
  "accepted_result command_id revision corr code now =
     \<lparr>res_command_id = command_id, res_status = CS_Accepted, res_code = code, res_reasons = [],
      res_completed_at = now, res_revision = revision, res_correlation_id = corr\<rparr>"

definition rejected_result :: "string \<Rightarrow> int \<Rightarrow> string \<Rightarrow> string \<Rightarrow> string list \<Rightarrow> reading \<Rightarrow> command_result" where
  "rejected_result command_id revision corr code reasons now =
     \<lparr>res_command_id = command_id, res_status = CS_Rejected, res_code = code, res_reasons = reasons,
      res_completed_at = now, res_revision = revision, res_correlation_id = corr\<rparr>"

lemma accepted_result_sel [simp]:
  "res_status (accepted_result i r c k t) = CS_Accepted"
  "res_code (accepted_result i r c k t) = k"
  "res_revision (accepted_result i r c k t) = r"
  "res_command_id (accepted_result i r c k t) = i"
  "res_correlation_id (accepted_result i r c k t) = c"
  by (simp_all add: accepted_result_def)

lemma rejected_result_sel [simp]:
  "res_status (rejected_result i r c k rs t) = CS_Rejected"
  "res_code (rejected_result i r c k rs t) = k"
  "res_revision (rejected_result i r c k rs t) = r"
  "res_reasons (rejected_result i r c k rs t) = rs"
  "res_command_id (rejected_result i r c k rs t) = i"
  "res_correlation_id (rejected_result i r c k rs t) = c"
  by (simp_all add: rejected_result_def)

section \<open>Alarms, events and payloads\<close>

record alarm_snapshot =
  as_code :: string
  as_source :: string
  as_severity :: alarm_severity
  as_lifecycle :: alarm_lifecycle
  as_message :: string
  as_action :: string
  as_raised_at :: reading
  as_acknowledged_at :: "reading option"
  as_cleared_at :: "reading option"
  as_acknowledged_by :: "string option"
  as_correlation_id :: string

datatype payload =
    OrderLoadedPayload string int string int order_status
  | OrderStatusChangedPayload string order_status int string
  | CycleStartedPayload string string string int real
  | CycleCompletedPayload string string int part_quality real string int
  | TraceabilityPayload string "string option" string string
  | RecipeActivatedPayload string int
  | AlarmEventPayload alarm_snapshot string

record machine_event =
  ev_id :: reading
  ev_type :: string
  ev_timestamp :: reading
  ev_correlation_id :: string
  ev_revision :: int
  ev_payload :: payload

record recovery_checkpoint =
  cp_timestamp :: reading
  cp_revision :: int
  cp_mode :: machine_mode
  cp_execution :: execution_state
  cp_step :: production_step
  cp_part_id :: "string option"
  cp_order_id :: "string option"
  cp_order_target :: "int option"
  cp_order_completed :: int
  cp_recipe_id :: string
  cp_recipe_revision :: int
  cp_gripper_closed :: bool
  cp_x :: real
  cp_y :: real
  cp_x_target :: real
  cp_y_target :: real
  cp_cycle_started :: "real option"
  cp_reason :: string

section \<open>Snapshots\<close>

record axis_snapshot =
  ax_name :: string
  ax_command :: real
  ax_actual :: real
  ax_velocity :: real
  ax_following_error :: real
  ax_target :: real
  ax_enabled :: bool
  ax_homed :: bool
  ax_moving :: bool
  ax_faulted :: bool
  ax_state :: axis_motion_state

record motion_snapshot =
  ms_x :: axis_snapshot
  ms_y :: axis_snapshot
  ms_at_target :: bool
  ms_all_homed :: bool
  ms_any_faulted :: bool
  ms_adapter_id :: string
  ms_adapter_status :: string

record interlock_snapshot =
  il_emergency_stop_ok :: bool
  il_guard_closed :: bool
  il_bus_healthy :: bool
  il_drives_healthy :: bool
  il_motion_permitted :: bool
  il_reasons :: "string list"

record part_snapshot =
  part_id :: string
  part_attached :: bool
  part_quality :: part_quality
  part_recipe_id :: string
  part_recipe_revision :: int

record order_snapshot =
  os_id :: string
  os_target :: int
  os_completed :: int
  os_recipe_id :: string
  os_recipe_revision :: int
  os_status :: order_status
  os_loaded_at :: reading
  os_completed_at :: "reading option"

record production_snapshot =
  prod_cycles :: int
  prod_good :: int
  prod_reject :: int
  prod_order :: "order_snapshot option"
  prod_part_id :: "string option"
  prod_last_cycle :: real
  prod_availability :: real
  prod_performance :: real
  prod_quality :: real
  prod_oee :: real

record runtime_snapshot =
  rt_loop_period :: real
  rt_last_loop :: real
  rt_max_loop :: real
  rt_deadline_misses :: int
  rt_queue_depth :: int
  rt_clients :: int
  rt_started_at :: reading
  rt_uptime :: real

record recipe_snapshot =
  rs_id :: string
  rs_revision :: int
  rs_schema :: int
  rs_lifecycle :: recipe_lifecycle
  rs_checksum :: string

record integration_snapshot =
  in_mes_health :: integration_health
  in_mes_status :: string
  in_outbox_pending :: int
  in_last_delivery :: "reading option"
  in_opcua_endpoint :: string
  in_opcua_enabled :: bool

record recovery_snapshot =
  rec_required :: bool
  rec_reason :: string
  rec_allowed :: "recovery_action list"

record machine_snapshot =
  st_revision :: int
  st_timestamp :: reading
  st_simulation_time :: real
  st_mode :: machine_mode
  st_execution :: execution_state
  st_step :: production_step
  st_gripper_closed :: bool
  st_x :: axis_snapshot
  st_y :: axis_snapshot
  st_interlocks :: interlock_snapshot
  st_active_part :: "part_snapshot option"
  st_alarms :: "alarm_snapshot list"
  st_production :: production_snapshot
  st_runtime :: runtime_snapshot
  st_recipe :: recipe_snapshot
  st_integration :: integration_snapshot
  st_recovery :: recovery_snapshot
  st_last_transition :: string
  st_correlation_id :: string

end
