(* ===== verification/Domain.thy ===== *)
theory Domain
  imports Contracts
begin

text \<open>
  The domain objects of \<open>src/VirtualSmartMotionCell.Domain\<close>: alarms with their life cycle,
  production orders and recipes. Each mutable class is a record; a method is a function from the
  record to the updated record. A constructor that throws returns \<open>Inl\<close> of the exception.
\<close>

section \<open>AlarmRecord\<close>

record alarm_record =
  al_code :: string
  al_source :: string
  al_severity :: alarm_severity
  al_message :: string
  al_action :: string
  al_correlation_id :: string
  al_raised_at :: reading
  al_acknowledged_at :: "reading option"
  al_cleared_at :: "reading option"
  al_acknowledged_by :: "string option"
  al_lifecycle :: alarm_lifecycle

definition new_alarm :: "string \<Rightarrow> string \<Rightarrow> alarm_severity \<Rightarrow> string \<Rightarrow> string \<Rightarrow> string \<Rightarrow> reading \<Rightarrow> alarm_record" where
  "new_alarm code source severity message action corr now =
     \<lparr>al_code = code, al_source = source, al_severity = severity, al_message = message, al_action = action,
      al_correlation_id = corr, al_raised_at = now, al_acknowledged_at = None, al_cleared_at = None,
      al_acknowledged_by = None, al_lifecycle = AL_ActiveUnacknowledged\<rparr>"

definition acknowledge_alarm :: "string \<Rightarrow> reading \<Rightarrow> alarm_record \<Rightarrow> alarm_record" where
  "acknowledge_alarm user now a =
     (if al_lifecycle a = AL_ActiveUnacknowledged
      then a\<lparr>al_lifecycle := AL_ActiveAcknowledged, al_acknowledged_at := Some now, al_acknowledged_by := Some user\<rparr>
      else if al_lifecycle a = AL_ClearedUnacknowledged
      then a\<lparr>al_lifecycle := AL_Historical, al_acknowledged_at := Some now, al_acknowledged_by := Some user\<rparr>
      else a)"

definition clear_alarm :: "reading \<Rightarrow> alarm_record \<Rightarrow> alarm_record" where
  "clear_alarm now a =
     a\<lparr>al_cleared_at := Some now,
       al_lifecycle := (if al_lifecycle a = AL_ActiveAcknowledged then AL_Historical else AL_ClearedUnacknowledged)\<rparr>"

definition alarm_to_snapshot :: "alarm_record \<Rightarrow> alarm_snapshot" where
  "alarm_to_snapshot a =
     \<lparr>as_code = al_code a, as_source = al_source a, as_severity = al_severity a, as_lifecycle = al_lifecycle a,
      as_message = al_message a, as_action = al_action a, as_raised_at = al_raised_at a,
      as_acknowledged_at = al_acknowledged_at a, as_cleared_at = al_cleared_at a,
      as_acknowledged_by = al_acknowledged_by a, as_correlation_id = al_correlation_id a\<rparr>"

definition alarm_active :: "alarm_record \<Rightarrow> bool" where
  "alarm_active a \<longleftrightarrow> al_lifecycle a = AL_ActiveAcknowledged \<or> al_lifecycle a = AL_ActiveUnacknowledged"

lemma acknowledge_alarm_sel [simp]:
  "al_code (acknowledge_alarm u t a) = al_code a"
  "al_severity (acknowledge_alarm u t a) = al_severity a"
  "al_cleared_at (acknowledge_alarm u t a) = al_cleared_at a"
  "al_raised_at (acknowledge_alarm u t a) = al_raised_at a"
  by (simp_all add: acknowledge_alarm_def)

lemma clear_alarm_sel [simp]:
  "al_code (clear_alarm t a) = al_code a"
  "al_severity (clear_alarm t a) = al_severity a"
  "al_acknowledged_by (clear_alarm t a) = al_acknowledged_by a"
  "al_raised_at (clear_alarm t a) = al_raised_at a"
  by (simp_all add: clear_alarm_def)

lemma new_alarm_sel [simp]:
  "al_code (new_alarm c s v m r k t) = c"
  "al_severity (new_alarm c s v m r k t) = v"
  "al_lifecycle (new_alarm c s v m r k t) = AL_ActiveUnacknowledged"
  by (simp_all add: new_alarm_def)

lemma clear_alarm_not_active [simp]: "\<not> alarm_active (clear_alarm t a)"
  by (simp add: alarm_active_def clear_alarm_def)

lemma acknowledge_alarm_active [simp]: "alarm_active (acknowledge_alarm u t a) = alarm_active a"
  by (cases "al_lifecycle a") (simp_all add: alarm_active_def acknowledge_alarm_def)

text \<open>
  The abstract alarm: two independent facts, whether an operator has acknowledged it and whether
  its cause is gone. The four life-cycle values are their four combinations.
\<close>

definition alarm_abs :: "alarm_record \<Rightarrow> bool \<times> bool" where
  "alarm_abs a = (case al_lifecycle a of
       AL_ActiveUnacknowledged \<Rightarrow> (False, False)
     | AL_ActiveAcknowledged \<Rightarrow> (True, False)
     | AL_ClearedUnacknowledged \<Rightarrow> (False, True)
     | AL_Historical \<Rightarrow> (True, True))"

definition spec_acknowledge :: "bool \<times> bool \<Rightarrow> bool \<times> bool" where
  "spec_acknowledge p = (True, snd p)"

definition spec_clear :: "bool \<times> bool \<Rightarrow> bool \<times> bool" where
  "spec_clear p = (fst p, True)"

lemma alarm_abs_acknowledge: "alarm_abs (acknowledge_alarm u t a) = spec_acknowledge (alarm_abs a)"
  by (cases "al_lifecycle a") (simp_all add: alarm_abs_def acknowledge_alarm_def spec_acknowledge_def)

lemma alarm_abs_clear: "alarm_active a \<Longrightarrow> alarm_abs (clear_alarm t a) = spec_clear (alarm_abs a)"
  by (cases "al_lifecycle a") (simp_all add: alarm_abs_def clear_alarm_def spec_clear_def alarm_active_def)

lemma alarm_historical_iff: "al_lifecycle a = AL_Historical \<longleftrightarrow> alarm_abs a = (True, True)"
  by (cases "al_lifecycle a") (simp_all add: alarm_abs_def)

section \<open>ProductionOrder\<close>

record production_order =
  po_id :: string
  po_target :: int
  po_completed :: int
  po_recipe_id :: string
  po_recipe_revision :: int
  po_status :: order_status
  po_loaded_at :: reading
  po_completed_at :: "reading option"

definition new_order :: "string \<Rightarrow> int \<Rightarrow> string \<Rightarrow> int \<Rightarrow> reading \<Rightarrow> exn + production_order" where
  "new_order order_id target recipe_id recipe_revision now =
     (if is_blank order_id then Inl (ArgumentException ''Order ID is required.'')
      else if target \<le> 0 then Inl (ArgumentOutOfRange ''targetQuantity'')
      else Inr \<lparr>po_id = trim order_id, po_target = target, po_completed = 0, po_recipe_id = recipe_id,
                po_recipe_revision = recipe_revision, po_status = OS_Queued, po_loaded_at = now,
                po_completed_at = None\<rparr>)"

definition activate_order :: "production_order \<Rightarrow> production_order" where
  "activate_order p = p\<lparr>po_status := OS_Active\<rparr>"

definition pause_order :: "production_order \<Rightarrow> production_order" where
  "pause_order p = (if po_status p = OS_Active then p\<lparr>po_status := OS_Paused\<rparr> else p)"

definition resume_order :: "production_order \<Rightarrow> production_order" where
  "resume_order p = (if po_status p = OS_Paused then p\<lparr>po_status := OS_Active\<rparr> else p)"

definition cancel_order :: "production_order \<Rightarrow> production_order" where
  "cancel_order p = p\<lparr>po_status := OS_Cancelled\<rparr>"

definition record_completed_part :: "reading \<Rightarrow> production_order \<Rightarrow> bool \<times> production_order" where
  "record_completed_part now p =
     (let q = p\<lparr>po_completed := long_inc (po_completed p)\<rparr>
      in if po_completed q < po_target q then (False, q)
         else (True, q\<lparr>po_status := OS_Completed, po_completed_at := Some now\<rparr>))"

definition restore_order :: "int \<Rightarrow> order_status \<Rightarrow> reading \<Rightarrow> production_order \<Rightarrow> production_order" where
  "restore_order completed status now p =
     (let q = p\<lparr>po_completed := clampi 0 (po_target p) completed, po_status := status\<rparr>
      in if status = OS_Completed then q\<lparr>po_completed_at := Some now\<rparr> else q)"

definition order_to_snapshot :: "production_order \<Rightarrow> order_snapshot" where
  "order_to_snapshot p =
     \<lparr>os_id = po_id p, os_target = po_target p, os_completed = po_completed p, os_recipe_id = po_recipe_id p,
      os_recipe_revision = po_recipe_revision p, os_status = po_status p, os_loaded_at = po_loaded_at p,
      os_completed_at = po_completed_at p\<rparr>"

text \<open>What every order that the constructor made keeps: a positive target that fits an \<open>int\<close>, and a count in range.\<close>

definition order_ok :: "production_order \<Rightarrow> bool" where
  "order_ok p \<longleftrightarrow> 0 < po_target p \<and> po_target p < 2 ^ 31 \<and> 0 \<le> po_completed p \<and> po_completed p \<le> po_target p + 1"

lemma order_status_sel [simp]:
  "po_id (activate_order p) = po_id p" "po_target (activate_order p) = po_target p"
  "po_completed (activate_order p) = po_completed p" "po_status (activate_order p) = OS_Active"
  "po_id (pause_order p) = po_id p" "po_target (pause_order p) = po_target p"
  "po_completed (pause_order p) = po_completed p"
  "po_id (resume_order p) = po_id p" "po_target (resume_order p) = po_target p"
  "po_completed (resume_order p) = po_completed p"
  "po_id (cancel_order p) = po_id p" "po_target (cancel_order p) = po_target p"
  "po_completed (cancel_order p) = po_completed p" "po_status (cancel_order p) = OS_Cancelled"
  by (simp_all add: activate_order_def pause_order_def resume_order_def cancel_order_def)

lemma restore_order_sel [simp]:
  "po_id (restore_order n s t p) = po_id p" "po_target (restore_order n s t p) = po_target p"
  "po_status (restore_order n s t p) = s"
  "po_completed (restore_order n s t p) = clampi 0 (po_target p) n"
  by (simp_all add: restore_order_def Let_def)

lemma order_ok_status [simp]:
  "order_ok (activate_order p) = order_ok p" "order_ok (pause_order p) = order_ok p"
  "order_ok (resume_order p) = order_ok p" "order_ok (cancel_order p) = order_ok p"
  by (simp_all add: order_ok_def)

lemma new_order_ok: "new_order i n r v t = Inr p \<Longrightarrow> n < 2 ^ 31 \<Longrightarrow> order_ok p"
  by (auto simp: new_order_def order_ok_def split: if_splits)

lemma restore_order_ok: "order_ok p \<Longrightarrow> order_ok (restore_order n s t p)"
  using clampi_bounds [of 0 "po_target p" n] by (simp add: order_ok_def)

lemma record_completed_part_exact:
  assumes "0 \<le> po_completed p" and "po_completed p \<le> po_target p" and "po_target p < 2 ^ 31"
  shows "po_completed (snd (record_completed_part t p)) = po_completed p + 1"
    and "fst (record_completed_part t p) \<longleftrightarrow> po_target p \<le> po_completed p + 1"
    and "po_target (snd (record_completed_part t p)) = po_target p"
    and "po_id (snd (record_completed_part t p)) = po_id p"
proof -
  have inc: "long_inc (po_completed p) = po_completed p + 1"
    using assms by (intro long_inc_exact) simp_all
  show "po_completed (snd (record_completed_part t p)) = po_completed p + 1"
    and "fst (record_completed_part t p) \<longleftrightarrow> po_target p \<le> po_completed p + 1"
    and "po_target (snd (record_completed_part t p)) = po_target p"
    and "po_id (snd (record_completed_part t p)) = po_id p"
    by (simp_all add: record_completed_part_def Let_def inc not_less)
qed

lemma record_completed_part_status:
  "po_status (snd (record_completed_part t p)) = (if fst (record_completed_part t p) then OS_Completed else po_status p)"
  by (simp add: record_completed_part_def Let_def)

section \<open>MachineRecipe\<close>

record position2d =
  pos_x :: real
  pos_y :: real

record motion_parameters =
  mp_max_velocity :: real
  mp_max_acceleration :: real
  mp_error_limit :: real

record machine_recipe =
  rc_schema :: int
  rc_id :: string
  rc_revision :: int
  rc_status :: string
  rc_pick :: position2d
  rc_inspect :: position2d
  rc_place :: position2d
  rc_home :: position2d
  rc_motion :: motion_parameters
  rc_pick_dwell :: real
  rc_inspect_dwell :: real
  rc_place_dwell :: real

definition default_recipe :: machine_recipe where
  "default_recipe =
     \<lparr>rc_schema = 1, rc_id = ''standard-widget'', rc_revision = 1, rc_status = ''active'',
      rc_pick = \<lparr>pos_x = 0.8, pos_y = 0.3\<rparr>, rc_inspect = \<lparr>pos_x = 0.2, pos_y = 0.9\<rparr>,
      rc_place = \<lparr>pos_x = - 0.7, pos_y = 0.6\<rparr>, rc_home = \<lparr>pos_x = 0, pos_y = 0\<rparr>,
      rc_motion = \<lparr>mp_max_velocity = 0.55, mp_max_acceleration = 1.4, mp_error_limit = 0.35\<rparr>,
      rc_pick_dwell = 0.35, rc_inspect_dwell = 0.45, rc_place_dwell = 0.35\<rparr>"

definition lifecycle_of :: "machine_recipe \<Rightarrow> recipe_lifecycle" where
  "lifecycle_of r = (let s = to_lower (trim (rc_status r))
     in if s = ''draft'' then RL_Draft
        else if s = ''approved'' then RL_Approved
        else if s = ''active'' then RL_Active
        else if s = ''retired'' then RL_Retired
        else RL_Draft)"

fun lifecycle_name :: "recipe_lifecycle \<Rightarrow> string" where
  "lifecycle_name RL_Draft = ''Draft''"
| "lifecycle_name RL_Approved = ''Approved''"
| "lifecycle_name RL_Active = ''Active''"
| "lifecycle_name RL_Retired = ''Retired''"

text \<open>The SHA-256 checksum of the recipe's JSON is a parameter of the snapshot.\<close>

definition recipe_to_snapshot :: "(machine_recipe \<Rightarrow> string) \<Rightarrow> machine_recipe \<Rightarrow> recipe_snapshot" where
  "recipe_to_snapshot checksum r =
     \<lparr>rs_id = rc_id r, rs_revision = rc_revision r, rs_schema = rc_schema r,
      rs_lifecycle = lifecycle_of r, rs_checksum = checksum r\<rparr>"

definition outside_envelope :: "position2d \<Rightarrow> bool" where
  "outside_envelope p \<longleftrightarrow> (pos_x p < - 1 \<or> 1 < pos_x p) \<or> (pos_y p < 0 \<or> 1.2 < pos_y p)"

definition validate_recipe :: "bool \<Rightarrow> machine_recipe \<Rightarrow> string list" where
  "validate_recipe require_activatable r =
     (if rc_schema r < 1 then [''SchemaVersion must be at least 1.''] else []) @
     (if is_blank (rc_id r) then [''RecipeId is required.''] else []) @
     (if rc_revision r < 1 then [''Revision must be at least 1.''] else []) @
     (if require_activatable \<and> \<not> (lifecycle_of r = RL_Approved \<or> lifecycle_of r = RL_Active)
      then [''Only approved or active recipes may be activated.''] else []) @
     (if mp_max_velocity (rc_motion r) \<le> 0 \<or> 2 < mp_max_velocity (rc_motion r)
      then [''MaximumVelocity must be in (0, 2].''] else []) @
     (if mp_max_acceleration (rc_motion r) \<le> 0 \<or> 5 < mp_max_acceleration (rc_motion r)
      then [''MaximumAcceleration must be in (0, 5].''] else []) @
     (if mp_error_limit (rc_motion r) \<le> 0 then [''FollowingErrorLimit must be positive.''] else []) @
     (if rc_pick_dwell r < 0 \<or> rc_inspect_dwell r < 0 \<or> rc_place_dwell r < 0
      then [''Dwell times cannot be negative.''] else []) @
     concat (map (\<lambda>(name, p). if outside_envelope p then [name @ '' position is outside the simulated work envelope.''] else [])
       [(''Pick'', rc_pick r), (''Inspect'', rc_inspect r), (''Place'', rc_place r), (''Home'', rc_home r)])"

definition with_status :: "recipe_lifecycle \<Rightarrow> machine_recipe \<Rightarrow> machine_recipe" where
  "with_status l r = r\<lparr>rc_status := to_lower (lifecycle_name l)\<rparr>"

definition in_envelope :: "position2d \<Rightarrow> bool" where
  "in_envelope p \<longleftrightarrow> - 1 \<le> pos_x p \<and> pos_x p \<le> 1 \<and> 0 \<le> pos_y p \<and> pos_y p \<le> 1.2"

text \<open>The declarative reading of a recipe that \<open>Validate\<close> finds no fault with (the activation check apart).\<close>

definition recipe_ok :: "machine_recipe \<Rightarrow> bool" where
  "recipe_ok r \<longleftrightarrow>
     1 \<le> rc_schema r \<and> \<not> is_blank (rc_id r) \<and> 1 \<le> rc_revision r \<and>
     0 < mp_max_velocity (rc_motion r) \<and> mp_max_velocity (rc_motion r) \<le> 2 \<and>
     0 < mp_max_acceleration (rc_motion r) \<and> mp_max_acceleration (rc_motion r) \<le> 5 \<and>
     0 < mp_error_limit (rc_motion r) \<and>
     0 \<le> rc_pick_dwell r \<and> 0 \<le> rc_inspect_dwell r \<and> 0 \<le> rc_place_dwell r \<and>
     in_envelope (rc_pick r) \<and> in_envelope (rc_inspect r) \<and> in_envelope (rc_place r) \<and> in_envelope (rc_home r)"

lemma in_envelope_iff: "in_envelope p \<longleftrightarrow> \<not> outside_envelope p"
  by (auto simp: in_envelope_def outside_envelope_def)

lemma validate_recipe_iff:
  "validate_recipe req r = [] \<longleftrightarrow>
     recipe_ok r \<and> (req \<longrightarrow> lifecycle_of r = RL_Approved \<or> lifecycle_of r = RL_Active)"
  by (auto simp: validate_recipe_def recipe_ok_def in_envelope_iff)

lemma with_status_sel [simp]:
  "rc_id (with_status l r) = rc_id r" "rc_revision (with_status l r) = rc_revision r"
  "rc_pick (with_status l r) = rc_pick r" "rc_inspect (with_status l r) = rc_inspect r"
  "rc_place (with_status l r) = rc_place r" "rc_home (with_status l r) = rc_home r"
  "rc_motion (with_status l r) = rc_motion r"
  by (simp_all add: with_status_def)

lemma recipe_ok_with_status [simp]: "recipe_ok (with_status l r) = recipe_ok r"
  by (simp add: recipe_ok_def with_status_def)

lemma lifecycle_of_with_status: "lifecycle_of (with_status l r) = l"
  by (cases l) (simp_all add: lifecycle_of_def with_status_def text_eval)

lemma default_recipe_ok: "recipe_ok default_recipe"
  by (simp add: recipe_ok_def default_recipe_def in_envelope_def is_blank_def is_space_def)

end
