(* ===== verification/Control.thy ===== *)
theory Control
  imports Domain
begin

text \<open>
  The motion side of the cell (\<open>src/VirtualSmartMotionCell.Control\<close> and the \<open>IMotionSystem\<close>
  interface of the adapter SDK): the PID controller and the simulated axis with its trapezoidal
  profile. \<open>MotionSystems\<close> puts two axes together behind the interface.

  \<^item> \<open>Math.Clamp\<close> throws when its bounds are crossed; that is a branch of the model.
  \<^item> \<open>Math.Exp\<close> is the real exponential.
\<close>

section \<open>PidController\<close>

record pid_controller =
  pid_kp :: real
  pid_ki :: real
  pid_kd :: real
  pid_output_limit :: real
  pid_integral_limit :: real
  pid_integral :: real
  pid_previous_error :: real
  pid_has_previous :: bool

definition new_pid :: "real \<Rightarrow> real \<Rightarrow> real \<Rightarrow> real \<Rightarrow> real \<Rightarrow> pid_controller" where
  "new_pid kp ki kd output_limit integral_limit =
     \<lparr>pid_kp = kp, pid_ki = ki, pid_kd = kd, pid_output_limit = \<bar>output_limit\<bar>,
      pid_integral_limit = \<bar>integral_limit\<bar>, pid_integral = 0, pid_previous_error = 0, pid_has_previous = False\<rparr>"

definition pid_step :: "real \<Rightarrow> real \<Rightarrow> real \<Rightarrow> pid_controller \<Rightarrow> (real, pid_controller) outcome" where
  "pid_step setpoint measurement dt c =
     (if dt \<le> 0 then (Inl (ArgumentOutOfRange ''dt''), c)
      else let error = setpoint - measurement;
               integral = clampr (- pid_integral_limit c) (pid_integral_limit c) (pid_integral c + error * dt);
               derivative = (if pid_has_previous c then (error - pid_previous_error c) / dt else 0)
           in (Inr (clampr (- pid_output_limit c) (pid_output_limit c)
                      (pid_kp c * error + pid_ki c * integral + pid_kd c * derivative)),
               c\<lparr>pid_integral := integral, pid_previous_error := error, pid_has_previous := True\<rparr>))"

definition pid_reset :: "pid_controller \<Rightarrow> pid_controller" where
  "pid_reset c = c\<lparr>pid_integral := 0, pid_previous_error := 0, pid_has_previous := False\<rparr>"

text \<open>Anti-windup: the limits are magnitudes and the integral term stays within its limit.\<close>

definition pid_ok :: "pid_controller \<Rightarrow> bool" where
  "pid_ok c \<longleftrightarrow> 0 \<le> pid_output_limit c \<and> 0 \<le> pid_integral_limit c \<and> \<bar>pid_integral c\<bar> \<le> pid_integral_limit c"

lemma new_pid_ok [simp]: "pid_ok (new_pid kp ki kd l m)"
  by (simp add: pid_ok_def new_pid_def)

lemma pid_reset_ok [simp]: "pid_ok c \<Longrightarrow> pid_ok (pid_reset c)"
  by (simp add: pid_ok_def pid_reset_def)

lemma pid_step_ok: "pid_ok c \<Longrightarrow> pid_ok (snd (pid_step sp me dt c))"
  using clampr_abs [of "pid_integral_limit c"] by (simp add: pid_ok_def pid_step_def Let_def)

lemma pid_step_output:
  "pid_ok c \<Longrightarrow> fst (pid_step sp me dt c) = Inr u \<Longrightarrow> \<bar>u\<bar> \<le> pid_output_limit c"
  using clampr_abs [of "pid_output_limit c"] by (auto simp: pid_ok_def pid_step_def Let_def split: if_splits)

lemma pid_step_throws_iff [simp]: "throws (pid_step sp me dt c) \<longleftrightarrow> dt \<le> 0"
  by (simp add: pid_step_def Let_def throws_def)

lemma pid_step_limits [simp]:
  "pid_output_limit (snd (pid_step sp me dt c)) = pid_output_limit c"
  "pid_integral_limit (snd (pid_step sp me dt c)) = pid_integral_limit c"
  by (simp_all add: pid_step_def Let_def)

section \<open>SimulatedAxis\<close>

record simulated_axis =
  sa_name :: string
  sa_min :: real
  sa_max :: real
  sa_controller :: pid_controller
  sa_profile_velocity :: real
  sa_command :: real
  sa_actual :: real
  sa_velocity :: real
  sa_target :: real
  sa_enabled :: bool
  sa_homed :: bool
  sa_faulted :: bool
  sa_force_error :: bool
  sa_frozen :: bool

definition new_axis :: "string \<Rightarrow> real \<Rightarrow> real \<Rightarrow> simulated_axis" where
  "new_axis name lo hi =
     \<lparr>sa_name = name, sa_min = lo, sa_max = hi, sa_controller = new_pid 30 2.5 1.8 8 1.5,
      sa_profile_velocity = 0, sa_command = 0, sa_actual = 0, sa_velocity = 0, sa_target = 0,
      sa_enabled = False, sa_homed = False, sa_faulted = False, sa_force_error = False, sa_frozen = False\<rparr>"

definition axis_enable :: "simulated_axis \<Rightarrow> simulated_axis" where
  "axis_enable a = a\<lparr>sa_enabled := \<not> sa_faulted a\<rparr>"

definition axis_disable :: "simulated_axis \<Rightarrow> simulated_axis" where
  "axis_disable a = a\<lparr>sa_enabled := False, sa_profile_velocity := 0\<rparr>"

definition axis_mark_homed :: "simulated_axis \<Rightarrow> simulated_axis" where
  "axis_mark_homed a = a\<lparr>sa_homed := True\<rparr>"

definition axis_clear_homed :: "simulated_axis \<Rightarrow> simulated_axis" where
  "axis_clear_homed a = a\<lparr>sa_homed := False\<rparr>"

definition axis_set_target :: "real \<Rightarrow> simulated_axis \<Rightarrow> (unit, simulated_axis) outcome" where
  "axis_set_target t a =
     (if t < sa_min a \<or> sa_max a < t then (Inl (ArgumentOutOfRange ''target''), a)
      else (Inr (), a\<lparr>sa_target := t\<rparr>))"

definition axis_hold :: "simulated_axis \<Rightarrow> simulated_axis" where
  "axis_hold a = a\<lparr>sa_target := sa_actual a, sa_command := sa_actual a, sa_profile_velocity := 0,
     sa_controller := pid_reset (sa_controller a)\<rparr>"

definition axis_inject_fault :: "simulated_axis \<Rightarrow> simulated_axis" where
  "axis_inject_fault a = a\<lparr>sa_faulted := True, sa_enabled := False\<rparr>"

definition axis_clear_fault :: "simulated_axis \<Rightarrow> simulated_axis" where
  "axis_clear_fault a = a\<lparr>sa_faulted := False, sa_force_error := False, sa_frozen := False,
     sa_controller := pid_reset (sa_controller a)\<rparr>"

definition axis_restore :: "real \<Rightarrow> bool \<Rightarrow> real option \<Rightarrow> simulated_axis \<Rightarrow> simulated_axis" where
  "axis_restore position homed target a =
     (let p = clampr (sa_min a) (sa_max a) position;
          t = clampr (sa_min a) (sa_max a) (case target of Some v \<Rightarrow> v | None \<Rightarrow> p)
      in a\<lparr>sa_actual := p, sa_command := p, sa_target := t, sa_velocity := 0, sa_profile_velocity := 0,
           sa_homed := homed, sa_enabled := False, sa_faulted := False, sa_force_error := False,
           sa_frozen := False, sa_controller := pid_reset (sa_controller a)\<rparr>)"

text \<open>The three parts of \<open>Step\<close>: coasting while disabled, advancing the profile, tracking the command.\<close>

definition axis_coast :: "real \<Rightarrow> simulated_axis \<Rightarrow> simulated_axis" where
  "axis_coast dt a = (let v = sa_velocity a * exp (- 8 * dt)
     in a\<lparr>sa_velocity := v, sa_actual := sa_actual a + v * dt\<rparr>)"

definition axis_profile :: "real \<Rightarrow> real \<Rightarrow> real \<Rightarrow> simulated_axis \<Rightarrow> (unit, simulated_axis) outcome" where
  "axis_profile dt vmax amax a =
     (let remaining = sa_target a - sa_command a;
          pv = sa_profile_velocity a;
          stopping = (pv * pv) / (2 * max amax 0.000001);
          desired = (if \<bar>remaining\<bar> \<le> stopping then 0 else sgn remaining * vmax);
          max_delta = amax * dt
      in if max_delta < - max_delta then (Inl (ArgumentException ''min''), a)
         else let pv' = pv + clampr (- max_delta) max_delta (desired - pv)
              in if \<bar>remaining\<bar> < \<bar>pv' * dt\<bar>
                 then (Inr (), a\<lparr>sa_profile_velocity := 0, sa_command := sa_target a\<rparr>)
                 else (Inr (), a\<lparr>sa_profile_velocity := pv', sa_command := sa_command a + pv' * dt\<rparr>))"

definition axis_settle :: "real \<Rightarrow> real \<Rightarrow> simulated_axis \<Rightarrow> simulated_axis" where
  "axis_settle dt velocity a =
     (let clamped = clampr (sa_min a) (sa_max a) (sa_actual a + velocity * dt);
          hit = (clamped \<le> sa_min a \<and> velocity < 0) \<or> (sa_max a \<le> clamped \<and> 0 < velocity);
          b = a\<lparr>sa_velocity := (if hit then 0 else velocity), sa_actual := clamped\<rparr>
      in if hit \<and> \<bar>sa_target b - sa_actual b\<bar> \<le> 0.01
         then b\<lparr>sa_command := sa_target b, sa_profile_velocity := 0, sa_controller := pid_reset (sa_controller b)\<rparr>
         else b)"

definition axis_track :: "real \<Rightarrow> simulated_axis \<Rightarrow> (unit, simulated_axis) outcome" where
  "axis_track dt a =
     (let r = pid_step (sa_command a) (sa_actual a) dt (sa_controller a);
          b = a\<lparr>sa_controller := snd r\<rparr>
      in case fst r of
           Inl e \<Rightarrow> (Inl e, b)
         | Inr u \<Rightarrow>
             let effort = (if sa_force_error a then u * 0.02 else u);
                 acceleration = effort - 4 * sa_velocity a
             in (Inr (), axis_settle dt (sa_velocity a + acceleration * dt) b))"

definition axis_step :: "real \<Rightarrow> real \<Rightarrow> real \<Rightarrow> simulated_axis \<Rightarrow> (unit, simulated_axis) outcome" where
  "axis_step dt vmax amax a =
     (if \<not> sa_enabled a \<or> sa_faulted a then (Inr (), axis_coast dt a)
      else chain (axis_profile dt vmax amax a)
             (\<lambda>_ b. if sa_frozen b then (Inr (), b\<lparr>sa_velocity := 0\<rparr>) else axis_track dt b))"

definition axis_at_target :: "simulated_axis \<Rightarrow> bool" where
  "axis_at_target a \<longleftrightarrow> \<bar>sa_target a - sa_actual a\<bar> \<le> 0.01 \<and> \<bar>sa_velocity a\<bar> \<le> 0.04"

definition axis_snapshot_of :: "axis_motion_state \<Rightarrow> simulated_axis \<Rightarrow> axis_snapshot" where
  "axis_snapshot_of requested a =
     \<lparr>ax_name = sa_name a, ax_command = sa_command a, ax_actual = sa_actual a, ax_velocity = sa_velocity a,
      ax_following_error = sa_command a - sa_actual a, ax_target = sa_target a, ax_enabled = sa_enabled a,
      ax_homed = sa_homed a, ax_moving = (0.02 < \<bar>sa_velocity a\<bar>), ax_faulted = sa_faulted a,
      ax_state = (if sa_faulted a then AM_Faulted else if \<not> sa_enabled a then AM_Disabled else requested)\<rparr>"

subsection \<open>Frames and bounds\<close>

lemma axis_setters [simp, frame_simps]:
  "sa_min (axis_enable a) = sa_min a" "sa_max (axis_enable a) = sa_max a"
  "sa_faulted (axis_enable a) = sa_faulted a" "sa_homed (axis_enable a) = sa_homed a"
  "sa_min (axis_disable a) = sa_min a" "sa_max (axis_disable a) = sa_max a"
  "sa_faulted (axis_disable a) = sa_faulted a" "sa_homed (axis_disable a) = sa_homed a"
  "sa_min (axis_mark_homed a) = sa_min a" "sa_max (axis_mark_homed a) = sa_max a"
  "sa_faulted (axis_mark_homed a) = sa_faulted a" "sa_homed (axis_mark_homed a)"
  "sa_min (axis_hold a) = sa_min a" "sa_max (axis_hold a) = sa_max a"
  "sa_faulted (axis_hold a) = sa_faulted a" "sa_homed (axis_hold a) = sa_homed a"
  "sa_min (axis_inject_fault a) = sa_min a" "sa_max (axis_inject_fault a) = sa_max a"
  "sa_homed (axis_inject_fault a) = sa_homed a"
  "sa_min (axis_clear_fault a) = sa_min a" "sa_max (axis_clear_fault a) = sa_max a"
  "\<not> sa_faulted (axis_clear_fault a)" "sa_homed (axis_clear_fault a) = sa_homed a"
  "sa_min (axis_restore p h t a) = sa_min a" "sa_max (axis_restore p h t a) = sa_max a"
  "\<not> sa_faulted (axis_restore p h t a)" "sa_homed (axis_restore p h t a) = h"
  by (simp_all add: axis_enable_def axis_disable_def axis_mark_homed_def axis_hold_def axis_inject_fault_def
      axis_clear_fault_def axis_restore_def Let_def)

lemma axis_set_target_frame [simp, frame_simps]:
  "sa_min (snd (axis_set_target v a)) = sa_min a" "sa_max (snd (axis_set_target v a)) = sa_max a"
  "sa_faulted (snd (axis_set_target v a)) = sa_faulted a" "sa_homed (snd (axis_set_target v a)) = sa_homed a"
  by (simp_all add: axis_set_target_def)

lemma axis_set_target_throws_iff [simp]:
  "throws (axis_set_target v a) \<longleftrightarrow> v < sa_min a \<or> sa_max a < v"
  by (simp add: axis_set_target_def)

lemma axis_profile_frame [simp, frame_simps]:
  "sa_min (snd (axis_profile dt v m a)) = sa_min a" "sa_max (snd (axis_profile dt v m a)) = sa_max a"
  "sa_faulted (snd (axis_profile dt v m a)) = sa_faulted a" "sa_homed (snd (axis_profile dt v m a)) = sa_homed a"
  "sa_actual (snd (axis_profile dt v m a)) = sa_actual a" "sa_frozen (snd (axis_profile dt v m a)) = sa_frozen a"
  "sa_target (snd (axis_profile dt v m a)) = sa_target a"
  "sa_controller (snd (axis_profile dt v m a)) = sa_controller a"
  by (simp_all add: axis_profile_def Let_def)

lemma axis_settle_frame [simp, frame_simps]:
  "sa_min (axis_settle dt v a) = sa_min a" "sa_max (axis_settle dt v a) = sa_max a"
  "sa_faulted (axis_settle dt v a) = sa_faulted a" "sa_homed (axis_settle dt v a) = sa_homed a"
  "sa_target (axis_settle dt v a) = sa_target a"
  "sa_actual (axis_settle dt v a) = clampr (sa_min a) (sa_max a) (sa_actual a + v * dt)"
  by (simp_all add: axis_settle_def Let_def)

lemma axis_track_frame [simp, frame_simps]:
  "sa_min (snd (axis_track dt a)) = sa_min a" "sa_max (snd (axis_track dt a)) = sa_max a"
  "sa_faulted (snd (axis_track dt a)) = sa_faulted a" "sa_homed (snd (axis_track dt a)) = sa_homed a"
  by (simp_all add: axis_track_def Let_def split: sum.split)

lemma axis_step_frame [simp, frame_simps]:
  "sa_min (snd (axis_step dt v m a)) = sa_min a" "sa_max (snd (axis_step dt v m a)) = sa_max a"
  "sa_faulted (snd (axis_step dt v m a)) = sa_faulted a" "sa_homed (snd (axis_step dt v m a)) = sa_homed a"
  by (simp_all add: axis_step_def chain_def axis_coast_def Let_def split: sum.split)

lemma axis_profile_throws_iff [simp]: "throws (axis_profile dt v m a) \<longleftrightarrow> m * dt < 0"
  by (simp add: axis_profile_def Let_def throws_def)

lemma axis_track_throws_iff [simp]: "throws (axis_track dt a) \<longleftrightarrow> dt \<le> 0"
  by (simp add: axis_track_def Let_def throws_def pid_step_def)

lemma axis_step_not_throws: "0 < dt \<Longrightarrow> 0 \<le> m \<Longrightarrow> \<not> throws (axis_step dt v m a)"
  by (simp add: axis_step_def chain_not_throws not_less)

text \<open>The profile never commands more than the maximum velocity.\<close>

lemma clampr_towards:
  assumes "0 \<le> d" and "\<bar>x\<bar> \<le> b" and "\<bar>y\<bar> \<le> b"
  shows "\<bar>x + clampr (- d) d (y - x)\<bar> \<le> b"
  using assms by (auto simp: clampr_def abs_le_iff)

lemma axis_profile_velocity_bound:
  assumes "0 \<le> vmax" and "0 \<le> amax * dt" and "\<bar>sa_profile_velocity a\<bar> \<le> vmax"
  shows "\<bar>sa_profile_velocity (snd (axis_profile dt vmax amax a))\<bar> \<le> vmax"
proof -
  have "\<bar>(if c then 0 else sgn r * vmax)\<bar> \<le> vmax" for c and r :: real
    using assms(1) by (simp add: sgn_if)
  then show ?thesis
    using assms by (simp add: axis_profile_def Let_def clampr_towards)
qed

text \<open>One step moves the commanded position by at most the distance the maximum velocity covers.\<close>

lemma axis_profile_command_bound:
  assumes "0 \<le> vmax" and "0 \<le> dt" and "0 \<le> amax * dt" and "\<bar>sa_profile_velocity a\<bar> \<le> vmax"
  shows "\<bar>sa_command (snd (axis_profile dt vmax amax a)) - sa_command a\<bar> \<le> vmax * dt"
proof -
  define rem where "rem = sa_target a - sa_command a"
  define des where "des = (if \<bar>rem\<bar> \<le> (sa_profile_velocity a * sa_profile_velocity a) / (2 * max amax 0.000001)
    then 0 else sgn rem * vmax)"
  define pv where "pv = sa_profile_velocity a
    + clampr (- (amax * dt)) (amax * dt) (des - sa_profile_velocity a)"
  have "\<bar>des\<bar> \<le> vmax"
    using assms(1) by (simp add: des_def sgn_if)
  then have "\<bar>pv\<bar> \<le> vmax"
    unfolding pv_def using assms by (intro clampr_towards) simp_all
  then have le: "\<bar>pv * dt\<bar> \<le> vmax * dt"
    using assms(2) by (simp add: abs_mult mult_right_mono)
  have "sa_command (snd (axis_profile dt vmax amax a)) - sa_command a =
      (if \<bar>rem\<bar> < \<bar>pv * dt\<bar> then rem else pv * dt)"
    using assms(3) by (simp add: axis_profile_def Let_def rem_def des_def pv_def)
  with le show ?thesis by auto
qed

text \<open>While the drive is enabled the simulated position stays inside the axis limits.\<close>

lemma axis_step_in_limits:
  assumes "sa_min a \<le> sa_max a" and "sa_enabled a" and "\<not> sa_faulted a"
    and "sa_min a \<le> sa_actual a" and "sa_actual a \<le> sa_max a"
  shows "sa_min a \<le> sa_actual (snd (axis_step dt v m a)) \<and> sa_actual (snd (axis_step dt v m a)) \<le> sa_max a"
proof -
  let ?b = "snd (axis_profile dt v m a)"
  have track: "sa_min a \<le> sa_actual (snd (axis_track dt ?b)) \<and> sa_actual (snd (axis_track dt ?b)) \<le> sa_max a"
    using assms clampr_bounds [OF assms(1)] by (simp add: axis_track_def Let_def split: sum.split)
  show ?thesis
    using assms track by (simp add: axis_step_def chain_def split: sum.split)
qed

end
