(* ===== verification/MotionSystems.thy ===== *)
theory MotionSystems
  imports Control
begin

text \<open>
  \<open>IMotionSystem\<close> as a record of operations, its three implementations
  (\<open>SimulatedMotionSystem\<close>, \<open>ReplayMotionSystem\<close>, the decorator \<open>FaultInjectingMotionSystem\<close>)
  and the contracts the coordinator relies on, as two locales:
  \<^item> \<open>motion_adapter\<close>: what every adapter keeps; interpreted on the simulated system, on the
    replay and on the decorated simulated system that the runtime builds;
  \<^item> \<open>servo_motion\<close>: what an adapter that really drives the axes adds (homing sticks, clearing
    faults works, targets inside the envelope are taken); the replay does not satisfy it.
\<close>

section \<open>The interface\<close>

record 'm motion_ops =
  mo_snapshot :: "'m \<Rightarrow> axis_motion_state \<Rightarrow> motion_snapshot"
  mo_step :: "real \<Rightarrow> real \<Rightarrow> real \<Rightarrow> 'm \<Rightarrow> (unit, 'm) outcome"
  mo_enable_all :: "'m \<Rightarrow> 'm"
  mo_disable_all :: "'m \<Rightarrow> 'm"
  mo_set_target :: "real \<Rightarrow> real \<Rightarrow> 'm \<Rightarrow> (unit, 'm) outcome"
  mo_hold :: "'m \<Rightarrow> 'm"
  mo_mark_homed :: "'m \<Rightarrow> 'm"
  mo_restore :: "real \<Rightarrow> real \<Rightarrow> bool \<Rightarrow> real option \<Rightarrow> real option \<Rightarrow> 'm \<Rightarrow> 'm"
  mo_inject_fault :: "motion_fault \<Rightarrow> 'm \<Rightarrow> 'm"
  mo_clear_fault :: "motion_fault \<Rightarrow> 'm \<Rightarrow> 'm"

section \<open>SimulatedMotionSystem\<close>

record simulated_motion =
  sm_x :: simulated_axis
  sm_y :: simulated_axis

definition new_simulated :: simulated_motion where
  "new_simulated = \<lparr>sm_x = new_axis ''X'' (- 1) 1, sm_y = new_axis ''Y'' 0 1.2\<rparr>"

definition sim_snapshot :: "simulated_motion \<Rightarrow> axis_motion_state \<Rightarrow> motion_snapshot" where
  "sim_snapshot m requested =
     \<lparr>ms_x = axis_snapshot_of requested (sm_x m), ms_y = axis_snapshot_of requested (sm_y m),
      ms_at_target = (axis_at_target (sm_x m) \<and> axis_at_target (sm_y m)),
      ms_all_homed = (sa_homed (sm_x m) \<and> sa_homed (sm_y m)),
      ms_any_faulted = (sa_faulted (sm_x m) \<or> sa_faulted (sm_y m)),
      ms_adapter_id = ''motion.simulated.xy'',
      ms_adapter_status = (if sa_faulted (sm_x m) \<or> sa_faulted (sm_y m) then ''faulted'' else ''ready'')\<rparr>"

definition on_x :: "('a, simulated_axis) outcome \<Rightarrow> simulated_motion \<Rightarrow> ('a, simulated_motion) outcome" where
  "on_x r m = (fst r, m\<lparr>sm_x := snd r\<rparr>)"

definition on_y :: "('a, simulated_axis) outcome \<Rightarrow> simulated_motion \<Rightarrow> ('a, simulated_motion) outcome" where
  "on_y r m = (fst r, m\<lparr>sm_y := snd r\<rparr>)"

definition both_axes :: "(simulated_axis \<Rightarrow> simulated_axis) \<Rightarrow> simulated_motion \<Rightarrow> simulated_motion" where
  "both_axes f m = m\<lparr>sm_x := f (sm_x m), sm_y := f (sm_y m)\<rparr>"

definition sim_step :: "real \<Rightarrow> real \<Rightarrow> real \<Rightarrow> simulated_motion \<Rightarrow> (unit, simulated_motion) outcome" where
  "sim_step dt vmax amax m =
     chain (on_x (axis_step dt vmax amax (sm_x m)) m) (\<lambda>_ n. on_y (axis_step dt vmax amax (sm_y n)) n)"

definition sim_set_target :: "real \<Rightarrow> real \<Rightarrow> simulated_motion \<Rightarrow> (unit, simulated_motion) outcome" where
  "sim_set_target x y m =
     chain (on_x (axis_set_target x (sm_x m)) m) (\<lambda>_ n. on_y (axis_set_target y (sm_y n)) n)"

definition sim_restore :: "real \<Rightarrow> real \<Rightarrow> bool \<Rightarrow> real option \<Rightarrow> real option \<Rightarrow> simulated_motion \<Rightarrow> simulated_motion" where
  "sim_restore x y homed xt yt m =
     m\<lparr>sm_x := axis_restore x homed xt (sm_x m), sm_y := axis_restore y homed yt (sm_y m)\<rparr>"

fun sim_inject_fault :: "motion_fault \<Rightarrow> simulated_motion \<Rightarrow> simulated_motion" where
  "sim_inject_fault MF_DriveFaultX m = m\<lparr>sm_x := axis_inject_fault (sm_x m)\<rparr>"
| "sim_inject_fault MF_DriveFaultY m = m\<lparr>sm_y := axis_inject_fault (sm_y m)\<rparr>"
| "sim_inject_fault MF_FollowingError m = m\<lparr>sm_x := (sm_x m)\<lparr>sa_force_error := True\<rparr>\<rparr>"
| "sim_inject_fault MF_FrozenAxisX m = m\<lparr>sm_x := (sm_x m)\<lparr>sa_frozen := True\<rparr>\<rparr>"
| "sim_inject_fault MF_FrozenAxisY m = m\<lparr>sm_y := (sm_y m)\<lparr>sa_frozen := True\<rparr>\<rparr>"
| "sim_inject_fault MF_None m = m"

definition sim_clear_fault :: "motion_fault \<Rightarrow> simulated_motion \<Rightarrow> simulated_motion" where
  "sim_clear_fault f m =
     (let n = (if f = MF_None \<or> f = MF_DriveFaultX \<or> f = MF_FollowingError \<or> f = MF_FrozenAxisX
               then m\<lparr>sm_x := axis_clear_fault (sm_x m)\<rparr> else m)
      in if f = MF_None \<or> f = MF_DriveFaultY \<or> f = MF_FrozenAxisY
         then n\<lparr>sm_y := axis_clear_fault (sm_y n)\<rparr> else n)"

definition simulated_ops :: "simulated_motion motion_ops" where
  "simulated_ops =
     \<lparr>mo_snapshot = sim_snapshot, mo_step = sim_step, mo_enable_all = both_axes axis_enable,
      mo_disable_all = both_axes axis_disable, mo_set_target = sim_set_target, mo_hold = both_axes axis_hold,
      mo_mark_homed = both_axes axis_mark_homed, mo_restore = sim_restore,
      mo_inject_fault = sim_inject_fault, mo_clear_fault = sim_clear_fault\<rparr>"

section \<open>ReplayMotionSystem\<close>

record replay_frame =
  rf_time :: real
  rf_x :: axis_snapshot
  rf_y :: axis_snapshot

record replay_motion =
  rp_frames :: "replay_frame list"
  rp_index :: nat

definition new_replay :: "replay_frame list \<Rightarrow> exn + replay_motion" where
  "new_replay frames =
     (if frames = [] then Inl (ArgumentException ''At least one replay frame is required.'')
      else Inr \<lparr>rp_frames = frames, rp_index = 0\<rparr>)"

definition replay_snapshot :: "replay_motion \<Rightarrow> axis_motion_state \<Rightarrow> motion_snapshot" where
  "replay_snapshot m requested =
     (let frame = rp_frames m ! min (rp_index m) (length (rp_frames m) - 1);
          x = (rf_x frame)\<lparr>ax_state := requested\<rparr>;
          y = (rf_y frame)\<lparr>ax_state := requested\<rparr>
      in \<lparr>ms_x = x, ms_y = y,
          ms_at_target = (\<bar>ax_target x - ax_actual x\<bar> < 0.01 \<and> \<bar>ax_target y - ax_actual y\<bar> < 0.01),
          ms_all_homed = (ax_homed x \<and> ax_homed y), ms_any_faulted = (ax_faulted x \<or> ax_faulted y),
          ms_adapter_id = ''motion.replay'', ms_adapter_status = ''replaying''\<rparr>)"

definition replay_step :: "real \<Rightarrow> real \<Rightarrow> real \<Rightarrow> replay_motion \<Rightarrow> (unit, replay_motion) outcome" where
  "replay_step dt vmax amax m =
     (Inr (), if rp_index m < length (rp_frames m) - 1 then m\<lparr>rp_index := rp_index m + 1\<rparr> else m)"

definition replay_ops :: "replay_motion motion_ops" where
  "replay_ops =
     \<lparr>mo_snapshot = replay_snapshot, mo_step = replay_step, mo_enable_all = (\<lambda>m. m), mo_disable_all = (\<lambda>m. m),
      mo_set_target = (\<lambda>x y m. (Inr (), m)), mo_hold = (\<lambda>m. m), mo_mark_homed = (\<lambda>m. m),
      mo_restore = (\<lambda>x y homed xt yt m. m\<lparr>rp_index := 0\<rparr>), mo_inject_fault = (\<lambda>f m. m),
      mo_clear_fault = (\<lambda>f m. m)\<rparr>"

section \<open>FaultInjectingMotionSystem\<close>

record 'm injected =
  fi_inner :: 'm
  fi_active_fault :: motion_fault

definition inject_around :: "('m \<Rightarrow> 'm) \<Rightarrow> 'm injected \<Rightarrow> 'm injected" where
  "inject_around f d = d\<lparr>fi_inner := f (fi_inner d)\<rparr>"

definition inject_outcome :: "('m \<Rightarrow> (unit, 'm) outcome) \<Rightarrow> 'm injected \<Rightarrow> (unit, 'm injected) outcome" where
  "inject_outcome f d = (let r = f (fi_inner d) in (fst r, d\<lparr>fi_inner := snd r\<rparr>))"

definition injected_snapshot :: "'m motion_ops \<Rightarrow> 'm injected \<Rightarrow> axis_motion_state \<Rightarrow> motion_snapshot" where
  "injected_snapshot inner d requested =
     (let s = mo_snapshot inner (fi_inner d) requested
      in s\<lparr>ms_adapter_id := ''motion.fault-injecting'',
           ms_adapter_status := (if fi_active_fault d = MF_None then ms_adapter_status s
                                 else ''injected:'' @ motion_fault_name (fi_active_fault d))\<rparr>)"

definition injected_inject :: "'m motion_ops \<Rightarrow> motion_fault \<Rightarrow> 'm injected \<Rightarrow> 'm injected" where
  "injected_inject inner f d = d\<lparr>fi_active_fault := f, fi_inner := mo_inject_fault inner f (fi_inner d)\<rparr>"

definition injected_clear :: "'m motion_ops \<Rightarrow> motion_fault \<Rightarrow> 'm injected \<Rightarrow> 'm injected" where
  "injected_clear inner f d =
     (let e = d\<lparr>fi_inner := mo_clear_fault inner f (fi_inner d)\<rparr>
      in if f = MF_None \<or> f = fi_active_fault e then e\<lparr>fi_active_fault := MF_None\<rparr> else e)"

definition fault_injecting_ops :: "'m motion_ops \<Rightarrow> 'm injected motion_ops" where
  "fault_injecting_ops inner =
     \<lparr>mo_snapshot = injected_snapshot inner,
      mo_step = (\<lambda>dt v a. inject_outcome (mo_step inner dt v a)),
      mo_enable_all = inject_around (mo_enable_all inner), mo_disable_all = inject_around (mo_disable_all inner),
      mo_set_target = (\<lambda>x y. inject_outcome (mo_set_target inner x y)),
      mo_hold = inject_around (mo_hold inner), mo_mark_homed = inject_around (mo_mark_homed inner),
      mo_restore = (\<lambda>x y h xt yt. inject_around (mo_restore inner x y h xt yt)),
      mo_inject_fault = injected_inject inner, mo_clear_fault = injected_clear inner\<rparr>"

text \<open>The system the runtime registers: the decorator around the simulated axes.\<close>

definition cell_ops :: "simulated_motion injected motion_ops" where
  "cell_ops = fault_injecting_ops simulated_ops"

definition new_cell_motion :: "simulated_motion injected" where
  "new_cell_motion = \<lparr>fi_inner = new_simulated, fi_active_fault = MF_None\<rparr>"

section \<open>The contracts\<close>

locale motion_adapter =
  fixes ops :: "'m motion_ops" and good :: "'m \<Rightarrow> bool"
  assumes good_step: "good m \<Longrightarrow> good (snd (mo_step ops dt v a m))"
    and good_enable: "good m \<Longrightarrow> good (mo_enable_all ops m)"
    and good_disable: "good m \<Longrightarrow> good (mo_disable_all ops m)"
    and good_set_target: "good m \<Longrightarrow> good (snd (mo_set_target ops x y m))"
    and good_hold: "good m \<Longrightarrow> good (mo_hold ops m)"
    and good_mark_homed: "good m \<Longrightarrow> good (mo_mark_homed ops m)"
    and good_restore: "good m \<Longrightarrow> good (mo_restore ops x y h xt yt m)"
    and good_inject: "good m \<Longrightarrow> good (mo_inject_fault ops f m)"
    and good_clear: "good m \<Longrightarrow> good (mo_clear_fault ops f m)"
    and homed_any_state: "ms_all_homed (mo_snapshot ops m r) = ms_all_homed (mo_snapshot ops m AM_Standstill)"
    and faulted_any_state: "ms_any_faulted (mo_snapshot ops m r) = ms_any_faulted (mo_snapshot ops m AM_Standstill)"
    and at_target_any_state: "ms_at_target (mo_snapshot ops m r) = ms_at_target (mo_snapshot ops m AM_Standstill)"
    and enable_homed: "ms_all_homed (mo_snapshot ops (mo_enable_all ops m) r) = ms_all_homed (mo_snapshot ops m r)"
    and disable_homed: "ms_all_homed (mo_snapshot ops (mo_disable_all ops m) r) = ms_all_homed (mo_snapshot ops m r)"
    and hold_homed: "ms_all_homed (mo_snapshot ops (mo_hold ops m) r) = ms_all_homed (mo_snapshot ops m r)"
    and set_target_homed:
      "ms_all_homed (mo_snapshot ops (snd (mo_set_target ops x y m)) r) = ms_all_homed (mo_snapshot ops m r)"
    and inject_homed: "ms_all_homed (mo_snapshot ops (mo_inject_fault ops f m) r) = ms_all_homed (mo_snapshot ops m r)"
    and clear_homed: "ms_all_homed (mo_snapshot ops (mo_clear_fault ops f m) r) = ms_all_homed (mo_snapshot ops m r)"
    and enable_faulted: "ms_any_faulted (mo_snapshot ops (mo_enable_all ops m) r) = ms_any_faulted (mo_snapshot ops m r)"
    and hold_faulted: "ms_any_faulted (mo_snapshot ops (mo_hold ops m) r) = ms_any_faulted (mo_snapshot ops m r)"
    and set_target_faulted:
      "ms_any_faulted (mo_snapshot ops (snd (mo_set_target ops x y m)) r) = ms_any_faulted (mo_snapshot ops m r)"
    and mark_homed_faulted:
      "ms_any_faulted (mo_snapshot ops (mo_mark_homed ops m) r) = ms_any_faulted (mo_snapshot ops m r)"
    and disable_faulted:
      "ms_any_faulted (mo_snapshot ops (mo_disable_all ops m) r) = ms_any_faulted (mo_snapshot ops m r)"
    and set_target_takes: "good m \<Longrightarrow> in_envelope p \<Longrightarrow> \<not> throws (mo_set_target ops (pos_x p) (pos_y p) m)"
    and step_returns: "good m \<Longrightarrow> 0 < dt \<Longrightarrow> 0 \<le> a \<Longrightarrow> \<not> throws (mo_step ops dt v a m)"
begin

lemmas good_ops = good_step good_enable good_disable good_set_target good_hold good_mark_homed
  good_restore good_inject good_clear

lemmas homed_ops = enable_homed disable_homed hold_homed set_target_homed inject_homed clear_homed

lemmas faulted_ops = enable_faulted hold_faulted set_target_faulted mark_homed_faulted disable_faulted

end

locale servo_motion = motion_adapter +
  assumes mark_homed_homes: "ms_all_homed (mo_snapshot ops (mo_mark_homed ops m) r)"
    and step_homed: "ms_all_homed (mo_snapshot ops (snd (mo_step ops dt v a m)) r) = ms_all_homed (mo_snapshot ops m r)"
    and step_faulted:
      "ms_any_faulted (mo_snapshot ops (snd (mo_step ops dt v a m)) r) = ms_any_faulted (mo_snapshot ops m r)"
    and clear_all_faulted: "\<not> ms_any_faulted (mo_snapshot ops (mo_clear_fault ops MF_None m) r)"
    and restore_homed: "ms_all_homed (mo_snapshot ops (mo_restore ops x y h xt yt m) r) = h"
    and restore_faulted: "\<not> ms_any_faulted (mo_snapshot ops (mo_restore ops x y h xt yt m) r)"
    and restored_in_envelope: "good m \<Longrightarrow> in_envelope
      \<lparr>pos_x = ax_actual (ms_x (mo_snapshot ops (mo_enable_all ops (mo_restore ops x y h xt yt m)) r)),
       pos_y = ax_actual (ms_y (mo_snapshot ops (mo_enable_all ops (mo_restore ops x y h xt yt m)) r))\<rparr>"

section \<open>The adapters keep the contracts\<close>

lemma sim_snapshot_sel [simp]:
  "ms_all_homed (sim_snapshot m r) = (sa_homed (sm_x m) \<and> sa_homed (sm_y m))"
  "ms_any_faulted (sim_snapshot m r) = (sa_faulted (sm_x m) \<or> sa_faulted (sm_y m))"
  "ms_at_target (sim_snapshot m r) = (axis_at_target (sm_x m) \<and> axis_at_target (sm_y m))"
  by (simp_all add: sim_snapshot_def)

lemma both_axes_sel [simp]:
  "sm_x (both_axes f m) = f (sm_x m)" "sm_y (both_axes f m) = f (sm_y m)"
  by (simp_all add: both_axes_def)

lemma sim_restore_sel [simp]:
  "sm_x (sim_restore x y h xt yt m) = axis_restore x h xt (sm_x m)"
  "sm_y (sim_restore x y h xt yt m) = axis_restore y h yt (sm_y m)"
  by (simp_all add: sim_restore_def)

text \<open>
  A field that every axis operation keeps, read off both axes, is kept by the two-axis operations,
  whether the first axis threw or not.
\<close>

lemma sim_step_field:
  assumes "\<And>a. f (snd (axis_step dt v m a)) = f a"
  shows "f (sm_x (snd (sim_step dt v m s))) = f (sm_x s)" and "f (sm_y (snd (sim_step dt v m s))) = f (sm_y s)"
  using assms by (simp_all add: sim_step_def chain_def on_x_def on_y_def split: sum.split)

lemma sim_set_target_field:
  assumes "\<And>v a. f (snd (axis_set_target v a)) = f a"
  shows "f (sm_x (snd (sim_set_target x y s))) = f (sm_x s)" and "f (sm_y (snd (sim_set_target x y s))) = f (sm_y s)"
  using assms by (simp_all add: sim_set_target_def chain_def on_x_def on_y_def split: sum.split)

lemmas sim_fields [simp] =
  sim_step_field [where f = sa_min, OF axis_step_frame(1)] sim_step_field [where f = sa_max, OF axis_step_frame(2)]
  sim_step_field [where f = sa_faulted, OF axis_step_frame(3)] sim_step_field [where f = sa_homed, OF axis_step_frame(4)]
  sim_set_target_field [where f = sa_min, OF axis_set_target_frame(1)] sim_set_target_field [where f = sa_max, OF axis_set_target_frame(2)]
  sim_set_target_field [where f = sa_faulted, OF axis_set_target_frame(3)]
  sim_set_target_field [where f = sa_homed, OF axis_set_target_frame(4)]

definition sim_good :: "simulated_motion \<Rightarrow> bool" where
  "sim_good m \<longleftrightarrow> sa_min (sm_x m) = - 1 \<and> sa_max (sm_x m) = 1 \<and> sa_min (sm_y m) = 0 \<and> sa_max (sm_y m) = 1.2"

lemma sim_inject_limits [simp]:
  "sa_min (sm_x (sim_inject_fault f m)) = sa_min (sm_x m)" "sa_max (sm_x (sim_inject_fault f m)) = sa_max (sm_x m)"
  "sa_min (sm_y (sim_inject_fault f m)) = sa_min (sm_y m)" "sa_max (sm_y (sim_inject_fault f m)) = sa_max (sm_y m)"
  "sa_homed (sm_x (sim_inject_fault f m)) = sa_homed (sm_x m)" "sa_homed (sm_y (sim_inject_fault f m)) = sa_homed (sm_y m)"
  by (cases f; simp)+

lemma sim_clear_limits [simp]:
  "sa_min (sm_x (sim_clear_fault f m)) = sa_min (sm_x m)" "sa_max (sm_x (sim_clear_fault f m)) = sa_max (sm_x m)"
  "sa_min (sm_y (sim_clear_fault f m)) = sa_min (sm_y m)" "sa_max (sm_y (sim_clear_fault f m)) = sa_max (sm_y m)"
  "sa_homed (sm_x (sim_clear_fault f m)) = sa_homed (sm_x m)" "sa_homed (sm_y (sim_clear_fault f m)) = sa_homed (sm_y m)"
  by (simp_all add: sim_clear_fault_def Let_def)

lemma sim_set_target_takes:
  "sim_good m \<Longrightarrow> in_envelope p \<Longrightarrow> \<not> throws (sim_set_target (pos_x p) (pos_y p) m)"
  unfolding sim_set_target_def
  by (rule chain_not_throws) (auto simp: sim_good_def in_envelope_def on_x_def on_y_def throws_def axis_set_target_def)

lemma throws_on_axis [simp]: "throws (on_x r m) = throws r" "throws (on_y r m) = throws r"
  by (simp_all add: on_x_def on_y_def throws_def)

lemma sim_step_returns: "0 < dt \<Longrightarrow> 0 \<le> a \<Longrightarrow> \<not> throws (sim_step dt v a m)"
  by (simp add: sim_step_def chain_not_throws axis_step_not_throws)

lemma sim_restored_in_envelope:
  "sim_good m \<Longrightarrow> in_envelope
     \<lparr>pos_x = ax_actual (ms_x (sim_snapshot (both_axes axis_enable (sim_restore x y h xt yt m)) r)),
      pos_y = ax_actual (ms_y (sim_snapshot (both_axes axis_enable (sim_restore x y h xt yt m)) r))\<rparr>"
  using clampr_bounds [of "sa_min (sm_x m)" "sa_max (sm_x m)" x] clampr_bounds [of "sa_min (sm_y m)" "sa_max (sm_y m)" y]
  by (simp add: sim_good_def in_envelope_def sim_snapshot_def axis_snapshot_of_def axis_enable_def axis_restore_def Let_def)

interpretation sim: servo_motion simulated_ops sim_good
  by unfold_locales
    (auto simp: simulated_ops_def sim_good_def sim_clear_fault_def sim_set_target_takes sim_step_returns
      axis_enable_def sim_restored_in_envelope)

definition replay_good :: "replay_motion \<Rightarrow> bool" where
  "replay_good m \<longleftrightarrow> rp_frames m \<noteq> []"

interpretation replay: motion_adapter replay_ops replay_good
  by unfold_locales
    (auto simp: replay_ops_def replay_good_def replay_step_def replay_snapshot_def Let_def)

lemma injected_sel [simp]:
  "fi_inner (inject_around f d) = f (fi_inner d)"
  "fi_inner (snd (inject_outcome g d)) = snd (g (fi_inner d))"
  "throws (inject_outcome g d) = throws (g (fi_inner d))"
  "fi_inner (injected_inject ops fault d) = mo_inject_fault ops fault (fi_inner d)"
  "fi_inner (injected_clear ops fault d) = mo_clear_fault ops fault (fi_inner d)"
  "ms_all_homed (injected_snapshot ops d r) = ms_all_homed (mo_snapshot ops (fi_inner d) r)"
  "ms_any_faulted (injected_snapshot ops d r) = ms_any_faulted (mo_snapshot ops (fi_inner d) r)"
  "ms_at_target (injected_snapshot ops d r) = ms_at_target (mo_snapshot ops (fi_inner d) r)"
  by (simp_all add: inject_around_def inject_outcome_def injected_inject_def injected_clear_def
      injected_snapshot_def Let_def throws_def)

text \<open>The decorator hands every contract of the adapter it wraps through to its own users.\<close>

context motion_adapter
begin

lemma injected_adapter: "motion_adapter (fault_injecting_ops ops) (\<lambda>d. good (fi_inner d))"
  by (unfold_locales; simp add: fault_injecting_ops_def good_ops homed_ops faulted_ops set_target_takes step_returns;
      fact homed_any_state faulted_any_state at_target_any_state)

end

context servo_motion
begin

lemma injected_servo: "servo_motion (fault_injecting_ops ops) (\<lambda>d. good (fi_inner d))"
  by (intro servo_motion.intro injected_adapter, unfold_locales)
    (simp_all add: fault_injecting_ops_def mark_homed_homes step_homed step_faulted clear_all_faulted
      restore_homed restore_faulted injected_snapshot_def Let_def restored_in_envelope)

end

interpretation cell: servo_motion cell_ops "\<lambda>d. sim_good (fi_inner d)"
  unfolding cell_ops_def by (rule sim.injected_servo)

interpretation cell_replay: motion_adapter "fault_injecting_ops replay_ops" "\<lambda>d. replay_good (fi_inner d)"
  by (rule replay.injected_adapter)

lemma new_cell_motion_good [simp]: "sim_good (fi_inner new_cell_motion)"
  by (simp add: new_cell_motion_def new_simulated_def new_axis_def sim_good_def)

end
