(* ===== verification/Coordinator.thy ===== *)
theory Coordinator
  imports MotionSystems
begin

unbundle bit_operations_syntax

text \<open>
  \<open>MachineCoordinator\<close> (\<open>src/VirtualSmartMotionCell.Application/MachineCoordinator.cs\<close>): the state
  of the machine, its command handlers, the cyclic step, checkpoints and snapshots. The motion
  system is a parameter (a record of operations and its state), as it is in the code.

  Every public method runs under one lock, so a call is one step of the model. The shared
  \<open>RuntimeMetrics\<close> and \<open>IntegrationStatusStore\<close> are only read, for the snapshot: what they show
  is the parameter \<open>host_view\<close>, with the SHA-256 checksum of a recipe.
\<close>

section \<open>State\<close>

record 'm coordinator =
  co_motion :: 'm
  co_events :: "machine_event list"
  co_alarms :: "(string \<times> alarm_record) list"
  co_recipe :: machine_recipe
  co_order :: "production_order option"
  co_checkpoint :: "recovery_checkpoint option"
  co_mode :: machine_mode
  co_exec :: execution_state
  co_step :: production_step
  co_gripper :: bool
  co_estop_ok :: bool
  co_guard_closed :: bool
  co_bus_healthy :: bool
  co_revision :: int
  co_sim_time :: real
  co_dwell :: real
  co_cycles :: int
  co_good :: int
  co_reject :: int
  co_part :: "string option"
  co_cycle_started :: "real option"
  co_last_cycle :: real
  co_last_transition :: string
  co_correlation :: string
  co_reads :: reading

type_synonym 'm handler = "'m coordinator \<Rightarrow> (command_result, 'm coordinator) outcome"

definition new_coordinator :: "machine_recipe \<Rightarrow> 'm \<Rightarrow> 'm coordinator" where
  "new_coordinator recipe motion =
     \<lparr>co_motion = motion, co_events = [], co_alarms = [], co_recipe = recipe, co_order = None,
      co_checkpoint = None, co_mode = MM_Manual, co_exec = ES_Stopped, co_step = PS_None,
      co_gripper = False, co_estop_ok = True, co_guard_closed = True, co_bus_healthy = True,
      co_revision = 0, co_sim_time = 0, co_dwell = 0, co_cycles = 0, co_good = 0, co_reject = 0,
      co_part = None, co_cycle_started = None, co_last_cycle = 0, co_last_transition = ''Created'',
      co_correlation = ''startup'', co_reads = 0\<rparr>"

record host_view =
  hv_runtime :: runtime_snapshot
  hv_integration :: integration_snapshot
  hv_checksum :: "machine_recipe \<Rightarrow> string"

section \<open>Primitive operations\<close>

definition on_motion :: "('m \<Rightarrow> 'm) \<Rightarrow> 'm coordinator \<Rightarrow> 'm coordinator" where
  "on_motion f s = s\<lparr>co_motion := f (co_motion s)\<rparr>"

definition motion_call :: "('m \<Rightarrow> (unit, 'm) outcome) \<Rightarrow> 'm coordinator \<Rightarrow> (unit, 'm coordinator) outcome" where
  "motion_call f s = (let r = f (co_motion s) in (fst r, s\<lparr>co_motion := snd r\<rparr>))"

definition record_event :: "string \<Rightarrow> payload \<Rightarrow> 'm coordinator \<Rightarrow> 'm coordinator" where
  "record_event ty p s =
     s\<lparr>co_events := co_events s @
         [\<lparr>ev_id = co_reads s, ev_type = ty, ev_timestamp = co_reads s + 1,
           ev_correlation_id = co_correlation s, ev_revision = co_revision s, ev_payload = p\<rparr>],
       co_reads := co_reads s + 2\<rparr>"

definition increment_revision :: "string \<Rightarrow> 'm coordinator \<Rightarrow> 'm coordinator" where
  "increment_revision transition s = s\<lparr>co_revision := long_inc (co_revision s), co_last_transition := transition\<rparr>"

definition order_id_or_none :: "'m coordinator \<Rightarrow> string" where
  "order_id_or_none s = (case co_order s of None \<Rightarrow> ''none'' | Some p \<Rightarrow> po_id p)"

definition transition :: "execution_state \<Rightarrow> production_step \<Rightarrow> string \<Rightarrow> 'm coordinator \<Rightarrow> 'm coordinator" where
  "transition execution step reason s =
     (if co_exec s = execution \<and> co_step s = step then s
      else let t = increment_revision reason (s\<lparr>co_exec := execution, co_step := step\<rparr>)
           in record_event ''machine.transition''
                (TraceabilityPayload (order_id_or_none t) (co_part t) ''state-transition''
                   (execution_name (co_exec s) @ ''/'' @ step_name (co_step s) @ '' -> '' @
                    execution_name (co_exec t) @ ''/'' @ step_name (co_step t) @ '': '' @ reason)) t)"

definition accept :: "string \<Rightarrow> string \<Rightarrow> string \<Rightarrow> 'm handler" where
  "accept i corr code s =
     (Inr (accepted_result i (co_revision s) corr code (co_reads s)), s\<lparr>co_reads := co_reads s + 1\<rparr>)"

definition reject :: "string \<Rightarrow> string \<Rightarrow> string \<Rightarrow> string list \<Rightarrow> 'm handler" where
  "reject i corr code reasons s =
     (Inr (rejected_result i (co_revision s) corr code reasons (co_reads s)), s\<lparr>co_reads := co_reads s + 1\<rparr>)"

definition build_interlocks :: "'m coordinator \<Rightarrow> motion_snapshot \<Rightarrow> interlock_snapshot" where
  "build_interlocks s motion =
     (let reasons =
        (if \<not> co_estop_ok s then [''Emergency stop is active.''] else []) @
        (if \<not> co_guard_closed s then [''Safety guard is open.''] else []) @
        (if \<not> co_bus_healthy s then [''Simulated control bus is unavailable.''] else []) @
        (if ms_any_faulted motion then [''One or more axes are faulted.''] else [])
      in \<lparr>il_emergency_stop_ok = co_estop_ok s, il_guard_closed = co_guard_closed s,
          il_bus_healthy = co_bus_healthy s, il_drives_healthy = (\<not> ms_any_faulted motion),
          il_motion_permitted = (length reasons = 0), il_reasons = reasons\<rparr>)"

fun motion_state_for :: "execution_state \<Rightarrow> axis_motion_state" where
  "motion_state_for ES_Homing = AM_Homing"
| "motion_state_for ES_Recovering = AM_Homing"
| "motion_state_for ES_Starting = AM_Moving"
| "motion_state_for ES_Running = AM_Moving"
| "motion_state_for ES_Stopping = AM_Moving"
| "motion_state_for ES_Pausing = AM_Holding"
| "motion_state_for ES_Paused = AM_Holding"
| "motion_state_for ES_Ready = AM_Holding"
| "motion_state_for ES_RecoveryRequired = AM_Holding"
| "motion_state_for ES_Faulted = AM_Faulted"
| "motion_state_for _ = AM_Standstill"

text \<open>The alarm dictionary: keys compare without case, insertion order is kept.\<close>

fun alarm_lookup :: "string \<Rightarrow> (string \<times> alarm_record) list \<Rightarrow> alarm_record option" where
  "alarm_lookup code [] = None"
| "alarm_lookup code ((k, a) # rest) = (if eq_ignore_case k code then Some a else alarm_lookup code rest)"

fun alarm_put :: "string \<Rightarrow> alarm_record \<Rightarrow> (string \<times> alarm_record) list \<Rightarrow> (string \<times> alarm_record) list" where
  "alarm_put code a [] = [(code, a)]"
| "alarm_put code a ((k, b) # rest) = (if eq_ignore_case k code then (k, a) # rest else (k, b) # alarm_put code a rest)"

definition raise_fault ::
  "'m motion_ops \<Rightarrow> string \<Rightarrow> string \<Rightarrow> alarm_severity \<Rightarrow> string \<Rightarrow> string \<Rightarrow> 'm coordinator \<Rightarrow> 'm coordinator" where
  "raise_fault ops code source severity message action s =
     (let existing = alarm_lookup code (co_alarms s);
          t = (if (case existing of None \<Rightarrow> True | Some a \<Rightarrow> al_lifecycle a = AL_Historical)
               then let alarm = new_alarm code source severity message action (co_correlation s) (co_reads s)
                    in record_event ''alarm.raised'' (AlarmEventPayload (alarm_to_snapshot alarm) ''raised'')
                         (s\<lparr>co_alarms := alarm_put code alarm (co_alarms s), co_reads := co_reads s + 1\<rparr>)
               else s);
          u = on_motion (mo_hold ops) t
      in transition ES_Faulted (co_step u) (''Fault: '' @ code) u)"

definition command_position :: "'m motion_ops \<Rightarrow> position2d \<Rightarrow> 'm coordinator \<Rightarrow> (unit, 'm coordinator) outcome" where
  "command_position ops p s =
     motion_call (mo_set_target ops (pos_x p) (pos_y p)) (on_motion (mo_enable_all ops) s)"

definition command_target_for_current_step :: "'m motion_ops \<Rightarrow> 'm coordinator \<Rightarrow> (unit, 'm coordinator) outcome" where
  "command_target_for_current_step ops s =
     (let motion = mo_snapshot ops (co_motion s) AM_Holding;
          target = (case co_step s of
              PS_MoveToPick \<Rightarrow> rc_pick (co_recipe s)
            | PS_MoveToInspect \<Rightarrow> rc_inspect (co_recipe s)
            | PS_MoveToPlace \<Rightarrow> rc_place (co_recipe s)
            | PS_ReturnHome \<Rightarrow> rc_home (co_recipe s)
            | _ \<Rightarrow> \<lparr>pos_x = ax_actual (ms_x motion), pos_y = ax_actual (ms_y motion)\<rparr>)
      in command_position ops target s)"

definition discard_interrupted_part :: "'m coordinator \<Rightarrow> 'm coordinator" where
  "discard_interrupted_part s =
     (let t = (case co_part s of
           None \<Rightarrow> s
         | Some p \<Rightarrow>
             let u = s\<lparr>co_reject := long_inc (co_reject s)\<rparr>
             in record_event ''part.discarded''
                  (TraceabilityPayload (order_id_or_none u) (Some p) ''part-discarded''
                     ''Interrupted part discarded during recovery.'') u)
      in t\<lparr>co_part := None, co_gripper := False, co_cycle_started := None\<rparr>)"

definition part_id_text :: "string \<Rightarrow> int \<Rightarrow> string" where
  "part_id_text order_id n = order_id @ ''-PART-'' @
     (if n < 0 then ''-'' @ pad_left 6 (CHR ''0'') (show_nat (nat (- n))) else pad_left 6 (CHR ''0'') (show_nat (nat n)))"

definition begin_cycle :: "'m coordinator \<Rightarrow> (unit, 'm coordinator) outcome" where
  "begin_cycle s = (case co_order s of
       None \<Rightarrow> (Inl (InvalidOperation ''Cannot begin a cycle without a production order.''), s)
     | Some p \<Rightarrow>
         let part = part_id_text (po_id p) (wrap64 (po_completed p + 1));
             t = s\<lparr>co_part := Some part, co_cycle_started := Some (co_sim_time s)\<rparr>
         in (Inr (), record_event ''cycle.started''
               (CycleStartedPayload (po_id p) part (rc_id (co_recipe t)) (rc_revision (co_recipe t)) (co_sim_time t)) t))"

definition complete_cycle :: "'m coordinator \<Rightarrow> (bool, 'm coordinator) outcome" where
  "complete_cycle s = (case (co_order s, co_part s) of
       (Some p, Some part) \<Rightarrow>
         let last = (case co_cycle_started s of None \<Rightarrow> 0 | Some t0 \<Rightarrow> max 0 (co_sim_time s - t0));
             t = s\<lparr>co_cycles := long_inc (co_cycles s), co_good := long_inc (co_good s), co_last_cycle := last\<rparr>;
             u = record_event ''cycle.completed''
                   (CycleCompletedPayload (po_id p) part (co_cycles t) PQ_Good last
                      (rc_id (co_recipe t)) (rc_revision (co_recipe t))) t;
             r = record_completed_part (co_reads u) p;
             q = snd r;
             v = u\<lparr>co_order := Some q, co_reads := co_reads u + (if fst r then 1 else 0)\<rparr>;
             w = record_event ''order.status''
                   (OrderStatusChangedPayload (po_id q) (po_status q) (po_completed q)
                      (if fst r then ''target-quantity-reached'' else ''part-completed'')) v
         in (Inr (fst r), w\<lparr>co_part := None, co_cycle_started := None\<rparr>)
     | _ \<Rightarrow> (Inl (InvalidOperation ''Cycle completion requires an active order and part.''), s))"

text \<open>Changing the loaded order, if there is one, and reporting its status.\<close>

definition update_order :: "(production_order \<Rightarrow> production_order) \<Rightarrow> 'm coordinator \<Rightarrow> 'm coordinator" where
  "update_order f s = s\<lparr>co_order := map_option f (co_order s)\<rparr>"

definition record_order_status :: "string \<Rightarrow> 'm coordinator \<Rightarrow> 'm coordinator" where
  "record_order_status why s = (case co_order s of
       None \<Rightarrow> s
     | Some p \<Rightarrow> record_event ''order.status'' (OrderStatusChangedPayload (po_id p) (po_status p) (po_completed p) why) s)"

end
