(* ===== verification/Commands.thy ===== *)
theory Commands
  imports Coordinator
begin

text \<open>
  The command handlers of \<open>MachineCoordinator\<close>, their dispatch (\<open>Execute\<close>) and recipe activation.
  Guards, their order and the texts are those of the code.
\<close>

section \<open>Enum.TryParse for the machine mode\<close>

text \<open>
  \<open>Enum.TryParse\<close> with \<open>ignoreCase\<close> takes a member's name, a comma-separated list of names
  (their values or-ed together) and any 32-bit decimal number, named by a member or not.
\<close>

fun mode_of_value :: "int \<Rightarrow> machine_mode" where
  "mode_of_value v =
     (if v = 0 then MM_Offline else if v = 1 then MM_Manual else if v = 2 then MM_Automatic
      else if v = 3 then MM_Maintenance else if v = 4 then MM_Recovery else MM_Undefined v)"

definition mode_value_of_name :: "string \<Rightarrow> int option" where
  "mode_value_of_name s =
     (if eq_ignore_case s ''Offline'' then Some 0 else if eq_ignore_case s ''Manual'' then Some 1
      else if eq_ignore_case s ''Automatic'' then Some 2 else if eq_ignore_case s ''Maintenance'' then Some 3
      else if eq_ignore_case s ''Recovery'' then Some 4 else None)"

definition is_digit :: "char \<Rightarrow> bool" where
  "is_digit c = (let n = (of_char c :: nat) in 48 \<le> n \<and> n \<le> 57)"

definition digits_value :: "string \<Rightarrow> int" where
  "digits_value ds = foldl (\<lambda>acc c. acc * 10 + (int (of_char c) - 48)) 0 ds"

definition parse_int32 :: "string \<Rightarrow> int option" where
  "parse_int32 s =
     (let negative = (s \<noteq> [] \<and> hd s = CHR ''-'');
          body = (if s \<noteq> [] \<and> (hd s = CHR ''-'' \<or> hd s = CHR ''+'') then tl s else s);
          ds = takeWhile is_digit body;
          rest = dropWhile (\<lambda>c. let n = (of_char c :: nat) in n = 32 \<or> (9 \<le> n \<and> n \<le> 13)) (dropWhile is_digit body);
          v = (if negative then - digits_value ds else digits_value ds)
      in if ds \<noteq> [] \<and> list_all (\<lambda>c. c = CHR 0x00) rest \<and> - (2 ^ 31) \<le> v \<and> v < 2 ^ 31 then Some v else None)"

fun split_commas :: "string \<Rightarrow> string list" where
  "split_commas [] = [[]]"
| "split_commas (c # cs) = (if c = CHR '','' then [] # split_commas cs
     else (case split_commas cs of [] \<Rightarrow> [[c]] | w # ws \<Rightarrow> (c # w) # ws))"

fun or_names :: "string list \<Rightarrow> int option" where
  "or_names [] = Some 0"
| "or_names (w # ws) = (case (mode_value_of_name (trim w), or_names ws) of (Some v, Some u) \<Rightarrow> Some (v OR u) | _ \<Rightarrow> None)"

definition try_parse_mode :: "string option \<Rightarrow> machine_mode option" where
  "try_parse_mode value = (case value of None \<Rightarrow> None | Some text \<Rightarrow>
     (let s = trim_start text
      in if s = [] then None
         else if is_digit (hd s) \<or> hd s = CHR ''-'' \<or> hd s = CHR ''+''
         then map_option mode_of_value (parse_int32 s)
         else map_option mode_of_value (or_names (split_commas s))))"

section \<open>Handlers\<close>

definition initialize_cmd :: "'m motion_ops \<Rightarrow> string \<Rightarrow> string \<Rightarrow> 'm handler" where
  "initialize_cmd ops i corr s =
     (if co_exec s \<noteq> ES_Stopped
      then reject i corr ''INVALID_STATE'' [''Initialize is allowed only from Stopped.''] s
      else accept i corr ''ACCEPTED''
             (transition ES_Initializing PS_None ''Initialize command accepted'' (on_motion (mo_enable_all ops) s)))"

definition set_mode_cmd :: "string \<Rightarrow> string option \<Rightarrow> string \<Rightarrow> 'm handler" where
  "set_mode_cmd i mode corr s =
     (if co_exec s \<in> {ES_Running, ES_Starting, ES_Homing, ES_Recovering}
      then reject i corr ''MODE_CHANGE_BLOCKED'' [''Mode cannot change while motion is active.''] s
      else case try_parse_mode mode of
        None \<Rightarrow> reject i corr ''INVALID_MODE''
          [''Mode must be Manual, Automatic, Maintenance, Recovery, or Offline.''] s
      | Some parsed \<Rightarrow>
          (if parsed = MM_Offline \<and> co_exec s \<noteq> ES_Stopped
           then reject i corr ''OFFLINE_REQUIRES_STOPPED'' [''Offline mode requires the machine to be Stopped.''] s
           else let t = s\<lparr>co_mode := parsed\<rparr>;
                    u = record_event ''mode.changed''
                          (TraceabilityPayload (order_id_or_none t) (co_part t) ''mode-changed'' (mode_name (co_mode t))) t
                in accept i corr ''ACCEPTED'' (increment_revision ''Mode changed'' u)))"

definition load_order_cmd :: "string \<Rightarrow> command_request \<Rightarrow> string \<Rightarrow> 'm handler" where
  "load_order_cmd i req corr s =
     (let recipe_id = (case cr_recipe_id req of Some r \<Rightarrow> r | None \<Rightarrow> rc_id (co_recipe s));
          recipe_revision = (case cr_recipe_revision req of Some r \<Rightarrow> r | None \<Rightarrow> rc_revision (co_recipe s))
      in if co_exec s \<notin> {ES_Stopped, ES_Ready}
         then reject i corr ''ORDER_LOAD_BLOCKED'' [''Orders can be loaded only from Stopped or Ready.''] s
         else if (case co_order s of None \<Rightarrow> False | Some p \<Rightarrow> po_status p = OS_Active \<or> po_status p = OS_Paused)
         then reject i corr ''ACTIVE_ORDER_PRESENT'' [''Cancel or complete the current order first.''] s
         else if (case cr_order_id req of None \<Rightarrow> True | Some x \<Rightarrow> is_blank x)
         then reject i corr ''ORDER_ID_REQUIRED'' [''OrderId is required.''] s
         else if (case cr_quantity req of None \<Rightarrow> True | Some q \<Rightarrow> q \<le> 0 \<or> 100000 < q)
         then reject i corr ''INVALID_QUANTITY'' [''Quantity must be between 1 and 100000.''] s
         else if \<not> eq_ignore_case recipe_id (rc_id (co_recipe s)) \<or> recipe_revision \<noteq> rc_revision (co_recipe s)
         then reject i corr ''RECIPE_MISMATCH'' [''The order recipe must match the active recipe.''] s
         else case new_order (the (cr_order_id req)) (the (cr_quantity req)) recipe_id recipe_revision (co_reads s) of
             Inl e \<Rightarrow> (Inl e, s)
           | Inr p \<Rightarrow>
               let t = increment_revision ''Production order loaded'' (s\<lparr>co_order := Some p, co_reads := co_reads s + 1\<rparr>)
               in accept i corr ''ORDER_LOADED''
                    (record_event ''order.loaded''
                       (OrderLoadedPayload (po_id p) (po_target p) (po_recipe_id p) (po_recipe_revision p) (po_status p)) t))"

definition cancel_order_cmd :: "string \<Rightarrow> string \<Rightarrow> 'm handler" where
  "cancel_order_cmd i corr s = (case co_order s of
       None \<Rightarrow> reject i corr ''NO_ACTIVE_ORDER'' [''No production order is loaded.''] s
     | Some _ \<Rightarrow>
        (if co_exec s \<in> {ES_Running, ES_Starting}
         then reject i corr ''ORDER_CANCEL_BLOCKED''
                [''Stop or abort the running cycle before cancelling the order.''] s
         else accept i corr ''ORDER_CANCELLED''
                (increment_revision ''Production order cancelled''
                   (record_order_status ''operator-cancelled'' (update_order cancel_order s)))))"

definition home_cmd :: "'m motion_ops \<Rightarrow> string \<Rightarrow> string \<Rightarrow> 'm handler" where
  "home_cmd ops i corr s =
     (let interlocks = build_interlocks s (mo_snapshot ops (co_motion s) AM_Standstill)
      in if \<not> il_motion_permitted interlocks
         then reject i corr ''MOTION_NOT_PERMITTED'' (il_reasons interlocks) s
         else if co_exec s \<in> {ES_Running, ES_Starting}
         then reject i corr ''INVALID_STATE'' [''Stop automatic operation before homing.''] s
         else chain (command_position ops (rc_home (co_recipe s)) s)
                (\<lambda>_ t. accept i corr ''ACCEPTED'' (transition ES_Homing PS_None ''Homing started'' t)))"

definition start_reasons :: "'m motion_ops \<Rightarrow> 'm coordinator \<Rightarrow> string list" where
  "start_reasons ops s =
     (let motion = mo_snapshot ops (co_motion s) AM_Standstill
      in (if co_mode s \<noteq> MM_Automatic then [''Machine mode is not Automatic.''] else []) @
         (if co_exec s \<noteq> ES_Ready then [''Execution state is '' @ execution_name (co_exec s) @ '', not Ready.''] else []) @
         (if \<not> ms_all_homed motion then [''All axes must be homed.''] else []) @
         (case co_order s of
             None \<Rightarrow> [''No production order is loaded.'']
           | Some p \<Rightarrow> if po_status p = OS_Completed \<or> po_status p = OS_Cancelled
               then [''Production order is '' @ order_status_name (po_status p) @ ''.''] else []) @
         il_reasons (build_interlocks s motion))"

definition start_cmd :: "'m motion_ops \<Rightarrow> string \<Rightarrow> string \<Rightarrow> 'm handler" where
  "start_cmd ops i corr s =
     (if length (start_reasons ops s) > 0
      then reject i corr ''START_CONDITIONS_NOT_MET'' (start_reasons ops s) s
      else accept i corr ''ACCEPTED''
             (transition ES_Starting PS_WaitForPart ''Start accepted''
                (record_order_status ''automatic-start'' (update_order activate_order s))))"

definition pause_cmd :: "'m motion_ops \<Rightarrow> string \<Rightarrow> string \<Rightarrow> 'm handler" where
  "pause_cmd ops i corr s =
     (if co_exec s \<noteq> ES_Running then reject i corr ''INVALID_STATE'' [''Pause requires Running state.''] s
      else accept i corr ''ACCEPTED''
             (transition ES_Pausing (co_step s) ''Controlled pause requested'' (on_motion (mo_hold ops) s)))"

definition resume_cmd :: "'m motion_ops \<Rightarrow> string \<Rightarrow> string \<Rightarrow> 'm handler" where
  "resume_cmd ops i corr s =
     (if co_exec s \<noteq> ES_Paused then reject i corr ''INVALID_STATE'' [''Resume requires Paused state.''] s
      else let interlocks = build_interlocks s (mo_snapshot ops (co_motion s) AM_Holding)
           in if \<not> il_motion_permitted interlocks
              then reject i corr ''MOTION_NOT_PERMITTED'' (il_reasons interlocks) s
              else chain (command_target_for_current_step ops
                            (transition ES_Running (co_step s) ''Resume accepted''
                               (record_order_status ''resume'' (update_order resume_order s))))
                     (\<lambda>_ t. accept i corr ''ACCEPTED'' t))"

definition stop_cmd :: "'m motion_ops \<Rightarrow> string \<Rightarrow> string \<Rightarrow> 'm handler" where
  "stop_cmd ops i corr s =
     (if co_exec s \<notin> {ES_Running, ES_Starting, ES_Paused, ES_Homing, ES_Pausing}
      then reject i corr ''INVALID_STATE'' [''Stop requires active or paused operation.''] s
      else accept i corr ''ACCEPTED''
             (transition ES_Stopping (co_step s) ''Controlled stop requested'' (on_motion (mo_hold ops) s)))"

definition abort_cmd :: "string \<Rightarrow> string \<Rightarrow> 'm handler" where
  "abort_cmd i corr s =
     (if co_exec s \<in> {ES_Stopped, ES_Aborting}
      then reject i corr ''INVALID_STATE'' [''There is no active operation to abort.''] s
      else accept i corr ''ACCEPTED'' (transition ES_Aborting (co_step s) ''Abort requested'' s))"

text \<open>\<open>Reset\<close> clears the active alarms in dictionary order, one event each.\<close>

fun clear_active_alarms :: "(string \<times> alarm_record) list \<Rightarrow> (string \<times> alarm_record) list \<Rightarrow> 'm coordinator \<Rightarrow> 'm coordinator" where
  "clear_active_alarms done [] s = s\<lparr>co_alarms := rev done\<rparr>"
| "clear_active_alarms done ((k, a) # rest) s =
     (if alarm_active a
      then let b = clear_alarm (co_reads s) a
           in clear_active_alarms ((k, b) # done) rest
                (record_event ''alarm.cleared'' (AlarmEventPayload (alarm_to_snapshot b) ''cleared'')
                   (s\<lparr>co_reads := co_reads s + 1\<rparr>))
      else clear_active_alarms ((k, a) # done) rest s)"

definition reset_cmd :: "'m motion_ops \<Rightarrow> string \<Rightarrow> string \<Rightarrow> 'm handler" where
  "reset_cmd ops i corr s =
     (if co_exec s \<noteq> ES_Faulted \<and> list_all (\<lambda>(k, a). al_lifecycle a = AL_Historical) (co_alarms s)
      then reject i corr ''NO_ACTIVE_FAULT'' [''Reset is intended for a faulted machine.''] s
      else let interlocks = build_interlocks s (mo_snapshot ops (co_motion s) AM_Faulted)
           in if \<not> il_emergency_stop_ok interlocks \<or> \<not> il_guard_closed interlocks \<or> \<not> il_bus_healthy interlocks
              then reject i corr ''FAULT_CAUSE_PRESENT'' (il_reasons interlocks) s
              else let t = on_motion (mo_enable_all ops) (on_motion (mo_clear_fault ops MF_None) s);
                       u = clear_active_alarms [] (co_alarms t) t;
                       motion = mo_snapshot ops (co_motion u) AM_Standstill
                   in accept i corr ''ACCEPTED''
                        (transition (if ms_all_homed motion then ES_Ready else ES_Stopped) PS_None
                           ''Fault reset completed'' u))"

definition recover_cmd :: "'m motion_ops \<Rightarrow> string \<Rightarrow> recovery_action \<Rightarrow> string \<Rightarrow> 'm handler" where
  "recover_cmd ops i action corr s = (case co_checkpoint s of
       None \<Rightarrow> reject i corr ''RECOVERY_NOT_REQUIRED'' [''Recovery commands are allowed only from RecoveryRequired.''] s
     | Some cp \<Rightarrow>
        (if co_exec s \<noteq> ES_RecoveryRequired
         then reject i corr ''RECOVERY_NOT_REQUIRED'' [''Recovery commands are allowed only from RecoveryRequired.''] s
         else case action of
           RA_DiscardAndReset \<Rightarrow>
             (let t = on_motion (mo_restore ops (cp_x cp) (cp_y cp) False None None) (discard_interrupted_part s);
                  u = transition ES_Stopped PS_None ''Interrupted cycle discarded and recovery reset''
                        (t\<lparr>co_mode := MM_Manual, co_checkpoint := None\<rparr>)
              in accept i corr ''RECOVERY_COMPLETED''
                   (record_event ''recovery.completed''
                      (TraceabilityPayload (order_id_or_none u) None ''discard-and-reset'' ''Interrupted part discarded.'') u))
         | RA_RehomeAndReset \<Rightarrow>
             (let t = on_motion (mo_restore ops (cp_x cp) (cp_y cp) False None None) (discard_interrupted_part s)
              in chain (command_position ops (rc_home (co_recipe t)) t)
                   (\<lambda>_ u. accept i corr ''RECOVERY_REHOME_STARTED''
                            (transition ES_Recovering PS_None ''Recovery rehome started'' (u\<lparr>co_mode := MM_Recovery\<rparr>))))
         | RA_ResumeSimulation \<Rightarrow>
             (let interlocks = build_interlocks s (mo_snapshot ops (co_motion s) AM_Holding)
              in if cp_order_id cp = None \<or> cp_part_id cp = None
                 then reject i corr ''RECOVERY_RESUME_UNAVAILABLE''
                        [''The checkpoint does not contain an active order and part.''] s
                 else if \<not> il_motion_permitted interlocks
                 then reject i corr ''MOTION_NOT_PERMITTED'' (il_reasons interlocks) s
                 else let t = on_motion (mo_enable_all ops)
                                (on_motion (mo_restore ops (cp_x cp) (cp_y cp) True (Some (cp_x_target cp)) (Some (cp_y_target cp))) s);
                          u = update_order resume_order
                                (t\<lparr>co_mode := MM_Automatic, co_exec := ES_Running, co_step := cp_step cp,
                                   co_part := cp_part_id cp, co_gripper := cp_gripper_closed cp,
                                   co_cycle_started := Some (case cp_cycle_started cp of Some c \<Rightarrow> c | None \<Rightarrow> co_sim_time t)\<rparr>)
                      in chain (command_target_for_current_step ops u)
                           (\<lambda>_ v. let w = increment_revision ''Simulation recovery resumed from checkpoint'' v;
                                      x = record_event ''recovery.completed''
                                            (TraceabilityPayload (order_id_or_none w) (co_part w) ''resume-simulation''
                                               ''Simulation-only checkpoint resume.'') w
                                  in accept i corr ''RECOVERY_RESUMED'' (x\<lparr>co_checkpoint := None\<rparr>)))))"

definition jog_cmd :: "'m motion_ops \<Rightarrow> string \<Rightarrow> string option \<Rightarrow> real option \<Rightarrow> string \<Rightarrow> 'm handler" where
  "jog_cmd ops i axis distance corr s =
     (let motion = mo_snapshot ops (co_motion s) AM_Standstill;
          interlocks = build_interlocks s motion
      in if co_mode s \<noteq> MM_Manual \<and> co_mode s \<noteq> MM_Maintenance
         then reject i corr ''MODE_NOT_MANUAL'' [''Jog requires Manual or Maintenance mode.''] s
         else if co_exec s \<in> {ES_Running, ES_Starting, ES_Homing, ES_Faulted, ES_RecoveryRequired}
         then reject i corr ''INVALID_STATE'' [''Jog is blocked in the current execution state.''] s
         else if \<not> il_motion_permitted interlocks
         then reject i corr ''MOTION_NOT_PERMITTED'' (il_reasons interlocks) s
         else case distance of
             None \<Rightarrow> reject i corr ''INVALID_DISTANCE'' [''Jog distance must be between -0.2 and 0.2 simulation units.''] s
           | Some d \<Rightarrow>
              (if d < - 0.2 \<or> 0.2 < d
               then reject i corr ''INVALID_DISTANCE'' [''Jog distance must be between -0.2 and 0.2 simulation units.''] s
               else if \<not> ms_all_homed motion
               then reject i corr ''AXIS_NOT_HOMED'' [''Axes must be homed before jogging.''] s
               else let tx = ax_target (ms_x motion); ty = ax_target (ms_y motion);
                        move = (\<lambda>ax x y. chain (command_position ops \<lparr>pos_x = x, pos_y = y\<rparr> s)
                                  (\<lambda>_ t. accept i corr ''ACCEPTED''
                                     (transition ES_Ready PS_None (''Manual jog '' @ to_upper ax) t)))
                    in case axis of
                        None \<Rightarrow> reject i corr ''INVALID_AXIS'' [''Axis must be X or Y.''] s
                      | Some ax \<Rightarrow>
                         (if eq_ignore_case ax ''X'' then move ax (clampr (- 1) 1 (ax_actual (ms_x motion) + d)) ty
                          else if eq_ignore_case ax ''Y'' then move ax tx (clampr 0 1.2 (ax_actual (ms_y motion) + d))
                          else reject i corr ''INVALID_AXIS'' [''Axis must be X or Y.''] s)))"

definition quote_mark :: string where
  "quote_mark = [CHR 39]"

text \<open>The conditions a fault command names, in the order of the two \<open>switch\<close> statements.\<close>

datatype fault_target = FT_EmergencyStop | FT_GuardOpen | FT_BusLoss | FT_Motion motion_fault | FT_All | FT_Unknown

definition fault_of_text :: "string option \<Rightarrow> fault_target" where
  "fault_of_text fault = (case fault of None \<Rightarrow> FT_Unknown | Some text \<Rightarrow>
     (let f = to_lower (trim text)
      in if f = ''emergency-stop'' then FT_EmergencyStop
         else if f = ''guard-open'' then FT_GuardOpen
         else if f = ''bus-loss'' then FT_BusLoss
         else if f = ''drive-fault-x'' then FT_Motion MF_DriveFaultX
         else if f = ''drive-fault-y'' then FT_Motion MF_DriveFaultY
         else if f = ''following-error'' then FT_Motion MF_FollowingError
         else if f = ''frozen-axis-x'' then FT_Motion MF_FrozenAxisX
         else if f = ''frozen-axis-y'' then FT_Motion MF_FrozenAxisY
         else if f = ''all'' then FT_All
         else FT_Unknown))"

definition inject_fault_cmd :: "'m motion_ops \<Rightarrow> string \<Rightarrow> string option \<Rightarrow> string \<Rightarrow> 'm handler" where
  "inject_fault_cmd ops i fault corr s =
     (let unknown = reject i corr ''UNKNOWN_FAULT''
            [''Fault must be emergency-stop, guard-open, bus-loss, drive-fault-x, drive-fault-y, following-error, frozen-axis-x, or frozen-axis-y.''] s;
          finish = (\<lambda>t. accept i corr ''FAULT_INJECTED''
            (raise_fault ops ''INJECTED_FAULT'' ''Simulation'' SV_Error
               (''Injected fault: '' @ (case fault of None \<Rightarrow> [] | Some f \<Rightarrow> f))
               ''Clear the injected condition, acknowledge alarms, and reset.'' t))
      in case fault_of_text fault of
           FT_EmergencyStop \<Rightarrow> finish (s\<lparr>co_estop_ok := False\<rparr>)
         | FT_GuardOpen \<Rightarrow> finish (s\<lparr>co_guard_closed := False\<rparr>)
         | FT_BusLoss \<Rightarrow> finish (s\<lparr>co_bus_healthy := False\<rparr>)
         | FT_Motion f \<Rightarrow> finish (on_motion (mo_inject_fault ops f) s)
         | FT_All \<Rightarrow> unknown
         | FT_Unknown \<Rightarrow> unknown)"

definition clear_fault_cmd :: "'m motion_ops \<Rightarrow> string \<Rightarrow> string option \<Rightarrow> string \<Rightarrow> 'm handler" where
  "clear_fault_cmd ops i fault corr s =
     (let finish = (\<lambda>t. let u = increment_revision ''Injected condition cleared'' t
            in accept i corr ''CONDITION_CLEARED''
                 (record_event ''fault.condition-cleared''
                    (TraceabilityPayload (order_id_or_none u) (co_part u) ''fault-cleared''
                       (case fault of None \<Rightarrow> ''unknown'' | Some f \<Rightarrow> f)) u))
      in case fault_of_text fault of
           FT_EmergencyStop \<Rightarrow> finish (s\<lparr>co_estop_ok := True\<rparr>)
         | FT_GuardOpen \<Rightarrow> finish (s\<lparr>co_guard_closed := True\<rparr>)
         | FT_BusLoss \<Rightarrow> finish (s\<lparr>co_bus_healthy := True\<rparr>)
         | FT_Motion f \<Rightarrow> finish (on_motion (mo_clear_fault ops f) s)
         | FT_All \<Rightarrow> finish (on_motion (mo_clear_fault ops MF_None)
                       (s\<lparr>co_estop_ok := True, co_guard_closed := True, co_bus_healthy := True\<rparr>))
         | FT_Unknown \<Rightarrow> reject i corr ''UNKNOWN_FAULT'' [''Specify a known fault or all.''] s)"

fun acknowledge_all :: "string \<Rightarrow> (string \<times> alarm_record) list \<Rightarrow> (string \<times> alarm_record) list \<Rightarrow> 'm coordinator \<Rightarrow> 'm coordinator" where
  "acknowledge_all user done [] s = s\<lparr>co_alarms := rev done\<rparr>"
| "acknowledge_all user done ((k, a) # rest) s =
     (let b = acknowledge_alarm user (co_reads s) a
      in acknowledge_all user ((k, b) # done) rest
           (if al_lifecycle b \<noteq> al_lifecycle a
            then record_event ''alarm.acknowledged'' (AlarmEventPayload (alarm_to_snapshot b) ''acknowledged'')
                   (s\<lparr>co_reads := co_reads s + 1\<rparr>)
            else s))"

definition acknowledge_alarms_cmd :: "string \<Rightarrow> string \<Rightarrow> string \<Rightarrow> 'm handler" where
  "acknowledge_alarms_cmd i user corr s =
     accept i corr ''ACCEPTED'' (increment_revision ''Alarms acknowledged'' (acknowledge_all user [] (co_alarms s) s))"

section \<open>Dispatch\<close>

definition dispatch :: "'m motion_ops \<Rightarrow> string \<Rightarrow> command_request \<Rightarrow> string \<Rightarrow> 'm handler" where
  "dispatch ops i req corr s =
     (let ty = to_lower (trim (case cr_type req of None \<Rightarrow> [] | Some t \<Rightarrow> t))
      in if ty = ''initialize'' then initialize_cmd ops i corr s
         else if ty = ''set-mode'' then set_mode_cmd i (cr_mode req) corr s
         else if ty = ''load-order'' then load_order_cmd i req corr s
         else if ty = ''cancel-order'' then cancel_order_cmd i corr s
         else if ty = ''home'' then home_cmd ops i corr s
         else if ty = ''start'' then start_cmd ops i corr s
         else if ty = ''pause'' then pause_cmd ops i corr s
         else if ty = ''resume'' then resume_cmd ops i corr s
         else if ty = ''stop'' then stop_cmd ops i corr s
         else if ty = ''abort'' then abort_cmd i corr s
         else if ty = ''reset'' then reset_cmd ops i corr s
         else if ty = ''recover-reset'' \<or> ty = ''recover-discard'' then recover_cmd ops i RA_DiscardAndReset corr s
         else if ty = ''recover-rehome'' then recover_cmd ops i RA_RehomeAndReset corr s
         else if ty = ''recover-resume'' then recover_cmd ops i RA_ResumeSimulation corr s
         else if ty = ''jog'' then jog_cmd ops i (cr_axis req) (cr_value req) corr s
         else if ty = ''inject-fault'' then inject_fault_cmd ops i (cr_fault req) corr s
         else if ty = ''clear-fault'' then clear_fault_cmd ops i (cr_fault req) corr s
         else if ty = ''acknowledge-alarms''
         then acknowledge_alarms_cmd i (case cr_requested_by req of None \<Rightarrow> ''operator'' | Some u \<Rightarrow> u) corr s
         else reject i corr ''UNKNOWN_COMMAND''
                [''Unknown command type '' @ quote_mark @ (case cr_type req of None \<Rightarrow> [] | Some t \<Rightarrow> t) @ quote_mark @ ''.''] s)"

definition execute :: "'m motion_ops \<Rightarrow> string \<Rightarrow> command_request \<Rightarrow> 'm handler" where
  "execute ops i req s =
     (let corr = (case cr_correlation_id req of None \<Rightarrow> i | Some c \<Rightarrow> c)
      in dispatch ops i req corr (s\<lparr>co_correlation := corr\<rparr>))"

definition activate_recipe :: "string \<Rightarrow> machine_recipe \<Rightarrow> string \<Rightarrow> 'm handler" where
  "activate_recipe i recipe corr s =
     (if validate_recipe True recipe \<noteq> []
      then reject i corr ''INVALID_RECIPE'' (validate_recipe True recipe) s
      else if co_exec s \<notin> {ES_Stopped, ES_Ready}
      then reject i corr ''RECIPE_CHANGE_BLOCKED'' [''Recipe activation is allowed only from Stopped or Ready.''] s
      else if (case co_order s of None \<Rightarrow> False | Some p \<Rightarrow> po_status p = OS_Active \<or> po_status p = OS_Paused)
      then reject i corr ''ACTIVE_ORDER_PRESENT''
             [''Complete or cancel the current order before activating another recipe.''] s
      else let t = increment_revision ''Recipe activated'' (s\<lparr>co_recipe := with_status RL_Active recipe\<rparr>)
           in accept i corr ''RECIPE_ACTIVATED''
                (record_event ''recipe.activated''
                   (RecipeActivatedPayload (rc_id (co_recipe t)) (rc_revision (co_recipe t))) t))"

end
