(* ===== verification/Cycle.thy ===== *)
theory Cycle
  imports Commands
begin

text \<open>
  The cyclic part of \<open>MachineCoordinator\<close>: \<open>Step\<close> with the production sequence, snapshots,
  checkpoints and the event queue.
\<close>

section \<open>The production sequence\<close>

text \<open>Counting a dwell down; \<open>k\<close> runs when it has elapsed.\<close>

definition dwell_then :: "real \<Rightarrow> ('m coordinator \<Rightarrow> (unit, 'm coordinator) outcome) \<Rightarrow> 'm coordinator \<Rightarrow> (unit, 'm coordinator) outcome" where
  "dwell_then dt k s =
     (let t = s\<lparr>co_dwell := co_dwell s - dt\<rparr> in if co_dwell t \<le> 0 then k t else (Inr (), t))"

definition start_next_cycle :: "'m motion_ops \<Rightarrow> string \<Rightarrow> 'm coordinator \<Rightarrow> (unit, 'm coordinator) outcome" where
  "start_next_cycle ops reason s =
     chain (begin_cycle s) (\<lambda>_ t. command_position ops (rc_pick (co_recipe t)) (transition ES_Running PS_MoveToPick reason t))"

definition advance_production :: "'m motion_ops \<Rightarrow> real \<Rightarrow> motion_snapshot \<Rightarrow> 'm coordinator \<Rightarrow> (unit, 'm coordinator) outcome" where
  "advance_production ops dt motion s = (case co_step s of
       PS_MoveToPick \<Rightarrow>
         (if ms_at_target motion
          then let t = transition ES_Running PS_Pick ''Part picked''
                         (s\<lparr>co_gripper := True, co_dwell := rc_pick_dwell (co_recipe s)\<rparr>)
               in (Inr (), record_event ''traceability''
                     (TraceabilityPayload (order_id_or_none t) (co_part t) ''picked'' ''Part attached to gripper.'') t)
          else (Inr (), s))
     | PS_Pick \<Rightarrow> dwell_then dt (\<lambda>t. command_position ops (rc_inspect (co_recipe t))
                     (transition ES_Running PS_MoveToInspect ''Moving to inspection'' t)) s
     | PS_MoveToInspect \<Rightarrow>
         (if ms_at_target motion
          then (Inr (), transition ES_Running PS_Inspect ''Inspection started''
                          (s\<lparr>co_dwell := rc_inspect_dwell (co_recipe s)\<rparr>))
          else (Inr (), s))
     | PS_Inspect \<Rightarrow> dwell_then dt (\<lambda>t.
                     let u = transition ES_Running PS_MoveToPlace ''Inspection passed'' t
                     in command_position ops (rc_place (co_recipe u))
                          (record_event ''traceability''
                             (TraceabilityPayload (order_id_or_none u) (co_part u) ''inspected''
                                ''Deterministic inspection result: good.'') u)) s
     | PS_MoveToPlace \<Rightarrow>
         (if ms_at_target motion
          then (Inr (), transition ES_Running PS_Place ''Part placed''
                          (s\<lparr>co_gripper := False, co_dwell := rc_place_dwell (co_recipe s)\<rparr>))
          else (Inr (), s))
     | PS_Place \<Rightarrow> dwell_then dt (\<lambda>t. command_position ops (rc_home (co_recipe t))
                     (transition ES_Running PS_ReturnHome ''Returning home'' t)) s
     | PS_ReturnHome \<Rightarrow>
         (if ms_at_target motion
          then chain (complete_cycle s) (\<lambda>completed t.
                 if completed then (Inr (), transition ES_Ready PS_Complete ''Production order completed'' t)
                 else start_next_cycle ops ''Next cycle started'' t)
          else (Inr (), s))
     | _ \<Rightarrow> (Inr (), s))"

section \<open>Step\<close>

definition pause_order_in :: "string \<Rightarrow> 'm coordinator \<Rightarrow> 'm coordinator" where
  "pause_order_in why s = record_order_status why (update_order pause_order s)"

definition run_execution :: "'m motion_ops \<Rightarrow> real \<Rightarrow> motion_snapshot \<Rightarrow> 'm coordinator \<Rightarrow> (unit, 'm coordinator) outcome" where
  "run_execution ops dt motion s = (case co_exec s of
       ES_Initializing \<Rightarrow> (Inr (), transition ES_Stopped PS_None ''Initialization completed'' s)
     | ES_Homing \<Rightarrow>
         (if ms_at_target motion
          then (Inr (), transition ES_Ready PS_None ''All axes homed'' (on_motion (mo_mark_homed ops) s))
          else (Inr (), s))
     | ES_Starting \<Rightarrow> start_next_cycle ops ''Automatic cycle started'' s
     | ES_Running \<Rightarrow> advance_production ops dt motion s
     | ES_Pausing \<Rightarrow>
         (if ms_at_target motion
          then (Inr (), transition ES_Paused (co_step s) ''Controlled pause completed'' (pause_order_in ''controlled-pause'' s))
          else (Inr (), s))
     | ES_Stopping \<Rightarrow>
         (if ms_at_target motion
          then (Inr (), transition ES_Ready PS_None ''Controlled stop completed''
                  (pause_order_in ''controlled-stop'' (discard_interrupted_part s)))
          else (Inr (), s))
     | ES_Aborting \<Rightarrow>
         (Inr (), transition ES_Stopped PS_None ''Abort completed''
            (pause_order_in ''abort'' (discard_interrupted_part (on_motion (mo_disable_all ops) s))))
     | ES_Recovering \<Rightarrow>
         (if ms_at_target motion
          then let t = transition ES_Ready PS_None ''Recovery rehome completed''
                         ((on_motion (mo_mark_homed ops) s)\<lparr>co_mode := MM_Manual, co_checkpoint := None\<rparr>)
               in (Inr (), record_event ''recovery.completed''
                     (TraceabilityPayload (order_id_or_none t) (co_part t) ''rehome-and-reset''
                        ''Axes rehomed; interrupted part discarded.'') t)
          else (Inr (), s))
     | _ \<Rightarrow> (Inr (), s))"

definition guarded_states :: "execution_state set" where
  "guarded_states = {ES_Homing, ES_Starting, ES_Running, ES_Pausing, ES_Recovering}"

definition check_permission :: "'m motion_ops \<Rightarrow> motion_snapshot \<Rightarrow> 'm coordinator \<Rightarrow> 'm coordinator" where
  "check_permission ops motion s =
     (let interlocks = build_interlocks s motion
      in if \<not> il_motion_permitted interlocks \<and> co_exec s \<in> guarded_states
         then raise_fault ops ''MOTION_PERMISSION_LOST'' ''Interlocks'' SV_Critical
                (join_with ''; '' (il_reasons interlocks))
                ''Restore the blocking condition, acknowledge alarms, then reset.'' s
         else s)"

definition following_error_of :: "motion_snapshot \<Rightarrow> real" where
  "following_error_of motion = max \<bar>ax_following_error (ms_x motion)\<bar> \<bar>ax_following_error (ms_y motion)\<bar>"

definition check_following_error :: "'m motion_ops \<Rightarrow> motion_snapshot \<Rightarrow> 'm coordinator \<Rightarrow> 'm coordinator" where
  "check_following_error ops motion s =
     (let following_error = following_error_of motion; limit = mp_error_limit (rc_motion (co_recipe s))
      in if limit < following_error \<and> co_exec s \<in> {ES_Homing, ES_Running, ES_Recovering}
         then raise_fault ops ''FOLLOWING_ERROR'' ''Motion'' SV_Error
                (''Following error '' @ show_fixed 3 following_error @ '' exceeded limit '' @ show_fixed 3 limit @ ''.'')
                ''Inspect motion parameters, simulated load, and axis health before resetting.'' s
         else s)"

text \<open>\<open>Step\<close> up to the snapshot it returns.\<close>

definition step_machine :: "'m motion_ops \<Rightarrow> real \<Rightarrow> 'm coordinator \<Rightarrow> (unit, 'm coordinator) outcome" where
  "step_machine ops dt s =
     chain (motion_call (mo_step ops dt (mp_max_velocity (rc_motion (co_recipe s)))
                                        (mp_max_acceleration (rc_motion (co_recipe s))))
              (s\<lparr>co_sim_time := co_sim_time s + dt\<rparr>))
       (\<lambda>_ t. let current = mo_snapshot ops (co_motion t) (motion_state_for (co_exec t));
                  u = check_following_error ops current (check_permission ops current t);
                  current' = mo_snapshot ops (co_motion u) (motion_state_for (co_exec u))
              in run_execution ops dt current' u)"

section \<open>Snapshots\<close>

definition live_alarms :: "(string \<times> alarm_record) list \<Rightarrow> alarm_snapshot list" where
  "live_alarms xs = map alarm_to_snapshot (filter (\<lambda>a. al_lifecycle a \<noteq> AL_Historical) (map snd xs))"

definition production_of :: "'m coordinator \<Rightarrow> production_snapshot" where
  "production_of s =
     (let availability = (if co_exec s = ES_Faulted then 0.92 else 0.98);
          performance = (if co_cycles s = 0 then 1 else clampr 0 1 (5 / max 5 (co_last_cycle s)));
          quality = (if co_cycles s = 0 then 1
                     else of_int (co_good s) / of_int (max 1 (wrap64 (co_good s + co_reject s))))
      in \<lparr>prod_cycles = co_cycles s, prod_good = co_good s, prod_reject = co_reject s,
          prod_order = map_option order_to_snapshot (co_order s), prod_part_id = co_part s,
          prod_last_cycle = co_last_cycle s, prod_availability = availability, prod_performance = performance,
          prod_quality = quality, prod_oee = availability * performance * quality\<rparr>)"

definition allowed_recovery :: "'m coordinator \<Rightarrow> recovery_action list" where
  "allowed_recovery s =
     (if co_exec s = ES_RecoveryRequired
      then (if (case co_checkpoint s of None \<Rightarrow> False | Some cp \<Rightarrow> cp_order_id cp \<noteq> None \<and> cp_part_id cp \<noteq> None)
            then [RA_DiscardAndReset, RA_RehomeAndReset, RA_ResumeSimulation]
            else [RA_DiscardAndReset, RA_RehomeAndReset])
      else [])"

definition snapshot_unsafe :: "'m motion_ops \<Rightarrow> host_view \<Rightarrow> 'm coordinator \<Rightarrow> machine_snapshot \<times> 'm coordinator" where
  "snapshot_unsafe ops host s =
     (let motion = mo_snapshot ops (co_motion s) (motion_state_for (co_exec s));
          part = map_option (\<lambda>p. \<lparr>part_id = p, part_attached = co_gripper s, part_quality = PQ_Unknown,
                                   part_recipe_id = rc_id (co_recipe s),
                                   part_recipe_revision = rc_revision (co_recipe s)\<rparr>) (co_part s);
          recovery = \<lparr>rec_required = (co_exec s = ES_RecoveryRequired),
                      rec_reason = (case co_checkpoint s of None \<Rightarrow> [] | Some cp \<Rightarrow> cp_reason cp),
                      rec_allowed = allowed_recovery s\<rparr>
      in (\<lparr>st_revision = co_revision s, st_timestamp = co_reads s, st_simulation_time = co_sim_time s,
           st_mode = co_mode s, st_execution = co_exec s, st_step = co_step s, st_gripper_closed = co_gripper s,
           st_x = ms_x motion, st_y = ms_y motion, st_interlocks = build_interlocks s motion,
           st_active_part = part, st_alarms = live_alarms (co_alarms s), st_production = production_of s,
           st_runtime = hv_runtime host, st_recipe = recipe_to_snapshot (hv_checksum host) (co_recipe s),
           st_integration = hv_integration host, st_recovery = recovery,
           st_last_transition = co_last_transition s, st_correlation_id = co_correlation s\<rparr>,
          s\<lparr>co_reads := co_reads s + 1\<rparr>))"

definition step_snapshot :: "'m motion_ops \<Rightarrow> host_view \<Rightarrow> real \<Rightarrow> 'm coordinator \<Rightarrow> (machine_snapshot, 'm coordinator) outcome" where
  "step_snapshot ops host dt s =
     chain (step_machine ops dt s) (\<lambda>_ t. let r = snapshot_unsafe ops host t in (Inr (fst r), snd r))"

section \<open>Checkpoints and the event queue\<close>

definition create_checkpoint :: "'m motion_ops \<Rightarrow> string \<Rightarrow> 'm coordinator \<Rightarrow> recovery_checkpoint \<times> 'm coordinator" where
  "create_checkpoint ops reason s =
     (let motion = mo_snapshot ops (co_motion s) (motion_state_for (co_exec s))
      in (\<lparr>cp_timestamp = co_reads s, cp_revision = co_revision s, cp_mode = co_mode s, cp_execution = co_exec s,
           cp_step = co_step s, cp_part_id = co_part s, cp_order_id = map_option po_id (co_order s),
           cp_order_target = map_option po_target (co_order s),
           cp_order_completed = (case co_order s of None \<Rightarrow> 0 | Some p \<Rightarrow> po_completed p),
           cp_recipe_id = rc_id (co_recipe s), cp_recipe_revision = rc_revision (co_recipe s),
           cp_gripper_closed = co_gripper s,
           cp_x = ax_actual (ms_x motion), cp_y = ax_actual (ms_y motion),
           cp_x_target = ax_target (ms_x motion), cp_y_target = ax_target (ms_y motion),
           cp_cycle_started = co_cycle_started s, cp_reason = reason\<rparr>,
          s\<lparr>co_reads := co_reads s + 1\<rparr>))"

definition restore_checkpoint :: "'m motion_ops \<Rightarrow> recovery_checkpoint \<Rightarrow> 'm coordinator \<Rightarrow> (unit, 'm coordinator) outcome" where
  "restore_checkpoint ops cp s =
     (let t = (on_motion (mo_restore ops (cp_x cp) (cp_y cp) False (Some (cp_x_target cp)) (Some (cp_y_target cp))) s)
                \<lparr>co_mode := MM_Recovery, co_exec := ES_RecoveryRequired, co_step := cp_step cp,
                 co_part := cp_part_id cp, co_gripper := cp_gripper_closed cp,
                 co_cycle_started := cp_cycle_started cp, co_checkpoint := Some cp\<rparr>;
          with_order = (case (cp_order_id cp, cp_order_target cp) of
              (Some oid, Some target) \<Rightarrow>
                (if 0 < target
                 then (case new_order oid target (cp_recipe_id cp) (cp_recipe_revision cp) (co_reads t) of
                     Inl e \<Rightarrow> (Inl e, t)
                   | Inr p \<Rightarrow> (Inr (), t\<lparr>co_order := Some (restore_order (cp_order_completed cp) OS_Paused (co_reads t) p),
                                          co_reads := co_reads t + 1\<rparr>))
                 else (Inr (), t))
            | _ \<Rightarrow> (Inr (), t))
      in chain with_order (\<lambda>_ u.
           let v = u\<lparr>co_revision := long_inc (max (co_revision u) (cp_revision cp)),
                     co_last_transition := ''Recovery required after restart: '' @ cp_reason cp,
                     co_correlation := ''startup-recovery''\<rparr>
           in (Inr (), record_event ''recovery.required''
                 (TraceabilityPayload (case cp_order_id cp of None \<Rightarrow> ''none'' | Some x \<Rightarrow> x) (cp_part_id cp)
                    ''recovery-required'' (cp_reason cp)) v)))"

definition drain_events :: "'m coordinator \<Rightarrow> machine_event list \<times> 'm coordinator" where
  "drain_events s = (co_events s, s\<lparr>co_events := []\<rparr>)"

end
