(* ===== verification/CoordinatorFrames.thy ===== *)
theory CoordinatorFrames
  imports Cycle
begin

text \<open>
  Which fields of the coordinator each primitive operation leaves alone, and what it does to the
  others. Every fact is a simplification rule, so the later proofs never unfold the primitives.
\<close>

section \<open>Frames\<close>

lemma on_motion_frame [simp, frame_simps]:
  "co_events (on_motion f s) = co_events s"
  "co_alarms (on_motion f s) = co_alarms s"
  "co_recipe (on_motion f s) = co_recipe s"
  "co_order (on_motion f s) = co_order s"
  "co_checkpoint (on_motion f s) = co_checkpoint s"
  "co_mode (on_motion f s) = co_mode s"
  "co_exec (on_motion f s) = co_exec s"
  "co_step (on_motion f s) = co_step s"
  "co_gripper (on_motion f s) = co_gripper s"
  "co_estop_ok (on_motion f s) = co_estop_ok s"
  "co_guard_closed (on_motion f s) = co_guard_closed s"
  "co_bus_healthy (on_motion f s) = co_bus_healthy s"
  "co_revision (on_motion f s) = co_revision s"
  "co_sim_time (on_motion f s) = co_sim_time s"
  "co_dwell (on_motion f s) = co_dwell s"
  "co_cycles (on_motion f s) = co_cycles s"
  "co_good (on_motion f s) = co_good s"
  "co_reject (on_motion f s) = co_reject s"
  "co_part (on_motion f s) = co_part s"
  "co_cycle_started (on_motion f s) = co_cycle_started s"
  "co_last_cycle (on_motion f s) = co_last_cycle s"
  "co_last_transition (on_motion f s) = co_last_transition s"
  "co_correlation (on_motion f s) = co_correlation s"
  "co_reads (on_motion f s) = co_reads s"
  by (simp_all add: on_motion_def)

lemma motion_call_frame [simp, frame_simps]:
  "co_events (snd (motion_call f s)) = co_events s"
  "co_alarms (snd (motion_call f s)) = co_alarms s"
  "co_recipe (snd (motion_call f s)) = co_recipe s"
  "co_order (snd (motion_call f s)) = co_order s"
  "co_checkpoint (snd (motion_call f s)) = co_checkpoint s"
  "co_mode (snd (motion_call f s)) = co_mode s"
  "co_exec (snd (motion_call f s)) = co_exec s"
  "co_step (snd (motion_call f s)) = co_step s"
  "co_gripper (snd (motion_call f s)) = co_gripper s"
  "co_estop_ok (snd (motion_call f s)) = co_estop_ok s"
  "co_guard_closed (snd (motion_call f s)) = co_guard_closed s"
  "co_bus_healthy (snd (motion_call f s)) = co_bus_healthy s"
  "co_revision (snd (motion_call f s)) = co_revision s"
  "co_sim_time (snd (motion_call f s)) = co_sim_time s"
  "co_dwell (snd (motion_call f s)) = co_dwell s"
  "co_cycles (snd (motion_call f s)) = co_cycles s"
  "co_good (snd (motion_call f s)) = co_good s"
  "co_reject (snd (motion_call f s)) = co_reject s"
  "co_part (snd (motion_call f s)) = co_part s"
  "co_cycle_started (snd (motion_call f s)) = co_cycle_started s"
  "co_last_cycle (snd (motion_call f s)) = co_last_cycle s"
  "co_last_transition (snd (motion_call f s)) = co_last_transition s"
  "co_correlation (snd (motion_call f s)) = co_correlation s"
  "co_reads (snd (motion_call f s)) = co_reads s"
  by (simp_all add: motion_call_def Let_def)

lemma record_event_frame [simp, frame_simps]:
  "co_motion (record_event ty p s) = co_motion s"
  "co_alarms (record_event ty p s) = co_alarms s"
  "co_recipe (record_event ty p s) = co_recipe s"
  "co_order (record_event ty p s) = co_order s"
  "co_checkpoint (record_event ty p s) = co_checkpoint s"
  "co_mode (record_event ty p s) = co_mode s"
  "co_exec (record_event ty p s) = co_exec s"
  "co_step (record_event ty p s) = co_step s"
  "co_gripper (record_event ty p s) = co_gripper s"
  "co_estop_ok (record_event ty p s) = co_estop_ok s"
  "co_guard_closed (record_event ty p s) = co_guard_closed s"
  "co_bus_healthy (record_event ty p s) = co_bus_healthy s"
  "co_revision (record_event ty p s) = co_revision s"
  "co_sim_time (record_event ty p s) = co_sim_time s"
  "co_dwell (record_event ty p s) = co_dwell s"
  "co_cycles (record_event ty p s) = co_cycles s"
  "co_good (record_event ty p s) = co_good s"
  "co_reject (record_event ty p s) = co_reject s"
  "co_part (record_event ty p s) = co_part s"
  "co_cycle_started (record_event ty p s) = co_cycle_started s"
  "co_last_cycle (record_event ty p s) = co_last_cycle s"
  "co_last_transition (record_event ty p s) = co_last_transition s"
  "co_correlation (record_event ty p s) = co_correlation s"
  by (simp_all add: record_event_def)

lemma increment_revision_frame [simp, frame_simps]:
  "co_motion (increment_revision r s) = co_motion s"
  "co_events (increment_revision r s) = co_events s"
  "co_alarms (increment_revision r s) = co_alarms s"
  "co_recipe (increment_revision r s) = co_recipe s"
  "co_order (increment_revision r s) = co_order s"
  "co_checkpoint (increment_revision r s) = co_checkpoint s"
  "co_mode (increment_revision r s) = co_mode s"
  "co_exec (increment_revision r s) = co_exec s"
  "co_step (increment_revision r s) = co_step s"
  "co_gripper (increment_revision r s) = co_gripper s"
  "co_estop_ok (increment_revision r s) = co_estop_ok s"
  "co_guard_closed (increment_revision r s) = co_guard_closed s"
  "co_bus_healthy (increment_revision r s) = co_bus_healthy s"
  "co_sim_time (increment_revision r s) = co_sim_time s"
  "co_dwell (increment_revision r s) = co_dwell s"
  "co_cycles (increment_revision r s) = co_cycles s"
  "co_good (increment_revision r s) = co_good s"
  "co_reject (increment_revision r s) = co_reject s"
  "co_part (increment_revision r s) = co_part s"
  "co_cycle_started (increment_revision r s) = co_cycle_started s"
  "co_last_cycle (increment_revision r s) = co_last_cycle s"
  "co_correlation (increment_revision r s) = co_correlation s"
  "co_reads (increment_revision r s) = co_reads s"
  by (simp_all add: increment_revision_def)

lemma transition_frame [simp, frame_simps]:
  "co_motion (transition e st r s) = co_motion s"
  "co_alarms (transition e st r s) = co_alarms s"
  "co_recipe (transition e st r s) = co_recipe s"
  "co_order (transition e st r s) = co_order s"
  "co_checkpoint (transition e st r s) = co_checkpoint s"
  "co_mode (transition e st r s) = co_mode s"
  "co_gripper (transition e st r s) = co_gripper s"
  "co_estop_ok (transition e st r s) = co_estop_ok s"
  "co_guard_closed (transition e st r s) = co_guard_closed s"
  "co_bus_healthy (transition e st r s) = co_bus_healthy s"
  "co_sim_time (transition e st r s) = co_sim_time s"
  "co_dwell (transition e st r s) = co_dwell s"
  "co_cycles (transition e st r s) = co_cycles s"
  "co_good (transition e st r s) = co_good s"
  "co_reject (transition e st r s) = co_reject s"
  "co_part (transition e st r s) = co_part s"
  "co_cycle_started (transition e st r s) = co_cycle_started s"
  "co_last_cycle (transition e st r s) = co_last_cycle s"
  "co_correlation (transition e st r s) = co_correlation s"
  by (simp_all add: transition_def Let_def)

lemma accept_frame [simp, frame_simps]:
  "co_motion (snd (accept i c k s)) = co_motion s"
  "co_events (snd (accept i c k s)) = co_events s"
  "co_alarms (snd (accept i c k s)) = co_alarms s"
  "co_recipe (snd (accept i c k s)) = co_recipe s"
  "co_order (snd (accept i c k s)) = co_order s"
  "co_checkpoint (snd (accept i c k s)) = co_checkpoint s"
  "co_mode (snd (accept i c k s)) = co_mode s"
  "co_exec (snd (accept i c k s)) = co_exec s"
  "co_step (snd (accept i c k s)) = co_step s"
  "co_gripper (snd (accept i c k s)) = co_gripper s"
  "co_estop_ok (snd (accept i c k s)) = co_estop_ok s"
  "co_guard_closed (snd (accept i c k s)) = co_guard_closed s"
  "co_bus_healthy (snd (accept i c k s)) = co_bus_healthy s"
  "co_revision (snd (accept i c k s)) = co_revision s"
  "co_sim_time (snd (accept i c k s)) = co_sim_time s"
  "co_dwell (snd (accept i c k s)) = co_dwell s"
  "co_cycles (snd (accept i c k s)) = co_cycles s"
  "co_good (snd (accept i c k s)) = co_good s"
  "co_reject (snd (accept i c k s)) = co_reject s"
  "co_part (snd (accept i c k s)) = co_part s"
  "co_cycle_started (snd (accept i c k s)) = co_cycle_started s"
  "co_last_cycle (snd (accept i c k s)) = co_last_cycle s"
  "co_last_transition (snd (accept i c k s)) = co_last_transition s"
  "co_correlation (snd (accept i c k s)) = co_correlation s"
  by (simp_all add: accept_def)

lemma reject_frame [simp, frame_simps]:
  "co_motion (snd (reject i c k rs s)) = co_motion s"
  "co_events (snd (reject i c k rs s)) = co_events s"
  "co_alarms (snd (reject i c k rs s)) = co_alarms s"
  "co_recipe (snd (reject i c k rs s)) = co_recipe s"
  "co_order (snd (reject i c k rs s)) = co_order s"
  "co_checkpoint (snd (reject i c k rs s)) = co_checkpoint s"
  "co_mode (snd (reject i c k rs s)) = co_mode s"
  "co_exec (snd (reject i c k rs s)) = co_exec s"
  "co_step (snd (reject i c k rs s)) = co_step s"
  "co_gripper (snd (reject i c k rs s)) = co_gripper s"
  "co_estop_ok (snd (reject i c k rs s)) = co_estop_ok s"
  "co_guard_closed (snd (reject i c k rs s)) = co_guard_closed s"
  "co_bus_healthy (snd (reject i c k rs s)) = co_bus_healthy s"
  "co_revision (snd (reject i c k rs s)) = co_revision s"
  "co_sim_time (snd (reject i c k rs s)) = co_sim_time s"
  "co_dwell (snd (reject i c k rs s)) = co_dwell s"
  "co_cycles (snd (reject i c k rs s)) = co_cycles s"
  "co_good (snd (reject i c k rs s)) = co_good s"
  "co_reject (snd (reject i c k rs s)) = co_reject s"
  "co_part (snd (reject i c k rs s)) = co_part s"
  "co_cycle_started (snd (reject i c k rs s)) = co_cycle_started s"
  "co_last_cycle (snd (reject i c k rs s)) = co_last_cycle s"
  "co_last_transition (snd (reject i c k rs s)) = co_last_transition s"
  "co_correlation (snd (reject i c k rs s)) = co_correlation s"
  by (simp_all add: reject_def)

lemma update_order_frame [simp, frame_simps]:
  "co_motion (update_order f s) = co_motion s"
  "co_events (update_order f s) = co_events s"
  "co_alarms (update_order f s) = co_alarms s"
  "co_recipe (update_order f s) = co_recipe s"
  "co_checkpoint (update_order f s) = co_checkpoint s"
  "co_mode (update_order f s) = co_mode s"
  "co_exec (update_order f s) = co_exec s"
  "co_step (update_order f s) = co_step s"
  "co_gripper (update_order f s) = co_gripper s"
  "co_estop_ok (update_order f s) = co_estop_ok s"
  "co_guard_closed (update_order f s) = co_guard_closed s"
  "co_bus_healthy (update_order f s) = co_bus_healthy s"
  "co_revision (update_order f s) = co_revision s"
  "co_sim_time (update_order f s) = co_sim_time s"
  "co_dwell (update_order f s) = co_dwell s"
  "co_cycles (update_order f s) = co_cycles s"
  "co_good (update_order f s) = co_good s"
  "co_reject (update_order f s) = co_reject s"
  "co_part (update_order f s) = co_part s"
  "co_cycle_started (update_order f s) = co_cycle_started s"
  "co_last_cycle (update_order f s) = co_last_cycle s"
  "co_last_transition (update_order f s) = co_last_transition s"
  "co_correlation (update_order f s) = co_correlation s"
  "co_reads (update_order f s) = co_reads s"
  by (simp_all add: update_order_def)

lemma record_order_status_frame [simp, frame_simps]:
  "co_motion (record_order_status why s) = co_motion s"
  "co_alarms (record_order_status why s) = co_alarms s"
  "co_recipe (record_order_status why s) = co_recipe s"
  "co_order (record_order_status why s) = co_order s"
  "co_checkpoint (record_order_status why s) = co_checkpoint s"
  "co_mode (record_order_status why s) = co_mode s"
  "co_exec (record_order_status why s) = co_exec s"
  "co_step (record_order_status why s) = co_step s"
  "co_gripper (record_order_status why s) = co_gripper s"
  "co_estop_ok (record_order_status why s) = co_estop_ok s"
  "co_guard_closed (record_order_status why s) = co_guard_closed s"
  "co_bus_healthy (record_order_status why s) = co_bus_healthy s"
  "co_revision (record_order_status why s) = co_revision s"
  "co_sim_time (record_order_status why s) = co_sim_time s"
  "co_dwell (record_order_status why s) = co_dwell s"
  "co_cycles (record_order_status why s) = co_cycles s"
  "co_good (record_order_status why s) = co_good s"
  "co_reject (record_order_status why s) = co_reject s"
  "co_part (record_order_status why s) = co_part s"
  "co_cycle_started (record_order_status why s) = co_cycle_started s"
  "co_last_cycle (record_order_status why s) = co_last_cycle s"
  "co_last_transition (record_order_status why s) = co_last_transition s"
  "co_correlation (record_order_status why s) = co_correlation s"
  by (simp_all add: record_order_status_def split: option.split)

lemma pause_order_in_frame [simp, frame_simps]:
  "co_motion (pause_order_in why s) = co_motion s"
  "co_alarms (pause_order_in why s) = co_alarms s"
  "co_recipe (pause_order_in why s) = co_recipe s"
  "co_checkpoint (pause_order_in why s) = co_checkpoint s"
  "co_mode (pause_order_in why s) = co_mode s"
  "co_exec (pause_order_in why s) = co_exec s"
  "co_step (pause_order_in why s) = co_step s"
  "co_gripper (pause_order_in why s) = co_gripper s"
  "co_estop_ok (pause_order_in why s) = co_estop_ok s"
  "co_guard_closed (pause_order_in why s) = co_guard_closed s"
  "co_bus_healthy (pause_order_in why s) = co_bus_healthy s"
  "co_revision (pause_order_in why s) = co_revision s"
  "co_sim_time (pause_order_in why s) = co_sim_time s"
  "co_dwell (pause_order_in why s) = co_dwell s"
  "co_cycles (pause_order_in why s) = co_cycles s"
  "co_good (pause_order_in why s) = co_good s"
  "co_reject (pause_order_in why s) = co_reject s"
  "co_part (pause_order_in why s) = co_part s"
  "co_cycle_started (pause_order_in why s) = co_cycle_started s"
  "co_last_cycle (pause_order_in why s) = co_last_cycle s"
  "co_last_transition (pause_order_in why s) = co_last_transition s"
  "co_correlation (pause_order_in why s) = co_correlation s"
  by (simp_all add: pause_order_in_def)

lemma discard_frame [simp, frame_simps]:
  "co_motion (discard_interrupted_part s) = co_motion s"
  "co_alarms (discard_interrupted_part s) = co_alarms s"
  "co_recipe (discard_interrupted_part s) = co_recipe s"
  "co_order (discard_interrupted_part s) = co_order s"
  "co_checkpoint (discard_interrupted_part s) = co_checkpoint s"
  "co_mode (discard_interrupted_part s) = co_mode s"
  "co_exec (discard_interrupted_part s) = co_exec s"
  "co_step (discard_interrupted_part s) = co_step s"
  "co_estop_ok (discard_interrupted_part s) = co_estop_ok s"
  "co_guard_closed (discard_interrupted_part s) = co_guard_closed s"
  "co_bus_healthy (discard_interrupted_part s) = co_bus_healthy s"
  "co_revision (discard_interrupted_part s) = co_revision s"
  "co_sim_time (discard_interrupted_part s) = co_sim_time s"
  "co_dwell (discard_interrupted_part s) = co_dwell s"
  "co_cycles (discard_interrupted_part s) = co_cycles s"
  "co_good (discard_interrupted_part s) = co_good s"
  "co_last_cycle (discard_interrupted_part s) = co_last_cycle s"
  "co_last_transition (discard_interrupted_part s) = co_last_transition s"
  "co_correlation (discard_interrupted_part s) = co_correlation s"
  by (simp_all add: discard_interrupted_part_def Let_def split: option.split)

lemma command_position_frame [simp, frame_simps]:
  "co_events (snd (command_position ops p s)) = co_events s"
  "co_alarms (snd (command_position ops p s)) = co_alarms s"
  "co_recipe (snd (command_position ops p s)) = co_recipe s"
  "co_order (snd (command_position ops p s)) = co_order s"
  "co_checkpoint (snd (command_position ops p s)) = co_checkpoint s"
  "co_mode (snd (command_position ops p s)) = co_mode s"
  "co_exec (snd (command_position ops p s)) = co_exec s"
  "co_step (snd (command_position ops p s)) = co_step s"
  "co_gripper (snd (command_position ops p s)) = co_gripper s"
  "co_estop_ok (snd (command_position ops p s)) = co_estop_ok s"
  "co_guard_closed (snd (command_position ops p s)) = co_guard_closed s"
  "co_bus_healthy (snd (command_position ops p s)) = co_bus_healthy s"
  "co_revision (snd (command_position ops p s)) = co_revision s"
  "co_sim_time (snd (command_position ops p s)) = co_sim_time s"
  "co_dwell (snd (command_position ops p s)) = co_dwell s"
  "co_cycles (snd (command_position ops p s)) = co_cycles s"
  "co_good (snd (command_position ops p s)) = co_good s"
  "co_reject (snd (command_position ops p s)) = co_reject s"
  "co_part (snd (command_position ops p s)) = co_part s"
  "co_cycle_started (snd (command_position ops p s)) = co_cycle_started s"
  "co_last_cycle (snd (command_position ops p s)) = co_last_cycle s"
  "co_last_transition (snd (command_position ops p s)) = co_last_transition s"
  "co_correlation (snd (command_position ops p s)) = co_correlation s"
  "co_reads (snd (command_position ops p s)) = co_reads s"
  by (simp_all add: command_position_def)

lemma command_target_frame [simp, frame_simps]:
  "co_events (snd (command_target_for_current_step ops s)) = co_events s"
  "co_alarms (snd (command_target_for_current_step ops s)) = co_alarms s"
  "co_recipe (snd (command_target_for_current_step ops s)) = co_recipe s"
  "co_order (snd (command_target_for_current_step ops s)) = co_order s"
  "co_checkpoint (snd (command_target_for_current_step ops s)) = co_checkpoint s"
  "co_mode (snd (command_target_for_current_step ops s)) = co_mode s"
  "co_exec (snd (command_target_for_current_step ops s)) = co_exec s"
  "co_step (snd (command_target_for_current_step ops s)) = co_step s"
  "co_gripper (snd (command_target_for_current_step ops s)) = co_gripper s"
  "co_estop_ok (snd (command_target_for_current_step ops s)) = co_estop_ok s"
  "co_guard_closed (snd (command_target_for_current_step ops s)) = co_guard_closed s"
  "co_bus_healthy (snd (command_target_for_current_step ops s)) = co_bus_healthy s"
  "co_revision (snd (command_target_for_current_step ops s)) = co_revision s"
  "co_sim_time (snd (command_target_for_current_step ops s)) = co_sim_time s"
  "co_dwell (snd (command_target_for_current_step ops s)) = co_dwell s"
  "co_cycles (snd (command_target_for_current_step ops s)) = co_cycles s"
  "co_good (snd (command_target_for_current_step ops s)) = co_good s"
  "co_reject (snd (command_target_for_current_step ops s)) = co_reject s"
  "co_part (snd (command_target_for_current_step ops s)) = co_part s"
  "co_cycle_started (snd (command_target_for_current_step ops s)) = co_cycle_started s"
  "co_last_cycle (snd (command_target_for_current_step ops s)) = co_last_cycle s"
  "co_last_transition (snd (command_target_for_current_step ops s)) = co_last_transition s"
  "co_correlation (snd (command_target_for_current_step ops s)) = co_correlation s"
  "co_reads (snd (command_target_for_current_step ops s)) = co_reads s"
  by (simp_all add: command_target_for_current_step_def Let_def)

lemma begin_cycle_frame [simp, frame_simps]:
  "co_motion (snd (begin_cycle s)) = co_motion s"
  "co_alarms (snd (begin_cycle s)) = co_alarms s"
  "co_recipe (snd (begin_cycle s)) = co_recipe s"
  "co_order (snd (begin_cycle s)) = co_order s"
  "co_checkpoint (snd (begin_cycle s)) = co_checkpoint s"
  "co_mode (snd (begin_cycle s)) = co_mode s"
  "co_exec (snd (begin_cycle s)) = co_exec s"
  "co_step (snd (begin_cycle s)) = co_step s"
  "co_gripper (snd (begin_cycle s)) = co_gripper s"
  "co_estop_ok (snd (begin_cycle s)) = co_estop_ok s"
  "co_guard_closed (snd (begin_cycle s)) = co_guard_closed s"
  "co_bus_healthy (snd (begin_cycle s)) = co_bus_healthy s"
  "co_revision (snd (begin_cycle s)) = co_revision s"
  "co_sim_time (snd (begin_cycle s)) = co_sim_time s"
  "co_dwell (snd (begin_cycle s)) = co_dwell s"
  "co_cycles (snd (begin_cycle s)) = co_cycles s"
  "co_good (snd (begin_cycle s)) = co_good s"
  "co_reject (snd (begin_cycle s)) = co_reject s"
  "co_last_cycle (snd (begin_cycle s)) = co_last_cycle s"
  "co_last_transition (snd (begin_cycle s)) = co_last_transition s"
  "co_correlation (snd (begin_cycle s)) = co_correlation s"
  by (simp_all add: begin_cycle_def Let_def split: option.split)

lemma complete_cycle_frame [simp, frame_simps]:
  "co_motion (snd (complete_cycle s)) = co_motion s"
  "co_alarms (snd (complete_cycle s)) = co_alarms s"
  "co_recipe (snd (complete_cycle s)) = co_recipe s"
  "co_checkpoint (snd (complete_cycle s)) = co_checkpoint s"
  "co_mode (snd (complete_cycle s)) = co_mode s"
  "co_exec (snd (complete_cycle s)) = co_exec s"
  "co_step (snd (complete_cycle s)) = co_step s"
  "co_gripper (snd (complete_cycle s)) = co_gripper s"
  "co_estop_ok (snd (complete_cycle s)) = co_estop_ok s"
  "co_guard_closed (snd (complete_cycle s)) = co_guard_closed s"
  "co_bus_healthy (snd (complete_cycle s)) = co_bus_healthy s"
  "co_revision (snd (complete_cycle s)) = co_revision s"
  "co_sim_time (snd (complete_cycle s)) = co_sim_time s"
  "co_dwell (snd (complete_cycle s)) = co_dwell s"
  "co_reject (snd (complete_cycle s)) = co_reject s"
  "co_last_transition (snd (complete_cycle s)) = co_last_transition s"
  "co_correlation (snd (complete_cycle s)) = co_correlation s"
  by (simp_all add: complete_cycle_def Let_def split: option.split)

lemma raise_fault_frame [simp, frame_simps]:
  "co_recipe (raise_fault ops code src sv msg act s) = co_recipe s"
  "co_order (raise_fault ops code src sv msg act s) = co_order s"
  "co_checkpoint (raise_fault ops code src sv msg act s) = co_checkpoint s"
  "co_mode (raise_fault ops code src sv msg act s) = co_mode s"
  "co_gripper (raise_fault ops code src sv msg act s) = co_gripper s"
  "co_estop_ok (raise_fault ops code src sv msg act s) = co_estop_ok s"
  "co_guard_closed (raise_fault ops code src sv msg act s) = co_guard_closed s"
  "co_bus_healthy (raise_fault ops code src sv msg act s) = co_bus_healthy s"
  "co_sim_time (raise_fault ops code src sv msg act s) = co_sim_time s"
  "co_dwell (raise_fault ops code src sv msg act s) = co_dwell s"
  "co_cycles (raise_fault ops code src sv msg act s) = co_cycles s"
  "co_good (raise_fault ops code src sv msg act s) = co_good s"
  "co_reject (raise_fault ops code src sv msg act s) = co_reject s"
  "co_part (raise_fault ops code src sv msg act s) = co_part s"
  "co_cycle_started (raise_fault ops code src sv msg act s) = co_cycle_started s"
  "co_last_cycle (raise_fault ops code src sv msg act s) = co_last_cycle s"
  "co_correlation (raise_fault ops code src sv msg act s) = co_correlation s"
  by (simp_all add: raise_fault_def Let_def)

lemma clear_active_alarms_frame [simp, frame_simps]:
  "co_motion (clear_active_alarms done xs s) = co_motion s"
  "co_recipe (clear_active_alarms done xs s) = co_recipe s"
  "co_order (clear_active_alarms done xs s) = co_order s"
  "co_checkpoint (clear_active_alarms done xs s) = co_checkpoint s"
  "co_mode (clear_active_alarms done xs s) = co_mode s"
  "co_exec (clear_active_alarms done xs s) = co_exec s"
  "co_step (clear_active_alarms done xs s) = co_step s"
  "co_gripper (clear_active_alarms done xs s) = co_gripper s"
  "co_estop_ok (clear_active_alarms done xs s) = co_estop_ok s"
  "co_guard_closed (clear_active_alarms done xs s) = co_guard_closed s"
  "co_bus_healthy (clear_active_alarms done xs s) = co_bus_healthy s"
  "co_revision (clear_active_alarms done xs s) = co_revision s"
  "co_sim_time (clear_active_alarms done xs s) = co_sim_time s"
  "co_dwell (clear_active_alarms done xs s) = co_dwell s"
  "co_cycles (clear_active_alarms done xs s) = co_cycles s"
  "co_good (clear_active_alarms done xs s) = co_good s"
  "co_reject (clear_active_alarms done xs s) = co_reject s"
  "co_part (clear_active_alarms done xs s) = co_part s"
  "co_cycle_started (clear_active_alarms done xs s) = co_cycle_started s"
  "co_last_cycle (clear_active_alarms done xs s) = co_last_cycle s"
  "co_last_transition (clear_active_alarms done xs s) = co_last_transition s"
  "co_correlation (clear_active_alarms done xs s) = co_correlation s"
  by (induction "done" xs s rule: clear_active_alarms.induct) (simp_all add: Let_def)

lemma acknowledge_all_frame [simp, frame_simps]:
  "co_motion (acknowledge_all user done xs s) = co_motion s"
  "co_recipe (acknowledge_all user done xs s) = co_recipe s"
  "co_order (acknowledge_all user done xs s) = co_order s"
  "co_checkpoint (acknowledge_all user done xs s) = co_checkpoint s"
  "co_mode (acknowledge_all user done xs s) = co_mode s"
  "co_exec (acknowledge_all user done xs s) = co_exec s"
  "co_step (acknowledge_all user done xs s) = co_step s"
  "co_gripper (acknowledge_all user done xs s) = co_gripper s"
  "co_estop_ok (acknowledge_all user done xs s) = co_estop_ok s"
  "co_guard_closed (acknowledge_all user done xs s) = co_guard_closed s"
  "co_bus_healthy (acknowledge_all user done xs s) = co_bus_healthy s"
  "co_revision (acknowledge_all user done xs s) = co_revision s"
  "co_sim_time (acknowledge_all user done xs s) = co_sim_time s"
  "co_dwell (acknowledge_all user done xs s) = co_dwell s"
  "co_cycles (acknowledge_all user done xs s) = co_cycles s"
  "co_good (acknowledge_all user done xs s) = co_good s"
  "co_reject (acknowledge_all user done xs s) = co_reject s"
  "co_part (acknowledge_all user done xs s) = co_part s"
  "co_cycle_started (acknowledge_all user done xs s) = co_cycle_started s"
  "co_last_cycle (acknowledge_all user done xs s) = co_last_cycle s"
  "co_last_transition (acknowledge_all user done xs s) = co_last_transition s"
  "co_correlation (acknowledge_all user done xs s) = co_correlation s"
  by (induction user "done" xs s rule: acknowledge_all.induct) (simp_all add: Let_def)

lemma check_permission_frame [simp, frame_simps]:
  "co_recipe (check_permission ops m s) = co_recipe s"
  "co_order (check_permission ops m s) = co_order s"
  "co_checkpoint (check_permission ops m s) = co_checkpoint s"
  "co_mode (check_permission ops m s) = co_mode s"
  "co_gripper (check_permission ops m s) = co_gripper s"
  "co_estop_ok (check_permission ops m s) = co_estop_ok s"
  "co_guard_closed (check_permission ops m s) = co_guard_closed s"
  "co_bus_healthy (check_permission ops m s) = co_bus_healthy s"
  "co_sim_time (check_permission ops m s) = co_sim_time s"
  "co_dwell (check_permission ops m s) = co_dwell s"
  "co_cycles (check_permission ops m s) = co_cycles s"
  "co_good (check_permission ops m s) = co_good s"
  "co_reject (check_permission ops m s) = co_reject s"
  "co_part (check_permission ops m s) = co_part s"
  "co_cycle_started (check_permission ops m s) = co_cycle_started s"
  "co_last_cycle (check_permission ops m s) = co_last_cycle s"
  "co_correlation (check_permission ops m s) = co_correlation s"
  by (simp_all add: check_permission_def Let_def)

lemma check_following_error_frame [simp, frame_simps]:
  "co_recipe (check_following_error ops m s) = co_recipe s"
  "co_order (check_following_error ops m s) = co_order s"
  "co_checkpoint (check_following_error ops m s) = co_checkpoint s"
  "co_mode (check_following_error ops m s) = co_mode s"
  "co_gripper (check_following_error ops m s) = co_gripper s"
  "co_estop_ok (check_following_error ops m s) = co_estop_ok s"
  "co_guard_closed (check_following_error ops m s) = co_guard_closed s"
  "co_bus_healthy (check_following_error ops m s) = co_bus_healthy s"
  "co_sim_time (check_following_error ops m s) = co_sim_time s"
  "co_dwell (check_following_error ops m s) = co_dwell s"
  "co_cycles (check_following_error ops m s) = co_cycles s"
  "co_good (check_following_error ops m s) = co_good s"
  "co_reject (check_following_error ops m s) = co_reject s"
  "co_part (check_following_error ops m s) = co_part s"
  "co_cycle_started (check_following_error ops m s) = co_cycle_started s"
  "co_last_cycle (check_following_error ops m s) = co_last_cycle s"
  "co_correlation (check_following_error ops m s) = co_correlation s"
  by (simp_all add: check_following_error_def Let_def)

section \<open>What the primitives write\<close>

lemma transition_exec [simp]: "co_exec (transition e st r s) = e"
  by (simp add: transition_def Let_def)

lemma transition_step [simp]: "co_step (transition e st r s) = st"
  by (simp add: transition_def Let_def)

lemma transition_revision:
  "co_revision (transition e st r s) =
     (if co_exec s = e \<and> co_step s = st then co_revision s else long_inc (co_revision s))"
  by (simp add: transition_def Let_def increment_revision_def)

lemma increment_revision_revision [simp]: "co_revision (increment_revision r s) = long_inc (co_revision s)"
  by (simp add: increment_revision_def)

lemma on_motion_motion [simp]: "co_motion (on_motion f s) = f (co_motion s)"
  by (simp add: on_motion_def)

lemma motion_call_motion [simp]: "co_motion (snd (motion_call f s)) = snd (f (co_motion s))"
  by (simp add: motion_call_def Let_def)

lemma motion_call_throws [simp]: "throws (motion_call f s) = throws (f (co_motion s))"
  by (simp add: motion_call_def Let_def throws_def)

lemma command_position_motion [simp]:
  "co_motion (snd (command_position ops p s)) =
     snd (mo_set_target ops (pos_x p) (pos_y p) (mo_enable_all ops (co_motion s)))"
  by (simp add: command_position_def)

lemma command_position_throws [simp]:
  "throws (command_position ops p s) = throws (mo_set_target ops (pos_x p) (pos_y p) (mo_enable_all ops (co_motion s)))"
  by (simp add: command_position_def)

lemma update_order_order [simp]: "co_order (update_order f s) = map_option f (co_order s)"
  by (simp add: update_order_def)

lemma pause_order_in_order [simp]: "co_order (pause_order_in why s) = map_option pause_order (co_order s)"
  by (simp add: pause_order_in_def)

lemma discard_writes [simp]:
  "co_part (discard_interrupted_part s) = None" "co_gripper (discard_interrupted_part s) = False"
  "co_cycle_started (discard_interrupted_part s) = None"
  by (simp_all add: discard_interrupted_part_def Let_def)

lemma raise_fault_writes [simp]:
  "co_exec (raise_fault ops code src sv msg act s) = ES_Faulted"
  "co_step (raise_fault ops code src sv msg act s) = co_step s"
  "co_motion (raise_fault ops code src sv msg act s) = mo_hold ops (co_motion s)"
  by (simp_all add: raise_fault_def Let_def)

lemma accept_value [simp]:
  "fst (accept i c k s) = Inr (accepted_result i (co_revision s) c k (co_reads s))"
  by (simp add: accept_def)

lemma reject_value [simp]:
  "fst (reject i c k rs s) = Inr (rejected_result i (co_revision s) c k rs (co_reads s))"
  by (simp add: reject_def)

lemma accept_returns [simp]: "\<not> throws (accept i c k s)" "\<not> throws (reject i c k rs s)"
  by (simp_all add: throws_def)

lemma build_interlocks_sel [simp]:
  "il_emergency_stop_ok (build_interlocks s m) = co_estop_ok s"
  "il_guard_closed (build_interlocks s m) = co_guard_closed s"
  "il_bus_healthy (build_interlocks s m) = co_bus_healthy s"
  "il_drives_healthy (build_interlocks s m) = (\<not> ms_any_faulted m)"
  by (simp_all add: build_interlocks_def Let_def)

text \<open>Motion is permitted exactly when all four conditions hold, and exactly then no reason is reported.\<close>

lemma motion_permitted_iff:
  "il_motion_permitted (build_interlocks s m) \<longleftrightarrow>
     co_estop_ok s \<and> co_guard_closed s \<and> co_bus_healthy s \<and> \<not> ms_any_faulted m"
  by (simp add: build_interlocks_def Let_def)

lemma interlock_reasons_iff: "il_reasons (build_interlocks s m) = [] \<longleftrightarrow> il_motion_permitted (build_interlocks s m)"
  by (simp add: build_interlocks_def Let_def)

end
