(* ===== verification/CoordinatorInv.thy ===== *)
theory CoordinatorInv
  imports CoordinatorFrames
begin

text \<open>
  The invariant of the coordinator: what automatic operation and recovery may rely on, and what
  the bookkeeping primitives cannot break.
\<close>

section \<open>The invariant\<close>

definition automatic_states :: "execution_state set" where
  "automatic_states = {ES_Starting, ES_Running, ES_Pausing, ES_Paused}"

definition order_inv :: "production_order \<Rightarrow> bool" where
  "order_inv p \<longleftrightarrow> order_ok p \<and> \<not> is_blank (po_id p) \<and>
     (po_status p \<noteq> OS_Completed \<and> po_status p \<noteq> OS_Cancelled \<longrightarrow> po_completed p \<le> po_target p)"

definition open_order :: "production_order option \<Rightarrow> bool" where
  "open_order x \<longleftrightarrow> (\<exists>p. x = Some p \<and> po_completed p \<le> po_target p)"

definition homed :: "'m motion_ops \<Rightarrow> 'm \<Rightarrow> bool" where
  "homed ops m \<longleftrightarrow> ms_all_homed (mo_snapshot ops m AM_Standstill)"

definition orders_inv :: "'m coordinator \<Rightarrow> bool" where
  "orders_inv s \<longleftrightarrow> (\<forall>p. co_order s = Some p \<longrightarrow> order_inv p)"

definition automatic_inv :: "'m motion_ops \<Rightarrow> 'm coordinator \<Rightarrow> bool" where
  "automatic_inv ops s \<longleftrightarrow>
     (co_exec s \<in> automatic_states \<longrightarrow> homed ops (co_motion s) \<and> open_order (co_order s)) \<and>
     (co_exec s \<in> {ES_Running, ES_Pausing, ES_Paused} \<longrightarrow> co_part s \<noteq> None)"

definition recovery_inv :: "'m coordinator \<Rightarrow> bool" where
  "recovery_inv s \<longleftrightarrow>
     (co_exec s = ES_RecoveryRequired \<longrightarrow>
       (\<forall>cp. co_checkpoint s = Some cp \<and> cp_order_id cp \<noteq> None \<longrightarrow> open_order (co_order s)))"

definition coord_inv :: "'m motion_ops \<Rightarrow> ('m \<Rightarrow> bool) \<Rightarrow> 'm coordinator \<Rightarrow> bool" where
  "coord_inv ops good s \<longleftrightarrow>
     good (co_motion s) \<and> recipe_ok (co_recipe s) \<and> orders_inv s \<and> automatic_inv ops s \<and> recovery_inv s"

text \<open>A checkpoint that names an order also carries its target, as \<open>CreateCheckpoint\<close> writes it.\<close>

definition checkpoint_ok :: "recovery_checkpoint \<Rightarrow> bool" where
  "checkpoint_ok cp \<longleftrightarrow> (\<forall>oid. cp_order_id cp = Some oid \<longrightarrow>
     \<not> is_blank oid \<and> (\<exists>n. cp_order_target cp = Some n \<and> 0 < n \<and> n < 2 ^ 31))"

lemmas inv_defs = coord_inv_def orders_inv_def automatic_inv_def recovery_inv_def automatic_states_def

section \<open>Orders\<close>

lemma dropWhile_not_all: "\<not> list_all P xs \<Longrightarrow> \<exists>y ys. dropWhile P xs = y # ys \<and> \<not> P y"
  by (induction xs) auto

lemma trim_not_blank: "\<not> is_blank s \<Longrightarrow> \<not> is_blank (trim s)"
proof -
  assume "\<not> is_blank s"
  then obtain y ys where y: "trim_start s = y # ys" "\<not> is_space y"
    unfolding is_blank_def trim_start_def by (blast dest: dropWhile_not_all)
  then have "\<not> list_all is_space (rev (trim_start s))"
    by (auto simp: list_all_iff)
  then obtain z zs where "dropWhile is_space (rev (trim_start s)) = z # zs" "\<not> is_space z"
    by (blast dest: dropWhile_not_all)
  then show ?thesis
    by (auto simp: trim_def is_blank_def list_all_iff)
qed

lemma new_order_inv:
  assumes "new_order i n r v t = Inr p" and "n < 2 ^ 31"
  shows "order_inv p" and "po_completed p = 0"
  using assms new_order_ok [OF assms] trim_not_blank [of i]
  by (auto simp: new_order_def order_inv_def order_ok_def split: if_splits)

lemma order_inv_pause: "order_inv p \<Longrightarrow> order_inv (pause_order p)"
  by (simp add: order_inv_def pause_order_def order_ok_def)

lemma order_inv_resume: "order_inv p \<Longrightarrow> order_inv (resume_order p)"
  by (simp add: order_inv_def resume_order_def order_ok_def)

lemma order_inv_cancel: "order_inv p \<Longrightarrow> order_inv (cancel_order p)"
  by (simp add: order_inv_def cancel_order_def order_ok_def)

lemma order_inv_activate:
  "order_inv p \<Longrightarrow> po_completed p \<le> po_target p \<Longrightarrow> order_inv (activate_order p)"
  by (simp add: order_inv_def activate_order_def order_ok_def)

lemma order_inv_restore: "order_inv p \<Longrightarrow> order_inv (restore_order n OS_Paused t p)"
  using clampi_bounds [of 0 "po_target p" n] by (simp add: order_inv_def order_ok_def)

lemma order_inv_record:
  assumes "order_inv p" and "po_completed p \<le> po_target p"
  shows "order_inv (snd (record_completed_part t p))"
    and "\<not> fst (record_completed_part t p) \<Longrightarrow>
      po_completed (snd (record_completed_part t p)) \<le> po_target (snd (record_completed_part t p))"
proof -
  have bounds: "0 \<le> po_completed p" "po_target p < 2 ^ 31"
    using assms by (simp_all add: order_inv_def order_ok_def)
  note facts = record_completed_part_exact [OF bounds(1) assms(2) bounds(2), of t]
  show "order_inv (snd (record_completed_part t p))"
    using assms facts record_completed_part_status [of t p]
    by (auto simp: order_inv_def order_ok_def)
  show "\<not> fst (record_completed_part t p) \<Longrightarrow>
      po_completed (snd (record_completed_part t p)) \<le> po_target (snd (record_completed_part t p))"
    using facts by simp
qed

lemma open_order_simps [simp]:
  "open_order (map_option pause_order x) = open_order x"
  "open_order (map_option resume_order x) = open_order x"
  "open_order (map_option cancel_order x) = open_order x"
  "open_order (map_option activate_order x) = open_order x"
  "open_order (Some (pause_order p)) = open_order (Some p)"
  "open_order (Some (resume_order p)) = open_order (Some p)"
  "open_order (Some (cancel_order p)) = open_order (Some p)"
  "open_order (Some (activate_order p)) = open_order (Some p)"
  by (auto simp: open_order_def)

lemma orders_inv_map [simp]:
  "orders_inv s \<Longrightarrow> co_order s = Some p \<Longrightarrow> order_inv (pause_order p)"
  "orders_inv s \<Longrightarrow> co_order s = Some p \<Longrightarrow> order_inv (resume_order p)"
  "orders_inv s \<Longrightarrow> co_order s = Some p \<Longrightarrow> order_inv (cancel_order p)"
  by (simp_all add: orders_inv_def order_inv_pause order_inv_resume order_inv_cancel)

section \<open>What the bookkeeping operations cannot break\<close>

lemma coord_inv_bookkeeping [simp]:
  "coord_inv ops good (snd (accept i c k s)) = coord_inv ops good s"
  "coord_inv ops good (snd (reject i c k rs s)) = coord_inv ops good s"
  "coord_inv ops good (record_event ty p s) = coord_inv ops good s"
  "coord_inv ops good (increment_revision r s) = coord_inv ops good s"
  "coord_inv ops good (record_order_status why s) = coord_inv ops good s"
  "coord_inv ops good (s\<lparr>co_correlation := c\<rparr>) = coord_inv ops good s"
  "coord_inv ops good (s\<lparr>co_mode := m\<rparr>) = coord_inv ops good s"
  "coord_inv ops good (s\<lparr>co_dwell := d\<rparr>) = coord_inv ops good s"
  "coord_inv ops good (s\<lparr>co_sim_time := d\<rparr>) = coord_inv ops good s"
  "coord_inv ops good (s\<lparr>co_gripper := g\<rparr>) = coord_inv ops good s"
  "coord_inv ops good (s\<lparr>co_estop_ok := g\<rparr>) = coord_inv ops good s"
  "coord_inv ops good (s\<lparr>co_guard_closed := g\<rparr>) = coord_inv ops good s"
  "coord_inv ops good (s\<lparr>co_bus_healthy := g\<rparr>) = coord_inv ops good s"
  "coord_inv ops good (s\<lparr>co_reads := n\<rparr>) = coord_inv ops good s"
  "coord_inv ops good (s\<lparr>co_events := es\<rparr>) = coord_inv ops good s"
  "coord_inv ops good (s\<lparr>co_alarms := as\<rparr>) = coord_inv ops good s"
  "coord_inv ops good (clear_active_alarms done xs s) = coord_inv ops good s"
  "coord_inv ops good (acknowledge_all u done xs s) = coord_inv ops good s"
  by (simp_all add: inv_defs)

lemma coord_inv_parts:
  assumes "coord_inv ops good s"
  shows coord_inv_good: "good (co_motion s)"
    and coord_inv_recipe: "recipe_ok (co_recipe s)"
    and coord_inv_orders: "orders_inv s"
    and coord_inv_homed: "co_exec s \<in> automatic_states \<Longrightarrow> homed ops (co_motion s)"
    and coord_inv_open: "co_exec s \<in> automatic_states \<Longrightarrow> open_order (co_order s)"
    and coord_inv_part: "co_exec s \<in> {ES_Running, ES_Pausing, ES_Paused} \<Longrightarrow> co_part s \<noteq> None"
  using assms by (simp_all add: coord_inv_def automatic_inv_def)

lemmas coord_inv_chain = chain_keeps [where P = "coord_inv ops good" for ops good]

text \<open>Outside automatic operation and recovery the invariant asks only for motion, recipe and order.\<close>

lemma coord_inv_idle:
  assumes "co_exec s \<notin> automatic_states" and "co_exec s \<noteq> ES_RecoveryRequired"
  shows "coord_inv ops good s \<longleftrightarrow> good (co_motion s) \<and> recipe_ok (co_recipe s) \<and> orders_inv s"
  using assms by (auto simp: inv_defs)

lemma idle_states [simp]:
  "ES_Stopped \<notin> automatic_states" "ES_Ready \<notin> automatic_states" "ES_Initializing \<notin> automatic_states"
  "ES_Homing \<notin> automatic_states" "ES_Stopping \<notin> automatic_states" "ES_Aborting \<notin> automatic_states"
  "ES_Faulted \<notin> automatic_states" "ES_Recovering \<notin> automatic_states" "ES_RecoveryRequired \<notin> automatic_states"
  "ES_Starting \<in> automatic_states" "ES_Running \<in> automatic_states" "ES_Pausing \<in> automatic_states"
  "ES_Paused \<in> automatic_states"
  by (simp_all add: automatic_states_def)

lemma orders_inv_frame [simp]:
  "orders_inv (transition e st r s) = orders_inv s"
  "orders_inv (on_motion f s) = orders_inv s"
  "orders_inv (snd (motion_call h s)) = orders_inv s"
  "orders_inv (snd (command_position ops p s)) = orders_inv s"
  "orders_inv (snd (command_target_for_current_step ops s)) = orders_inv s"
  "orders_inv (discard_interrupted_part s) = orders_inv s"
  "orders_inv (record_event ty pl s) = orders_inv s"
  "orders_inv (record_order_status why s) = orders_inv s"
  "orders_inv (increment_revision why s) = orders_inv s"
  "orders_inv (snd (accept i c k s)) = orders_inv s"
  "orders_inv (snd (reject i c k rs s)) = orders_inv s"
  "orders_inv (raise_fault ops code src sv msg act s) = orders_inv s"
  "orders_inv (s\<lparr>co_mode := m\<rparr>) = orders_inv s"
  "orders_inv (s\<lparr>co_checkpoint := cc\<rparr>) = orders_inv s"
  "orders_inv (s\<lparr>co_gripper := g\<rparr>) = orders_inv s"
  "orders_inv (s\<lparr>co_dwell := d\<rparr>) = orders_inv s"
  "orders_inv (s\<lparr>co_sim_time := d\<rparr>) = orders_inv s"
  "orders_inv (s\<lparr>co_alarms := a\<rparr>) = orders_inv s"
  "orders_inv (s\<lparr>co_estop_ok := b\<rparr>) = orders_inv s"
  "orders_inv (s\<lparr>co_guard_closed := b\<rparr>) = orders_inv s"
  "orders_inv (s\<lparr>co_bus_healthy := b\<rparr>) = orders_inv s"
  "orders_inv (clear_active_alarms done xs s) = orders_inv s"
  by (simp_all add: orders_inv_def)

lemma orders_inv_update [simp]:
  "orders_inv s \<Longrightarrow> orders_inv (update_order pause_order s)"
  "orders_inv s \<Longrightarrow> orders_inv (update_order resume_order s)"
  "orders_inv s \<Longrightarrow> orders_inv (update_order cancel_order s)"
  "orders_inv s \<Longrightarrow> open_order (co_order s) \<Longrightarrow> orders_inv (update_order activate_order s)"
  by (auto simp: orders_inv_def order_inv_pause order_inv_resume order_inv_cancel order_inv_activate open_order_def)

lemma coord_inv_update [simp]:
  "coord_inv ops good s \<Longrightarrow> coord_inv ops good (update_order pause_order s)"
  "coord_inv ops good s \<Longrightarrow> coord_inv ops good (update_order resume_order s)"
  "coord_inv ops good s \<Longrightarrow> coord_inv ops good (update_order cancel_order s)"
  by (simp_all add: coord_inv_def automatic_inv_def recovery_inv_def)

lemma pause_in_inv [simp]:
  "coord_inv ops good s \<Longrightarrow> coord_inv ops good (pause_order_in why s)"
  "orders_inv s \<Longrightarrow> orders_inv (pause_order_in why s)"
  by (simp_all add: pause_order_in_def)

text \<open>Inside automatic operation a transition keeps the invariant when a part is in process.\<close>

lemma coord_inv_to_automatic:
  assumes "coord_inv ops good s" and "co_exec s \<in> automatic_states" and "co_part s \<noteq> None"
    and "e \<in> automatic_states"
  shows "coord_inv ops good (transition e st r s)"
proof -
  have "e \<noteq> ES_RecoveryRequired" using assms(4) by (auto simp: automatic_states_def)
  then show ?thesis using assms by (simp add: coord_inv_def automatic_inv_def recovery_inv_def)
qed

end
