(* ===== verification/CoordinatorSafe.thy ===== *)
theory CoordinatorSafe
  imports CoordinatorInv
begin

text \<open>
  The invariant is kept by every operation of the coordinator, for any motion system that keeps
  the \<open>servo_motion\<close> contract.
\<close>

section \<open>Preservation by every command\<close>

context servo_motion
begin

lemma homed_simps [simp]:
  "homed ops (mo_enable_all ops m) = homed ops m"
  "homed ops (mo_disable_all ops m) = homed ops m"
  "homed ops (mo_hold ops m) = homed ops m"
  "homed ops (snd (mo_set_target ops x y m)) = homed ops m"
  "homed ops (mo_inject_fault ops f m) = homed ops m"
  "homed ops (mo_clear_fault ops f m) = homed ops m"
  "homed ops (mo_mark_homed ops m)"
  "homed ops (snd (mo_step ops dt v a m)) = homed ops m"
  "homed ops (mo_restore ops x y h xt yt m) = h"
  by (simp_all add: homed_def homed_ops mark_homed_homes step_homed restore_homed)

lemma command_target_motion:
  "\<exists>x y. co_motion (snd (command_target_for_current_step ops s)) =
     snd (mo_set_target ops x y (mo_enable_all ops (co_motion s)))"
  by (auto simp: command_target_for_current_step_def Let_def)

lemma command_target_homed [simp]:
  "homed ops (co_motion (snd (command_target_for_current_step ops s))) = homed ops (co_motion s)"
  using command_target_motion [of s] by auto

lemma command_target_good: "good (co_motion s) \<Longrightarrow> good (co_motion (snd (command_target_for_current_step ops s)))"
  using command_target_motion [of s] by (auto simp: good_ops)

lemma coord_inv_command_position [simp]:
  "coord_inv ops good s \<Longrightarrow> coord_inv ops good (snd (command_position ops p s))"
  by (simp add: inv_defs good_ops)

lemma coord_inv_command_target [simp]:
  "coord_inv ops good s \<Longrightarrow> coord_inv ops good (snd (command_target_for_current_step ops s))"
  by (simp add: inv_defs command_target_good)

lemma coord_inv_motion [simp]:
  "coord_inv ops good s \<Longrightarrow> coord_inv ops good (on_motion (mo_enable_all ops) s)"
  "coord_inv ops good s \<Longrightarrow> coord_inv ops good (on_motion (mo_hold ops) s)"
  "coord_inv ops good s \<Longrightarrow> coord_inv ops good (on_motion (mo_inject_fault ops f) s)"
  "coord_inv ops good s \<Longrightarrow> coord_inv ops good (on_motion (mo_clear_fault ops f) s)"
  "coord_inv ops good s \<Longrightarrow> coord_inv ops good (on_motion (mo_mark_homed ops) s)"
  "coord_inv ops good s \<Longrightarrow> coord_inv ops good (on_motion (mo_disable_all ops) s)"
  "coord_inv ops good s \<Longrightarrow> coord_inv ops good (snd (motion_call (mo_step ops dt v a) s))"
  by (simp_all add: inv_defs good_ops)

text \<open>A transition out of automatic operation needs nothing from the state it leaves.\<close>

lemma coord_inv_to_idle:
  assumes "e \<notin> automatic_states" and "e \<noteq> ES_RecoveryRequired"
  shows "coord_inv ops good (transition e st r s) \<longleftrightarrow> good (co_motion s) \<and> recipe_ok (co_recipe s) \<and> orders_inv s"
  using assms by (simp add: coord_inv_idle)

lemma initialize_inv: "coord_inv ops good s \<Longrightarrow> coord_inv ops good (snd (initialize_cmd ops i corr s))"
  by (simp add: initialize_cmd_def coord_inv_to_idle good_ops coord_inv_good coord_inv_recipe coord_inv_orders)

lemma set_mode_inv: "coord_inv ops good s \<Longrightarrow> coord_inv ops good (snd (set_mode_cmd i m corr s))"
  by (simp add: set_mode_cmd_def Let_def split: option.split)

lemma load_order_inv:
  assumes "coord_inv ops good s"
  shows "coord_inv ops good (snd (load_order_cmd i req corr s))"
proof -
  have loaded: "coord_inv ops good (s\<lparr>co_order := Some p\<rparr>)"
    if "co_exec s \<in> {ES_Stopped, ES_Ready}" "order_inv p" for p
  proof -
    have "co_exec s \<notin> automatic_states" "co_exec s \<noteq> ES_RecoveryRequired" using that(1) by auto
    then show ?thesis
      using that(2) assms by (simp add: coord_inv_idle orders_inv_def)
  qed
  have fresh: "order_inv p" if "new_order a n r v t = Inr p" "n \<le> 100000" for a n r v t p
    using that by (intro new_order_inv(1) [OF that(1)]) simp
  show ?thesis
    using assms unfolding load_order_cmd_def Let_def
    by (simp split: sum.split) (cases "cr_quantity req"; auto intro!: loaded intro: fresh)
qed

lemma cancel_order_inv: "coord_inv ops good s \<Longrightarrow> coord_inv ops good (snd (cancel_order_cmd i corr s))"
  by (simp add: cancel_order_cmd_def split: option.split)

lemma home_inv: "coord_inv ops good s \<Longrightarrow> coord_inv ops good (snd (home_cmd ops i corr s))"
  by (simp add: home_cmd_def Let_def)
    (intro impI coord_inv_chain; simp add: coord_inv_to_idle good_ops coord_inv_good coord_inv_recipe coord_inv_orders)

lemma start_conditions_iff:
  "start_reasons ops s = [] \<longleftrightarrow>
     co_mode s = MM_Automatic \<and> co_exec s = ES_Ready \<and> homed ops (co_motion s) \<and>
     (\<exists>p. co_order s = Some p \<and> po_status p \<noteq> OS_Completed \<and> po_status p \<noteq> OS_Cancelled) \<and>
     co_estop_ok s \<and> co_guard_closed s \<and> co_bus_healthy s \<and>
     \<not> ms_any_faulted (mo_snapshot ops (co_motion s) AM_Standstill)"
  by (cases "co_order s")
    (auto simp: start_reasons_def Let_def homed_def interlock_reasons_iff motion_permitted_iff)

lemma start_inv:
  assumes "coord_inv ops good s"
  shows "coord_inv ops good (snd (start_cmd ops i corr s))"
proof (cases "start_reasons ops s = []")
  case True
  then obtain p where p: "co_order s = Some p" "homed ops (co_motion s)" "order_inv p" "po_completed p \<le> po_target p"
    using assms by (auto simp: start_conditions_iff inv_defs order_inv_def)
  then have open_p: "open_order (Some p)" by (simp add: open_order_def)
  then show ?thesis
    using True assms p open_p by (simp add: start_cmd_def coord_inv_def automatic_inv_def recovery_inv_def)
next
  case False
  then show ?thesis using assms by (simp add: start_cmd_def)
qed

lemma pause_inv: "coord_inv ops good s \<Longrightarrow> coord_inv ops good (snd (pause_cmd ops i corr s))"
  by (simp add: pause_cmd_def) (intro impI coord_inv_to_automatic; simp add: coord_inv_part)

lemma resume_inv:
  assumes "coord_inv ops good s"
  shows "coord_inv ops good (snd (resume_cmd ops i corr s))"
proof -
  have "coord_inv ops good (transition ES_Running (co_step s) r (record_order_status why (update_order resume_order s)))"
    if "co_exec s = ES_Paused" for r why
    using that assms by (intro coord_inv_to_automatic) (simp_all add: coord_inv_part)
  then show ?thesis
    using assms by (simp add: resume_cmd_def Let_def) (intro impI coord_inv_chain; simp)
qed

lemma stop_inv: "coord_inv ops good s \<Longrightarrow> coord_inv ops good (snd (stop_cmd ops i corr s))"
  by (simp add: stop_cmd_def coord_inv_to_idle good_ops coord_inv_good coord_inv_recipe coord_inv_orders)

lemma abort_inv: "coord_inv ops good s \<Longrightarrow> coord_inv ops good (snd (abort_cmd i corr s))"
  by (simp add: abort_cmd_def coord_inv_to_idle good_ops coord_inv_good coord_inv_recipe coord_inv_orders)

lemma reset_inv: "coord_inv ops good s \<Longrightarrow> coord_inv ops good (snd (reset_cmd ops i corr s))"
  by (simp add: reset_cmd_def Let_def coord_inv_to_idle good_ops coord_inv_good coord_inv_recipe coord_inv_orders)

lemma recover_inv:
  assumes inv: "coord_inv ops good s"
  shows "coord_inv ops good (snd (recover_cmd ops i action corr s))"
proof (cases "co_checkpoint s")
  case None
  then show ?thesis using inv by (simp add: recover_cmd_def)
next
  case (Some cp)
  show ?thesis
  proof (cases "co_exec s = ES_RecoveryRequired")
    case False
    then show ?thesis using Some inv by (simp add: recover_cmd_def)
  next
    case True
    let ?d = "on_motion (mo_restore ops (cp_x cp) (cp_y cp) False None None) (discard_interrupted_part s)"
    have d: "good (co_motion ?d)" "recipe_ok (co_recipe ?d)" "orders_inv ?d"
      using inv by (simp_all add: good_restore coord_inv_good coord_inv_recipe coord_inv_orders)
    have d': "coord_inv ops good ?d"
      using inv True by (simp add: coord_inv_def automatic_inv_def recovery_inv_def good_restore)
    show ?thesis
    proof (cases action)
      case RA_DiscardAndReset
      then show ?thesis using Some True d by (simp add: recover_cmd_def Let_def coord_inv_to_idle)
    next
      case RA_RehomeAndReset
      then show ?thesis using Some True d d'
        by (simp add: recover_cmd_def Let_def)
          (rule coord_inv_chain; simp add: coord_inv_to_idle good_ops)
    next
      case RA_ResumeSimulation
      let ?u = "\<lambda>m t. (on_motion (mo_enable_all ops) (on_motion
        (mo_restore ops (cp_x cp) (cp_y cp) True (Some (cp_x_target cp)) (Some (cp_y_target cp))) s))
        \<lparr>co_mode := MM_Automatic, co_exec := ES_Running, co_step := cp_step cp, co_part := cp_part_id cp,
         co_gripper := m, co_cycle_started := t\<rparr>"
      have "coord_inv ops good (?u m t)" if "cp_order_id cp \<noteq> None" "cp_part_id cp \<noteq> None" for m t
        using that inv True Some by (simp add: inv_defs good_ops)
      then have u: "coord_inv ops good (snd (command_target_for_current_step ops (update_order resume_order (?u m t))))"
        if "cp_order_id cp \<noteq> None" "cp_part_id cp \<noteq> None" for m t
        using that by simp
      have w: "coord_inv ops good (v\<lparr>co_checkpoint := None\<rparr>)" if "coord_inv ops good v" for v
        using that by (simp add: inv_defs)
      have rest: "coord_inv ops good ((record_event ty p (increment_revision r v))\<lparr>co_checkpoint := None\<rparr>)"
        if "coord_inv ops good v" for v ty p r
        by (rule w) (simp add: that)
      show ?thesis using RA_ResumeSimulation Some True inv
        by (simp add: recover_cmd_def Let_def)
          (intro impI coord_inv_chain; simp add: u rest)
    qed
  qed
qed

lemma jog_inv:
  assumes inv: "coord_inv ops good s"
  shows "coord_inv ops good (snd (jog_cmd ops i axis d corr s))"
proof -
  have move: "coord_inv ops good (snd (chain (command_position ops p s)
      (\<lambda>_ t. accept i corr k (transition ES_Ready PS_None r t))))" for p k r
    using inv by (intro coord_inv_chain; simp add: coord_inv_to_idle good_ops coord_inv_good coord_inv_recipe coord_inv_orders)
  show ?thesis
    using inv by (cases d; cases axis) (simp_all add: jog_cmd_def Let_def move)
qed

lemma raise_fault_inv [simp]:
  "coord_inv ops good s \<Longrightarrow> coord_inv ops good (raise_fault ops code src sv msg act s)"
  by (simp add: coord_inv_idle coord_inv_good coord_inv_recipe coord_inv_orders good_ops)

lemma inject_fault_inv: "coord_inv ops good s \<Longrightarrow> coord_inv ops good (snd (inject_fault_cmd ops i f corr s))"
  by (simp add: inject_fault_cmd_def Let_def split: fault_target.split)

lemma clear_fault_inv: "coord_inv ops good s \<Longrightarrow> coord_inv ops good (snd (clear_fault_cmd ops i f corr s))"
  by (simp add: clear_fault_cmd_def Let_def split: fault_target.split)

lemma acknowledge_inv: "coord_inv ops good s \<Longrightarrow> coord_inv ops good (snd (acknowledge_alarms_cmd i u corr s))"
  by (simp add: acknowledge_alarms_cmd_def)

lemmas handler_inv = initialize_inv set_mode_inv load_order_inv cancel_order_inv home_inv start_inv pause_inv
  resume_inv stop_inv abort_inv reset_inv recover_inv jog_inv inject_fault_inv clear_fault_inv acknowledge_inv

lemma dispatch_inv: "coord_inv ops good s \<Longrightarrow> coord_inv ops good (snd (dispatch ops i req corr s))"
  unfolding dispatch_def Let_def
  by (simp only: if_distrib [of snd] if_distrib [of "coord_inv ops good"] handler_inv coord_inv_bookkeeping if_cancel)

lemma execute_inv: "coord_inv ops good s \<Longrightarrow> coord_inv ops good (snd (execute ops i req s))"
  by (simp add: execute_def Let_def dispatch_inv)

lemma activate_recipe_inv:
  assumes "coord_inv ops good s"
  shows "coord_inv ops good (snd (activate_recipe i recipe corr s))"
proof -
  have "coord_inv ops good (s\<lparr>co_recipe := with_status RL_Active recipe\<rparr>)"
    if "validate_recipe True recipe = []" "co_exec s \<in> {ES_Stopped, ES_Ready}"
  proof -
    have "co_exec s \<notin> automatic_states" "co_exec s \<noteq> ES_RecoveryRequired" using that(2) by auto
    then show ?thesis
      using that(1) assms by (simp add: coord_inv_idle orders_inv_def validate_recipe_iff recipe_ok_with_status)
  qed
  then show ?thesis
    using assms by (simp add: activate_recipe_def Let_def)
qed

section \<open>The cyclic step\<close>

lemma begin_cycle_facts:
  assumes "coord_inv ops good s" and "co_exec s \<in> automatic_states"
  shows "\<not> throws (begin_cycle s)" and "co_part (snd (begin_cycle s)) \<noteq> None"
    and "coord_inv ops good (snd (begin_cycle s))"
proof -
  obtain p where p: "co_order s = Some p"
    using coord_inv_open [OF assms] by (auto simp: open_order_def)
  show "\<not> throws (begin_cycle s)" "co_part (snd (begin_cycle s)) \<noteq> None"
    using p by (simp_all add: begin_cycle_def Let_def)
  show "coord_inv ops good (snd (begin_cycle s))"
    using p assms by (simp add: begin_cycle_def Let_def coord_inv_def orders_inv_def automatic_inv_def recovery_inv_def)
qed

lemma start_next_cycle_inv:
  assumes "coord_inv ops good s" and "co_exec s \<in> automatic_states"
  shows "coord_inv ops good (snd (start_next_cycle ops why s))"
proof -
  note facts = begin_cycle_facts [OF assms]
  have "coord_inv ops good (transition ES_Running PS_MoveToPick why (snd (begin_cycle s)))"
    by (rule coord_inv_to_automatic) (use facts assms in simp_all)
  then show ?thesis
    using facts unfolding start_next_cycle_def by (intro coord_inv_chain; simp)
qed

lemma complete_cycle_facts:
  assumes inv: "coord_inv ops good s" and run: "co_exec s = ES_Running"
  shows "\<exists>done t. complete_cycle s = (Inr done, t) \<and> good (co_motion t) \<and> recipe_ok (co_recipe t) \<and>
      orders_inv t \<and> homed ops (co_motion t) \<and> co_exec t = ES_Running \<and> (\<not> done \<longrightarrow> open_order (co_order t))"
proof -
  obtain p part where p: "co_order s = Some p" "co_part s = Some part" "po_completed p \<le> po_target p" "order_inv p"
    using coord_inv_open [OF inv] coord_inv_part [OF inv] coord_inv_orders [OF inv] run
    by (auto simp: open_order_def orders_inv_def)
  note rec = order_inv_record [OF p(4) p(3)]
  show ?thesis
    using p(1,2) inv run rec
    by (simp add: complete_cycle_def Let_def coord_inv_good coord_inv_recipe coord_inv_homed orders_inv_def open_order_def)
qed

text \<open>
  After a completed part the next cycle starts from a state without a part; only the order has to
  be open for it.
\<close>

lemma next_cycle_inv:
  assumes "good (co_motion t)" "recipe_ok (co_recipe t)" "orders_inv t" "homed ops (co_motion t)"
    and "open_order (co_order t)" and "co_exec t = ES_Running"
  shows "coord_inv ops good (snd (start_next_cycle ops why t))"
proof -
  obtain p where p: "co_order t = Some p"
    using assms(5) by (auto simp: open_order_def)
  have "coord_inv ops good (transition ES_Running PS_MoveToPick why (snd (begin_cycle t)))"
    using p assms by (simp add: begin_cycle_def Let_def inv_defs)
  moreover have "\<not> throws (begin_cycle t)"
    using p by (simp add: begin_cycle_def Let_def)
  ultimately show ?thesis
    unfolding start_next_cycle_def by (auto simp: chain_def throws_def split: sum.splits)
qed

lemma dwell_inv:
  assumes "coord_inv ops good s" and "co_exec s = ES_Running"
    and "\<And>t. coord_inv ops good t \<Longrightarrow> co_exec t = ES_Running \<Longrightarrow> coord_inv ops good (snd (k t))"
  shows "coord_inv ops good (snd (dwell_then dt k s))"
  using assms by (simp add: dwell_then_def Let_def)

lemma running_transition_inv [simp]:
  "coord_inv ops good s \<Longrightarrow> co_exec s = ES_Running \<Longrightarrow> coord_inv ops good (transition ES_Running st r s)"
  by (rule coord_inv_to_automatic) (simp_all add: coord_inv_part)

lemma advance_production_inv:
  assumes inv: "coord_inv ops good s" and run: "co_exec s = ES_Running"
  shows "coord_inv ops good (snd (advance_production ops dt motion s))"
proof (cases "co_step s")
  case PS_ReturnHome
  obtain d t where t: "complete_cycle s = (Inr d, t)" "good (co_motion t)" "recipe_ok (co_recipe t)"
    "orders_inv t" "homed ops (co_motion t)" "co_exec t = ES_Running" "\<not> d \<longrightarrow> open_order (co_order t)"
    using complete_cycle_facts [OF inv run] by blast
  then show ?thesis
    using PS_ReturnHome inv by (simp add: advance_production_def coord_inv_to_idle next_cycle_inv)
qed (use inv run in \<open>simp_all add: advance_production_def Let_def dwell_inv\<close>)

lemma check_permission_inv [simp]: "coord_inv ops good s \<Longrightarrow> coord_inv ops good (check_permission ops motion s)"
  by (simp add: check_permission_def Let_def)

lemma check_following_error_inv [simp]:
  "coord_inv ops good s \<Longrightarrow> coord_inv ops good (check_following_error ops motion s)"
  by (simp add: check_following_error_def Let_def)

lemma run_execution_inv:
  assumes inv: "coord_inv ops good s"
  shows "coord_inv ops good (snd (run_execution ops dt motion s))"
proof -
  note parts = coord_inv_good [OF inv] coord_inv_recipe [OF inv] coord_inv_orders [OF inv]
  show ?thesis
  proof (cases "co_exec s")
    case ES_Pausing
    have "coord_inv ops good (transition ES_Paused (co_step s) r (pause_order_in why s))" for r why
      by (rule coord_inv_to_automatic) (use inv ES_Pausing in \<open>simp_all add: coord_inv_part\<close>)
    then show ?thesis using ES_Pausing inv by (simp add: run_execution_def)
  qed (use inv parts in \<open>simp_all add: run_execution_def Let_def coord_inv_to_idle good_ops advance_production_inv
        start_next_cycle_inv\<close>)
qed

lemma step_machine_inv:
  assumes "coord_inv ops good s"
  shows "coord_inv ops good (snd (step_machine ops dt s))"
  unfolding step_machine_def Let_def using assms
  by (intro coord_inv_chain run_execution_inv check_following_error_inv check_permission_inv) simp_all

section \<open>Checkpoints\<close>

lemma restore_checkpoint_inv:
  assumes inv: "coord_inv ops good s" and cp: "checkpoint_ok cp"
  shows "coord_inv ops good (snd (restore_checkpoint ops cp s))"
proof (cases "cp_order_id cp")
  case None
  then show ?thesis
    using inv by (simp add: restore_checkpoint_def Let_def inv_defs good_ops)
next
  case (Some oid)
  then obtain n where n: "cp_order_target cp = Some n" "0 < n" "n < 2 ^ 31" "\<not> is_blank oid"
    using cp by (auto simp: checkpoint_ok_def)
  obtain p where p: "new_order oid n (cp_recipe_id cp) (cp_recipe_revision cp) (co_reads s) = Inr p"
    using n(2,4) by (auto simp: new_order_def)
  have pinv: "order_inv p"
    using new_order_inv(1) [OF p n(3)] .
  have open_p: "open_order (Some (restore_order c OS_Paused r p))" for c r
    using pinv clampi_bounds [of 0 "po_target p" c] by (auto simp: open_order_def order_inv_def order_ok_def)
  show ?thesis
    using Some n(1,2) p inv pinv open_p
    by (simp add: restore_checkpoint_def Let_def inv_defs good_ops order_inv_restore)
qed

lemma create_checkpoint_ok:
  assumes "coord_inv ops good s"
  shows "checkpoint_ok (fst (create_checkpoint ops why s))"
  using coord_inv_orders [OF assms]
  by (cases "co_order s") (simp_all add: create_checkpoint_def Let_def checkpoint_ok_def orders_inv_def order_inv_def order_ok_def)

lemma create_checkpoint_inv: "coord_inv ops good s \<Longrightarrow> coord_inv ops good (snd (create_checkpoint ops why s))"
  by (simp add: create_checkpoint_def Let_def)

lemma drain_events_inv: "coord_inv ops good s \<Longrightarrow> coord_inv ops good (snd (drain_events s))"
  by (simp add: drain_events_def)

lemma snapshot_inv: "coord_inv ops good s \<Longrightarrow> coord_inv ops good (snd (snapshot_unsafe ops host s))"
  by (simp add: snapshot_unsafe_def Let_def)

lemma new_coordinator_inv: "recipe_ok recipe \<Longrightarrow> good m \<Longrightarrow> coord_inv ops good (new_coordinator recipe m)"
  by (simp add: new_coordinator_def inv_defs)

end

end
