(* ===== verification/CoordinatorJournal.thy ===== *)
theory CoordinatorJournal
  imports CoordinatorFrames "HOL-Library.Sublist"
begin

text \<open>
  What the coordinator records: the event queue, which operations only extend, and the alarm
  dictionary, whose keys stay distinct up to case and equal to the code of their alarm.
\<close>

section \<open>The alarm dictionary\<close>

definition alarms_ok :: "(string \<times> alarm_record) list \<Rightarrow> bool" where
  "alarms_ok xs \<longleftrightarrow> distinct (map (to_upper \<circ> fst) xs) \<and> (\<forall>(k, a) \<in> set xs. eq_ignore_case k (al_code a))"

lemma alarm_lookup_put [simp]:
  "alarm_lookup code (alarm_put code' a xs) = (if eq_ignore_case code' code then Some a else alarm_lookup code xs)"
  by (induction xs) (auto simp: eq_ignore_case_def)

lemma alarm_put_keys:
  "map (to_upper \<circ> fst) (alarm_put code a xs) =
     (if to_upper code \<in> set (map (to_upper \<circ> fst) xs) then map (to_upper \<circ> fst) xs
      else map (to_upper \<circ> fst) xs @ [to_upper code])"
  by (induction xs) (force simp: eq_ignore_case_def image_iff)+

lemma alarm_put_members: "(k, b) \<in> set (alarm_put code a xs) \<Longrightarrow> (k, b) \<in> set xs \<or> (b = a \<and> eq_ignore_case k code)"
  by (induction xs) (auto simp: eq_ignore_case_def split: if_splits)

lemma alarms_ok_put:
  assumes "alarms_ok xs" and "al_code a = code"
  shows "alarms_ok (alarm_put code a xs)"
proof -
  have "distinct (map (to_upper \<circ> fst) (alarm_put code a xs))"
    using assms(1) by (auto simp: alarms_ok_def alarm_put_keys simp del: map_map)
  moreover have "\<forall>(k, b) \<in> set (alarm_put code a xs). eq_ignore_case k (al_code b)"
    using assms alarm_put_members [of _ _ code a xs] by (fastforce simp: alarms_ok_def)
  ultimately show ?thesis by (simp add: alarms_ok_def)
qed

lemma alarm_lookup_iff:
  "alarms_ok xs \<Longrightarrow> alarm_lookup code xs = Some a \<longleftrightarrow> (\<exists>k. (k, a) \<in> set xs \<and> eq_ignore_case k code)"
  by (induction xs) (force simp: alarms_ok_def eq_ignore_case_def)+

text \<open>Acknowledging or clearing one alarm changes neither the keys nor the codes.\<close>

lemma alarms_ok_map:
  assumes "alarms_ok xs" and "list_all2 (\<lambda>(k, a) (k', a'). k' = k \<and> al_code a' = al_code a) xs ys"
  shows "alarms_ok ys"
proof -
  have "map fst ys = map fst xs"
    using assms(2) by (induction rule: list_all2_induct) auto
  then have "map (to_upper \<circ> fst) ys = map (to_upper \<circ> fst) xs"
    by (metis map_map)
  moreover have "\<forall>(k, a) \<in> set ys. eq_ignore_case k (al_code a)"
    using assms(2) assms(1) [unfolded alarms_ok_def, THEN conjunct2]
    by (induction rule: list_all2_induct) auto
  ultimately show ?thesis using assms(1) by (simp add: alarms_ok_def)
qed

text \<open>Reset and acknowledgement act on every alarm in turn; \<open>done\<close> is the part already visited.\<close>

lemma clear_active_alarms_alarms:
  "\<exists>ys. co_alarms (clear_active_alarms done xs s) = rev done @ ys \<and>
     list_all2 (\<lambda>(k, a) (k', b). k' = k \<and> (if alarm_active a then \<exists>t. b = clear_alarm t a else b = a)) xs ys"
proof (induction "done" xs s rule: clear_active_alarms.induct)
  case (2 "done" k a rest s)
  show ?case
  proof (cases "alarm_active a")
    case True
    then obtain ys where ys: "co_alarms (clear_active_alarms done ((k, a) # rest) s) = rev ((k, clear_alarm (co_reads s) a) # done) @ ys"
      "list_all2 (\<lambda>(k, a) (k', b). k' = k \<and> (if alarm_active a then \<exists>t. b = clear_alarm t a else b = a)) rest ys"
      using 2(1) [OF True refl] by (auto simp: Let_def)
    then show ?thesis
      using True by (intro exI [of _ "(k, clear_alarm (co_reads s) a) # ys"]) auto
  next
    case False
    then obtain ys where "co_alarms (clear_active_alarms done ((k, a) # rest) s) = rev ((k, a) # done) @ ys"
      "list_all2 (\<lambda>(k, a) (k', b). k' = k \<and> (if alarm_active a then \<exists>t. b = clear_alarm t a else b = a)) rest ys"
      using 2(2) [OF False] by auto
    then show ?thesis
      using False by (intro exI [of _ "(k, a) # ys"]) auto
  qed
qed simp

lemma acknowledge_all_alarms:
  "\<exists>ys. co_alarms (acknowledge_all u done xs s) = rev done @ ys \<and>
     list_all2 (\<lambda>(k, a) (k', b). k' = k \<and> (\<exists>t. b = acknowledge_alarm u t a)) xs ys"
proof (induction u "done" xs s rule: acknowledge_all.induct)
  case (2 u "done" k a rest s)
  let ?b = "acknowledge_alarm u (co_reads s) a"
  obtain ys where "co_alarms (acknowledge_all u done ((k, a) # rest) s) = rev ((k, ?b) # done) @ ys"
    "list_all2 (\<lambda>(k, a) (k', b). k' = k \<and> (\<exists>t. b = acknowledge_alarm u t a)) rest ys"
    using 2 [OF refl] by (auto simp: Let_def)
  then show ?case
    by (intro exI [of _ "(k, ?b) # ys"]) auto
qed simp

lemma alarms_ok_clear: "alarms_ok (co_alarms s) \<Longrightarrow> alarms_ok (co_alarms (clear_active_alarms [] (co_alarms s) t))"
  using clear_active_alarms_alarms [of "[]" "co_alarms s" t]
  by (auto elim!: alarms_ok_map list.rel_mono_strong split: if_splits)

lemma alarms_ok_acknowledge: "alarms_ok (co_alarms s) \<Longrightarrow> alarms_ok (co_alarms (acknowledge_all u [] (co_alarms s) t))"
  using acknowledge_all_alarms [of u "[]" "co_alarms s" t]
  by (auto elim!: alarms_ok_map list.rel_mono_strong)

text \<open>After a reset no alarm is active, whatever the life cycle of each was.\<close>

lemma clear_active_alarms_none:
  "list_all (\<lambda>(k, a). \<not> alarm_active a) (co_alarms (clear_active_alarms [] xs s))"
proof -
  obtain ys where ys: "co_alarms (clear_active_alarms [] xs s) = ys"
    "list_all2 (\<lambda>(k, a) (k', b). k' = k \<and> (if alarm_active a then \<exists>t. b = clear_alarm t a else b = a)) xs ys"
    using clear_active_alarms_alarms [of "[]" xs s] by auto
  from ys(2) have "list_all (\<lambda>(k, a). \<not> alarm_active a) ys"
    by (induction rule: list_all2_induct) (auto split: if_splits, metis clear_alarm_not_active)
  then show ?thesis using ys(1) by simp
qed

lemma acknowledge_all_none:
  "list_all (\<lambda>(k, a). fst (alarm_abs a)) (co_alarms (acknowledge_all u [] xs s))"
proof -
  obtain ys where ys: "co_alarms (acknowledge_all u [] xs s) = ys"
    "list_all2 (\<lambda>(k, a) (k', b). k' = k \<and> (\<exists>t. b = acknowledge_alarm u t a)) xs ys"
    using acknowledge_all_alarms [of u "[]" xs s] by auto
  from ys(2) have "list_all (\<lambda>(k, a). fst (alarm_abs a)) ys"
    by (induction rule: list_all2_induct) (auto simp: alarm_abs_acknowledge spec_acknowledge_def)
  then show ?thesis using ys(1) by simp
qed

section \<open>The journal\<close>

text \<open>
  \<open>stamps lo hi es\<close>: the identifiers of these events are readings from \<open>lo\<close> up to \<open>hi\<close>, in ascending order.
  \<open>journal es lo s\<close>: the queue still starts with \<open>es\<close>, what follows was recorded since the reading \<open>lo\<close>, and the
  alarm dictionary is well formed. Every primitive keeps it, so do the operations built from them, for
  any motion system.
\<close>

definition stamps :: "reading \<Rightarrow> reading \<Rightarrow> machine_event list \<Rightarrow> bool" where
  "stamps lo hi es \<longleftrightarrow> sorted_wrt (<) (map ev_id es) \<and> (\<forall>e\<in>set es. lo \<le> ev_id e \<and> ev_id e < hi)"

lemma stamps_Nil [simp]: "stamps lo hi []"
  by (simp add: stamps_def)

lemma stamps_mono: "stamps lo hi es \<Longrightarrow> lo' \<le> lo \<Longrightarrow> hi \<le> hi' \<Longrightarrow> stamps lo' hi' es"
  by (fastforce simp: stamps_def)

lemma stamps_append: "stamps lo mid es \<Longrightarrow> stamps mid hi fs \<Longrightarrow> lo \<le> mid \<Longrightarrow> mid \<le> hi \<Longrightarrow> stamps lo hi (es @ fs)"
  by (fastforce simp: stamps_def sorted_wrt_append)

lemma stamps_distinct: "stamps lo hi es \<Longrightarrow> distinct (map ev_id es)"
  by (simp add: stamps_def strict_sorted_iff)

lemma stamps_snoc:
  "stamps lo hi es \<Longrightarrow> ev_id e = hi \<Longrightarrow> hi < hi' \<Longrightarrow> lo \<le> hi \<Longrightarrow> stamps lo hi' (es @ [e])"
  by (rule stamps_append [of lo hi]) (simp_all add: stamps_def)

definition recorded :: "machine_event list \<Rightarrow> reading \<Rightarrow> 'm coordinator \<Rightarrow> bool" where
  "recorded es lo s \<longleftrightarrow> lo \<le> co_reads s \<and> (\<exists>fs. co_events s = es @ fs \<and> stamps lo (co_reads s) fs)"

lemma recorded_event: "recorded es lo s \<Longrightarrow> recorded es lo (record_event ty p s)"
  unfolding recorded_def record_event_def by (fastforce intro: stamps_snoc)

lemma recorded_reads: "recorded es lo s \<Longrightarrow> co_reads s \<le> n \<Longrightarrow> recorded es lo (s\<lparr>co_reads := n\<rparr>)"
  unfolding recorded_def by (force elim: stamps_mono)

lemma recorded_alarms [simp]: "recorded es lo (s\<lparr>co_alarms := xs\<rparr>) = recorded es lo s"
  by (simp add: recorded_def)

definition journal :: "machine_event list \<Rightarrow> reading \<Rightarrow> 'm coordinator \<Rightarrow> bool" where
  "journal es lo s \<longleftrightarrow> alarms_ok (co_alarms s) \<and> recorded es lo s"

lemma journal_update [simp]:
  "journal es lo (s\<lparr>co_correlation := a1\<rparr>) = journal es lo s"
  "journal es lo (s\<lparr>co_mode := a2\<rparr>) = journal es lo s"
  "journal es lo (s\<lparr>co_exec := a3\<rparr>) = journal es lo s"
  "journal es lo (s\<lparr>co_step := a4\<rparr>) = journal es lo s"
  "journal es lo (s\<lparr>co_order := a5\<rparr>) = journal es lo s"
  "journal es lo (s\<lparr>co_part := a7\<rparr>) = journal es lo s"
  "journal es lo (s\<lparr>co_gripper := a8\<rparr>) = journal es lo s"
  "journal es lo (s\<lparr>co_dwell := a9\<rparr>) = journal es lo s"
  "journal es lo (s\<lparr>co_cycle_started := b1\<rparr>) = journal es lo s"
  "journal es lo (s\<lparr>co_cycles := b2\<rparr>) = journal es lo s"
  "journal es lo (s\<lparr>co_good := b3\<rparr>) = journal es lo s"
  "journal es lo (s\<lparr>co_reject := b4\<rparr>) = journal es lo s"
  "journal es lo (s\<lparr>co_last_cycle := b5\<rparr>) = journal es lo s"
  "journal es lo (s\<lparr>co_recipe := b6\<rparr>) = journal es lo s"
  "journal es lo (s\<lparr>co_checkpoint := b7\<rparr>) = journal es lo s"
  "journal es lo (s\<lparr>co_estop_ok := b8\<rparr>) = journal es lo s"
  "journal es lo (s\<lparr>co_guard_closed := b9\<rparr>) = journal es lo s"
  "journal es lo (s\<lparr>co_bus_healthy := c1\<rparr>) = journal es lo s"
  "journal es lo (s\<lparr>co_sim_time := c2\<rparr>) = journal es lo s"
  "journal es lo (s\<lparr>co_revision := c3\<rparr>) = journal es lo s"
  "journal es lo (s\<lparr>co_last_transition := c4\<rparr>) = journal es lo s"
  "journal es lo (s\<lparr>co_motion := c5\<rparr>) = journal es lo s"
  by (simp_all add: journal_def recorded_def)

lemma journal_reads [simp]: "journal es lo s \<Longrightarrow> co_reads s \<le> n \<Longrightarrow> journal es lo (s\<lparr>co_reads := n\<rparr>)"
  by (simp add: journal_def recorded_reads)

lemma journal_record [simp]: "journal es lo s \<Longrightarrow> journal es lo (record_event ty p s)"
  by (simp add: journal_def recorded_event)

lemma journal_accept [simp]:
  "journal es lo s \<Longrightarrow> journal es lo (snd (accept i c k s))"
  "journal es lo s \<Longrightarrow> journal es lo (snd (reject i c k rs s))"
  by (simp_all add: accept_def reject_def)

lemma journal_alarm: "journal es lo s \<Longrightarrow> al_code a = code \<Longrightarrow> journal es lo (s\<lparr>co_alarms := alarm_put code a (co_alarms s)\<rparr>)"
  by (simp add: journal_def alarms_ok_put)

lemma journal_primitives [simp]:
  "journal es lo (on_motion f s) = journal es lo s"
  "journal es lo (snd (motion_call h s)) = journal es lo s"
  "journal es lo (increment_revision r s) = journal es lo s"
  "journal es lo (snd (command_position ops p s)) = journal es lo s"
  "journal es lo (snd (command_target_for_current_step ops s)) = journal es lo s"
  "journal es lo (update_order u s) = journal es lo s"
  by (simp_all add: journal_def recorded_def)

lemma journal_transition [simp]: "journal es lo s \<Longrightarrow> journal es lo (transition e st r s)"
  by (simp add: transition_def Let_def)

lemma journal_composites [simp]:
  "journal es lo s \<Longrightarrow> journal es lo (record_order_status why s)"
  "journal es lo s \<Longrightarrow> journal es lo (discard_interrupted_part s)"
  "journal es lo s \<Longrightarrow> journal es lo (snd (begin_cycle s))"
  "journal es lo s \<Longrightarrow> journal es lo (snd (complete_cycle s))"
  "journal es lo s \<Longrightarrow> journal es lo (pause_order_in why s)"
  by (simp_all add: record_order_status_def discard_interrupted_part_def begin_cycle_def complete_cycle_def
      pause_order_in_def Let_def split: option.split)

lemma journal_raise_fault [simp]: "journal es lo s \<Longrightarrow> journal es lo (raise_fault ops code src sv msg act s)"
proof -
  assume j: "journal es lo s"
  then have "journal es lo (s\<lparr>co_alarms := alarm_put code (new_alarm code src sv msg act c r) (co_alarms s), co_reads := co_reads s + 1\<rparr>)" for c r
    using journal_alarm [of es lo s "new_alarm code src sv msg act c r" code] by simp
  then show ?thesis using j by (simp add: raise_fault_def Let_def)
qed

lemma recorded_clear: "recorded es lo s \<Longrightarrow> recorded es lo (clear_active_alarms done xs s)"
  by (induction "done" xs s rule: clear_active_alarms.induct) (simp_all add: Let_def recorded_event recorded_reads)

lemma recorded_acknowledge: "recorded es lo s \<Longrightarrow> recorded es lo (acknowledge_all u done xs s)"
  by (induction u "done" xs s rule: acknowledge_all.induct) (simp_all add: Let_def recorded_event recorded_reads)

lemma journal_alarm_loops [simp]:
  "journal es lo s \<Longrightarrow> journal es lo (clear_active_alarms [] (co_alarms s) s)"
  "journal es lo s \<Longrightarrow> journal es lo (acknowledge_all u [] (co_alarms s) s)"
  by (simp_all add: journal_def recorded_clear recorded_acknowledge alarms_ok_clear alarms_ok_acknowledge)

lemmas journal_chain = chain_keeps [where P = "journal es lo" for es lo]

lemma journal_handlers:
  assumes "journal es lo s"
  shows "journal es lo (snd (initialize_cmd ops i corr s))"
    and "journal es lo (snd (set_mode_cmd i m corr s))"
    and "journal es lo (snd (load_order_cmd i req corr s))"
    and "journal es lo (snd (cancel_order_cmd i corr s))"
    and "journal es lo (snd (home_cmd ops i corr s))"
    and "journal es lo (snd (start_cmd ops i corr s))"
    and "journal es lo (snd (pause_cmd ops i corr s))"
    and "journal es lo (snd (resume_cmd ops i corr s))"
    and "journal es lo (snd (stop_cmd ops i corr s))"
    and "journal es lo (snd (abort_cmd i corr s))"
  using assms
  by (simp_all add: initialize_cmd_def set_mode_cmd_def load_order_cmd_def cancel_order_cmd_def home_cmd_def
      start_cmd_def pause_cmd_def resume_cmd_def stop_cmd_def abort_cmd_def Let_def journal_chain
      split: option.split sum.split)

lemma journal_reset: "journal es lo s \<Longrightarrow> journal es lo (snd (reset_cmd ops i corr s))"
proof -
  assume "journal es lo s"
  then have "journal es lo (clear_active_alarms [] (co_alarms s) (on_motion f (on_motion h s)))" for f h
    using journal_alarm_loops(1) [of es lo "on_motion f (on_motion h s)"] by simp
  with \<open>journal es lo s\<close> show ?thesis by (simp add: reset_cmd_def Let_def)
qed

lemma journal_recover: "journal es lo s \<Longrightarrow> journal es lo (snd (recover_cmd ops i action corr s))"
  by (cases action) (simp_all add: recover_cmd_def Let_def journal_chain split: option.split)

lemma journal_jog: "journal es lo s \<Longrightarrow> journal es lo (snd (jog_cmd ops i axis d corr s))"
  by (simp add: jog_cmd_def Let_def journal_chain split: option.split)

lemma journal_faults:
  assumes "journal es lo s"
  shows "journal es lo (snd (inject_fault_cmd ops i f corr s))"
    and "journal es lo (snd (clear_fault_cmd ops i f corr s))"
    and "journal es lo (snd (acknowledge_alarms_cmd i u corr s))"
  using assms
  by (simp_all add: inject_fault_cmd_def clear_fault_cmd_def acknowledge_alarms_cmd_def Let_def split: fault_target.split)

lemma journal_execute: "journal es lo s \<Longrightarrow> journal es lo (snd (execute ops i req s))"
proof -
  have "journal es lo t \<Longrightarrow> journal es lo (snd (dispatch ops i req corr t))" for corr t
    unfolding dispatch_def Let_def
    by (simp only: if_distrib [of snd] if_distrib [of "journal es lo"] journal_handlers journal_reset journal_recover
        journal_jog journal_faults journal_accept if_cancel)
  then show "journal es lo s \<Longrightarrow> journal es lo (snd (execute ops i req s))"
    by (simp add: execute_def Let_def)
qed

lemma journal_activate: "journal es lo s \<Longrightarrow> journal es lo (snd (activate_recipe i r corr s))"
  by (simp add: activate_recipe_def Let_def)

lemma journal_checks [simp]:
  "journal es lo s \<Longrightarrow> journal es lo (check_permission ops motion s)"
  "journal es lo s \<Longrightarrow> journal es lo (check_following_error ops motion s)"
  by (simp_all add: check_permission_def check_following_error_def Let_def)

lemma journal_next_cycle [simp]: "journal es lo s \<Longrightarrow> journal es lo (snd (start_next_cycle ops why s))"
  unfolding start_next_cycle_def by (rule journal_chain) simp_all

lemma journal_advance: "journal es lo s \<Longrightarrow> journal es lo (snd (advance_production ops dt motion s))"
  by (cases "co_step s") (simp_all add: advance_production_def dwell_then_def Let_def journal_chain)

lemma journal_run: "journal es lo s \<Longrightarrow> journal es lo (snd (run_execution ops dt motion s))"
  by (cases "co_exec s") (simp_all add: run_execution_def Let_def journal_advance)

lemma journal_step: "journal es lo s \<Longrightarrow> journal es lo (snd (step_machine ops dt s))"
  unfolding step_machine_def Let_def by (intro journal_chain journal_run journal_checks) simp_all

lemma journal_restore: "journal es lo s \<Longrightarrow> journal es lo (snd (restore_checkpoint ops cp s))"
  unfolding restore_checkpoint_def Let_def
  by (rule journal_chain) (simp_all split: option.split sum.split)

lemma journal_snapshot:
  "journal es lo s \<Longrightarrow> journal es lo (snd (snapshot_unsafe ops host s))"
  "journal es lo s \<Longrightarrow> journal es lo (snd (create_checkpoint ops why s))"
  by (simp_all add: snapshot_unsafe_def create_checkpoint_def Let_def)

lemma journal_drain: "journal es lo s \<Longrightarrow> journal [] lo (snd (drain_events s))"
  by (simp add: drain_events_def journal_def recorded_def)

text \<open>A journal can be opened at any state whose alarm dictionary is well formed.\<close>

lemma journal_open: "alarms_ok (co_alarms s) \<Longrightarrow> journal (co_events s) (co_reads s) s"
  by (simp add: journal_def recorded_def)

lemma journal_prefix: "journal es lo s \<Longrightarrow> prefix es (co_events s)"
  by (auto simp: journal_def recorded_def)

end
