(* ===== verification/CoordinatorReach.thy ===== *)
theory CoordinatorReach
  imports CoordinatorSafe CoordinatorJournal
begin

text \<open>
  The cyclic step never throws, and the reachable states of the coordinator: every sequence of
  public calls, in any order, keeps the invariant.
\<close>

section \<open>The step returns\<close>

context servo_motion
begin

lemma command_position_returns:
  "good (co_motion s) \<Longrightarrow> in_envelope p \<Longrightarrow> \<not> throws (command_position ops p s)"
  by (simp add: set_target_takes good_ops)

lemma start_next_cycle_returns:
  assumes "good (co_motion s)" "recipe_ok (co_recipe s)" "open_order (co_order s)"
  shows "\<not> throws (start_next_cycle ops why s)"
proof -
  obtain p where "co_order s = Some p" using assms(3) by (auto simp: open_order_def)
  then have "\<not> throws (begin_cycle s)" by (simp add: begin_cycle_def Let_def)
  then show ?thesis
    unfolding start_next_cycle_def
    by (rule chain_not_throws, intro command_position_returns) (use assms in \<open>simp_all add: recipe_ok_def\<close>)
qed

lemma dwell_returns: "(\<And>t. co_motion t = co_motion s \<Longrightarrow> co_recipe t = co_recipe s \<Longrightarrow> \<not> throws (k t)) \<Longrightarrow> \<not> throws (dwell_then dt k s)"
  by (simp add: dwell_then_def Let_def)

lemma advance_production_returns:
  assumes inv: "coord_inv ops good s" and run: "co_exec s = ES_Running"
  shows "\<not> throws (advance_production ops dt motion s)"
proof (cases "co_step s")
  case PS_ReturnHome
  obtain d t where t: "complete_cycle s = (Inr d, t)" "good (co_motion t)" "recipe_ok (co_recipe t)"
    "\<not> d \<longrightarrow> open_order (co_order t)"
    using complete_cycle_facts [OF inv run] by blast
  then show ?thesis
    using PS_ReturnHome by (simp add: advance_production_def start_next_cycle_returns)
qed (use coord_inv_good [OF inv] coord_inv_recipe [OF inv] in
    \<open>simp_all add: advance_production_def Let_def dwell_returns command_position_returns recipe_ok_def
      del: command_position_throws\<close>)

lemma run_execution_returns: "coord_inv ops good s \<Longrightarrow> \<not> throws (run_execution ops dt motion s)"
  by (cases "co_exec s")
    (simp_all add: run_execution_def Let_def advance_production_returns start_next_cycle_returns
      coord_inv_good coord_inv_recipe coord_inv_open)

lemma step_machine_returns:
  assumes inv: "coord_inv ops good s" and dt: "0 < dt"
  shows "\<not> throws (step_machine ops dt s)"
proof -
  have "0 \<le> mp_max_acceleration (rc_motion (co_recipe s))"
    using coord_inv_recipe [OF inv] by (simp add: recipe_ok_def)
  then have "\<not> throws (mo_step ops dt v (mp_max_acceleration (rc_motion (co_recipe s))) (co_motion s))" for v
    using coord_inv_good [OF inv] dt by (simp add: step_returns)
  then show ?thesis
    unfolding step_machine_def Let_def using inv
    by (intro chain_not_throws run_execution_returns check_following_error_inv check_permission_inv) simp_all
qed

end

section \<open>Reachable states\<close>

text \<open>
  Every public call is made under the lock, so a run of the coordinator is a sequence of calls in
  any order. A checkpoint that is restored is one that \<open>checkpoint_ok\<close> admits; the coordinator writes
  no other (\<open>create_checkpoint_ok\<close>).
\<close>

inductive coord_call :: "'m motion_ops \<Rightarrow> 'm coordinator \<Rightarrow> 'm coordinator \<Rightarrow> bool" for ops where
  Command: "coord_call ops s (snd (execute ops i req s))"
| Recipe: "coord_call ops s (snd (activate_recipe i recipe corr s))"
| Tick: "0 < dt \<Longrightarrow> coord_call ops s (snd (step_snapshot ops host dt s))"
| Snapshot: "coord_call ops s (snd (snapshot_unsafe ops host s))"
| Checkpoint: "coord_call ops s (snd (create_checkpoint ops why s))"
| Restore: "checkpoint_ok cp \<Longrightarrow> coord_call ops s (snd (restore_checkpoint ops cp s))"
| Drain: "coord_call ops s (snd (drain_events s))"

inductive reachable :: "'m motion_ops \<Rightarrow> 'm coordinator \<Rightarrow> 'm coordinator \<Rightarrow> bool" for ops s0 where
  Initial: "reachable ops s0 s0"
| Call: "reachable ops s0 s \<Longrightarrow> coord_call ops s t \<Longrightarrow> reachable ops s0 t"

lemma step_snapshot_state:
  "\<exists>n \<ge> co_reads (snd (step_machine ops dt s)). snd (step_snapshot ops host dt s) = (snd (step_machine ops dt s))\<lparr>co_reads := n\<rparr>"
proof (cases "fst (step_machine ops dt s)")
  case (Inl e)
  then show ?thesis
    by (intro exI [of _ "co_reads (snd (step_machine ops dt s))"]) (simp add: step_snapshot_def chain_def)
next
  case (Inr u)
  then show ?thesis
    by (intro exI [of _ "co_reads (snd (step_machine ops dt s)) + 1"]) (simp add: step_snapshot_def chain_def snapshot_unsafe_def Let_def)
qed

lemma step_snapshot_throws [simp]: "throws (step_snapshot ops host dt s) = throws (step_machine ops dt s)"
  by (simp add: step_snapshot_def chain_def throws_def Let_def split: sum.split)

lemma journal_call: "coord_call ops s t \<Longrightarrow> journal [] 0 s \<Longrightarrow> journal [] 0 t"
proof (induction rule: coord_call.induct)
  case (Tick dt s host)
  then show ?case using step_snapshot_state [of ops dt s host] by (auto simp: journal_step)
qed (auto simp: journal_execute journal_activate journal_snapshot journal_restore journal_drain)

lemma journal_new: "journal [] 0 (new_coordinator recipe m)"
  by (simp add: new_coordinator_def journal_def recorded_def alarms_ok_def)

lemma reachable_journal: "reachable ops s0 s \<Longrightarrow> journal [] 0 s0 \<Longrightarrow> journal [] 0 s"
  by (induction rule: reachable.induct) (auto dest: journal_call)

context servo_motion
begin

lemma coord_call_inv: "coord_call ops s t \<Longrightarrow> coord_inv ops good s \<Longrightarrow> coord_inv ops good t"
proof (induction rule: coord_call.induct)
  case (Tick dt s host)
  then show ?case using step_snapshot_state [of ops dt s host] by (auto simp: step_machine_inv)
qed (auto simp: execute_inv activate_recipe_inv snapshot_inv create_checkpoint_inv restore_checkpoint_inv drain_events_inv)

lemma reachable_inv:
  "reachable ops s0 s \<Longrightarrow> coord_inv ops good s0 \<Longrightarrow> coord_inv ops good s"
  by (induction rule: reachable.induct) (auto dest: coord_call_inv)

lemma reachable_new_inv:
  "reachable ops (new_coordinator recipe m) s \<Longrightarrow> recipe_ok recipe \<Longrightarrow> good m \<Longrightarrow> coord_inv ops good s"
  by (blast intro: reachable_inv new_coordinator_inv)

end

end
