(* ===== verification/CoordinatorLaws.thy ===== *)
theory CoordinatorLaws
  imports CoordinatorReach
begin

text \<open>
  The properties of the coordinator: what its reachable states satisfy, when it accepts commands,
  what a rejected one leaves, what a reset and a checkpoint restore.
\<close>

section \<open>Commands by name\<close>

definition command_name :: "command_request \<Rightarrow> string" where
  "command_name req = to_lower (trim (case cr_type req of None \<Rightarrow> [] | Some t \<Rightarrow> t))"

definition correlation_of :: "string \<Rightarrow> command_request \<Rightarrow> string" where
  "correlation_of i req = (case cr_correlation_id req of None \<Rightarrow> i | Some c \<Rightarrow> c)"

lemma execute_by_name:
  "command_name req = ''initialize'' \<Longrightarrow>
     execute ops i req s = initialize_cmd ops i (correlation_of i req) (s\<lparr>co_correlation := correlation_of i req\<rparr>)"
  "command_name req = ''set-mode'' \<Longrightarrow>
     execute ops i req s = set_mode_cmd i (cr_mode req) (correlation_of i req) (s\<lparr>co_correlation := correlation_of i req\<rparr>)"
  "command_name req = ''load-order'' \<Longrightarrow>
     execute ops i req s = load_order_cmd i req (correlation_of i req) (s\<lparr>co_correlation := correlation_of i req\<rparr>)"
  "command_name req = ''cancel-order'' \<Longrightarrow>
     execute ops i req s = cancel_order_cmd i (correlation_of i req) (s\<lparr>co_correlation := correlation_of i req\<rparr>)"
  "command_name req = ''home'' \<Longrightarrow>
     execute ops i req s = home_cmd ops i (correlation_of i req) (s\<lparr>co_correlation := correlation_of i req\<rparr>)"
  "command_name req = ''start'' \<Longrightarrow>
     execute ops i req s = start_cmd ops i (correlation_of i req) (s\<lparr>co_correlation := correlation_of i req\<rparr>)"
  "command_name req = ''pause'' \<Longrightarrow>
     execute ops i req s = pause_cmd ops i (correlation_of i req) (s\<lparr>co_correlation := correlation_of i req\<rparr>)"
  "command_name req = ''resume'' \<Longrightarrow>
     execute ops i req s = resume_cmd ops i (correlation_of i req) (s\<lparr>co_correlation := correlation_of i req\<rparr>)"
  "command_name req = ''stop'' \<Longrightarrow>
     execute ops i req s = stop_cmd ops i (correlation_of i req) (s\<lparr>co_correlation := correlation_of i req\<rparr>)"
  "command_name req = ''abort'' \<Longrightarrow>
     execute ops i req s = abort_cmd i (correlation_of i req) (s\<lparr>co_correlation := correlation_of i req\<rparr>)"
  "command_name req = ''reset'' \<Longrightarrow>
     execute ops i req s = reset_cmd ops i (correlation_of i req) (s\<lparr>co_correlation := correlation_of i req\<rparr>)"
  "command_name req = ''recover-discard'' \<Longrightarrow>
     execute ops i req s = recover_cmd ops i RA_DiscardAndReset (correlation_of i req) (s\<lparr>co_correlation := correlation_of i req\<rparr>)"
  "command_name req = ''recover-reset'' \<Longrightarrow>
     execute ops i req s = recover_cmd ops i RA_DiscardAndReset (correlation_of i req) (s\<lparr>co_correlation := correlation_of i req\<rparr>)"
  "command_name req = ''recover-rehome'' \<Longrightarrow>
     execute ops i req s = recover_cmd ops i RA_RehomeAndReset (correlation_of i req) (s\<lparr>co_correlation := correlation_of i req\<rparr>)"
  "command_name req = ''recover-resume'' \<Longrightarrow>
     execute ops i req s = recover_cmd ops i RA_ResumeSimulation (correlation_of i req) (s\<lparr>co_correlation := correlation_of i req\<rparr>)"
  "command_name req = ''jog'' \<Longrightarrow>
     execute ops i req s = jog_cmd ops i (cr_axis req) (cr_value req) (correlation_of i req) (s\<lparr>co_correlation := correlation_of i req\<rparr>)"
  "command_name req = ''inject-fault'' \<Longrightarrow>
     execute ops i req s = inject_fault_cmd ops i (cr_fault req) (correlation_of i req) (s\<lparr>co_correlation := correlation_of i req\<rparr>)"
  "command_name req = ''clear-fault'' \<Longrightarrow>
     execute ops i req s = clear_fault_cmd ops i (cr_fault req) (correlation_of i req) (s\<lparr>co_correlation := correlation_of i req\<rparr>)"
  "command_name req = ''acknowledge-alarms'' \<Longrightarrow>
     execute ops i req s = acknowledge_alarms_cmd i (case cr_requested_by req of None \<Rightarrow> ''operator'' | Some u \<Rightarrow> u) (correlation_of i req) (s\<lparr>co_correlation := correlation_of i req\<rparr>)"
  by (simp_all add: execute_def dispatch_def command_name_def correlation_of_def Let_def)

lemma command_name_plain [simp]: "command_name (plain_request ty) = to_lower (trim ty)"
  by (simp add: command_name_def plain_request_def)

lemma correlation_of_plain [simp]: "correlation_of i (plain_request ty) = i"
  by (simp add: correlation_of_def plain_request_def)

section \<open>Automatic operation\<close>

lemma cell_reachable_inv:
  assumes "reachable cell_ops (new_coordinator recipe new_cell_motion) s" and "recipe_ok recipe"
  shows "coord_inv cell_ops (\<lambda>d. sim_good (fi_inner d)) s"
  by (rule cell.reachable_new_inv [OF assms]) simp

lemma cell_homed_iff: "homed cell_ops d \<longleftrightarrow> sa_homed (sm_x (fi_inner d)) \<and> sa_homed (sm_y (fi_inner d))"
  by (simp add: homed_def cell_ops_def fault_injecting_ops_def simulated_ops_def)

text \<open>
  C1. Automatic operation never runs unhomed or without work: in every state that any sequence of
  public calls reaches, if the machine is starting, running, pausing or paused then both simulated
  axes are homed and an order is loaded whose count has not passed its target; and while it runs,
  pauses or is paused a part is in process.
\<close>

theorem automatic_homed_with_open_order:
  assumes "reachable cell_ops (new_coordinator recipe new_cell_motion) s" and "recipe_ok recipe"
    and "co_exec s \<in> {ES_Starting, ES_Running, ES_Pausing, ES_Paused}"
  shows "sa_homed (sm_x (fi_inner (co_motion s))) \<and> sa_homed (sm_y (fi_inner (co_motion s))) \<and>
    (\<exists>p. co_order s = Some p \<and> 0 < po_target p \<and> po_completed p \<le> po_target p) \<and>
    (co_exec s \<noteq> ES_Starting \<longrightarrow> co_part s \<noteq> None)"
proof -
  note inv = cell_reachable_inv [OF assms(1,2)]
  have auto: "co_exec s \<in> automatic_states"
    using assms(3) by (auto simp: automatic_states_def)
  obtain p where "co_order s = Some p" "po_completed p \<le> po_target p"
    using coord_inv_open [OF inv auto] by (auto simp: open_order_def)
  moreover from this have "0 < po_target p"
    using coord_inv_orders [OF inv] by (simp add: orders_inv_def order_inv_def order_ok_def)
  ultimately show ?thesis
    using coord_inv_homed [OF inv auto] coord_inv_part [OF inv] assms(3) by (auto simp: cell_homed_iff)
qed

definition demo_checkpoint :: recovery_checkpoint where
  "demo_checkpoint =
     \<lparr>cp_timestamp = 0, cp_revision = 4, cp_mode = MM_Automatic, cp_execution = ES_Running,
      cp_step = PS_MoveToPick, cp_part_id = Some ''A-PART-000001'', cp_order_id = Some ''A'',
      cp_order_target = Some 3, cp_order_completed = 0, cp_recipe_id = ''standard-widget'',
      cp_recipe_revision = 1, cp_gripper_closed = False, cp_x = 0, cp_y = 0, cp_x_target = 0.8,
      cp_y_target = 0.3, cp_cycle_started = None, cp_reason = ''restart''\<rparr>"

definition restored_cell :: "simulated_motion injected coordinator" where
  "restored_cell = snd (restore_checkpoint cell_ops demo_checkpoint (new_coordinator default_recipe new_cell_motion))"

definition resumed_cell :: "simulated_motion injected coordinator" where
  "resumed_cell = snd (execute cell_ops ''c1'' (plain_request ''recover-resume'') restored_cell)"

lemma resumed_cell_reachable: "reachable cell_ops (new_coordinator default_recipe new_cell_motion) resumed_cell"
  unfolding resumed_cell_def restored_cell_def
  by (intro reachable.Call [OF _ coord_call.Command] reachable.Call [OF _ coord_call.Restore] reachable.Initial)
    (simp add: checkpoint_ok_def demo_checkpoint_def is_blank_def is_space_def)

lemma cell_faulted_sel [simp]:
  "ms_any_faulted (mo_snapshot cell_ops d r) \<longleftrightarrow> sa_faulted (sm_x (fi_inner d)) \<or> sa_faulted (sm_y (fi_inner d))"
  "ms_all_homed (mo_snapshot cell_ops d r) \<longleftrightarrow> sa_homed (sm_x (fi_inner d)) \<and> sa_homed (sm_y (fi_inner d))"
  by (simp_all add: cell_ops_def fault_injecting_ops_def simulated_ops_def)

lemma restored_cell_sel:
  "co_exec restored_cell = ES_RecoveryRequired" "co_checkpoint restored_cell = Some demo_checkpoint"
  "co_estop_ok restored_cell" "co_guard_closed restored_cell" "co_bus_healthy restored_cell"
  "\<not> ms_any_faulted (mo_snapshot cell_ops (co_motion restored_cell) r)"
  by (simp_all add: restored_cell_def restore_checkpoint_def demo_checkpoint_def new_coordinator_def Let_def
      new_order_def is_blank_def is_space_def cell_ops_def fault_injecting_ops_def simulated_ops_def)

lemma resumed_cell_exec: "co_exec resumed_cell = ES_Running"
  using restored_cell_sel
  by (simp add: resumed_cell_def execute_by_name(15) text_eval recover_cmd_def motion_permitted_iff Let_def
      demo_checkpoint_def chain_def split: sum.split)

lemma automatic_homed_witness:
  "sa_homed (sm_x (fi_inner (co_motion resumed_cell))) \<and> co_exec resumed_cell = ES_Running \<and> co_part resumed_cell \<noteq> None"
  using automatic_homed_with_open_order [OF resumed_cell_reachable default_recipe_ok] resumed_cell_exec by simp

section \<open>The cyclic step\<close>

text \<open>
  C2. The cyclic step never throws: from every reachable state a step with a positive period
  returns a snapshot, so the runtime loop cannot be killed by the state machine (every target it
  commands lies inside the axis limits, and a cycle begins and completes only with an order and a
  part at hand).
\<close>

theorem step_never_throws:
  assumes "reachable cell_ops (new_coordinator recipe new_cell_motion) s" and "recipe_ok recipe" and "0 < dt"
  shows "\<exists>snapshot t. step_snapshot cell_ops host dt s = (Inr snapshot, t)"
proof -
  have "\<not> throws (step_snapshot cell_ops host dt s)"
    using cell.step_machine_returns [OF cell_reachable_inv [OF assms(1,2)] assms(3)] by simp
  then show ?thesis by (blast elim: not_throws_cases)
qed

lemma step_never_throws_witness:
  "\<forall>host. \<exists>snapshot t. step_snapshot cell_ops host (1 / 100) resumed_cell = (Inr snapshot, t)"
  by (intro allI step_never_throws [OF resumed_cell_reachable default_recipe_ok]) simp

lemma run_execution_faulted: "co_exec s = ES_Faulted \<Longrightarrow> run_execution ops dt motion s = (Inr (), s)"
  by (simp add: run_execution_def)

lemma raise_fault_lookup:
  "\<exists>a. alarm_lookup code (co_alarms (raise_fault ops code src sv msg act s)) = Some a \<and> al_lifecycle a \<noteq> AL_Historical"
proof (cases "alarm_lookup code (co_alarms s)")
  case None
  then show ?thesis
    by (simp add: raise_fault_def Let_def transition_def increment_revision_def record_event_def on_motion_def)
next
  case (Some a)
  then show ?thesis
    by (simp add: raise_fault_def Let_def transition_def increment_revision_def record_event_def on_motion_def)
qed

lemma not_throws_unit:
  fixes r :: "(unit, 's) outcome"
  assumes "\<not> throws r"
  obtains s where "r = (Inr (), s)"
  using assms by (cases r) (auto simp: throws_def split: sum.splits)

lemma motion_call_returns:
  "\<not> throws (f (co_motion s)) \<Longrightarrow> motion_call f s = (Inr (), s\<lparr>co_motion := snd (f (co_motion s))\<rparr>)"
  by (cases "fst (f (co_motion s))") (auto simp: motion_call_def throws_def Let_def)

lemma step_machine_unfold:
  assumes "\<not> throws (mo_step ops dt (mp_max_velocity (rc_motion (co_recipe s))) (mp_max_acceleration (rc_motion (co_recipe s))) (co_motion s))"
  shows "step_machine ops dt s =
    (let t = s\<lparr>co_sim_time := co_sim_time s + dt,
               co_motion := snd (mo_step ops dt (mp_max_velocity (rc_motion (co_recipe s)))
                                  (mp_max_acceleration (rc_motion (co_recipe s))) (co_motion s))\<rparr>;
         current = mo_snapshot ops (co_motion t) (motion_state_for (co_exec t));
         u = check_following_error ops current (check_permission ops current t)
     in run_execution ops dt (mo_snapshot ops (co_motion u) (motion_state_for (co_exec u))) u)"
  using assms by (simp add: step_machine_def motion_call_returns Let_def)

context servo_motion
begin

text \<open>Losing the permission to move in a guarded state ends that state in the next step.\<close>

lemma permission_lost_step:
  assumes inv: "coord_inv ops good s" and dt: "0 < dt" and guarded: "co_exec s \<in> guarded_states"
    and lost: "\<not> (co_estop_ok s \<and> co_guard_closed s \<and> co_bus_healthy s \<and> \<not> ms_any_faulted (mo_snapshot ops (co_motion s) AM_Standstill))"
  shows "co_exec (snd (step_machine ops dt s)) = ES_Faulted \<and>
    co_step (snd (step_machine ops dt s)) = co_step s \<and>
    (\<exists>m. co_motion (snd (step_machine ops dt s)) = mo_hold ops m) \<and>
    (\<exists>a. alarm_lookup ''MOTION_PERMISSION_LOST'' (co_alarms (snd (step_machine ops dt s))) = Some a \<and>
       al_lifecycle a \<noteq> AL_Historical)"
proof -
  have ret: "\<not> throws (mo_step ops dt v (mp_max_acceleration (rc_motion (co_recipe s))) (co_motion s))" for v
    using coord_inv_recipe [OF inv] coord_inv_good [OF inv] dt by (simp add: step_returns recipe_ok_def)
  define t where "t = s\<lparr>co_sim_time := co_sim_time s + dt,
      co_motion := snd (mo_step ops dt (mp_max_velocity (rc_motion (co_recipe s)))
                         (mp_max_acceleration (rc_motion (co_recipe s))) (co_motion s))\<rparr>"
  define cur where "cur = mo_snapshot ops (co_motion t) (motion_state_for (co_exec t))"
  have fault: "ms_any_faulted cur = ms_any_faulted (mo_snapshot ops (co_motion s) AM_Standstill)"
    unfolding cur_def by (subst faulted_any_state) (simp add: t_def step_faulted)
  have same: "co_exec t = co_exec s" "co_step t = co_step s" "co_estop_ok t = co_estop_ok s"
    "co_guard_closed t = co_guard_closed s" "co_bus_healthy t = co_bus_healthy s"
    by (simp_all add: t_def)
  have perm: "\<not> il_motion_permitted (build_interlocks t cur)"
    using lost fault same by (simp add: motion_permitted_iff)
  define msg where "msg = join_with ''; '' (il_reasons (build_interlocks t cur))"
  have u: "check_permission ops cur t = raise_fault ops ''MOTION_PERMISSION_LOST'' ''Interlocks'' SV_Critical msg
      ''Restore the blocking condition, acknowledge alarms, then reset.'' t"
    using perm guarded same by (simp add: check_permission_def Let_def msg_def)
  have step: "step_machine ops dt s = (Inr (), check_permission ops cur t)"
    unfolding step_machine_unfold [OF ret] Let_def t_def [symmetric] cur_def [symmetric]
    by (simp add: u check_following_error_def run_execution_faulted)
  show ?thesis
    unfolding step snd_conv u using raise_fault_lookup same by auto
qed

end

text \<open>
  C3. Losing a safety condition stops the machine within one period: if the emergency stop, the
  guard, the bus or a drive is not healthy while the machine is homing, starting, running, pausing
  or recovering, the next step leaves it \<open>Faulted\<close> in the same production step, with both axes told
  to hold and a live \<open>MOTION_PERMISSION_LOST\<close> alarm.
\<close>

theorem permission_loss_faults:
  assumes "reachable cell_ops (new_coordinator recipe new_cell_motion) s" and "recipe_ok recipe" and "0 < dt"
    and "co_exec s \<in> {ES_Homing, ES_Starting, ES_Running, ES_Pausing, ES_Recovering}"
    and "\<not> (co_estop_ok s \<and> co_guard_closed s \<and> co_bus_healthy s \<and>
            \<not> ms_any_faulted (mo_snapshot cell_ops (co_motion s) AM_Standstill))"
  shows "co_exec (snd (step_machine cell_ops dt s)) = ES_Faulted \<and>
    co_step (snd (step_machine cell_ops dt s)) = co_step s \<and>
    (\<exists>m. co_motion (snd (step_machine cell_ops dt s)) = mo_hold cell_ops m) \<and>
    (\<exists>a. alarm_lookup ''MOTION_PERMISSION_LOST'' (co_alarms (snd (step_machine cell_ops dt s))) = Some a \<and>
       al_lifecycle a \<noteq> AL_Historical)"
  by (rule cell.permission_lost_step [OF cell_reachable_inv [OF assms(1,2)] assms(3)])
    (use assms(4,5) in \<open>simp_all add: guarded_states_def\<close>)

definition guard_open_cell :: "simulated_motion injected coordinator" where
  "guard_open_cell = snd (restore_checkpoint cell_ops demo_checkpoint
     (snd (execute cell_ops ''c1'' ((plain_request ''inject-fault'')\<lparr>cr_fault := Some ''guard-open''\<rparr>)
        (new_coordinator default_recipe new_cell_motion))))"

definition rehoming_cell :: "simulated_motion injected coordinator" where
  "rehoming_cell = snd (execute cell_ops ''c2'' (plain_request ''recover-rehome'') guard_open_cell)"

lemma rehoming_cell_reachable: "reachable cell_ops (new_coordinator default_recipe new_cell_motion) rehoming_cell"
  unfolding rehoming_cell_def guard_open_cell_def
  by (intro reachable.Call [OF _ coord_call.Command] reachable.Call [OF _ coord_call.Restore] reachable.Initial)
    (simp add: checkpoint_ok_def demo_checkpoint_def is_blank_def is_space_def)

lemma guard_open_cell_sel:
  "co_exec guard_open_cell = ES_RecoveryRequired" "co_checkpoint guard_open_cell = Some demo_checkpoint"
  "\<not> co_guard_closed guard_open_cell"
proof -
  have "command_name ((plain_request ''inject-fault'')\<lparr>cr_fault := Some ''guard-open''\<rparr>) = ''inject-fault''"
    by (simp add: command_name_def plain_request_def text_eval)
  note injected = execute_by_name(17) [OF this]
  have "\<not> co_guard_closed (snd (execute cell_ops ''c1'' ((plain_request ''inject-fault'')\<lparr>cr_fault := Some ''guard-open''\<rparr>)
        (new_coordinator default_recipe new_cell_motion)))"
    unfolding injected by (simp add: inject_fault_cmd_def fault_of_text_def text_eval plain_request_def)
  then show "\<not> co_guard_closed guard_open_cell"
    unfolding guard_open_cell_def
    by (simp add: restore_checkpoint_def demo_checkpoint_def Let_def new_order_def is_blank_def is_space_def)
  show "co_exec guard_open_cell = ES_RecoveryRequired" "co_checkpoint guard_open_cell = Some demo_checkpoint"
    unfolding guard_open_cell_def
    by (simp_all add: restore_checkpoint_def demo_checkpoint_def Let_def new_order_def is_blank_def is_space_def)
qed

lemma rehoming_cell_sel: "co_exec rehoming_cell = ES_Recovering" "\<not> co_guard_closed rehoming_cell"
proof -
  let ?s = "guard_open_cell\<lparr>co_correlation := ''c2''\<rparr>"
  let ?d = "on_motion (mo_restore cell_ops (cp_x demo_checkpoint) (cp_y demo_checkpoint) False None None) (discard_interrupted_part ?s)"
  have inv: "coord_inv cell_ops (\<lambda>d. sim_good (fi_inner d)) guard_open_cell"
    unfolding guard_open_cell_def
    by (intro cell_reachable_inv [of default_recipe] reachable.Call [OF _ coord_call.Command]
        reachable.Call [OF _ coord_call.Restore] reachable.Initial default_recipe_ok)
      (simp add: checkpoint_ok_def demo_checkpoint_def is_blank_def is_space_def)
  have "\<not> throws (command_position cell_ops (rc_home (co_recipe ?d)) ?d)"
    using coord_inv_good [OF inv] coord_inv_recipe [OF inv]
    by (intro cell.command_position_returns) (simp_all add: cell.good_restore recipe_ok_def)
  then obtain u where u: "command_position cell_ops (rc_home (co_recipe ?d)) ?d = (Inr (), u)"
    by (rule not_throws_unit)
  have guard: "\<not> co_guard_closed u"
    using guard_open_cell_sel(3) arg_cong [OF u, of "\<lambda>r. co_guard_closed (snd r)"] by simp
  have name: "command_name (plain_request ''recover-rehome'') = ''recover-rehome''"
    by (simp add: text_eval)
  show "co_exec rehoming_cell = ES_Recovering" "\<not> co_guard_closed rehoming_cell"
    unfolding rehoming_cell_def execute_by_name(14) [OF name]
    using guard_open_cell_sel(1,2) u guard by (simp_all add: recover_cmd_def Let_def)
qed

lemma permission_loss_witness:
  "co_exec (snd (step_machine cell_ops (1 / 100) rehoming_cell)) = ES_Faulted"
  using permission_loss_faults [OF rehoming_cell_reachable default_recipe_ok, of "1 / 100"] rehoming_cell_sel by simp

text \<open>
  Excessive following error stops the machine too: when after the axes moved the larger
  following error exceeds the recipe's limit while the machine is homing, running or recovering,
  the check that follows leaves it \<open>Faulted\<close> with a live \<open>FOLLOWING_ERROR\<close> alarm; at or below the
  limit, or in any other state, the check changes nothing.
\<close>

theorem following_error_check:
  "(if mp_error_limit (rc_motion (co_recipe s)) < max \<bar>ax_following_error (ms_x motion)\<bar> \<bar>ax_following_error (ms_y motion)\<bar>
       \<and> co_exec s \<in> {ES_Homing, ES_Running, ES_Recovering}
    then co_exec (check_following_error ops motion s) = ES_Faulted
       \<and> co_motion (check_following_error ops motion s) = mo_hold ops (co_motion s)
       \<and> (\<exists>a. alarm_lookup ''FOLLOWING_ERROR'' (co_alarms (check_following_error ops motion s)) = Some a
             \<and> al_lifecycle a \<noteq> AL_Historical)
    else check_following_error ops motion s = s)"
  unfolding check_following_error_def Let_def following_error_of_def
  by (simp only: split: if_split) (simp add: raise_fault_lookup, blast)

section \<open>Commands\<close>

text \<open>
  \<open>start\<close> is accepted exactly when every start condition of the cell holds: automatic mode,
  \<open>Ready\<close>, both axes homed, an order that is neither completed nor cancelled, and all four
  interlocks. Accepted, it activates the order and enters \<open>Starting\<close> at \<open>WaitForPart\<close>; otherwise it is
  rejected with \<open>START_CONDITIONS_NOT_MET\<close> and at least one reason.
\<close>

theorem start_accepted_iff:
  assumes "command_name req = ''start''"
  shows "if co_mode s = MM_Automatic \<and> co_exec s = ES_Ready
       \<and> sa_homed (sm_x (fi_inner (co_motion s))) \<and> sa_homed (sm_y (fi_inner (co_motion s)))
       \<and> (case co_order s of None \<Rightarrow> False | Some p \<Rightarrow> po_status p \<noteq> OS_Completed \<and> po_status p \<noteq> OS_Cancelled)
       \<and> co_estop_ok s \<and> co_guard_closed s \<and> co_bus_healthy s
       \<and> \<not> sa_faulted (sm_x (fi_inner (co_motion s))) \<and> \<not> sa_faulted (sm_y (fi_inner (co_motion s)))
     then \<exists>r t. execute cell_ops i req s = (Inr r, t) \<and> res_status r = CS_Accepted
       \<and> co_exec t = ES_Starting \<and> co_step t = PS_WaitForPart
       \<and> co_order t = map_option activate_order (co_order s)
     else \<exists>r t. execute cell_ops i req s = (Inr r, t) \<and> res_status r = CS_Rejected
       \<and> res_code r = ''START_CONDITIONS_NOT_MET'' \<and> res_reasons r \<noteq> []"
proof -
  let ?t = "s\<lparr>co_correlation := correlation_of i req\<rparr>"
  have iff: "start_reasons cell_ops ?t = [] \<longleftrightarrow>
      co_mode s = MM_Automatic \<and> co_exec s = ES_Ready
       \<and> (sa_homed (sm_x (fi_inner (co_motion s))) \<and> sa_homed (sm_y (fi_inner (co_motion s))))
       \<and> (case co_order s of None \<Rightarrow> False | Some p \<Rightarrow> po_status p \<noteq> OS_Completed \<and> po_status p \<noteq> OS_Cancelled)
       \<and> co_estop_ok s \<and> co_guard_closed s \<and> co_bus_healthy s
       \<and> (\<not> sa_faulted (sm_x (fi_inner (co_motion s))) \<and> \<not> sa_faulted (sm_y (fi_inner (co_motion s))))"
    by (simp add: cell.start_conditions_iff cell_homed_iff split: option.split)
  show ?thesis
  proof (cases "start_reasons cell_ops ?t = []")
    case True
    then have "\<exists>r t. execute cell_ops i req s = (Inr r, t) \<and> res_status r = CS_Accepted
       \<and> co_exec t = ES_Starting \<and> co_step t = PS_WaitForPart
       \<and> co_order t = map_option activate_order (co_order s)"
      by (simp add: execute_by_name(6) [OF assms] start_cmd_def accept_def)
    then show ?thesis using True [unfolded iff] by simp
  next
    case False
    then have "\<exists>r t. execute cell_ops i req s = (Inr r, t) \<and> res_status r = CS_Rejected
       \<and> res_code r = ''START_CONDITIONS_NOT_MET'' \<and> res_reasons r \<noteq> []"
      by (simp add: execute_by_name(6) [OF assms] start_cmd_def reject_def)
    then show ?thesis using False [unfolded iff] by (simp only: if_False conj_assoc)
  qed
qed

lemma start_accepted_witness:
  "\<exists>r t. execute cell_ops ''c'' (plain_request ''start'') (new_coordinator default_recipe new_cell_motion) = (Inr r, t)
     \<and> res_status r = CS_Rejected \<and> res_code r = ''START_CONDITIONS_NOT_MET'' \<and> res_reasons r \<noteq> []"
  using start_accepted_iff [of "plain_request ''start''" "new_coordinator default_recipe new_cell_motion" "''c''"]
  by (simp add: text_eval new_coordinator_def)

definition rejected :: "(command_result, 'm coordinator) outcome \<Rightarrow> bool" where
  "rejected r = (case fst r of Inl _ \<Rightarrow> False | Inr v \<Rightarrow> res_status v = CS_Rejected)"

text \<open>A rejection is decided before anything is changed: the result and the clock reading apart.\<close>

definition reject_clean :: "'m handler \<Rightarrow> bool" where
  "reject_clean h \<longleftrightarrow> (\<forall>s. rejected (h s) \<longrightarrow> snd (h s) = s\<lparr>co_reads := co_reads s + 1\<rparr>)"

lemma rejected_simps [simp]:
  "rejected (reject i c k rs s)" "\<not> rejected (accept i c k s)" "\<not> rejected (Inl e, s)"
  by (simp_all add: rejected_def accept_def reject_def)

lemma reject_state [simp]: "snd (reject i c k rs s) = s\<lparr>co_reads := co_reads s + 1\<rparr>"
  by (simp add: reject_def)

lemma rejected_chain_accept [simp]: "\<not> rejected (chain r (\<lambda>a t. accept i c k (f a t)))"
  by (cases "fst r") (simp_all add: chain_def rejected_def accept_def)

lemma handlers_reject_clean:
  "reject_clean (initialize_cmd ops i corr)" "reject_clean (set_mode_cmd i m corr)"
  "reject_clean (load_order_cmd i req corr)" "reject_clean (cancel_order_cmd i corr)"
  "reject_clean (home_cmd ops i corr)" "reject_clean (start_cmd ops i corr)"
  "reject_clean (pause_cmd ops i corr)" "reject_clean (resume_cmd ops i corr)"
  "reject_clean (stop_cmd ops i corr)" "reject_clean (abort_cmd i corr)" "reject_clean (reset_cmd ops i corr)"
  "reject_clean (inject_fault_cmd ops i f corr)" "reject_clean (clear_fault_cmd ops i f corr)"
  "reject_clean (acknowledge_alarms_cmd i u corr)"
  by (simp_all add: reject_clean_def initialize_cmd_def set_mode_cmd_def load_order_cmd_def cancel_order_cmd_def
      home_cmd_def start_cmd_def pause_cmd_def resume_cmd_def stop_cmd_def abort_cmd_def reset_cmd_def
      inject_fault_cmd_def clear_fault_cmd_def acknowledge_alarms_cmd_def Let_def
      split: option.split sum.split fault_target.split)

lemma reject_clean_if: "reject_clean f \<Longrightarrow> reject_clean h \<Longrightarrow> reject_clean (\<lambda>s. if c then f s else h s)"
  by (simp add: reject_clean_def)

lemma reject_clean_reject: "reject_clean (reject i c k rs)"
  by (simp add: reject_clean_def)

lemma recover_reject_clean: "reject_clean (recover_cmd ops i action corr)"
  by (cases action) (simp_all add: reject_clean_def recover_cmd_def Let_def split: option.split)

lemma jog_reject_clean: "reject_clean (jog_cmd ops i axis d corr)"
  by (simp add: reject_clean_def jog_cmd_def Let_def split: option.split)

text \<open>
  C37. A rejected command changes nothing: when \<open>Execute\<close> answers \<open>Rejected\<close>, on any motion system
  and in any state, the machine it leaves differs from the one it found only in the correlation id
  of the request (and in having read the clock once for the answer).
\<close>

theorem rejected_changes_nothing:
  assumes "fst (execute ops i req s) = Inr r" and "res_status r = CS_Rejected"
  shows "snd (execute ops i req s) = s\<lparr>co_correlation := correlation_of i req, co_reads := co_reads s + 1\<rparr>"
proof -
  have "reject_clean (\<lambda>s. dispatch ops i req corr s)" for corr
    unfolding dispatch_def Let_def
    by (intro reject_clean_if handlers_reject_clean recover_reject_clean jog_reject_clean reject_clean_reject)
  then show ?thesis
    using assms by (simp add: reject_clean_def rejected_def execute_def Let_def correlation_of_def)
qed

end
