(* ===== verification/CoordinatorRecords.thy ===== *)
theory CoordinatorRecords
  imports CoordinatorLaws
begin

text \<open>
  More properties of the coordinator: reset and acknowledgement of alarms, the event queue, the
  revision number, orders, checkpoints, production figures, and the places where the code does
  not do what it means to.
\<close>

lemma rejected_witness:
  "snd (execute cell_ops ''c'' (plain_request ''pause'') (new_coordinator default_recipe new_cell_motion)) =
     (new_coordinator default_recipe new_cell_motion)\<lparr>co_correlation := ''c'', co_reads := 1\<rparr>"
proof -
  have "command_name (plain_request ''pause'') = ''pause''" by (simp add: text_eval)
  note run = execute_by_name(7) [OF this]
  have "fst (execute cell_ops ''c'' (plain_request ''pause'') (new_coordinator default_recipe new_cell_motion)) =
      Inr (rejected_result ''c'' 0 ''c'' ''INVALID_STATE'' [''Pause requires Running state.''] 0)"
    unfolding run by (simp add: pause_cmd_def new_coordinator_def)
  from rejected_changes_nothing [OF this] show ?thesis
    by (simp add: new_coordinator_def)
qed

section \<open>Alarms\<close>

lemma reset_cmd_accepted:
  assumes "reset_cmd ops i corr s = (Inr r, t)" and "res_status r = CS_Accepted"
  defines "u \<equiv> clear_active_alarms [] (co_alarms s) (on_motion (mo_enable_all ops) (on_motion (mo_clear_fault ops MF_None) s))"
  shows "co_estop_ok s \<and> co_guard_closed s \<and> co_bus_healthy s
    \<and> t = snd (accept i corr ''ACCEPTED'' (transition (if ms_all_homed (mo_snapshot ops (co_motion u) AM_Standstill)
        then ES_Ready else ES_Stopped) PS_None ''Fault reset completed'' u))"
  using assms(1,2) unfolding reset_cmd_def Let_def u_def [symmetric]
  by (simp add: reject_def accept_def u_def split: if_splits) auto

text \<open>
  Reset: when \<open>reset\<close> is accepted the machine has no active alarm, no faulted axis, the emergency
  stop, guard and bus are healthy, and the execution state is \<open>Ready\<close> if both axes are homed and
  \<open>Stopped\<close> otherwise, with no production step.
\<close>

theorem reset_accepted:
  assumes "command_name req = ''reset''" and "execute cell_ops i req s = (Inr r, t)" and "res_status r = CS_Accepted"
  shows "list_all (\<lambda>(k, a). \<not> alarm_active a) (co_alarms t)
    \<and> il_motion_permitted (build_interlocks t (mo_snapshot cell_ops (co_motion t) AM_Standstill))
    \<and> co_step t = PS_None
    \<and> co_exec t = (if sa_homed (sm_x (fi_inner (co_motion t))) \<and> sa_homed (sm_y (fi_inner (co_motion t))) then ES_Ready else ES_Stopped)"
proof -
  note facts = reset_cmd_accepted [OF assms(2) [unfolded execute_by_name(11) [OF assms(1)]] assms(3)]
  have healthy: "\<not> ms_any_faulted (mo_snapshot cell_ops (mo_enable_all cell_ops (mo_clear_fault cell_ops MF_None m)) AM_Standstill)" for m
    unfolding cell.enable_faulted by (rule cell.clear_all_faulted)
  show ?thesis
    using facts healthy by (simp add: motion_permitted_iff clear_active_alarms_none)
qed

definition faulted_cell :: "simulated_motion injected coordinator" where
  "faulted_cell = (new_coordinator default_recipe new_cell_motion)\<lparr>co_exec := ES_Faulted,
     co_alarms := [(''INJECTED_FAULT'', new_alarm ''INJECTED_FAULT'' ''Simulation'' SV_Error [] [] [] 0)]\<rparr>"

lemma reset_witness:
  "\<exists>r t. execute cell_ops ''c'' (plain_request ''reset'') faulted_cell = (Inr r, t)
     \<and> res_status r = CS_Accepted \<and> list_all (\<lambda>(k, a). \<not> alarm_active a) (co_alarms t) \<and> co_step t = PS_None"
proof -
  have name: "command_name (plain_request ''reset'') = ''reset''" by (simp add: text_eval)
  have "\<exists>r t. execute cell_ops ''c'' (plain_request ''reset'') faulted_cell = (Inr r, t) \<and> res_status r = CS_Accepted"
    unfolding execute_by_name(11) [OF name]
    by (simp add: reset_cmd_def Let_def faulted_cell_def new_coordinator_def accept_def)
  then show ?thesis
    using reset_accepted [OF name, of "''c''" faulted_cell] by blast
qed

text \<open>The alarm list as its abstract counterpart: each code with the two facts about its alarm.\<close>

definition abs_alarms :: "'m coordinator \<Rightarrow> (string \<times> bool \<times> bool) list" where
  "abs_alarms s = map (\<lambda>(k, a). (k, alarm_abs a)) (co_alarms s)"

lemma abs_faulted_cell: "abs_alarms faulted_cell = [(''INJECTED_FAULT'', False, False)]"
  by (simp add: abs_alarms_def faulted_cell_def alarm_abs_def)

lemma alarm_abs_not_active: "\<not> alarm_active a \<Longrightarrow> spec_clear (alarm_abs a) = alarm_abs a"
  by (cases "al_lifecycle a") (simp_all add: alarm_active_def alarm_abs_def spec_clear_def)

lemma abs_clear_active:
  "map (\<lambda>(k, a). (k, alarm_abs a)) (co_alarms (clear_active_alarms [] xs s)) =
     map (\<lambda>(k, a). (k, spec_clear (alarm_abs a))) xs"
proof -
  obtain ys where ys: "co_alarms (clear_active_alarms [] xs s) = ys"
    "list_all2 (\<lambda>(k, a) (k', b). k' = k \<and> (if alarm_active a then \<exists>t. b = clear_alarm t a else b = a)) xs ys"
    using clear_active_alarms_alarms [of "[]" xs s] by auto
  from ys(2) have "map (\<lambda>(k, a). (k, alarm_abs a)) ys = map (\<lambda>(k, a). (k, spec_clear (alarm_abs a))) xs"
    by (induction rule: list_all2_induct) (auto simp: alarm_abs_clear alarm_abs_not_active split: if_splits, metis alarm_abs_not_active clear_alarm_not_active)
  then show ?thesis using ys(1) by simp
qed

lemma abs_acknowledge_all:
  "map (\<lambda>(k, a). (k, alarm_abs a)) (co_alarms (acknowledge_all u [] xs s)) =
     map (\<lambda>(k, a). (k, spec_acknowledge (alarm_abs a))) xs"
proof -
  obtain ys where ys: "co_alarms (acknowledge_all u [] xs s) = ys"
    "list_all2 (\<lambda>(k, a) (k', b). k' = k \<and> (\<exists>t. b = acknowledge_alarm u t a)) xs ys"
    using acknowledge_all_alarms [of u "[]" xs s] by auto
  from ys(2) have "map (\<lambda>(k, a). (k, alarm_abs a)) ys = map (\<lambda>(k, a). (k, spec_acknowledge (alarm_abs a))) xs"
    by (induction rule: list_all2_induct) (auto simp: alarm_abs_acknowledge)
  then show ?thesis using ys(1) by simp
qed

text \<open>
  C16. \<open>acknowledge-alarms\<close> refines the two-flag specification of an alarm (acknowledged, cleared): it
  sets the first flag of every alarm and neither touches the second nor adds, drops or reorders
  an alarm.
\<close>

theorem acknowledge_refines:
  assumes "command_name req = ''acknowledge-alarms''"
  shows "abs_alarms (snd (execute ops i req s)) = map (\<lambda>(k, p). (k, spec_acknowledge p)) (abs_alarms s)"
  by (simp add: execute_by_name(19) [OF assms] acknowledge_alarms_cmd_def abs_alarms_def abs_acknowledge_all)
    (simp add: case_prod_unfold)

lemma acknowledge_refines_witness:
  "abs_alarms (snd (execute cell_ops ''c'' (plain_request ''acknowledge-alarms'') faulted_cell)) = [(''INJECTED_FAULT'', True, False)]"
proof -
  have "command_name (plain_request ''acknowledge-alarms'') = ''acknowledge-alarms''" by (simp add: text_eval)
  show ?thesis
    unfolding acknowledge_refines [OF \<open>command_name _ = _\<close>] abs_faulted_cell by (simp add: spec_acknowledge_def)
qed

text \<open>
  C17. An accepted \<open>reset\<close> refines the same specification: it sets the cleared flag of every alarm and
  leaves the acknowledgement alone, so that reset and acknowledgement together retire an alarm in
  either order.
\<close>

theorem reset_refines:
  assumes "command_name req = ''reset''" and "execute ops i req s = (Inr r, t)" and "res_status r = CS_Accepted"
  shows "abs_alarms t = map (\<lambda>(k, p). (k, spec_clear p)) (abs_alarms s)"
proof -
  note facts = reset_cmd_accepted [OF assms(2) [unfolded execute_by_name(11) [OF assms(1)]] assms(3)]
  show ?thesis
    using facts by (simp add: abs_alarms_def abs_clear_active) (simp add: case_prod_unfold)
qed

lemma reset_faulted_cell:
  "\<exists>r t. execute cell_ops ''c'' (plain_request ''reset'') faulted_cell = (Inr r, t) \<and> res_status r = CS_Accepted"
proof -
  have name: "command_name (plain_request ''reset'') = ''reset''" by (simp add: text_eval)
  show ?thesis
    unfolding execute_by_name(11) [OF name]
    by (simp add: reset_cmd_def Let_def faulted_cell_def new_coordinator_def accept_def)
qed

lemma reset_refines_witness:
  "\<exists>r t. execute cell_ops ''c'' (plain_request ''reset'') faulted_cell = (Inr r, t) \<and> res_status r = CS_Accepted
     \<and> abs_alarms t = [(''INJECTED_FAULT'', False, True)]"
proof -
  have name: "command_name (plain_request ''reset'') = ''reset''" by (simp add: text_eval)
  obtain r t where rt: "execute cell_ops ''c'' (plain_request ''reset'') faulted_cell = (Inr r, t)" "res_status r = CS_Accepted"
    using reset_faulted_cell by blast
  have "abs_alarms t = [(''INJECTED_FAULT'', False, True)]"
    unfolding reset_refines [OF name rt] abs_faulted_cell by (simp add: spec_clear_def)
  with rt show ?thesis by blast
qed



section \<open>Events and the revision\<close>

text \<open>
  The event queue is a log: commands, recipe changes, steps, snapshots, checkpoints and restores
  only append to it, whatever they do and even when they throw, and draining hands out exactly the
  queue, in order, and empties it. No event is lost, duplicated or reordered.
\<close>

theorem events_only_appended:
  assumes "reachable ops (new_coordinator recipe m) s" and "coord_call ops s t"
  shows "prefix (co_events s) (co_events t) \<or> drain_events s = (co_events s, t) \<and> co_events t = []"
proof -
  have j: "journal (co_events s) (co_reads s) s"
    using reachable_journal [OF assms(1) journal_new] by (simp add: journal_def recorded_def)
  from assms(2) have "journal (co_events s) (co_reads s) t \<or> t = snd (drain_events s)"
  proof cases
    case (Tick dt host)
    then show ?thesis
      using step_snapshot_state [of ops dt s host] j by (auto simp: journal_step)
  qed (use j in \<open>auto simp: journal_execute journal_activate journal_snapshot journal_restore\<close>)
  then show ?thesis
    by (auto simp: drain_events_def dest: journal_prefix)
qed

lemma events_only_appended_witness:
  "prefix (co_events resumed_cell) (co_events (snd (execute cell_ops ''c'' (plain_request ''stop'') resumed_cell)))
   \<or> drain_events resumed_cell = (co_events resumed_cell, snd (execute cell_ops ''c'' (plain_request ''stop'') resumed_cell))
     \<and> co_events (snd (execute cell_ops ''c'' (plain_request ''stop'') resumed_cell)) = []"
  by (rule events_only_appended [OF resumed_cell_reachable coord_call.Command])

definition core :: "'m coordinator \<Rightarrow> execution_state \<times> production_step \<times> machine_mode \<times> machine_recipe \<times> production_order option \<times> string option" where
  "core s = (co_exec s, co_step s, co_mode s, co_recipe s, co_order s, co_part s)"

lemma long_inc_mod: "long_inc x mod 2 ^ 64 = (x + 1) mod 2 ^ 64"
  by (simp add: long_inc_def wrap64_def mod_diff_left_eq add.commute)

lemma long_inc_neq [simp]: "long_inc x \<noteq> x"
proof
  assume "long_inc x = x"
  then have "(x + 1) mod 2 ^ 64 = x mod 2 ^ 64" using long_inc_mod [of x] by simp
  then show False by (simp add: mod_eq_dvd_iff)
qed

text \<open>\<open>tracked s t\<close>: an unchanged revision means an unchanged core.\<close>

definition tracked :: "'m coordinator \<Rightarrow> 'm coordinator \<Rightarrow> bool" where
  "tracked s t \<longleftrightarrow> (co_revision t = co_revision s \<longrightarrow> core t = core s)"

lemma tracked_bump [simp]: "co_revision t = long_inc (co_revision s) \<Longrightarrow> tracked s t"
  by (simp add: tracked_def)

lemma tracked_same: "core t = core s \<Longrightarrow> tracked s t"
  by (simp add: tracked_def)

lemma tracked_accept [simp]:
  "tracked s (snd (accept i c k t)) = tracked s t"
  "tracked s (snd (reject i c k rs t)) = tracked s t"
  "tracked s (record_event ty p t) = tracked s t"
  "tracked s (t\<lparr>co_checkpoint := cc\<rparr>) = tracked s t"
  by (simp_all add: tracked_def core_def)

lemma tracked_increment: "co_revision t = co_revision s \<Longrightarrow> tracked s (increment_revision r t)"
  by simp

lemma tracked_transition:
  assumes "co_revision t = co_revision s"
    and "co_exec t = e \<Longrightarrow> co_step t = st \<Longrightarrow> core t = core s"
  shows "tracked s (transition e st r t)"
  using assms by (auto simp: tracked_def transition_revision core_def)

lemma tracked_chain:
  assumes "\<not> throws r" and "\<And>a. tracked s (snd (k a (snd r)))"
  shows "tracked s (snd (chain r k))"
  using assms by (cases "fst r") (simp_all add: chain_def throws_def)

lemma command_position_core [simp]:
  "core (snd (command_position ops p s)) = core s"
  "core (snd (command_target_for_current_step ops s)) = core s"
  "core (on_motion f s) = core s"
  "core (snd (motion_call h s)) = core s"
  "core (clear_active_alarms [] xs s) = core s"
  by (simp_all add: core_def)

lemma tracked_raise_fault: "co_exec s \<noteq> ES_Faulted \<Longrightarrow> tracked s (raise_fault ops code src sv msg act s)"
  unfolding raise_fault_def Let_def by (rule tracked_transition) (auto simp: core_def split: if_splits)

context servo_motion
begin

lemma advance_production_tracked:
  assumes inv: "coord_inv ops good s" and run: "co_exec s = ES_Running"
  shows "tracked s (snd (advance_production ops dt motion s))"
proof (cases "co_step s")
  case PS_ReturnHome
  obtain d t where t: "complete_cycle s = (Inr d, t)" "good (co_motion t)" "recipe_ok (co_recipe t)" "co_exec t = ES_Running"
    "\<not> d \<longrightarrow> open_order (co_order t)"
    using complete_cycle_facts [OF inv run] by blast
  have same: "co_revision t = co_revision s" "co_step t = co_step s"
    using arg_cong [OF t(1), of "\<lambda>r. co_revision (snd r)"] arg_cong [OF t(1), of "\<lambda>r. co_step (snd r)"] by simp_all
  have again: "tracked s (snd (start_next_cycle ops why t))" if "open_order (co_order t)" for why
  proof -
    obtain p where "co_order t = Some p" using \<open>open_order (co_order t)\<close> by (auto simp: open_order_def)
    then have "\<not> throws (begin_cycle t)" by (simp add: begin_cycle_def Let_def)
    then show ?thesis
      unfolding start_next_cycle_def
      by (rule tracked_chain) (simp add: tracked_def transition_revision same PS_ReturnHome)
  qed
  show ?thesis
    using PS_ReturnHome t same again
    by (auto simp: advance_production_def tracked_def core_def transition_revision)
qed (use run in \<open>simp_all add: advance_production_def dwell_then_def Let_def tracked_def core_def transition_revision\<close>)

lemma run_execution_tracked:
  assumes inv: "coord_inv ops good s"
  shows "tracked s (snd (run_execution ops dt motion s))"
proof (cases "co_exec s")
  case ES_Starting
  have "\<not> throws (begin_cycle s)" using begin_cycle_facts(1) [OF inv] ES_Starting by simp
  then have "tracked s (snd (start_next_cycle ops why s))" for why
    unfolding start_next_cycle_def
    by (rule tracked_chain) (simp add: tracked_def transition_revision ES_Starting)
  then show ?thesis using ES_Starting by (simp add: run_execution_def)
qed (simp_all add: run_execution_def Let_def tracked_def core_def transition_revision advance_production_tracked inv
      advance_production_tracked [unfolded tracked_def core_def])

lemma step_machine_tracked:
  assumes inv: "coord_inv ops good s" and dt: "0 < dt"
  shows "tracked s (snd (step_machine ops dt s))"
proof -
  have ret: "\<not> throws (mo_step ops dt v (mp_max_acceleration (rc_motion (co_recipe s))) (co_motion s))" for v
    using coord_inv_recipe [OF inv] coord_inv_good [OF inv] dt by (simp add: step_returns recipe_ok_def)
  define t where "t = s\<lparr>co_sim_time := co_sim_time s + dt,
      co_motion := snd (mo_step ops dt (mp_max_velocity (rc_motion (co_recipe s)))
                         (mp_max_acceleration (rc_motion (co_recipe s))) (co_motion s))\<rparr>"
  have t: "core t = core s" "co_revision t = co_revision s" "co_exec t = co_exec s"
    by (simp_all add: t_def core_def)
  have tinv: "coord_inv ops good t"
    using inv by (simp add: t_def inv_defs good_ops)
  define cur where "cur = mo_snapshot ops (co_motion t) (motion_state_for (co_exec t))"
  define u where "u = check_following_error ops cur (check_permission ops cur t)"
  have step: "step_machine ops dt s = run_execution ops dt (mo_snapshot ops (co_motion u) (motion_state_for (co_exec u))) u"
    unfolding step_machine_unfold [OF ret] Let_def t_def [symmetric] cur_def [symmetric] u_def [symmetric] ..
  have "u = t \<or> (co_exec u = ES_Faulted \<and> tracked t u)"
    by (auto simp: u_def check_following_error_def check_permission_def Let_def guarded_states_def
        intro!: tracked_raise_fault)
  then show ?thesis
  proof
    assume "u = t"
    then show ?thesis using run_execution_tracked [OF tinv] t by (simp add: step tracked_def)
  next
    assume "co_exec u = ES_Faulted \<and> tracked t u"
    then show ?thesis using t by (simp add: step run_execution_faulted tracked_def)
  qed
qed

end

lemma handlers_tracked:
  "tracked s (snd (initialize_cmd ops i corr s))" "tracked s (snd (set_mode_cmd i m corr s))"
  "tracked s (snd (load_order_cmd i req corr s))" "tracked s (snd (cancel_order_cmd i corr s))"
  "tracked s (snd (start_cmd ops i corr s))" "tracked s (snd (pause_cmd ops i corr s))"
  "tracked s (snd (stop_cmd ops i corr s))" "tracked s (snd (abort_cmd i corr s))"
  "tracked s (snd (acknowledge_alarms_cmd i u corr s))" "tracked s (snd (clear_fault_cmd ops i f corr s))"
  "tracked s (snd (activate_recipe i recipe corr s))"
  by (simp_all add: tracked_def core_def initialize_cmd_def set_mode_cmd_def load_order_cmd_def cancel_order_cmd_def
      start_cmd_def pause_cmd_def stop_cmd_def abort_cmd_def acknowledge_alarms_cmd_def clear_fault_cmd_def
      activate_recipe_def Let_def transition_revision start_reasons_def
      split: option.split sum.split fault_target.split)

lemma inject_fault_tracked: "tracked s (snd (inject_fault_cmd ops i f corr s))"
proof -
  have "tracked s (raise_fault ops code src sv msg act t)" if "core t = core s" "co_revision t = co_revision s" for code src sv msg act t
    unfolding raise_fault_def Let_def
    by (rule tracked_transition) (use that in \<open>auto simp: core_def split: if_splits\<close>)
  then show ?thesis
    by (simp add: inject_fault_cmd_def Let_def tracked_same core_def split: fault_target.split)
qed

lemma reset_tracked: "tracked s (snd (reset_cmd ops i corr s))"
  by (simp add: reset_cmd_def Let_def tracked_def core_def transition_revision)

lemma motion_tracked:
  "tracked s (snd (home_cmd ops i corr s))" "tracked s (snd (resume_cmd ops i corr s))"
  "tracked s (snd (jog_cmd ops i axis d corr s))"
  by (simp_all add: home_cmd_def resume_cmd_def jog_cmd_def Let_def tracked_def core_def transition_revision chain_def
      split: option.split sum.split)

context servo_motion
begin

lemma resume_target_returns:
  assumes "good (co_motion s)" and "recipe_ok (co_recipe s)"
    and "co_motion t = mo_enable_all ops (mo_restore ops x y h xt yt (co_motion s))" and "co_recipe t = co_recipe s"
  shows "\<not> throws (command_target_for_current_step ops t)"
proof -
  have "\<not> throws (command_position ops p t)" if "in_envelope p" for p
    using that assms by (intro command_position_returns) (simp_all add: good_ops)
  moreover have "in_envelope \<lparr>pos_x = ax_actual (ms_x (mo_snapshot ops (co_motion t) AM_Holding)),
      pos_y = ax_actual (ms_y (mo_snapshot ops (co_motion t) AM_Holding))\<rparr>"
    using restored_in_envelope [OF assms(1)] assms(3) by simp
  ultimately show ?thesis
    using assms(2,4) by (simp add: command_target_for_current_step_def Let_def recipe_ok_def split: production_step.split
        del: command_position_throws)
qed

lemma recover_tracked:
  assumes inv: "coord_inv ops good s"
  shows "tracked s (snd (recover_cmd ops i action corr s))"
proof (cases "co_checkpoint s")
  case None
  then show ?thesis by (simp add: recover_cmd_def tracked_def core_def)
next
  case (Some cp)
  show ?thesis
  proof (cases "co_exec s = ES_RecoveryRequired")
    case False
    then show ?thesis using Some by (simp add: recover_cmd_def tracked_def core_def)
  next
    case True
    note known = coord_inv_good [OF inv] coord_inv_recipe [OF inv]
    show ?thesis
    proof (cases action)
      case RA_DiscardAndReset
      then show ?thesis using Some True by (simp add: recover_cmd_def Let_def tracked_def core_def transition_revision)
    next
      case RA_RehomeAndReset
      let ?d = "on_motion (mo_restore ops (cp_x cp) (cp_y cp) False None None) (discard_interrupted_part s)"
      have "\<not> throws (command_position ops (rc_home (co_recipe ?d)) ?d)"
        using known by (intro command_position_returns) (simp_all add: good_restore recipe_ok_def)
      then have "tracked s (snd (chain (command_position ops (rc_home (co_recipe ?d)) ?d)
          (\<lambda>_ u. accept i corr ''RECOVERY_REHOME_STARTED''
             (transition ES_Recovering PS_None ''Recovery rehome started'' (u\<lparr>co_mode := MM_Recovery\<rparr>)))))"
        by (rule tracked_chain) (simp add: tracked_def transition_revision True)
      then show ?thesis
        using RA_RehomeAndReset Some True by (simp add: recover_cmd_def Let_def)
    next
      case RA_ResumeSimulation
      have "tracked s (snd (chain (command_target_for_current_step ops u) (\<lambda>_ v. accept i corr k
          ((record_event ty (p v) (increment_revision r v))\<lparr>co_checkpoint := None\<rparr>))))"
        if "co_motion u = mo_enable_all ops (mo_restore ops x y h xt yt (co_motion s))" "co_recipe u = co_recipe s"
          "co_revision u = co_revision s" for u x y h xt yt k ty p r
        by (rule tracked_chain [OF resume_target_returns [OF known that(1,2)]]) (simp add: that)
      then show ?thesis
        using RA_ResumeSimulation Some True
        by (simp add: recover_cmd_def Let_def) (simp add: tracked_same core_def)
    qed
  qed
qed

lemma execute_tracked:
  assumes inv: "coord_inv ops good s"
  shows "tracked s (snd (execute ops i req s))"
proof -
  have rej: "tracked t (snd (reject i c k rs t))" for t :: "'a coordinator" and c k rs
    by (simp add: tracked_def core_def)
  have "tracked t (snd (dispatch ops i req corr t))" if "coord_inv ops good t" for t corr
    unfolding dispatch_def Let_def
    by (simp only: if_distrib [of snd] if_distrib [of "tracked t"] handlers_tracked inject_fault_tracked reset_tracked
        motion_tracked recover_tracked [OF that] rej if_cancel)
  then show ?thesis
    using inv by (simp add: execute_def Let_def tracked_def core_def)
qed

end

text \<open>
  Clients can trust the revision: when a command, a recipe activation or a step leaves the
  revision number of a reachable machine unchanged, it also left unchanged the execution state,
  the production step, the mode, the recipe, the order (its status and its count) and the part in
  process. Every change of these is published under a new number.
\<close>

theorem revision_covers_changes:
  assumes "reachable cell_ops (new_coordinator recipe new_cell_motion) s" and "recipe_ok recipe" and "0 < dt"
    and "t \<in> {snd (execute cell_ops i req s), snd (activate_recipe i new corr s), snd (step_machine cell_ops dt s)}"
    and "co_revision t = co_revision s"
  shows "co_exec t = co_exec s \<and> co_step t = co_step s \<and> co_mode t = co_mode s \<and> co_recipe t = co_recipe s
    \<and> co_order t = co_order s \<and> co_part t = co_part s"
proof -
  note inv = cell_reachable_inv [OF assms(1,2)]
  have "tracked s t"
    using assms(4) cell.execute_tracked [OF inv] handlers_tracked(11) cell.step_machine_tracked [OF inv assms(3)] by auto
  then show ?thesis
    using assms(5) by (simp add: tracked_def core_def)
qed

lemma revision_covers_witness:
  "co_exec (snd (execute cell_ops ''c'' (plain_request ''pause'') restored_cell)) = ES_RecoveryRequired"
proof -
  have reach: "reachable cell_ops (new_coordinator default_recipe new_cell_motion) restored_cell"
    unfolding restored_cell_def
    by (intro reachable.Call [OF _ coord_call.Restore] reachable.Initial)
      (simp add: checkpoint_ok_def demo_checkpoint_def is_blank_def is_space_def)
  have name: "command_name (plain_request ''pause'') = ''pause''" by (simp add: text_eval)
  have same: "co_revision (snd (execute cell_ops ''c'' (plain_request ''pause'') restored_cell)) = co_revision restored_cell"
    unfolding execute_by_name(7) [OF name] by (simp add: pause_cmd_def restored_cell_sel)
  show ?thesis
    using revision_covers_changes [OF reach default_recipe_ok zero_less_one insertI1 same, THEN conjunct1]
    by (simp only: restored_cell_sel(1))
qed

section \<open>Orders and checkpoints\<close>

text \<open>
  Production never exceeds the order without being asked twice: in every reachable state the
  loaded order has a positive target and a non-negative count of at most one more than it, and as
  long as the order is neither completed nor cancelled the count does not exceed the target.
\<close>

theorem order_counts_bounded:
  assumes "reachable cell_ops (new_coordinator recipe new_cell_motion) s" and "recipe_ok recipe"
    and "co_order s = Some p"
  shows "0 < po_target p \<and> 0 \<le> po_completed p \<and> po_completed p \<le> po_target p + 1 \<and>
    (po_status p \<in> {OS_Queued, OS_Active, OS_Paused} \<longrightarrow> po_completed p \<le> po_target p)"
  using coord_inv_orders [OF cell_reachable_inv [OF assms(1,2)]] assms(3)
  by (auto simp: orders_inv_def order_inv_def order_ok_def)

lemma order_counts_witness:
  "\<exists>p. co_order resumed_cell = Some p \<and> 0 < po_target p \<and> po_completed p \<le> po_target p + 1"
proof -
  have "open_order (co_order resumed_cell)"
    using coord_inv_open [OF cell_reachable_inv [OF resumed_cell_reachable default_recipe_ok]] resumed_cell_exec by simp
  then obtain p where p: "co_order resumed_cell = Some p" by (auto simp: open_order_def)
  from order_counts_bounded [OF resumed_cell_reachable default_recipe_ok this] p show ?thesis by blast
qed

text \<open>A checkpoint restored into a new process, for an order that satisfies its invariant.\<close>

lemma restored_from_checkpoint:
  assumes inv: "order_inv p" and "co_order s = Some p"
    and "cp = fst (create_checkpoint cell_ops why s)"
    and "r = restore_checkpoint cell_ops cp (new_coordinator recipe2 new_cell_motion)"
  shows "\<not> throws r \<and> co_exec (snd r) = ES_RecoveryRequired \<and> co_mode (snd r) = MM_Recovery
    \<and> \<not> homed cell_ops (co_motion (snd r))
    \<and> co_step (snd r) = co_step s \<and> co_part (snd r) = co_part s \<and> co_gripper (snd r) = co_gripper s
    \<and> map_option po_id (co_order (snd r)) = Some (trim (po_id p))
    \<and> map_option po_target (co_order (snd r)) = Some (po_target p)
    \<and> map_option po_completed (co_order (snd r)) = Some (min (po_target p) (po_completed p))
    \<and> map_option po_status (co_order (snd r)) = Some OS_Paused
    \<and> co_revision (snd r) = long_inc (max 0 (co_revision s))"
proof -
  have pos: "\<not> is_blank (po_id p)" "0 < po_target p" "0 \<le> po_completed p"
    using inv by (simp_all add: order_inv_def order_ok_def)
  have clamp: "clampi 0 (po_target p) (po_completed p) = min (po_target p) (po_completed p)"
    using pos by (auto simp: clampi_def)
  have cp: "cp_order_id cp = Some (po_id p)" "cp_order_target cp = Some (po_target p)"
    "cp_order_completed cp = po_completed p" "cp_step cp = co_step s" "cp_part_id cp = co_part s"
    "cp_gripper_closed cp = co_gripper s" "cp_revision cp = co_revision s"
    using assms(2,3) by (simp_all add: create_checkpoint_def Let_def)
  show ?thesis
    using pos clamp cp unfolding assms(4)
    by (simp add: restore_checkpoint_def Let_def new_order_def cell_homed_iff new_coordinator_def)
      (simp add: cell_ops_def fault_injecting_ops_def simulated_ops_def)
qed

text \<open>
  A checkpoint survives a restart: writing a checkpoint of any reachable machine with an order and
  restoring it into a new process never throws and gives a machine in \<open>RecoveryRequired\<close> (mode
  \<open>Recovery\<close>, motors off, axes unhomed) that has the same production step, part, gripper state, order
  id, target and recipe of the order's checkpoint, a count that is the checkpointed one up to the
  target, and a revision above the checkpointed one (unless it wraps).
\<close>

theorem checkpoint_round_trip:
  assumes "reachable cell_ops (new_coordinator recipe new_cell_motion) s" and "recipe_ok recipe"
    and "co_order s = Some p"
    and "cp = fst (create_checkpoint cell_ops why s)"
    and "r = restore_checkpoint cell_ops cp (new_coordinator recipe2 new_cell_motion)"
  shows "\<not> throws r \<and> co_exec (snd r) = ES_RecoveryRequired \<and> co_mode (snd r) = MM_Recovery
    \<and> \<not> homed cell_ops (co_motion (snd r))
    \<and> co_step (snd r) = co_step s \<and> co_part (snd r) = co_part s \<and> co_gripper (snd r) = co_gripper s
    \<and> map_option po_id (co_order (snd r)) = Some (trim (po_id p))
    \<and> map_option po_target (co_order (snd r)) = Some (po_target p)
    \<and> map_option po_completed (co_order (snd r)) = Some (min (po_target p) (po_completed p))
    \<and> map_option po_status (co_order (snd r)) = Some OS_Paused
    \<and> co_revision (snd r) = long_inc (max 0 (co_revision s))"
  using restored_from_checkpoint [OF _ assms(3-5)] coord_inv_orders [OF cell_reachable_inv [OF assms(1,2)]] assms(3)
  by (simp add: orders_inv_def)

end
