(* ===== verification/CoordinatorFindings.thy ===== *)
theory CoordinatorFindings
  imports CoordinatorRecords
begin

text \<open>
  The production sequence and its figures, recipe activation, and the places where the code does
  not do what it means to, each as a theorem about the model of that code.
\<close>

lemma checkpoint_round_trip_witness:
  "\<not> throws (restore_checkpoint cell_ops (fst (create_checkpoint cell_ops ''restart'' resumed_cell))
     (new_coordinator default_recipe new_cell_motion))"
proof -
  have "open_order (co_order resumed_cell)"
    using coord_inv_open [OF cell_reachable_inv [OF resumed_cell_reachable default_recipe_ok]] resumed_cell_exec by simp
  then obtain p where "co_order resumed_cell = Some p" by (auto simp: open_order_def)
  from checkpoint_round_trip [OF resumed_cell_reachable default_recipe_ok this refl refl] show ?thesis by blast
qed

section \<open>The production sequence\<close>

text \<open>The intended order of the production steps, and when a step is over.\<close>

fun step_done :: "motion_snapshot \<Rightarrow> real \<Rightarrow> real \<Rightarrow> production_step \<Rightarrow> bool" where
  "step_done motion dwell dt PS_Pick = (dwell \<le> dt)"
| "step_done motion dwell dt PS_Inspect = (dwell \<le> dt)"
| "step_done motion dwell dt PS_Place = (dwell \<le> dt)"
| "step_done motion dwell dt PS_MoveToPick = ms_at_target motion"
| "step_done motion dwell dt PS_MoveToInspect = ms_at_target motion"
| "step_done motion dwell dt PS_MoveToPlace = ms_at_target motion"
| "step_done motion dwell dt PS_ReturnHome = ms_at_target motion"
| "step_done motion dwell dt _ = False"

fun step_after :: "bool \<Rightarrow> production_step \<Rightarrow> production_step" where
  "step_after final PS_MoveToPick = PS_Pick"
| "step_after final PS_Pick = PS_MoveToInspect"
| "step_after final PS_MoveToInspect = PS_Inspect"
| "step_after final PS_Inspect = PS_MoveToPlace"
| "step_after final PS_MoveToPlace = PS_Place"
| "step_after final PS_Place = PS_ReturnHome"
| "step_after final PS_ReturnHome = (if final then PS_Complete else PS_MoveToPick)"
| "step_after final p = p"

text \<open>
  C4. The production sequence of a running reachable machine: each call of \<open>AdvanceProduction\<close> stays in
  the current step until it is over (axes at target for a move, dwell time elapsed for pick,
  inspect and place) and then enters exactly the next one: pick, inspect, place, home, and back to
  the first move, or \<open>Complete\<close> and \<open>Ready\<close> when the part just made was the last of the order.
\<close>

theorem production_sequence:
  assumes "reachable cell_ops (new_coordinator recipe new_cell_motion) s" and "recipe_ok recipe"
    and "co_exec s = ES_Running" and "co_order s = Some p"
    and "final = (po_target p \<le> po_completed p + 1)"
  shows "co_step (snd (advance_production cell_ops dt motion s)) =
      (if step_done motion (co_dwell s) dt (co_step s) then step_after final (co_step s) else co_step s)
    \<and> co_exec (snd (advance_production cell_ops dt motion s)) =
      (if co_step s = PS_ReturnHome \<and> ms_at_target motion \<and> final then ES_Ready else ES_Running)"
proof -
  note inv = cell_reachable_inv [OF assms(1,2)]
  have bounds: "0 \<le> po_completed p" "po_completed p \<le> po_target p" "po_target p < 2 ^ 31"
    using coord_inv_open [OF inv] coord_inv_orders [OF inv] assms(3,4)
    by (auto simp: open_order_def orders_inv_def order_inv_def order_ok_def)
  obtain part where part: "co_part s = Some part"
    using coord_inv_part [OF inv] assms(3) by auto
  note counted = record_completed_part_exact [OF bounds, of "co_reads s"] record_completed_part_exact [OF bounds]
  show ?thesis
  proof (cases "co_step s")
    case PS_ReturnHome
    obtain d t where t: "complete_cycle s = (Inr d, t)" "co_exec t = ES_Running" "\<not> d \<longrightarrow> open_order (co_order t)"
      using cell.complete_cycle_facts [OF inv assms(3)] by blast
    have d: "d = final"
      using t(1) assms(4,5) part counted(6) by (auto simp: complete_cycle_def Let_def)
    have st: "co_step t = PS_ReturnHome"
      using arg_cong [OF t(1), of "\<lambda>r. co_step (snd r)"] PS_ReturnHome by simp
    have again: "co_step (snd (start_next_cycle cell_ops why t)) = PS_MoveToPick \<and> co_exec (snd (start_next_cycle cell_ops why t)) = ES_Running"
      if "open_order (co_order t)" for why
    proof -
      obtain q where "co_order t = Some q" using \<open>open_order (co_order t)\<close> by (auto simp: open_order_def)
      then show ?thesis by (simp add: start_next_cycle_def begin_cycle_def Let_def)
    qed
    show ?thesis
      using PS_ReturnHome t d st again assms(3) by (auto simp: advance_production_def)
  qed (use assms(3) in \<open>auto simp: advance_production_def dwell_then_def Let_def\<close>)
qed

lemma resumed_cell_order: "\<exists>p. co_order resumed_cell = Some p"
  using coord_inv_open [OF cell_reachable_inv [OF resumed_cell_reachable default_recipe_ok]] resumed_cell_exec
  by (auto simp: open_order_def)

lemma production_sequence_witness:
  "co_exec (snd (advance_production cell_ops (1 / 100) (mo_snapshot cell_ops new_cell_motion AM_Moving) resumed_cell))
     \<in> {ES_Ready, ES_Running}"
proof -
  obtain p where "co_order resumed_cell = Some p" using resumed_cell_order by blast
  from production_sequence [OF resumed_cell_reachable default_recipe_ok resumed_cell_exec this refl,
      of "1 / 100" "mo_snapshot cell_ops new_cell_motion AM_Moving"]
  show ?thesis by simp
qed

section \<open>Figures and recipes\<close>

text \<open>
  The OEE figures are proportions: as long as the counters are non-negative and their sum fits a
  \<open>long\<close>, availability, performance and quality lie between 0 and 1, and so does their product, which
  is at most each of them.
\<close>

theorem oee_bounds:
  assumes "0 \<le> co_good s" and "0 \<le> co_reject s" and "co_good s + co_reject s < 2 ^ 63"
  defines "f \<equiv> production_of s"
  shows "0 \<le> prod_oee f \<and> prod_oee f \<le> prod_availability f \<and> prod_oee f \<le> prod_performance f \<and> prod_oee f \<le> prod_quality f
    \<and> prod_availability f \<le> 1 \<and> prod_performance f \<le> 1 \<and> prod_quality f \<le> 1"
proof -
  have wrap: "wrap64 (co_good s + co_reject s) = co_good s + co_reject s"
    using assms(1-3) by (intro wrap64_id) (simp add: in_long_def)
  have a: "0 \<le> prod_availability f" "prod_availability f \<le> 1"
    by (simp_all add: f_def production_of_def Let_def)
  have p: "0 \<le> prod_performance f" "prod_performance f \<le> 1"
    using clampr_bounds [of 0 1 "5 / max 5 (co_last_cycle s)"] by (simp_all add: f_def production_of_def Let_def)
  have q: "0 \<le> prod_quality f" "prod_quality f \<le> 1"
    using assms(1,2) by (simp_all add: f_def production_of_def Let_def wrap divide_le_eq_1 del: of_int_add)
      (auto simp: max_def)
  have oee: "prod_oee f = prod_availability f * prod_performance f * prod_quality f"
    by (simp add: f_def production_of_def Let_def)
  have "prod_availability f * prod_performance f \<le> prod_availability f" "prod_availability f * prod_performance f \<le> prod_performance f"
    "0 \<le> prod_availability f * prod_performance f"
    using a p by (simp_all add: mult_left_le mult_left_le_one_le)
  then show ?thesis
    using a p q unfolding oee
    by (auto intro: order_trans [OF mult_left_le] mult_left_le_one_le)
qed

lemma oee_witness: "prod_oee (production_of (resumed_cell\<lparr>co_good := 3, co_reject := 1\<rparr>)) \<le> 1"
  using oee_bounds [of "resumed_cell\<lparr>co_good := 3, co_reject := 1\<rparr>"] by simp

text \<open>
  Recipe activation is exact: \<open>ActivateRecipe\<close> accepts a recipe if and only if its parameters are in
  range (positive schema and revision, an id, velocity at most 2, acceleration at most 5, a positive
  error limit, no negative dwell, all four positions inside the envelope), it is approved or active,
  the machine is \<open>Stopped\<close> or \<open>Ready\<close>, and no order is active or paused; the machine then runs that
  recipe, marked active. Otherwise the machine is left alone.
\<close>

theorem activation_accepted_iff:
  "if recipe_ok r \<and> lifecycle_of r \<in> {RL_Approved, RL_Active} \<and> co_exec s \<in> {ES_Stopped, ES_Ready}
      \<and> (case co_order s of None \<Rightarrow> True | Some p \<Rightarrow> po_status p \<notin> {OS_Active, OS_Paused})
   then \<not> rejected (activate_recipe i r corr s) \<and> co_recipe (snd (activate_recipe i r corr s)) = with_status RL_Active r
   else rejected (activate_recipe i r corr s) \<and> snd (activate_recipe i r corr s) = s\<lparr>co_reads := co_reads s + 1\<rparr>"
  using validate_recipe_iff [of True r]
  by (cases "validate_recipe True r = []") (auto simp: activate_recipe_def Let_def split: option.splits)

section \<open>Divergences\<close>

text \<open>
  A cancelled order can be produced: in \<open>Paused\<close> the command \<open>cancel-order\<close> is accepted (only
  \<open>Running\<close> and \<open>Starting\<close> block it), and \<open>resume\<close> then returns the machine to \<open>Running\<close> with the order
  still \<open>Cancelled\<close>.
\<close>

theorem cancelled_order_resumes:
  assumes "command_name cancel = ''cancel-order''" and "command_name resume = ''resume''"
    and "co_exec s = ES_Paused" and "co_order s = Some p"
    and "il_motion_permitted (build_interlocks s (mo_snapshot cell_ops (co_motion s) AM_Holding))"
  shows "co_exec (snd (execute cell_ops j resume (snd (execute cell_ops i cancel s)))) = ES_Running
    \<and> co_order (snd (execute cell_ops j resume (snd (execute cell_ops i cancel s)))) = Some (cancel_order p)"
proof -
  define u where "u = snd (execute cell_ops i cancel s)"
  have u: "co_exec u = ES_Paused" "co_order u = Some (cancel_order p)" "co_motion u = co_motion s"
    "co_estop_ok u = co_estop_ok s" "co_guard_closed u = co_guard_closed s" "co_bus_healthy u = co_bus_healthy s"
    by (simp_all add: u_def execute_by_name(4) [OF assms(1)] cancel_order_cmd_def assms(3,4))
  show ?thesis
    unfolding u_def [symmetric] execute_by_name(8) [OF assms(2)]
    using u assms(5)
    by (simp add: resume_cmd_def Let_def motion_permitted_iff chain_def resume_order_def cancel_order_def split: sum.split)
qed

definition paused_cell :: "simulated_motion injected coordinator" where
  "paused_cell = resumed_cell\<lparr>co_exec := ES_Paused, co_motion := new_cell_motion, co_estop_ok := True,
     co_guard_closed := True, co_bus_healthy := True\<rparr>"

lemma cancelled_order_witness:
  "co_exec (snd (execute cell_ops ''d'' (plain_request ''resume'')
     (snd (execute cell_ops ''c'' (plain_request ''cancel-order'') paused_cell)))) = ES_Running"
proof -
  obtain p where "co_order resumed_cell = Some p" using resumed_cell_order by blast
  then have "co_order paused_cell = Some p" by (simp add: paused_cell_def)
  moreover have "command_name (plain_request ''cancel-order'') = ''cancel-order''" "command_name (plain_request ''resume'') = ''resume''"
    by (simp_all add: text_eval)
  moreover have "co_exec paused_cell = ES_Paused"
    "il_motion_permitted (build_interlocks paused_cell (mo_snapshot cell_ops (co_motion paused_cell) AM_Holding))"
    by (simp_all add: paused_cell_def motion_permitted_iff new_cell_motion_def new_simulated_def new_axis_def)
  ultimately show ?thesis using cancelled_order_resumes by blast
qed

text \<open>
  A finished order comes back to life: \<open>RestoreCheckpoint\<close> gives every restored order the status
  \<open>Paused\<close>, so an order whose count had reached its target when the checkpoint was written is open
  again after a restart, and the next completed part takes its count above the target.
\<close>

theorem restored_order_overproduces:
  assumes "cp_order_id cp = Some oid" and "\<not> is_blank oid" and "cp_order_target cp = Some n"
    and "0 < n" and "n < 2 ^ 31" and "cp_order_completed cp = n"
  shows "\<exists>p. co_order (snd (restore_checkpoint cell_ops cp s)) = Some p \<and> po_status p = OS_Paused \<and> po_completed p = po_target p
    \<and> po_completed (snd (record_completed_part t (resume_order p))) = po_target p + 1"
proof -
  have "long_inc n = n + 1" using assms(4,5) by (intro long_inc_exact) simp_all
  then show ?thesis
    using assms by (simp add: restore_checkpoint_def Let_def new_order_def restore_order_def clampi_def
        record_completed_part_def resume_order_def)
qed

lemma restored_order_witness:
  "\<exists>p. co_order (snd (restore_checkpoint cell_ops (demo_checkpoint\<lparr>cp_order_completed := 3\<rparr>)
      (new_coordinator default_recipe new_cell_motion))) = Some p \<and> po_completed p = po_target p"
  using restored_order_overproduces [of "demo_checkpoint\<lparr>cp_order_completed := 3\<rparr>" "''A''" 3
      "new_coordinator default_recipe new_cell_motion"]
  by (fastforce simp: demo_checkpoint_def is_blank_def is_space_def)

text \<open>
  \<open>set-mode\<close> accepts numbers: \<open>Enum.TryParse\<close> also takes the decimal value of a member, or of none,
  so the mode \<open>7\<close> is accepted on a stopped machine and leaves it in a mode that is none of the five.
\<close>

theorem numeric_mode_accepted:
  "\<exists>r t. execute cell_ops ''c'' ((plain_request ''set-mode'')\<lparr>cr_mode := Some ''7''\<rparr>) (new_coordinator default_recipe new_cell_motion) = (Inr r, t)
     \<and> res_status r = CS_Accepted \<and> co_mode t = MM_Undefined 7"
proof -
  have name: "command_name ((plain_request ''set-mode'')\<lparr>cr_mode := Some ''7''\<rparr>) = ''set-mode''"
    by (simp add: command_name_def plain_request_def text_eval)
  have mode: "try_parse_mode (Some ''7'') = Some (MM_Undefined 7)"
    by (simp add: try_parse_mode_def parse_int32_def digits_value_def is_digit_def text_eval)
  show ?thesis
    unfolding execute_by_name(2) [OF name]
    by (simp add: set_mode_cmd_def mode new_coordinator_def accept_def Let_def)
qed

text \<open>
  A recurring fault raises no alarm until the old one is acknowledged: when a fault strikes again
  while its alarm is cleared but unacknowledged, the machine goes to \<open>Faulted\<close> but the alarm list is
  left as it is, so the fault that stops the machine is shown as cleared.
\<close>

theorem recurring_fault_not_raised:
  assumes "alarm_lookup code (co_alarms s) = Some a" and "al_lifecycle a = AL_ClearedUnacknowledged"
  shows "co_exec (raise_fault ops code src sv msg act s) = ES_Faulted
    \<and> co_alarms (raise_fault ops code src sv msg act s) = co_alarms s"
  using assms by (simp add: raise_fault_def Let_def transition_def increment_revision_def record_event_def on_motion_def)

lemma recurring_fault_witness:
  "\<exists>s :: simulated_motion injected coordinator.
     co_exec (raise_fault cell_ops ''INJECTED_FAULT'' ''Simulation'' SV_Error [] [] s) = ES_Faulted
     \<and> list_all (\<lambda>(k, a). \<not> alarm_active a) (co_alarms (raise_fault cell_ops ''INJECTED_FAULT'' ''Simulation'' SV_Error [] [] s))"
proof -
  let ?s = "faulted_cell\<lparr>co_alarms := [(''INJECTED_FAULT'', clear_alarm 1 (new_alarm ''INJECTED_FAULT'' ''Simulation'' SV_Error [] [] [] 0))]\<rparr>"
  have "co_exec (raise_fault cell_ops ''INJECTED_FAULT'' ''Simulation'' SV_Error [] [] ?s) = ES_Faulted
    \<and> co_alarms (raise_fault cell_ops ''INJECTED_FAULT'' ''Simulation'' SV_Error [] [] ?s) = co_alarms ?s"
    by (rule recurring_fault_not_raised [where a = "clear_alarm 1 (new_alarm ''INJECTED_FAULT'' ''Simulation'' SV_Error [] [] [] 0)"])
      (simp_all add: clear_alarm_def)
  then show ?thesis by (intro exI [of _ ?s]) simp
qed

text \<open>
  \<open>home\<close> is accepted while recovery is required: although only recovery actions are documented for
  that state, the home command moves the machine on to \<open>Homing\<close> with the interrupted part still in
  process and the checkpoint still pending.
\<close>

theorem home_leaves_recovery:
  assumes "reachable cell_ops (new_coordinator recipe new_cell_motion) s" and "recipe_ok recipe"
    and "co_exec s = ES_RecoveryRequired" and "command_name req = ''home''"
    and "il_motion_permitted (build_interlocks s (mo_snapshot cell_ops (co_motion s) AM_Standstill))"
  shows "\<not> rejected (execute cell_ops i req s) \<and> co_exec (snd (execute cell_ops i req s)) = ES_Homing
    \<and> co_part (snd (execute cell_ops i req s)) = co_part s
    \<and> co_checkpoint (snd (execute cell_ops i req s)) = co_checkpoint s"
proof -
  note inv = cell_reachable_inv [OF assms(1,2)]
  have perm: "il_motion_permitted (build_interlocks (s\<lparr>co_correlation := c\<rparr>) (mo_snapshot cell_ops (co_motion s) AM_Standstill))" for c
    using assms(5) by (simp add: motion_permitted_iff)
  have "\<not> throws (command_position cell_ops (rc_home (co_recipe s)) (s\<lparr>co_correlation := correlation_of i req\<rparr>))"
    using coord_inv_good [OF inv] coord_inv_recipe [OF inv]
    by (intro cell.command_position_returns) (simp_all add: recipe_ok_def)
  then obtain u where u: "command_position cell_ops (rc_home (co_recipe s)) (s\<lparr>co_correlation := correlation_of i req\<rparr>) = (Inr (), u)"
    by (rule not_throws_unit)
  have same: "co_part u = co_part s" "co_checkpoint u = co_checkpoint s"
    using arg_cong [OF u, of "\<lambda>r. co_part (snd r)"] arg_cong [OF u, of "\<lambda>r. co_checkpoint (snd r)"] by simp_all
  show ?thesis
    unfolding execute_by_name(5) [OF assms(4)] using assms(3) perm u same
    by (simp add: home_cmd_def Let_def)
qed

lemma home_leaves_recovery_witness:
  "co_exec (snd (execute cell_ops ''c'' (plain_request ''home'') restored_cell)) = ES_Homing"
proof -
  have reach: "reachable cell_ops (new_coordinator default_recipe new_cell_motion) restored_cell"
    unfolding restored_cell_def
    by (intro reachable.Call [OF _ coord_call.Restore] reachable.Initial)
      (simp add: checkpoint_ok_def demo_checkpoint_def is_blank_def is_space_def)
  have "command_name (plain_request ''home'') = ''home''" by (simp add: text_eval)
  moreover have "il_motion_permitted (build_interlocks restored_cell (mo_snapshot cell_ops (co_motion restored_cell) AM_Standstill))"
    using restored_cell_sel by (simp add: motion_permitted_iff)
  ultimately show ?thesis
    using home_leaves_recovery [OF reach default_recipe_ok restored_cell_sel(1)] by blast
qed

text \<open>
  \<open>jog\<close> cancels a pending abort: in manual mode a valid jog of a homed machine in \<open>Aborting\<close> is
  accepted and makes it \<open>Ready\<close>, so the motors are never switched off and the interrupted part is
  neither discarded nor its order paused.
\<close>

theorem jog_cancels_abort:
  assumes "command_name req = ''jog''" and "cr_axis req = Some ''x''" and "cr_value req = Some d" and "\<bar>d\<bar> \<le> 0.2"
    and "co_mode s = MM_Manual" and "co_exec s = ES_Aborting" and "homed cell_ops (co_motion s)"
    and "il_motion_permitted (build_interlocks s (mo_snapshot cell_ops (co_motion s) AM_Standstill))"
    and "sim_good (fi_inner (co_motion s))"
    and "0 \<le> sa_target (sm_y (fi_inner (co_motion s)))" and "sa_target (sm_y (fi_inner (co_motion s))) \<le> 1.2"
  shows "\<not> rejected (execute cell_ops i req s) \<and> co_exec (snd (execute cell_ops i req s)) = ES_Ready
    \<and> co_part (snd (execute cell_ops i req s)) = co_part s \<and> co_order (snd (execute cell_ops i req s)) = co_order s"
proof -
  let ?t = "s\<lparr>co_correlation := correlation_of i req\<rparr>"
  let ?m = "mo_snapshot cell_ops (co_motion s) AM_Standstill"
  let ?p = "\<lparr>pos_x = clampr (- 1) 1 (ax_actual (ms_x ?m) + d), pos_y = ax_target (ms_y ?m)\<rparr>"
  have y: "ax_target (ms_y ?m) = sa_target (sm_y (fi_inner (co_motion s)))"
    by (simp add: cell_ops_def fault_injecting_ops_def injected_snapshot_def Let_def simulated_ops_def sim_snapshot_def axis_snapshot_of_def)
  have "in_envelope ?p"
    using assms(10,11) clampr_bounds [of "- 1" 1 "ax_actual (ms_x ?m) + d"] by (simp add: in_envelope_def y)
  then have "\<not> throws (command_position cell_ops ?p ?t)"
    using assms(9) by (intro cell.command_position_returns) simp_all
  then obtain u where u: "command_position cell_ops ?p ?t = (Inr (), u)" by (rule not_throws_unit)
  have same: "co_part u = co_part s" "co_order u = co_order s"
    using arg_cong [OF u, of "\<lambda>r. co_part (snd r)"] arg_cong [OF u, of "\<lambda>r. co_order (snd r)"] by simp_all
  have perm: "il_motion_permitted (build_interlocks ?t ?m)" using assms(8) by (simp add: motion_permitted_iff)
  have d: "\<not> (d < - 0.2 \<or> 0.2 < d)" using assms(4) by (simp add: abs_le_iff) linarith
  have homed: "ms_all_homed ?m" using assms(7) by (simp add: homed_def)
  have x_axis: "eq_ignore_case ''x'' ''X''" by (simp add: text_eval)
  have jog: "jog_cmd cell_ops i (cr_axis req) (cr_value req) c ?t =
      accept i c ''ACCEPTED'' (transition ES_Ready PS_None (''Manual jog '' @ to_upper ''x'') u)" for c
    using assms(2,3,5,6) perm d homed u
    by (simp add: jog_cmd_def Let_def x_axis)
  show ?thesis
    unfolding execute_by_name(16) [OF assms(1)] jog by (simp add: same)
qed

definition aborting_cell :: "simulated_motion injected coordinator" where
  "aborting_cell = (new_coordinator default_recipe (mo_mark_homed cell_ops new_cell_motion))\<lparr>co_exec := ES_Aborting, co_part := Some ''A-PART-000001''\<rparr>"

lemma jog_cancels_abort_witness:
  "co_exec (snd (execute cell_ops ''c'' ((plain_request ''jog'')\<lparr>cr_axis := Some ''x'', cr_value := Some 0.1\<rparr>) aborting_cell)) = ES_Ready
   \<and> co_part (snd (execute cell_ops ''c'' ((plain_request ''jog'')\<lparr>cr_axis := Some ''x'', cr_value := Some 0.1\<rparr>) aborting_cell)) = Some ''A-PART-000001''"
proof -
  let ?r = "(plain_request ''jog'')\<lparr>cr_axis := Some ''x'', cr_value := Some 0.1\<rparr>"
  have name: "command_name ?r = ''jog''" by (simp add: command_name_def plain_request_def text_eval)
  have cell: "fi_inner (mo_mark_homed cell_ops new_cell_motion) = both_axes axis_mark_homed new_simulated"
    by (simp add: cell_ops_def fault_injecting_ops_def simulated_ops_def new_cell_motion_def)
  have ax: "sm_x new_simulated = new_axis ''X'' (- 1) 1" "sm_y new_simulated = new_axis ''Y'' 0 1.2"
    by (simp_all add: new_simulated_def)
  show ?thesis
    using jog_cancels_abort [OF name, of "0.1" aborting_cell "''c''"]
    by (simp add: aborting_cell_def new_coordinator_def cell_homed_iff motion_permitted_iff cell sim_good_def ax
        new_axis_def axis_mark_homed_def)
qed

end
