(* ===== verification/MotionLaws.thy ===== *)
theory MotionLaws
  imports MotionSystems
begin

text \<open>
  Properties of the motion side that hold over whole runs: the PID controller under any sequence
  of samples, an enabled axis under any sequence of commands, the replay, and the decorator.
\<close>

section \<open>The PID controller over a run\<close>

text \<open>Feeding a controller a list of samples (setpoint, measurement, period), collecting its outputs.\<close>

fun pid_run :: "(real \<times> real \<times> real) list \<Rightarrow> pid_controller \<Rightarrow> real list \<times> pid_controller" where
  "pid_run [] c = ([], c)"
| "pid_run ((sp, me, dt) # rest) c =
     (let r = pid_step sp me dt c
      in case fst r of
           Inl _ \<Rightarrow> pid_run rest (snd r)
         | Inr u \<Rightarrow> let q = pid_run rest (snd r) in (u # fst q, snd q))"

lemma pid_run_bounded:
  "pid_ok c \<Longrightarrow> list_all (\<lambda>u. \<bar>u\<bar> \<le> pid_output_limit c) (fst (pid_run samples c)) \<and>
     pid_ok (snd (pid_run samples c)) \<and> pid_integral_limit (snd (pid_run samples c)) = pid_integral_limit c"
proof (induction samples c rule: pid_run.induct)
  case (2 sp me dt rest c)
  show ?case
  proof (cases "fst (pid_step sp me dt c)")
    case (Inl e)
    then show ?thesis using 2(1) [OF refl Inl] 2(3) by (simp add: pid_step_ok)
  next
    case (Inr u)
    then show ?thesis using 2(2) [OF refl Inr] 2(3) by (simp add: Let_def pid_step_ok pid_step_output)
  qed
qed simp

text \<open>
  The controller saturates and does not wind up: whatever samples a new controller is fed, zero or
  negative periods included, no output exceeds the output limit in magnitude and the integral term
  ends within the integral limit, for any gains and limits given to the constructor.
\<close>

theorem pid_never_winds_up:
  "list_all (\<lambda>u. \<bar>u\<bar> \<le> \<bar>limit\<bar>) (fst (pid_run samples (new_pid kp ki kd limit windup))) \<and>
   \<bar>pid_integral (snd (pid_run samples (new_pid kp ki kd limit windup)))\<bar> \<le> \<bar>windup\<bar>"
  using pid_run_bounded [of "new_pid kp ki kd limit windup" samples]
  by (simp add: new_pid_def pid_ok_def)

section \<open>An enabled axis\<close>

text \<open>
  What can be done to an axis while its drive stays enabled: targets (taken or refused), holding,
  homing, fault-free steps with a positive period, and freezing it.
\<close>

inductive axis_run :: "real \<Rightarrow> real \<Rightarrow> simulated_axis \<Rightarrow> simulated_axis \<Rightarrow> bool" for vmax amax a0 where
  Begin: "axis_run vmax amax a0 a0"
| Target: "axis_run vmax amax a0 a \<Longrightarrow> axis_run vmax amax a0 (snd (axis_set_target v a))"
| Hold: "axis_run vmax amax a0 a \<Longrightarrow> axis_run vmax amax a0 (axis_hold a)"
| Home: "axis_run vmax amax a0 a \<Longrightarrow> axis_run vmax amax a0 (axis_mark_homed a)"
| Freeze: "axis_run vmax amax a0 a \<Longrightarrow> axis_run vmax amax a0 (a\<lparr>sa_frozen := f, sa_force_error := e\<rparr>)"
| Tick: "axis_run vmax amax a0 a \<Longrightarrow> 0 < dt \<Longrightarrow> axis_run vmax amax a0 (snd (axis_step dt vmax amax a))"

definition axis_inside :: "real \<Rightarrow> simulated_axis \<Rightarrow> bool" where
  "axis_inside vmax a \<longleftrightarrow> sa_min a \<le> sa_max a \<and> sa_enabled a \<and> \<not> sa_faulted a \<and>
     sa_min a \<le> sa_actual a \<and> sa_actual a \<le> sa_max a \<and>
     sa_min a \<le> sa_target a \<and> sa_target a \<le> sa_max a \<and> \<bar>sa_profile_velocity a\<bar> \<le> vmax"

lemma axis_parts_enabled [simp]:
  "sa_enabled (snd (axis_profile dt v m a)) = sa_enabled a"
  "sa_enabled (axis_settle dt w a) = sa_enabled a"
  "sa_enabled (snd (axis_track dt a)) = sa_enabled a"
  "sa_target (snd (axis_track dt a)) = sa_target a"
  by (simp_all add: axis_profile_def axis_settle_def axis_track_def Let_def split: sum.split)

lemma axis_step_enabled [simp]:
  "sa_enabled (snd (axis_step dt v m a)) = sa_enabled a"
  "sa_target (snd (axis_step dt v m a)) = sa_target a"
  by (simp_all add: axis_step_def axis_coast_def chain_def Let_def split: sum.split)

lemma axis_settle_velocity: "\<bar>sa_profile_velocity a\<bar> \<le> v \<Longrightarrow> 0 \<le> v \<Longrightarrow> \<bar>sa_profile_velocity (axis_settle dt w a)\<bar> \<le> v"
  by (simp add: axis_settle_def Let_def)

lemma axis_step_velocity:
  assumes "0 \<le> vmax" and "0 \<le> amax * dt" and "\<bar>sa_profile_velocity a\<bar> \<le> vmax"
  shows "\<bar>sa_profile_velocity (snd (axis_step dt vmax amax a))\<bar> \<le> vmax"
proof -
  have track: "\<bar>sa_profile_velocity (snd (axis_track dt b))\<bar> \<le> vmax" if "\<bar>sa_profile_velocity b\<bar> \<le> vmax" for b
    using that assms(1) by (simp add: axis_track_def Let_def axis_settle_velocity split: sum.split)
  note profile = axis_profile_velocity_bound [OF assms]
  have moving: "\<bar>sa_profile_velocity (snd (chain (axis_profile dt vmax amax a)
      (\<lambda>_ b. if sa_frozen b then (Inr (), b\<lparr>sa_velocity := 0\<rparr>) else axis_track dt b)))\<bar> \<le> vmax"
    by (rule chain_keeps [where P = "\<lambda>b. \<bar>sa_profile_velocity b\<bar> \<le> vmax"]) (simp_all add: profile track)
  show ?thesis
    unfolding axis_step_def using moving assms(3) by (simp add: axis_coast_def Let_def split del: if_split cong: if_cong) simp
qed

lemma axis_run_inside:
  assumes "axis_run vmax amax a0 a" and "axis_inside vmax a0" and "0 \<le> vmax" and "0 \<le> amax"
  shows "axis_inside vmax a"
  using assms(1)
proof induction
  case (Tick a dt)
  then have "sa_min a \<le> sa_actual (snd (axis_step dt vmax amax a)) \<and> sa_actual (snd (axis_step dt vmax amax a)) \<le> sa_max a"
    by (intro axis_step_in_limits) (simp_all add: axis_inside_def)
  moreover have "\<bar>sa_profile_velocity (snd (axis_step dt vmax amax a))\<bar> \<le> vmax"
    using Tick assms(3,4) by (intro axis_step_velocity) (simp_all add: axis_inside_def)
  ultimately show ?case using Tick by (simp add: axis_inside_def)
qed (use assms(2,3) in \<open>simp_all add: axis_inside_def axis_set_target_def axis_hold_def axis_mark_homed_def\<close>)

text \<open>
  C14. An enabled axis respects its limits: from a new axis whose range contains the origin, enabled,
  any sequence of targets, holds, homing marks, forced-error or frozen phases and steps keeps the
  actual position and the target inside the range and the commanded velocity at most \<open>vmax\<close> in
  magnitude.
\<close>

theorem enabled_axis_in_limits:
  assumes "axis_run vmax amax (axis_enable (new_axis name lo hi)) a"
    and "lo \<le> 0" and "0 \<le> hi" and "0 \<le> vmax" and "0 \<le> amax"
  shows "lo \<le> sa_actual a \<and> sa_actual a \<le> hi \<and> lo \<le> sa_target a \<and> sa_target a \<le> hi \<and> \<bar>sa_profile_velocity a\<bar> \<le> vmax"
proof -
  have start: "axis_inside vmax (axis_enable (new_axis name lo hi))"
    using assms(2-4) by (simp add: axis_inside_def axis_enable_def new_axis_def)
  have limits: "sa_min a = lo \<and> sa_max a = hi"
    using assms(1) by induction (simp_all add: new_axis_def axis_enable_def)
  show ?thesis
    using axis_run_inside [OF assms(1) start assms(4,5)] limits by (simp add: axis_inside_def)
qed

lemma enabled_axis_witness:
  "\<bar>sa_profile_velocity (snd (axis_step (1 / 100) 0.55 1.4 (snd (axis_set_target 0.8 (axis_enable (new_axis ''X'' (- 1) 1))))))\<bar> \<le> 0.55"
  using enabled_axis_in_limits [OF axis_run.Tick [OF axis_run.Target [OF axis_run.Begin]], of "1 / 100" "- 1" 1 "0.55" "1.4"]
  by simp

text \<open>
  A disabled axis does not respect them: switched off at its upper limit while still moving
  outwards, it coasts past the limit (only the enabled branch clamps the position), and a following
  \<open>Hold\<close> then stores a target that \<open>SetTarget\<close> itself would refuse.
\<close>

theorem disabled_axis_leaves_limits:
  assumes "\<not> sa_enabled a" and "sa_actual a = sa_max a" and "0 < sa_velocity a" and "0 < dt"
    and "b = axis_hold (snd (axis_step dt vmax amax a))"
  shows "sa_max b < sa_actual b \<and> throws (axis_set_target (sa_target b) b)"
proof -
  have "0 < sa_velocity a * exp (- (8 * dt)) * dt"
    using assms(3,4) by simp
  then show ?thesis
    using assms(1,2) by (simp add: assms(5) axis_step_def axis_coast_def axis_hold_def Let_def)
qed

lemma disabled_axis_witness:
  "\<exists>a. sa_max a < sa_actual a \<and> throws (axis_set_target (sa_target a) a)"
proof -
  let ?a = "(new_axis ''Y'' 0 1.2)\<lparr>sa_actual := 1.2, sa_velocity := 0.5\<rparr>"
  have "sa_max (axis_hold (snd (axis_step (1 / 100) 1 1 ?a))) < sa_actual (axis_hold (snd (axis_step (1 / 100) 1 1 ?a))) \<and>
      throws (axis_set_target (sa_target (axis_hold (snd (axis_step (1 / 100) 1 1 ?a)))) (axis_hold (snd (axis_step (1 / 100) 1 1 ?a))))"
    by (rule disabled_axis_leaves_limits [OF _ _ _ _ refl]) (simp_all add: new_axis_def)
  then show ?thesis by blast
qed

section \<open>The replay and the decorator\<close>

fun replay_steps :: "nat \<Rightarrow> replay_motion \<Rightarrow> replay_motion" where
  "replay_steps 0 m = m"
| "replay_steps (Suc n) m = replay_steps n (snd (replay_step 1 1 1 m))"

lemma replay_steps_index:
  "rp_index m < length (rp_frames m) \<Longrightarrow>
     rp_frames (replay_steps n m) = rp_frames m \<and> rp_index (replay_steps n m) = min (rp_index m + n) (length (rp_frames m) - 1)"
  by (induction n m rule: replay_steps.induct) (auto simp: replay_step_def)

text \<open>
  The replay shows its frames in order, one per step, and stays on the last: after \<open>n\<close> steps of a
  new replay the positions shown are those of frame \<open>n\<close>, or of the last frame when there are no more
  than \<open>n\<close>; it never runs off the recording.
\<close>

theorem replay_in_order:
  assumes "new_replay frames = Inr m"
  shows "ax_actual (ms_x (replay_snapshot (replay_steps n m) st)) = ax_actual (rf_x (frames ! min n (length frames - 1)))
    \<and> ax_actual (ms_y (replay_snapshot (replay_steps n m) st)) = ax_actual (rf_y (frames ! min n (length frames - 1)))
    \<and> min n (length frames - 1) < length frames"
proof -
  have m: "rp_frames m = frames" "rp_index m = 0" "frames \<noteq> []"
    using assms by (auto simp: new_replay_def split: if_splits)
  then have "0 < length frames" by simp
  then show ?thesis
    using replay_steps_index [of m n] m by (simp add: replay_snapshot_def Let_def min_less_iff_disj)
qed

definition demo_axis :: "real \<Rightarrow> axis_snapshot" where
  "demo_axis x = \<lparr>ax_name = ''X'', ax_command = x, ax_actual = x, ax_velocity = 0, ax_following_error = 0, ax_target = x,
     ax_enabled = True, ax_homed = True, ax_moving = False, ax_faulted = False, ax_state = AM_Standstill\<rparr>"

lemma replay_witness:
  "ax_actual (ms_x (replay_snapshot (replay_steps 5 \<lparr>rp_frames = [\<lparr>rf_time = 0, rf_x = demo_axis 0, rf_y = demo_axis 0\<rparr>,
      \<lparr>rf_time = 1, rf_x = demo_axis 7, rf_y = demo_axis 0\<rparr>], rp_index = 0\<rparr>) AM_Moving)) = 7"
proof -
  let ?frames = "[\<lparr>rf_time = 0, rf_x = demo_axis 0, rf_y = demo_axis 0\<rparr>, \<lparr>rf_time = 1, rf_x = demo_axis 7, rf_y = demo_axis 0\<rparr>]"
  have "new_replay ?frames = Inr \<lparr>rp_frames = ?frames, rp_index = 0\<rparr>" by (simp add: new_replay_def)
  from replay_in_order [OF this, of 5 AM_Moving, THEN conjunct1] show ?thesis
    by (simp only:) (simp add: demo_axis_def)
qed

text \<open>
  The fault-injecting decorator is transparent: it adds its own adapter id and, while a fault is
  injected, its status text, and passes everything else of the wrapped system's snapshot through;
  injecting a fault and then clearing that fault (or all of them) leaves no injected fault behind.
\<close>

theorem decorator_transparent:
  "ms_x (injected_snapshot inner d st) = ms_x (mo_snapshot inner (fi_inner d) st)
   \<and> ms_y (injected_snapshot inner d st) = ms_y (mo_snapshot inner (fi_inner d) st)
   \<and> ms_at_target (injected_snapshot inner d st) = ms_at_target (mo_snapshot inner (fi_inner d) st)
   \<and> ms_all_homed (injected_snapshot inner d st) = ms_all_homed (mo_snapshot inner (fi_inner d) st)
   \<and> ms_any_faulted (injected_snapshot inner d st) = ms_any_faulted (mo_snapshot inner (fi_inner d) st)
   \<and> fi_active_fault (injected_clear inner f (injected_inject inner f d)) = MF_None
   \<and> fi_active_fault (injected_clear inner MF_None d) = MF_None"
  by (simp add: injected_snapshot_def injected_inject_def injected_clear_def Let_def)

end
