(* ===== verification/Studio.thy ===== *)
theory Studio
  imports VsmcPrelude
begin

text \<open>
  The experiment studio (\<open>src/research/studio/app.js\<close>; \<open>src/research/vsmc_research/studio/app.js\<close> is a
  copy of the same file): the manifest being edited, the form, the workflow picture and the life of
  an experiment from the run button to its last poll.

  \<^item> JSON values are a datatype with \<open>JUndef\<close> for JavaScript's \<open>undefined\<close>; an object is its list of
    properties in order. Reading a property of \<open>undefined\<close> or \<open>null\<close> throws.
  \<^item> A number field holds \<open>None\<close> when empty. What such a field makes of a text, and how \<open>String\<close>
    renders a value, is the browser's: the parameters \<open>num\<close> and \<open>str\<close>.
  \<^item> The manifest editor holds the value its text parses to, \<open>None\<close> when it does not parse;
    the answers of the server are arguments.
  \<^item> An \<open>async\<close> function is one operation per stretch between two \<open>await\<close>s; the counters
    \<open>st_checks\<close> to \<open>st_polls\<close> hold how many calls wait at each of them (\<open>st_polls\<close>: timers of 600 ms).
\<close>

section \<open>Values\<close>

datatype json =
    JUndef
  | JNull
  | JBool bool
  | JNum real
  | JStr string
  | JArr "json list"
  | JObj "(string \<times> json) list"

fun truthy :: "json \<Rightarrow> bool" where
  "truthy JUndef = False"
| "truthy JNull = False"
| "truthy (JBool b) = b"
| "truthy (JNum x) = (x \<noteq> 0)"
| "truthy (JStr s) = (s \<noteq> [])"
| "truthy (JArr _) = True"
| "truthy (JObj _) = True"

fun nullish :: "json \<Rightarrow> bool" where
  "nullish JUndef = True"
| "nullish JNull = True"
| "nullish _ = False"

definition js_or :: "json \<Rightarrow> json \<Rightarrow> json" where
  "js_or a b = (if truthy a then a else b)"

definition js_coalesce :: "json \<Rightarrow> json \<Rightarrow> json" where
  "js_coalesce a b = (if nullish a then b else a)"

definition js_prop :: "string \<Rightarrow> json \<Rightarrow> json" where
  "js_prop k v = (case v of JObj fields \<Rightarrow> (case map_of fields k of Some x \<Rightarrow> x | None \<Rightarrow> JUndef) | _ \<Rightarrow> JUndef)"

definition read_prop :: "string \<Rightarrow> json \<Rightarrow> exn + json" where
  "read_prop k v = (if nullish v then Inl (TypeError k) else Inr (js_prop k v))"

definition optional_prop :: "string \<Rightarrow> json \<Rightarrow> json" where
  "optional_prop k v = (if nullish v then JUndef else js_prop k v)"

fun put_field :: "string \<Rightarrow> json \<Rightarrow> (string \<times> json) list \<Rightarrow> (string \<times> json) list" where
  "put_field k x [] = [(k, x)]"
| "put_field k x ((j, y) # rest) = (if j = k then (k, x) # rest else (j, y) # put_field k x rest)"

text \<open>Assigning a property: on a plain value it is lost, on \<open>undefined\<close> and \<open>null\<close> it throws.\<close>

definition write_prop :: "string \<Rightarrow> json \<Rightarrow> json \<Rightarrow> exn + json" where
  "write_prop k x v = (if nullish v then Inl (TypeError k)
     else case v of JObj fields \<Rightarrow> Inr (JObj (put_field k x fields)) | _ \<Rightarrow> Inr v)"

definition bind_exn :: "exn + 'a \<Rightarrow> ('a \<Rightarrow> exn + 'b) \<Rightarrow> exn + 'b" where
  "bind_exn r k = (case r of Inl e \<Rightarrow> Inl e | Inr a \<Rightarrow> k a)"

section \<open>The page\<close>

record form =
  fm_name :: string
  fm_episodes :: "real option"
  fm_duration :: "real option"
  fm_seed :: "real option"
  fm_window :: "real option"
  fm_mode :: string
  fm_fault :: string

record workflow =
  wf_title :: string
  wf_classes :: "string list"
  wf_span :: string

record studio =
  st_templates :: "json list"
  st_manifest :: json
  st_job :: json
  st_timer :: "nat option"
  st_form :: form
  st_editor :: "json option"
  st_workflow :: workflow
  st_message :: string
  st_message_class :: string
  st_run_disabled :: bool
  st_checks :: nat
  st_validating :: nat
  st_starting :: nat
  st_asking :: nat
  st_polls :: nat
  st_bar :: nat

definition number_field :: "(string \<Rightarrow> real option) \<Rightarrow> json \<Rightarrow> real option" where
  "number_field num v = (case v of JNum x \<Rightarrow> Some x | JStr s \<Rightarrow> num s | _ \<Rightarrow> None)"

text \<open>\<open>Number\<close> of an empty field is 0.\<close>

definition field_number :: "real option \<Rightarrow> json" where
  "field_number v = JNum (case v of None \<Rightarrow> 0 | Some x \<Rightarrow> x)"

section \<open>The form\<close>

definition scenario_domain :: "json \<Rightarrow> exn + json" where
  "scenario_domain v = read_prop ''domain'' v"

fun map_exn :: "('a \<Rightarrow> exn + 'b) \<Rightarrow> 'a list \<Rightarrow> exn + 'b list" where
  "map_exn f [] = Inr []"
| "map_exn f (x # xs) = bind_exn (f x) (\<lambda>y. bind_exn (map_exn f xs) (\<lambda>ys. Inr (y # ys)))"

definition scenario_domains :: "json \<Rightarrow> exn + json list" where
  "scenario_domains scenarios = (case js_or scenarios (JArr []) of
       JArr xs \<Rightarrow> map_exn scenario_domain xs
     | _ \<Rightarrow> Inl (TypeError ''map''))"

definition mode_of_domains :: "json list \<Rightarrow> string" where
  "mode_of_domains ds =
     (if JStr ''machine'' \<in> set ds \<and> JStr ''network'' \<in> set ds then ''combined''
      else if JStr ''machine'' \<in> set ds then ''machine''
      else if JStr ''network'' \<in> set ds then ''network''
      else ''normal'')"

text \<open>\<open>applyControls\<close>: the assignments made before a throw stay.\<close>

definition apply_controls :: "(string \<Rightarrow> real option) \<Rightarrow> (json \<Rightarrow> string) \<Rightarrow> studio \<Rightarrow> (unit, studio) outcome" where
  "apply_controls num str s =
     (let m = st_manifest s
      in if nullish m then (Inl (TypeError ''name''), s)
         else let f1 = (st_form s)\<lparr>fm_name := str (js_or (js_prop ''name'' m) (js_prop ''experiment_id'' m)),
                                   fm_episodes := number_field num (js_or (js_prop ''episodes'' m) (JNum 1))\<rparr>
              in case read_prop ''duration_s'' (js_prop ''environment'' m) of
                   Inl e \<Rightarrow> (Inl e, s\<lparr>st_form := f1\<rparr>)
                 | Inr d \<Rightarrow>
                     let f2 = f1\<lparr>fm_duration := number_field num d,
                                 fm_seed := number_field num (js_or (js_prop ''base_seed'' m) (JNum 1001)),
                                 fm_window := number_field num (js_or (optional_prop ''window_s'' (js_prop ''datasets'' m)) (JNum 1))\<rparr>
                     in case scenario_domains (js_prop ''scenarios'' m) of
                          Inl e \<Rightarrow> (Inl e, s\<lparr>st_form := f2\<rparr>)
                        | Inr ds \<Rightarrow> (Inr (), s\<lparr>st_form := f2\<lparr>fm_mode := mode_of_domains ds\<rparr>\<rparr>))"

text \<open>The four machine faults; an object literal also inherits the names of \<open>Object.prototype\<close>.\<close>

definition fault_profile :: "string \<Rightarrow> (string \<times> string \<times> string \<times> real) option" where
  "fault_profile ty =
     (if ty = ''increased_friction'' then Some (''mechanical'', ''x_axis'', ''gradual'', 0.7)
      else if ty = ''encoder_drift'' then Some (''sensor_feedback'', ''x_axis_encoder'', ''gradual'', 0.12)
      else if ty = ''drive_derating'' then Some (''actuator_drive'', ''x_axis_drive'', ''abrupt'', 0.55)
      else if ty = ''failed_pick'' then Some (''process_tooling'', ''gripper'', ''intermittent'', 0.65)
      else None)"

definition machine_scenario :: "string \<Rightarrow> exn + json" where
  "machine_scenario ty =
     (let build = (\<lambda>category component progression magnitude.
            JObj [(''id'', JStr (''machine-'' @ ty)), (''domain'', JStr ''machine''), (''category'', category), (''type'', JStr ty),
                  (''component'', component), (''activation_time_s'', JNum 12), (''duration_s'', JNum 22),
                  (''progression'', progression), (''magnitude'', magnitude), (''severity'', JStr ''major'')])
      in case fault_profile ty of
           Some (category, component, progression, magnitude) \<Rightarrow>
             Inr (build (JStr category) (JStr component) (JStr progression) (JNum magnitude))
         | None \<Rightarrow> (if ty \<in> set inherited_names then Inr (build JUndef JUndef JUndef JUndef)
                     else Inl (TypeError ''category'')))"

definition network_scenario :: json where
  "network_scenario = JObj [(''id'', JStr ''network-delay''), (''domain'', JStr ''network''), (''category'', JStr ''timing''),
     (''type'', JStr ''message_delay''), (''component'', JStr ''state_channel''), (''activation_time_s'', JNum 18),
     (''duration_s'', JNum 14), (''progression'', JStr ''abrupt''), (''magnitude'', JNum 45), (''severity'', JStr ''minor'')]"

definition scenarios_of :: "string \<Rightarrow> string \<Rightarrow> exn + json list" where
  "scenarios_of mode fault =
     (let net = (if mode = ''network'' \<or> mode = ''combined'' then [network_scenario] else [])
      in if mode = ''machine'' \<or> mode = ''combined''
         then bind_exn (machine_scenario fault) (\<lambda>m. Inr (m # net)) else Inr net)"

definition spaces :: "string \<Rightarrow> string" where
  "spaces s = map (\<lambda>c. if c = CHR ''_'' then CHR '' '' else c) s"

text \<open>\<open>replace\<close> with a string pattern replaces the first occurrence only.\<close>

fun space_once :: "string \<Rightarrow> string" where
  "space_once [] = []"
| "space_once (c # cs) = (if c = CHR ''_'' then CHR '' '' # cs else c # space_once cs)"

definition render_workflow :: "studio \<Rightarrow> studio" where
  "render_workflow s =
     (let mode = fm_mode (st_form s);
          base = (st_workflow s)\<lparr>wf_title := space_once mode @ '' operation'', wf_classes := [''workflow-node'', ''n5'', ''fault-card'']\<rparr>
      in s\<lparr>st_workflow :=
           (if mode = ''normal'' then base\<lparr>wf_span := ''Normal baseline''\<rparr>
            else if mode = ''machine'' then base\<lparr>wf_classes := wf_classes base @ [''active-machine''], wf_span := spaces (fm_fault (st_form s))\<rparr>
            else if mode = ''network'' then base\<lparr>wf_classes := wf_classes base @ [''active-network''], wf_span := ''Network delay''\<rparr>
            else if mode = ''combined'' then base\<lparr>wf_classes := wf_classes base @ [''active-machine'', ''active-network''], wf_span := ''Machine + network''\<rparr>
            else base)\<rparr>)"

definition render_manifest :: "studio \<Rightarrow> studio" where
  "render_manifest s = s\<lparr>st_editor := Some (st_manifest s)\<rparr>"

text \<open>\<open>syncControls\<close>: the assignments to the manifest in order; a throw leaves those already made.\<close>

definition assign :: "string \<Rightarrow> json \<Rightarrow> studio \<Rightarrow> (unit, studio) outcome" where
  "assign k x s = (case write_prop k x (st_manifest s) of
       Inl e \<Rightarrow> (Inl e, s) | Inr m \<Rightarrow> (Inr (), s\<lparr>st_manifest := m\<rparr>))"

definition assign_in :: "string \<Rightarrow> string \<Rightarrow> json \<Rightarrow> studio \<Rightarrow> (unit, studio) outcome" where
  "assign_in outer k x s = (case write_prop k x (js_prop outer (st_manifest s)) of
       Inl e \<Rightarrow> (Inl e, s)
     | Inr inner \<Rightarrow> (case inner of JObj _ \<Rightarrow> assign outer inner s | _ \<Rightarrow> (Inr (), s)))"

definition sync_controls :: "studio \<Rightarrow> (unit, studio) outcome" where
  "sync_controls s =
     (if \<not> truthy (st_manifest s) then (Inr (), s)
      else let f = st_form s in
        chain (assign ''name'' (JStr (fm_name f)) s) (\<lambda>_ s.
        chain (assign ''episodes'' (field_number (fm_episodes f)) s) (\<lambda>_ s.
        chain (assign ''base_seed'' (field_number (fm_seed f)) s) (\<lambda>_ s.
        chain (assign_in ''environment'' ''duration_s'' (field_number (fm_duration f)) s) (\<lambda>_ s.
        chain (assign ''datasets'' (js_or (js_prop ''datasets'' (st_manifest s)) (JObj [])) s) (\<lambda>_ s.
        chain (assign_in ''datasets'' ''window_s'' (field_number (fm_window f)) s) (\<lambda>_ s.
        case scenarios_of (fm_mode f) (fm_fault f) of
          Inl e \<Rightarrow> (Inl e, s)
        | Inr scenarios \<Rightarrow>
            chain (assign ''scenarios'' (JArr scenarios) s) (\<lambda>_ s. (Inr (), render_workflow (render_manifest s))))))))))"

section \<open>Templates\<close>

definition card_html :: "(json \<Rightarrow> string) \<Rightarrow> json \<Rightarrow> string" where
  "card_html str template =
     ''<strong>'' @ str (js_prop ''name'' template) @ ''</strong><p>'' @
     str (js_or (js_prop ''description'' (js_prop ''manifest'' template)) (JStr ''Reproducible dynamic benchmark template.'')) @ ''</p>''"

text \<open>\<open>selectTemplate\<close>: the manifest is cloned, so editing it never changes the template.\<close>

definition select_template :: "(string \<Rightarrow> real option) \<Rightarrow> (json \<Rightarrow> string) \<Rightarrow> json \<Rightarrow> studio \<Rightarrow> (unit, studio) outcome" where
  "select_template num str template s =
     chain (apply_controls num str (s\<lparr>st_manifest := js_prop ''manifest'' template\<rparr>))
       (\<lambda>_ t. (Inr (), render_workflow (render_manifest t)))"

text \<open>The change handler of the editor ignores a text that does not parse, and every throw.\<close>

definition editor_changed :: "(string \<Rightarrow> real option) \<Rightarrow> (json \<Rightarrow> string) \<Rightarrow> json option \<Rightarrow> studio \<Rightarrow> studio" where
  "editor_changed num str parsed s =
     (let t = s\<lparr>st_editor := parsed\<rparr>
      in case parsed of
           None \<Rightarrow> t
         | Some m \<Rightarrow> (let r = apply_controls num str (t\<lparr>st_manifest := m\<rparr>)
                      in if throws r then snd r else render_workflow (snd r)))"

section \<open>Experiments\<close>

datatype reply = NoReply string | Reply bool json

definition message :: "string \<Rightarrow> bool \<Rightarrow> studio \<Rightarrow> studio" where
  "message txt good s = s\<lparr>st_message := txt, st_message_class := ''message '' @ (if good then ''good'' else ''bad'')\<rparr>"

definition animate_timeline :: "bool \<Rightarrow> studio \<Rightarrow> studio" where
  "animate_timeline running s = (if \<not> running then s\<lparr>st_timer := None, st_bar := 100\<rparr> else s\<lparr>st_timer := Some 0\<rparr>)"

definition timeline_tick :: "studio \<Rightarrow> studio" where
  "timeline_tick s = (case st_timer s of None \<Rightarrow> s
     | Some p \<Rightarrow> s\<lparr>st_timer := Some ((p + 4) mod 100), st_bar := (p + 4) mod 100\<rparr>)"

definition carriage_left :: "real \<Rightarrow> real" where
  "carriage_left p = 12 + 70 * \<bar>sin (p / 24)\<bar>"

definition part_left :: "real \<Rightarrow> real" where
  "part_left p = 18 + 62 * \<bar>sin (p / 28)\<bar>"

text \<open>\<open>new Error(x).message\<close> is \<open>String(x)\<close>, or empty for \<open>undefined\<close>; \<open>fault\<close> is the text of a parse or type error.\<close>

definition error_text :: "(json \<Rightarrow> string) \<Rightarrow> json \<Rightarrow> string" where
  "error_text str v = (if v = JUndef then [] else str v)"

text \<open>
  \<open>validateManifest\<close> up to its \<open>await\<close> (whether a request was sent) and from it on.
\<close>

definition validate_begin :: "string \<Rightarrow> studio \<Rightarrow> bool \<times> studio" where
  "validate_begin fault s = (case st_editor s of
       None \<Rightarrow> (False, message fault False s)
     | Some m \<Rightarrow> (True, s\<lparr>st_manifest := m\<rparr>))"

definition validate_end :: "(json \<Rightarrow> string) \<Rightarrow> string \<Rightarrow> reply \<Rightarrow> studio \<Rightarrow> studio" where
  "validate_end str fault reply s = (case reply of
       NoReply e \<Rightarrow> message e False s
     | Reply ok body \<Rightarrow>
         (if ok then message ''Manifest is valid and reproducible.'' True s
          else case read_prop ''detail'' body of
                 Inl _ \<Rightarrow> message fault False s
               | Inr d \<Rightarrow> message (error_text str d) False s))"

text \<open>The validate button: the click, and the answer to its request.\<close>

definition validate_clicked :: "string \<Rightarrow> studio \<Rightarrow> studio" where
  "validate_clicked fault s = (let (sent, t) = validate_begin fault s in if sent then t\<lparr>st_checks := st_checks t + 1\<rparr> else t)"

definition validate_answered :: "(json \<Rightarrow> string) \<Rightarrow> string \<Rightarrow> reply \<Rightarrow> studio \<Rightarrow> studio" where
  "validate_answered str fault reply s = validate_end str fault reply (s\<lparr>st_checks := st_checks s - 1\<rparr>)"

definition metric_rows :: "(json \<Rightarrow> real option) \<Rightarrow> json \<Rightarrow> (string \<times> json) list" where
  "metric_rows number job =
     (let m = js_or (js_prop ''metrics'' job) (JObj []);
          dash = JStr [CHR 0xE2, CHR 0x80, CHR 0x94];
          show = (\<lambda>k. js_coalesce (js_prop k m) dash);
          e = js_prop ''max_following_error'' m
      in [(''Status'', js_prop ''status'' job), (''Episodes'', show ''episodes''), (''Completed cycles'', show ''completed_cycles''),
          (''Telemetry rows'', show ''telemetry_rows''), (''Network messages'', show ''network_messages''),
          (''Dataset windows'', show ''dataset_windows''),
          (''Max following error'',
             if truthy e then JStr (case number e of None \<Rightarrow> ''NaN'' | Some x \<Rightarrow> show_fixed 4 x) else dash)])"

definition metrics_html :: "(json \<Rightarrow> string) \<Rightarrow> (string \<times> json) list \<Rightarrow> string" where
  "metrics_html str rows = concat (map (\<lambda>(k, v). ''<dt>'' @ k @ ''</dt><dd>'' @ str v @ ''</dd>'') rows)"

definition bundle_text :: "(json \<Rightarrow> string) \<Rightarrow> json \<Rightarrow> string" where
  "bundle_text str job = (if truthy (js_prop ''bundle'' job) then ''Bundle: '' @ str (js_prop ''bundle'' job)
     else str (js_or (js_prop ''error'' job) (JStr [])))"

definition job_over :: "json \<Rightarrow> bool" where
  "job_over job \<longleftrightarrow> js_prop ''status'' job = JStr ''completed'' \<or> js_prop ''status'' job = JStr ''failed''"

text \<open>
  \<open>poll\<close>: the request, and its answer; a request that fails or a null answer rejects the promise
  and schedules nothing.
\<close>

definition poll_begin :: "studio \<Rightarrow> studio" where
  "poll_begin s = s\<lparr>st_asking := st_asking s + 1\<rparr>"

definition poll_answered :: "reply \<Rightarrow> studio \<Rightarrow> (unit, studio) outcome" where
  "poll_answered reply s =
     (let t = s\<lparr>st_asking := st_asking s - 1\<rparr>
      in case reply of
           NoReply e \<Rightarrow> (Inl (TypeError e), t)
         | Reply _ job \<Rightarrow>
             (if nullish job then (Inl (TypeError ''metrics''), t)
              else if job_over job then (Inr (), animate_timeline False (t\<lparr>st_run_disabled := False\<rparr>))
              else (Inr (), t\<lparr>st_polls := st_polls t + 1\<rparr>)))"

definition poll_timer :: "studio \<Rightarrow> studio" where
  "poll_timer s = poll_begin (s\<lparr>st_polls := st_polls s - 1\<rparr>)"

text \<open>
  \<open>runExperiment\<close> in the pieces its \<open>await\<close>s leave: the click, which validates; from the validation's
  end to the request that starts the experiment; from that request's answer to the first poll.
\<close>

definition run_validated :: "studio \<Rightarrow> studio" where
  "run_validated s = (if \<not> truthy (st_manifest s) then s
     else (animate_timeline True (s\<lparr>st_run_disabled := True\<rparr>))\<lparr>st_starting := st_starting s + 1\<rparr>)"

definition run_clicked :: "string \<Rightarrow> studio \<Rightarrow> studio" where
  "run_clicked fault s = (let (sent, t) = validate_begin fault s
     in if sent then t\<lparr>st_validating := st_validating t + 1\<rparr> else run_validated t)"

definition run_answered :: "(json \<Rightarrow> string) \<Rightarrow> string \<Rightarrow> reply \<Rightarrow> studio \<Rightarrow> studio" where
  "run_answered str fault reply s = run_validated (validate_end str fault reply (s\<lparr>st_validating := st_validating s - 1\<rparr>))"

definition run_started :: "reply \<Rightarrow> studio \<Rightarrow> (unit, studio) outcome" where
  "run_started reply s =
     (let t = s\<lparr>st_starting := st_starting s - 1\<rparr>
      in case reply of
           NoReply e \<Rightarrow> (Inl (TypeError e), t)
         | Reply ok body \<Rightarrow>
             (if \<not> ok then (Inr (), (message ''Unable to start experiment.'' False t)\<lparr>st_run_disabled := False\<rparr>)
              else case read_prop ''job_id'' body of
                     Inl e \<Rightarrow> (Inl e, t)
                   | Inr j \<Rightarrow> (Inr (), poll_begin (t\<lparr>st_job := j\<rparr>))))"

text \<open>\<open>loadTemplates\<close>, once its answer is an array: the first template is selected; a throw in it, or in its card, ends the load.\<close>

definition load_templates :: "(string \<Rightarrow> real option) \<Rightarrow> (json \<Rightarrow> string) \<Rightarrow> json list \<Rightarrow> studio \<Rightarrow> (unit, studio) outcome" where
  "load_templates num str templates s =
     (let t = s\<lparr>st_templates := templates\<rparr>
      in case templates of
           [] \<Rightarrow> (Inr (), t)
         | first # _ \<Rightarrow> (case bind_exn (read_prop ''manifest'' first) (read_prop ''description'') of
                           Inl e \<Rightarrow> (Inl e, t)
                         | Inr _ \<Rightarrow> select_template num str first t))"

text \<open>The page as it opens: no manifest, nothing in flight; \<open>form\<close> is what the markup gives the fields.\<close>

definition studio_start :: "form \<Rightarrow> studio" where
  "studio_start f = \<lparr>st_templates = [], st_manifest = JNull, st_job = JNull, st_timer = None, st_form = f, st_editor = None,
     st_workflow = \<lparr>wf_title = [], wf_classes = [], wf_span = []\<rparr>, st_message = [], st_message_class = [],
     st_run_disabled = False, st_checks = 0, st_validating = 0, st_starting = 0, st_asking = 0, st_polls = 0, st_bar = 0\<rparr>"

end
