(* ===== verification/StudioLaws.thy ===== *)
theory StudioLaws
  imports Studio
begin

text \<open>
  Properties of the experiment studio: the form and the manifest stay in step, what a template
  selection and an edit do to it, and how an experiment ends.
\<close>

section \<open>Form and manifest\<close>

lemma map_of_put [simp]: "map_of (put_field k x fs) j = (if j = k then Some x else map_of fs j)"
  by (induction fs) auto

lemma js_prop_put [simp]: "js_prop j (JObj (put_field k x fs)) = (if j = k then x else js_prop j (JObj fs))"
  by (simp add: js_prop_def)

definition is_object :: "json \<Rightarrow> bool" where
  "is_object v \<longleftrightarrow> (case v of JObj _ \<Rightarrow> True | _ \<Rightarrow> False)"

lemma is_object_cases: "is_object v \<Longrightarrow> \<exists>fs. v = JObj fs"
  by (cases v) (simp_all add: is_object_def)

lemma assign_object:
  "st_manifest s = JObj fs \<Longrightarrow> assign k x s = (Inr (), s\<lparr>st_manifest := JObj (put_field k x fs)\<rparr>)"
  by (simp add: assign_def write_prop_def)

lemma assign_in_object:
  "st_manifest s = JObj fs \<Longrightarrow> js_prop outer (JObj fs) = JObj inner \<Longrightarrow>
     assign_in outer k x s = (Inr (), s\<lparr>st_manifest := JObj (put_field outer (JObj (put_field k x inner)) fs)\<rparr>)"
  by (simp add: assign_in_def write_prop_def assign_object)

lemma datasets_object:
  assumes "js_prop ''datasets'' m = JUndef \<or> is_object (js_prop ''datasets'' m)"
  shows "\<exists>inner. js_or (js_prop ''datasets'' m) (JObj []) = JObj inner"
  using assms by (auto simp: js_or_def dest: is_object_cases)


definition known_fault :: "string \<Rightarrow> bool" where
  "known_fault t \<longleftrightarrow> fault_profile t \<noteq> None"

lemma machine_scenario_known:
  "known_fault t \<Longrightarrow> \<exists>v. machine_scenario t = Inr v \<and> \<not> nullish v \<and> js_prop ''domain'' v = JStr ''machine'' \<and> js_prop ''type'' v = JStr t"
  by (auto simp: known_fault_def machine_scenario_def js_prop_def Let_def)

lemma network_scenario_domain [simp]: "js_prop ''domain'' network_scenario = JStr ''network''" "\<not> nullish network_scenario"
  by (simp_all add: network_scenario_def js_prop_def)


lemma sync_controls_result:
  assumes "st_manifest s = JObj fs" and "is_object (js_prop ''environment'' (JObj fs))"
    and "js_prop ''datasets'' (JObj fs) = JUndef \<or> is_object (js_prop ''datasets'' (JObj fs))"
    and "scenarios_of (fm_mode (st_form s)) (fm_fault (st_form s)) = Inr xs"
  shows "\<exists>m. sync_controls s = (Inr (), render_workflow (render_manifest (s\<lparr>st_manifest := m\<rparr>))) \<and> is_object m
    \<and> js_prop ''name'' m = JStr (fm_name (st_form s))
    \<and> js_prop ''episodes'' m = field_number (fm_episodes (st_form s))
    \<and> js_prop ''base_seed'' m = field_number (fm_seed (st_form s))
    \<and> js_prop ''duration_s'' (js_prop ''environment'' m) = field_number (fm_duration (st_form s))
    \<and> is_object (js_prop ''environment'' m) \<and> is_object (js_prop ''datasets'' m)
    \<and> js_prop ''window_s'' (js_prop ''datasets'' m) = field_number (fm_window (st_form s))
    \<and> js_prop ''scenarios'' m = JArr xs"
proof -
  obtain env where env: "js_prop ''environment'' (JObj fs) = JObj env" using assms(2) is_object_cases by blast
  obtain data where data: "js_or (js_prop ''datasets'' (JObj fs)) (JObj []) = JObj data"
    using datasets_object [OF assms(3)] by blast
  show ?thesis
    using assms(1,4) env data
    by (simp add: sync_controls_def assign_object assign_in_object Let_def)
      (rule exI, rule conjI [OF refl], simp add: is_object_def)
qed


definition demo_form :: form where
  "demo_form = \<lparr>fm_name = ''study'', fm_episodes = Some 3, fm_duration = Some 45, fm_seed = Some 7, fm_window = Some 1,
     fm_mode = ''combined'', fm_fault = ''encoder_drift''\<rparr>"

definition demo_studio :: studio where
  "demo_studio = \<lparr>st_templates = [], st_manifest = JObj [(''environment'', JObj [])], st_job = JNull, st_timer = None,
     st_form = demo_form, st_editor = None, st_workflow = \<lparr>wf_title = [], wf_classes = [], wf_span = []\<rparr>, st_message = [],
     st_message_class = [], st_run_disabled = False,
     st_checks = 0, st_validating = 0, st_starting = 0, st_asking = 0, st_polls = 0, st_bar = 0\<rparr>"

text \<open>\<open>String\<close> of a string is itself; the other values play no part in the witnesses.\<close>

definition demo_str :: "json \<Rightarrow> string" where
  "demo_str v = (case v of JStr s \<Rightarrow> s | _ \<Rightarrow> [])"


text \<open>
  Any edit throws the template's scenarios away: whatever scenarios the manifest had, after a change
  of any field it has those the form generates, which depend on the mode and the fault selector
  alone, and the selector is not set from the manifest; a template with an encoder drift becomes one
  with whatever fault the selector shows.
\<close>

theorem edit_replaces_scenarios:
  assumes "st_manifest s = JObj fs" and "is_object (js_prop ''environment'' (JObj fs))"
    and "js_prop ''datasets'' (JObj fs) = JUndef \<or> is_object (js_prop ''datasets'' (JObj fs))"
    and "fm_mode (st_form s) = ''machine''" and "known_fault (fm_fault (st_form s))"
  shows "\<exists>v. js_prop ''scenarios'' (st_manifest (snd (sync_controls s))) = JArr [v] \<and> js_prop ''type'' v = JStr (fm_fault (st_form s))"
proof -
  obtain v where v: "machine_scenario (fm_fault (st_form s)) = Inr v" "js_prop ''type'' v = JStr (fm_fault (st_form s))"
    using machine_scenario_known [OF assms(5)] by blast
  have "scenarios_of (fm_mode (st_form s)) (fm_fault (st_form s)) = Inr [v]"
    using v(1) assms(4) by (simp add: scenarios_of_def bind_exn_def Let_def)
  from sync_controls_result [OF assms(1-3) this] show ?thesis
    using v(2) by (auto simp: render_workflow_def render_manifest_def Let_def)
qed

lemma edit_replaces_witness:
  "\<exists>v. js_prop ''scenarios'' (st_manifest (snd (sync_controls (demo_studio\<lparr>st_form := demo_form\<lparr>fm_mode := ''machine''\<rparr>\<rparr>)))) = JArr [v]
     \<and> js_prop ''type'' v = JStr ''encoder_drift''"
  using edit_replaces_scenarios [of "demo_studio\<lparr>st_form := demo_form\<lparr>fm_mode := ''machine''\<rparr>\<rparr>" "[(''environment'', JObj [])]"]
  by (simp add: demo_studio_def demo_form_def js_prop_def is_object_def known_fault_def fault_profile_def)

section \<open>Experiments\<close>

text \<open>
  The page while experiments run: clicks, answers, the poll timers, a change of a field or of the
  editor, the choice of a template and the tick of the timeline. With \<open>patient\<close> the operator does not
  click the run button again while the validation of an earlier click is under way; the button is not
  disabled in that time.
\<close>

inductive studio_step :: "bool \<Rightarrow> studio \<Rightarrow> studio \<Rightarrow> bool" for patient where
  RunClick: "\<not> st_run_disabled s \<Longrightarrow> (patient \<longrightarrow> st_validating s = 0) \<Longrightarrow> studio_step patient s (run_clicked fault s)"
| RunAnswer: "0 < st_validating s \<Longrightarrow> studio_step patient s (run_answered str fault reply s)"
| Started: "0 < st_starting s \<Longrightarrow> studio_step patient s (snd (run_started reply s))"
| PollAnswer: "0 < st_asking s \<Longrightarrow> studio_step patient s (snd (poll_answered reply s))"
| PollTimer: "0 < st_polls s \<Longrightarrow> studio_step patient s (poll_timer s)"
| CheckClick: "studio_step patient s (validate_clicked fault s)"
| CheckAnswer: "0 < st_checks s \<Longrightarrow> studio_step patient s (validate_answered str fault reply s)"
| Change: "studio_step patient s (snd (sync_controls (s\<lparr>st_form := f\<rparr>)))"
| Edit: "studio_step patient s (editor_changed num str parsed s)"
| Load: "studio_step patient s (snd (load_templates num str templates s))"
| Select: "studio_step patient s (snd (select_template num str template s))"
| Tick: "studio_step patient s (timeline_tick s)"

inductive studio_reachable :: "bool \<Rightarrow> studio \<Rightarrow> studio \<Rightarrow> bool" for patient s0 where
  Here: "studio_reachable patient s0 s0"
| Next: "studio_reachable patient s0 s \<Longrightarrow> studio_step patient s t \<Longrightarrow> studio_reachable patient s0 t"

inductive_cases studio_stepE: "studio_step patient s t"

text \<open>The fields that belong to running experiments.\<close>

type_synonym run_state = "bool \<times> nat \<times> nat \<times> nat \<times> nat \<times> bool"

definition running :: "studio \<Rightarrow> run_state" where
  "running s = (st_run_disabled s, st_validating s, st_starting s, st_asking s, st_polls s, st_timer s = None)"

lemma running_frames [simp]:
  "running (s\<lparr>st_manifest := m\<rparr>) = running s" "running (s\<lparr>st_form := f\<rparr>) = running s"
  "running (s\<lparr>st_editor := x\<rparr>) = running s" "running (s\<lparr>st_templates := ts\<rparr>) = running s"
  "running (s\<lparr>st_checks := n\<rparr>) = running s" "running (s\<lparr>st_job := j\<rparr>) = running s"
  "running (render_manifest s) = running s"
  "running (render_workflow s) = running s" "running (message txt good s) = running s"
  "running (timeline_tick s) = running s"
  by (simp_all add: running_def render_manifest_def render_workflow_def message_def timeline_tick_def Let_def split: option.split)

lemma running_assign [simp]:
  "running (snd (assign k x s)) = running s" "running (snd (assign_in k j x s)) = running s"
  by (simp_all add: assign_def assign_in_def split: sum.split json.split)

lemma running_chain: "running (snd r) = running s \<Longrightarrow> (\<And>a. running (snd r) = running s \<Longrightarrow> running (snd (k a (snd r))) = running s) \<Longrightarrow>
    running (snd (chain r k)) = running s"
  by (rule chain_keeps [where P = "\<lambda>t. running t = running s"])

lemma running_sync [simp]: "running (snd (sync_controls s)) = running s"
proof (cases "truthy (st_manifest s)")
  case True
  have last: "running (snd (case r of Inl e \<Rightarrow> (Inl e, u)
      | Inr xs \<Rightarrow> chain (assign ''scenarios'' (JArr xs) u) (\<lambda>_ v. (Inr (), render_workflow (render_manifest v))))) = running s"
    if "running u = running s" for r u
    by (cases r) (simp_all add: that running_chain)
  show ?thesis
    unfolding sync_controls_def Let_def
    by (simp only: True not_True_eq_False if_False) (intro running_chain last; simp)
qed (simp add: sync_controls_def)

lemma running_apply [simp]: "running (snd (apply_controls num str s)) = running s"
  by (simp add: apply_controls_def Let_def split: sum.split)

lemma running_validate_end [simp]: "running (validate_end str fault reply s) = running s"
  by (simp add: validate_end_def split: reply.split sum.split)

lemma running_validate_begin: "validate_begin fault s = (sent, t) \<Longrightarrow> running t = running s"
  by (auto simp: validate_begin_def split: option.splits)

lemma running_check [simp]:
  "running (validate_clicked fault s) = running s" "running (validate_answered str fault reply s) = running s"
  by (auto simp: validate_clicked_def validate_answered_def running_validate_begin split: prod.split)

lemma running_edit [simp]: "running (editor_changed num str parsed s) = running s"
  by (simp add: editor_changed_def Let_def split: option.split)

lemma running_select [simp]: "running (snd (select_template num str template s)) = running s"
  unfolding select_template_def using running_apply [of num str "s\<lparr>st_manifest := js_prop ''manifest'' template\<rparr>"]
  by (intro running_chain) simp_all

lemma running_load [simp]: "running (snd (load_templates num str templates s)) = running s"
  by (simp add: load_templates_def Let_def split: list.split sum.split)

lemma running_validated:
  "running (run_validated s) = running s \<or>
   running (run_validated s) = (True, st_validating s, Suc (st_starting s), st_asking s, st_polls s, False)"
  by (simp add: run_validated_def running_def animate_timeline_def)

lemma running_clicked:
  "running (run_clicked fault s) \<in>
     {running s, (True, st_validating s, Suc (st_starting s), st_asking s, st_polls s, False),
      (st_run_disabled s, Suc (st_validating s), st_starting s, st_asking s, st_polls s, st_timer s = None)}"
proof -
  obtain sent t where t: "validate_begin fault s = (sent, t)" by (cases "validate_begin fault s")
  have "running t = running s" using t by (rule running_validate_begin)
  then show ?thesis
  proof (cases sent)
    case True
    with t have "run_clicked fault s = t\<lparr>st_validating := st_validating t + 1\<rparr>" by (simp add: run_clicked_def)
    then show ?thesis using \<open>running t = running s\<close> by (simp add: running_def)
  next
    case False
    with t have "run_clicked fault s = run_validated t" by (simp add: run_clicked_def)
    then show ?thesis using \<open>running t = running s\<close> running_validated [of t] by (auto simp: running_def)
  qed
qed

lemma running_answered:
  assumes "st_validating s = Suc n"
  shows "running (run_answered str fault reply s) \<in>
     {(st_run_disabled s, n, st_starting s, st_asking s, st_polls s, st_timer s = None),
      (True, n, Suc (st_starting s), st_asking s, st_polls s, False)}"
proof -
  let ?t = "validate_end str fault reply (s\<lparr>st_validating := st_validating s - 1\<rparr>)"
  have "running ?t = (st_run_disabled s, n, st_starting s, st_asking s, st_polls s, st_timer s = None)"
    by (simp add: assms) (simp add: running_def)
  then show ?thesis
    using running_validated [of ?t] by (auto simp: run_answered_def running_def)
qed

lemma running_started:
  assumes "st_starting s = Suc n"
  shows "running (snd (run_started reply s)) \<in>
     {(st_run_disabled s, st_validating s, n, st_asking s, st_polls s, st_timer s = None),
      (False, st_validating s, n, st_asking s, st_polls s, st_timer s = None),
      (st_run_disabled s, st_validating s, n, Suc (st_asking s), st_polls s, st_timer s = None)}"
  using assms by (simp add: run_started_def running_def message_def poll_begin_def Let_def split: reply.split sum.split)

lemma running_poll_answered:
  assumes "st_asking s = Suc n"
  shows "running (snd (poll_answered reply s)) \<in>
     {(st_run_disabled s, st_validating s, st_starting s, n, st_polls s, st_timer s = None),
      (False, st_validating s, st_starting s, n, st_polls s, True),
      (st_run_disabled s, st_validating s, st_starting s, n, Suc (st_polls s), st_timer s = None)}"
  using assms by (simp add: poll_answered_def running_def animate_timeline_def Let_def split: reply.split)

lemma running_poll_timer:
  "st_polls s = Suc n \<Longrightarrow> running (poll_timer s) =
     (st_run_disabled s, st_validating s, st_starting s, Suc (st_asking s), n, st_timer s = None)"
  by (simp add: poll_timer_def poll_begin_def running_def)

definition in_flight :: "studio \<Rightarrow> nat" where
  "in_flight s = st_starting s + st_asking s + st_polls s"

definition experiment_inv :: "studio \<Rightarrow> bool" where
  "experiment_inv s \<longleftrightarrow> st_validating s + in_flight s \<le> 1 \<and> (0 < in_flight s \<longrightarrow> st_run_disabled s \<and> st_timer s \<noteq> None)"

definition run_ok :: "run_state \<Rightarrow> bool" where
  "run_ok = (\<lambda>(off, v, a, b, c, still). v + (a + b + c) \<le> 1 \<and> (0 < a + b + c \<longrightarrow> off \<and> \<not> still))"

lemma experiment_inv_running: "experiment_inv s \<longleftrightarrow> run_ok (running s)"
  by (auto simp: experiment_inv_def in_flight_def running_def run_ok_def)

lemma run_ok_members: "x \<in> S \<Longrightarrow> (\<And>y. y \<in> S \<Longrightarrow> run_ok y) \<Longrightarrow> run_ok x"
  by blast

lemma experiment_inv_nat: "experiment_inv s \<longleftrightarrow> st_validating s + (st_starting s + st_asking s + st_polls s) \<le> 1 \<and>
    (0 < st_starting s + st_asking s + st_polls s \<longrightarrow> st_run_disabled s \<and> st_timer s \<noteq> None)"
  by (simp add: experiment_inv_def in_flight_def)

lemma studio_step_inv:
  assumes "studio_step True s t" and "experiment_inv s"
  shows "experiment_inv t"
  using assms
proof (induction rule: studio_step.induct)
  case (RunClick s fault)
  show ?case
    unfolding experiment_inv_running
    by (rule run_ok_members [OF running_clicked]) (use RunClick in \<open>auto simp: experiment_inv_nat run_ok_def running_def\<close>)
next
  case (RunAnswer s str fault reply)
  then obtain n where n: "st_validating s = Suc n" by (cases "st_validating s") auto
  show ?case
    unfolding experiment_inv_running
    by (rule run_ok_members [OF running_answered [OF n]]) (use RunAnswer n in \<open>auto simp: experiment_inv_nat run_ok_def\<close>)
next
  case (Started s reply)
  then obtain n where n: "st_starting s = Suc n" by (cases "st_starting s") auto
  show ?case
    unfolding experiment_inv_running
    by (rule run_ok_members [OF running_started [OF n]]) (use Started n in \<open>auto simp: experiment_inv_nat run_ok_def\<close>)
next
  case (PollAnswer s reply)
  then obtain n where n: "st_asking s = Suc n" by (cases "st_asking s") auto
  show ?case
    unfolding experiment_inv_running
    by (rule run_ok_members [OF running_poll_answered [OF n]]) (use PollAnswer n in \<open>auto simp: experiment_inv_nat run_ok_def\<close>)
next
  case (PollTimer s)
  then obtain n where n: "st_polls s = Suc n" by (cases "st_polls s") auto
  show ?case
    unfolding experiment_inv_running running_poll_timer [OF n]
    using PollTimer n by (auto simp: experiment_inv_nat run_ok_def)
qed (simp_all only: experiment_inv_running running_check running_sync running_edit running_load running_select running_frames)

lemma studio_reachable_inv: "studio_reachable True s0 s \<Longrightarrow> experiment_inv s0 \<Longrightarrow> experiment_inv s"
  by (induction rule: studio_reachable.induct) (auto intro: studio_step_inv)

text \<open>
  C19. For an operator who waits for a validation to end, there is one experiment at a time: in every
  state reachable from the opened page at most one run is validating, starting or polling, and while
  it starts or polls the run button is disabled and the timeline moves.
\<close>

theorem one_experiment_at_a_time:
  assumes "studio_reachable True (studio_start f) s"
  shows "st_validating s + st_starting s + st_asking s + st_polls s \<le> 1
    \<and> (0 < st_starting s + st_asking s + st_polls s \<longrightarrow> st_run_disabled s \<and> st_timer s \<noteq> None)"
proof -
  have "experiment_inv (studio_start f)" by (simp add: experiment_inv_def in_flight_def studio_start_def)
  from studio_reachable_inv [OF assms this] show ?thesis by (simp add: experiment_inv_def in_flight_def)
qed

definition edited_studio :: studio where
  "edited_studio = editor_changed (\<lambda>_. None) demo_str (Some (JObj [(''environment'', JObj [])])) (studio_start demo_form)"

lemma edited_studio_editor: "st_editor edited_studio = Some (JObj [(''environment'', JObj [])])" "running edited_studio = running (studio_start f)"
  by (simp_all add: edited_studio_def) (simp_all add: editor_changed_def apply_controls_def render_workflow_def Let_def running_def studio_start_def split: sum.split)

lemma one_experiment_witness:
  "\<exists>s. studio_reachable True (studio_start demo_form) s \<and> st_validating s = 1 \<and> st_starting s = 0"
proof -
  let ?s = "run_clicked [] edited_studio"
  have "studio_reachable True (studio_start demo_form) edited_studio"
    unfolding edited_studio_def by (rule studio_reachable.Next [OF studio_reachable.Here studio_step.Edit])
  moreover have "studio_step True edited_studio ?s"
    using edited_studio_editor(2) [of demo_form] by (intro studio_step.RunClick) (simp_all add: running_def studio_start_def)
  ultimately have r: "studio_reachable True (studio_start demo_form) ?s" by (rule studio_reachable.Next)
  have v: "st_validating ?s = 1"
    using edited_studio_editor(2) [of demo_form]
    by (simp add: run_clicked_def validate_begin_def edited_studio_editor(1) running_def studio_start_def)
  with one_experiment_at_a_time [OF r] have "st_starting ?s = 0" by simp
  with r v show ?thesis by blast
qed

text \<open>
  The button is not disabled while a click is being validated, and two clicks in that time run two
  experiments: if the editor parses, there is a sequence of answers after which the first experiment is over, the
  button is enabled and the timeline stands still although the second experiment is still being polled.
\<close>

theorem double_click_runs_two:
  assumes "\<not> st_run_disabled s" and "st_editor s = Some m" and "truthy m"
  shows "\<exists>t. studio_reachable False s t \<and> \<not> st_run_disabled t \<and> st_timer t = None \<and> st_asking t = st_asking s + 1"
proof -
  define a where "a = run_clicked [] (run_clicked [] s)"
  define b where "b = run_answered (\<lambda>_. []) [] (NoReply []) (run_answered (\<lambda>_. []) [] (NoReply []) a)"
  define job where "job = JObj [(''job_id'', JNum 1)]"
  define c where "c = snd (run_started (Reply True job) (snd (run_started (Reply True job) b)))"
  define d where "d = snd (poll_answered (Reply True (JObj [(''status'', JStr ''completed'')])) c)"
  have one: "\<not> st_run_disabled (run_clicked [] s)" "st_editor (run_clicked [] s) = Some m"
    using assms by (simp_all add: run_clicked_def validate_begin_def)
  have a: "st_validating a = st_validating s + 2" "st_manifest a = m" "st_starting a = st_starting s" "st_asking a = st_asking s"
    using assms by (simp_all add: a_def run_clicked_def validate_begin_def)
  have b: "st_starting b = st_starting s + 2" "st_asking b = st_asking s"
    using a assms(3) by (simp_all add: b_def run_answered_def run_validated_def validate_end_def message_def animate_timeline_def)
  have c: "st_asking c = st_asking s + 2"
    using b by (simp add: c_def job_def run_started_def read_prop_def js_prop_def poll_begin_def Let_def)
  have d: "\<not> st_run_disabled d" "st_timer d = None" "st_asking d = st_asking s + 1"
    using c by (simp_all add: d_def poll_answered_def job_over_def js_prop_def animate_timeline_def Let_def)
  have "studio_step False s (run_clicked [] s)" "studio_step False (run_clicked [] s) a"
    unfolding a_def using assms(1) one(1) by (simp_all add: studio_step.RunClick)
  then have "studio_reachable False s a" by (blast intro: studio_reachable.intros)
  moreover have "studio_step False a (run_answered (\<lambda>_. []) [] (NoReply []) a)" using a(1) by (simp add: studio_step.RunAnswer)
  moreover have "studio_step False (run_answered (\<lambda>_. []) [] (NoReply []) a) b"
    unfolding b_def using a by (intro studio_step.RunAnswer)
      (simp add: run_answered_def run_validated_def validate_end_def message_def animate_timeline_def)
  moreover have "studio_step False b (snd (run_started (Reply True job) b))" using b(1) by (simp add: studio_step.Started)
  moreover have "studio_step False (snd (run_started (Reply True job) b)) c"
    unfolding c_def using b(1) by (intro studio_step.Started)
      (simp add: job_def run_started_def read_prop_def js_prop_def poll_begin_def Let_def)
  moreover have "studio_step False c d" unfolding d_def using c by (simp add: studio_step.PollAnswer)
  ultimately have "studio_reachable False s d" by (meson studio_reachable.Next)
  with d show ?thesis by blast
qed

lemma double_click_witness:
  "\<exists>t. studio_reachable False edited_studio t \<and> \<not> st_run_disabled t \<and> st_timer t = None \<and> st_asking t = 1"
  using double_click_runs_two [OF _ edited_studio_editor(1)] edited_studio_editor(2) [of demo_form]
  by (simp add: running_def studio_start_def)

text \<open>
  The button once nothing is in flight: no operation but an answer enables it again.
\<close>

definition run_stuck :: "studio \<Rightarrow> bool" where
  "run_stuck s \<longleftrightarrow> st_run_disabled s \<and> st_validating s = 0 \<and> in_flight s = 0"

lemma run_stuck_running: "run_stuck s \<longleftrightarrow> (\<exists>still. running s = (True, 0, 0, 0, 0, still))"
  by (auto simp: run_stuck_def running_def in_flight_def)

lemma run_stuck_step: "studio_step patient s t \<Longrightarrow> run_stuck s \<Longrightarrow> run_stuck t"
  by (induction rule: studio_step.induct) (simp_all add: run_stuck_running, simp_all add: running_def)

lemma run_stuck_reachable: "studio_reachable patient s t \<Longrightarrow> run_stuck s \<Longrightarrow> run_stuck t"
  by (induction rule: studio_reachable.induct) (auto intro: run_stuck_step)

text \<open>
  A lost answer blocks the page: if the request that starts the only experiment, or one of its polls,
  fails on the network, the promise is rejected, nothing is scheduled, and the run button stays disabled in
  every state reachable from there, until the page is loaded again.
\<close>

theorem lost_answer_blocks_run:
  assumes "experiment_inv s" and "st_starting s = 1 \<and> u = snd (run_started (NoReply e) s) \<or> st_asking s = 1 \<and> u = snd (poll_answered (NoReply e) s)"
    and "studio_reachable patient u t"
  shows "st_run_disabled t \<and> st_starting t + st_asking t + st_polls t = 0"
proof -
  have "run_stuck u"
    using assms(1,2) by (auto simp: experiment_inv_nat run_stuck_def in_flight_def run_started_def poll_answered_def)
  from run_stuck_reachable [OF assms(3) this] show ?thesis by (simp add: run_stuck_def in_flight_def)
qed

lemma lost_answer_witness:
  "st_run_disabled (timeline_tick (snd (run_started (NoReply []) (demo_studio\<lparr>st_run_disabled := True, st_timer := Some 0, st_starting := 1\<rparr>))))"
  by (rule lost_answer_blocks_run [where s = "demo_studio\<lparr>st_run_disabled := True, st_timer := Some 0, st_starting := 1\<rparr>"
        and u = "snd (run_started (NoReply []) (demo_studio\<lparr>st_run_disabled := True, st_timer := Some 0, st_starting := 1\<rparr>))"
        and e = "[]" and patient = True, THEN conjunct1])
    (simp_all add: experiment_inv_nat demo_studio_def studio_reachable.Next [OF studio_reachable.Here studio_step.Tick])

end
