(* ===== verification/ShaderText.thy ===== *)
theory ShaderText
  imports VsmcPrelude
begin

text \<open>
  Shader sources as the viewer's bundle assembles them (\<open>web/viewer/dist/assets/index-BpuCcfds.js\<close>): the
  \<open>#include\<close> expansion of a program text (\<open>np\<close>, \<open>ra\<close>, \<open>rp\<close>) and the nesting of its conditionals.

  \<^item> A text is the list of its lines; lines hold no line break, so a match of the include pattern,
    which is anchored at a line start, is a property of one line.
  \<^item> The expansion recurses through a table the caller passes; its depth is bounded by fuel, and running
    out of it is \<open>None\<close>, kept apart from the exceptions of the code.
\<close>

section \<open>Lines\<close>

definition tabs :: "nat \<Rightarrow> string" where
  "tabs n = replicate n (CHR 0x09)"

fun drop_blanks :: "string \<Rightarrow> string" where
  "drop_blanks [] = []"
| "drop_blanks (c # cs) = (if c = CHR '' '' \<or> c = CHR 0x09 then drop_blanks cs else c # cs)"

fun drop_spaces :: "string \<Rightarrow> string" where
  "drop_spaces [] = []"
| "drop_spaces (c # cs) = (if c = CHR '' '' then drop_spaces cs else c # cs)"

fun drop_prefix :: "string \<Rightarrow> string \<Rightarrow> string option" where
  "drop_prefix [] s = Some s"
| "drop_prefix (p # ps) [] = None"
| "drop_prefix (p # ps) (c # cs) = (if p = c then drop_prefix ps cs else None)"

text \<open>The class \<open>[\w\d./]\<close> of the pattern.\<close>

definition name_char :: "char \<Rightarrow> bool" where
  "name_char c = (let n = of_char c :: nat in
     (48 \<le> n \<and> n \<le> 57) \<or> (65 \<le> n \<and> n \<le> 90) \<or> (97 \<le> n \<and> n \<le> 122) \<or> c = CHR ''_'' \<or> c = CHR ''.'' \<or> c = CHR ''/'')"

text \<open>
  \<open>^[ \t]*#include +<([\w\d./]+)>\<close>: the name of an include line and what follows the closing bracket.
  The parts of the pattern have no characters in common, so the greedy match is the only one.
\<close>

definition include_of :: "string \<Rightarrow> (string \<times> string) option" where
  "include_of l = (case drop_prefix ''#include '' (drop_blanks l) of
       None \<Rightarrow> None
     | Some r \<Rightarrow> (case drop_prefix ''<'' (drop_spaces r) of
           None \<Rightarrow> None
         | Some r \<Rightarrow> (let n = takeWhile name_char r in
               if n = [] then None
               else case drop_prefix ''>'' (dropWhile name_char r) of None \<Rightarrow> None | Some rest \<Rightarrow> Some (n, rest))))"

fun include_list :: "string list \<Rightarrow> (string \<times> string) list" where
  "include_list [] = []"
| "include_list (l # ls) = (case include_of l of None \<Rightarrow> include_list ls | Some p \<Rightarrow> p # include_list ls)"

section \<open>Expansion\<close>

type_synonym chunks = "string \<Rightarrow> string list option"

text \<open>What follows an include on its line ends up on the last line of the text that replaces it.\<close>

fun append_rest :: "string list \<Rightarrow> string \<Rightarrow> string list" where
  "append_rest [] rest = [rest]"
| "append_rest [l] rest = [l @ rest]"
| "append_rest (l # ls) rest = l # append_rest ls rest"

fun expand_lines :: "(string \<Rightarrow> (exn + string list) option) \<Rightarrow> string list \<Rightarrow> (exn + string list) option" where
  "expand_lines chunk [] = Some (Inr [])"
| "expand_lines chunk (l # ls) =
     (case include_of l of
        None \<Rightarrow> map_option (map_sum id ((#) l)) (expand_lines chunk ls)
      | Some (n, rest) \<Rightarrow> (case chunk n of
            None \<Rightarrow> None
          | Some (Inl e) \<Rightarrow> Some (Inl e)
          | Some (Inr xs) \<Rightarrow> map_option (map_sum id ((@) (append_rest xs rest))) (expand_lines chunk ls)))"

text \<open>
  A name that is not in the table throws \<open>Can not resolve #include <name>\<close>; the map of deprecated names
  (\<open>ip\<close>) is empty. The table is an object literal: a name it inherits finds a function or an object, whose
  \<open>replace\<close> is not there to be called.
\<close>

definition unknown_include :: "string \<Rightarrow> exn" where
  "unknown_include n = (if n \<in> set inherited_names then TypeError ''replace''
     else InvalidOperation (''Can not resolve #include <'' @ n @ ''>''))"

fun resolve_includes :: "nat \<Rightarrow> chunks \<Rightarrow> string list \<Rightarrow> (exn + string list) option" where
  "resolve_includes 0 tbl ls = None"
| "resolve_includes (Suc fuel) tbl ls = expand_lines (\<lambda>n. case tbl n of
       None \<Rightarrow> Some (Inl (unknown_include n))
     | Some text \<Rightarrow> resolve_includes fuel tbl text) ls"

section \<open>Conditionals\<close>

datatype directive = Plain | Opens | Elif | Else | Closes

definition directive_of :: "string \<Rightarrow> directive" where
  "directive_of l = (let s = drop_blanks l in
     case s of [] \<Rightarrow> Plain | c # cs \<Rightarrow>
       if c \<noteq> CHR ''#'' then Plain
       else if drop_prefix ''if'' cs \<noteq> None then Opens
       else if drop_prefix ''elif'' cs \<noteq> None then Elif
       else if drop_prefix ''else'' cs \<noteq> None then Else
       else if drop_prefix ''endif'' cs \<noteq> None then Closes
       else Plain)"

text \<open>
  The open conditionals after a text, innermost first, each with whether its \<open>#else\<close> has been seen; \<open>None\<close>
  if an \<open>#elif\<close>, \<open>#else\<close> or \<open>#endif\<close> has nothing to belong to.
\<close>

fun nesting :: "bool list \<Rightarrow> string list \<Rightarrow> bool list option" where
  "nesting st [] = Some st"
| "nesting st (l # ls) = (case directive_of l of
       Plain \<Rightarrow> nesting st ls
     | Opens \<Rightarrow> nesting (False # st) ls
     | Elif \<Rightarrow> (case st of False # _ \<Rightarrow> nesting st ls | _ \<Rightarrow> None)
     | Else \<Rightarrow> (case st of False # outer \<Rightarrow> nesting (True # outer) ls | _ \<Rightarrow> None)
     | Closes \<Rightarrow> (case st of _ # outer \<Rightarrow> nesting outer ls | [] \<Rightarrow> None))"

definition well_nested :: "string list \<Rightarrow> bool" where
  "well_nested ls \<longleftrightarrow> nesting [] ls = Some []"

section \<open>Expansion without fuel\<close>

text \<open>
  What the recursion of \<open>ra\<close> and \<open>rp\<close> computes when it returns: the least relation closed under the
  replacement of one line.
\<close>

inductive expands :: "chunks \<Rightarrow> string list \<Rightarrow> string list \<Rightarrow> bool" for tbl where
  Done: "expands tbl [] []"
| Keep: "include_of l = None \<Longrightarrow> expands tbl ls out \<Longrightarrow> expands tbl (l # ls) (l # out)"
| Replace: "include_of l = Some (n, rest) \<Longrightarrow> tbl n = Some text \<Longrightarrow> expands tbl text body \<Longrightarrow> expands tbl ls out \<Longrightarrow>
    expands tbl (l # ls) (append_rest body rest @ out)"

definition chunk_at :: "nat \<Rightarrow> chunks \<Rightarrow> string \<Rightarrow> (exn + string list) option" where
  "chunk_at fuel tbl n = (case tbl n of None \<Rightarrow> Some (Inl (unknown_include n)) | Some text \<Rightarrow> resolve_includes fuel tbl text)"

lemma resolve_Suc: "resolve_includes (Suc fuel) tbl ls = expand_lines (chunk_at fuel tbl) ls"
  by (simp add: chunk_at_def [abs_def])

lemma expand_lines_mono:
  assumes "expand_lines f ls = Some r" and "\<And>n x. f n = Some x \<Longrightarrow> g n = Some x"
  shows "expand_lines g ls = Some r"
  using assms
proof (induction ls arbitrary: r)
  case (Cons l ls)
  show ?case
  proof (cases "include_of l")
    case None
    then show ?thesis using Cons by (auto simp: map_option_case split: option.splits)
  next
    case (Some p)
    then show ?thesis
      using Cons by (cases p) (auto split: option.splits sum.splits dest!: Cons.prems(2))
  qed
qed simp

lemma resolve_more_fuel: "resolve_includes fuel tbl ls = Some r \<Longrightarrow> resolve_includes (fuel + k) tbl ls = Some r"
proof (induction fuel arbitrary: ls r)
  case (Suc fuel)
  have "chunk_at fuel tbl n = Some x \<Longrightarrow> chunk_at (fuel + k) tbl n = Some x" for n x
    by (auto simp: chunk_at_def Suc.IH split: option.splits)
  with Suc.prems expand_lines_mono [of "chunk_at fuel tbl" ls r "chunk_at (fuel + k) tbl"] show ?case
    by (simp only: add_Suc resolve_Suc)
qed simp

lemma expand_lines_expands:
  assumes "expand_lines f ls = Some (Inr out)"
    and "\<And>n body. f n = Some (Inr body) \<Longrightarrow> \<exists>text. tbl n = Some text \<and> expands tbl text body"
  shows "expands tbl ls out"
  using assms(1)
proof (induction ls arbitrary: out)
  case (Cons l ls)
  show ?case
  proof (cases "include_of l")
    case None
    then obtain out' where "expand_lines f ls = Some (Inr out')" "out = l # out'"
      using Cons.prems by (auto simp: map_option_case map_sum_def split: option.splits sum.splits)
    then show ?thesis using Cons.IH None by (simp add: expands.Keep)
  next
    case (Some p)
    then obtain n rest body out' where p: "include_of l = Some (n, rest)" "f n = Some (Inr body)"
      "expand_lines f ls = Some (Inr out')" "out = append_rest body rest @ out'"
      using Cons.prems by (cases p) (auto simp: map_option_case map_sum_def split: option.splits sum.splits)
    then show ?thesis using Cons.IH assms(2) by (auto intro: expands.Replace)
  qed
qed (simp add: expands.Done)

lemma resolve_expands: "resolve_includes fuel tbl ls = Some (Inr out) \<Longrightarrow> expands tbl ls out"
proof (induction fuel arbitrary: ls out)
  case (Suc fuel)
  show ?case
    by (rule expand_lines_expands [OF Suc.prems [unfolded resolve_Suc]])
      (auto simp: chunk_at_def Suc.IH split: option.splits)
qed simp

lemma expands_resolve: "expands tbl ls out \<Longrightarrow> \<exists>fuel. resolve_includes (Suc fuel) tbl ls = Some (Inr out)"
proof (induction rule: expands.induct)
  case (Keep l ls out)
  then obtain fuel where "resolve_includes (Suc fuel) tbl ls = Some (Inr out)" by blast
  then have "resolve_includes (Suc fuel) tbl (l # ls) = Some (Inr (l # out))" using Keep(1) by (simp add: resolve_Suc del: resolve_includes.simps)
  then show ?case by blast
next
  case (Replace l n rest src body ls out)
  then obtain f g where f: "resolve_includes (Suc f) tbl src = Some (Inr body)"
    and g: "resolve_includes (Suc g) tbl ls = Some (Inr out)" by blast
  have "chunk_at (Suc f + g) tbl n = Some (Inr body)"
    using Replace(2) resolve_more_fuel [OF f, of g] by (simp add: chunk_at_def del: resolve_includes.simps)
  moreover have "expand_lines (chunk_at (Suc f + g) tbl) ls = Some (Inr out)"
    using resolve_more_fuel [OF g, of "Suc f"] by (simp add: resolve_Suc add.commute del: resolve_includes.simps)
  ultimately have "resolve_includes (Suc (Suc f + g)) tbl (l # ls) = Some (Inr (append_rest body rest @ out))"
    using Replace(1) by (simp add: resolve_Suc del: resolve_includes.simps)
  then show ?case by blast
qed (auto intro: exI [of _ 0])

section \<open>A table of chunks\<close>

lemma nesting_append: "nesting st (xs @ ys) = Option.bind (nesting st xs) (\<lambda>st. nesting st ys)"
  by (induction st xs rule: nesting.induct) (auto split: directive.split list.split bool.split)

lemma nesting_outer: "nesting st ls = Some st' \<Longrightarrow> nesting (st @ outer) ls = Some (st' @ outer)"
  by (induction st ls arbitrary: st' rule: nesting.induct) (auto split: directive.splits list.splits bool.splits)

lemma well_nested_anywhere: "well_nested ls \<Longrightarrow> nesting st ls = Some st"
  using nesting_outer [of "[]" ls "[]" st] by (simp add: well_nested_def)

lemma append_rest_nil: "ls \<noteq> [] \<Longrightarrow> append_rest ls [] = ls"
  by (induction ls "[] :: string" rule: append_rest.induct) simp_all

lemma include_list_append: "include_list (xs @ ys) = include_list xs @ include_list ys"
  by (induction xs) (auto split: option.split)

text \<open>An include line is not a conditional.\<close>

lemma drop_prefix_Some: "drop_prefix p s = Some r \<longleftrightarrow> s = p @ r"
  by (induction p s rule: drop_prefix.induct) auto

lemma include_line_plain:
  assumes "include_of l = Some p"
  shows "directive_of l = Plain"
proof -
  obtain r where "drop_blanks l = ''#include '' @ r"
    using assms by (auto simp: include_of_def drop_prefix_Some split: option.splits)
  then show ?thesis by (simp add: directive_of_def Let_def)
qed

text \<open>
  The contract of a chunk table: chunks are well nested, are included on a line of their own, and include only
  chunks of a lower rank.
\<close>

locale chunk_library =
  fixes tbl :: chunks and rank :: "string \<Rightarrow> nat"
  assumes chunk_ok: "tbl n = Some ls \<Longrightarrow> ls \<noteq> [] \<and> well_nested ls \<and>
    list_all (\<lambda>(m, rest). rest = [] \<and> tbl m \<noteq> None \<and> rank m < rank n) (include_list ls)"
begin

lemma expand_ok:
  assumes "list_all (\<lambda>(m, rest). rest = [] \<and> tbl m \<noteq> None \<and> rank m < fuel) (include_list ls)"
  shows "\<exists>out. resolve_includes (Suc fuel) tbl ls = Some (Inr out) \<and> include_list out = [] \<and> (ls \<noteq> [] \<longrightarrow> out \<noteq> [])
    \<and> (\<forall>st. nesting st out = nesting st ls)"
  using assms
proof (induction fuel arbitrary: ls)
  case 0
  then have plain: "include_list ls = []" by (cases "include_list ls") auto
  then have "expand_lines (chunk_at 0 tbl) ls = Some (Inr ls)"
    by (induction ls) (auto split: option.splits)
  with plain show ?case by (simp add: resolve_Suc del: resolve_includes.simps)
next
  case (Suc fuel)
  have chunk: "\<exists>body. chunk_at (Suc fuel) tbl n = Some (Inr body) \<and> include_list body = [] \<and> body \<noteq> [] \<and> well_nested body"
    if n: "tbl n \<noteq> None" "rank n < Suc fuel" for n
  proof -
    obtain src where src: "tbl n = Some src" using n by blast
    have "list_all (\<lambda>(m, rest). rest = [] \<and> tbl m \<noteq> None \<and> rank m < fuel) (include_list src)"
      using chunk_ok [OF src] n(2) by (auto simp: list_all_iff)
    from Suc.IH [OF this] chunk_ok [OF src] src show ?thesis
      by (auto simp: chunk_at_def well_nested_def simp del: resolve_includes.simps)
  qed
  from Suc.prems have "\<exists>out. expand_lines (chunk_at (Suc fuel) tbl) ls = Some (Inr out) \<and> include_list out = [] \<and> (ls \<noteq> [] \<longrightarrow> out \<noteq> [])
    \<and> (\<forall>st. nesting st out = nesting st ls)"
  proof (induction ls)
    case (Cons l ls)
    show ?case
    proof (cases "include_of l")
      case None
      with Cons show ?thesis by (auto split: directive.split list.split bool.split)
    next
      case (Some p)
      then obtain n where n: "include_of l = Some (n, [])" "tbl n \<noteq> None" "rank n < Suc fuel"
        using Cons.prems by (cases p) auto
      obtain out where out: "expand_lines (chunk_at (Suc fuel) tbl) ls = Some (Inr out)" "include_list out = []"
        "\<forall>st. nesting st out = nesting st ls"
        using Cons n(1) by auto
      obtain body where body: "chunk_at (Suc fuel) tbl n = Some (Inr body)" "include_list body = []" "body \<noteq> []" "well_nested body"
        using chunk n(2,3) by blast
      show ?thesis
        using n(1) out body
        by (simp add: append_rest_nil include_list_append nesting_append well_nested_anywhere include_line_plain [OF n(1)])
    qed
  qed simp
  then show ?case by (simp only: resolve_Suc)
qed

end

section \<open>Evaluation\<close>

lemma drop_blanks_tabs [simp]: "drop_blanks (tabs n @ s) = drop_blanks s" "drop_blanks (tabs n) = []"
  by (induction n) (simp_all add: tabs_def)

text \<open>
  The simplifier is kept out of the lines still to be read, so that a text is read in time linear in
  its length.
\<close>

lemma nesting_cong: "st = st' \<Longrightarrow> nesting st ls = nesting st' ls"
  by simp

lemma include_list_cong: "include_list ls = include_list ls"
  by simp

lemma map_of_step: "map_of ((n, v) # ps) k = (if n = k then Some v else map_of ps k)"
  by simp

lemma map_of_key_cong: "k = k' \<Longrightarrow> map_of ps k = map_of ps k'"
  by simp

named_theorems chunk_facts \<open>include lines and nesting of the chunks\<close>
named_theorems chunk_lookups \<open>entries of the chunk table\<close>

lemmas line_defs = directive_of_def include_of_def name_char_def Let_def

end
