(* ===== verification/ShaderVertexChunks.thy ===== *)
theory ShaderVertexChunks
  imports ShaderText
begin

text \<open>
  The chunks of vertex shaders: attributes, batching, skinning, morphing, the transforms of positions and normals,
  texture coordinates, and what is handed to the fragment stage.
  Each chunk is the template string of the same name in the table of \<open>web/viewer/dist/assets/index-BpuCcfds.js\<close>,
  line by line, and is followed by what the include expansion needs to know of it.
\<close>

definition batching_pars_vertex :: "string list" where
  "batching_pars_vertex = [
     ''#ifdef USE_BATCHING'',
     tabs 1 @ ''#if ! defined( GL_ANGLE_multi_draw )'',
     tabs 1 @ ''#define gl_DrawID _gl_DrawID'',
     tabs 1 @ ''uniform int _gl_DrawID;'',
     tabs 1 @ ''#endif'',
     tabs 1 @ ''uniform highp sampler2D batchingTexture;'',
     tabs 1 @ ''uniform highp usampler2D batchingIdTexture;'',
     tabs 1 @ ''mat4 getBatchingMatrix( const in float i ) {'',
     tabs 2 @ ''int size = textureSize( batchingTexture, 0 ).x;'',
     tabs 2 @ ''int j = int( i ) * 4;'',
     tabs 2 @ ''int x = j % size;'',
     tabs 2 @ ''int y = j / size;'',
     tabs 2 @ ''vec4 v1 = texelFetch( batchingTexture, ivec2( x, y ), 0 );'',
     tabs 2 @ ''vec4 v2 = texelFetch( batchingTexture, ivec2( x + 1, y ), 0 );'',
     tabs 2 @ ''vec4 v3 = texelFetch( batchingTexture, ivec2( x + 2, y ), 0 );'',
     tabs 2 @ ''vec4 v4 = texelFetch( batchingTexture, ivec2( x + 3, y ), 0 );'',
     tabs 2 @ ''return mat4( v1, v2, v3, v4 );'',
     tabs 1 @ ''}'',
     tabs 1 @ ''float getIndirectIndex( const in int i ) {'',
     tabs 2 @ ''int size = textureSize( batchingIdTexture, 0 ).x;'',
     tabs 2 @ ''int x = i % size;'',
     tabs 2 @ ''int y = i / size;'',
     tabs 2 @ ''return float( texelFetch( batchingIdTexture, ivec2( x, y ), 0 ).r );'',
     tabs 1 @ ''}'',
     ''#endif'',
     ''#ifdef USE_BATCHING_COLOR'',
     tabs 1 @ ''uniform sampler2D batchingColorTexture;'',
     tabs 1 @ ''vec3 getBatchingColor( const in float i ) {'',
     tabs 2 @ ''int size = textureSize( batchingColorTexture, 0 ).x;'',
     tabs 2 @ ''int j = int( i );'',
     tabs 2 @ ''int x = j % size;'',
     tabs 2 @ ''int y = j / size;'',
     tabs 2 @ ''return texelFetch( batchingColorTexture, ivec2( x, y ), 0 ).rgb;'',
     tabs 1 @ ''}'',
     ''#endif'']"

lemma batching_pars_vertex_text [chunk_facts]:
  "batching_pars_vertex \<noteq> []" "nesting [] batching_pars_vertex = Some []" "include_list batching_pars_vertex = []"
  unfolding batching_pars_vertex_def
  by (simp_all add: line_defs cong: nesting_cong include_list_cong)

definition batching_vertex :: "string list" where
  "batching_vertex = [
     ''#ifdef USE_BATCHING'',
     tabs 1 @ ''mat4 batchingMatrix = getBatchingMatrix( getIndirectIndex( gl_DrawID ) );'',
     ''#endif'']"

lemma batching_vertex_text [chunk_facts]:
  "batching_vertex \<noteq> []" "nesting [] batching_vertex = Some []" "include_list batching_vertex = []"
  unfolding batching_vertex_def
  by (simp_all add: line_defs cong: nesting_cong include_list_cong)

definition begin_vertex :: "string list" where
  "begin_vertex = [
     ''vec3 transformed = vec3( position );'',
     ''#ifdef USE_ALPHAHASH'',
     tabs 1 @ ''vPosition = vec3( position );'',
     ''#endif'']"

lemma begin_vertex_text [chunk_facts]:
  "begin_vertex \<noteq> []" "nesting [] begin_vertex = Some []" "include_list begin_vertex = []"
  unfolding begin_vertex_def
  by (simp_all add: line_defs cong: nesting_cong include_list_cong)

definition beginnormal_vertex :: "string list" where
  "beginnormal_vertex = [
     ''vec3 objectNormal = vec3( normal );'',
     ''#ifdef USE_TANGENT'',
     tabs 1 @ ''vec3 objectTangent = vec3( tangent.xyz );'',
     ''#endif'']"

lemma beginnormal_vertex_text [chunk_facts]:
  "beginnormal_vertex \<noteq> []" "nesting [] beginnormal_vertex = Some []" "include_list beginnormal_vertex = []"
  unfolding beginnormal_vertex_def
  by (simp_all add: line_defs cong: nesting_cong include_list_cong)

definition clipping_planes_pars_vertex :: "string list" where
  "clipping_planes_pars_vertex = [
     ''#if NUM_CLIPPING_PLANES > 0'',
     tabs 1 @ ''varying vec3 vClipPosition;'',
     ''#endif'']"

lemma clipping_planes_pars_vertex_text [chunk_facts]:
  "clipping_planes_pars_vertex \<noteq> []" "nesting [] clipping_planes_pars_vertex = Some []" "include_list clipping_planes_pars_vertex = []"
  unfolding clipping_planes_pars_vertex_def
  by (simp_all add: line_defs cong: nesting_cong include_list_cong)

definition clipping_planes_vertex :: "string list" where
  "clipping_planes_vertex = [
     ''#if NUM_CLIPPING_PLANES > 0'',
     tabs 1 @ ''vClipPosition = - mvPosition.xyz;'',
     ''#endif'']"

lemma clipping_planes_vertex_text [chunk_facts]:
  "clipping_planes_vertex \<noteq> []" "nesting [] clipping_planes_vertex = Some []" "include_list clipping_planes_vertex = []"
  unfolding clipping_planes_vertex_def
  by (simp_all add: line_defs cong: nesting_cong include_list_cong)

definition color_pars_vertex :: "string list" where
  "color_pars_vertex = [
     ''#if defined( USE_COLOR_ALPHA )'',
     tabs 1 @ ''varying vec4 vColor;'',
     ''#elif defined( USE_COLOR ) || defined( USE_INSTANCING_COLOR ) || defined( USE_BATCHING_COLOR )'',
     tabs 1 @ ''varying vec3 vColor;'',
     ''#endif'']"

lemma color_pars_vertex_text [chunk_facts]:
  "color_pars_vertex \<noteq> []" "nesting [] color_pars_vertex = Some []" "include_list color_pars_vertex = []"
  unfolding color_pars_vertex_def
  by (simp_all add: line_defs cong: nesting_cong include_list_cong)

definition color_vertex :: "string list" where
  "color_vertex = [
     ''#if defined( USE_COLOR_ALPHA )'',
     tabs 1 @ ''vColor = vec4( 1.0 );'',
     ''#elif defined( USE_COLOR ) || defined( USE_INSTANCING_COLOR ) || defined( USE_BATCHING_COLOR )'',
     tabs 1 @ ''vColor = vec3( 1.0 );'',
     ''#endif'',
     ''#ifdef USE_COLOR'',
     tabs 1 @ ''vColor *= color;'',
     ''#endif'',
     ''#ifdef USE_INSTANCING_COLOR'',
     tabs 1 @ ''vColor.xyz *= instanceColor.xyz;'',
     ''#endif'',
     ''#ifdef USE_BATCHING_COLOR'',
     tabs 1 @ ''vec3 batchingColor = getBatchingColor( getIndirectIndex( gl_DrawID ) );'',
     tabs 1 @ ''vColor.xyz *= batchingColor.xyz;'',
     ''#endif'']"

lemma color_vertex_text [chunk_facts]:
  "color_vertex \<noteq> []" "nesting [] color_vertex = Some []" "include_list color_vertex = []"
  unfolding color_vertex_def
  by (simp_all add: line_defs cong: nesting_cong include_list_cong)

definition defaultnormal_vertex :: "string list" where
  "defaultnormal_vertex = [
     ''vec3 transformedNormal = objectNormal;'',
     ''#ifdef USE_TANGENT'',
     tabs 1 @ ''vec3 transformedTangent = objectTangent;'',
     ''#endif'',
     ''#ifdef USE_BATCHING'',
     tabs 1 @ ''mat3 bm = mat3( batchingMatrix );'',
     tabs 1 @ ''transformedNormal /= vec3( dot( bm[ 0 ], bm[ 0 ] ), dot( bm[ 1 ], bm[ 1 ] ), dot( bm[ 2 ], bm[ 2 ] ) );'',
     tabs 1 @ ''transformedNormal = bm * transformedNormal;'',
     tabs 1 @ ''#ifdef USE_TANGENT'',
     tabs 2 @ ''transformedTangent = bm * transformedTangent;'',
     tabs 1 @ ''#endif'',
     ''#endif'',
     ''#ifdef USE_INSTANCING'',
     tabs 1 @ ''mat3 im = mat3( instanceMatrix );'',
     tabs 1 @ ''transformedNormal /= vec3( dot( im[ 0 ], im[ 0 ] ), dot( im[ 1 ], im[ 1 ] ), dot( im[ 2 ], im[ 2 ] ) );'',
     tabs 1 @ ''transformedNormal = im * transformedNormal;'',
     tabs 1 @ ''#ifdef USE_TANGENT'',
     tabs 2 @ ''transformedTangent = im * transformedTangent;'',
     tabs 1 @ ''#endif'',
     ''#endif'',
     ''transformedNormal = normalMatrix * transformedNormal;'',
     ''#ifdef FLIP_SIDED'',
     tabs 1 @ ''transformedNormal = - transformedNormal;'',
     ''#endif'',
     ''#ifdef USE_TANGENT'',
     tabs 1 @ ''transformedTangent = ( modelViewMatrix * vec4( transformedTangent, 0.0 ) ).xyz;'',
     tabs 1 @ ''#ifdef FLIP_SIDED'',
     tabs 2 @ ''transformedTangent = - transformedTangent;'',
     tabs 1 @ ''#endif'',
     ''#endif'']"

lemma defaultnormal_vertex_text [chunk_facts]:
  "defaultnormal_vertex \<noteq> []" "nesting [] defaultnormal_vertex = Some []" "include_list defaultnormal_vertex = []"
  unfolding defaultnormal_vertex_def
  by (simp_all add: line_defs cong: nesting_cong include_list_cong)

definition displacementmap_pars_vertex :: "string list" where
  "displacementmap_pars_vertex = [
     ''#ifdef USE_DISPLACEMENTMAP'',
     tabs 1 @ ''uniform sampler2D displacementMap;'',
     tabs 1 @ ''uniform float displacementScale;'',
     tabs 1 @ ''uniform float displacementBias;'',
     ''#endif'']"

lemma displacementmap_pars_vertex_text [chunk_facts]:
  "displacementmap_pars_vertex \<noteq> []" "nesting [] displacementmap_pars_vertex = Some []" "include_list displacementmap_pars_vertex = []"
  unfolding displacementmap_pars_vertex_def
  by (simp_all add: line_defs cong: nesting_cong include_list_cong)

definition displacementmap_vertex :: "string list" where
  "displacementmap_vertex = [
     ''#ifdef USE_DISPLACEMENTMAP'',
     tabs 1 @ ''transformed += normalize( objectNormal ) * ( texture2D( displacementMap, vDisplacementMapUv ).x * displacementScale + displacementBias );'',
     ''#endif'']"

lemma displacementmap_vertex_text [chunk_facts]:
  "displacementmap_vertex \<noteq> []" "nesting [] displacementmap_vertex = Some []" "include_list displacementmap_vertex = []"
  unfolding displacementmap_vertex_def
  by (simp_all add: line_defs cong: nesting_cong include_list_cong)

definition envmap_pars_vertex :: "string list" where
  "envmap_pars_vertex = [
     ''#ifdef USE_ENVMAP'',
     tabs 1 @ ''#if defined( USE_BUMPMAP ) || defined( USE_NORMALMAP ) || defined( PHONG ) || defined( LAMBERT )'',
     tabs 2 @ ''#define ENV_WORLDPOS'',
     tabs 1 @ ''#endif'',
     tabs 1 @ ''#ifdef ENV_WORLDPOS'',
     tabs 2,
     tabs 2 @ ''varying vec3 vWorldPosition;'',
     tabs 1 @ ''#else'',
     tabs 2 @ ''varying vec3 vReflect;'',
     tabs 2 @ ''uniform float refractionRatio;'',
     tabs 1 @ ''#endif'',
     ''#endif'']"

lemma envmap_pars_vertex_text [chunk_facts]:
  "envmap_pars_vertex \<noteq> []" "nesting [] envmap_pars_vertex = Some []" "include_list envmap_pars_vertex = []"
  unfolding envmap_pars_vertex_def
  by (simp_all add: line_defs cong: nesting_cong include_list_cong)

definition envmap_vertex :: "string list" where
  "envmap_vertex = [
     ''#ifdef USE_ENVMAP'',
     tabs 1 @ ''#ifdef ENV_WORLDPOS'',
     tabs 2 @ ''vWorldPosition = worldPosition.xyz;'',
     tabs 1 @ ''#else'',
     tabs 2 @ ''vec3 cameraToVertex;'',
     tabs 2 @ ''if ( isOrthographic ) {'',
     tabs 3 @ ''cameraToVertex = normalize( vec3( - viewMatrix[ 0 ][ 2 ], - viewMatrix[ 1 ][ 2 ], - viewMatrix[ 2 ][ 2 ] ) );'',
     tabs 2 @ ''} else {'',
     tabs 3 @ ''cameraToVertex = normalize( worldPosition.xyz - cameraPosition );'',
     tabs 2 @ ''}'',
     tabs 2 @ ''vec3 worldNormal = inverseTransformDirection( transformedNormal, viewMatrix );'',
     tabs 2 @ ''#ifdef ENVMAP_MODE_REFLECTION'',
     tabs 3 @ ''vReflect = reflect( cameraToVertex, worldNormal );'',
     tabs 2 @ ''#else'',
     tabs 3 @ ''vReflect = refract( cameraToVertex, worldNormal, refractionRatio );'',
     tabs 2 @ ''#endif'',
     tabs 1 @ ''#endif'',
     ''#endif'']"

lemma envmap_vertex_text [chunk_facts]:
  "envmap_vertex \<noteq> []" "nesting [] envmap_vertex = Some []" "include_list envmap_vertex = []"
  unfolding envmap_vertex_def
  by (simp_all add: line_defs cong: nesting_cong include_list_cong)

definition fog_vertex :: "string list" where
  "fog_vertex = [
     ''#ifdef USE_FOG'',
     tabs 1 @ ''vFogDepth = - mvPosition.z;'',
     ''#endif'']"

lemma fog_vertex_text [chunk_facts]:
  "fog_vertex \<noteq> []" "nesting [] fog_vertex = Some []" "include_list fog_vertex = []"
  unfolding fog_vertex_def
  by (simp_all add: line_defs cong: nesting_cong include_list_cong)

definition fog_pars_vertex :: "string list" where
  "fog_pars_vertex = [
     ''#ifdef USE_FOG'',
     tabs 1 @ ''varying float vFogDepth;'',
     ''#endif'']"

lemma fog_pars_vertex_text [chunk_facts]:
  "fog_pars_vertex \<noteq> []" "nesting [] fog_pars_vertex = Some []" "include_list fog_pars_vertex = []"
  unfolding fog_pars_vertex_def
  by (simp_all add: line_defs cong: nesting_cong include_list_cong)

definition logdepthbuf_pars_vertex :: "string list" where
  "logdepthbuf_pars_vertex = [
     ''#ifdef USE_LOGARITHMIC_DEPTH_BUFFER'',
     tabs 1 @ ''varying float vFragDepth;'',
     tabs 1 @ ''varying float vIsPerspective;'',
     ''#endif'']"

lemma logdepthbuf_pars_vertex_text [chunk_facts]:
  "logdepthbuf_pars_vertex \<noteq> []" "nesting [] logdepthbuf_pars_vertex = Some []" "include_list logdepthbuf_pars_vertex = []"
  unfolding logdepthbuf_pars_vertex_def
  by (simp_all add: line_defs cong: nesting_cong include_list_cong)

definition logdepthbuf_vertex :: "string list" where
  "logdepthbuf_vertex = [
     ''#ifdef USE_LOGARITHMIC_DEPTH_BUFFER'',
     tabs 1 @ ''vFragDepth = 1.0 + gl_Position.w;'',
     tabs 1 @ ''vIsPerspective = float( isPerspectiveMatrix( projectionMatrix ) );'',
     ''#endif'']"

lemma logdepthbuf_vertex_text [chunk_facts]:
  "logdepthbuf_vertex \<noteq> []" "nesting [] logdepthbuf_vertex = Some []" "include_list logdepthbuf_vertex = []"
  unfolding logdepthbuf_vertex_def
  by (simp_all add: line_defs cong: nesting_cong include_list_cong)

definition morphinstance_vertex :: "string list" where
  "morphinstance_vertex = [
     ''#ifdef USE_INSTANCING_MORPH'',
     tabs 1 @ ''float morphTargetInfluences[ MORPHTARGETS_COUNT ];'',
     tabs 1 @ ''float morphTargetBaseInfluence = texelFetch( morphTexture, ivec2( 0, gl_InstanceID ), 0 ).r;'',
     tabs 1 @ ''for ( int i = 0; i < MORPHTARGETS_COUNT; i ++ ) {'',
     tabs 2 @ ''morphTargetInfluences[i] =  texelFetch( morphTexture, ivec2( i + 1, gl_InstanceID ), 0 ).r;'',
     tabs 1 @ ''}'',
     ''#endif'']"

lemma morphinstance_vertex_text [chunk_facts]:
  "morphinstance_vertex \<noteq> []" "nesting [] morphinstance_vertex = Some []" "include_list morphinstance_vertex = []"
  unfolding morphinstance_vertex_def
  by (simp_all add: line_defs cong: nesting_cong include_list_cong)

definition morphcolor_vertex :: "string list" where
  "morphcolor_vertex = [
     ''#if defined( USE_MORPHCOLORS )'',
     tabs 1 @ ''vColor *= morphTargetBaseInfluence;'',
     tabs 1 @ ''for ( int i = 0; i < MORPHTARGETS_COUNT; i ++ ) {'',
     tabs 2 @ ''#if defined( USE_COLOR_ALPHA )'',
     tabs 3 @ ''if ( morphTargetInfluences[ i ] != 0.0 ) vColor += getMorph( gl_VertexID, i, 2 ) * morphTargetInfluences[ i ];'',
     tabs 2 @ ''#elif defined( USE_COLOR )'',
     tabs 3 @ ''if ( morphTargetInfluences[ i ] != 0.0 ) vColor += getMorph( gl_VertexID, i, 2 ).rgb * morphTargetInfluences[ i ];'',
     tabs 2 @ ''#endif'',
     tabs 1 @ ''}'',
     ''#endif'']"

lemma morphcolor_vertex_text [chunk_facts]:
  "morphcolor_vertex \<noteq> []" "nesting [] morphcolor_vertex = Some []" "include_list morphcolor_vertex = []"
  unfolding morphcolor_vertex_def
  by (simp_all add: line_defs cong: nesting_cong include_list_cong)

definition morphnormal_vertex :: "string list" where
  "morphnormal_vertex = [
     ''#ifdef USE_MORPHNORMALS'',
     tabs 1 @ ''objectNormal *= morphTargetBaseInfluence;'',
     tabs 1 @ ''for ( int i = 0; i < MORPHTARGETS_COUNT; i ++ ) {'',
     tabs 2 @ ''if ( morphTargetInfluences[ i ] != 0.0 ) objectNormal += getMorph( gl_VertexID, i, 1 ).xyz * morphTargetInfluences[ i ];'',
     tabs 1 @ ''}'',
     ''#endif'']"

lemma morphnormal_vertex_text [chunk_facts]:
  "morphnormal_vertex \<noteq> []" "nesting [] morphnormal_vertex = Some []" "include_list morphnormal_vertex = []"
  unfolding morphnormal_vertex_def
  by (simp_all add: line_defs cong: nesting_cong include_list_cong)

definition morphtarget_pars_vertex :: "string list" where
  "morphtarget_pars_vertex = [
     ''#ifdef USE_MORPHTARGETS'',
     tabs 1 @ ''#ifndef USE_INSTANCING_MORPH'',
     tabs 2 @ ''uniform float morphTargetBaseInfluence;'',
     tabs 2 @ ''uniform float morphTargetInfluences[ MORPHTARGETS_COUNT ];'',
     tabs 1 @ ''#endif'',
     tabs 1 @ ''uniform sampler2DArray morphTargetsTexture;'',
     tabs 1 @ ''uniform ivec2 morphTargetsTextureSize;'',
     tabs 1 @ ''vec4 getMorph( const in int vertexIndex, const in int morphTargetIndex, const in int offset ) {'',
     tabs 2 @ ''int texelIndex = vertexIndex * MORPHTARGETS_TEXTURE_STRIDE + offset;'',
     tabs 2 @ ''int y = texelIndex / morphTargetsTextureSize.x;'',
     tabs 2 @ ''int x = texelIndex - y * morphTargetsTextureSize.x;'',
     tabs 2 @ ''ivec3 morphUV = ivec3( x, y, morphTargetIndex );'',
     tabs 2 @ ''return texelFetch( morphTargetsTexture, morphUV, 0 );'',
     tabs 1 @ ''}'',
     ''#endif'']"

lemma morphtarget_pars_vertex_text [chunk_facts]:
  "morphtarget_pars_vertex \<noteq> []" "nesting [] morphtarget_pars_vertex = Some []" "include_list morphtarget_pars_vertex = []"
  unfolding morphtarget_pars_vertex_def
  by (simp_all add: line_defs cong: nesting_cong include_list_cong)

definition morphtarget_vertex :: "string list" where
  "morphtarget_vertex = [
     ''#ifdef USE_MORPHTARGETS'',
     tabs 1 @ ''transformed *= morphTargetBaseInfluence;'',
     tabs 1 @ ''for ( int i = 0; i < MORPHTARGETS_COUNT; i ++ ) {'',
     tabs 2 @ ''if ( morphTargetInfluences[ i ] != 0.0 ) transformed += getMorph( gl_VertexID, i, 0 ).xyz * morphTargetInfluences[ i ];'',
     tabs 1 @ ''}'',
     ''#endif'']"

lemma morphtarget_vertex_text [chunk_facts]:
  "morphtarget_vertex \<noteq> []" "nesting [] morphtarget_vertex = Some []" "include_list morphtarget_vertex = []"
  unfolding morphtarget_vertex_def
  by (simp_all add: line_defs cong: nesting_cong include_list_cong)

definition normal_pars_vertex :: "string list" where
  "normal_pars_vertex = [
     ''#ifndef FLAT_SHADED'',
     tabs 1 @ ''varying vec3 vNormal;'',
     tabs 1 @ ''#ifdef USE_TANGENT'',
     tabs 2 @ ''varying vec3 vTangent;'',
     tabs 2 @ ''varying vec3 vBitangent;'',
     tabs 1 @ ''#endif'',
     ''#endif'']"

lemma normal_pars_vertex_text [chunk_facts]:
  "normal_pars_vertex \<noteq> []" "nesting [] normal_pars_vertex = Some []" "include_list normal_pars_vertex = []"
  unfolding normal_pars_vertex_def
  by (simp_all add: line_defs cong: nesting_cong include_list_cong)

definition normal_vertex :: "string list" where
  "normal_vertex = [
     ''#ifndef FLAT_SHADED'',
     tabs 1 @ ''vNormal = normalize( transformedNormal );'',
     tabs 1 @ ''#ifdef USE_TANGENT'',
     tabs 2 @ ''vTangent = normalize( transformedTangent );'',
     tabs 2 @ ''vBitangent = normalize( cross( vNormal, vTangent ) * tangent.w );'',
     tabs 1 @ ''#endif'',
     ''#endif'']"

lemma normal_vertex_text [chunk_facts]:
  "normal_vertex \<noteq> []" "nesting [] normal_vertex = Some []" "include_list normal_vertex = []"
  unfolding normal_vertex_def
  by (simp_all add: line_defs cong: nesting_cong include_list_cong)

definition project_vertex :: "string list" where
  "project_vertex = [
     ''vec4 mvPosition = vec4( transformed, 1.0 );'',
     ''#ifdef USE_BATCHING'',
     tabs 1 @ ''mvPosition = batchingMatrix * mvPosition;'',
     ''#endif'',
     ''#ifdef USE_INSTANCING'',
     tabs 1 @ ''mvPosition = instanceMatrix * mvPosition;'',
     ''#endif'',
     ''mvPosition = modelViewMatrix * mvPosition;'',
     ''gl_Position = projectionMatrix * mvPosition;'']"

lemma project_vertex_text [chunk_facts]:
  "project_vertex \<noteq> []" "nesting [] project_vertex = Some []" "include_list project_vertex = []"
  unfolding project_vertex_def
  by (simp_all add: line_defs cong: nesting_cong include_list_cong)

definition shadowmap_pars_vertex :: "string list" where
  "shadowmap_pars_vertex = [
     ''#if NUM_SPOT_LIGHT_COORDS > 0'',
     tabs 1 @ ''uniform mat4 spotLightMatrix[ NUM_SPOT_LIGHT_COORDS ];'',
     tabs 1 @ ''varying vec4 vSpotLightCoord[ NUM_SPOT_LIGHT_COORDS ];'',
     ''#endif'',
     ''#ifdef USE_SHADOWMAP'',
     tabs 1 @ ''#if NUM_DIR_LIGHT_SHADOWS > 0'',
     tabs 2 @ ''uniform mat4 directionalShadowMatrix[ NUM_DIR_LIGHT_SHADOWS ];'',
     tabs 2 @ ''varying vec4 vDirectionalShadowCoord[ NUM_DIR_LIGHT_SHADOWS ];'',
     tabs 2 @ ''struct DirectionalLightShadow {'',
     tabs 3 @ ''float shadowIntensity;'',
     tabs 3 @ ''float shadowBias;'',
     tabs 3 @ ''float shadowNormalBias;'',
     tabs 3 @ ''float shadowRadius;'',
     tabs 3 @ ''vec2 shadowMapSize;'',
     tabs 2 @ ''};'',
     tabs 2 @ ''uniform DirectionalLightShadow directionalLightShadows[ NUM_DIR_LIGHT_SHADOWS ];'',
     tabs 1 @ ''#endif'',
     tabs 1 @ ''#if NUM_SPOT_LIGHT_SHADOWS > 0'',
     tabs 2 @ ''struct SpotLightShadow {'',
     tabs 3 @ ''float shadowIntensity;'',
     tabs 3 @ ''float shadowBias;'',
     tabs 3 @ ''float shadowNormalBias;'',
     tabs 3 @ ''float shadowRadius;'',
     tabs 3 @ ''vec2 shadowMapSize;'',
     tabs 2 @ ''};'',
     tabs 2 @ ''uniform SpotLightShadow spotLightShadows[ NUM_SPOT_LIGHT_SHADOWS ];'',
     tabs 1 @ ''#endif'',
     tabs 1 @ ''#if NUM_POINT_LIGHT_SHADOWS > 0'',
     tabs 2 @ ''uniform mat4 pointShadowMatrix[ NUM_POINT_LIGHT_SHADOWS ];'',
     tabs 2 @ ''varying vec4 vPointShadowCoord[ NUM_POINT_LIGHT_SHADOWS ];'',
     tabs 2 @ ''struct PointLightShadow {'',
     tabs 3 @ ''float shadowIntensity;'',
     tabs 3 @ ''float shadowBias;'',
     tabs 3 @ ''float shadowNormalBias;'',
     tabs 3 @ ''float shadowRadius;'',
     tabs 3 @ ''vec2 shadowMapSize;'',
     tabs 3 @ ''float shadowCameraNear;'',
     tabs 3 @ ''float shadowCameraFar;'',
     tabs 2 @ ''};'',
     tabs 2 @ ''uniform PointLightShadow pointLightShadows[ NUM_POINT_LIGHT_SHADOWS ];'',
     tabs 1 @ ''#endif'',
     ''#endif'']"

lemma shadowmap_pars_vertex_text [chunk_facts]:
  "shadowmap_pars_vertex \<noteq> []" "nesting [] shadowmap_pars_vertex = Some []" "include_list shadowmap_pars_vertex = []"
  unfolding shadowmap_pars_vertex_def
  by (simp_all add: line_defs cong: nesting_cong include_list_cong)

definition shadowmap_vertex :: "string list" where
  "shadowmap_vertex = [
     ''#if ( defined( USE_SHADOWMAP ) && ( NUM_DIR_LIGHT_SHADOWS > 0 || NUM_POINT_LIGHT_SHADOWS > 0 ) ) || ( NUM_SPOT_LIGHT_COORDS > 0 )'',
     tabs 1 @ ''vec3 shadowWorldNormal = inverseTransformDirection( transformedNormal, viewMatrix );'',
     tabs 1 @ ''vec4 shadowWorldPosition;'',
     ''#endif'',
     ''#if defined( USE_SHADOWMAP )'',
     tabs 1 @ ''#if NUM_DIR_LIGHT_SHADOWS > 0'',
     tabs 2 @ ''#pragma unroll_loop_start'',
     tabs 2 @ ''for ( int i = 0; i < NUM_DIR_LIGHT_SHADOWS; i ++ ) {'',
     tabs 3 @ ''shadowWorldPosition = worldPosition + vec4( shadowWorldNormal * directionalLightShadows[ i ].shadowNormalBias, 0 );'',
     tabs 3 @ ''vDirectionalShadowCoord[ i ] = directionalShadowMatrix[ i ] * shadowWorldPosition;'',
     tabs 2 @ ''}'',
     tabs 2 @ ''#pragma unroll_loop_end'',
     tabs 1 @ ''#endif'',
     tabs 1 @ ''#if NUM_POINT_LIGHT_SHADOWS > 0'',
     tabs 2 @ ''#pragma unroll_loop_start'',
     tabs 2 @ ''for ( int i = 0; i < NUM_POINT_LIGHT_SHADOWS; i ++ ) {'',
     tabs 3 @ ''shadowWorldPosition = worldPosition + vec4( shadowWorldNormal * pointLightShadows[ i ].shadowNormalBias, 0 );'',
     tabs 3 @ ''vPointShadowCoord[ i ] = pointShadowMatrix[ i ] * shadowWorldPosition;'',
     tabs 2 @ ''}'',
     tabs 2 @ ''#pragma unroll_loop_end'',
     tabs 1 @ ''#endif'',
     ''#endif'',
     ''#if NUM_SPOT_LIGHT_COORDS > 0'',
     tabs 1 @ ''#pragma unroll_loop_start'',
     tabs 1 @ ''for ( int i = 0; i < NUM_SPOT_LIGHT_COORDS; i ++ ) {'',
     tabs 2 @ ''shadowWorldPosition = worldPosition;'',
     tabs 2 @ ''#if ( defined( USE_SHADOWMAP ) && UNROLLED_LOOP_INDEX < NUM_SPOT_LIGHT_SHADOWS )'',
     tabs 3 @ ''shadowWorldPosition.xyz += shadowWorldNormal * spotLightShadows[ i ].shadowNormalBias;'',
     tabs 2 @ ''#endif'',
     tabs 2 @ ''vSpotLightCoord[ i ] = spotLightMatrix[ i ] * shadowWorldPosition;'',
     tabs 1 @ ''}'',
     tabs 1 @ ''#pragma unroll_loop_end'',
     ''#endif'']"

lemma shadowmap_vertex_text [chunk_facts]:
  "shadowmap_vertex \<noteq> []" "nesting [] shadowmap_vertex = Some []" "include_list shadowmap_vertex = []"
  unfolding shadowmap_vertex_def
  by (simp_all add: line_defs cong: nesting_cong include_list_cong)

definition skinbase_vertex :: "string list" where
  "skinbase_vertex = [
     ''#ifdef USE_SKINNING'',
     tabs 1 @ ''mat4 boneMatX = getBoneMatrix( skinIndex.x );'',
     tabs 1 @ ''mat4 boneMatY = getBoneMatrix( skinIndex.y );'',
     tabs 1 @ ''mat4 boneMatZ = getBoneMatrix( skinIndex.z );'',
     tabs 1 @ ''mat4 boneMatW = getBoneMatrix( skinIndex.w );'',
     ''#endif'']"

lemma skinbase_vertex_text [chunk_facts]:
  "skinbase_vertex \<noteq> []" "nesting [] skinbase_vertex = Some []" "include_list skinbase_vertex = []"
  unfolding skinbase_vertex_def
  by (simp_all add: line_defs cong: nesting_cong include_list_cong)

definition skinning_pars_vertex :: "string list" where
  "skinning_pars_vertex = [
     ''#ifdef USE_SKINNING'',
     tabs 1 @ ''uniform mat4 bindMatrix;'',
     tabs 1 @ ''uniform mat4 bindMatrixInverse;'',
     tabs 1 @ ''uniform highp sampler2D boneTexture;'',
     tabs 1 @ ''mat4 getBoneMatrix( const in float i ) {'',
     tabs 2 @ ''int size = textureSize( boneTexture, 0 ).x;'',
     tabs 2 @ ''int j = int( i ) * 4;'',
     tabs 2 @ ''int x = j % size;'',
     tabs 2 @ ''int y = j / size;'',
     tabs 2 @ ''vec4 v1 = texelFetch( boneTexture, ivec2( x, y ), 0 );'',
     tabs 2 @ ''vec4 v2 = texelFetch( boneTexture, ivec2( x + 1, y ), 0 );'',
     tabs 2 @ ''vec4 v3 = texelFetch( boneTexture, ivec2( x + 2, y ), 0 );'',
     tabs 2 @ ''vec4 v4 = texelFetch( boneTexture, ivec2( x + 3, y ), 0 );'',
     tabs 2 @ ''return mat4( v1, v2, v3, v4 );'',
     tabs 1 @ ''}'',
     ''#endif'']"

lemma skinning_pars_vertex_text [chunk_facts]:
  "skinning_pars_vertex \<noteq> []" "nesting [] skinning_pars_vertex = Some []" "include_list skinning_pars_vertex = []"
  unfolding skinning_pars_vertex_def
  by (simp_all add: line_defs cong: nesting_cong include_list_cong)

definition skinning_vertex :: "string list" where
  "skinning_vertex = [
     ''#ifdef USE_SKINNING'',
     tabs 1 @ ''vec4 skinVertex = bindMatrix * vec4( transformed, 1.0 );'',
     tabs 1 @ ''vec4 skinned = vec4( 0.0 );'',
     tabs 1 @ ''skinned += boneMatX * skinVertex * skinWeight.x;'',
     tabs 1 @ ''skinned += boneMatY * skinVertex * skinWeight.y;'',
     tabs 1 @ ''skinned += boneMatZ * skinVertex * skinWeight.z;'',
     tabs 1 @ ''skinned += boneMatW * skinVertex * skinWeight.w;'',
     tabs 1 @ ''transformed = ( bindMatrixInverse * skinned ).xyz;'',
     ''#endif'']"

lemma skinning_vertex_text [chunk_facts]:
  "skinning_vertex \<noteq> []" "nesting [] skinning_vertex = Some []" "include_list skinning_vertex = []"
  unfolding skinning_vertex_def
  by (simp_all add: line_defs cong: nesting_cong include_list_cong)

definition skinnormal_vertex :: "string list" where
  "skinnormal_vertex = [
     ''#ifdef USE_SKINNING'',
     tabs 1 @ ''mat4 skinMatrix = mat4( 0.0 );'',
     tabs 1 @ ''skinMatrix += skinWeight.x * boneMatX;'',
     tabs 1 @ ''skinMatrix += skinWeight.y * boneMatY;'',
     tabs 1 @ ''skinMatrix += skinWeight.z * boneMatZ;'',
     tabs 1 @ ''skinMatrix += skinWeight.w * boneMatW;'',
     tabs 1 @ ''skinMatrix = bindMatrixInverse * skinMatrix * bindMatrix;'',
     tabs 1 @ ''objectNormal = vec4( skinMatrix * vec4( objectNormal, 0.0 ) ).xyz;'',
     tabs 1 @ ''#ifdef USE_TANGENT'',
     tabs 2 @ ''objectTangent = vec4( skinMatrix * vec4( objectTangent, 0.0 ) ).xyz;'',
     tabs 1 @ ''#endif'',
     ''#endif'']"

lemma skinnormal_vertex_text [chunk_facts]:
  "skinnormal_vertex \<noteq> []" "nesting [] skinnormal_vertex = Some []" "include_list skinnormal_vertex = []"
  unfolding skinnormal_vertex_def
  by (simp_all add: line_defs cong: nesting_cong include_list_cong)

definition uv_pars_vertex :: "string list" where
  "uv_pars_vertex = [
     ''#if defined( USE_UV ) || defined( USE_ANISOTROPY )'',
     tabs 1 @ ''varying vec2 vUv;'',
     ''#endif'',
     ''#ifdef USE_MAP'',
     tabs 1 @ ''uniform mat3 mapTransform;'',
     tabs 1 @ ''varying vec2 vMapUv;'',
     ''#endif'',
     ''#ifdef USE_ALPHAMAP'',
     tabs 1 @ ''uniform mat3 alphaMapTransform;'',
     tabs 1 @ ''varying vec2 vAlphaMapUv;'',
     ''#endif'',
     ''#ifdef USE_LIGHTMAP'',
     tabs 1 @ ''uniform mat3 lightMapTransform;'',
     tabs 1 @ ''varying vec2 vLightMapUv;'',
     ''#endif'',
     ''#ifdef USE_AOMAP'',
     tabs 1 @ ''uniform mat3 aoMapTransform;'',
     tabs 1 @ ''varying vec2 vAoMapUv;'',
     ''#endif'',
     ''#ifdef USE_BUMPMAP'',
     tabs 1 @ ''uniform mat3 bumpMapTransform;'',
     tabs 1 @ ''varying vec2 vBumpMapUv;'',
     ''#endif'',
     ''#ifdef USE_NORMALMAP'',
     tabs 1 @ ''uniform mat3 normalMapTransform;'',
     tabs 1 @ ''varying vec2 vNormalMapUv;'',
     ''#endif'',
     ''#ifdef USE_DISPLACEMENTMAP'',
     tabs 1 @ ''uniform mat3 displacementMapTransform;'',
     tabs 1 @ ''varying vec2 vDisplacementMapUv;'',
     ''#endif'',
     ''#ifdef USE_EMISSIVEMAP'',
     tabs 1 @ ''uniform mat3 emissiveMapTransform;'',
     tabs 1 @ ''varying vec2 vEmissiveMapUv;'',
     ''#endif'',
     ''#ifdef USE_METALNESSMAP'',
     tabs 1 @ ''uniform mat3 metalnessMapTransform;'',
     tabs 1 @ ''varying vec2 vMetalnessMapUv;'',
     ''#endif'',
     ''#ifdef USE_ROUGHNESSMAP'',
     tabs 1 @ ''uniform mat3 roughnessMapTransform;'',
     tabs 1 @ ''varying vec2 vRoughnessMapUv;'',
     ''#endif'',
     ''#ifdef USE_ANISOTROPYMAP'',
     tabs 1 @ ''uniform mat3 anisotropyMapTransform;'',
     tabs 1 @ ''varying vec2 vAnisotropyMapUv;'',
     ''#endif'',
     ''#ifdef USE_CLEARCOATMAP'',
     tabs 1 @ ''uniform mat3 clearcoatMapTransform;'',
     tabs 1 @ ''varying vec2 vClearcoatMapUv;'',
     ''#endif'',
     ''#ifdef USE_CLEARCOAT_NORMALMAP'',
     tabs 1 @ ''uniform mat3 clearcoatNormalMapTransform;'',
     tabs 1 @ ''varying vec2 vClearcoatNormalMapUv;'',
     ''#endif'',
     ''#ifdef USE_CLEARCOAT_ROUGHNESSMAP'',
     tabs 1 @ ''uniform mat3 clearcoatRoughnessMapTransform;'',
     tabs 1 @ ''varying vec2 vClearcoatRoughnessMapUv;'',
     ''#endif'',
     ''#ifdef USE_SHEEN_COLORMAP'',
     tabs 1 @ ''uniform mat3 sheenColorMapTransform;'',
     tabs 1 @ ''varying vec2 vSheenColorMapUv;'',
     ''#endif'',
     ''#ifdef USE_SHEEN_ROUGHNESSMAP'',
     tabs 1 @ ''uniform mat3 sheenRoughnessMapTransform;'',
     tabs 1 @ ''varying vec2 vSheenRoughnessMapUv;'',
     ''#endif'',
     ''#ifdef USE_IRIDESCENCEMAP'',
     tabs 1 @ ''uniform mat3 iridescenceMapTransform;'',
     tabs 1 @ ''varying vec2 vIridescenceMapUv;'',
     ''#endif'',
     ''#ifdef USE_IRIDESCENCE_THICKNESSMAP'',
     tabs 1 @ ''uniform mat3 iridescenceThicknessMapTransform;'',
     tabs 1 @ ''varying vec2 vIridescenceThicknessMapUv;'',
     ''#endif'',
     ''#ifdef USE_SPECULARMAP'',
     tabs 1 @ ''uniform mat3 specularMapTransform;'',
     tabs 1 @ ''varying vec2 vSpecularMapUv;'',
     ''#endif'',
     ''#ifdef USE_SPECULAR_COLORMAP'',
     tabs 1 @ ''uniform mat3 specularColorMapTransform;'',
     tabs 1 @ ''varying vec2 vSpecularColorMapUv;'',
     ''#endif'',
     ''#ifdef USE_SPECULAR_INTENSITYMAP'',
     tabs 1 @ ''uniform mat3 specularIntensityMapTransform;'',
     tabs 1 @ ''varying vec2 vSpecularIntensityMapUv;'',
     ''#endif'',
     ''#ifdef USE_TRANSMISSIONMAP'',
     tabs 1 @ ''uniform mat3 transmissionMapTransform;'',
     tabs 1 @ ''varying vec2 vTransmissionMapUv;'',
     ''#endif'',
     ''#ifdef USE_THICKNESSMAP'',
     tabs 1 @ ''uniform mat3 thicknessMapTransform;'',
     tabs 1 @ ''varying vec2 vThicknessMapUv;'',
     ''#endif'']"

lemma uv_pars_vertex_text [chunk_facts]:
  "uv_pars_vertex \<noteq> []" "nesting [] uv_pars_vertex = Some []" "include_list uv_pars_vertex = []"
  unfolding uv_pars_vertex_def
  by (simp_all add: line_defs cong: nesting_cong include_list_cong)

definition uv_vertex :: "string list" where
  "uv_vertex = [
     ''#if defined( USE_UV ) || defined( USE_ANISOTROPY )'',
     tabs 1 @ ''vUv = vec3( uv, 1 ).xy;'',
     ''#endif'',
     ''#ifdef USE_MAP'',
     tabs 1 @ ''vMapUv = ( mapTransform * vec3( MAP_UV, 1 ) ).xy;'',
     ''#endif'',
     ''#ifdef USE_ALPHAMAP'',
     tabs 1 @ ''vAlphaMapUv = ( alphaMapTransform * vec3( ALPHAMAP_UV, 1 ) ).xy;'',
     ''#endif'',
     ''#ifdef USE_LIGHTMAP'',
     tabs 1 @ ''vLightMapUv = ( lightMapTransform * vec3( LIGHTMAP_UV, 1 ) ).xy;'',
     ''#endif'',
     ''#ifdef USE_AOMAP'',
     tabs 1 @ ''vAoMapUv = ( aoMapTransform * vec3( AOMAP_UV, 1 ) ).xy;'',
     ''#endif'',
     ''#ifdef USE_BUMPMAP'',
     tabs 1 @ ''vBumpMapUv = ( bumpMapTransform * vec3( BUMPMAP_UV, 1 ) ).xy;'',
     ''#endif'',
     ''#ifdef USE_NORMALMAP'',
     tabs 1 @ ''vNormalMapUv = ( normalMapTransform * vec3( NORMALMAP_UV, 1 ) ).xy;'',
     ''#endif'',
     ''#ifdef USE_DISPLACEMENTMAP'',
     tabs 1 @ ''vDisplacementMapUv = ( displacementMapTransform * vec3( DISPLACEMENTMAP_UV, 1 ) ).xy;'',
     ''#endif'',
     ''#ifdef USE_EMISSIVEMAP'',
     tabs 1 @ ''vEmissiveMapUv = ( emissiveMapTransform * vec3( EMISSIVEMAP_UV, 1 ) ).xy;'',
     ''#endif'',
     ''#ifdef USE_METALNESSMAP'',
     tabs 1 @ ''vMetalnessMapUv = ( metalnessMapTransform * vec3( METALNESSMAP_UV, 1 ) ).xy;'',
     ''#endif'',
     ''#ifdef USE_ROUGHNESSMAP'',
     tabs 1 @ ''vRoughnessMapUv = ( roughnessMapTransform * vec3( ROUGHNESSMAP_UV, 1 ) ).xy;'',
     ''#endif'',
     ''#ifdef USE_ANISOTROPYMAP'',
     tabs 1 @ ''vAnisotropyMapUv = ( anisotropyMapTransform * vec3( ANISOTROPYMAP_UV, 1 ) ).xy;'',
     ''#endif'',
     ''#ifdef USE_CLEARCOATMAP'',
     tabs 1 @ ''vClearcoatMapUv = ( clearcoatMapTransform * vec3( CLEARCOATMAP_UV, 1 ) ).xy;'',
     ''#endif'',
     ''#ifdef USE_CLEARCOAT_NORMALMAP'',
     tabs 1 @ ''vClearcoatNormalMapUv = ( clearcoatNormalMapTransform * vec3( CLEARCOAT_NORMALMAP_UV, 1 ) ).xy;'',
     ''#endif'',
     ''#ifdef USE_CLEARCOAT_ROUGHNESSMAP'',
     tabs 1 @ ''vClearcoatRoughnessMapUv = ( clearcoatRoughnessMapTransform * vec3( CLEARCOAT_ROUGHNESSMAP_UV, 1 ) ).xy;'',
     ''#endif'',
     ''#ifdef USE_IRIDESCENCEMAP'',
     tabs 1 @ ''vIridescenceMapUv = ( iridescenceMapTransform * vec3( IRIDESCENCEMAP_UV, 1 ) ).xy;'',
     ''#endif'',
     ''#ifdef USE_IRIDESCENCE_THICKNESSMAP'',
     tabs 1 @ ''vIridescenceThicknessMapUv = ( iridescenceThicknessMapTransform * vec3( IRIDESCENCE_THICKNESSMAP_UV, 1 ) ).xy;'',
     ''#endif'',
     ''#ifdef USE_SHEEN_COLORMAP'',
     tabs 1 @ ''vSheenColorMapUv = ( sheenColorMapTransform * vec3( SHEEN_COLORMAP_UV, 1 ) ).xy;'',
     ''#endif'',
     ''#ifdef USE_SHEEN_ROUGHNESSMAP'',
     tabs 1 @ ''vSheenRoughnessMapUv = ( sheenRoughnessMapTransform * vec3( SHEEN_ROUGHNESSMAP_UV, 1 ) ).xy;'',
     ''#endif'',
     ''#ifdef USE_SPECULARMAP'',
     tabs 1 @ ''vSpecularMapUv = ( specularMapTransform * vec3( SPECULARMAP_UV, 1 ) ).xy;'',
     ''#endif'',
     ''#ifdef USE_SPECULAR_COLORMAP'',
     tabs 1 @ ''vSpecularColorMapUv = ( specularColorMapTransform * vec3( SPECULAR_COLORMAP_UV, 1 ) ).xy;'',
     ''#endif'',
     ''#ifdef USE_SPECULAR_INTENSITYMAP'',
     tabs 1 @ ''vSpecularIntensityMapUv = ( specularIntensityMapTransform * vec3( SPECULAR_INTENSITYMAP_UV, 1 ) ).xy;'',
     ''#endif'',
     ''#ifdef USE_TRANSMISSIONMAP'',
     tabs 1 @ ''vTransmissionMapUv = ( transmissionMapTransform * vec3( TRANSMISSIONMAP_UV, 1 ) ).xy;'',
     ''#endif'',
     ''#ifdef USE_THICKNESSMAP'',
     tabs 1 @ ''vThicknessMapUv = ( thicknessMapTransform * vec3( THICKNESSMAP_UV, 1 ) ).xy;'',
     ''#endif'']"

lemma uv_vertex_text [chunk_facts]:
  "uv_vertex \<noteq> []" "nesting [] uv_vertex = Some []" "include_list uv_vertex = []"
  unfolding uv_vertex_def
  by (simp_all add: line_defs cong: nesting_cong include_list_cong)

definition worldpos_vertex :: "string list" where
  "worldpos_vertex = [
     ''#if defined( USE_ENVMAP ) || defined( DISTANCE ) || defined ( USE_SHADOWMAP ) || defined ( USE_TRANSMISSION ) || NUM_SPOT_LIGHT_COORDS > 0'',
     tabs 1 @ ''vec4 worldPosition = vec4( transformed, 1.0 );'',
     tabs 1 @ ''#ifdef USE_BATCHING'',
     tabs 2 @ ''worldPosition = batchingMatrix * worldPosition;'',
     tabs 1 @ ''#endif'',
     tabs 1 @ ''#ifdef USE_INSTANCING'',
     tabs 2 @ ''worldPosition = instanceMatrix * worldPosition;'',
     tabs 1 @ ''#endif'',
     tabs 1 @ ''worldPosition = modelMatrix * worldPosition;'',
     ''#endif'']"

lemma worldpos_vertex_text [chunk_facts]:
  "worldpos_vertex \<noteq> []" "nesting [] worldpos_vertex = Some []" "include_list worldpos_vertex = []"
  unfolding worldpos_vertex_def
  by (simp_all add: line_defs cong: nesting_cong include_list_cong)

end
