(* ===== verification/ShaderSurfaceChunks.thy ===== *)
theory ShaderSurfaceChunks
  imports ShaderText
begin

text \<open>
  The fragment chunks that read the surface of a material: its maps, alpha, colours, normals, clearcoat and iridescence.
  Each chunk is the template string of the same name in the table of \<open>web/viewer/dist/assets/index-BpuCcfds.js\<close>,
  line by line, and is followed by what the include expansion needs to know of it.
\<close>

definition alphahash_fragment :: "string list" where
  "alphahash_fragment = [
     ''#ifdef USE_ALPHAHASH'',
     tabs 1 @ ''if ( diffuseColor.a < getAlphaHashThreshold( vPosition ) ) discard;'',
     ''#endif'']"

lemma alphahash_fragment_text [chunk_facts]:
  "alphahash_fragment \<noteq> []" "nesting [] alphahash_fragment = Some []" "include_list alphahash_fragment = []"
  unfolding alphahash_fragment_def
  by (simp_all add: line_defs cong: nesting_cong include_list_cong)

definition alphahash_pars_fragment :: "string list" where
  "alphahash_pars_fragment = [
     ''#ifdef USE_ALPHAHASH'',
     tabs 1 @ ''const float ALPHA_HASH_SCALE = 0.05;'',
     tabs 1 @ ''float hash2D( vec2 value ) {'',
     tabs 2 @ ''return fract( 1.0e4 * sin( 17.0 * value.x + 0.1 * value.y ) * ( 0.1 + abs( sin( 13.0 * value.y + value.x ) ) ) );'',
     tabs 1 @ ''}'',
     tabs 1 @ ''float hash3D( vec3 value ) {'',
     tabs 2 @ ''return hash2D( vec2( hash2D( value.xy ), value.z ) );'',
     tabs 1 @ ''}'',
     tabs 1 @ ''float getAlphaHashThreshold( vec3 position ) {'',
     tabs 2 @ ''float maxDeriv = max('',
     tabs 3 @ ''length( dFdx( position.xyz ) ),'',
     tabs 3 @ ''length( dFdy( position.xyz ) )'',
     tabs 2 @ '');'',
     tabs 2 @ ''float pixScale = 1.0 / ( ALPHA_HASH_SCALE * maxDeriv );'',
     tabs 2 @ ''vec2 pixScales = vec2('',
     tabs 3 @ ''exp2( floor( log2( pixScale ) ) ),'',
     tabs 3 @ ''exp2( ceil( log2( pixScale ) ) )'',
     tabs 2 @ '');'',
     tabs 2 @ ''vec2 alpha = vec2('',
     tabs 3 @ ''hash3D( floor( pixScales.x * position.xyz ) ),'',
     tabs 3 @ ''hash3D( floor( pixScales.y * position.xyz ) )'',
     tabs 2 @ '');'',
     tabs 2 @ ''float lerpFactor = fract( log2( pixScale ) );'',
     tabs 2 @ ''float x = ( 1.0 - lerpFactor ) * alpha.x + lerpFactor * alpha.y;'',
     tabs 2 @ ''float a = min( lerpFactor, 1.0 - lerpFactor );'',
     tabs 2 @ ''vec3 cases = vec3('',
     tabs 3 @ ''x * x / ( 2.0 * a * ( 1.0 - a ) ),'',
     tabs 3 @ ''( x - 0.5 * a ) / ( 1.0 - a ),'',
     tabs 3 @ ''1.0 - ( ( 1.0 - x ) * ( 1.0 - x ) / ( 2.0 * a * ( 1.0 - a ) ) )'',
     tabs 2 @ '');'',
     tabs 2 @ ''float threshold = ( x < ( 1.0 - a ) )'',
     tabs 3 @ ''? ( ( x < a ) ? cases.x : cases.y )'',
     tabs 3 @ '': cases.z;'',
     tabs 2 @ ''return clamp( threshold , 1.0e-6, 1.0 );'',
     tabs 1 @ ''}'',
     ''#endif'']"

lemma alphahash_pars_fragment_text [chunk_facts]:
  "alphahash_pars_fragment \<noteq> []" "nesting [] alphahash_pars_fragment = Some []" "include_list alphahash_pars_fragment = []"
  unfolding alphahash_pars_fragment_def
  by (simp_all add: line_defs cong: nesting_cong include_list_cong)

definition alphamap_fragment :: "string list" where
  "alphamap_fragment = [
     ''#ifdef USE_ALPHAMAP'',
     tabs 1 @ ''diffuseColor.a *= texture2D( alphaMap, vAlphaMapUv ).g;'',
     ''#endif'']"

lemma alphamap_fragment_text [chunk_facts]:
  "alphamap_fragment \<noteq> []" "nesting [] alphamap_fragment = Some []" "include_list alphamap_fragment = []"
  unfolding alphamap_fragment_def
  by (simp_all add: line_defs cong: nesting_cong include_list_cong)

definition alphamap_pars_fragment :: "string list" where
  "alphamap_pars_fragment = [
     ''#ifdef USE_ALPHAMAP'',
     tabs 1 @ ''uniform sampler2D alphaMap;'',
     ''#endif'']"

lemma alphamap_pars_fragment_text [chunk_facts]:
  "alphamap_pars_fragment \<noteq> []" "nesting [] alphamap_pars_fragment = Some []" "include_list alphamap_pars_fragment = []"
  unfolding alphamap_pars_fragment_def
  by (simp_all add: line_defs cong: nesting_cong include_list_cong)

definition alphatest_fragment :: "string list" where
  "alphatest_fragment = [
     ''#ifdef USE_ALPHATEST'',
     tabs 1 @ ''#ifdef ALPHA_TO_COVERAGE'',
     tabs 1 @ ''diffuseColor.a = smoothstep( alphaTest, alphaTest + fwidth( diffuseColor.a ), diffuseColor.a );'',
     tabs 1 @ ''if ( diffuseColor.a == 0.0 ) discard;'',
     tabs 1 @ ''#else'',
     tabs 1 @ ''if ( diffuseColor.a < alphaTest ) discard;'',
     tabs 1 @ ''#endif'',
     ''#endif'']"

lemma alphatest_fragment_text [chunk_facts]:
  "alphatest_fragment \<noteq> []" "nesting [] alphatest_fragment = Some []" "include_list alphatest_fragment = []"
  unfolding alphatest_fragment_def
  by (simp_all add: line_defs cong: nesting_cong include_list_cong)

definition alphatest_pars_fragment :: "string list" where
  "alphatest_pars_fragment = [
     ''#ifdef USE_ALPHATEST'',
     tabs 1 @ ''uniform float alphaTest;'',
     ''#endif'']"

lemma alphatest_pars_fragment_text [chunk_facts]:
  "alphatest_pars_fragment \<noteq> []" "nesting [] alphatest_pars_fragment = Some []" "include_list alphatest_pars_fragment = []"
  unfolding alphatest_pars_fragment_def
  by (simp_all add: line_defs cong: nesting_cong include_list_cong)

definition iridescence_fragment :: "string list" where
  "iridescence_fragment = [
     ''#ifdef USE_IRIDESCENCE'',
     tabs 1 @ ''const mat3 XYZ_TO_REC709 = mat3('',
     tabs 2 @ '' 3.2404542, -0.9692660,  0.0556434,'',
     tabs 2 @ ''-1.5371385,  1.8760108, -0.2040259,'',
     tabs 2 @ ''-0.4985314,  0.0415560,  1.0572252'',
     tabs 1 @ '');'',
     tabs 1 @ ''vec3 Fresnel0ToIor( vec3 fresnel0 ) {'',
     tabs 2 @ ''vec3 sqrtF0 = sqrt( fresnel0 );'',
     tabs 2 @ ''return ( vec3( 1.0 ) + sqrtF0 ) / ( vec3( 1.0 ) - sqrtF0 );'',
     tabs 1 @ ''}'',
     tabs 1 @ ''vec3 IorToFresnel0( vec3 transmittedIor, float incidentIor ) {'',
     tabs 2 @ ''return pow2( ( transmittedIor - vec3( incidentIor ) ) / ( transmittedIor + vec3( incidentIor ) ) );'',
     tabs 1 @ ''}'',
     tabs 1 @ ''float IorToFresnel0( float transmittedIor, float incidentIor ) {'',
     tabs 2 @ ''return pow2( ( transmittedIor - incidentIor ) / ( transmittedIor + incidentIor ));'',
     tabs 1 @ ''}'',
     tabs 1 @ ''vec3 evalSensitivity( float OPD, vec3 shift ) {'',
     tabs 2 @ ''float phase = 2.0 * PI * OPD * 1.0e-9;'',
     tabs 2 @ ''vec3 val = vec3( 5.4856e-13, 4.4201e-13, 5.2481e-13 );'',
     tabs 2 @ ''vec3 pos = vec3( 1.6810e+06, 1.7953e+06, 2.2084e+06 );'',
     tabs 2 @ ''vec3 var = vec3( 4.3278e+09, 9.3046e+09, 6.6121e+09 );'',
     tabs 2 @ ''vec3 xyz = val * sqrt( 2.0 * PI * var ) * cos( pos * phase + shift ) * exp( - pow2( phase ) * var );'',
     tabs 2 @ ''xyz.x += 9.7470e-14 * sqrt( 2.0 * PI * 4.5282e+09 ) * cos( 2.2399e+06 * phase + shift[ 0 ] ) * exp( - 4.5282e+09 * pow2( phase ) );'',
     tabs 2 @ ''xyz /= 1.0685e-7;'',
     tabs 2 @ ''vec3 rgb = XYZ_TO_REC709 * xyz;'',
     tabs 2 @ ''return rgb;'',
     tabs 1 @ ''}'',
     tabs 1 @ ''vec3 evalIridescence( float outsideIOR, float eta2, float cosTheta1, float thinFilmThickness, vec3 baseF0 ) {'',
     tabs 2 @ ''vec3 I;'',
     tabs 2 @ ''float iridescenceIOR = mix( outsideIOR, eta2, smoothstep( 0.0, 0.03, thinFilmThickness ) );'',
     tabs 2 @ ''float sinTheta2Sq = pow2( outsideIOR / iridescenceIOR ) * ( 1.0 - pow2( cosTheta1 ) );'',
     tabs 2 @ ''float cosTheta2Sq = 1.0 - sinTheta2Sq;'',
     tabs 2 @ ''if ( cosTheta2Sq < 0.0 ) {'',
     tabs 3 @ ''return vec3( 1.0 );'',
     tabs 2 @ ''}'',
     tabs 2 @ ''float cosTheta2 = sqrt( cosTheta2Sq );'',
     tabs 2 @ ''float R0 = IorToFresnel0( iridescenceIOR, outsideIOR );'',
     tabs 2 @ ''float R12 = F_Schlick( R0, 1.0, cosTheta1 );'',
     tabs 2 @ ''float T121 = 1.0 - R12;'',
     tabs 2 @ ''float phi12 = 0.0;'',
     tabs 2 @ ''if ( iridescenceIOR < outsideIOR ) phi12 = PI;'',
     tabs 2 @ ''float phi21 = PI - phi12;'',
     tabs 2 @ ''vec3 baseIOR = Fresnel0ToIor( clamp( baseF0, 0.0, 0.9999 ) );'' @ tabs 2 @ ''vec3 R1 = IorToFresnel0( baseIOR, iridescenceIOR );'',
     tabs 2 @ ''vec3 R23 = F_Schlick( R1, 1.0, cosTheta2 );'',
     tabs 2 @ ''vec3 phi23 = vec3( 0.0 );'',
     tabs 2 @ ''if ( baseIOR[ 0 ] < iridescenceIOR ) phi23[ 0 ] = PI;'',
     tabs 2 @ ''if ( baseIOR[ 1 ] < iridescenceIOR ) phi23[ 1 ] = PI;'',
     tabs 2 @ ''if ( baseIOR[ 2 ] < iridescenceIOR ) phi23[ 2 ] = PI;'',
     tabs 2 @ ''float OPD = 2.0 * iridescenceIOR * thinFilmThickness * cosTheta2;'',
     tabs 2 @ ''vec3 phi = vec3( phi21 ) + phi23;'',
     tabs 2 @ ''vec3 R123 = clamp( R12 * R23, 1e-5, 0.9999 );'',
     tabs 2 @ ''vec3 r123 = sqrt( R123 );'',
     tabs 2 @ ''vec3 Rs = pow2( T121 ) * R23 / ( vec3( 1.0 ) - R123 );'',
     tabs 2 @ ''vec3 C0 = R12 + Rs;'',
     tabs 2 @ ''I = C0;'',
     tabs 2 @ ''vec3 Cm = Rs - T121;'',
     tabs 2 @ ''for ( int m = 1; m <= 2; ++ m ) {'',
     tabs 3 @ ''Cm *= r123;'',
     tabs 3 @ ''vec3 Sm = 2.0 * evalSensitivity( float( m ) * OPD, float( m ) * phi );'',
     tabs 3 @ ''I += Cm * Sm;'',
     tabs 2 @ ''}'',
     tabs 2 @ ''return max( I, vec3( 0.0 ) );'',
     tabs 1 @ ''}'',
     ''#endif'']"

lemma iridescence_fragment_text [chunk_facts]:
  "iridescence_fragment \<noteq> []" "nesting [] iridescence_fragment = Some []" "include_list iridescence_fragment = []"
  unfolding iridescence_fragment_def
  by (simp_all add: line_defs cong: nesting_cong include_list_cong)

definition bumpmap_pars_fragment :: "string list" where
  "bumpmap_pars_fragment = [
     ''#ifdef USE_BUMPMAP'',
     tabs 1 @ ''uniform sampler2D bumpMap;'',
     tabs 1 @ ''uniform float bumpScale;'',
     tabs 1 @ ''vec2 dHdxy_fwd() {'',
     tabs 2 @ ''vec2 dSTdx = dFdx( vBumpMapUv );'',
     tabs 2 @ ''vec2 dSTdy = dFdy( vBumpMapUv );'',
     tabs 2 @ ''float Hll = bumpScale * texture2D( bumpMap, vBumpMapUv ).x;'',
     tabs 2 @ ''float dBx = bumpScale * texture2D( bumpMap, vBumpMapUv + dSTdx ).x - Hll;'',
     tabs 2 @ ''float dBy = bumpScale * texture2D( bumpMap, vBumpMapUv + dSTdy ).x - Hll;'',
     tabs 2 @ ''return vec2( dBx, dBy );'',
     tabs 1 @ ''}'',
     tabs 1 @ ''vec3 perturbNormalArb( vec3 surf_pos, vec3 surf_norm, vec2 dHdxy, float faceDirection ) {'',
     tabs 2 @ ''vec3 vSigmaX = normalize( dFdx( surf_pos.xyz ) );'',
     tabs 2 @ ''vec3 vSigmaY = normalize( dFdy( surf_pos.xyz ) );'',
     tabs 2 @ ''vec3 vN = surf_norm;'',
     tabs 2 @ ''vec3 R1 = cross( vSigmaY, vN );'',
     tabs 2 @ ''vec3 R2 = cross( vN, vSigmaX );'',
     tabs 2 @ ''float fDet = dot( vSigmaX, R1 ) * faceDirection;'',
     tabs 2 @ ''vec3 vGrad = sign( fDet ) * ( dHdxy.x * R1 + dHdxy.y * R2 );'',
     tabs 2 @ ''return normalize( abs( fDet ) * surf_norm - vGrad );'',
     tabs 1 @ ''}'',
     ''#endif'']"

lemma bumpmap_pars_fragment_text [chunk_facts]:
  "bumpmap_pars_fragment \<noteq> []" "nesting [] bumpmap_pars_fragment = Some []" "include_list bumpmap_pars_fragment = []"
  unfolding bumpmap_pars_fragment_def
  by (simp_all add: line_defs cong: nesting_cong include_list_cong)

definition color_fragment :: "string list" where
  "color_fragment = [
     ''#if defined( USE_COLOR_ALPHA )'',
     tabs 1 @ ''diffuseColor *= vColor;'',
     ''#elif defined( USE_COLOR )'',
     tabs 1 @ ''diffuseColor.rgb *= vColor;'',
     ''#endif'']"

lemma color_fragment_text [chunk_facts]:
  "color_fragment \<noteq> []" "nesting [] color_fragment = Some []" "include_list color_fragment = []"
  unfolding color_fragment_def
  by (simp_all add: line_defs cong: nesting_cong include_list_cong)

definition color_pars_fragment :: "string list" where
  "color_pars_fragment = [
     ''#if defined( USE_COLOR_ALPHA )'',
     tabs 1 @ ''varying vec4 vColor;'',
     ''#elif defined( USE_COLOR )'',
     tabs 1 @ ''varying vec3 vColor;'',
     ''#endif'']"

lemma color_pars_fragment_text [chunk_facts]:
  "color_pars_fragment \<noteq> []" "nesting [] color_pars_fragment = Some []" "include_list color_pars_fragment = []"
  unfolding color_pars_fragment_def
  by (simp_all add: line_defs cong: nesting_cong include_list_cong)

definition emissivemap_fragment :: "string list" where
  "emissivemap_fragment = [
     ''#ifdef USE_EMISSIVEMAP'',
     tabs 1 @ ''vec4 emissiveColor = texture2D( emissiveMap, vEmissiveMapUv );'',
     tabs 1 @ ''#ifdef DECODE_VIDEO_TEXTURE_EMISSIVE'',
     tabs 2 @ ''emissiveColor = sRGBTransferEOTF( emissiveColor );'',
     tabs 1 @ ''#endif'',
     tabs 1 @ ''totalEmissiveRadiance *= emissiveColor.rgb;'',
     ''#endif'']"

lemma emissivemap_fragment_text [chunk_facts]:
  "emissivemap_fragment \<noteq> []" "nesting [] emissivemap_fragment = Some []" "include_list emissivemap_fragment = []"
  unfolding emissivemap_fragment_def
  by (simp_all add: line_defs cong: nesting_cong include_list_cong)

definition emissivemap_pars_fragment :: "string list" where
  "emissivemap_pars_fragment = [
     ''#ifdef USE_EMISSIVEMAP'',
     tabs 1 @ ''uniform sampler2D emissiveMap;'',
     ''#endif'']"

lemma emissivemap_pars_fragment_text [chunk_facts]:
  "emissivemap_pars_fragment \<noteq> []" "nesting [] emissivemap_pars_fragment = Some []" "include_list emissivemap_pars_fragment = []"
  unfolding emissivemap_pars_fragment_def
  by (simp_all add: line_defs cong: nesting_cong include_list_cong)

definition map_fragment :: "string list" where
  "map_fragment = [
     ''#ifdef USE_MAP'',
     tabs 1 @ ''vec4 sampledDiffuseColor = texture2D( map, vMapUv );'',
     tabs 1 @ ''#ifdef DECODE_VIDEO_TEXTURE'',
     tabs 2 @ ''sampledDiffuseColor = sRGBTransferEOTF( sampledDiffuseColor );'',
     tabs 1 @ ''#endif'',
     tabs 1 @ ''diffuseColor *= sampledDiffuseColor;'',
     ''#endif'']"

lemma map_fragment_text [chunk_facts]:
  "map_fragment \<noteq> []" "nesting [] map_fragment = Some []" "include_list map_fragment = []"
  unfolding map_fragment_def
  by (simp_all add: line_defs cong: nesting_cong include_list_cong)

definition map_pars_fragment :: "string list" where
  "map_pars_fragment = [
     ''#ifdef USE_MAP'',
     tabs 1 @ ''uniform sampler2D map;'',
     ''#endif'']"

lemma map_pars_fragment_text [chunk_facts]:
  "map_pars_fragment \<noteq> []" "nesting [] map_pars_fragment = Some []" "include_list map_pars_fragment = []"
  unfolding map_pars_fragment_def
  by (simp_all add: line_defs cong: nesting_cong include_list_cong)

definition map_particle_fragment :: "string list" where
  "map_particle_fragment = [
     ''#if defined( USE_MAP ) || defined( USE_ALPHAMAP )'',
     tabs 1 @ ''#if defined( USE_POINTS_UV )'',
     tabs 2 @ ''vec2 uv = vUv;'',
     tabs 1 @ ''#else'',
     tabs 2 @ ''vec2 uv = ( uvTransform * vec3( gl_PointCoord.x, 1.0 - gl_PointCoord.y, 1 ) ).xy;'',
     tabs 1 @ ''#endif'',
     ''#endif'',
     ''#ifdef USE_MAP'',
     tabs 1 @ ''diffuseColor *= texture2D( map, uv );'',
     ''#endif'',
     ''#ifdef USE_ALPHAMAP'',
     tabs 1 @ ''diffuseColor.a *= texture2D( alphaMap, uv ).g;'',
     ''#endif'']"

lemma map_particle_fragment_text [chunk_facts]:
  "map_particle_fragment \<noteq> []" "nesting [] map_particle_fragment = Some []" "include_list map_particle_fragment = []"
  unfolding map_particle_fragment_def
  by (simp_all add: line_defs cong: nesting_cong include_list_cong)

definition map_particle_pars_fragment :: "string list" where
  "map_particle_pars_fragment = [
     ''#if defined( USE_POINTS_UV )'',
     tabs 1 @ ''varying vec2 vUv;'',
     ''#else'',
     tabs 1 @ ''#if defined( USE_MAP ) || defined( USE_ALPHAMAP )'',
     tabs 2 @ ''uniform mat3 uvTransform;'',
     tabs 1 @ ''#endif'',
     ''#endif'',
     ''#ifdef USE_MAP'',
     tabs 1 @ ''uniform sampler2D map;'',
     ''#endif'',
     ''#ifdef USE_ALPHAMAP'',
     tabs 1 @ ''uniform sampler2D alphaMap;'',
     ''#endif'']"

lemma map_particle_pars_fragment_text [chunk_facts]:
  "map_particle_pars_fragment \<noteq> []" "nesting [] map_particle_pars_fragment = Some []" "include_list map_particle_pars_fragment = []"
  unfolding map_particle_pars_fragment_def
  by (simp_all add: line_defs cong: nesting_cong include_list_cong)

definition metalnessmap_fragment :: "string list" where
  "metalnessmap_fragment = [
     ''float metalnessFactor = metalness;'',
     ''#ifdef USE_METALNESSMAP'',
     tabs 1 @ ''vec4 texelMetalness = texture2D( metalnessMap, vMetalnessMapUv );'',
     tabs 1 @ ''metalnessFactor *= texelMetalness.b;'',
     ''#endif'']"

lemma metalnessmap_fragment_text [chunk_facts]:
  "metalnessmap_fragment \<noteq> []" "nesting [] metalnessmap_fragment = Some []" "include_list metalnessmap_fragment = []"
  unfolding metalnessmap_fragment_def
  by (simp_all add: line_defs cong: nesting_cong include_list_cong)

definition metalnessmap_pars_fragment :: "string list" where
  "metalnessmap_pars_fragment = [
     ''#ifdef USE_METALNESSMAP'',
     tabs 1 @ ''uniform sampler2D metalnessMap;'',
     ''#endif'']"

lemma metalnessmap_pars_fragment_text [chunk_facts]:
  "metalnessmap_pars_fragment \<noteq> []" "nesting [] metalnessmap_pars_fragment = Some []" "include_list metalnessmap_pars_fragment = []"
  unfolding metalnessmap_pars_fragment_def
  by (simp_all add: line_defs cong: nesting_cong include_list_cong)

definition normal_fragment_begin :: "string list" where
  "normal_fragment_begin = [
     ''float faceDirection = gl_FrontFacing ? 1.0 : - 1.0;'',
     ''#ifdef FLAT_SHADED'',
     tabs 1 @ ''vec3 fdx = dFdx( vViewPosition );'',
     tabs 1 @ ''vec3 fdy = dFdy( vViewPosition );'',
     tabs 1 @ ''vec3 normal = normalize( cross( fdx, fdy ) );'',
     ''#else'',
     tabs 1 @ ''vec3 normal = normalize( vNormal );'',
     tabs 1 @ ''#ifdef DOUBLE_SIDED'',
     tabs 2 @ ''normal *= faceDirection;'',
     tabs 1 @ ''#endif'',
     ''#endif'',
     ''#if defined( USE_NORMALMAP_TANGENTSPACE ) || defined( USE_CLEARCOAT_NORMALMAP ) || defined( USE_ANISOTROPY )'',
     tabs 1 @ ''#ifdef USE_TANGENT'',
     tabs 2 @ ''mat3 tbn = mat3( normalize( vTangent ), normalize( vBitangent ), normal );'',
     tabs 1 @ ''#else'',
     tabs 2 @ ''mat3 tbn = getTangentFrame( - vViewPosition, normal,'',
     tabs 2 @ ''#if defined( USE_NORMALMAP )'',
     tabs 3 @ ''vNormalMapUv'',
     tabs 2 @ ''#elif defined( USE_CLEARCOAT_NORMALMAP )'',
     tabs 3 @ ''vClearcoatNormalMapUv'',
     tabs 2 @ ''#else'',
     tabs 3 @ ''vUv'',
     tabs 2 @ ''#endif'',
     tabs 2 @ '');'',
     tabs 1 @ ''#endif'',
     tabs 1 @ ''#if defined( DOUBLE_SIDED ) && ! defined( FLAT_SHADED )'',
     tabs 2 @ ''tbn[0] *= faceDirection;'',
     tabs 2 @ ''tbn[1] *= faceDirection;'',
     tabs 1 @ ''#endif'',
     ''#endif'',
     ''#ifdef USE_CLEARCOAT_NORMALMAP'',
     tabs 1 @ ''#ifdef USE_TANGENT'',
     tabs 2 @ ''mat3 tbn2 = mat3( normalize( vTangent ), normalize( vBitangent ), normal );'',
     tabs 1 @ ''#else'',
     tabs 2 @ ''mat3 tbn2 = getTangentFrame( - vViewPosition, normal, vClearcoatNormalMapUv );'',
     tabs 1 @ ''#endif'',
     tabs 1 @ ''#if defined( DOUBLE_SIDED ) && ! defined( FLAT_SHADED )'',
     tabs 2 @ ''tbn2[0] *= faceDirection;'',
     tabs 2 @ ''tbn2[1] *= faceDirection;'',
     tabs 1 @ ''#endif'',
     ''#endif'',
     ''vec3 nonPerturbedNormal = normal;'']"

lemma normal_fragment_begin_text [chunk_facts]:
  "normal_fragment_begin \<noteq> []" "nesting [] normal_fragment_begin = Some []" "include_list normal_fragment_begin = []"
  unfolding normal_fragment_begin_def
  by (simp_all add: line_defs cong: nesting_cong include_list_cong)

definition normal_fragment_maps :: "string list" where
  "normal_fragment_maps = [
     ''#ifdef USE_NORMALMAP_OBJECTSPACE'',
     tabs 1 @ ''normal = texture2D( normalMap, vNormalMapUv ).xyz * 2.0 - 1.0;'',
     tabs 1 @ ''#ifdef FLIP_SIDED'',
     tabs 2 @ ''normal = - normal;'',
     tabs 1 @ ''#endif'',
     tabs 1 @ ''#ifdef DOUBLE_SIDED'',
     tabs 2 @ ''normal = normal * faceDirection;'',
     tabs 1 @ ''#endif'',
     tabs 1 @ ''normal = normalize( normalMatrix * normal );'',
     ''#elif defined( USE_NORMALMAP_TANGENTSPACE )'',
     tabs 1 @ ''vec3 mapN = texture2D( normalMap, vNormalMapUv ).xyz * 2.0 - 1.0;'',
     tabs 1 @ ''mapN.xy *= normalScale;'',
     tabs 1 @ ''normal = normalize( tbn * mapN );'',
     ''#elif defined( USE_BUMPMAP )'',
     tabs 1 @ ''normal = perturbNormalArb( - vViewPosition, normal, dHdxy_fwd(), faceDirection );'',
     ''#endif'']"

lemma normal_fragment_maps_text [chunk_facts]:
  "normal_fragment_maps \<noteq> []" "nesting [] normal_fragment_maps = Some []" "include_list normal_fragment_maps = []"
  unfolding normal_fragment_maps_def
  by (simp_all add: line_defs cong: nesting_cong include_list_cong)

definition normal_pars_fragment :: "string list" where
  "normal_pars_fragment = [
     ''#ifndef FLAT_SHADED'',
     tabs 1 @ ''varying vec3 vNormal;'',
     tabs 1 @ ''#ifdef USE_TANGENT'',
     tabs 2 @ ''varying vec3 vTangent;'',
     tabs 2 @ ''varying vec3 vBitangent;'',
     tabs 1 @ ''#endif'',
     ''#endif'']"

lemma normal_pars_fragment_text [chunk_facts]:
  "normal_pars_fragment \<noteq> []" "nesting [] normal_pars_fragment = Some []" "include_list normal_pars_fragment = []"
  unfolding normal_pars_fragment_def
  by (simp_all add: line_defs cong: nesting_cong include_list_cong)

definition normalmap_pars_fragment :: "string list" where
  "normalmap_pars_fragment = [
     ''#ifdef USE_NORMALMAP'',
     tabs 1 @ ''uniform sampler2D normalMap;'',
     tabs 1 @ ''uniform vec2 normalScale;'',
     ''#endif'',
     ''#ifdef USE_NORMALMAP_OBJECTSPACE'',
     tabs 1 @ ''uniform mat3 normalMatrix;'',
     ''#endif'',
     ''#if ! defined ( USE_TANGENT ) && ( defined ( USE_NORMALMAP_TANGENTSPACE ) || defined ( USE_CLEARCOAT_NORMALMAP ) || defined( USE_ANISOTROPY ) )'',
     tabs 1 @ ''mat3 getTangentFrame( vec3 eye_pos, vec3 surf_norm, vec2 uv ) {'',
     tabs 2 @ ''vec3 q0 = dFdx( eye_pos.xyz );'',
     tabs 2 @ ''vec3 q1 = dFdy( eye_pos.xyz );'',
     tabs 2 @ ''vec2 st0 = dFdx( uv.st );'',
     tabs 2 @ ''vec2 st1 = dFdy( uv.st );'',
     tabs 2 @ ''vec3 N = surf_norm;'',
     tabs 2 @ ''vec3 q1perp = cross( q1, N );'',
     tabs 2 @ ''vec3 q0perp = cross( N, q0 );'',
     tabs 2 @ ''vec3 T = q1perp * st0.x + q0perp * st1.x;'',
     tabs 2 @ ''vec3 B = q1perp * st0.y + q0perp * st1.y;'',
     tabs 2 @ ''float det = max( dot( T, T ), dot( B, B ) );'',
     tabs 2 @ ''float scale = ( det == 0.0 ) ? 0.0 : inversesqrt( det );'',
     tabs 2 @ ''return mat3( T * scale, B * scale, N );'',
     tabs 1 @ ''}'',
     ''#endif'']"

lemma normalmap_pars_fragment_text [chunk_facts]:
  "normalmap_pars_fragment \<noteq> []" "nesting [] normalmap_pars_fragment = Some []" "include_list normalmap_pars_fragment = []"
  unfolding normalmap_pars_fragment_def
  by (simp_all add: line_defs cong: nesting_cong include_list_cong)

definition clearcoat_normal_fragment_begin :: "string list" where
  "clearcoat_normal_fragment_begin = [
     ''#ifdef USE_CLEARCOAT'',
     tabs 1 @ ''vec3 clearcoatNormal = nonPerturbedNormal;'',
     ''#endif'']"

lemma clearcoat_normal_fragment_begin_text [chunk_facts]:
  "clearcoat_normal_fragment_begin \<noteq> []" "nesting [] clearcoat_normal_fragment_begin = Some []" "include_list clearcoat_normal_fragment_begin = []"
  unfolding clearcoat_normal_fragment_begin_def
  by (simp_all add: line_defs cong: nesting_cong include_list_cong)

definition clearcoat_normal_fragment_maps :: "string list" where
  "clearcoat_normal_fragment_maps = [
     ''#ifdef USE_CLEARCOAT_NORMALMAP'',
     tabs 1 @ ''vec3 clearcoatMapN = texture2D( clearcoatNormalMap, vClearcoatNormalMapUv ).xyz * 2.0 - 1.0;'',
     tabs 1 @ ''clearcoatMapN.xy *= clearcoatNormalScale;'',
     tabs 1 @ ''clearcoatNormal = normalize( tbn2 * clearcoatMapN );'',
     ''#endif'']"

lemma clearcoat_normal_fragment_maps_text [chunk_facts]:
  "clearcoat_normal_fragment_maps \<noteq> []" "nesting [] clearcoat_normal_fragment_maps = Some []" "include_list clearcoat_normal_fragment_maps = []"
  unfolding clearcoat_normal_fragment_maps_def
  by (simp_all add: line_defs cong: nesting_cong include_list_cong)

definition clearcoat_pars_fragment :: "string list" where
  "clearcoat_pars_fragment = [
     ''#ifdef USE_CLEARCOATMAP'',
     tabs 1 @ ''uniform sampler2D clearcoatMap;'',
     ''#endif'',
     ''#ifdef USE_CLEARCOAT_NORMALMAP'',
     tabs 1 @ ''uniform sampler2D clearcoatNormalMap;'',
     tabs 1 @ ''uniform vec2 clearcoatNormalScale;'',
     ''#endif'',
     ''#ifdef USE_CLEARCOAT_ROUGHNESSMAP'',
     tabs 1 @ ''uniform sampler2D clearcoatRoughnessMap;'',
     ''#endif'']"

lemma clearcoat_pars_fragment_text [chunk_facts]:
  "clearcoat_pars_fragment \<noteq> []" "nesting [] clearcoat_pars_fragment = Some []" "include_list clearcoat_pars_fragment = []"
  unfolding clearcoat_pars_fragment_def
  by (simp_all add: line_defs cong: nesting_cong include_list_cong)

definition iridescence_pars_fragment :: "string list" where
  "iridescence_pars_fragment = [
     ''#ifdef USE_IRIDESCENCEMAP'',
     tabs 1 @ ''uniform sampler2D iridescenceMap;'',
     ''#endif'',
     ''#ifdef USE_IRIDESCENCE_THICKNESSMAP'',
     tabs 1 @ ''uniform sampler2D iridescenceThicknessMap;'',
     ''#endif'']"

lemma iridescence_pars_fragment_text [chunk_facts]:
  "iridescence_pars_fragment \<noteq> []" "nesting [] iridescence_pars_fragment = Some []" "include_list iridescence_pars_fragment = []"
  unfolding iridescence_pars_fragment_def
  by (simp_all add: line_defs cong: nesting_cong include_list_cong)

definition roughnessmap_fragment :: "string list" where
  "roughnessmap_fragment = [
     ''float roughnessFactor = roughness;'',
     ''#ifdef USE_ROUGHNESSMAP'',
     tabs 1 @ ''vec4 texelRoughness = texture2D( roughnessMap, vRoughnessMapUv );'',
     tabs 1 @ ''roughnessFactor *= texelRoughness.g;'',
     ''#endif'']"

lemma roughnessmap_fragment_text [chunk_facts]:
  "roughnessmap_fragment \<noteq> []" "nesting [] roughnessmap_fragment = Some []" "include_list roughnessmap_fragment = []"
  unfolding roughnessmap_fragment_def
  by (simp_all add: line_defs cong: nesting_cong include_list_cong)

definition roughnessmap_pars_fragment :: "string list" where
  "roughnessmap_pars_fragment = [
     ''#ifdef USE_ROUGHNESSMAP'',
     tabs 1 @ ''uniform sampler2D roughnessMap;'',
     ''#endif'']"

lemma roughnessmap_pars_fragment_text [chunk_facts]:
  "roughnessmap_pars_fragment \<noteq> []" "nesting [] roughnessmap_pars_fragment = Some []" "include_list roughnessmap_pars_fragment = []"
  unfolding roughnessmap_pars_fragment_def
  by (simp_all add: line_defs cong: nesting_cong include_list_cong)

definition specularmap_fragment :: "string list" where
  "specularmap_fragment = [
     ''float specularStrength;'',
     ''#ifdef USE_SPECULARMAP'',
     tabs 1 @ ''vec4 texelSpecular = texture2D( specularMap, vSpecularMapUv );'',
     tabs 1 @ ''specularStrength = texelSpecular.r;'',
     ''#else'',
     tabs 1 @ ''specularStrength = 1.0;'',
     ''#endif'']"

lemma specularmap_fragment_text [chunk_facts]:
  "specularmap_fragment \<noteq> []" "nesting [] specularmap_fragment = Some []" "include_list specularmap_fragment = []"
  unfolding specularmap_fragment_def
  by (simp_all add: line_defs cong: nesting_cong include_list_cong)

definition specularmap_pars_fragment :: "string list" where
  "specularmap_pars_fragment = [
     ''#ifdef USE_SPECULARMAP'',
     tabs 1 @ ''uniform sampler2D specularMap;'',
     ''#endif'']"

lemma specularmap_pars_fragment_text [chunk_facts]:
  "specularmap_pars_fragment \<noteq> []" "nesting [] specularmap_pars_fragment = Some []" "include_list specularmap_pars_fragment = []"
  unfolding specularmap_pars_fragment_def
  by (simp_all add: line_defs cong: nesting_cong include_list_cong)

definition uv_pars_fragment :: "string list" where
  "uv_pars_fragment = [
     ''#if defined( USE_UV ) || defined( USE_ANISOTROPY )'',
     tabs 1 @ ''varying vec2 vUv;'',
     ''#endif'',
     ''#ifdef USE_MAP'',
     tabs 1 @ ''varying vec2 vMapUv;'',
     ''#endif'',
     ''#ifdef USE_ALPHAMAP'',
     tabs 1 @ ''varying vec2 vAlphaMapUv;'',
     ''#endif'',
     ''#ifdef USE_LIGHTMAP'',
     tabs 1 @ ''varying vec2 vLightMapUv;'',
     ''#endif'',
     ''#ifdef USE_AOMAP'',
     tabs 1 @ ''varying vec2 vAoMapUv;'',
     ''#endif'',
     ''#ifdef USE_BUMPMAP'',
     tabs 1 @ ''varying vec2 vBumpMapUv;'',
     ''#endif'',
     ''#ifdef USE_NORMALMAP'',
     tabs 1 @ ''varying vec2 vNormalMapUv;'',
     ''#endif'',
     ''#ifdef USE_EMISSIVEMAP'',
     tabs 1 @ ''varying vec2 vEmissiveMapUv;'',
     ''#endif'',
     ''#ifdef USE_METALNESSMAP'',
     tabs 1 @ ''varying vec2 vMetalnessMapUv;'',
     ''#endif'',
     ''#ifdef USE_ROUGHNESSMAP'',
     tabs 1 @ ''varying vec2 vRoughnessMapUv;'',
     ''#endif'',
     ''#ifdef USE_ANISOTROPYMAP'',
     tabs 1 @ ''varying vec2 vAnisotropyMapUv;'',
     ''#endif'',
     ''#ifdef USE_CLEARCOATMAP'',
     tabs 1 @ ''varying vec2 vClearcoatMapUv;'',
     ''#endif'',
     ''#ifdef USE_CLEARCOAT_NORMALMAP'',
     tabs 1 @ ''varying vec2 vClearcoatNormalMapUv;'',
     ''#endif'',
     ''#ifdef USE_CLEARCOAT_ROUGHNESSMAP'',
     tabs 1 @ ''varying vec2 vClearcoatRoughnessMapUv;'',
     ''#endif'',
     ''#ifdef USE_IRIDESCENCEMAP'',
     tabs 1 @ ''varying vec2 vIridescenceMapUv;'',
     ''#endif'',
     ''#ifdef USE_IRIDESCENCE_THICKNESSMAP'',
     tabs 1 @ ''varying vec2 vIridescenceThicknessMapUv;'',
     ''#endif'',
     ''#ifdef USE_SHEEN_COLORMAP'',
     tabs 1 @ ''varying vec2 vSheenColorMapUv;'',
     ''#endif'',
     ''#ifdef USE_SHEEN_ROUGHNESSMAP'',
     tabs 1 @ ''varying vec2 vSheenRoughnessMapUv;'',
     ''#endif'',
     ''#ifdef USE_SPECULARMAP'',
     tabs 1 @ ''varying vec2 vSpecularMapUv;'',
     ''#endif'',
     ''#ifdef USE_SPECULAR_COLORMAP'',
     tabs 1 @ ''varying vec2 vSpecularColorMapUv;'',
     ''#endif'',
     ''#ifdef USE_SPECULAR_INTENSITYMAP'',
     tabs 1 @ ''varying vec2 vSpecularIntensityMapUv;'',
     ''#endif'',
     ''#ifdef USE_TRANSMISSIONMAP'',
     tabs 1 @ ''uniform mat3 transmissionMapTransform;'',
     tabs 1 @ ''varying vec2 vTransmissionMapUv;'',
     ''#endif'',
     ''#ifdef USE_THICKNESSMAP'',
     tabs 1 @ ''uniform mat3 thicknessMapTransform;'',
     tabs 1 @ ''varying vec2 vThicknessMapUv;'',
     ''#endif'']"

lemma uv_pars_fragment_text [chunk_facts]:
  "uv_pars_fragment \<noteq> []" "nesting [] uv_pars_fragment = Some []" "include_list uv_pars_fragment = []"
  unfolding uv_pars_fragment_def
  by (simp_all add: line_defs cong: nesting_cong include_list_cong)

end
