(* ===== verification/ShaderLightChunks.thy ===== *)
theory ShaderLightChunks
  imports ShaderText
begin

text \<open>
  The fragment chunks of lighting: the reflection models, the loops over the lights, light maps and shadow maps.
  The two longest are put together from parts.
  Each chunk is the template string of the same name in the table of \<open>web/viewer/dist/assets/index-BpuCcfds.js\<close>,
  line by line, and is followed by what the include expansion needs to know of it.
\<close>

definition aomap_fragment :: "string list" where
  "aomap_fragment = [
     ''#ifdef USE_AOMAP'',
     tabs 1 @ ''float ambientOcclusion = ( texture2D( aoMap, vAoMapUv ).r - 1.0 ) * aoMapIntensity + 1.0;'',
     tabs 1 @ ''reflectedLight.indirectDiffuse *= ambientOcclusion;'',
     tabs 1 @ ''#if defined( USE_CLEARCOAT ) '',
     tabs 2 @ ''clearcoatSpecularIndirect *= ambientOcclusion;'',
     tabs 1 @ ''#endif'',
     tabs 1 @ ''#if defined( USE_SHEEN ) '',
     tabs 2 @ ''sheenSpecularIndirect *= ambientOcclusion;'',
     tabs 1 @ ''#endif'',
     tabs 1 @ ''#if defined( USE_ENVMAP ) && defined( STANDARD )'',
     tabs 2 @ ''float dotNV = saturate( dot( geometryNormal, geometryViewDir ) );'',
     tabs 2 @ ''reflectedLight.indirectSpecular *= computeSpecularOcclusion( dotNV, ambientOcclusion, material.roughness );'',
     tabs 1 @ ''#endif'',
     ''#endif'']"

lemma aomap_fragment_text [chunk_facts]:
  "aomap_fragment \<noteq> []" "nesting [] aomap_fragment = Some []" "include_list aomap_fragment = []"
  unfolding aomap_fragment_def
  by (simp_all add: line_defs cong: nesting_cong include_list_cong)

definition aomap_pars_fragment :: "string list" where
  "aomap_pars_fragment = [
     ''#ifdef USE_AOMAP'',
     tabs 1 @ ''uniform sampler2D aoMap;'',
     tabs 1 @ ''uniform float aoMapIntensity;'',
     ''#endif'']"

lemma aomap_pars_fragment_text [chunk_facts]:
  "aomap_pars_fragment \<noteq> []" "nesting [] aomap_pars_fragment = Some []" "include_list aomap_pars_fragment = []"
  unfolding aomap_pars_fragment_def
  by (simp_all add: line_defs cong: nesting_cong include_list_cong)

definition bsdfs :: "string list" where
  "bsdfs = [
     ''float G_BlinnPhong_Implicit( ) {'',
     tabs 1 @ ''return 0.25;'',
     ''}'',
     ''float D_BlinnPhong( const in float shininess, const in float dotNH ) {'',
     tabs 1 @ ''return RECIPROCAL_PI * ( shininess * 0.5 + 1.0 ) * pow( dotNH, shininess );'',
     ''}'',
     ''vec3 BRDF_BlinnPhong( const in vec3 lightDir, const in vec3 viewDir, const in vec3 normal, const in vec3 specularColor, const in float shininess ) {'',
     tabs 1 @ ''vec3 halfDir = normalize( lightDir + viewDir );'',
     tabs 1 @ ''float dotNH = saturate( dot( normal, halfDir ) );'',
     tabs 1 @ ''float dotVH = saturate( dot( viewDir, halfDir ) );'',
     tabs 1 @ ''vec3 F = F_Schlick( specularColor, 1.0, dotVH );'',
     tabs 1 @ ''float G = G_BlinnPhong_Implicit( );'',
     tabs 1 @ ''float D = D_BlinnPhong( shininess, dotNH );'',
     tabs 1 @ ''return F * ( G * D );'',
     ''} // validated'']"

lemma bsdfs_text [chunk_facts]:
  "bsdfs \<noteq> []" "nesting [] bsdfs = Some []" "include_list bsdfs = []"
  unfolding bsdfs_def
  by (simp_all add: line_defs cong: nesting_cong include_list_cong)

definition gradientmap_pars_fragment :: "string list" where
  "gradientmap_pars_fragment = [
     ''#ifdef USE_GRADIENTMAP'',
     tabs 1 @ ''uniform sampler2D gradientMap;'',
     ''#endif'',
     ''vec3 getGradientIrradiance( vec3 normal, vec3 lightDirection ) {'',
     tabs 1 @ ''float dotNL = dot( normal, lightDirection );'',
     tabs 1 @ ''vec2 coord = vec2( dotNL * 0.5 + 0.5, 0.0 );'',
     tabs 1 @ ''#ifdef USE_GRADIENTMAP'',
     tabs 2 @ ''return vec3( texture2D( gradientMap, coord ).r );'',
     tabs 1 @ ''#else'',
     tabs 2 @ ''vec2 fw = fwidth( coord ) * 0.5;'',
     tabs 2 @ ''return mix( vec3( 0.7 ), vec3( 1.0 ), smoothstep( 0.7 - fw.x, 0.7 + fw.x, coord.x ) );'',
     tabs 1 @ ''#endif'',
     ''}'']"

lemma gradientmap_pars_fragment_text [chunk_facts]:
  "gradientmap_pars_fragment \<noteq> []" "nesting [] gradientmap_pars_fragment = Some []" "include_list gradientmap_pars_fragment = []"
  unfolding gradientmap_pars_fragment_def
  by (simp_all add: line_defs cong: nesting_cong include_list_cong)

definition lightmap_pars_fragment :: "string list" where
  "lightmap_pars_fragment = [
     ''#ifdef USE_LIGHTMAP'',
     tabs 1 @ ''uniform sampler2D lightMap;'',
     tabs 1 @ ''uniform float lightMapIntensity;'',
     ''#endif'']"

lemma lightmap_pars_fragment_text [chunk_facts]:
  "lightmap_pars_fragment \<noteq> []" "nesting [] lightmap_pars_fragment = Some []" "include_list lightmap_pars_fragment = []"
  unfolding lightmap_pars_fragment_def
  by (simp_all add: line_defs cong: nesting_cong include_list_cong)

definition lights_lambert_fragment :: "string list" where
  "lights_lambert_fragment = [
     ''LambertMaterial material;'',
     ''material.diffuseColor = diffuseColor.rgb;'',
     ''material.specularStrength = specularStrength;'']"

lemma lights_lambert_fragment_text [chunk_facts]:
  "lights_lambert_fragment \<noteq> []" "nesting [] lights_lambert_fragment = Some []" "include_list lights_lambert_fragment = []"
  unfolding lights_lambert_fragment_def
  by (simp_all add: line_defs cong: nesting_cong include_list_cong)

definition lights_lambert_pars_fragment :: "string list" where
  "lights_lambert_pars_fragment = [
     ''varying vec3 vViewPosition;'',
     ''struct LambertMaterial {'',
     tabs 1 @ ''vec3 diffuseColor;'',
     tabs 1 @ ''float specularStrength;'',
     ''};'',
     ''void RE_Direct_Lambert( const in IncidentLight directLight, const in vec3 geometryPosition, const in vec3 geometryNormal, const in vec3 geometryViewDir, const in vec3 geometryClearcoatNormal, const in LambertMaterial material, inout ReflectedLight reflectedLight ) {'',
     tabs 1 @ ''float dotNL = saturate( dot( geometryNormal, directLight.direction ) );'',
     tabs 1 @ ''vec3 irradiance = dotNL * directLight.color;'',
     tabs 1 @ ''reflectedLight.directDiffuse += irradiance * BRDF_Lambert( material.diffuseColor );'',
     ''}'',
     ''void RE_IndirectDiffuse_Lambert( const in vec3 irradiance, const in vec3 geometryPosition, const in vec3 geometryNormal, const in vec3 geometryViewDir, const in vec3 geometryClearcoatNormal, const in LambertMaterial material, inout ReflectedLight reflectedLight ) {'',
     tabs 1 @ ''reflectedLight.indirectDiffuse += irradiance * BRDF_Lambert( material.diffuseColor );'',
     ''}'',
     ''#define RE_Direct'' @ tabs 4 @ ''RE_Direct_Lambert'',
     ''#define RE_IndirectDiffuse'' @ tabs 2 @ ''RE_IndirectDiffuse_Lambert'']"

lemma lights_lambert_pars_fragment_text [chunk_facts]:
  "lights_lambert_pars_fragment \<noteq> []" "nesting [] lights_lambert_pars_fragment = Some []" "include_list lights_lambert_pars_fragment = []"
  unfolding lights_lambert_pars_fragment_def
  by (simp_all add: line_defs cong: nesting_cong include_list_cong)

definition lights_pars_begin :: "string list" where
  "lights_pars_begin = [
     ''uniform bool receiveShadow;'',
     ''uniform vec3 ambientLightColor;'',
     ''#if defined( USE_LIGHT_PROBES )'',
     tabs 1 @ ''uniform vec3 lightProbe[ 9 ];'',
     ''#endif'',
     ''vec3 shGetIrradianceAt( in vec3 normal, in vec3 shCoefficients[ 9 ] ) {'',
     tabs 1 @ ''float x = normal.x, y = normal.y, z = normal.z;'',
     tabs 1 @ ''vec3 result = shCoefficients[ 0 ] * 0.886227;'',
     tabs 1 @ ''result += shCoefficients[ 1 ] * 2.0 * 0.511664 * y;'',
     tabs 1 @ ''result += shCoefficients[ 2 ] * 2.0 * 0.511664 * z;'',
     tabs 1 @ ''result += shCoefficients[ 3 ] * 2.0 * 0.511664 * x;'',
     tabs 1 @ ''result += shCoefficients[ 4 ] * 2.0 * 0.429043 * x * y;'',
     tabs 1 @ ''result += shCoefficients[ 5 ] * 2.0 * 0.429043 * y * z;'',
     tabs 1 @ ''result += shCoefficients[ 6 ] * ( 0.743125 * z * z - 0.247708 );'',
     tabs 1 @ ''result += shCoefficients[ 7 ] * 2.0 * 0.429043 * x * z;'',
     tabs 1 @ ''result += shCoefficients[ 8 ] * 0.429043 * ( x * x - y * y );'',
     tabs 1 @ ''return result;'',
     ''}'',
     ''vec3 getLightProbeIrradiance( const in vec3 lightProbe[ 9 ], const in vec3 normal ) {'',
     tabs 1 @ ''vec3 worldNormal = inverseTransformDirection( normal, viewMatrix );'',
     tabs 1 @ ''vec3 irradiance = shGetIrradianceAt( worldNormal, lightProbe );'',
     tabs 1 @ ''return irradiance;'',
     ''}'',
     ''vec3 getAmbientLightIrradiance( const in vec3 ambientLightColor ) {'',
     tabs 1 @ ''vec3 irradiance = ambientLightColor;'',
     tabs 1 @ ''return irradiance;'',
     ''}'',
     ''float getDistanceAttenuation( const in float lightDistance, const in float cutoffDistance, const in float decayExponent ) {'',
     tabs 1 @ ''float distanceFalloff = 1.0 / max( pow( lightDistance, decayExponent ), 0.01 );'',
     tabs 1 @ ''if ( cutoffDistance > 0.0 ) {'',
     tabs 2 @ ''distanceFalloff *= pow2( saturate( 1.0 - pow4( lightDistance / cutoffDistance ) ) );'',
     tabs 1 @ ''}'',
     tabs 1 @ ''return distanceFalloff;'',
     ''}'',
     ''float getSpotAttenuation( const in float coneCosine, const in float penumbraCosine, const in float angleCosine ) {'',
     tabs 1 @ ''return smoothstep( coneCosine, penumbraCosine, angleCosine );'',
     ''}'',
     ''#if NUM_DIR_LIGHTS > 0'',
     tabs 1 @ ''struct DirectionalLight {'',
     tabs 2 @ ''vec3 direction;'',
     tabs 2 @ ''vec3 color;'',
     tabs 1 @ ''};'',
     tabs 1 @ ''uniform DirectionalLight directionalLights[ NUM_DIR_LIGHTS ];'',
     tabs 1 @ ''void getDirectionalLightInfo( const in DirectionalLight directionalLight, out IncidentLight light ) {'',
     tabs 2 @ ''light.color = directionalLight.color;'',
     tabs 2 @ ''light.direction = directionalLight.direction;'',
     tabs 2 @ ''light.visible = true;'',
     tabs 1 @ ''}'',
     ''#endif'',
     ''#if NUM_POINT_LIGHTS > 0'',
     tabs 1 @ ''struct PointLight {'',
     tabs 2 @ ''vec3 position;'',
     tabs 2 @ ''vec3 color;'',
     tabs 2 @ ''float distance;'',
     tabs 2 @ ''float decay;'',
     tabs 1 @ ''};'',
     tabs 1 @ ''uniform PointLight pointLights[ NUM_POINT_LIGHTS ];'',
     tabs 1 @ ''void getPointLightInfo( const in PointLight pointLight, const in vec3 geometryPosition, out IncidentLight light ) {'',
     tabs 2 @ ''vec3 lVector = pointLight.position - geometryPosition;'',
     tabs 2 @ ''light.direction = normalize( lVector );'',
     tabs 2 @ ''float lightDistance = length( lVector );'',
     tabs 2 @ ''light.color = pointLight.color;'',
     tabs 2 @ ''light.color *= getDistanceAttenuation( lightDistance, pointLight.distance, pointLight.decay );'',
     tabs 2 @ ''light.visible = ( light.color != vec3( 0.0 ) );'',
     tabs 1 @ ''}'',
     ''#endif'',
     ''#if NUM_SPOT_LIGHTS > 0'',
     tabs 1 @ ''struct SpotLight {'',
     tabs 2 @ ''vec3 position;'',
     tabs 2 @ ''vec3 direction;'',
     tabs 2 @ ''vec3 color;'',
     tabs 2 @ ''float distance;'',
     tabs 2 @ ''float decay;'',
     tabs 2 @ ''float coneCos;'',
     tabs 2 @ ''float penumbraCos;'',
     tabs 1 @ ''};'',
     tabs 1 @ ''uniform SpotLight spotLights[ NUM_SPOT_LIGHTS ];'',
     tabs 1 @ ''void getSpotLightInfo( const in SpotLight spotLight, const in vec3 geometryPosition, out IncidentLight light ) {'',
     tabs 2 @ ''vec3 lVector = spotLight.position - geometryPosition;'',
     tabs 2 @ ''light.direction = normalize( lVector );'',
     tabs 2 @ ''float angleCos = dot( light.direction, spotLight.direction );'',
     tabs 2 @ ''float spotAttenuation = getSpotAttenuation( spotLight.coneCos, spotLight.penumbraCos, angleCos );'',
     tabs 2 @ ''if ( spotAttenuation > 0.0 ) {'',
     tabs 3 @ ''float lightDistance = length( lVector );'',
     tabs 3 @ ''light.color = spotLight.color * spotAttenuation;'',
     tabs 3 @ ''light.color *= getDistanceAttenuation( lightDistance, spotLight.distance, spotLight.decay );'',
     tabs 3 @ ''light.visible = ( light.color != vec3( 0.0 ) );'',
     tabs 2 @ ''} else {'',
     tabs 3 @ ''light.color = vec3( 0.0 );'',
     tabs 3 @ ''light.visible = false;'',
     tabs 2 @ ''}'',
     tabs 1 @ ''}'',
     ''#endif'',
     ''#if NUM_RECT_AREA_LIGHTS > 0'',
     tabs 1 @ ''struct RectAreaLight {'',
     tabs 2 @ ''vec3 color;'',
     tabs 2 @ ''vec3 position;'',
     tabs 2 @ ''vec3 halfWidth;'',
     tabs 2 @ ''vec3 halfHeight;'',
     tabs 1 @ ''};'',
     tabs 1 @ ''uniform sampler2D ltc_1;'' @ tabs 1 @ ''uniform sampler2D ltc_2;'',
     tabs 1 @ ''uniform RectAreaLight rectAreaLights[ NUM_RECT_AREA_LIGHTS ];'',
     ''#endif'',
     ''#if NUM_HEMI_LIGHTS > 0'',
     tabs 1 @ ''struct HemisphereLight {'',
     tabs 2 @ ''vec3 direction;'',
     tabs 2 @ ''vec3 skyColor;'',
     tabs 2 @ ''vec3 groundColor;'',
     tabs 1 @ ''};'',
     tabs 1 @ ''uniform HemisphereLight hemisphereLights[ NUM_HEMI_LIGHTS ];'',
     tabs 1 @ ''vec3 getHemisphereLightIrradiance( const in HemisphereLight hemiLight, const in vec3 normal ) {'',
     tabs 2 @ ''float dotNL = dot( normal, hemiLight.direction );'',
     tabs 2 @ ''float hemiDiffuseWeight = 0.5 * dotNL + 0.5;'',
     tabs 2 @ ''vec3 irradiance = mix( hemiLight.groundColor, hemiLight.skyColor, hemiDiffuseWeight );'',
     tabs 2 @ ''return irradiance;'',
     tabs 1 @ ''}'',
     ''#endif'']"

lemma lights_pars_begin_text [chunk_facts]:
  "lights_pars_begin \<noteq> []" "nesting [] lights_pars_begin = Some []" "include_list lights_pars_begin = []"
  unfolding lights_pars_begin_def
  by (simp_all add: line_defs cong: nesting_cong include_list_cong)

definition lights_toon_fragment :: "string list" where
  "lights_toon_fragment = [
     ''ToonMaterial material;'',
     ''material.diffuseColor = diffuseColor.rgb;'']"

lemma lights_toon_fragment_text [chunk_facts]:
  "lights_toon_fragment \<noteq> []" "nesting [] lights_toon_fragment = Some []" "include_list lights_toon_fragment = []"
  unfolding lights_toon_fragment_def
  by (simp_all add: line_defs cong: nesting_cong include_list_cong)

definition lights_toon_pars_fragment :: "string list" where
  "lights_toon_pars_fragment = [
     ''varying vec3 vViewPosition;'',
     ''struct ToonMaterial {'',
     tabs 1 @ ''vec3 diffuseColor;'',
     ''};'',
     ''void RE_Direct_Toon( const in IncidentLight directLight, const in vec3 geometryPosition, const in vec3 geometryNormal, const in vec3 geometryViewDir, const in vec3 geometryClearcoatNormal, const in ToonMaterial material, inout ReflectedLight reflectedLight ) {'',
     tabs 1 @ ''vec3 irradiance = getGradientIrradiance( geometryNormal, directLight.direction ) * directLight.color;'',
     tabs 1 @ ''reflectedLight.directDiffuse += irradiance * BRDF_Lambert( material.diffuseColor );'',
     ''}'',
     ''void RE_IndirectDiffuse_Toon( const in vec3 irradiance, const in vec3 geometryPosition, const in vec3 geometryNormal, const in vec3 geometryViewDir, const in vec3 geometryClearcoatNormal, const in ToonMaterial material, inout ReflectedLight reflectedLight ) {'',
     tabs 1 @ ''reflectedLight.indirectDiffuse += irradiance * BRDF_Lambert( material.diffuseColor );'',
     ''}'',
     ''#define RE_Direct'' @ tabs 4 @ ''RE_Direct_Toon'',
     ''#define RE_IndirectDiffuse'' @ tabs 2 @ ''RE_IndirectDiffuse_Toon'']"

lemma lights_toon_pars_fragment_text [chunk_facts]:
  "lights_toon_pars_fragment \<noteq> []" "nesting [] lights_toon_pars_fragment = Some []" "include_list lights_toon_pars_fragment = []"
  unfolding lights_toon_pars_fragment_def
  by (simp_all add: line_defs cong: nesting_cong include_list_cong)

definition lights_phong_fragment :: "string list" where
  "lights_phong_fragment = [
     ''BlinnPhongMaterial material;'',
     ''material.diffuseColor = diffuseColor.rgb;'',
     ''material.specularColor = specular;'',
     ''material.specularShininess = shininess;'',
     ''material.specularStrength = specularStrength;'']"

lemma lights_phong_fragment_text [chunk_facts]:
  "lights_phong_fragment \<noteq> []" "nesting [] lights_phong_fragment = Some []" "include_list lights_phong_fragment = []"
  unfolding lights_phong_fragment_def
  by (simp_all add: line_defs cong: nesting_cong include_list_cong)

definition lights_phong_pars_fragment :: "string list" where
  "lights_phong_pars_fragment = [
     ''varying vec3 vViewPosition;'',
     ''struct BlinnPhongMaterial {'',
     tabs 1 @ ''vec3 diffuseColor;'',
     tabs 1 @ ''vec3 specularColor;'',
     tabs 1 @ ''float specularShininess;'',
     tabs 1 @ ''float specularStrength;'',
     ''};'',
     ''void RE_Direct_BlinnPhong( const in IncidentLight directLight, const in vec3 geometryPosition, const in vec3 geometryNormal, const in vec3 geometryViewDir, const in vec3 geometryClearcoatNormal, const in BlinnPhongMaterial material, inout ReflectedLight reflectedLight ) {'',
     tabs 1 @ ''float dotNL = saturate( dot( geometryNormal, directLight.direction ) );'',
     tabs 1 @ ''vec3 irradiance = dotNL * directLight.color;'',
     tabs 1 @ ''reflectedLight.directDiffuse += irradiance * BRDF_Lambert( material.diffuseColor );'',
     tabs 1 @ ''reflectedLight.directSpecular += irradiance * BRDF_BlinnPhong( directLight.direction, geometryViewDir, geometryNormal, material.specularColor, material.specularShininess ) * material.specularStrength;'',
     ''}'',
     ''void RE_IndirectDiffuse_BlinnPhong( const in vec3 irradiance, const in vec3 geometryPosition, const in vec3 geometryNormal, const in vec3 geometryViewDir, const in vec3 geometryClearcoatNormal, const in BlinnPhongMaterial material, inout ReflectedLight reflectedLight ) {'',
     tabs 1 @ ''reflectedLight.indirectDiffuse += irradiance * BRDF_Lambert( material.diffuseColor );'',
     ''}'',
     ''#define RE_Direct'' @ tabs 4 @ ''RE_Direct_BlinnPhong'',
     ''#define RE_IndirectDiffuse'' @ tabs 2 @ ''RE_IndirectDiffuse_BlinnPhong'']"

lemma lights_phong_pars_fragment_text [chunk_facts]:
  "lights_phong_pars_fragment \<noteq> []" "nesting [] lights_phong_pars_fragment = Some []" "include_list lights_phong_pars_fragment = []"
  unfolding lights_phong_pars_fragment_def
  by (simp_all add: line_defs cong: nesting_cong include_list_cong)

definition lights_physical_fragment :: "string list" where
  "lights_physical_fragment = [
     ''PhysicalMaterial material;'',
     ''material.diffuseColor = diffuseColor.rgb * ( 1.0 - metalnessFactor );'',
     ''vec3 dxy = max( abs( dFdx( nonPerturbedNormal ) ), abs( dFdy( nonPerturbedNormal ) ) );'',
     ''float geometryRoughness = max( max( dxy.x, dxy.y ), dxy.z );'',
     ''material.roughness = max( roughnessFactor, 0.0525 );material.roughness += geometryRoughness;'',
     ''material.roughness = min( material.roughness, 1.0 );'',
     ''#ifdef IOR'',
     tabs 1 @ ''material.ior = ior;'',
     tabs 1 @ ''#ifdef USE_SPECULAR'',
     tabs 2 @ ''float specularIntensityFactor = specularIntensity;'',
     tabs 2 @ ''vec3 specularColorFactor = specularColor;'',
     tabs 2 @ ''#ifdef USE_SPECULAR_COLORMAP'',
     tabs 3 @ ''specularColorFactor *= texture2D( specularColorMap, vSpecularColorMapUv ).rgb;'',
     tabs 2 @ ''#endif'',
     tabs 2 @ ''#ifdef USE_SPECULAR_INTENSITYMAP'',
     tabs 3 @ ''specularIntensityFactor *= texture2D( specularIntensityMap, vSpecularIntensityMapUv ).a;'',
     tabs 2 @ ''#endif'',
     tabs 2 @ ''material.specularF90 = mix( specularIntensityFactor, 1.0, metalnessFactor );'',
     tabs 1 @ ''#else'',
     tabs 2 @ ''float specularIntensityFactor = 1.0;'',
     tabs 2 @ ''vec3 specularColorFactor = vec3( 1.0 );'',
     tabs 2 @ ''material.specularF90 = 1.0;'',
     tabs 1 @ ''#endif'',
     tabs 1 @ ''material.specularColor = mix( min( pow2( ( material.ior - 1.0 ) / ( material.ior + 1.0 ) ) * specularColorFactor, vec3( 1.0 ) ) * specularIntensityFactor, diffuseColor.rgb, metalnessFactor );'',
     ''#else'',
     tabs 1 @ ''material.specularColor = mix( vec3( 0.04 ), diffuseColor.rgb, metalnessFactor );'',
     tabs 1 @ ''material.specularF90 = 1.0;'',
     ''#endif'',
     ''#ifdef USE_CLEARCOAT'',
     tabs 1 @ ''material.clearcoat = clearcoat;'',
     tabs 1 @ ''material.clearcoatRoughness = clearcoatRoughness;'',
     tabs 1 @ ''material.clearcoatF0 = vec3( 0.04 );'',
     tabs 1 @ ''material.clearcoatF90 = 1.0;'',
     tabs 1 @ ''#ifdef USE_CLEARCOATMAP'',
     tabs 2 @ ''material.clearcoat *= texture2D( clearcoatMap, vClearcoatMapUv ).x;'',
     tabs 1 @ ''#endif'',
     tabs 1 @ ''#ifdef USE_CLEARCOAT_ROUGHNESSMAP'',
     tabs 2 @ ''material.clearcoatRoughness *= texture2D( clearcoatRoughnessMap, vClearcoatRoughnessMapUv ).y;'',
     tabs 1 @ ''#endif'',
     tabs 1 @ ''material.clearcoat = saturate( material.clearcoat );'' @ tabs 1 @ ''material.clearcoatRoughness = max( material.clearcoatRoughness, 0.0525 );'',
     tabs 1 @ ''material.clearcoatRoughness += geometryRoughness;'',
     tabs 1 @ ''material.clearcoatRoughness = min( material.clearcoatRoughness, 1.0 );'',
     ''#endif'',
     ''#ifdef USE_DISPERSION'',
     tabs 1 @ ''material.dispersion = dispersion;'',
     ''#endif'',
     ''#ifdef USE_IRIDESCENCE'',
     tabs 1 @ ''material.iridescence = iridescence;'',
     tabs 1 @ ''material.iridescenceIOR = iridescenceIOR;'',
     tabs 1 @ ''#ifdef USE_IRIDESCENCEMAP'',
     tabs 2 @ ''material.iridescence *= texture2D( iridescenceMap, vIridescenceMapUv ).r;'',
     tabs 1 @ ''#endif'',
     tabs 1 @ ''#ifdef USE_IRIDESCENCE_THICKNESSMAP'',
     tabs 2 @ ''material.iridescenceThickness = (iridescenceThicknessMaximum - iridescenceThicknessMinimum) * texture2D( iridescenceThicknessMap, vIridescenceThicknessMapUv ).g + iridescenceThicknessMinimum;'',
     tabs 1 @ ''#else'',
     tabs 2 @ ''material.iridescenceThickness = iridescenceThicknessMaximum;'',
     tabs 1 @ ''#endif'',
     ''#endif'',
     ''#ifdef USE_SHEEN'',
     tabs 1 @ ''material.sheenColor = sheenColor;'',
     tabs 1 @ ''#ifdef USE_SHEEN_COLORMAP'',
     tabs 2 @ ''material.sheenColor *= texture2D( sheenColorMap, vSheenColorMapUv ).rgb;'',
     tabs 1 @ ''#endif'',
     tabs 1 @ ''material.sheenRoughness = clamp( sheenRoughness, 0.07, 1.0 );'',
     tabs 1 @ ''#ifdef USE_SHEEN_ROUGHNESSMAP'',
     tabs 2 @ ''material.sheenRoughness *= texture2D( sheenRoughnessMap, vSheenRoughnessMapUv ).a;'',
     tabs 1 @ ''#endif'',
     ''#endif'',
     ''#ifdef USE_ANISOTROPY'',
     tabs 1 @ ''#ifdef USE_ANISOTROPYMAP'',
     tabs 2 @ ''mat2 anisotropyMat = mat2( anisotropyVector.x, anisotropyVector.y, - anisotropyVector.y, anisotropyVector.x );'',
     tabs 2 @ ''vec3 anisotropyPolar = texture2D( anisotropyMap, vAnisotropyMapUv ).rgb;'',
     tabs 2 @ ''vec2 anisotropyV = anisotropyMat * normalize( 2.0 * anisotropyPolar.rg - vec2( 1.0 ) ) * anisotropyPolar.b;'',
     tabs 1 @ ''#else'',
     tabs 2 @ ''vec2 anisotropyV = anisotropyVector;'',
     tabs 1 @ ''#endif'',
     tabs 1 @ ''material.anisotropy = length( anisotropyV );'',
     tabs 1 @ ''if( material.anisotropy == 0.0 ) {'',
     tabs 2 @ ''anisotropyV = vec2( 1.0, 0.0 );'',
     tabs 1 @ ''} else {'',
     tabs 2 @ ''anisotropyV /= material.anisotropy;'',
     tabs 2 @ ''material.anisotropy = saturate( material.anisotropy );'',
     tabs 1 @ ''}'',
     tabs 1 @ ''material.alphaT = mix( pow2( material.roughness ), 1.0, pow2( material.anisotropy ) );'',
     tabs 1 @ ''material.anisotropyT = tbn[ 0 ] * anisotropyV.x + tbn[ 1 ] * anisotropyV.y;'',
     tabs 1 @ ''material.anisotropyB = tbn[ 1 ] * anisotropyV.x - tbn[ 0 ] * anisotropyV.y;'',
     ''#endif'']"

lemma lights_physical_fragment_text [chunk_facts]:
  "lights_physical_fragment \<noteq> []" "nesting [] lights_physical_fragment = Some []" "include_list lights_physical_fragment = []"
  unfolding lights_physical_fragment_def
  by (simp_all add: line_defs cong: nesting_cong include_list_cong)

definition lights_physical_pars_fragment_brdf :: "string list" where
  "lights_physical_pars_fragment_brdf = [
     ''struct PhysicalMaterial {'',
     tabs 1 @ ''vec3 diffuseColor;'',
     tabs 1 @ ''float roughness;'',
     tabs 1 @ ''vec3 specularColor;'',
     tabs 1 @ ''float specularF90;'',
     tabs 1 @ ''float dispersion;'',
     tabs 1 @ ''#ifdef USE_CLEARCOAT'',
     tabs 2 @ ''float clearcoat;'',
     tabs 2 @ ''float clearcoatRoughness;'',
     tabs 2 @ ''vec3 clearcoatF0;'',
     tabs 2 @ ''float clearcoatF90;'',
     tabs 1 @ ''#endif'',
     tabs 1 @ ''#ifdef USE_IRIDESCENCE'',
     tabs 2 @ ''float iridescence;'',
     tabs 2 @ ''float iridescenceIOR;'',
     tabs 2 @ ''float iridescenceThickness;'',
     tabs 2 @ ''vec3 iridescenceFresnel;'',
     tabs 2 @ ''vec3 iridescenceF0;'',
     tabs 1 @ ''#endif'',
     tabs 1 @ ''#ifdef USE_SHEEN'',
     tabs 2 @ ''vec3 sheenColor;'',
     tabs 2 @ ''float sheenRoughness;'',
     tabs 1 @ ''#endif'',
     tabs 1 @ ''#ifdef IOR'',
     tabs 2 @ ''float ior;'',
     tabs 1 @ ''#endif'',
     tabs 1 @ ''#ifdef USE_TRANSMISSION'',
     tabs 2 @ ''float transmission;'',
     tabs 2 @ ''float transmissionAlpha;'',
     tabs 2 @ ''float thickness;'',
     tabs 2 @ ''float attenuationDistance;'',
     tabs 2 @ ''vec3 attenuationColor;'',
     tabs 1 @ ''#endif'',
     tabs 1 @ ''#ifdef USE_ANISOTROPY'',
     tabs 2 @ ''float anisotropy;'',
     tabs 2 @ ''float alphaT;'',
     tabs 2 @ ''vec3 anisotropyT;'',
     tabs 2 @ ''vec3 anisotropyB;'',
     tabs 1 @ ''#endif'',
     ''};'',
     ''vec3 clearcoatSpecularDirect = vec3( 0.0 );'',
     ''vec3 clearcoatSpecularIndirect = vec3( 0.0 );'',
     ''vec3 sheenSpecularDirect = vec3( 0.0 );'',
     ''vec3 sheenSpecularIndirect = vec3(0.0 );'',
     ''vec3 Schlick_to_F0( const in vec3 f, const in float f90, const in float dotVH ) {'',
     ''    float x = clamp( 1.0 - dotVH, 0.0, 1.0 );'',
     ''    float x2 = x * x;'',
     ''    float x5 = clamp( x * x2 * x2, 0.0, 0.9999 );'',
     ''    return ( f - vec3( f90 ) * x5 ) / ( 1.0 - x5 );'',
     ''}'',
     ''float V_GGX_SmithCorrelated( const in float alpha, const in float dotNL, const in float dotNV ) {'',
     tabs 1 @ ''float a2 = pow2( alpha );'',
     tabs 1 @ ''float gv = dotNL * sqrt( a2 + ( 1.0 - a2 ) * pow2( dotNV ) );'',
     tabs 1 @ ''float gl = dotNV * sqrt( a2 + ( 1.0 - a2 ) * pow2( dotNL ) );'',
     tabs 1 @ ''return 0.5 / max( gv + gl, EPSILON );'',
     ''}'',
     ''float D_GGX( const in float alpha, const in float dotNH ) {'',
     tabs 1 @ ''float a2 = pow2( alpha );'',
     tabs 1 @ ''float denom = pow2( dotNH ) * ( a2 - 1.0 ) + 1.0;'',
     tabs 1 @ ''return RECIPROCAL_PI * a2 / pow2( denom );'',
     ''}'',
     ''#ifdef USE_ANISOTROPY'',
     tabs 1 @ ''float V_GGX_SmithCorrelated_Anisotropic( const in float alphaT, const in float alphaB, const in float dotTV, const in float dotBV, const in float dotTL, const in float dotBL, const in float dotNV, const in float dotNL ) {'',
     tabs 2 @ ''float gv = dotNL * length( vec3( alphaT * dotTV, alphaB * dotBV, dotNV ) );'',
     tabs 2 @ ''float gl = dotNV * length( vec3( alphaT * dotTL, alphaB * dotBL, dotNL ) );'',
     tabs 2 @ ''float v = 0.5 / ( gv + gl );'',
     tabs 2 @ ''return saturate(v);'',
     tabs 1 @ ''}'',
     tabs 1 @ ''float D_GGX_Anisotropic( const in float alphaT, const in float alphaB, const in float dotNH, const in float dotTH, const in float dotBH ) {'',
     tabs 2 @ ''float a2 = alphaT * alphaB;'',
     tabs 2 @ ''highp vec3 v = vec3( alphaB * dotTH, alphaT * dotBH, a2 * dotNH );'',
     tabs 2 @ ''highp float v2 = dot( v, v );'',
     tabs 2 @ ''float w2 = a2 / v2;'',
     tabs 2 @ ''return RECIPROCAL_PI * a2 * pow2 ( w2 );'',
     tabs 1 @ ''}'',
     ''#endif'',
     ''#ifdef USE_CLEARCOAT'',
     tabs 1 @ ''vec3 BRDF_GGX_Clearcoat( const in vec3 lightDir, const in vec3 viewDir, const in vec3 normal, const in PhysicalMaterial material) {'',
     tabs 2 @ ''vec3 f0 = material.clearcoatF0;'',
     tabs 2 @ ''float f90 = material.clearcoatF90;'',
     tabs 2 @ ''float roughness = material.clearcoatRoughness;'',
     tabs 2 @ ''float alpha = pow2( roughness );'',
     tabs 2 @ ''vec3 halfDir = normalize( lightDir + viewDir );'',
     tabs 2 @ ''float dotNL = saturate( dot( normal, lightDir ) );'',
     tabs 2 @ ''float dotNV = saturate( dot( normal, viewDir ) );'',
     tabs 2 @ ''float dotNH = saturate( dot( normal, halfDir ) );'',
     tabs 2 @ ''float dotVH = saturate( dot( viewDir, halfDir ) );'',
     tabs 2 @ ''vec3 F = F_Schlick( f0, f90, dotVH );'',
     tabs 2 @ ''float V = V_GGX_SmithCorrelated( alpha, dotNL, dotNV );'',
     tabs 2 @ ''float D = D_GGX( alpha, dotNH );'',
     tabs 2 @ ''return F * ( V * D );'',
     tabs 1 @ ''}'',
     ''#endif'',
     ''vec3 BRDF_GGX( const in vec3 lightDir, const in vec3 viewDir, const in vec3 normal, const in PhysicalMaterial material ) {'',
     tabs 1 @ ''vec3 f0 = material.specularColor;'',
     tabs 1 @ ''float f90 = material.specularF90;'',
     tabs 1 @ ''float roughness = material.roughness;'',
     tabs 1 @ ''float alpha = pow2( roughness );'',
     tabs 1 @ ''vec3 halfDir = normalize( lightDir + viewDir );'',
     tabs 1 @ ''float dotNL = saturate( dot( normal, lightDir ) );'',
     tabs 1 @ ''float dotNV = saturate( dot( normal, viewDir ) );'',
     tabs 1 @ ''float dotNH = saturate( dot( normal, halfDir ) );'',
     tabs 1 @ ''float dotVH = saturate( dot( viewDir, halfDir ) );'',
     tabs 1 @ ''vec3 F = F_Schlick( f0, f90, dotVH );'',
     tabs 1 @ ''#ifdef USE_IRIDESCENCE'',
     tabs 2 @ ''F = mix( F, material.iridescenceFresnel, material.iridescence );'',
     tabs 1 @ ''#endif'',
     tabs 1 @ ''#ifdef USE_ANISOTROPY'',
     tabs 2 @ ''float dotTL = dot( material.anisotropyT, lightDir );'',
     tabs 2 @ ''float dotTV = dot( material.anisotropyT, viewDir );'',
     tabs 2 @ ''float dotTH = dot( material.anisotropyT, halfDir );'',
     tabs 2 @ ''float dotBL = dot( material.anisotropyB, lightDir );'',
     tabs 2 @ ''float dotBV = dot( material.anisotropyB, viewDir );'',
     tabs 2 @ ''float dotBH = dot( material.anisotropyB, halfDir );'',
     tabs 2 @ ''float V = V_GGX_SmithCorrelated_Anisotropic( material.alphaT, alpha, dotTV, dotBV, dotTL, dotBL, dotNV, dotNL );'',
     tabs 2 @ ''float D = D_GGX_Anisotropic( material.alphaT, alpha, dotNH, dotTH, dotBH );'',
     tabs 1 @ ''#else'',
     tabs 2 @ ''float V = V_GGX_SmithCorrelated( alpha, dotNL, dotNV );'',
     tabs 2 @ ''float D = D_GGX( alpha, dotNH );'',
     tabs 1 @ ''#endif'',
     tabs 1 @ ''return F * ( V * D );'',
     ''}'']"

lemma lights_physical_pars_fragment_brdf_text [chunk_facts]:
  "lights_physical_pars_fragment_brdf \<noteq> []" "nesting [] lights_physical_pars_fragment_brdf = Some []" "include_list lights_physical_pars_fragment_brdf = []"
  unfolding lights_physical_pars_fragment_brdf_def
  by (simp_all add: line_defs cong: nesting_cong include_list_cong)

definition lights_physical_pars_fragment_area :: "string list" where
  "lights_physical_pars_fragment_area = [
     ''vec2 LTC_Uv( const in vec3 N, const in vec3 V, const in float roughness ) {'',
     tabs 1 @ ''const float LUT_SIZE = 64.0;'',
     tabs 1 @ ''const float LUT_SCALE = ( LUT_SIZE - 1.0 ) / LUT_SIZE;'',
     tabs 1 @ ''const float LUT_BIAS = 0.5 / LUT_SIZE;'',
     tabs 1 @ ''float dotNV = saturate( dot( N, V ) );'',
     tabs 1 @ ''vec2 uv = vec2( roughness, sqrt( 1.0 - dotNV ) );'',
     tabs 1 @ ''uv = uv * LUT_SCALE + LUT_BIAS;'',
     tabs 1 @ ''return uv;'',
     ''}'',
     ''float LTC_ClippedSphereFormFactor( const in vec3 f ) {'',
     tabs 1 @ ''float l = length( f );'',
     tabs 1 @ ''return max( ( l * l + f.z ) / ( l + 1.0 ), 0.0 );'',
     ''}'',
     ''vec3 LTC_EdgeVectorFormFactor( const in vec3 v1, const in vec3 v2 ) {'',
     tabs 1 @ ''float x = dot( v1, v2 );'',
     tabs 1 @ ''float y = abs( x );'',
     tabs 1 @ ''float a = 0.8543985 + ( 0.4965155 + 0.0145206 * y ) * y;'',
     tabs 1 @ ''float b = 3.4175940 + ( 4.1616724 + y ) * y;'',
     tabs 1 @ ''float v = a / b;'',
     tabs 1 @ ''float theta_sintheta = ( x > 0.0 ) ? v : 0.5 * inversesqrt( max( 1.0 - x * x, 1e-7 ) ) - v;'',
     tabs 1 @ ''return cross( v1, v2 ) * theta_sintheta;'',
     ''}'',
     ''vec3 LTC_Evaluate( const in vec3 N, const in vec3 V, const in vec3 P, const in mat3 mInv, const in vec3 rectCoords[ 4 ] ) {'',
     tabs 1 @ ''vec3 v1 = rectCoords[ 1 ] - rectCoords[ 0 ];'',
     tabs 1 @ ''vec3 v2 = rectCoords[ 3 ] - rectCoords[ 0 ];'',
     tabs 1 @ ''vec3 lightNormal = cross( v1, v2 );'',
     tabs 1 @ ''if( dot( lightNormal, P - rectCoords[ 0 ] ) < 0.0 ) return vec3( 0.0 );'',
     tabs 1 @ ''vec3 T1, T2;'',
     tabs 1 @ ''T1 = normalize( V - N * dot( V, N ) );'',
     tabs 1 @ ''T2 = - cross( N, T1 );'',
     tabs 1 @ ''mat3 mat = mInv * transposeMat3( mat3( T1, T2, N ) );'',
     tabs 1 @ ''vec3 coords[ 4 ];'',
     tabs 1 @ ''coords[ 0 ] = mat * ( rectCoords[ 0 ] - P );'',
     tabs 1 @ ''coords[ 1 ] = mat * ( rectCoords[ 1 ] - P );'',
     tabs 1 @ ''coords[ 2 ] = mat * ( rectCoords[ 2 ] - P );'',
     tabs 1 @ ''coords[ 3 ] = mat * ( rectCoords[ 3 ] - P );'',
     tabs 1 @ ''coords[ 0 ] = normalize( coords[ 0 ] );'',
     tabs 1 @ ''coords[ 1 ] = normalize( coords[ 1 ] );'',
     tabs 1 @ ''coords[ 2 ] = normalize( coords[ 2 ] );'',
     tabs 1 @ ''coords[ 3 ] = normalize( coords[ 3 ] );'',
     tabs 1 @ ''vec3 vectorFormFactor = vec3( 0.0 );'',
     tabs 1 @ ''vectorFormFactor += LTC_EdgeVectorFormFactor( coords[ 0 ], coords[ 1 ] );'',
     tabs 1 @ ''vectorFormFactor += LTC_EdgeVectorFormFactor( coords[ 1 ], coords[ 2 ] );'',
     tabs 1 @ ''vectorFormFactor += LTC_EdgeVectorFormFactor( coords[ 2 ], coords[ 3 ] );'',
     tabs 1 @ ''vectorFormFactor += LTC_EdgeVectorFormFactor( coords[ 3 ], coords[ 0 ] );'',
     tabs 1 @ ''float result = LTC_ClippedSphereFormFactor( vectorFormFactor );'',
     tabs 1 @ ''return vec3( result );'',
     ''}'',
     ''#if defined( USE_SHEEN )'',
     ''float D_Charlie( float roughness, float dotNH ) {'',
     tabs 1 @ ''float alpha = pow2( roughness );'',
     tabs 1 @ ''float invAlpha = 1.0 / alpha;'',
     tabs 1 @ ''float cos2h = dotNH * dotNH;'',
     tabs 1 @ ''float sin2h = max( 1.0 - cos2h, 0.0078125 );'',
     tabs 1 @ ''return ( 2.0 + invAlpha ) * pow( sin2h, invAlpha * 0.5 ) / ( 2.0 * PI );'',
     ''}'',
     ''float V_Neubelt( float dotNV, float dotNL ) {'',
     tabs 1 @ ''return saturate( 1.0 / ( 4.0 * ( dotNL + dotNV - dotNL * dotNV ) ) );'',
     ''}'',
     ''vec3 BRDF_Sheen( const in vec3 lightDir, const in vec3 viewDir, const in vec3 normal, vec3 sheenColor, const in float sheenRoughness ) {'',
     tabs 1 @ ''vec3 halfDir = normalize( lightDir + viewDir );'',
     tabs 1 @ ''float dotNL = saturate( dot( normal, lightDir ) );'',
     tabs 1 @ ''float dotNV = saturate( dot( normal, viewDir ) );'',
     tabs 1 @ ''float dotNH = saturate( dot( normal, halfDir ) );'',
     tabs 1 @ ''float D = D_Charlie( sheenRoughness, dotNH );'',
     tabs 1 @ ''float V = V_Neubelt( dotNV, dotNL );'',
     tabs 1 @ ''return sheenColor * ( D * V );'',
     ''}'',
     ''#endif'',
     ''float IBLSheenBRDF( const in vec3 normal, const in vec3 viewDir, const in float roughness ) {'',
     tabs 1 @ ''float dotNV = saturate( dot( normal, viewDir ) );'',
     tabs 1 @ ''float r2 = roughness * roughness;'',
     tabs 1 @ ''float a = roughness < 0.25 ? -339.2 * r2 + 161.4 * roughness - 25.9 : -8.48 * r2 + 14.3 * roughness - 9.95;'',
     tabs 1 @ ''float b = roughness < 0.25 ? 44.0 * r2 - 23.7 * roughness + 3.26 : 1.97 * r2 - 3.27 * roughness + 0.72;'',
     tabs 1 @ ''float DG = exp( a * dotNV + b ) + ( roughness < 0.25 ? 0.0 : 0.1 * ( roughness - 0.25 ) );'',
     tabs 1 @ ''return saturate( DG * RECIPROCAL_PI );'',
     ''}'',
     ''vec2 DFGApprox( const in vec3 normal, const in vec3 viewDir, const in float roughness ) {'',
     tabs 1 @ ''float dotNV = saturate( dot( normal, viewDir ) );'',
     tabs 1 @ ''const vec4 c0 = vec4( - 1, - 0.0275, - 0.572, 0.022 );'',
     tabs 1 @ ''const vec4 c1 = vec4( 1, 0.0425, 1.04, - 0.04 );'',
     tabs 1 @ ''vec4 r = roughness * c0 + c1;'',
     tabs 1 @ ''float a004 = min( r.x * r.x, exp2( - 9.28 * dotNV ) ) * r.x + r.y;'',
     tabs 1 @ ''vec2 fab = vec2( - 1.04, 1.04 ) * a004 + r.zw;'',
     tabs 1 @ ''return fab;'',
     ''}'',
     ''vec3 EnvironmentBRDF( const in vec3 normal, const in vec3 viewDir, const in vec3 specularColor, const in float specularF90, const in float roughness ) {'',
     tabs 1 @ ''vec2 fab = DFGApprox( normal, viewDir, roughness );'',
     tabs 1 @ ''return specularColor * fab.x + specularF90 * fab.y;'',
     ''}'']"

lemma lights_physical_pars_fragment_area_text [chunk_facts]:
  "lights_physical_pars_fragment_area \<noteq> []" "nesting [] lights_physical_pars_fragment_area = Some []" "include_list lights_physical_pars_fragment_area = []"
  unfolding lights_physical_pars_fragment_area_def
  by (simp_all add: line_defs cong: nesting_cong include_list_cong)

definition lights_physical_pars_fragment_render :: "string list" where
  "lights_physical_pars_fragment_render = [
     ''#ifdef USE_IRIDESCENCE'',
     ''void computeMultiscatteringIridescence( const in vec3 normal, const in vec3 viewDir, const in vec3 specularColor, const in float specularF90, const in float iridescence, const in vec3 iridescenceF0, const in float roughness, inout vec3 singleScatter, inout vec3 multiScatter ) {'',
     ''#else'',
     ''void computeMultiscattering( const in vec3 normal, const in vec3 viewDir, const in vec3 specularColor, const in float specularF90, const in float roughness, inout vec3 singleScatter, inout vec3 multiScatter ) {'',
     ''#endif'',
     tabs 1 @ ''vec2 fab = DFGApprox( normal, viewDir, roughness );'',
     tabs 1 @ ''#ifdef USE_IRIDESCENCE'',
     tabs 2 @ ''vec3 Fr = mix( specularColor, iridescenceF0, iridescence );'',
     tabs 1 @ ''#else'',
     tabs 2 @ ''vec3 Fr = specularColor;'',
     tabs 1 @ ''#endif'',
     tabs 1 @ ''vec3 FssEss = Fr * fab.x + specularF90 * fab.y;'',
     tabs 1 @ ''float Ess = fab.x + fab.y;'',
     tabs 1 @ ''float Ems = 1.0 - Ess;'',
     tabs 1 @ ''vec3 Favg = Fr + ( 1.0 - Fr ) * 0.047619;'' @ tabs 1 @ ''vec3 Fms = FssEss * Favg / ( 1.0 - Ems * Favg );'',
     tabs 1 @ ''singleScatter += FssEss;'',
     tabs 1 @ ''multiScatter += Fms * Ems;'',
     ''}'',
     ''#if NUM_RECT_AREA_LIGHTS > 0'',
     tabs 1 @ ''void RE_Direct_RectArea_Physical( const in RectAreaLight rectAreaLight, const in vec3 geometryPosition, const in vec3 geometryNormal, const in vec3 geometryViewDir, const in vec3 geometryClearcoatNormal, const in PhysicalMaterial material, inout ReflectedLight reflectedLight ) {'',
     tabs 2 @ ''vec3 normal = geometryNormal;'',
     tabs 2 @ ''vec3 viewDir = geometryViewDir;'',
     tabs 2 @ ''vec3 position = geometryPosition;'',
     tabs 2 @ ''vec3 lightPos = rectAreaLight.position;'',
     tabs 2 @ ''vec3 halfWidth = rectAreaLight.halfWidth;'',
     tabs 2 @ ''vec3 halfHeight = rectAreaLight.halfHeight;'',
     tabs 2 @ ''vec3 lightColor = rectAreaLight.color;'',
     tabs 2 @ ''float roughness = material.roughness;'',
     tabs 2 @ ''vec3 rectCoords[ 4 ];'',
     tabs 2 @ ''rectCoords[ 0 ] = lightPos + halfWidth - halfHeight;'' @ tabs 2 @ ''rectCoords[ 1 ] = lightPos - halfWidth - halfHeight;'',
     tabs 2 @ ''rectCoords[ 2 ] = lightPos - halfWidth + halfHeight;'',
     tabs 2 @ ''rectCoords[ 3 ] = lightPos + halfWidth + halfHeight;'',
     tabs 2 @ ''vec2 uv = LTC_Uv( normal, viewDir, roughness );'',
     tabs 2 @ ''vec4 t1 = texture2D( ltc_1, uv );'',
     tabs 2 @ ''vec4 t2 = texture2D( ltc_2, uv );'',
     tabs 2 @ ''mat3 mInv = mat3('',
     tabs 3 @ ''vec3( t1.x, 0, t1.y ),'',
     tabs 3 @ ''vec3(    0, 1,    0 ),'',
     tabs 3 @ ''vec3( t1.z, 0, t1.w )'',
     tabs 2 @ '');'',
     tabs 2 @ ''vec3 fresnel = ( material.specularColor * t2.x + ( vec3( 1.0 ) - material.specularColor ) * t2.y );'',
     tabs 2 @ ''reflectedLight.directSpecular += lightColor * fresnel * LTC_Evaluate( normal, viewDir, position, mInv, rectCoords );'',
     tabs 2 @ ''reflectedLight.directDiffuse += lightColor * material.diffuseColor * LTC_Evaluate( normal, viewDir, position, mat3( 1.0 ), rectCoords );'',
     tabs 1 @ ''}'',
     ''#endif'',
     ''void RE_Direct_Physical( const in IncidentLight directLight, const in vec3 geometryPosition, const in vec3 geometryNormal, const in vec3 geometryViewDir, const in vec3 geometryClearcoatNormal, const in PhysicalMaterial material, inout ReflectedLight reflectedLight ) {'',
     tabs 1 @ ''float dotNL = saturate( dot( geometryNormal, directLight.direction ) );'',
     tabs 1 @ ''vec3 irradiance = dotNL * directLight.color;'',
     tabs 1 @ ''#ifdef USE_CLEARCOAT'',
     tabs 2 @ ''float dotNLcc = saturate( dot( geometryClearcoatNormal, directLight.direction ) );'',
     tabs 2 @ ''vec3 ccIrradiance = dotNLcc * directLight.color;'',
     tabs 2 @ ''clearcoatSpecularDirect += ccIrradiance * BRDF_GGX_Clearcoat( directLight.direction, geometryViewDir, geometryClearcoatNormal, material );'',
     tabs 1 @ ''#endif'',
     tabs 1 @ ''#ifdef USE_SHEEN'',
     tabs 2 @ ''sheenSpecularDirect += irradiance * BRDF_Sheen( directLight.direction, geometryViewDir, geometryNormal, material.sheenColor, material.sheenRoughness );'',
     tabs 1 @ ''#endif'',
     tabs 1 @ ''reflectedLight.directSpecular += irradiance * BRDF_GGX( directLight.direction, geometryViewDir, geometryNormal, material );'',
     tabs 1 @ ''reflectedLight.directDiffuse += irradiance * BRDF_Lambert( material.diffuseColor );'',
     ''}'',
     ''void RE_IndirectDiffuse_Physical( const in vec3 irradiance, const in vec3 geometryPosition, const in vec3 geometryNormal, const in vec3 geometryViewDir, const in vec3 geometryClearcoatNormal, const in PhysicalMaterial material, inout ReflectedLight reflectedLight ) {'',
     tabs 1 @ ''reflectedLight.indirectDiffuse += irradiance * BRDF_Lambert( material.diffuseColor );'',
     ''}'',
     ''void RE_IndirectSpecular_Physical( const in vec3 radiance, const in vec3 irradiance, const in vec3 clearcoatRadiance, const in vec3 geometryPosition, const in vec3 geometryNormal, const in vec3 geometryViewDir, const in vec3 geometryClearcoatNormal, const in PhysicalMaterial material, inout ReflectedLight reflectedLight) {'',
     tabs 1 @ ''#ifdef USE_CLEARCOAT'',
     tabs 2 @ ''clearcoatSpecularIndirect += clearcoatRadiance * EnvironmentBRDF( geometryClearcoatNormal, geometryViewDir, material.clearcoatF0, material.clearcoatF90, material.clearcoatRoughness );'',
     tabs 1 @ ''#endif'',
     tabs 1 @ ''#ifdef USE_SHEEN'',
     tabs 2 @ ''sheenSpecularIndirect += irradiance * material.sheenColor * IBLSheenBRDF( geometryNormal, geometryViewDir, material.sheenRoughness );'',
     tabs 1 @ ''#endif'',
     tabs 1 @ ''vec3 singleScattering = vec3( 0.0 );'',
     tabs 1 @ ''vec3 multiScattering = vec3( 0.0 );'',
     tabs 1 @ ''vec3 cosineWeightedIrradiance = irradiance * RECIPROCAL_PI;'',
     tabs 1 @ ''#ifdef USE_IRIDESCENCE'',
     tabs 2 @ ''computeMultiscatteringIridescence( geometryNormal, geometryViewDir, material.specularColor, material.specularF90, material.iridescence, material.iridescenceFresnel, material.roughness, singleScattering, multiScattering );'',
     tabs 1 @ ''#else'',
     tabs 2 @ ''computeMultiscattering( geometryNormal, geometryViewDir, material.specularColor, material.specularF90, material.roughness, singleScattering, multiScattering );'',
     tabs 1 @ ''#endif'',
     tabs 1 @ ''vec3 totalScattering = singleScattering + multiScattering;'',
     tabs 1 @ ''vec3 diffuse = material.diffuseColor * ( 1.0 - max( max( totalScattering.r, totalScattering.g ), totalScattering.b ) );'',
     tabs 1 @ ''reflectedLight.indirectSpecular += radiance * singleScattering;'',
     tabs 1 @ ''reflectedLight.indirectSpecular += multiScattering * cosineWeightedIrradiance;'',
     tabs 1 @ ''reflectedLight.indirectDiffuse += diffuse * cosineWeightedIrradiance;'',
     ''}'',
     ''#define RE_Direct'' @ tabs 4 @ ''RE_Direct_Physical'',
     ''#define RE_Direct_RectArea'' @ tabs 2 @ ''RE_Direct_RectArea_Physical'',
     ''#define RE_IndirectDiffuse'' @ tabs 2 @ ''RE_IndirectDiffuse_Physical'',
     ''#define RE_IndirectSpecular'' @ tabs 2 @ ''RE_IndirectSpecular_Physical'',
     ''float computeSpecularOcclusion( const in float dotNV, const in float ambientOcclusion, const in float roughness ) {'',
     tabs 1 @ ''return saturate( pow( dotNV + ambientOcclusion, exp2( - 16.0 * roughness - 1.0 ) ) - 1.0 + ambientOcclusion );'',
     ''}'']"

lemma lights_physical_pars_fragment_render_text [chunk_facts]:
  "lights_physical_pars_fragment_render \<noteq> []" "nesting [] lights_physical_pars_fragment_render = Some []" "include_list lights_physical_pars_fragment_render = []"
  unfolding lights_physical_pars_fragment_render_def
  by (simp_all add: line_defs cong: nesting_cong include_list_cong)

definition lights_physical_pars_fragment :: "string list" where
  "lights_physical_pars_fragment = lights_physical_pars_fragment_brdf @ lights_physical_pars_fragment_area @ lights_physical_pars_fragment_render"

lemma lights_physical_pars_fragment_text [chunk_facts]:
  "lights_physical_pars_fragment \<noteq> []" "nesting [] lights_physical_pars_fragment = Some []" "include_list lights_physical_pars_fragment = []"
  by (simp_all add: lights_physical_pars_fragment_def nesting_append include_list_append chunk_facts)

definition lights_fragment_begin :: "string list" where
  "lights_fragment_begin = [
     [],
     ''vec3 geometryPosition = - vViewPosition;'',
     ''vec3 geometryNormal = normal;'',
     ''vec3 geometryViewDir = ( isOrthographic ) ? vec3( 0, 0, 1 ) : normalize( vViewPosition );'',
     ''vec3 geometryClearcoatNormal = vec3( 0.0 );'',
     ''#ifdef USE_CLEARCOAT'',
     tabs 1 @ ''geometryClearcoatNormal = clearcoatNormal;'',
     ''#endif'',
     ''#ifdef USE_IRIDESCENCE'',
     tabs 1 @ ''float dotNVi = saturate( dot( normal, geometryViewDir ) );'',
     tabs 1 @ ''if ( material.iridescenceThickness == 0.0 ) {'',
     tabs 2 @ ''material.iridescence = 0.0;'',
     tabs 1 @ ''} else {'',
     tabs 2 @ ''material.iridescence = saturate( material.iridescence );'',
     tabs 1 @ ''}'',
     tabs 1 @ ''if ( material.iridescence > 0.0 ) {'',
     tabs 2 @ ''material.iridescenceFresnel = evalIridescence( 1.0, material.iridescenceIOR, dotNVi, material.iridescenceThickness, material.specularColor );'',
     tabs 2 @ ''material.iridescenceF0 = Schlick_to_F0( material.iridescenceFresnel, 1.0, dotNVi );'',
     tabs 1 @ ''}'',
     ''#endif'',
     ''IncidentLight directLight;'',
     ''#if ( NUM_POINT_LIGHTS > 0 ) && defined( RE_Direct )'',
     tabs 1 @ ''PointLight pointLight;'',
     tabs 1 @ ''#if defined( USE_SHADOWMAP ) && NUM_POINT_LIGHT_SHADOWS > 0'',
     tabs 1 @ ''PointLightShadow pointLightShadow;'',
     tabs 1 @ ''#endif'',
     tabs 1 @ ''#pragma unroll_loop_start'',
     tabs 1 @ ''for ( int i = 0; i < NUM_POINT_LIGHTS; i ++ ) {'',
     tabs 2 @ ''pointLight = pointLights[ i ];'',
     tabs 2 @ ''getPointLightInfo( pointLight, geometryPosition, directLight );'',
     tabs 2 @ ''#if defined( USE_SHADOWMAP ) && ( UNROLLED_LOOP_INDEX < NUM_POINT_LIGHT_SHADOWS )'',
     tabs 2 @ ''pointLightShadow = pointLightShadows[ i ];'',
     tabs 2 @ ''directLight.color *= ( directLight.visible && receiveShadow ) ? getPointShadow( pointShadowMap[ i ], pointLightShadow.shadowMapSize, pointLightShadow.shadowIntensity, pointLightShadow.shadowBias, pointLightShadow.shadowRadius, vPointShadowCoord[ i ], pointLightShadow.shadowCameraNear, pointLightShadow.shadowCameraFar ) : 1.0;'',
     tabs 2 @ ''#endif'',
     tabs 2 @ ''RE_Direct( directLight, geometryPosition, geometryNormal, geometryViewDir, geometryClearcoatNormal, material, reflectedLight );'',
     tabs 1 @ ''}'',
     tabs 1 @ ''#pragma unroll_loop_end'',
     ''#endif'',
     ''#if ( NUM_SPOT_LIGHTS > 0 ) && defined( RE_Direct )'',
     tabs 1 @ ''SpotLight spotLight;'',
     tabs 1 @ ''vec4 spotColor;'',
     tabs 1 @ ''vec3 spotLightCoord;'',
     tabs 1 @ ''bool inSpotLightMap;'',
     tabs 1 @ ''#if defined( USE_SHADOWMAP ) && NUM_SPOT_LIGHT_SHADOWS > 0'',
     tabs 1 @ ''SpotLightShadow spotLightShadow;'',
     tabs 1 @ ''#endif'',
     tabs 1 @ ''#pragma unroll_loop_start'',
     tabs 1 @ ''for ( int i = 0; i < NUM_SPOT_LIGHTS; i ++ ) {'',
     tabs 2 @ ''spotLight = spotLights[ i ];'',
     tabs 2 @ ''getSpotLightInfo( spotLight, geometryPosition, directLight );'',
     tabs 2 @ ''#if ( UNROLLED_LOOP_INDEX < NUM_SPOT_LIGHT_SHADOWS_WITH_MAPS )'',
     tabs 2 @ ''#define SPOT_LIGHT_MAP_INDEX UNROLLED_LOOP_INDEX'',
     tabs 2 @ ''#elif ( UNROLLED_LOOP_INDEX < NUM_SPOT_LIGHT_SHADOWS )'',
     tabs 2 @ ''#define SPOT_LIGHT_MAP_INDEX NUM_SPOT_LIGHT_MAPS'',
     tabs 2 @ ''#else'',
     tabs 2 @ ''#define SPOT_LIGHT_MAP_INDEX ( UNROLLED_LOOP_INDEX - NUM_SPOT_LIGHT_SHADOWS + NUM_SPOT_LIGHT_SHADOWS_WITH_MAPS )'',
     tabs 2 @ ''#endif'',
     tabs 2 @ ''#if ( SPOT_LIGHT_MAP_INDEX < NUM_SPOT_LIGHT_MAPS )'',
     tabs 3 @ ''spotLightCoord = vSpotLightCoord[ i ].xyz / vSpotLightCoord[ i ].w;'',
     tabs 3 @ ''inSpotLightMap = all( lessThan( abs( spotLightCoord * 2. - 1. ), vec3( 1.0 ) ) );'',
     tabs 3 @ ''spotColor = texture2D( spotLightMap[ SPOT_LIGHT_MAP_INDEX ], spotLightCoord.xy );'',
     tabs 3 @ ''directLight.color = inSpotLightMap ? directLight.color * spotColor.rgb : directLight.color;'',
     tabs 2 @ ''#endif'',
     tabs 2 @ ''#undef SPOT_LIGHT_MAP_INDEX'',
     tabs 2 @ ''#if defined( USE_SHADOWMAP ) && ( UNROLLED_LOOP_INDEX < NUM_SPOT_LIGHT_SHADOWS )'',
     tabs 2 @ ''spotLightShadow = spotLightShadows[ i ];'',
     tabs 2 @ ''directLight.color *= ( directLight.visible && receiveShadow ) ? getShadow( spotShadowMap[ i ], spotLightShadow.shadowMapSize, spotLightShadow.shadowIntensity, spotLightShadow.shadowBias, spotLightShadow.shadowRadius, vSpotLightCoord[ i ] ) : 1.0;'',
     tabs 2 @ ''#endif'',
     tabs 2 @ ''RE_Direct( directLight, geometryPosition, geometryNormal, geometryViewDir, geometryClearcoatNormal, material, reflectedLight );'',
     tabs 1 @ ''}'',
     tabs 1 @ ''#pragma unroll_loop_end'',
     ''#endif'',
     ''#if ( NUM_DIR_LIGHTS > 0 ) && defined( RE_Direct )'',
     tabs 1 @ ''DirectionalLight directionalLight;'',
     tabs 1 @ ''#if defined( USE_SHADOWMAP ) && NUM_DIR_LIGHT_SHADOWS > 0'',
     tabs 1 @ ''DirectionalLightShadow directionalLightShadow;'',
     tabs 1 @ ''#endif'',
     tabs 1 @ ''#pragma unroll_loop_start'',
     tabs 1 @ ''for ( int i = 0; i < NUM_DIR_LIGHTS; i ++ ) {'',
     tabs 2 @ ''directionalLight = directionalLights[ i ];'',
     tabs 2 @ ''getDirectionalLightInfo( directionalLight, directLight );'',
     tabs 2 @ ''#if defined( USE_SHADOWMAP ) && ( UNROLLED_LOOP_INDEX < NUM_DIR_LIGHT_SHADOWS )'',
     tabs 2 @ ''directionalLightShadow = directionalLightShadows[ i ];'',
     tabs 2 @ ''directLight.color *= ( directLight.visible && receiveShadow ) ? getShadow( directionalShadowMap[ i ], directionalLightShadow.shadowMapSize, directionalLightShadow.shadowIntensity, directionalLightShadow.shadowBias, directionalLightShadow.shadowRadius, vDirectionalShadowCoord[ i ] ) : 1.0;'',
     tabs 2 @ ''#endif'',
     tabs 2 @ ''RE_Direct( directLight, geometryPosition, geometryNormal, geometryViewDir, geometryClearcoatNormal, material, reflectedLight );'',
     tabs 1 @ ''}'',
     tabs 1 @ ''#pragma unroll_loop_end'',
     ''#endif'',
     ''#if ( NUM_RECT_AREA_LIGHTS > 0 ) && defined( RE_Direct_RectArea )'',
     tabs 1 @ ''RectAreaLight rectAreaLight;'',
     tabs 1 @ ''#pragma unroll_loop_start'',
     tabs 1 @ ''for ( int i = 0; i < NUM_RECT_AREA_LIGHTS; i ++ ) {'',
     tabs 2 @ ''rectAreaLight = rectAreaLights[ i ];'',
     tabs 2 @ ''RE_Direct_RectArea( rectAreaLight, geometryPosition, geometryNormal, geometryViewDir, geometryClearcoatNormal, material, reflectedLight );'',
     tabs 1 @ ''}'',
     tabs 1 @ ''#pragma unroll_loop_end'',
     ''#endif'',
     ''#if defined( RE_IndirectDiffuse )'',
     tabs 1 @ ''vec3 iblIrradiance = vec3( 0.0 );'',
     tabs 1 @ ''vec3 irradiance = getAmbientLightIrradiance( ambientLightColor );'',
     tabs 1 @ ''#if defined( USE_LIGHT_PROBES )'',
     tabs 2 @ ''irradiance += getLightProbeIrradiance( lightProbe, geometryNormal );'',
     tabs 1 @ ''#endif'',
     tabs 1 @ ''#if ( NUM_HEMI_LIGHTS > 0 )'',
     tabs 2 @ ''#pragma unroll_loop_start'',
     tabs 2 @ ''for ( int i = 0; i < NUM_HEMI_LIGHTS; i ++ ) {'',
     tabs 3 @ ''irradiance += getHemisphereLightIrradiance( hemisphereLights[ i ], geometryNormal );'',
     tabs 2 @ ''}'',
     tabs 2 @ ''#pragma unroll_loop_end'',
     tabs 1 @ ''#endif'',
     ''#endif'',
     ''#if defined( RE_IndirectSpecular )'',
     tabs 1 @ ''vec3 radiance = vec3( 0.0 );'',
     tabs 1 @ ''vec3 clearcoatRadiance = vec3( 0.0 );'',
     ''#endif'']"

lemma lights_fragment_begin_text [chunk_facts]:
  "lights_fragment_begin \<noteq> []" "nesting [] lights_fragment_begin = Some []" "include_list lights_fragment_begin = []"
  unfolding lights_fragment_begin_def
  by (simp_all add: line_defs cong: nesting_cong include_list_cong)

definition lights_fragment_maps :: "string list" where
  "lights_fragment_maps = [
     ''#if defined( RE_IndirectDiffuse )'',
     tabs 1 @ ''#ifdef USE_LIGHTMAP'',
     tabs 2 @ ''vec4 lightMapTexel = texture2D( lightMap, vLightMapUv );'',
     tabs 2 @ ''vec3 lightMapIrradiance = lightMapTexel.rgb * lightMapIntensity;'',
     tabs 2 @ ''irradiance += lightMapIrradiance;'',
     tabs 1 @ ''#endif'',
     tabs 1 @ ''#if defined( USE_ENVMAP ) && defined( STANDARD ) && defined( ENVMAP_TYPE_CUBE_UV )'',
     tabs 2 @ ''iblIrradiance += getIBLIrradiance( geometryNormal );'',
     tabs 1 @ ''#endif'',
     ''#endif'',
     ''#if defined( USE_ENVMAP ) && defined( RE_IndirectSpecular )'',
     tabs 1 @ ''#ifdef USE_ANISOTROPY'',
     tabs 2 @ ''radiance += getIBLAnisotropyRadiance( geometryViewDir, geometryNormal, material.roughness, material.anisotropyB, material.anisotropy );'',
     tabs 1 @ ''#else'',
     tabs 2 @ ''radiance += getIBLRadiance( geometryViewDir, geometryNormal, material.roughness );'',
     tabs 1 @ ''#endif'',
     tabs 1 @ ''#ifdef USE_CLEARCOAT'',
     tabs 2 @ ''clearcoatRadiance += getIBLRadiance( geometryViewDir, geometryClearcoatNormal, material.clearcoatRoughness );'',
     tabs 1 @ ''#endif'',
     ''#endif'']"

lemma lights_fragment_maps_text [chunk_facts]:
  "lights_fragment_maps \<noteq> []" "nesting [] lights_fragment_maps = Some []" "include_list lights_fragment_maps = []"
  unfolding lights_fragment_maps_def
  by (simp_all add: line_defs cong: nesting_cong include_list_cong)

definition lights_fragment_end :: "string list" where
  "lights_fragment_end = [
     ''#if defined( RE_IndirectDiffuse )'',
     tabs 1 @ ''RE_IndirectDiffuse( irradiance, geometryPosition, geometryNormal, geometryViewDir, geometryClearcoatNormal, material, reflectedLight );'',
     ''#endif'',
     ''#if defined( RE_IndirectSpecular )'',
     tabs 1 @ ''RE_IndirectSpecular( radiance, iblIrradiance, clearcoatRadiance, geometryPosition, geometryNormal, geometryViewDir, geometryClearcoatNormal, material, reflectedLight );'',
     ''#endif'']"

lemma lights_fragment_end_text [chunk_facts]:
  "lights_fragment_end \<noteq> []" "nesting [] lights_fragment_end = Some []" "include_list lights_fragment_end = []"
  unfolding lights_fragment_end_def
  by (simp_all add: line_defs cong: nesting_cong include_list_cong)

definition shadowmap_pars_fragment_lookup :: "string list" where
  "shadowmap_pars_fragment_lookup = [
     ''#if NUM_SPOT_LIGHT_COORDS > 0'',
     tabs 1 @ ''varying vec4 vSpotLightCoord[ NUM_SPOT_LIGHT_COORDS ];'',
     ''#endif'',
     ''#if NUM_SPOT_LIGHT_MAPS > 0'',
     tabs 1 @ ''uniform sampler2D spotLightMap[ NUM_SPOT_LIGHT_MAPS ];'',
     ''#endif'',
     ''#ifdef USE_SHADOWMAP'',
     tabs 1 @ ''#if NUM_DIR_LIGHT_SHADOWS > 0'',
     tabs 2 @ ''uniform sampler2D directionalShadowMap[ NUM_DIR_LIGHT_SHADOWS ];'',
     tabs 2 @ ''varying vec4 vDirectionalShadowCoord[ NUM_DIR_LIGHT_SHADOWS ];'',
     tabs 2 @ ''struct DirectionalLightShadow {'',
     tabs 3 @ ''float shadowIntensity;'',
     tabs 3 @ ''float shadowBias;'',
     tabs 3 @ ''float shadowNormalBias;'',
     tabs 3 @ ''float shadowRadius;'',
     tabs 3 @ ''vec2 shadowMapSize;'',
     tabs 2 @ ''};'',
     tabs 2 @ ''uniform DirectionalLightShadow directionalLightShadows[ NUM_DIR_LIGHT_SHADOWS ];'',
     tabs 1 @ ''#endif'',
     tabs 1 @ ''#if NUM_SPOT_LIGHT_SHADOWS > 0'',
     tabs 2 @ ''uniform sampler2D spotShadowMap[ NUM_SPOT_LIGHT_SHADOWS ];'',
     tabs 2 @ ''struct SpotLightShadow {'',
     tabs 3 @ ''float shadowIntensity;'',
     tabs 3 @ ''float shadowBias;'',
     tabs 3 @ ''float shadowNormalBias;'',
     tabs 3 @ ''float shadowRadius;'',
     tabs 3 @ ''vec2 shadowMapSize;'',
     tabs 2 @ ''};'',
     tabs 2 @ ''uniform SpotLightShadow spotLightShadows[ NUM_SPOT_LIGHT_SHADOWS ];'',
     tabs 1 @ ''#endif'',
     tabs 1 @ ''#if NUM_POINT_LIGHT_SHADOWS > 0'',
     tabs 2 @ ''uniform sampler2D pointShadowMap[ NUM_POINT_LIGHT_SHADOWS ];'',
     tabs 2 @ ''varying vec4 vPointShadowCoord[ NUM_POINT_LIGHT_SHADOWS ];'',
     tabs 2 @ ''struct PointLightShadow {'',
     tabs 3 @ ''float shadowIntensity;'',
     tabs 3 @ ''float shadowBias;'',
     tabs 3 @ ''float shadowNormalBias;'',
     tabs 3 @ ''float shadowRadius;'',
     tabs 3 @ ''vec2 shadowMapSize;'',
     tabs 3 @ ''float shadowCameraNear;'',
     tabs 3 @ ''float shadowCameraFar;'',
     tabs 2 @ ''};'',
     tabs 2 @ ''uniform PointLightShadow pointLightShadows[ NUM_POINT_LIGHT_SHADOWS ];'',
     tabs 1 @ ''#endif'',
     tabs 1 @ ''float texture2DCompare( sampler2D depths, vec2 uv, float compare ) {'',
     tabs 2 @ ''float depth = unpackRGBAToDepth( texture2D( depths, uv ) );'',
     tabs 2 @ ''#ifdef USE_REVERSED_DEPTH_BUFFER'',
     tabs 3 @ ''return step( depth, compare );'',
     tabs 2 @ ''#else'',
     tabs 3 @ ''return step( compare, depth );'',
     tabs 2 @ ''#endif'',
     tabs 1 @ ''}'',
     tabs 1 @ ''vec2 texture2DDistribution( sampler2D shadow, vec2 uv ) {'',
     tabs 2 @ ''return unpackRGBATo2Half( texture2D( shadow, uv ) );'',
     tabs 1 @ ''}'',
     tabs 1 @ ''float VSMShadow( sampler2D shadow, vec2 uv, float compare ) {'',
     tabs 2 @ ''float occlusion = 1.0;'',
     tabs 2 @ ''vec2 distribution = texture2DDistribution( shadow, uv );'',
     tabs 2 @ ''#ifdef USE_REVERSED_DEPTH_BUFFER'',
     tabs 3 @ ''float hard_shadow = step( distribution.x, compare );'',
     tabs 2 @ ''#else'',
     tabs 3 @ ''float hard_shadow = step( compare, distribution.x );'',
     tabs 2 @ ''#endif'',
     tabs 2 @ ''if ( hard_shadow != 1.0 ) {'',
     tabs 3 @ ''float distance = compare - distribution.x;'',
     tabs 3 @ ''float variance = max( 0.00000, distribution.y * distribution.y );'',
     tabs 3 @ ''float softness_probability = variance / (variance + distance * distance );'' @ tabs 3 @ ''softness_probability = clamp( ( softness_probability - 0.3 ) / ( 0.95 - 0.3 ), 0.0, 1.0 );'' @ tabs 3 @ ''occlusion = clamp( max( hard_shadow, softness_probability ), 0.0, 1.0 );'',
     tabs 2 @ ''}'',
     tabs 2 @ ''return occlusion;'',
     tabs 1 @ ''}'']"

lemma shadowmap_pars_fragment_lookup_text [chunk_facts]:
  "shadowmap_pars_fragment_lookup \<noteq> []" "nesting [] shadowmap_pars_fragment_lookup = Some [False]" "include_list shadowmap_pars_fragment_lookup = []"
  unfolding shadowmap_pars_fragment_lookup_def
  by (simp_all add: line_defs cong: nesting_cong include_list_cong)

definition shadowmap_pars_fragment_filters :: "string list" where
  "shadowmap_pars_fragment_filters = [
     tabs 1 @ ''float getShadow( sampler2D shadowMap, vec2 shadowMapSize, float shadowIntensity, float shadowBias, float shadowRadius, vec4 shadowCoord ) {'',
     tabs 2 @ ''float shadow = 1.0;'',
     tabs 2 @ ''shadowCoord.xyz /= shadowCoord.w;'',
     tabs 2 @ ''shadowCoord.z += shadowBias;'',
     tabs 2 @ ''bool inFrustum = shadowCoord.x >= 0.0 && shadowCoord.x <= 1.0 && shadowCoord.y >= 0.0 && shadowCoord.y <= 1.0;'',
     tabs 2 @ ''bool frustumTest = inFrustum && shadowCoord.z <= 1.0;'',
     tabs 2 @ ''if ( frustumTest ) {'',
     tabs 2 @ ''#if defined( SHADOWMAP_TYPE_PCF )'',
     tabs 3 @ ''vec2 texelSize = vec2( 1.0 ) / shadowMapSize;'',
     tabs 3 @ ''float dx0 = - texelSize.x * shadowRadius;'',
     tabs 3 @ ''float dy0 = - texelSize.y * shadowRadius;'',
     tabs 3 @ ''float dx1 = + texelSize.x * shadowRadius;'',
     tabs 3 @ ''float dy1 = + texelSize.y * shadowRadius;'',
     tabs 3 @ ''float dx2 = dx0 / 2.0;'',
     tabs 3 @ ''float dy2 = dy0 / 2.0;'',
     tabs 3 @ ''float dx3 = dx1 / 2.0;'',
     tabs 3 @ ''float dy3 = dy1 / 2.0;'',
     tabs 3 @ ''shadow = ('',
     tabs 4 @ ''texture2DCompare( shadowMap, shadowCoord.xy + vec2( dx0, dy0 ), shadowCoord.z ) +'',
     tabs 4 @ ''texture2DCompare( shadowMap, shadowCoord.xy + vec2( 0.0, dy0 ), shadowCoord.z ) +'',
     tabs 4 @ ''texture2DCompare( shadowMap, shadowCoord.xy + vec2( dx1, dy0 ), shadowCoord.z ) +'',
     tabs 4 @ ''texture2DCompare( shadowMap, shadowCoord.xy + vec2( dx2, dy2 ), shadowCoord.z ) +'',
     tabs 4 @ ''texture2DCompare( shadowMap, shadowCoord.xy + vec2( 0.0, dy2 ), shadowCoord.z ) +'',
     tabs 4 @ ''texture2DCompare( shadowMap, shadowCoord.xy + vec2( dx3, dy2 ), shadowCoord.z ) +'',
     tabs 4 @ ''texture2DCompare( shadowMap, shadowCoord.xy + vec2( dx0, 0.0 ), shadowCoord.z ) +'',
     tabs 4 @ ''texture2DCompare( shadowMap, shadowCoord.xy + vec2( dx2, 0.0 ), shadowCoord.z ) +'',
     tabs 4 @ ''texture2DCompare( shadowMap, shadowCoord.xy, shadowCoord.z ) +'',
     tabs 4 @ ''texture2DCompare( shadowMap, shadowCoord.xy + vec2( dx3, 0.0 ), shadowCoord.z ) +'',
     tabs 4 @ ''texture2DCompare( shadowMap, shadowCoord.xy + vec2( dx1, 0.0 ), shadowCoord.z ) +'',
     tabs 4 @ ''texture2DCompare( shadowMap, shadowCoord.xy + vec2( dx2, dy3 ), shadowCoord.z ) +'',
     tabs 4 @ ''texture2DCompare( shadowMap, shadowCoord.xy + vec2( 0.0, dy3 ), shadowCoord.z ) +'',
     tabs 4 @ ''texture2DCompare( shadowMap, shadowCoord.xy + vec2( dx3, dy3 ), shadowCoord.z ) +'',
     tabs 4 @ ''texture2DCompare( shadowMap, shadowCoord.xy + vec2( dx0, dy1 ), shadowCoord.z ) +'',
     tabs 4 @ ''texture2DCompare( shadowMap, shadowCoord.xy + vec2( 0.0, dy1 ), shadowCoord.z ) +'',
     tabs 4 @ ''texture2DCompare( shadowMap, shadowCoord.xy + vec2( dx1, dy1 ), shadowCoord.z )'',
     tabs 3 @ '') * ( 1.0 / 17.0 );'',
     tabs 2 @ ''#elif defined( SHADOWMAP_TYPE_PCF_SOFT )'',
     tabs 3 @ ''vec2 texelSize = vec2( 1.0 ) / shadowMapSize;'',
     tabs 3 @ ''float dx = texelSize.x;'',
     tabs 3 @ ''float dy = texelSize.y;'',
     tabs 3 @ ''vec2 uv = shadowCoord.xy;'',
     tabs 3 @ ''vec2 f = fract( uv * shadowMapSize + 0.5 );'',
     tabs 3 @ ''uv -= f * texelSize;'',
     tabs 3 @ ''shadow = ('',
     tabs 4 @ ''texture2DCompare( shadowMap, uv, shadowCoord.z ) +'',
     tabs 4 @ ''texture2DCompare( shadowMap, uv + vec2( dx, 0.0 ), shadowCoord.z ) +'',
     tabs 4 @ ''texture2DCompare( shadowMap, uv + vec2( 0.0, dy ), shadowCoord.z ) +'',
     tabs 4 @ ''texture2DCompare( shadowMap, uv + texelSize, shadowCoord.z ) +'',
     tabs 4 @ ''mix( texture2DCompare( shadowMap, uv + vec2( -dx, 0.0 ), shadowCoord.z ),'',
     tabs 5 @ '' texture2DCompare( shadowMap, uv + vec2( 2.0 * dx, 0.0 ), shadowCoord.z ),'',
     tabs 5 @ '' f.x ) +'',
     tabs 4 @ ''mix( texture2DCompare( shadowMap, uv + vec2( -dx, dy ), shadowCoord.z ),'',
     tabs 5 @ '' texture2DCompare( shadowMap, uv + vec2( 2.0 * dx, dy ), shadowCoord.z ),'',
     tabs 5 @ '' f.x ) +'',
     tabs 4 @ ''mix( texture2DCompare( shadowMap, uv + vec2( 0.0, -dy ), shadowCoord.z ),'',
     tabs 5 @ '' texture2DCompare( shadowMap, uv + vec2( 0.0, 2.0 * dy ), shadowCoord.z ),'',
     tabs 5 @ '' f.y ) +'',
     tabs 4 @ ''mix( texture2DCompare( shadowMap, uv + vec2( dx, -dy ), shadowCoord.z ),'',
     tabs 5 @ '' texture2DCompare( shadowMap, uv + vec2( dx, 2.0 * dy ), shadowCoord.z ),'',
     tabs 5 @ '' f.y ) +'',
     tabs 4 @ ''mix( mix( texture2DCompare( shadowMap, uv + vec2( -dx, -dy ), shadowCoord.z ),'',
     tabs 6 @ ''  texture2DCompare( shadowMap, uv + vec2( 2.0 * dx, -dy ), shadowCoord.z ),'',
     tabs 6 @ ''  f.x ),'',
     tabs 5 @ '' mix( texture2DCompare( shadowMap, uv + vec2( -dx, 2.0 * dy ), shadowCoord.z ),'',
     tabs 6 @ ''  texture2DCompare( shadowMap, uv + vec2( 2.0 * dx, 2.0 * dy ), shadowCoord.z ),'',
     tabs 6 @ ''  f.x ),'',
     tabs 5 @ '' f.y )'',
     tabs 3 @ '') * ( 1.0 / 9.0 );'',
     tabs 2 @ ''#elif defined( SHADOWMAP_TYPE_VSM )'',
     tabs 3 @ ''shadow = VSMShadow( shadowMap, shadowCoord.xy, shadowCoord.z );'',
     tabs 2 @ ''#else'',
     tabs 3 @ ''shadow = texture2DCompare( shadowMap, shadowCoord.xy, shadowCoord.z );'',
     tabs 2 @ ''#endif'',
     tabs 2 @ ''}'',
     tabs 2 @ ''return mix( 1.0, shadow, shadowIntensity );'',
     tabs 1 @ ''}'',
     tabs 1 @ ''vec2 cubeToUV( vec3 v, float texelSizeY ) {'',
     tabs 2 @ ''vec3 absV = abs( v );'',
     tabs 2 @ ''float scaleToCube = 1.0 / max( absV.x, max( absV.y, absV.z ) );'',
     tabs 2 @ ''absV *= scaleToCube;'',
     tabs 2 @ ''v *= scaleToCube * ( 1.0 - 2.0 * texelSizeY );'',
     tabs 2 @ ''vec2 planar = v.xy;'',
     tabs 2 @ ''float almostATexel = 1.5 * texelSizeY;'',
     tabs 2 @ ''float almostOne = 1.0 - almostATexel;'',
     tabs 2 @ ''if ( absV.z >= almostOne ) {'',
     tabs 3 @ ''if ( v.z > 0.0 )'',
     tabs 4 @ ''planar.x = 4.0 - v.x;'',
     tabs 2 @ ''} else if ( absV.x >= almostOne ) {'',
     tabs 3 @ ''float signX = sign( v.x );'',
     tabs 3 @ ''planar.x = v.z * signX + 2.0 * signX;'',
     tabs 2 @ ''} else if ( absV.y >= almostOne ) {'',
     tabs 3 @ ''float signY = sign( v.y );'',
     tabs 3 @ ''planar.x = v.x + 2.0 * signY + 2.0;'',
     tabs 3 @ ''planar.y = v.z * signY - 2.0;'',
     tabs 2 @ ''}'',
     tabs 2 @ ''return vec2( 0.125, 0.25 ) * planar + vec2( 0.375, 0.75 );'',
     tabs 1 @ ''}'',
     tabs 1 @ ''float getPointShadow( sampler2D shadowMap, vec2 shadowMapSize, float shadowIntensity, float shadowBias, float shadowRadius, vec4 shadowCoord, float shadowCameraNear, float shadowCameraFar ) {'',
     tabs 2 @ ''float shadow = 1.0;'',
     tabs 2 @ ''vec3 lightToPosition = shadowCoord.xyz;'',
     tabs 2,
     tabs 2 @ ''float lightToPositionLength = length( lightToPosition );'',
     tabs 2 @ ''if ( lightToPositionLength - shadowCameraFar <= 0.0 && lightToPositionLength - shadowCameraNear >= 0.0 ) {'',
     tabs 3 @ ''float dp = ( lightToPositionLength - shadowCameraNear ) / ( shadowCameraFar - shadowCameraNear );'' @ tabs 3 @ ''dp += shadowBias;'',
     tabs 3 @ ''vec3 bd3D = normalize( lightToPosition );'',
     tabs 3 @ ''vec2 texelSize = vec2( 1.0 ) / ( shadowMapSize * vec2( 4.0, 2.0 ) );'',
     tabs 3 @ ''#if defined( SHADOWMAP_TYPE_PCF ) || defined( SHADOWMAP_TYPE_PCF_SOFT ) || defined( SHADOWMAP_TYPE_VSM )'',
     tabs 4 @ ''vec2 offset = vec2( - 1, 1 ) * shadowRadius * texelSize.y;'',
     tabs 4 @ ''shadow = ('',
     tabs 5 @ ''texture2DCompare( shadowMap, cubeToUV( bd3D + offset.xyy, texelSize.y ), dp ) +'',
     tabs 5 @ ''texture2DCompare( shadowMap, cubeToUV( bd3D + offset.yyy, texelSize.y ), dp ) +'',
     tabs 5 @ ''texture2DCompare( shadowMap, cubeToUV( bd3D + offset.xyx, texelSize.y ), dp ) +'',
     tabs 5 @ ''texture2DCompare( shadowMap, cubeToUV( bd3D + offset.yyx, texelSize.y ), dp ) +'',
     tabs 5 @ ''texture2DCompare( shadowMap, cubeToUV( bd3D, texelSize.y ), dp ) +'',
     tabs 5 @ ''texture2DCompare( shadowMap, cubeToUV( bd3D + offset.xxy, texelSize.y ), dp ) +'',
     tabs 5 @ ''texture2DCompare( shadowMap, cubeToUV( bd3D + offset.yxy, texelSize.y ), dp ) +'',
     tabs 5 @ ''texture2DCompare( shadowMap, cubeToUV( bd3D + offset.xxx, texelSize.y ), dp ) +'',
     tabs 5 @ ''texture2DCompare( shadowMap, cubeToUV( bd3D + offset.yxx, texelSize.y ), dp )'',
     tabs 4 @ '') * ( 1.0 / 9.0 );'',
     tabs 3 @ ''#else'',
     tabs 4 @ ''shadow = texture2DCompare( shadowMap, cubeToUV( bd3D, texelSize.y ), dp );'',
     tabs 3 @ ''#endif'',
     tabs 2 @ ''}'',
     tabs 2 @ ''return mix( 1.0, shadow, shadowIntensity );'',
     tabs 1 @ ''}'',
     ''#endif'']"

lemma shadowmap_pars_fragment_filters_text [chunk_facts]:
  "shadowmap_pars_fragment_filters \<noteq> []" "nesting [False] shadowmap_pars_fragment_filters = Some []" "include_list shadowmap_pars_fragment_filters = []"
  unfolding shadowmap_pars_fragment_filters_def
  by (simp_all add: line_defs cong: nesting_cong include_list_cong)

definition shadowmap_pars_fragment :: "string list" where
  "shadowmap_pars_fragment = shadowmap_pars_fragment_lookup @ shadowmap_pars_fragment_filters"

lemma shadowmap_pars_fragment_text [chunk_facts]:
  "shadowmap_pars_fragment \<noteq> []" "nesting [] shadowmap_pars_fragment = Some []" "include_list shadowmap_pars_fragment = []"
  by (simp_all add: shadowmap_pars_fragment_def nesting_append include_list_append chunk_facts)

definition shadowmask_pars_fragment :: "string list" where
  "shadowmask_pars_fragment = [
     ''float getShadowMask() {'',
     tabs 1 @ ''float shadow = 1.0;'',
     tabs 1 @ ''#ifdef USE_SHADOWMAP'',
     tabs 1 @ ''#if NUM_DIR_LIGHT_SHADOWS > 0'',
     tabs 1 @ ''DirectionalLightShadow directionalLight;'',
     tabs 1 @ ''#pragma unroll_loop_start'',
     tabs 1 @ ''for ( int i = 0; i < NUM_DIR_LIGHT_SHADOWS; i ++ ) {'',
     tabs 2 @ ''directionalLight = directionalLightShadows[ i ];'',
     tabs 2 @ ''shadow *= receiveShadow ? getShadow( directionalShadowMap[ i ], directionalLight.shadowMapSize, directionalLight.shadowIntensity, directionalLight.shadowBias, directionalLight.shadowRadius, vDirectionalShadowCoord[ i ] ) : 1.0;'',
     tabs 1 @ ''}'',
     tabs 1 @ ''#pragma unroll_loop_end'',
     tabs 1 @ ''#endif'',
     tabs 1 @ ''#if NUM_SPOT_LIGHT_SHADOWS > 0'',
     tabs 1 @ ''SpotLightShadow spotLight;'',
     tabs 1 @ ''#pragma unroll_loop_start'',
     tabs 1 @ ''for ( int i = 0; i < NUM_SPOT_LIGHT_SHADOWS; i ++ ) {'',
     tabs 2 @ ''spotLight = spotLightShadows[ i ];'',
     tabs 2 @ ''shadow *= receiveShadow ? getShadow( spotShadowMap[ i ], spotLight.shadowMapSize, spotLight.shadowIntensity, spotLight.shadowBias, spotLight.shadowRadius, vSpotLightCoord[ i ] ) : 1.0;'',
     tabs 1 @ ''}'',
     tabs 1 @ ''#pragma unroll_loop_end'',
     tabs 1 @ ''#endif'',
     tabs 1 @ ''#if NUM_POINT_LIGHT_SHADOWS > 0'',
     tabs 1 @ ''PointLightShadow pointLight;'',
     tabs 1 @ ''#pragma unroll_loop_start'',
     tabs 1 @ ''for ( int i = 0; i < NUM_POINT_LIGHT_SHADOWS; i ++ ) {'',
     tabs 2 @ ''pointLight = pointLightShadows[ i ];'',
     tabs 2 @ ''shadow *= receiveShadow ? getPointShadow( pointShadowMap[ i ], pointLight.shadowMapSize, pointLight.shadowIntensity, pointLight.shadowBias, pointLight.shadowRadius, vPointShadowCoord[ i ], pointLight.shadowCameraNear, pointLight.shadowCameraFar ) : 1.0;'',
     tabs 1 @ ''}'',
     tabs 1 @ ''#pragma unroll_loop_end'',
     tabs 1 @ ''#endif'',
     tabs 1 @ ''#endif'',
     tabs 1 @ ''return shadow;'',
     ''}'']"

lemma shadowmask_pars_fragment_text [chunk_facts]:
  "shadowmask_pars_fragment \<noteq> []" "nesting [] shadowmask_pars_fragment = Some []" "include_list shadowmask_pars_fragment = []"
  unfolding shadowmask_pars_fragment_def
  by (simp_all add: line_defs cong: nesting_cong include_list_cong)

end
