(* ===== verification/ShaderOutputChunks.thy ===== *)
theory ShaderOutputChunks
  imports ShaderText
begin

text \<open>
  The fragment chunks shared by all programs and those between lighting and the frame buffer: constants, packing,
  environment maps, transmission, clipping, tone mapping, colour space and fog.
  Each chunk is the template string of the same name in the table of \<open>web/viewer/dist/assets/index-BpuCcfds.js\<close>,
  line by line, and is followed by what the include expansion needs to know of it.
\<close>

definition clipping_planes_fragment :: "string list" where
  "clipping_planes_fragment = [
     ''#if NUM_CLIPPING_PLANES > 0'',
     tabs 1 @ ''vec4 plane;'',
     tabs 1 @ ''#ifdef ALPHA_TO_COVERAGE'',
     tabs 2 @ ''float distanceToPlane, distanceGradient;'',
     tabs 2 @ ''float clipOpacity = 1.0;'',
     tabs 2 @ ''#pragma unroll_loop_start'',
     tabs 2 @ ''for ( int i = 0; i < UNION_CLIPPING_PLANES; i ++ ) {'',
     tabs 3 @ ''plane = clippingPlanes[ i ];'',
     tabs 3 @ ''distanceToPlane = - dot( vClipPosition, plane.xyz ) + plane.w;'',
     tabs 3 @ ''distanceGradient = fwidth( distanceToPlane ) / 2.0;'',
     tabs 3 @ ''clipOpacity *= smoothstep( - distanceGradient, distanceGradient, distanceToPlane );'',
     tabs 3 @ ''if ( clipOpacity == 0.0 ) discard;'',
     tabs 2 @ ''}'',
     tabs 2 @ ''#pragma unroll_loop_end'',
     tabs 2 @ ''#if UNION_CLIPPING_PLANES < NUM_CLIPPING_PLANES'',
     tabs 3 @ ''float unionClipOpacity = 1.0;'',
     tabs 3 @ ''#pragma unroll_loop_start'',
     tabs 3 @ ''for ( int i = UNION_CLIPPING_PLANES; i < NUM_CLIPPING_PLANES; i ++ ) {'',
     tabs 4 @ ''plane = clippingPlanes[ i ];'',
     tabs 4 @ ''distanceToPlane = - dot( vClipPosition, plane.xyz ) + plane.w;'',
     tabs 4 @ ''distanceGradient = fwidth( distanceToPlane ) / 2.0;'',
     tabs 4 @ ''unionClipOpacity *= 1.0 - smoothstep( - distanceGradient, distanceGradient, distanceToPlane );'',
     tabs 3 @ ''}'',
     tabs 3 @ ''#pragma unroll_loop_end'',
     tabs 3 @ ''clipOpacity *= 1.0 - unionClipOpacity;'',
     tabs 2 @ ''#endif'',
     tabs 2 @ ''diffuseColor.a *= clipOpacity;'',
     tabs 2 @ ''if ( diffuseColor.a == 0.0 ) discard;'',
     tabs 1 @ ''#else'',
     tabs 2 @ ''#pragma unroll_loop_start'',
     tabs 2 @ ''for ( int i = 0; i < UNION_CLIPPING_PLANES; i ++ ) {'',
     tabs 3 @ ''plane = clippingPlanes[ i ];'',
     tabs 3 @ ''if ( dot( vClipPosition, plane.xyz ) > plane.w ) discard;'',
     tabs 2 @ ''}'',
     tabs 2 @ ''#pragma unroll_loop_end'',
     tabs 2 @ ''#if UNION_CLIPPING_PLANES < NUM_CLIPPING_PLANES'',
     tabs 3 @ ''bool clipped = true;'',
     tabs 3 @ ''#pragma unroll_loop_start'',
     tabs 3 @ ''for ( int i = UNION_CLIPPING_PLANES; i < NUM_CLIPPING_PLANES; i ++ ) {'',
     tabs 4 @ ''plane = clippingPlanes[ i ];'',
     tabs 4 @ ''clipped = ( dot( vClipPosition, plane.xyz ) > plane.w ) && clipped;'',
     tabs 3 @ ''}'',
     tabs 3 @ ''#pragma unroll_loop_end'',
     tabs 3 @ ''if ( clipped ) discard;'',
     tabs 2 @ ''#endif'',
     tabs 1 @ ''#endif'',
     ''#endif'']"

lemma clipping_planes_fragment_text [chunk_facts]:
  "clipping_planes_fragment \<noteq> []" "nesting [] clipping_planes_fragment = Some []" "include_list clipping_planes_fragment = []"
  unfolding clipping_planes_fragment_def
  by (simp_all add: line_defs cong: nesting_cong include_list_cong)

definition clipping_planes_pars_fragment :: "string list" where
  "clipping_planes_pars_fragment = [
     ''#if NUM_CLIPPING_PLANES > 0'',
     tabs 1 @ ''varying vec3 vClipPosition;'',
     tabs 1 @ ''uniform vec4 clippingPlanes[ NUM_CLIPPING_PLANES ];'',
     ''#endif'']"

lemma clipping_planes_pars_fragment_text [chunk_facts]:
  "clipping_planes_pars_fragment \<noteq> []" "nesting [] clipping_planes_pars_fragment = Some []" "include_list clipping_planes_pars_fragment = []"
  unfolding clipping_planes_pars_fragment_def
  by (simp_all add: line_defs cong: nesting_cong include_list_cong)

definition common :: "string list" where
  "common = [
     ''#define PI 3.141592653589793'',
     ''#define PI2 6.283185307179586'',
     ''#define PI_HALF 1.5707963267948966'',
     ''#define RECIPROCAL_PI 0.3183098861837907'',
     ''#define RECIPROCAL_PI2 0.15915494309189535'',
     ''#define EPSILON 1e-6'',
     ''#ifndef saturate'',
     ''#define saturate( a ) clamp( a, 0.0, 1.0 )'',
     ''#endif'',
     ''#define whiteComplement( a ) ( 1.0 - saturate( a ) )'',
     ''float pow2( const in float x ) { return x*x; }'',
     ''vec3 pow2( const in vec3 x ) { return x*x; }'',
     ''float pow3( const in float x ) { return x*x*x; }'',
     ''float pow4( const in float x ) { float x2 = x*x; return x2*x2; }'',
     ''float max3( const in vec3 v ) { return max( max( v.x, v.y ), v.z ); }'',
     ''float average( const in vec3 v ) { return dot( v, vec3( 0.3333333 ) ); }'',
     ''highp float rand( const in vec2 uv ) {'',
     tabs 1 @ ''const highp float a = 12.9898, b = 78.233, c = 43758.5453;'',
     tabs 1 @ ''highp float dt = dot( uv.xy, vec2( a,b ) ), sn = mod( dt, PI );'',
     tabs 1 @ ''return fract( sin( sn ) * c );'',
     ''}'',
     ''#ifdef HIGH_PRECISION'',
     tabs 1 @ ''float precisionSafeLength( vec3 v ) { return length( v ); }'',
     ''#else'',
     tabs 1 @ ''float precisionSafeLength( vec3 v ) {'',
     tabs 2 @ ''float maxComponent = max3( abs( v ) );'',
     tabs 2 @ ''return length( v / maxComponent ) * maxComponent;'',
     tabs 1 @ ''}'',
     ''#endif'',
     ''struct IncidentLight {'',
     tabs 1 @ ''vec3 color;'',
     tabs 1 @ ''vec3 direction;'',
     tabs 1 @ ''bool visible;'',
     ''};'',
     ''struct ReflectedLight {'',
     tabs 1 @ ''vec3 directDiffuse;'',
     tabs 1 @ ''vec3 directSpecular;'',
     tabs 1 @ ''vec3 indirectDiffuse;'',
     tabs 1 @ ''vec3 indirectSpecular;'',
     ''};'',
     ''#ifdef USE_ALPHAHASH'',
     tabs 1 @ ''varying vec3 vPosition;'',
     ''#endif'',
     ''vec3 transformDirection( in vec3 dir, in mat4 matrix ) {'',
     tabs 1 @ ''return normalize( ( matrix * vec4( dir, 0.0 ) ).xyz );'',
     ''}'',
     ''vec3 inverseTransformDirection( in vec3 dir, in mat4 matrix ) {'',
     tabs 1 @ ''return normalize( ( vec4( dir, 0.0 ) * matrix ).xyz );'',
     ''}'',
     ''mat3 transposeMat3( const in mat3 m ) {'',
     tabs 1 @ ''mat3 tmp;'',
     tabs 1 @ ''tmp[ 0 ] = vec3( m[ 0 ].x, m[ 1 ].x, m[ 2 ].x );'',
     tabs 1 @ ''tmp[ 1 ] = vec3( m[ 0 ].y, m[ 1 ].y, m[ 2 ].y );'',
     tabs 1 @ ''tmp[ 2 ] = vec3( m[ 0 ].z, m[ 1 ].z, m[ 2 ].z );'',
     tabs 1 @ ''return tmp;'',
     ''}'',
     ''bool isPerspectiveMatrix( mat4 m ) {'',
     tabs 1 @ ''return m[ 2 ][ 3 ] == - 1.0;'',
     ''}'',
     ''vec2 equirectUv( in vec3 dir ) {'',
     tabs 1 @ ''float u = atan( dir.z, dir.x ) * RECIPROCAL_PI2 + 0.5;'',
     tabs 1 @ ''float v = asin( clamp( dir.y, - 1.0, 1.0 ) ) * RECIPROCAL_PI + 0.5;'',
     tabs 1 @ ''return vec2( u, v );'',
     ''}'',
     ''vec3 BRDF_Lambert( const in vec3 diffuseColor ) {'',
     tabs 1 @ ''return RECIPROCAL_PI * diffuseColor;'',
     ''}'',
     ''vec3 F_Schlick( const in vec3 f0, const in float f90, const in float dotVH ) {'',
     tabs 1 @ ''float fresnel = exp2( ( - 5.55473 * dotVH - 6.98316 ) * dotVH );'',
     tabs 1 @ ''return f0 * ( 1.0 - fresnel ) + ( f90 * fresnel );'',
     ''}'',
     ''float F_Schlick( const in float f0, const in float f90, const in float dotVH ) {'',
     tabs 1 @ ''float fresnel = exp2( ( - 5.55473 * dotVH - 6.98316 ) * dotVH );'',
     tabs 1 @ ''return f0 * ( 1.0 - fresnel ) + ( f90 * fresnel );'',
     ''} // validated'']"

lemma common_text [chunk_facts]:
  "common \<noteq> []" "nesting [] common = Some []" "include_list common = []"
  unfolding common_def
  by (simp_all add: line_defs cong: nesting_cong include_list_cong)

definition cube_uv_reflection_fragment :: "string list" where
  "cube_uv_reflection_fragment = [
     ''#ifdef ENVMAP_TYPE_CUBE_UV'',
     tabs 1 @ ''#define cubeUV_minMipLevel 4.0'',
     tabs 1 @ ''#define cubeUV_minTileSize 16.0'',
     tabs 1 @ ''float getFace( vec3 direction ) {'',
     tabs 2 @ ''vec3 absDirection = abs( direction );'',
     tabs 2 @ ''float face = - 1.0;'',
     tabs 2 @ ''if ( absDirection.x > absDirection.z ) {'',
     tabs 3 @ ''if ( absDirection.x > absDirection.y )'',
     tabs 4 @ ''face = direction.x > 0.0 ? 0.0 : 3.0;'',
     tabs 3 @ ''else'',
     tabs 4 @ ''face = direction.y > 0.0 ? 1.0 : 4.0;'',
     tabs 2 @ ''} else {'',
     tabs 3 @ ''if ( absDirection.z > absDirection.y )'',
     tabs 4 @ ''face = direction.z > 0.0 ? 2.0 : 5.0;'',
     tabs 3 @ ''else'',
     tabs 4 @ ''face = direction.y > 0.0 ? 1.0 : 4.0;'',
     tabs 2 @ ''}'',
     tabs 2 @ ''return face;'',
     tabs 1 @ ''}'',
     tabs 1 @ ''vec2 getUV( vec3 direction, float face ) {'',
     tabs 2 @ ''vec2 uv;'',
     tabs 2 @ ''if ( face == 0.0 ) {'',
     tabs 3 @ ''uv = vec2( direction.z, direction.y ) / abs( direction.x );'',
     tabs 2 @ ''} else if ( face == 1.0 ) {'',
     tabs 3 @ ''uv = vec2( - direction.x, - direction.z ) / abs( direction.y );'',
     tabs 2 @ ''} else if ( face == 2.0 ) {'',
     tabs 3 @ ''uv = vec2( - direction.x, direction.y ) / abs( direction.z );'',
     tabs 2 @ ''} else if ( face == 3.0 ) {'',
     tabs 3 @ ''uv = vec2( - direction.z, direction.y ) / abs( direction.x );'',
     tabs 2 @ ''} else if ( face == 4.0 ) {'',
     tabs 3 @ ''uv = vec2( - direction.x, direction.z ) / abs( direction.y );'',
     tabs 2 @ ''} else {'',
     tabs 3 @ ''uv = vec2( direction.x, direction.y ) / abs( direction.z );'',
     tabs 2 @ ''}'',
     tabs 2 @ ''return 0.5 * ( uv + 1.0 );'',
     tabs 1 @ ''}'',
     tabs 1 @ ''vec3 bilinearCubeUV( sampler2D envMap, vec3 direction, float mipInt ) {'',
     tabs 2 @ ''float face = getFace( direction );'',
     tabs 2 @ ''float filterInt = max( cubeUV_minMipLevel - mipInt, 0.0 );'',
     tabs 2 @ ''mipInt = max( mipInt, cubeUV_minMipLevel );'',
     tabs 2 @ ''float faceSize = exp2( mipInt );'',
     tabs 2 @ ''highp vec2 uv = getUV( direction, face ) * ( faceSize - 2.0 ) + 1.0;'',
     tabs 2 @ ''if ( face > 2.0 ) {'',
     tabs 3 @ ''uv.y += faceSize;'',
     tabs 3 @ ''face -= 3.0;'',
     tabs 2 @ ''}'',
     tabs 2 @ ''uv.x += face * faceSize;'',
     tabs 2 @ ''uv.x += filterInt * 3.0 * cubeUV_minTileSize;'',
     tabs 2 @ ''uv.y += 4.0 * ( exp2( CUBEUV_MAX_MIP ) - faceSize );'',
     tabs 2 @ ''uv.x *= CUBEUV_TEXEL_WIDTH;'',
     tabs 2 @ ''uv.y *= CUBEUV_TEXEL_HEIGHT;'',
     tabs 2 @ ''#ifdef texture2DGradEXT'',
     tabs 3 @ ''return texture2DGradEXT( envMap, uv, vec2( 0.0 ), vec2( 0.0 ) ).rgb;'',
     tabs 2 @ ''#else'',
     tabs 3 @ ''return texture2D( envMap, uv ).rgb;'',
     tabs 2 @ ''#endif'',
     tabs 1 @ ''}'',
     tabs 1 @ ''#define cubeUV_r0 1.0'',
     tabs 1 @ ''#define cubeUV_m0 - 2.0'',
     tabs 1 @ ''#define cubeUV_r1 0.8'',
     tabs 1 @ ''#define cubeUV_m1 - 1.0'',
     tabs 1 @ ''#define cubeUV_r4 0.4'',
     tabs 1 @ ''#define cubeUV_m4 2.0'',
     tabs 1 @ ''#define cubeUV_r5 0.305'',
     tabs 1 @ ''#define cubeUV_m5 3.0'',
     tabs 1 @ ''#define cubeUV_r6 0.21'',
     tabs 1 @ ''#define cubeUV_m6 4.0'',
     tabs 1 @ ''float roughnessToMip( float roughness ) {'',
     tabs 2 @ ''float mip = 0.0;'',
     tabs 2 @ ''if ( roughness >= cubeUV_r1 ) {'',
     tabs 3 @ ''mip = ( cubeUV_r0 - roughness ) * ( cubeUV_m1 - cubeUV_m0 ) / ( cubeUV_r0 - cubeUV_r1 ) + cubeUV_m0;'',
     tabs 2 @ ''} else if ( roughness >= cubeUV_r4 ) {'',
     tabs 3 @ ''mip = ( cubeUV_r1 - roughness ) * ( cubeUV_m4 - cubeUV_m1 ) / ( cubeUV_r1 - cubeUV_r4 ) + cubeUV_m1;'',
     tabs 2 @ ''} else if ( roughness >= cubeUV_r5 ) {'',
     tabs 3 @ ''mip = ( cubeUV_r4 - roughness ) * ( cubeUV_m5 - cubeUV_m4 ) / ( cubeUV_r4 - cubeUV_r5 ) + cubeUV_m4;'',
     tabs 2 @ ''} else if ( roughness >= cubeUV_r6 ) {'',
     tabs 3 @ ''mip = ( cubeUV_r5 - roughness ) * ( cubeUV_m6 - cubeUV_m5 ) / ( cubeUV_r5 - cubeUV_r6 ) + cubeUV_m5;'',
     tabs 2 @ ''} else {'',
     tabs 3 @ ''mip = - 2.0 * log2( 1.16 * roughness );'' @ tabs 2 @ ''}'',
     tabs 2 @ ''return mip;'',
     tabs 1 @ ''}'',
     tabs 1 @ ''vec4 textureCubeUV( sampler2D envMap, vec3 sampleDir, float roughness ) {'',
     tabs 2 @ ''float mip = clamp( roughnessToMip( roughness ), cubeUV_m0, CUBEUV_MAX_MIP );'',
     tabs 2 @ ''float mipF = fract( mip );'',
     tabs 2 @ ''float mipInt = floor( mip );'',
     tabs 2 @ ''vec3 color0 = bilinearCubeUV( envMap, sampleDir, mipInt );'',
     tabs 2 @ ''if ( mipF == 0.0 ) {'',
     tabs 3 @ ''return vec4( color0, 1.0 );'',
     tabs 2 @ ''} else {'',
     tabs 3 @ ''vec3 color1 = bilinearCubeUV( envMap, sampleDir, mipInt + 1.0 );'',
     tabs 3 @ ''return vec4( mix( color0, color1, mipF ), 1.0 );'',
     tabs 2 @ ''}'',
     tabs 1 @ ''}'',
     ''#endif'']"

lemma cube_uv_reflection_fragment_text [chunk_facts]:
  "cube_uv_reflection_fragment \<noteq> []" "nesting [] cube_uv_reflection_fragment = Some []" "include_list cube_uv_reflection_fragment = []"
  unfolding cube_uv_reflection_fragment_def
  by (simp_all add: line_defs cong: nesting_cong include_list_cong)

definition colorspace_fragment :: "string list" where
  "colorspace_fragment = [
     ''gl_FragColor = linearToOutputTexel( gl_FragColor );'']"

lemma colorspace_fragment_text [chunk_facts]:
  "colorspace_fragment \<noteq> []" "nesting [] colorspace_fragment = Some []" "include_list colorspace_fragment = []"
  unfolding colorspace_fragment_def
  by (simp_all add: line_defs cong: nesting_cong include_list_cong)

definition colorspace_pars_fragment :: "string list" where
  "colorspace_pars_fragment = [
     ''vec4 LinearTransferOETF( in vec4 value ) {'',
     tabs 1 @ ''return value;'',
     ''}'',
     ''vec4 sRGBTransferEOTF( in vec4 value ) {'',
     tabs 1 @ ''return vec4( mix( pow( value.rgb * 0.9478672986 + vec3( 0.0521327014 ), vec3( 2.4 ) ), value.rgb * 0.0773993808, vec3( lessThanEqual( value.rgb, vec3( 0.04045 ) ) ) ), value.a );'',
     ''}'',
     ''vec4 sRGBTransferOETF( in vec4 value ) {'',
     tabs 1 @ ''return vec4( mix( pow( value.rgb, vec3( 0.41666 ) ) * 1.055 - vec3( 0.055 ), value.rgb * 12.92, vec3( lessThanEqual( value.rgb, vec3( 0.0031308 ) ) ) ), value.a );'',
     ''}'']"

lemma colorspace_pars_fragment_text [chunk_facts]:
  "colorspace_pars_fragment \<noteq> []" "nesting [] colorspace_pars_fragment = Some []" "include_list colorspace_pars_fragment = []"
  unfolding colorspace_pars_fragment_def
  by (simp_all add: line_defs cong: nesting_cong include_list_cong)

definition envmap_fragment :: "string list" where
  "envmap_fragment = [
     ''#ifdef USE_ENVMAP'',
     tabs 1 @ ''#ifdef ENV_WORLDPOS'',
     tabs 2 @ ''vec3 cameraToFrag;'',
     tabs 2 @ ''if ( isOrthographic ) {'',
     tabs 3 @ ''cameraToFrag = normalize( vec3( - viewMatrix[ 0 ][ 2 ], - viewMatrix[ 1 ][ 2 ], - viewMatrix[ 2 ][ 2 ] ) );'',
     tabs 2 @ ''} else {'',
     tabs 3 @ ''cameraToFrag = normalize( vWorldPosition - cameraPosition );'',
     tabs 2 @ ''}'',
     tabs 2 @ ''vec3 worldNormal = inverseTransformDirection( normal, viewMatrix );'',
     tabs 2 @ ''#ifdef ENVMAP_MODE_REFLECTION'',
     tabs 3 @ ''vec3 reflectVec = reflect( cameraToFrag, worldNormal );'',
     tabs 2 @ ''#else'',
     tabs 3 @ ''vec3 reflectVec = refract( cameraToFrag, worldNormal, refractionRatio );'',
     tabs 2 @ ''#endif'',
     tabs 1 @ ''#else'',
     tabs 2 @ ''vec3 reflectVec = vReflect;'',
     tabs 1 @ ''#endif'',
     tabs 1 @ ''#ifdef ENVMAP_TYPE_CUBE'',
     tabs 2 @ ''vec4 envColor = textureCube( envMap, envMapRotation * vec3( flipEnvMap * reflectVec.x, reflectVec.yz ) );'',
     tabs 1 @ ''#else'',
     tabs 2 @ ''vec4 envColor = vec4( 0.0 );'',
     tabs 1 @ ''#endif'',
     tabs 1 @ ''#ifdef ENVMAP_BLENDING_MULTIPLY'',
     tabs 2 @ ''outgoingLight = mix( outgoingLight, outgoingLight * envColor.xyz, specularStrength * reflectivity );'',
     tabs 1 @ ''#elif defined( ENVMAP_BLENDING_MIX )'',
     tabs 2 @ ''outgoingLight = mix( outgoingLight, envColor.xyz, specularStrength * reflectivity );'',
     tabs 1 @ ''#elif defined( ENVMAP_BLENDING_ADD )'',
     tabs 2 @ ''outgoingLight += envColor.xyz * specularStrength * reflectivity;'',
     tabs 1 @ ''#endif'',
     ''#endif'']"

lemma envmap_fragment_text [chunk_facts]:
  "envmap_fragment \<noteq> []" "nesting [] envmap_fragment = Some []" "include_list envmap_fragment = []"
  unfolding envmap_fragment_def
  by (simp_all add: line_defs cong: nesting_cong include_list_cong)

definition envmap_common_pars_fragment :: "string list" where
  "envmap_common_pars_fragment = [
     ''#ifdef USE_ENVMAP'',
     tabs 1 @ ''uniform float envMapIntensity;'',
     tabs 1 @ ''uniform float flipEnvMap;'',
     tabs 1 @ ''uniform mat3 envMapRotation;'',
     tabs 1 @ ''#ifdef ENVMAP_TYPE_CUBE'',
     tabs 2 @ ''uniform samplerCube envMap;'',
     tabs 1 @ ''#else'',
     tabs 2 @ ''uniform sampler2D envMap;'',
     tabs 1 @ ''#endif'',
     tabs 1,
     ''#endif'']"

lemma envmap_common_pars_fragment_text [chunk_facts]:
  "envmap_common_pars_fragment \<noteq> []" "nesting [] envmap_common_pars_fragment = Some []" "include_list envmap_common_pars_fragment = []"
  unfolding envmap_common_pars_fragment_def
  by (simp_all add: line_defs cong: nesting_cong include_list_cong)

definition envmap_pars_fragment :: "string list" where
  "envmap_pars_fragment = [
     ''#ifdef USE_ENVMAP'',
     tabs 1 @ ''uniform float reflectivity;'',
     tabs 1 @ ''#if defined( USE_BUMPMAP ) || defined( USE_NORMALMAP ) || defined( PHONG ) || defined( LAMBERT )'',
     tabs 2 @ ''#define ENV_WORLDPOS'',
     tabs 1 @ ''#endif'',
     tabs 1 @ ''#ifdef ENV_WORLDPOS'',
     tabs 2 @ ''varying vec3 vWorldPosition;'',
     tabs 2 @ ''uniform float refractionRatio;'',
     tabs 1 @ ''#else'',
     tabs 2 @ ''varying vec3 vReflect;'',
     tabs 1 @ ''#endif'',
     ''#endif'']"

lemma envmap_pars_fragment_text [chunk_facts]:
  "envmap_pars_fragment \<noteq> []" "nesting [] envmap_pars_fragment = Some []" "include_list envmap_pars_fragment = []"
  unfolding envmap_pars_fragment_def
  by (simp_all add: line_defs cong: nesting_cong include_list_cong)

definition envmap_physical_pars_fragment :: "string list" where
  "envmap_physical_pars_fragment = [
     ''#ifdef USE_ENVMAP'',
     tabs 1 @ ''vec3 getIBLIrradiance( const in vec3 normal ) {'',
     tabs 2 @ ''#ifdef ENVMAP_TYPE_CUBE_UV'',
     tabs 3 @ ''vec3 worldNormal = inverseTransformDirection( normal, viewMatrix );'',
     tabs 3 @ ''vec4 envMapColor = textureCubeUV( envMap, envMapRotation * worldNormal, 1.0 );'',
     tabs 3 @ ''return PI * envMapColor.rgb * envMapIntensity;'',
     tabs 2 @ ''#else'',
     tabs 3 @ ''return vec3( 0.0 );'',
     tabs 2 @ ''#endif'',
     tabs 1 @ ''}'',
     tabs 1 @ ''vec3 getIBLRadiance( const in vec3 viewDir, const in vec3 normal, const in float roughness ) {'',
     tabs 2 @ ''#ifdef ENVMAP_TYPE_CUBE_UV'',
     tabs 3 @ ''vec3 reflectVec = reflect( - viewDir, normal );'',
     tabs 3 @ ''reflectVec = normalize( mix( reflectVec, normal, roughness * roughness) );'',
     tabs 3 @ ''reflectVec = inverseTransformDirection( reflectVec, viewMatrix );'',
     tabs 3 @ ''vec4 envMapColor = textureCubeUV( envMap, envMapRotation * reflectVec, roughness );'',
     tabs 3 @ ''return envMapColor.rgb * envMapIntensity;'',
     tabs 2 @ ''#else'',
     tabs 3 @ ''return vec3( 0.0 );'',
     tabs 2 @ ''#endif'',
     tabs 1 @ ''}'',
     tabs 1 @ ''#ifdef USE_ANISOTROPY'',
     tabs 2 @ ''vec3 getIBLAnisotropyRadiance( const in vec3 viewDir, const in vec3 normal, const in float roughness, const in vec3 bitangent, const in float anisotropy ) {'',
     tabs 3 @ ''#ifdef ENVMAP_TYPE_CUBE_UV'',
     tabs 4 @ ''vec3 bentNormal = cross( bitangent, viewDir );'',
     tabs 4 @ ''bentNormal = normalize( cross( bentNormal, bitangent ) );'',
     tabs 4 @ ''bentNormal = normalize( mix( bentNormal, normal, pow2( pow2( 1.0 - anisotropy * ( 1.0 - roughness ) ) ) ) );'',
     tabs 4 @ ''return getIBLRadiance( viewDir, bentNormal, roughness );'',
     tabs 3 @ ''#else'',
     tabs 4 @ ''return vec3( 0.0 );'',
     tabs 3 @ ''#endif'',
     tabs 2 @ ''}'',
     tabs 1 @ ''#endif'',
     ''#endif'']"

lemma envmap_physical_pars_fragment_text [chunk_facts]:
  "envmap_physical_pars_fragment \<noteq> []" "nesting [] envmap_physical_pars_fragment = Some []" "include_list envmap_physical_pars_fragment = []"
  unfolding envmap_physical_pars_fragment_def
  by (simp_all add: line_defs cong: nesting_cong include_list_cong)

definition fog_fragment :: "string list" where
  "fog_fragment = [
     ''#ifdef USE_FOG'',
     tabs 1 @ ''#ifdef FOG_EXP2'',
     tabs 2 @ ''float fogFactor = 1.0 - exp( - fogDensity * fogDensity * vFogDepth * vFogDepth );'',
     tabs 1 @ ''#else'',
     tabs 2 @ ''float fogFactor = smoothstep( fogNear, fogFar, vFogDepth );'',
     tabs 1 @ ''#endif'',
     tabs 1 @ ''gl_FragColor.rgb = mix( gl_FragColor.rgb, fogColor, fogFactor );'',
     ''#endif'']"

lemma fog_fragment_text [chunk_facts]:
  "fog_fragment \<noteq> []" "nesting [] fog_fragment = Some []" "include_list fog_fragment = []"
  unfolding fog_fragment_def
  by (simp_all add: line_defs cong: nesting_cong include_list_cong)

definition fog_pars_fragment :: "string list" where
  "fog_pars_fragment = [
     ''#ifdef USE_FOG'',
     tabs 1 @ ''uniform vec3 fogColor;'',
     tabs 1 @ ''varying float vFogDepth;'',
     tabs 1 @ ''#ifdef FOG_EXP2'',
     tabs 2 @ ''uniform float fogDensity;'',
     tabs 1 @ ''#else'',
     tabs 2 @ ''uniform float fogNear;'',
     tabs 2 @ ''uniform float fogFar;'',
     tabs 1 @ ''#endif'',
     ''#endif'']"

lemma fog_pars_fragment_text [chunk_facts]:
  "fog_pars_fragment \<noteq> []" "nesting [] fog_pars_fragment = Some []" "include_list fog_pars_fragment = []"
  unfolding fog_pars_fragment_def
  by (simp_all add: line_defs cong: nesting_cong include_list_cong)

definition logdepthbuf_fragment :: "string list" where
  "logdepthbuf_fragment = [
     ''#if defined( USE_LOGARITHMIC_DEPTH_BUFFER )'',
     tabs 1 @ ''gl_FragDepth = vIsPerspective == 0.0 ? gl_FragCoord.z : log2( vFragDepth ) * logDepthBufFC * 0.5;'',
     ''#endif'']"

lemma logdepthbuf_fragment_text [chunk_facts]:
  "logdepthbuf_fragment \<noteq> []" "nesting [] logdepthbuf_fragment = Some []" "include_list logdepthbuf_fragment = []"
  unfolding logdepthbuf_fragment_def
  by (simp_all add: line_defs cong: nesting_cong include_list_cong)

definition logdepthbuf_pars_fragment :: "string list" where
  "logdepthbuf_pars_fragment = [
     ''#if defined( USE_LOGARITHMIC_DEPTH_BUFFER )'',
     tabs 1 @ ''uniform float logDepthBufFC;'',
     tabs 1 @ ''varying float vFragDepth;'',
     tabs 1 @ ''varying float vIsPerspective;'',
     ''#endif'']"

lemma logdepthbuf_pars_fragment_text [chunk_facts]:
  "logdepthbuf_pars_fragment \<noteq> []" "nesting [] logdepthbuf_pars_fragment = Some []" "include_list logdepthbuf_pars_fragment = []"
  unfolding logdepthbuf_pars_fragment_def
  by (simp_all add: line_defs cong: nesting_cong include_list_cong)

definition opaque_fragment :: "string list" where
  "opaque_fragment = [
     ''#ifdef OPAQUE'',
     ''diffuseColor.a = 1.0;'',
     ''#endif'',
     ''#ifdef USE_TRANSMISSION'',
     ''diffuseColor.a *= material.transmissionAlpha;'',
     ''#endif'',
     ''gl_FragColor = vec4( outgoingLight, diffuseColor.a );'']"

lemma opaque_fragment_text [chunk_facts]:
  "opaque_fragment \<noteq> []" "nesting [] opaque_fragment = Some []" "include_list opaque_fragment = []"
  unfolding opaque_fragment_def
  by (simp_all add: line_defs cong: nesting_cong include_list_cong)

definition packing :: "string list" where
  "packing = [
     ''vec3 packNormalToRGB( const in vec3 normal ) {'',
     tabs 1 @ ''return normalize( normal ) * 0.5 + 0.5;'',
     ''}'',
     ''vec3 unpackRGBToNormal( const in vec3 rgb ) {'',
     tabs 1 @ ''return 2.0 * rgb.xyz - 1.0;'',
     ''}'',
     ''const float PackUpscale = 256. / 255.;const float UnpackDownscale = 255. / 256.;const float ShiftRight8 = 1. / 256.;'',
     ''const float Inv255 = 1. / 255.;'',
     ''const vec4 PackFactors = vec4( 1.0, 256.0, 256.0 * 256.0, 256.0 * 256.0 * 256.0 );'',
     ''const vec2 UnpackFactors2 = vec2( UnpackDownscale, 1.0 / PackFactors.g );'',
     ''const vec3 UnpackFactors3 = vec3( UnpackDownscale / PackFactors.rg, 1.0 / PackFactors.b );'',
     ''const vec4 UnpackFactors4 = vec4( UnpackDownscale / PackFactors.rgb, 1.0 / PackFactors.a );'',
     ''vec4 packDepthToRGBA( const in float v ) {'',
     tabs 1 @ ''if( v <= 0.0 )'',
     tabs 2 @ ''return vec4( 0., 0., 0., 0. );'',
     tabs 1 @ ''if( v >= 1.0 )'',
     tabs 2 @ ''return vec4( 1., 1., 1., 1. );'',
     tabs 1 @ ''float vuf;'',
     tabs 1 @ ''float af = modf( v * PackFactors.a, vuf );'',
     tabs 1 @ ''float bf = modf( vuf * ShiftRight8, vuf );'',
     tabs 1 @ ''float gf = modf( vuf * ShiftRight8, vuf );'',
     tabs 1 @ ''return vec4( vuf * Inv255, gf * PackUpscale, bf * PackUpscale, af );'',
     ''}'',
     ''vec3 packDepthToRGB( const in float v ) {'',
     tabs 1 @ ''if( v <= 0.0 )'',
     tabs 2 @ ''return vec3( 0., 0., 0. );'',
     tabs 1 @ ''if( v >= 1.0 )'',
     tabs 2 @ ''return vec3( 1., 1., 1. );'',
     tabs 1 @ ''float vuf;'',
     tabs 1 @ ''float bf = modf( v * PackFactors.b, vuf );'',
     tabs 1 @ ''float gf = modf( vuf * ShiftRight8, vuf );'',
     tabs 1 @ ''return vec3( vuf * Inv255, gf * PackUpscale, bf );'',
     ''}'',
     ''vec2 packDepthToRG( const in float v ) {'',
     tabs 1 @ ''if( v <= 0.0 )'',
     tabs 2 @ ''return vec2( 0., 0. );'',
     tabs 1 @ ''if( v >= 1.0 )'',
     tabs 2 @ ''return vec2( 1., 1. );'',
     tabs 1 @ ''float vuf;'',
     tabs 1 @ ''float gf = modf( v * 256., vuf );'',
     tabs 1 @ ''return vec2( vuf * Inv255, gf );'',
     ''}'',
     ''float unpackRGBAToDepth( const in vec4 v ) {'',
     tabs 1 @ ''return dot( v, UnpackFactors4 );'',
     ''}'',
     ''float unpackRGBToDepth( const in vec3 v ) {'',
     tabs 1 @ ''return dot( v, UnpackFactors3 );'',
     ''}'',
     ''float unpackRGToDepth( const in vec2 v ) {'',
     tabs 1 @ ''return v.r * UnpackFactors2.r + v.g * UnpackFactors2.g;'',
     ''}'',
     ''vec4 pack2HalfToRGBA( const in vec2 v ) {'',
     tabs 1 @ ''vec4 r = vec4( v.x, fract( v.x * 255.0 ), v.y, fract( v.y * 255.0 ) );'',
     tabs 1 @ ''return vec4( r.x - r.y / 255.0, r.y, r.z - r.w / 255.0, r.w );'',
     ''}'',
     ''vec2 unpackRGBATo2Half( const in vec4 v ) {'',
     tabs 1 @ ''return vec2( v.x + ( v.y / 255.0 ), v.z + ( v.w / 255.0 ) );'',
     ''}'',
     ''float viewZToOrthographicDepth( const in float viewZ, const in float near, const in float far ) {'',
     tabs 1 @ ''return ( viewZ + near ) / ( near - far );'',
     ''}'',
     ''float orthographicDepthToViewZ( const in float depth, const in float near, const in float far ) {'',
     tabs 1 @ ''return depth * ( near - far ) - near;'',
     ''}'',
     ''float viewZToPerspectiveDepth( const in float viewZ, const in float near, const in float far ) {'',
     tabs 1 @ ''return ( ( near + viewZ ) * far ) / ( ( far - near ) * viewZ );'',
     ''}'',
     ''float perspectiveDepthToViewZ( const in float depth, const in float near, const in float far ) {'',
     tabs 1 @ ''return ( near * far ) / ( ( far - near ) * depth - far );'',
     ''}'']"

lemma packing_text [chunk_facts]:
  "packing \<noteq> []" "nesting [] packing = Some []" "include_list packing = []"
  unfolding packing_def
  by (simp_all add: line_defs cong: nesting_cong include_list_cong)

definition premultiplied_alpha_fragment :: "string list" where
  "premultiplied_alpha_fragment = [
     ''#ifdef PREMULTIPLIED_ALPHA'',
     tabs 1 @ ''gl_FragColor.rgb *= gl_FragColor.a;'',
     ''#endif'']"

lemma premultiplied_alpha_fragment_text [chunk_facts]:
  "premultiplied_alpha_fragment \<noteq> []" "nesting [] premultiplied_alpha_fragment = Some []" "include_list premultiplied_alpha_fragment = []"
  unfolding premultiplied_alpha_fragment_def
  by (simp_all add: line_defs cong: nesting_cong include_list_cong)

definition dithering_fragment :: "string list" where
  "dithering_fragment = [
     ''#ifdef DITHERING'',
     tabs 1 @ ''gl_FragColor.rgb = dithering( gl_FragColor.rgb );'',
     ''#endif'']"

lemma dithering_fragment_text [chunk_facts]:
  "dithering_fragment \<noteq> []" "nesting [] dithering_fragment = Some []" "include_list dithering_fragment = []"
  unfolding dithering_fragment_def
  by (simp_all add: line_defs cong: nesting_cong include_list_cong)

definition dithering_pars_fragment :: "string list" where
  "dithering_pars_fragment = [
     ''#ifdef DITHERING'',
     tabs 1 @ ''vec3 dithering( vec3 color ) {'',
     tabs 2 @ ''float grid_position = rand( gl_FragCoord.xy );'',
     tabs 2 @ ''vec3 dither_shift_RGB = vec3( 0.25 / 255.0, -0.25 / 255.0, 0.25 / 255.0 );'',
     tabs 2 @ ''dither_shift_RGB = mix( 2.0 * dither_shift_RGB, -2.0 * dither_shift_RGB, grid_position );'',
     tabs 2 @ ''return color + dither_shift_RGB;'',
     tabs 1 @ ''}'',
     ''#endif'']"

lemma dithering_pars_fragment_text [chunk_facts]:
  "dithering_pars_fragment \<noteq> []" "nesting [] dithering_pars_fragment = Some []" "include_list dithering_pars_fragment = []"
  unfolding dithering_pars_fragment_def
  by (simp_all add: line_defs cong: nesting_cong include_list_cong)

definition tonemapping_fragment :: "string list" where
  "tonemapping_fragment = [
     ''#if defined( TONE_MAPPING )'',
     tabs 1 @ ''gl_FragColor.rgb = toneMapping( gl_FragColor.rgb );'',
     ''#endif'']"

lemma tonemapping_fragment_text [chunk_facts]:
  "tonemapping_fragment \<noteq> []" "nesting [] tonemapping_fragment = Some []" "include_list tonemapping_fragment = []"
  unfolding tonemapping_fragment_def
  by (simp_all add: line_defs cong: nesting_cong include_list_cong)

definition tonemapping_pars_fragment :: "string list" where
  "tonemapping_pars_fragment = [
     ''#ifndef saturate'',
     ''#define saturate( a ) clamp( a, 0.0, 1.0 )'',
     ''#endif'',
     ''uniform float toneMappingExposure;'',
     ''vec3 LinearToneMapping( vec3 color ) {'',
     tabs 1 @ ''return saturate( toneMappingExposure * color );'',
     ''}'',
     ''vec3 ReinhardToneMapping( vec3 color ) {'',
     tabs 1 @ ''color *= toneMappingExposure;'',
     tabs 1 @ ''return saturate( color / ( vec3( 1.0 ) + color ) );'',
     ''}'',
     ''vec3 CineonToneMapping( vec3 color ) {'',
     tabs 1 @ ''color *= toneMappingExposure;'',
     tabs 1 @ ''color = max( vec3( 0.0 ), color - 0.004 );'',
     tabs 1 @ ''return pow( ( color * ( 6.2 * color + 0.5 ) ) / ( color * ( 6.2 * color + 1.7 ) + 0.06 ), vec3( 2.2 ) );'',
     ''}'',
     ''vec3 RRTAndODTFit( vec3 v ) {'',
     tabs 1 @ ''vec3 a = v * ( v + 0.0245786 ) - 0.000090537;'',
     tabs 1 @ ''vec3 b = v * ( 0.983729 * v + 0.4329510 ) + 0.238081;'',
     tabs 1 @ ''return a / b;'',
     ''}'',
     ''vec3 ACESFilmicToneMapping( vec3 color ) {'',
     tabs 1 @ ''const mat3 ACESInputMat = mat3('',
     tabs 2 @ ''vec3( 0.59719, 0.07600, 0.02840 ),'' @ tabs 2 @ ''vec3( 0.35458, 0.90834, 0.13383 ),'',
     tabs 2 @ ''vec3( 0.04823, 0.01566, 0.83777 )'',
     tabs 1 @ '');'',
     tabs 1 @ ''const mat3 ACESOutputMat = mat3('',
     tabs 2 @ ''vec3(  1.60475, -0.10208, -0.00327 ),'' @ tabs 2 @ ''vec3( -0.53108,  1.10813, -0.07276 ),'',
     tabs 2 @ ''vec3( -0.07367, -0.00605,  1.07602 )'',
     tabs 1 @ '');'',
     tabs 1 @ ''color *= toneMappingExposure / 0.6;'',
     tabs 1 @ ''color = ACESInputMat * color;'',
     tabs 1 @ ''color = RRTAndODTFit( color );'',
     tabs 1 @ ''color = ACESOutputMat * color;'',
     tabs 1 @ ''return saturate( color );'',
     ''}'',
     ''const mat3 LINEAR_REC2020_TO_LINEAR_SRGB = mat3('',
     tabs 1 @ ''vec3( 1.6605, - 0.1246, - 0.0182 ),'',
     tabs 1 @ ''vec3( - 0.5876, 1.1329, - 0.1006 ),'',
     tabs 1 @ ''vec3( - 0.0728, - 0.0083, 1.1187 )'',
     '');'',
     ''const mat3 LINEAR_SRGB_TO_LINEAR_REC2020 = mat3('',
     tabs 1 @ ''vec3( 0.6274, 0.0691, 0.0164 ),'',
     tabs 1 @ ''vec3( 0.3293, 0.9195, 0.0880 ),'',
     tabs 1 @ ''vec3( 0.0433, 0.0113, 0.8956 )'',
     '');'',
     ''vec3 agxDefaultContrastApprox( vec3 x ) {'',
     tabs 1 @ ''vec3 x2 = x * x;'',
     tabs 1 @ ''vec3 x4 = x2 * x2;'',
     tabs 1 @ ''return + 15.5 * x4 * x2'',
     tabs 2 @ ''- 40.14 * x4 * x'',
     tabs 2 @ ''+ 31.96 * x4'',
     tabs 2 @ ''- 6.868 * x2 * x'',
     tabs 2 @ ''+ 0.4298 * x2'',
     tabs 2 @ ''+ 0.1191 * x'',
     tabs 2 @ ''- 0.00232;'',
     ''}'',
     ''vec3 AgXToneMapping( vec3 color ) {'',
     tabs 1 @ ''const mat3 AgXInsetMatrix = mat3('',
     tabs 2 @ ''vec3( 0.856627153315983, 0.137318972929847, 0.11189821299995 ),'',
     tabs 2 @ ''vec3( 0.0951212405381588, 0.761241990602591, 0.0767994186031903 ),'',
     tabs 2 @ ''vec3( 0.0482516061458583, 0.101439036467562, 0.811302368396859 )'',
     tabs 1 @ '');'',
     tabs 1 @ ''const mat3 AgXOutsetMatrix = mat3('',
     tabs 2 @ ''vec3( 1.1271005818144368, - 0.1413297634984383, - 0.14132976349843826 ),'',
     tabs 2 @ ''vec3( - 0.11060664309660323, 1.157823702216272, - 0.11060664309660294 ),'',
     tabs 2 @ ''vec3( - 0.016493938717834573, - 0.016493938717834257, 1.2519364065950405 )'',
     tabs 1 @ '');'',
     tabs 1 @ ''const float AgxMinEv = - 12.47393;'' @ tabs 1 @ ''const float AgxMaxEv = 4.026069;'',
     tabs 1 @ ''color *= toneMappingExposure;'',
     tabs 1 @ ''color = LINEAR_SRGB_TO_LINEAR_REC2020 * color;'',
     tabs 1 @ ''color = AgXInsetMatrix * color;'',
     tabs 1 @ ''color = max( color, 1e-10 );'' @ tabs 1 @ ''color = log2( color );'',
     tabs 1 @ ''color = ( color - AgxMinEv ) / ( AgxMaxEv - AgxMinEv );'',
     tabs 1 @ ''color = clamp( color, 0.0, 1.0 );'',
     tabs 1 @ ''color = agxDefaultContrastApprox( color );'',
     tabs 1 @ ''color = AgXOutsetMatrix * color;'',
     tabs 1 @ ''color = pow( max( vec3( 0.0 ), color ), vec3( 2.2 ) );'',
     tabs 1 @ ''color = LINEAR_REC2020_TO_LINEAR_SRGB * color;'',
     tabs 1 @ ''color = clamp( color, 0.0, 1.0 );'',
     tabs 1 @ ''return color;'',
     ''}'',
     ''vec3 NeutralToneMapping( vec3 color ) {'',
     tabs 1 @ ''const float StartCompression = 0.8 - 0.04;'',
     tabs 1 @ ''const float Desaturation = 0.15;'',
     tabs 1 @ ''color *= toneMappingExposure;'',
     tabs 1 @ ''float x = min( color.r, min( color.g, color.b ) );'',
     tabs 1 @ ''float offset = x < 0.08 ? x - 6.25 * x * x : 0.04;'',
     tabs 1 @ ''color -= offset;'',
     tabs 1 @ ''float peak = max( color.r, max( color.g, color.b ) );'',
     tabs 1 @ ''if ( peak < StartCompression ) return color;'',
     tabs 1 @ ''float d = 1. - StartCompression;'',
     tabs 1 @ ''float newPeak = 1. - d * d / ( peak + d - StartCompression );'',
     tabs 1 @ ''color *= newPeak / peak;'',
     tabs 1 @ ''float g = 1. - 1. / ( Desaturation * ( peak - newPeak ) + 1. );'',
     tabs 1 @ ''return mix( color, vec3( newPeak ), g );'',
     ''}'',
     ''vec3 CustomToneMapping( vec3 color ) { return color; }'']"

lemma tonemapping_pars_fragment_text [chunk_facts]:
  "tonemapping_pars_fragment \<noteq> []" "nesting [] tonemapping_pars_fragment = Some []" "include_list tonemapping_pars_fragment = []"
  unfolding tonemapping_pars_fragment_def
  by (simp_all add: line_defs cong: nesting_cong include_list_cong)

definition transmission_fragment :: "string list" where
  "transmission_fragment = [
     ''#ifdef USE_TRANSMISSION'',
     tabs 1 @ ''material.transmission = transmission;'',
     tabs 1 @ ''material.transmissionAlpha = 1.0;'',
     tabs 1 @ ''material.thickness = thickness;'',
     tabs 1 @ ''material.attenuationDistance = attenuationDistance;'',
     tabs 1 @ ''material.attenuationColor = attenuationColor;'',
     tabs 1 @ ''#ifdef USE_TRANSMISSIONMAP'',
     tabs 2 @ ''material.transmission *= texture2D( transmissionMap, vTransmissionMapUv ).r;'',
     tabs 1 @ ''#endif'',
     tabs 1 @ ''#ifdef USE_THICKNESSMAP'',
     tabs 2 @ ''material.thickness *= texture2D( thicknessMap, vThicknessMapUv ).g;'',
     tabs 1 @ ''#endif'',
     tabs 1 @ ''vec3 pos = vWorldPosition;'',
     tabs 1 @ ''vec3 v = normalize( cameraPosition - pos );'',
     tabs 1 @ ''vec3 n = inverseTransformDirection( normal, viewMatrix );'',
     tabs 1 @ ''vec4 transmitted = getIBLVolumeRefraction('',
     tabs 2 @ ''n, v, material.roughness, material.diffuseColor, material.specularColor, material.specularF90,'',
     tabs 2 @ ''pos, modelMatrix, viewMatrix, projectionMatrix, material.dispersion, material.ior, material.thickness,'',
     tabs 2 @ ''material.attenuationColor, material.attenuationDistance );'',
     tabs 1 @ ''material.transmissionAlpha = mix( material.transmissionAlpha, transmitted.a, material.transmission );'',
     tabs 1 @ ''totalDiffuse = mix( totalDiffuse, transmitted.rgb, material.transmission );'',
     ''#endif'']"

lemma transmission_fragment_text [chunk_facts]:
  "transmission_fragment \<noteq> []" "nesting [] transmission_fragment = Some []" "include_list transmission_fragment = []"
  unfolding transmission_fragment_def
  by (simp_all add: line_defs cong: nesting_cong include_list_cong)

definition transmission_pars_fragment :: "string list" where
  "transmission_pars_fragment = [
     ''#ifdef USE_TRANSMISSION'',
     tabs 1 @ ''uniform float transmission;'',
     tabs 1 @ ''uniform float thickness;'',
     tabs 1 @ ''uniform float attenuationDistance;'',
     tabs 1 @ ''uniform vec3 attenuationColor;'',
     tabs 1 @ ''#ifdef USE_TRANSMISSIONMAP'',
     tabs 2 @ ''uniform sampler2D transmissionMap;'',
     tabs 1 @ ''#endif'',
     tabs 1 @ ''#ifdef USE_THICKNESSMAP'',
     tabs 2 @ ''uniform sampler2D thicknessMap;'',
     tabs 1 @ ''#endif'',
     tabs 1 @ ''uniform vec2 transmissionSamplerSize;'',
     tabs 1 @ ''uniform sampler2D transmissionSamplerMap;'',
     tabs 1 @ ''uniform mat4 modelMatrix;'',
     tabs 1 @ ''uniform mat4 projectionMatrix;'',
     tabs 1 @ ''varying vec3 vWorldPosition;'',
     tabs 1 @ ''float w0( float a ) {'',
     tabs 2 @ ''return ( 1.0 / 6.0 ) * ( a * ( a * ( - a + 3.0 ) - 3.0 ) + 1.0 );'',
     tabs 1 @ ''}'',
     tabs 1 @ ''float w1( float a ) {'',
     tabs 2 @ ''return ( 1.0 / 6.0 ) * ( a *  a * ( 3.0 * a - 6.0 ) + 4.0 );'',
     tabs 1 @ ''}'',
     tabs 1 @ ''float w2( float a ){'',
     tabs 2 @ ''return ( 1.0 / 6.0 ) * ( a * ( a * ( - 3.0 * a + 3.0 ) + 3.0 ) + 1.0 );'',
     tabs 1 @ ''}'',
     tabs 1 @ ''float w3( float a ) {'',
     tabs 2 @ ''return ( 1.0 / 6.0 ) * ( a * a * a );'',
     tabs 1 @ ''}'',
     tabs 1 @ ''float g0( float a ) {'',
     tabs 2 @ ''return w0( a ) + w1( a );'',
     tabs 1 @ ''}'',
     tabs 1 @ ''float g1( float a ) {'',
     tabs 2 @ ''return w2( a ) + w3( a );'',
     tabs 1 @ ''}'',
     tabs 1 @ ''float h0( float a ) {'',
     tabs 2 @ ''return - 1.0 + w1( a ) / ( w0( a ) + w1( a ) );'',
     tabs 1 @ ''}'',
     tabs 1 @ ''float h1( float a ) {'',
     tabs 2 @ ''return 1.0 + w3( a ) / ( w2( a ) + w3( a ) );'',
     tabs 1 @ ''}'',
     tabs 1 @ ''vec4 bicubic( sampler2D tex, vec2 uv, vec4 texelSize, float lod ) {'',
     tabs 2 @ ''uv = uv * texelSize.zw + 0.5;'',
     tabs 2 @ ''vec2 iuv = floor( uv );'',
     tabs 2 @ ''vec2 fuv = fract( uv );'',
     tabs 2 @ ''float g0x = g0( fuv.x );'',
     tabs 2 @ ''float g1x = g1( fuv.x );'',
     tabs 2 @ ''float h0x = h0( fuv.x );'',
     tabs 2 @ ''float h1x = h1( fuv.x );'',
     tabs 2 @ ''float h0y = h0( fuv.y );'',
     tabs 2 @ ''float h1y = h1( fuv.y );'',
     tabs 2 @ ''vec2 p0 = ( vec2( iuv.x + h0x, iuv.y + h0y ) - 0.5 ) * texelSize.xy;'',
     tabs 2 @ ''vec2 p1 = ( vec2( iuv.x + h1x, iuv.y + h0y ) - 0.5 ) * texelSize.xy;'',
     tabs 2 @ ''vec2 p2 = ( vec2( iuv.x + h0x, iuv.y + h1y ) - 0.5 ) * texelSize.xy;'',
     tabs 2 @ ''vec2 p3 = ( vec2( iuv.x + h1x, iuv.y + h1y ) - 0.5 ) * texelSize.xy;'',
     tabs 2 @ ''return g0( fuv.y ) * ( g0x * textureLod( tex, p0, lod ) + g1x * textureLod( tex, p1, lod ) ) +'',
     tabs 3 @ ''g1( fuv.y ) * ( g0x * textureLod( tex, p2, lod ) + g1x * textureLod( tex, p3, lod ) );'',
     tabs 1 @ ''}'',
     tabs 1 @ ''vec4 textureBicubic( sampler2D sampler, vec2 uv, float lod ) {'',
     tabs 2 @ ''vec2 fLodSize = vec2( textureSize( sampler, int( lod ) ) );'',
     tabs 2 @ ''vec2 cLodSize = vec2( textureSize( sampler, int( lod + 1.0 ) ) );'',
     tabs 2 @ ''vec2 fLodSizeInv = 1.0 / fLodSize;'',
     tabs 2 @ ''vec2 cLodSizeInv = 1.0 / cLodSize;'',
     tabs 2 @ ''vec4 fSample = bicubic( sampler, uv, vec4( fLodSizeInv, fLodSize ), floor( lod ) );'',
     tabs 2 @ ''vec4 cSample = bicubic( sampler, uv, vec4( cLodSizeInv, cLodSize ), ceil( lod ) );'',
     tabs 2 @ ''return mix( fSample, cSample, fract( lod ) );'',
     tabs 1 @ ''}'',
     tabs 1 @ ''vec3 getVolumeTransmissionRay( const in vec3 n, const in vec3 v, const in float thickness, const in float ior, const in mat4 modelMatrix ) {'',
     tabs 2 @ ''vec3 refractionVector = refract( - v, normalize( n ), 1.0 / ior );'',
     tabs 2 @ ''vec3 modelScale;'',
     tabs 2 @ ''modelScale.x = length( vec3( modelMatrix[ 0 ].xyz ) );'',
     tabs 2 @ ''modelScale.y = length( vec3( modelMatrix[ 1 ].xyz ) );'',
     tabs 2 @ ''modelScale.z = length( vec3( modelMatrix[ 2 ].xyz ) );'',
     tabs 2 @ ''return normalize( refractionVector ) * thickness * modelScale;'',
     tabs 1 @ ''}'',
     tabs 1 @ ''float applyIorToRoughness( const in float roughness, const in float ior ) {'',
     tabs 2 @ ''return roughness * clamp( ior * 2.0 - 2.0, 0.0, 1.0 );'',
     tabs 1 @ ''}'',
     tabs 1 @ ''vec4 getTransmissionSample( const in vec2 fragCoord, const in float roughness, const in float ior ) {'',
     tabs 2 @ ''float lod = log2( transmissionSamplerSize.x ) * applyIorToRoughness( roughness, ior );'',
     tabs 2 @ ''return textureBicubic( transmissionSamplerMap, fragCoord.xy, lod );'',
     tabs 1 @ ''}'',
     tabs 1 @ ''vec3 volumeAttenuation( const in float transmissionDistance, const in vec3 attenuationColor, const in float attenuationDistance ) {'',
     tabs 2 @ ''if ( isinf( attenuationDistance ) ) {'',
     tabs 3 @ ''return vec3( 1.0 );'',
     tabs 2 @ ''} else {'',
     tabs 3 @ ''vec3 attenuationCoefficient = -log( attenuationColor ) / attenuationDistance;'',
     tabs 3 @ ''vec3 transmittance = exp( - attenuationCoefficient * transmissionDistance );'' @ tabs 3 @ ''return transmittance;'',
     tabs 2 @ ''}'',
     tabs 1 @ ''}'',
     tabs 1 @ ''vec4 getIBLVolumeRefraction( const in vec3 n, const in vec3 v, const in float roughness, const in vec3 diffuseColor,'',
     tabs 2 @ ''const in vec3 specularColor, const in float specularF90, const in vec3 position, const in mat4 modelMatrix,'',
     tabs 2 @ ''const in mat4 viewMatrix, const in mat4 projMatrix, const in float dispersion, const in float ior, const in float thickness,'',
     tabs 2 @ ''const in vec3 attenuationColor, const in float attenuationDistance ) {'',
     tabs 2 @ ''vec4 transmittedLight;'',
     tabs 2 @ ''vec3 transmittance;'',
     tabs 2 @ ''#ifdef USE_DISPERSION'',
     tabs 3 @ ''float halfSpread = ( ior - 1.0 ) * 0.025 * dispersion;'',
     tabs 3 @ ''vec3 iors = vec3( ior - halfSpread, ior, ior + halfSpread );'',
     tabs 3 @ ''for ( int i = 0; i < 3; i ++ ) {'',
     tabs 4 @ ''vec3 transmissionRay = getVolumeTransmissionRay( n, v, thickness, iors[ i ], modelMatrix );'',
     tabs 4 @ ''vec3 refractedRayExit = position + transmissionRay;'',
     tabs 4 @ ''vec4 ndcPos = projMatrix * viewMatrix * vec4( refractedRayExit, 1.0 );'',
     tabs 4 @ ''vec2 refractionCoords = ndcPos.xy / ndcPos.w;'',
     tabs 4 @ ''refractionCoords += 1.0;'',
     tabs 4 @ ''refractionCoords /= 2.0;'',
     tabs 4 @ ''vec4 transmissionSample = getTransmissionSample( refractionCoords, roughness, iors[ i ] );'',
     tabs 4 @ ''transmittedLight[ i ] = transmissionSample[ i ];'',
     tabs 4 @ ''transmittedLight.a += transmissionSample.a;'',
     tabs 4 @ ''transmittance[ i ] = diffuseColor[ i ] * volumeAttenuation( length( transmissionRay ), attenuationColor, attenuationDistance )[ i ];'',
     tabs 3 @ ''}'',
     tabs 3 @ ''transmittedLight.a /= 3.0;'',
     tabs 2 @ ''#else'',
     tabs 3 @ ''vec3 transmissionRay = getVolumeTransmissionRay( n, v, thickness, ior, modelMatrix );'',
     tabs 3 @ ''vec3 refractedRayExit = position + transmissionRay;'',
     tabs 3 @ ''vec4 ndcPos = projMatrix * viewMatrix * vec4( refractedRayExit, 1.0 );'',
     tabs 3 @ ''vec2 refractionCoords = ndcPos.xy / ndcPos.w;'',
     tabs 3 @ ''refractionCoords += 1.0;'',
     tabs 3 @ ''refractionCoords /= 2.0;'',
     tabs 3 @ ''transmittedLight = getTransmissionSample( refractionCoords, roughness, ior );'',
     tabs 3 @ ''transmittance = diffuseColor * volumeAttenuation( length( transmissionRay ), attenuationColor, attenuationDistance );'',
     tabs 2 @ ''#endif'',
     tabs 2 @ ''vec3 attenuatedColor = transmittance * transmittedLight.rgb;'',
     tabs 2 @ ''vec3 F = EnvironmentBRDF( n, v, specularColor, specularF90, roughness );'',
     tabs 2 @ ''float transmittanceFactor = ( transmittance.r + transmittance.g + transmittance.b ) / 3.0;'',
     tabs 2 @ ''return vec4( ( 1.0 - F ) * attenuatedColor, 1.0 - ( 1.0 - transmittedLight.a ) * transmittanceFactor );'',
     tabs 1 @ ''}'',
     ''#endif'']"

lemma transmission_pars_fragment_text [chunk_facts]:
  "transmission_pars_fragment \<noteq> []" "nesting [] transmission_pars_fragment = Some []" "include_list transmission_pars_fragment = []"
  unfolding transmission_pars_fragment_def
  by (simp_all add: line_defs cong: nesting_cong include_list_cong)

end
