(* ===== verification/ShaderPrograms.thy ===== *)
theory ShaderPrograms
  imports ShaderText
begin

text \<open>
  The vertex and fragment programs of the built-in materials, before their includes are expanded.
  Each chunk is the template string of the same name in the table of \<open>web/viewer/dist/assets/index-BpuCcfds.js\<close>,
  line by line, and is followed by what the include expansion needs to know of it.
\<close>

definition background_vert :: "string list" where
  "background_vert = [
     ''varying vec2 vUv;'',
     ''uniform mat3 uvTransform;'',
     ''void main() {'',
     tabs 1 @ ''vUv = ( uvTransform * vec3( uv, 1 ) ).xy;'',
     tabs 1 @ ''gl_Position = vec4( position.xy, 1.0, 1.0 );'',
     ''}'']"

lemma background_vert_text [chunk_facts]:
  "background_vert \<noteq> []" "nesting [] background_vert = Some []" "include_list background_vert = []"
  unfolding background_vert_def
  by (simp_all add: line_defs cong: nesting_cong include_list_cong)

definition background_frag :: "string list" where
  "background_frag = [
     ''uniform sampler2D t2D;'',
     ''uniform float backgroundIntensity;'',
     ''varying vec2 vUv;'',
     ''void main() {'',
     tabs 1 @ ''vec4 texColor = texture2D( t2D, vUv );'',
     tabs 1 @ ''#ifdef DECODE_VIDEO_TEXTURE'',
     tabs 2 @ ''texColor = vec4( mix( pow( texColor.rgb * 0.9478672986 + vec3( 0.0521327014 ), vec3( 2.4 ) ), texColor.rgb * 0.0773993808, vec3( lessThanEqual( texColor.rgb, vec3( 0.04045 ) ) ) ), texColor.w );'',
     tabs 1 @ ''#endif'',
     tabs 1 @ ''texColor.rgb *= backgroundIntensity;'',
     tabs 1 @ ''gl_FragColor = texColor;'',
     tabs 1 @ ''#include <tonemapping_fragment>'',
     tabs 1 @ ''#include <colorspace_fragment>'',
     ''}'']"

lemma background_frag_text [chunk_facts]:
  "background_frag \<noteq> []" "nesting [] background_frag = Some []" "include_list background_frag = map (\<lambda>n. (n, [])) [
       ''tonemapping_fragment'',
       ''colorspace_fragment'']"
  unfolding background_frag_def
  by (simp_all add: line_defs cong: nesting_cong include_list_cong)

definition backgroundCube_vert :: "string list" where
  "backgroundCube_vert = [
     ''varying vec3 vWorldDirection;'',
     ''#include <common>'',
     ''void main() {'',
     tabs 1 @ ''vWorldDirection = transformDirection( position, modelMatrix );'',
     tabs 1 @ ''#include <begin_vertex>'',
     tabs 1 @ ''#include <project_vertex>'',
     tabs 1 @ ''gl_Position.z = gl_Position.w;'',
     ''}'']"

lemma backgroundCube_vert_text [chunk_facts]:
  "backgroundCube_vert \<noteq> []" "nesting [] backgroundCube_vert = Some []" "include_list backgroundCube_vert = map (\<lambda>n. (n, [])) [
       ''common'',
       ''begin_vertex'',
       ''project_vertex'']"
  unfolding backgroundCube_vert_def
  by (simp_all add: line_defs cong: nesting_cong include_list_cong)

definition backgroundCube_frag :: "string list" where
  "backgroundCube_frag = [
     ''#ifdef ENVMAP_TYPE_CUBE'',
     tabs 1 @ ''uniform samplerCube envMap;'',
     ''#elif defined( ENVMAP_TYPE_CUBE_UV )'',
     tabs 1 @ ''uniform sampler2D envMap;'',
     ''#endif'',
     ''uniform float flipEnvMap;'',
     ''uniform float backgroundBlurriness;'',
     ''uniform float backgroundIntensity;'',
     ''uniform mat3 backgroundRotation;'',
     ''varying vec3 vWorldDirection;'',
     ''#include <cube_uv_reflection_fragment>'',
     ''void main() {'',
     tabs 1 @ ''#ifdef ENVMAP_TYPE_CUBE'',
     tabs 2 @ ''vec4 texColor = textureCube( envMap, backgroundRotation * vec3( flipEnvMap * vWorldDirection.x, vWorldDirection.yz ) );'',
     tabs 1 @ ''#elif defined( ENVMAP_TYPE_CUBE_UV )'',
     tabs 2 @ ''vec4 texColor = textureCubeUV( envMap, backgroundRotation * vWorldDirection, backgroundBlurriness );'',
     tabs 1 @ ''#else'',
     tabs 2 @ ''vec4 texColor = vec4( 0.0, 0.0, 0.0, 1.0 );'',
     tabs 1 @ ''#endif'',
     tabs 1 @ ''texColor.rgb *= backgroundIntensity;'',
     tabs 1 @ ''gl_FragColor = texColor;'',
     tabs 1 @ ''#include <tonemapping_fragment>'',
     tabs 1 @ ''#include <colorspace_fragment>'',
     ''}'']"

lemma backgroundCube_frag_text [chunk_facts]:
  "backgroundCube_frag \<noteq> []" "nesting [] backgroundCube_frag = Some []" "include_list backgroundCube_frag = map (\<lambda>n. (n, [])) [
       ''cube_uv_reflection_fragment'',
       ''tonemapping_fragment'',
       ''colorspace_fragment'']"
  unfolding backgroundCube_frag_def
  by (simp_all add: line_defs cong: nesting_cong include_list_cong)

definition cube_vert :: "string list" where
  "cube_vert = [
     ''varying vec3 vWorldDirection;'',
     ''#include <common>'',
     ''void main() {'',
     tabs 1 @ ''vWorldDirection = transformDirection( position, modelMatrix );'',
     tabs 1 @ ''#include <begin_vertex>'',
     tabs 1 @ ''#include <project_vertex>'',
     tabs 1 @ ''gl_Position.z = gl_Position.w;'',
     ''}'']"

lemma cube_vert_text [chunk_facts]:
  "cube_vert \<noteq> []" "nesting [] cube_vert = Some []" "include_list cube_vert = map (\<lambda>n. (n, [])) [
       ''common'',
       ''begin_vertex'',
       ''project_vertex'']"
  unfolding cube_vert_def
  by (simp_all add: line_defs cong: nesting_cong include_list_cong)

definition cube_frag :: "string list" where
  "cube_frag = [
     ''uniform samplerCube tCube;'',
     ''uniform float tFlip;'',
     ''uniform float opacity;'',
     ''varying vec3 vWorldDirection;'',
     ''void main() {'',
     tabs 1 @ ''vec4 texColor = textureCube( tCube, vec3( tFlip * vWorldDirection.x, vWorldDirection.yz ) );'',
     tabs 1 @ ''gl_FragColor = texColor;'',
     tabs 1 @ ''gl_FragColor.a *= opacity;'',
     tabs 1 @ ''#include <tonemapping_fragment>'',
     tabs 1 @ ''#include <colorspace_fragment>'',
     ''}'']"

lemma cube_frag_text [chunk_facts]:
  "cube_frag \<noteq> []" "nesting [] cube_frag = Some []" "include_list cube_frag = map (\<lambda>n. (n, [])) [
       ''tonemapping_fragment'',
       ''colorspace_fragment'']"
  unfolding cube_frag_def
  by (simp_all add: line_defs cong: nesting_cong include_list_cong)

definition depth_vert :: "string list" where
  "depth_vert = [
     ''#include <common>'',
     ''#include <batching_pars_vertex>'',
     ''#include <uv_pars_vertex>'',
     ''#include <displacementmap_pars_vertex>'',
     ''#include <morphtarget_pars_vertex>'',
     ''#include <skinning_pars_vertex>'',
     ''#include <logdepthbuf_pars_vertex>'',
     ''#include <clipping_planes_pars_vertex>'',
     ''varying vec2 vHighPrecisionZW;'',
     ''void main() {'',
     tabs 1 @ ''#include <uv_vertex>'',
     tabs 1 @ ''#include <batching_vertex>'',
     tabs 1 @ ''#include <skinbase_vertex>'',
     tabs 1 @ ''#include <morphinstance_vertex>'',
     tabs 1 @ ''#ifdef USE_DISPLACEMENTMAP'',
     tabs 2 @ ''#include <beginnormal_vertex>'',
     tabs 2 @ ''#include <morphnormal_vertex>'',
     tabs 2 @ ''#include <skinnormal_vertex>'',
     tabs 1 @ ''#endif'',
     tabs 1 @ ''#include <begin_vertex>'',
     tabs 1 @ ''#include <morphtarget_vertex>'',
     tabs 1 @ ''#include <skinning_vertex>'',
     tabs 1 @ ''#include <displacementmap_vertex>'',
     tabs 1 @ ''#include <project_vertex>'',
     tabs 1 @ ''#include <logdepthbuf_vertex>'',
     tabs 1 @ ''#include <clipping_planes_vertex>'',
     tabs 1 @ ''vHighPrecisionZW = gl_Position.zw;'',
     ''}'']"

lemma depth_vert_text [chunk_facts]:
  "depth_vert \<noteq> []" "nesting [] depth_vert = Some []" "include_list depth_vert = map (\<lambda>n. (n, [])) [
       ''common'',
       ''batching_pars_vertex'',
       ''uv_pars_vertex'',
       ''displacementmap_pars_vertex'',
       ''morphtarget_pars_vertex'',
       ''skinning_pars_vertex'',
       ''logdepthbuf_pars_vertex'',
       ''clipping_planes_pars_vertex'',
       ''uv_vertex'',
       ''batching_vertex'',
       ''skinbase_vertex'',
       ''morphinstance_vertex'',
       ''beginnormal_vertex'',
       ''morphnormal_vertex'',
       ''skinnormal_vertex'',
       ''begin_vertex'',
       ''morphtarget_vertex'',
       ''skinning_vertex'',
       ''displacementmap_vertex'',
       ''project_vertex'',
       ''logdepthbuf_vertex'',
       ''clipping_planes_vertex'']"
  unfolding depth_vert_def
  by (simp_all add: line_defs cong: nesting_cong include_list_cong)

definition depth_frag :: "string list" where
  "depth_frag = [
     ''#if DEPTH_PACKING == 3200'',
     tabs 1 @ ''uniform float opacity;'',
     ''#endif'',
     ''#include <common>'',
     ''#include <packing>'',
     ''#include <uv_pars_fragment>'',
     ''#include <map_pars_fragment>'',
     ''#include <alphamap_pars_fragment>'',
     ''#include <alphatest_pars_fragment>'',
     ''#include <alphahash_pars_fragment>'',
     ''#include <logdepthbuf_pars_fragment>'',
     ''#include <clipping_planes_pars_fragment>'',
     ''varying vec2 vHighPrecisionZW;'',
     ''void main() {'',
     tabs 1 @ ''vec4 diffuseColor = vec4( 1.0 );'',
     tabs 1 @ ''#include <clipping_planes_fragment>'',
     tabs 1 @ ''#if DEPTH_PACKING == 3200'',
     tabs 2 @ ''diffuseColor.a = opacity;'',
     tabs 1 @ ''#endif'',
     tabs 1 @ ''#include <map_fragment>'',
     tabs 1 @ ''#include <alphamap_fragment>'',
     tabs 1 @ ''#include <alphatest_fragment>'',
     tabs 1 @ ''#include <alphahash_fragment>'',
     tabs 1 @ ''#include <logdepthbuf_fragment>'',
     tabs 1 @ ''#ifdef USE_REVERSED_DEPTH_BUFFER'',
     tabs 2 @ ''float fragCoordZ = vHighPrecisionZW[ 0 ] / vHighPrecisionZW[ 1 ];'',
     tabs 1 @ ''#else'',
     tabs 2 @ ''float fragCoordZ = 0.5 * vHighPrecisionZW[ 0 ] / vHighPrecisionZW[ 1 ] + 0.5;'',
     tabs 1 @ ''#endif'',
     tabs 1 @ ''#if DEPTH_PACKING == 3200'',
     tabs 2 @ ''gl_FragColor = vec4( vec3( 1.0 - fragCoordZ ), opacity );'',
     tabs 1 @ ''#elif DEPTH_PACKING == 3201'',
     tabs 2 @ ''gl_FragColor = packDepthToRGBA( fragCoordZ );'',
     tabs 1 @ ''#elif DEPTH_PACKING == 3202'',
     tabs 2 @ ''gl_FragColor = vec4( packDepthToRGB( fragCoordZ ), 1.0 );'',
     tabs 1 @ ''#elif DEPTH_PACKING == 3203'',
     tabs 2 @ ''gl_FragColor = vec4( packDepthToRG( fragCoordZ ), 0.0, 1.0 );'',
     tabs 1 @ ''#endif'',
     ''}'']"

lemma depth_frag_text [chunk_facts]:
  "depth_frag \<noteq> []" "nesting [] depth_frag = Some []" "include_list depth_frag = map (\<lambda>n. (n, [])) [
       ''common'',
       ''packing'',
       ''uv_pars_fragment'',
       ''map_pars_fragment'',
       ''alphamap_pars_fragment'',
       ''alphatest_pars_fragment'',
       ''alphahash_pars_fragment'',
       ''logdepthbuf_pars_fragment'',
       ''clipping_planes_pars_fragment'',
       ''clipping_planes_fragment'',
       ''map_fragment'',
       ''alphamap_fragment'',
       ''alphatest_fragment'',
       ''alphahash_fragment'',
       ''logdepthbuf_fragment'']"
  unfolding depth_frag_def
  by (simp_all add: line_defs cong: nesting_cong include_list_cong)

definition distanceRGBA_vert :: "string list" where
  "distanceRGBA_vert = [
     ''#define DISTANCE'',
     ''varying vec3 vWorldPosition;'',
     ''#include <common>'',
     ''#include <batching_pars_vertex>'',
     ''#include <uv_pars_vertex>'',
     ''#include <displacementmap_pars_vertex>'',
     ''#include <morphtarget_pars_vertex>'',
     ''#include <skinning_pars_vertex>'',
     ''#include <clipping_planes_pars_vertex>'',
     ''void main() {'',
     tabs 1 @ ''#include <uv_vertex>'',
     tabs 1 @ ''#include <batching_vertex>'',
     tabs 1 @ ''#include <skinbase_vertex>'',
     tabs 1 @ ''#include <morphinstance_vertex>'',
     tabs 1 @ ''#ifdef USE_DISPLACEMENTMAP'',
     tabs 2 @ ''#include <beginnormal_vertex>'',
     tabs 2 @ ''#include <morphnormal_vertex>'',
     tabs 2 @ ''#include <skinnormal_vertex>'',
     tabs 1 @ ''#endif'',
     tabs 1 @ ''#include <begin_vertex>'',
     tabs 1 @ ''#include <morphtarget_vertex>'',
     tabs 1 @ ''#include <skinning_vertex>'',
     tabs 1 @ ''#include <displacementmap_vertex>'',
     tabs 1 @ ''#include <project_vertex>'',
     tabs 1 @ ''#include <worldpos_vertex>'',
     tabs 1 @ ''#include <clipping_planes_vertex>'',
     tabs 1 @ ''vWorldPosition = worldPosition.xyz;'',
     ''}'']"

lemma distanceRGBA_vert_text [chunk_facts]:
  "distanceRGBA_vert \<noteq> []" "nesting [] distanceRGBA_vert = Some []" "include_list distanceRGBA_vert = map (\<lambda>n. (n, [])) [
       ''common'',
       ''batching_pars_vertex'',
       ''uv_pars_vertex'',
       ''displacementmap_pars_vertex'',
       ''morphtarget_pars_vertex'',
       ''skinning_pars_vertex'',
       ''clipping_planes_pars_vertex'',
       ''uv_vertex'',
       ''batching_vertex'',
       ''skinbase_vertex'',
       ''morphinstance_vertex'',
       ''beginnormal_vertex'',
       ''morphnormal_vertex'',
       ''skinnormal_vertex'',
       ''begin_vertex'',
       ''morphtarget_vertex'',
       ''skinning_vertex'',
       ''displacementmap_vertex'',
       ''project_vertex'',
       ''worldpos_vertex'',
       ''clipping_planes_vertex'']"
  unfolding distanceRGBA_vert_def
  by (simp_all add: line_defs cong: nesting_cong include_list_cong)

definition distanceRGBA_frag :: "string list" where
  "distanceRGBA_frag = [
     ''#define DISTANCE'',
     ''uniform vec3 referencePosition;'',
     ''uniform float nearDistance;'',
     ''uniform float farDistance;'',
     ''varying vec3 vWorldPosition;'',
     ''#include <common>'',
     ''#include <packing>'',
     ''#include <uv_pars_fragment>'',
     ''#include <map_pars_fragment>'',
     ''#include <alphamap_pars_fragment>'',
     ''#include <alphatest_pars_fragment>'',
     ''#include <alphahash_pars_fragment>'',
     ''#include <clipping_planes_pars_fragment>'',
     ''void main () {'',
     tabs 1 @ ''vec4 diffuseColor = vec4( 1.0 );'',
     tabs 1 @ ''#include <clipping_planes_fragment>'',
     tabs 1 @ ''#include <map_fragment>'',
     tabs 1 @ ''#include <alphamap_fragment>'',
     tabs 1 @ ''#include <alphatest_fragment>'',
     tabs 1 @ ''#include <alphahash_fragment>'',
     tabs 1 @ ''float dist = length( vWorldPosition - referencePosition );'',
     tabs 1 @ ''dist = ( dist - nearDistance ) / ( farDistance - nearDistance );'',
     tabs 1 @ ''dist = saturate( dist );'',
     tabs 1 @ ''gl_FragColor = packDepthToRGBA( dist );'',
     ''}'']"

lemma distanceRGBA_frag_text [chunk_facts]:
  "distanceRGBA_frag \<noteq> []" "nesting [] distanceRGBA_frag = Some []" "include_list distanceRGBA_frag = map (\<lambda>n. (n, [])) [
       ''common'',
       ''packing'',
       ''uv_pars_fragment'',
       ''map_pars_fragment'',
       ''alphamap_pars_fragment'',
       ''alphatest_pars_fragment'',
       ''alphahash_pars_fragment'',
       ''clipping_planes_pars_fragment'',
       ''clipping_planes_fragment'',
       ''map_fragment'',
       ''alphamap_fragment'',
       ''alphatest_fragment'',
       ''alphahash_fragment'']"
  unfolding distanceRGBA_frag_def
  by (simp_all add: line_defs cong: nesting_cong include_list_cong)

definition equirect_vert :: "string list" where
  "equirect_vert = [
     ''varying vec3 vWorldDirection;'',
     ''#include <common>'',
     ''void main() {'',
     tabs 1 @ ''vWorldDirection = transformDirection( position, modelMatrix );'',
     tabs 1 @ ''#include <begin_vertex>'',
     tabs 1 @ ''#include <project_vertex>'',
     ''}'']"

lemma equirect_vert_text [chunk_facts]:
  "equirect_vert \<noteq> []" "nesting [] equirect_vert = Some []" "include_list equirect_vert = map (\<lambda>n. (n, [])) [
       ''common'',
       ''begin_vertex'',
       ''project_vertex'']"
  unfolding equirect_vert_def
  by (simp_all add: line_defs cong: nesting_cong include_list_cong)

definition equirect_frag :: "string list" where
  "equirect_frag = [
     ''uniform sampler2D tEquirect;'',
     ''varying vec3 vWorldDirection;'',
     ''#include <common>'',
     ''void main() {'',
     tabs 1 @ ''vec3 direction = normalize( vWorldDirection );'',
     tabs 1 @ ''vec2 sampleUV = equirectUv( direction );'',
     tabs 1 @ ''gl_FragColor = texture2D( tEquirect, sampleUV );'',
     tabs 1 @ ''#include <tonemapping_fragment>'',
     tabs 1 @ ''#include <colorspace_fragment>'',
     ''}'']"

lemma equirect_frag_text [chunk_facts]:
  "equirect_frag \<noteq> []" "nesting [] equirect_frag = Some []" "include_list equirect_frag = map (\<lambda>n. (n, [])) [
       ''common'',
       ''tonemapping_fragment'',
       ''colorspace_fragment'']"
  unfolding equirect_frag_def
  by (simp_all add: line_defs cong: nesting_cong include_list_cong)

definition linedashed_vert :: "string list" where
  "linedashed_vert = [
     ''uniform float scale;'',
     ''attribute float lineDistance;'',
     ''varying float vLineDistance;'',
     ''#include <common>'',
     ''#include <uv_pars_vertex>'',
     ''#include <color_pars_vertex>'',
     ''#include <fog_pars_vertex>'',
     ''#include <morphtarget_pars_vertex>'',
     ''#include <logdepthbuf_pars_vertex>'',
     ''#include <clipping_planes_pars_vertex>'',
     ''void main() {'',
     tabs 1 @ ''vLineDistance = scale * lineDistance;'',
     tabs 1 @ ''#include <uv_vertex>'',
     tabs 1 @ ''#include <color_vertex>'',
     tabs 1 @ ''#include <morphinstance_vertex>'',
     tabs 1 @ ''#include <morphcolor_vertex>'',
     tabs 1 @ ''#include <begin_vertex>'',
     tabs 1 @ ''#include <morphtarget_vertex>'',
     tabs 1 @ ''#include <project_vertex>'',
     tabs 1 @ ''#include <logdepthbuf_vertex>'',
     tabs 1 @ ''#include <clipping_planes_vertex>'',
     tabs 1 @ ''#include <fog_vertex>'',
     ''}'']"

lemma linedashed_vert_text [chunk_facts]:
  "linedashed_vert \<noteq> []" "nesting [] linedashed_vert = Some []" "include_list linedashed_vert = map (\<lambda>n. (n, [])) [
       ''common'',
       ''uv_pars_vertex'',
       ''color_pars_vertex'',
       ''fog_pars_vertex'',
       ''morphtarget_pars_vertex'',
       ''logdepthbuf_pars_vertex'',
       ''clipping_planes_pars_vertex'',
       ''uv_vertex'',
       ''color_vertex'',
       ''morphinstance_vertex'',
       ''morphcolor_vertex'',
       ''begin_vertex'',
       ''morphtarget_vertex'',
       ''project_vertex'',
       ''logdepthbuf_vertex'',
       ''clipping_planes_vertex'',
       ''fog_vertex'']"
  unfolding linedashed_vert_def
  by (simp_all add: line_defs cong: nesting_cong include_list_cong)

definition linedashed_frag :: "string list" where
  "linedashed_frag = [
     ''uniform vec3 diffuse;'',
     ''uniform float opacity;'',
     ''uniform float dashSize;'',
     ''uniform float totalSize;'',
     ''varying float vLineDistance;'',
     ''#include <common>'',
     ''#include <color_pars_fragment>'',
     ''#include <uv_pars_fragment>'',
     ''#include <map_pars_fragment>'',
     ''#include <fog_pars_fragment>'',
     ''#include <logdepthbuf_pars_fragment>'',
     ''#include <clipping_planes_pars_fragment>'',
     ''void main() {'',
     tabs 1 @ ''vec4 diffuseColor = vec4( diffuse, opacity );'',
     tabs 1 @ ''#include <clipping_planes_fragment>'',
     tabs 1 @ ''if ( mod( vLineDistance, totalSize ) > dashSize ) {'',
     tabs 2 @ ''discard;'',
     tabs 1 @ ''}'',
     tabs 1 @ ''vec3 outgoingLight = vec3( 0.0 );'',
     tabs 1 @ ''#include <logdepthbuf_fragment>'',
     tabs 1 @ ''#include <map_fragment>'',
     tabs 1 @ ''#include <color_fragment>'',
     tabs 1 @ ''outgoingLight = diffuseColor.rgb;'',
     tabs 1 @ ''#include <opaque_fragment>'',
     tabs 1 @ ''#include <tonemapping_fragment>'',
     tabs 1 @ ''#include <colorspace_fragment>'',
     tabs 1 @ ''#include <fog_fragment>'',
     tabs 1 @ ''#include <premultiplied_alpha_fragment>'',
     ''}'']"

lemma linedashed_frag_text [chunk_facts]:
  "linedashed_frag \<noteq> []" "nesting [] linedashed_frag = Some []" "include_list linedashed_frag = map (\<lambda>n. (n, [])) [
       ''common'',
       ''color_pars_fragment'',
       ''uv_pars_fragment'',
       ''map_pars_fragment'',
       ''fog_pars_fragment'',
       ''logdepthbuf_pars_fragment'',
       ''clipping_planes_pars_fragment'',
       ''clipping_planes_fragment'',
       ''logdepthbuf_fragment'',
       ''map_fragment'',
       ''color_fragment'',
       ''opaque_fragment'',
       ''tonemapping_fragment'',
       ''colorspace_fragment'',
       ''fog_fragment'',
       ''premultiplied_alpha_fragment'']"
  unfolding linedashed_frag_def
  by (simp_all add: line_defs cong: nesting_cong include_list_cong)

definition meshbasic_vert :: "string list" where
  "meshbasic_vert = [
     ''#include <common>'',
     ''#include <batching_pars_vertex>'',
     ''#include <uv_pars_vertex>'',
     ''#include <envmap_pars_vertex>'',
     ''#include <color_pars_vertex>'',
     ''#include <fog_pars_vertex>'',
     ''#include <morphtarget_pars_vertex>'',
     ''#include <skinning_pars_vertex>'',
     ''#include <logdepthbuf_pars_vertex>'',
     ''#include <clipping_planes_pars_vertex>'',
     ''void main() {'',
     tabs 1 @ ''#include <uv_vertex>'',
     tabs 1 @ ''#include <color_vertex>'',
     tabs 1 @ ''#include <morphinstance_vertex>'',
     tabs 1 @ ''#include <morphcolor_vertex>'',
     tabs 1 @ ''#include <batching_vertex>'',
     tabs 1 @ ''#if defined ( USE_ENVMAP ) || defined ( USE_SKINNING )'',
     tabs 2 @ ''#include <beginnormal_vertex>'',
     tabs 2 @ ''#include <morphnormal_vertex>'',
     tabs 2 @ ''#include <skinbase_vertex>'',
     tabs 2 @ ''#include <skinnormal_vertex>'',
     tabs 2 @ ''#include <defaultnormal_vertex>'',
     tabs 1 @ ''#endif'',
     tabs 1 @ ''#include <begin_vertex>'',
     tabs 1 @ ''#include <morphtarget_vertex>'',
     tabs 1 @ ''#include <skinning_vertex>'',
     tabs 1 @ ''#include <project_vertex>'',
     tabs 1 @ ''#include <logdepthbuf_vertex>'',
     tabs 1 @ ''#include <clipping_planes_vertex>'',
     tabs 1 @ ''#include <worldpos_vertex>'',
     tabs 1 @ ''#include <envmap_vertex>'',
     tabs 1 @ ''#include <fog_vertex>'',
     ''}'']"

lemma meshbasic_vert_text [chunk_facts]:
  "meshbasic_vert \<noteq> []" "nesting [] meshbasic_vert = Some []" "include_list meshbasic_vert = map (\<lambda>n. (n, [])) [
       ''common'',
       ''batching_pars_vertex'',
       ''uv_pars_vertex'',
       ''envmap_pars_vertex'',
       ''color_pars_vertex'',
       ''fog_pars_vertex'',
       ''morphtarget_pars_vertex'',
       ''skinning_pars_vertex'',
       ''logdepthbuf_pars_vertex'',
       ''clipping_planes_pars_vertex'',
       ''uv_vertex'',
       ''color_vertex'',
       ''morphinstance_vertex'',
       ''morphcolor_vertex'',
       ''batching_vertex'',
       ''beginnormal_vertex'',
       ''morphnormal_vertex'',
       ''skinbase_vertex'',
       ''skinnormal_vertex'',
       ''defaultnormal_vertex'',
       ''begin_vertex'',
       ''morphtarget_vertex'',
       ''skinning_vertex'',
       ''project_vertex'',
       ''logdepthbuf_vertex'',
       ''clipping_planes_vertex'',
       ''worldpos_vertex'',
       ''envmap_vertex'',
       ''fog_vertex'']"
  unfolding meshbasic_vert_def
  by (simp_all add: line_defs cong: nesting_cong include_list_cong)

definition meshbasic_frag :: "string list" where
  "meshbasic_frag = [
     ''uniform vec3 diffuse;'',
     ''uniform float opacity;'',
     ''#ifndef FLAT_SHADED'',
     tabs 1 @ ''varying vec3 vNormal;'',
     ''#endif'',
     ''#include <common>'',
     ''#include <dithering_pars_fragment>'',
     ''#include <color_pars_fragment>'',
     ''#include <uv_pars_fragment>'',
     ''#include <map_pars_fragment>'',
     ''#include <alphamap_pars_fragment>'',
     ''#include <alphatest_pars_fragment>'',
     ''#include <alphahash_pars_fragment>'',
     ''#include <aomap_pars_fragment>'',
     ''#include <lightmap_pars_fragment>'',
     ''#include <envmap_common_pars_fragment>'',
     ''#include <envmap_pars_fragment>'',
     ''#include <fog_pars_fragment>'',
     ''#include <specularmap_pars_fragment>'',
     ''#include <logdepthbuf_pars_fragment>'',
     ''#include <clipping_planes_pars_fragment>'',
     ''void main() {'',
     tabs 1 @ ''vec4 diffuseColor = vec4( diffuse, opacity );'',
     tabs 1 @ ''#include <clipping_planes_fragment>'',
     tabs 1 @ ''#include <logdepthbuf_fragment>'',
     tabs 1 @ ''#include <map_fragment>'',
     tabs 1 @ ''#include <color_fragment>'',
     tabs 1 @ ''#include <alphamap_fragment>'',
     tabs 1 @ ''#include <alphatest_fragment>'',
     tabs 1 @ ''#include <alphahash_fragment>'',
     tabs 1 @ ''#include <specularmap_fragment>'',
     tabs 1 @ ''ReflectedLight reflectedLight = ReflectedLight( vec3( 0.0 ), vec3( 0.0 ), vec3( 0.0 ), vec3( 0.0 ) );'',
     tabs 1 @ ''#ifdef USE_LIGHTMAP'',
     tabs 2 @ ''vec4 lightMapTexel = texture2D( lightMap, vLightMapUv );'',
     tabs 2 @ ''reflectedLight.indirectDiffuse += lightMapTexel.rgb * lightMapIntensity * RECIPROCAL_PI;'',
     tabs 1 @ ''#else'',
     tabs 2 @ ''reflectedLight.indirectDiffuse += vec3( 1.0 );'',
     tabs 1 @ ''#endif'',
     tabs 1 @ ''#include <aomap_fragment>'',
     tabs 1 @ ''reflectedLight.indirectDiffuse *= diffuseColor.rgb;'',
     tabs 1 @ ''vec3 outgoingLight = reflectedLight.indirectDiffuse;'',
     tabs 1 @ ''#include <envmap_fragment>'',
     tabs 1 @ ''#include <opaque_fragment>'',
     tabs 1 @ ''#include <tonemapping_fragment>'',
     tabs 1 @ ''#include <colorspace_fragment>'',
     tabs 1 @ ''#include <fog_fragment>'',
     tabs 1 @ ''#include <premultiplied_alpha_fragment>'',
     tabs 1 @ ''#include <dithering_fragment>'',
     ''}'']"

lemma meshbasic_frag_text [chunk_facts]:
  "meshbasic_frag \<noteq> []" "nesting [] meshbasic_frag = Some []" "include_list meshbasic_frag = map (\<lambda>n. (n, [])) [
       ''common'',
       ''dithering_pars_fragment'',
       ''color_pars_fragment'',
       ''uv_pars_fragment'',
       ''map_pars_fragment'',
       ''alphamap_pars_fragment'',
       ''alphatest_pars_fragment'',
       ''alphahash_pars_fragment'',
       ''aomap_pars_fragment'',
       ''lightmap_pars_fragment'',
       ''envmap_common_pars_fragment'',
       ''envmap_pars_fragment'',
       ''fog_pars_fragment'',
       ''specularmap_pars_fragment'',
       ''logdepthbuf_pars_fragment'',
       ''clipping_planes_pars_fragment'',
       ''clipping_planes_fragment'',
       ''logdepthbuf_fragment'',
       ''map_fragment'',
       ''color_fragment'',
       ''alphamap_fragment'',
       ''alphatest_fragment'',
       ''alphahash_fragment'',
       ''specularmap_fragment'',
       ''aomap_fragment'',
       ''envmap_fragment'',
       ''opaque_fragment'',
       ''tonemapping_fragment'',
       ''colorspace_fragment'',
       ''fog_fragment'',
       ''premultiplied_alpha_fragment'',
       ''dithering_fragment'']"
  unfolding meshbasic_frag_def
  by (simp_all add: line_defs cong: nesting_cong include_list_cong)

definition meshlambert_vert :: "string list" where
  "meshlambert_vert = [
     ''#define LAMBERT'',
     ''varying vec3 vViewPosition;'',
     ''#include <common>'',
     ''#include <batching_pars_vertex>'',
     ''#include <uv_pars_vertex>'',
     ''#include <displacementmap_pars_vertex>'',
     ''#include <envmap_pars_vertex>'',
     ''#include <color_pars_vertex>'',
     ''#include <fog_pars_vertex>'',
     ''#include <normal_pars_vertex>'',
     ''#include <morphtarget_pars_vertex>'',
     ''#include <skinning_pars_vertex>'',
     ''#include <shadowmap_pars_vertex>'',
     ''#include <logdepthbuf_pars_vertex>'',
     ''#include <clipping_planes_pars_vertex>'',
     ''void main() {'',
     tabs 1 @ ''#include <uv_vertex>'',
     tabs 1 @ ''#include <color_vertex>'',
     tabs 1 @ ''#include <morphinstance_vertex>'',
     tabs 1 @ ''#include <morphcolor_vertex>'',
     tabs 1 @ ''#include <batching_vertex>'',
     tabs 1 @ ''#include <beginnormal_vertex>'',
     tabs 1 @ ''#include <morphnormal_vertex>'',
     tabs 1 @ ''#include <skinbase_vertex>'',
     tabs 1 @ ''#include <skinnormal_vertex>'',
     tabs 1 @ ''#include <defaultnormal_vertex>'',
     tabs 1 @ ''#include <normal_vertex>'',
     tabs 1 @ ''#include <begin_vertex>'',
     tabs 1 @ ''#include <morphtarget_vertex>'',
     tabs 1 @ ''#include <skinning_vertex>'',
     tabs 1 @ ''#include <displacementmap_vertex>'',
     tabs 1 @ ''#include <project_vertex>'',
     tabs 1 @ ''#include <logdepthbuf_vertex>'',
     tabs 1 @ ''#include <clipping_planes_vertex>'',
     tabs 1 @ ''vViewPosition = - mvPosition.xyz;'',
     tabs 1 @ ''#include <worldpos_vertex>'',
     tabs 1 @ ''#include <envmap_vertex>'',
     tabs 1 @ ''#include <shadowmap_vertex>'',
     tabs 1 @ ''#include <fog_vertex>'',
     ''}'']"

lemma meshlambert_vert_text [chunk_facts]:
  "meshlambert_vert \<noteq> []" "nesting [] meshlambert_vert = Some []" "include_list meshlambert_vert = map (\<lambda>n. (n, [])) [
       ''common'',
       ''batching_pars_vertex'',
       ''uv_pars_vertex'',
       ''displacementmap_pars_vertex'',
       ''envmap_pars_vertex'',
       ''color_pars_vertex'',
       ''fog_pars_vertex'',
       ''normal_pars_vertex'',
       ''morphtarget_pars_vertex'',
       ''skinning_pars_vertex'',
       ''shadowmap_pars_vertex'',
       ''logdepthbuf_pars_vertex'',
       ''clipping_planes_pars_vertex'',
       ''uv_vertex'',
       ''color_vertex'',
       ''morphinstance_vertex'',
       ''morphcolor_vertex'',
       ''batching_vertex'',
       ''beginnormal_vertex'',
       ''morphnormal_vertex'',
       ''skinbase_vertex'',
       ''skinnormal_vertex'',
       ''defaultnormal_vertex'',
       ''normal_vertex'',
       ''begin_vertex'',
       ''morphtarget_vertex'',
       ''skinning_vertex'',
       ''displacementmap_vertex'',
       ''project_vertex'',
       ''logdepthbuf_vertex'',
       ''clipping_planes_vertex'',
       ''worldpos_vertex'',
       ''envmap_vertex'',
       ''shadowmap_vertex'',
       ''fog_vertex'']"
  unfolding meshlambert_vert_def
  by (simp_all add: line_defs cong: nesting_cong include_list_cong)

definition meshlambert_frag :: "string list" where
  "meshlambert_frag = [
     ''#define LAMBERT'',
     ''uniform vec3 diffuse;'',
     ''uniform vec3 emissive;'',
     ''uniform float opacity;'',
     ''#include <common>'',
     ''#include <packing>'',
     ''#include <dithering_pars_fragment>'',
     ''#include <color_pars_fragment>'',
     ''#include <uv_pars_fragment>'',
     ''#include <map_pars_fragment>'',
     ''#include <alphamap_pars_fragment>'',
     ''#include <alphatest_pars_fragment>'',
     ''#include <alphahash_pars_fragment>'',
     ''#include <aomap_pars_fragment>'',
     ''#include <lightmap_pars_fragment>'',
     ''#include <emissivemap_pars_fragment>'',
     ''#include <envmap_common_pars_fragment>'',
     ''#include <envmap_pars_fragment>'',
     ''#include <fog_pars_fragment>'',
     ''#include <bsdfs>'',
     ''#include <lights_pars_begin>'',
     ''#include <normal_pars_fragment>'',
     ''#include <lights_lambert_pars_fragment>'',
     ''#include <shadowmap_pars_fragment>'',
     ''#include <bumpmap_pars_fragment>'',
     ''#include <normalmap_pars_fragment>'',
     ''#include <specularmap_pars_fragment>'',
     ''#include <logdepthbuf_pars_fragment>'',
     ''#include <clipping_planes_pars_fragment>'',
     ''void main() {'',
     tabs 1 @ ''vec4 diffuseColor = vec4( diffuse, opacity );'',
     tabs 1 @ ''#include <clipping_planes_fragment>'',
     tabs 1 @ ''ReflectedLight reflectedLight = ReflectedLight( vec3( 0.0 ), vec3( 0.0 ), vec3( 0.0 ), vec3( 0.0 ) );'',
     tabs 1 @ ''vec3 totalEmissiveRadiance = emissive;'',
     tabs 1 @ ''#include <logdepthbuf_fragment>'',
     tabs 1 @ ''#include <map_fragment>'',
     tabs 1 @ ''#include <color_fragment>'',
     tabs 1 @ ''#include <alphamap_fragment>'',
     tabs 1 @ ''#include <alphatest_fragment>'',
     tabs 1 @ ''#include <alphahash_fragment>'',
     tabs 1 @ ''#include <specularmap_fragment>'',
     tabs 1 @ ''#include <normal_fragment_begin>'',
     tabs 1 @ ''#include <normal_fragment_maps>'',
     tabs 1 @ ''#include <emissivemap_fragment>'',
     tabs 1 @ ''#include <lights_lambert_fragment>'',
     tabs 1 @ ''#include <lights_fragment_begin>'',
     tabs 1 @ ''#include <lights_fragment_maps>'',
     tabs 1 @ ''#include <lights_fragment_end>'',
     tabs 1 @ ''#include <aomap_fragment>'',
     tabs 1 @ ''vec3 outgoingLight = reflectedLight.directDiffuse + reflectedLight.indirectDiffuse + totalEmissiveRadiance;'',
     tabs 1 @ ''#include <envmap_fragment>'',
     tabs 1 @ ''#include <opaque_fragment>'',
     tabs 1 @ ''#include <tonemapping_fragment>'',
     tabs 1 @ ''#include <colorspace_fragment>'',
     tabs 1 @ ''#include <fog_fragment>'',
     tabs 1 @ ''#include <premultiplied_alpha_fragment>'',
     tabs 1 @ ''#include <dithering_fragment>'',
     ''}'']"

lemma meshlambert_frag_text [chunk_facts]:
  "meshlambert_frag \<noteq> []" "nesting [] meshlambert_frag = Some []" "include_list meshlambert_frag = map (\<lambda>n. (n, [])) [
       ''common'',
       ''packing'',
       ''dithering_pars_fragment'',
       ''color_pars_fragment'',
       ''uv_pars_fragment'',
       ''map_pars_fragment'',
       ''alphamap_pars_fragment'',
       ''alphatest_pars_fragment'',
       ''alphahash_pars_fragment'',
       ''aomap_pars_fragment'',
       ''lightmap_pars_fragment'',
       ''emissivemap_pars_fragment'',
       ''envmap_common_pars_fragment'',
       ''envmap_pars_fragment'',
       ''fog_pars_fragment'',
       ''bsdfs'',
       ''lights_pars_begin'',
       ''normal_pars_fragment'',
       ''lights_lambert_pars_fragment'',
       ''shadowmap_pars_fragment'',
       ''bumpmap_pars_fragment'',
       ''normalmap_pars_fragment'',
       ''specularmap_pars_fragment'',
       ''logdepthbuf_pars_fragment'',
       ''clipping_planes_pars_fragment'',
       ''clipping_planes_fragment'',
       ''logdepthbuf_fragment'',
       ''map_fragment'',
       ''color_fragment'',
       ''alphamap_fragment'',
       ''alphatest_fragment'',
       ''alphahash_fragment'',
       ''specularmap_fragment'',
       ''normal_fragment_begin'',
       ''normal_fragment_maps'',
       ''emissivemap_fragment'',
       ''lights_lambert_fragment'',
       ''lights_fragment_begin'',
       ''lights_fragment_maps'',
       ''lights_fragment_end'',
       ''aomap_fragment'',
       ''envmap_fragment'',
       ''opaque_fragment'',
       ''tonemapping_fragment'',
       ''colorspace_fragment'',
       ''fog_fragment'',
       ''premultiplied_alpha_fragment'',
       ''dithering_fragment'']"
  unfolding meshlambert_frag_def
  by (simp_all add: line_defs cong: nesting_cong include_list_cong)

definition meshmatcap_vert :: "string list" where
  "meshmatcap_vert = [
     ''#define MATCAP'',
     ''varying vec3 vViewPosition;'',
     ''#include <common>'',
     ''#include <batching_pars_vertex>'',
     ''#include <uv_pars_vertex>'',
     ''#include <color_pars_vertex>'',
     ''#include <displacementmap_pars_vertex>'',
     ''#include <fog_pars_vertex>'',
     ''#include <normal_pars_vertex>'',
     ''#include <morphtarget_pars_vertex>'',
     ''#include <skinning_pars_vertex>'',
     ''#include <logdepthbuf_pars_vertex>'',
     ''#include <clipping_planes_pars_vertex>'',
     ''void main() {'',
     tabs 1 @ ''#include <uv_vertex>'',
     tabs 1 @ ''#include <color_vertex>'',
     tabs 1 @ ''#include <morphinstance_vertex>'',
     tabs 1 @ ''#include <morphcolor_vertex>'',
     tabs 1 @ ''#include <batching_vertex>'',
     tabs 1 @ ''#include <beginnormal_vertex>'',
     tabs 1 @ ''#include <morphnormal_vertex>'',
     tabs 1 @ ''#include <skinbase_vertex>'',
     tabs 1 @ ''#include <skinnormal_vertex>'',
     tabs 1 @ ''#include <defaultnormal_vertex>'',
     tabs 1 @ ''#include <normal_vertex>'',
     tabs 1 @ ''#include <begin_vertex>'',
     tabs 1 @ ''#include <morphtarget_vertex>'',
     tabs 1 @ ''#include <skinning_vertex>'',
     tabs 1 @ ''#include <displacementmap_vertex>'',
     tabs 1 @ ''#include <project_vertex>'',
     tabs 1 @ ''#include <logdepthbuf_vertex>'',
     tabs 1 @ ''#include <clipping_planes_vertex>'',
     tabs 1 @ ''#include <fog_vertex>'',
     tabs 1 @ ''vViewPosition = - mvPosition.xyz;'',
     ''}'']"

lemma meshmatcap_vert_text [chunk_facts]:
  "meshmatcap_vert \<noteq> []" "nesting [] meshmatcap_vert = Some []" "include_list meshmatcap_vert = map (\<lambda>n. (n, [])) [
       ''common'',
       ''batching_pars_vertex'',
       ''uv_pars_vertex'',
       ''color_pars_vertex'',
       ''displacementmap_pars_vertex'',
       ''fog_pars_vertex'',
       ''normal_pars_vertex'',
       ''morphtarget_pars_vertex'',
       ''skinning_pars_vertex'',
       ''logdepthbuf_pars_vertex'',
       ''clipping_planes_pars_vertex'',
       ''uv_vertex'',
       ''color_vertex'',
       ''morphinstance_vertex'',
       ''morphcolor_vertex'',
       ''batching_vertex'',
       ''beginnormal_vertex'',
       ''morphnormal_vertex'',
       ''skinbase_vertex'',
       ''skinnormal_vertex'',
       ''defaultnormal_vertex'',
       ''normal_vertex'',
       ''begin_vertex'',
       ''morphtarget_vertex'',
       ''skinning_vertex'',
       ''displacementmap_vertex'',
       ''project_vertex'',
       ''logdepthbuf_vertex'',
       ''clipping_planes_vertex'',
       ''fog_vertex'']"
  unfolding meshmatcap_vert_def
  by (simp_all add: line_defs cong: nesting_cong include_list_cong)

definition meshmatcap_frag :: "string list" where
  "meshmatcap_frag = [
     ''#define MATCAP'',
     ''uniform vec3 diffuse;'',
     ''uniform float opacity;'',
     ''uniform sampler2D matcap;'',
     ''varying vec3 vViewPosition;'',
     ''#include <common>'',
     ''#include <dithering_pars_fragment>'',
     ''#include <color_pars_fragment>'',
     ''#include <uv_pars_fragment>'',
     ''#include <map_pars_fragment>'',
     ''#include <alphamap_pars_fragment>'',
     ''#include <alphatest_pars_fragment>'',
     ''#include <alphahash_pars_fragment>'',
     ''#include <fog_pars_fragment>'',
     ''#include <normal_pars_fragment>'',
     ''#include <bumpmap_pars_fragment>'',
     ''#include <normalmap_pars_fragment>'',
     ''#include <logdepthbuf_pars_fragment>'',
     ''#include <clipping_planes_pars_fragment>'',
     ''void main() {'',
     tabs 1 @ ''vec4 diffuseColor = vec4( diffuse, opacity );'',
     tabs 1 @ ''#include <clipping_planes_fragment>'',
     tabs 1 @ ''#include <logdepthbuf_fragment>'',
     tabs 1 @ ''#include <map_fragment>'',
     tabs 1 @ ''#include <color_fragment>'',
     tabs 1 @ ''#include <alphamap_fragment>'',
     tabs 1 @ ''#include <alphatest_fragment>'',
     tabs 1 @ ''#include <alphahash_fragment>'',
     tabs 1 @ ''#include <normal_fragment_begin>'',
     tabs 1 @ ''#include <normal_fragment_maps>'',
     tabs 1 @ ''vec3 viewDir = normalize( vViewPosition );'',
     tabs 1 @ ''vec3 x = normalize( vec3( viewDir.z, 0.0, - viewDir.x ) );'',
     tabs 1 @ ''vec3 y = cross( viewDir, x );'',
     tabs 1 @ ''vec2 uv = vec2( dot( x, normal ), dot( y, normal ) ) * 0.495 + 0.5;'',
     tabs 1 @ ''#ifdef USE_MATCAP'',
     tabs 2 @ ''vec4 matcapColor = texture2D( matcap, uv );'',
     tabs 1 @ ''#else'',
     tabs 2 @ ''vec4 matcapColor = vec4( vec3( mix( 0.2, 0.8, uv.y ) ), 1.0 );'',
     tabs 1 @ ''#endif'',
     tabs 1 @ ''vec3 outgoingLight = diffuseColor.rgb * matcapColor.rgb;'',
     tabs 1 @ ''#include <opaque_fragment>'',
     tabs 1 @ ''#include <tonemapping_fragment>'',
     tabs 1 @ ''#include <colorspace_fragment>'',
     tabs 1 @ ''#include <fog_fragment>'',
     tabs 1 @ ''#include <premultiplied_alpha_fragment>'',
     tabs 1 @ ''#include <dithering_fragment>'',
     ''}'']"

lemma meshmatcap_frag_text [chunk_facts]:
  "meshmatcap_frag \<noteq> []" "nesting [] meshmatcap_frag = Some []" "include_list meshmatcap_frag = map (\<lambda>n. (n, [])) [
       ''common'',
       ''dithering_pars_fragment'',
       ''color_pars_fragment'',
       ''uv_pars_fragment'',
       ''map_pars_fragment'',
       ''alphamap_pars_fragment'',
       ''alphatest_pars_fragment'',
       ''alphahash_pars_fragment'',
       ''fog_pars_fragment'',
       ''normal_pars_fragment'',
       ''bumpmap_pars_fragment'',
       ''normalmap_pars_fragment'',
       ''logdepthbuf_pars_fragment'',
       ''clipping_planes_pars_fragment'',
       ''clipping_planes_fragment'',
       ''logdepthbuf_fragment'',
       ''map_fragment'',
       ''color_fragment'',
       ''alphamap_fragment'',
       ''alphatest_fragment'',
       ''alphahash_fragment'',
       ''normal_fragment_begin'',
       ''normal_fragment_maps'',
       ''opaque_fragment'',
       ''tonemapping_fragment'',
       ''colorspace_fragment'',
       ''fog_fragment'',
       ''premultiplied_alpha_fragment'',
       ''dithering_fragment'']"
  unfolding meshmatcap_frag_def
  by (simp_all add: line_defs cong: nesting_cong include_list_cong)

definition meshnormal_vert :: "string list" where
  "meshnormal_vert = [
     ''#define NORMAL'',
     ''#if defined( FLAT_SHADED ) || defined( USE_BUMPMAP ) || defined( USE_NORMALMAP_TANGENTSPACE )'',
     tabs 1 @ ''varying vec3 vViewPosition;'',
     ''#endif'',
     ''#include <common>'',
     ''#include <batching_pars_vertex>'',
     ''#include <uv_pars_vertex>'',
     ''#include <displacementmap_pars_vertex>'',
     ''#include <normal_pars_vertex>'',
     ''#include <morphtarget_pars_vertex>'',
     ''#include <skinning_pars_vertex>'',
     ''#include <logdepthbuf_pars_vertex>'',
     ''#include <clipping_planes_pars_vertex>'',
     ''void main() {'',
     tabs 1 @ ''#include <uv_vertex>'',
     tabs 1 @ ''#include <batching_vertex>'',
     tabs 1 @ ''#include <beginnormal_vertex>'',
     tabs 1 @ ''#include <morphinstance_vertex>'',
     tabs 1 @ ''#include <morphnormal_vertex>'',
     tabs 1 @ ''#include <skinbase_vertex>'',
     tabs 1 @ ''#include <skinnormal_vertex>'',
     tabs 1 @ ''#include <defaultnormal_vertex>'',
     tabs 1 @ ''#include <normal_vertex>'',
     tabs 1 @ ''#include <begin_vertex>'',
     tabs 1 @ ''#include <morphtarget_vertex>'',
     tabs 1 @ ''#include <skinning_vertex>'',
     tabs 1 @ ''#include <displacementmap_vertex>'',
     tabs 1 @ ''#include <project_vertex>'',
     tabs 1 @ ''#include <logdepthbuf_vertex>'',
     tabs 1 @ ''#include <clipping_planes_vertex>'',
     ''#if defined( FLAT_SHADED ) || defined( USE_BUMPMAP ) || defined( USE_NORMALMAP_TANGENTSPACE )'',
     tabs 1 @ ''vViewPosition = - mvPosition.xyz;'',
     ''#endif'',
     ''}'']"

lemma meshnormal_vert_text [chunk_facts]:
  "meshnormal_vert \<noteq> []" "nesting [] meshnormal_vert = Some []" "include_list meshnormal_vert = map (\<lambda>n. (n, [])) [
       ''common'',
       ''batching_pars_vertex'',
       ''uv_pars_vertex'',
       ''displacementmap_pars_vertex'',
       ''normal_pars_vertex'',
       ''morphtarget_pars_vertex'',
       ''skinning_pars_vertex'',
       ''logdepthbuf_pars_vertex'',
       ''clipping_planes_pars_vertex'',
       ''uv_vertex'',
       ''batching_vertex'',
       ''beginnormal_vertex'',
       ''morphinstance_vertex'',
       ''morphnormal_vertex'',
       ''skinbase_vertex'',
       ''skinnormal_vertex'',
       ''defaultnormal_vertex'',
       ''normal_vertex'',
       ''begin_vertex'',
       ''morphtarget_vertex'',
       ''skinning_vertex'',
       ''displacementmap_vertex'',
       ''project_vertex'',
       ''logdepthbuf_vertex'',
       ''clipping_planes_vertex'']"
  unfolding meshnormal_vert_def
  by (simp_all add: line_defs cong: nesting_cong include_list_cong)

definition meshnormal_frag :: "string list" where
  "meshnormal_frag = [
     ''#define NORMAL'',
     ''uniform float opacity;'',
     ''#if defined( FLAT_SHADED ) || defined( USE_BUMPMAP ) || defined( USE_NORMALMAP_TANGENTSPACE )'',
     tabs 1 @ ''varying vec3 vViewPosition;'',
     ''#endif'',
     ''#include <packing>'',
     ''#include <uv_pars_fragment>'',
     ''#include <normal_pars_fragment>'',
     ''#include <bumpmap_pars_fragment>'',
     ''#include <normalmap_pars_fragment>'',
     ''#include <logdepthbuf_pars_fragment>'',
     ''#include <clipping_planes_pars_fragment>'',
     ''void main() {'',
     tabs 1 @ ''vec4 diffuseColor = vec4( 0.0, 0.0, 0.0, opacity );'',
     tabs 1 @ ''#include <clipping_planes_fragment>'',
     tabs 1 @ ''#include <logdepthbuf_fragment>'',
     tabs 1 @ ''#include <normal_fragment_begin>'',
     tabs 1 @ ''#include <normal_fragment_maps>'',
     tabs 1 @ ''gl_FragColor = vec4( packNormalToRGB( normal ), diffuseColor.a );'',
     tabs 1 @ ''#ifdef OPAQUE'',
     tabs 2 @ ''gl_FragColor.a = 1.0;'',
     tabs 1 @ ''#endif'',
     ''}'']"

lemma meshnormal_frag_text [chunk_facts]:
  "meshnormal_frag \<noteq> []" "nesting [] meshnormal_frag = Some []" "include_list meshnormal_frag = map (\<lambda>n. (n, [])) [
       ''packing'',
       ''uv_pars_fragment'',
       ''normal_pars_fragment'',
       ''bumpmap_pars_fragment'',
       ''normalmap_pars_fragment'',
       ''logdepthbuf_pars_fragment'',
       ''clipping_planes_pars_fragment'',
       ''clipping_planes_fragment'',
       ''logdepthbuf_fragment'',
       ''normal_fragment_begin'',
       ''normal_fragment_maps'']"
  unfolding meshnormal_frag_def
  by (simp_all add: line_defs cong: nesting_cong include_list_cong)

definition meshphong_vert :: "string list" where
  "meshphong_vert = [
     ''#define PHONG'',
     ''varying vec3 vViewPosition;'',
     ''#include <common>'',
     ''#include <batching_pars_vertex>'',
     ''#include <uv_pars_vertex>'',
     ''#include <displacementmap_pars_vertex>'',
     ''#include <envmap_pars_vertex>'',
     ''#include <color_pars_vertex>'',
     ''#include <fog_pars_vertex>'',
     ''#include <normal_pars_vertex>'',
     ''#include <morphtarget_pars_vertex>'',
     ''#include <skinning_pars_vertex>'',
     ''#include <shadowmap_pars_vertex>'',
     ''#include <logdepthbuf_pars_vertex>'',
     ''#include <clipping_planes_pars_vertex>'',
     ''void main() {'',
     tabs 1 @ ''#include <uv_vertex>'',
     tabs 1 @ ''#include <color_vertex>'',
     tabs 1 @ ''#include <morphcolor_vertex>'',
     tabs 1 @ ''#include <batching_vertex>'',
     tabs 1 @ ''#include <beginnormal_vertex>'',
     tabs 1 @ ''#include <morphinstance_vertex>'',
     tabs 1 @ ''#include <morphnormal_vertex>'',
     tabs 1 @ ''#include <skinbase_vertex>'',
     tabs 1 @ ''#include <skinnormal_vertex>'',
     tabs 1 @ ''#include <defaultnormal_vertex>'',
     tabs 1 @ ''#include <normal_vertex>'',
     tabs 1 @ ''#include <begin_vertex>'',
     tabs 1 @ ''#include <morphtarget_vertex>'',
     tabs 1 @ ''#include <skinning_vertex>'',
     tabs 1 @ ''#include <displacementmap_vertex>'',
     tabs 1 @ ''#include <project_vertex>'',
     tabs 1 @ ''#include <logdepthbuf_vertex>'',
     tabs 1 @ ''#include <clipping_planes_vertex>'',
     tabs 1 @ ''vViewPosition = - mvPosition.xyz;'',
     tabs 1 @ ''#include <worldpos_vertex>'',
     tabs 1 @ ''#include <envmap_vertex>'',
     tabs 1 @ ''#include <shadowmap_vertex>'',
     tabs 1 @ ''#include <fog_vertex>'',
     ''}'']"

lemma meshphong_vert_text [chunk_facts]:
  "meshphong_vert \<noteq> []" "nesting [] meshphong_vert = Some []" "include_list meshphong_vert = map (\<lambda>n. (n, [])) [
       ''common'',
       ''batching_pars_vertex'',
       ''uv_pars_vertex'',
       ''displacementmap_pars_vertex'',
       ''envmap_pars_vertex'',
       ''color_pars_vertex'',
       ''fog_pars_vertex'',
       ''normal_pars_vertex'',
       ''morphtarget_pars_vertex'',
       ''skinning_pars_vertex'',
       ''shadowmap_pars_vertex'',
       ''logdepthbuf_pars_vertex'',
       ''clipping_planes_pars_vertex'',
       ''uv_vertex'',
       ''color_vertex'',
       ''morphcolor_vertex'',
       ''batching_vertex'',
       ''beginnormal_vertex'',
       ''morphinstance_vertex'',
       ''morphnormal_vertex'',
       ''skinbase_vertex'',
       ''skinnormal_vertex'',
       ''defaultnormal_vertex'',
       ''normal_vertex'',
       ''begin_vertex'',
       ''morphtarget_vertex'',
       ''skinning_vertex'',
       ''displacementmap_vertex'',
       ''project_vertex'',
       ''logdepthbuf_vertex'',
       ''clipping_planes_vertex'',
       ''worldpos_vertex'',
       ''envmap_vertex'',
       ''shadowmap_vertex'',
       ''fog_vertex'']"
  unfolding meshphong_vert_def
  by (simp_all add: line_defs cong: nesting_cong include_list_cong)

definition meshphong_frag :: "string list" where
  "meshphong_frag = [
     ''#define PHONG'',
     ''uniform vec3 diffuse;'',
     ''uniform vec3 emissive;'',
     ''uniform vec3 specular;'',
     ''uniform float shininess;'',
     ''uniform float opacity;'',
     ''#include <common>'',
     ''#include <packing>'',
     ''#include <dithering_pars_fragment>'',
     ''#include <color_pars_fragment>'',
     ''#include <uv_pars_fragment>'',
     ''#include <map_pars_fragment>'',
     ''#include <alphamap_pars_fragment>'',
     ''#include <alphatest_pars_fragment>'',
     ''#include <alphahash_pars_fragment>'',
     ''#include <aomap_pars_fragment>'',
     ''#include <lightmap_pars_fragment>'',
     ''#include <emissivemap_pars_fragment>'',
     ''#include <envmap_common_pars_fragment>'',
     ''#include <envmap_pars_fragment>'',
     ''#include <fog_pars_fragment>'',
     ''#include <bsdfs>'',
     ''#include <lights_pars_begin>'',
     ''#include <normal_pars_fragment>'',
     ''#include <lights_phong_pars_fragment>'',
     ''#include <shadowmap_pars_fragment>'',
     ''#include <bumpmap_pars_fragment>'',
     ''#include <normalmap_pars_fragment>'',
     ''#include <specularmap_pars_fragment>'',
     ''#include <logdepthbuf_pars_fragment>'',
     ''#include <clipping_planes_pars_fragment>'',
     ''void main() {'',
     tabs 1 @ ''vec4 diffuseColor = vec4( diffuse, opacity );'',
     tabs 1 @ ''#include <clipping_planes_fragment>'',
     tabs 1 @ ''ReflectedLight reflectedLight = ReflectedLight( vec3( 0.0 ), vec3( 0.0 ), vec3( 0.0 ), vec3( 0.0 ) );'',
     tabs 1 @ ''vec3 totalEmissiveRadiance = emissive;'',
     tabs 1 @ ''#include <logdepthbuf_fragment>'',
     tabs 1 @ ''#include <map_fragment>'',
     tabs 1 @ ''#include <color_fragment>'',
     tabs 1 @ ''#include <alphamap_fragment>'',
     tabs 1 @ ''#include <alphatest_fragment>'',
     tabs 1 @ ''#include <alphahash_fragment>'',
     tabs 1 @ ''#include <specularmap_fragment>'',
     tabs 1 @ ''#include <normal_fragment_begin>'',
     tabs 1 @ ''#include <normal_fragment_maps>'',
     tabs 1 @ ''#include <emissivemap_fragment>'',
     tabs 1 @ ''#include <lights_phong_fragment>'',
     tabs 1 @ ''#include <lights_fragment_begin>'',
     tabs 1 @ ''#include <lights_fragment_maps>'',
     tabs 1 @ ''#include <lights_fragment_end>'',
     tabs 1 @ ''#include <aomap_fragment>'',
     tabs 1 @ ''vec3 outgoingLight = reflectedLight.directDiffuse + reflectedLight.indirectDiffuse + reflectedLight.directSpecular + reflectedLight.indirectSpecular + totalEmissiveRadiance;'',
     tabs 1 @ ''#include <envmap_fragment>'',
     tabs 1 @ ''#include <opaque_fragment>'',
     tabs 1 @ ''#include <tonemapping_fragment>'',
     tabs 1 @ ''#include <colorspace_fragment>'',
     tabs 1 @ ''#include <fog_fragment>'',
     tabs 1 @ ''#include <premultiplied_alpha_fragment>'',
     tabs 1 @ ''#include <dithering_fragment>'',
     ''}'']"

lemma meshphong_frag_text [chunk_facts]:
  "meshphong_frag \<noteq> []" "nesting [] meshphong_frag = Some []" "include_list meshphong_frag = map (\<lambda>n. (n, [])) [
       ''common'',
       ''packing'',
       ''dithering_pars_fragment'',
       ''color_pars_fragment'',
       ''uv_pars_fragment'',
       ''map_pars_fragment'',
       ''alphamap_pars_fragment'',
       ''alphatest_pars_fragment'',
       ''alphahash_pars_fragment'',
       ''aomap_pars_fragment'',
       ''lightmap_pars_fragment'',
       ''emissivemap_pars_fragment'',
       ''envmap_common_pars_fragment'',
       ''envmap_pars_fragment'',
       ''fog_pars_fragment'',
       ''bsdfs'',
       ''lights_pars_begin'',
       ''normal_pars_fragment'',
       ''lights_phong_pars_fragment'',
       ''shadowmap_pars_fragment'',
       ''bumpmap_pars_fragment'',
       ''normalmap_pars_fragment'',
       ''specularmap_pars_fragment'',
       ''logdepthbuf_pars_fragment'',
       ''clipping_planes_pars_fragment'',
       ''clipping_planes_fragment'',
       ''logdepthbuf_fragment'',
       ''map_fragment'',
       ''color_fragment'',
       ''alphamap_fragment'',
       ''alphatest_fragment'',
       ''alphahash_fragment'',
       ''specularmap_fragment'',
       ''normal_fragment_begin'',
       ''normal_fragment_maps'',
       ''emissivemap_fragment'',
       ''lights_phong_fragment'',
       ''lights_fragment_begin'',
       ''lights_fragment_maps'',
       ''lights_fragment_end'',
       ''aomap_fragment'',
       ''envmap_fragment'',
       ''opaque_fragment'',
       ''tonemapping_fragment'',
       ''colorspace_fragment'',
       ''fog_fragment'',
       ''premultiplied_alpha_fragment'',
       ''dithering_fragment'']"
  unfolding meshphong_frag_def
  by (simp_all add: line_defs cong: nesting_cong include_list_cong)

definition meshphysical_vert :: "string list" where
  "meshphysical_vert = [
     ''#define STANDARD'',
     ''varying vec3 vViewPosition;'',
     ''#ifdef USE_TRANSMISSION'',
     tabs 1 @ ''varying vec3 vWorldPosition;'',
     ''#endif'',
     ''#include <common>'',
     ''#include <batching_pars_vertex>'',
     ''#include <uv_pars_vertex>'',
     ''#include <displacementmap_pars_vertex>'',
     ''#include <color_pars_vertex>'',
     ''#include <fog_pars_vertex>'',
     ''#include <normal_pars_vertex>'',
     ''#include <morphtarget_pars_vertex>'',
     ''#include <skinning_pars_vertex>'',
     ''#include <shadowmap_pars_vertex>'',
     ''#include <logdepthbuf_pars_vertex>'',
     ''#include <clipping_planes_pars_vertex>'',
     ''void main() {'',
     tabs 1 @ ''#include <uv_vertex>'',
     tabs 1 @ ''#include <color_vertex>'',
     tabs 1 @ ''#include <morphinstance_vertex>'',
     tabs 1 @ ''#include <morphcolor_vertex>'',
     tabs 1 @ ''#include <batching_vertex>'',
     tabs 1 @ ''#include <beginnormal_vertex>'',
     tabs 1 @ ''#include <morphnormal_vertex>'',
     tabs 1 @ ''#include <skinbase_vertex>'',
     tabs 1 @ ''#include <skinnormal_vertex>'',
     tabs 1 @ ''#include <defaultnormal_vertex>'',
     tabs 1 @ ''#include <normal_vertex>'',
     tabs 1 @ ''#include <begin_vertex>'',
     tabs 1 @ ''#include <morphtarget_vertex>'',
     tabs 1 @ ''#include <skinning_vertex>'',
     tabs 1 @ ''#include <displacementmap_vertex>'',
     tabs 1 @ ''#include <project_vertex>'',
     tabs 1 @ ''#include <logdepthbuf_vertex>'',
     tabs 1 @ ''#include <clipping_planes_vertex>'',
     tabs 1 @ ''vViewPosition = - mvPosition.xyz;'',
     tabs 1 @ ''#include <worldpos_vertex>'',
     tabs 1 @ ''#include <shadowmap_vertex>'',
     tabs 1 @ ''#include <fog_vertex>'',
     ''#ifdef USE_TRANSMISSION'',
     tabs 1 @ ''vWorldPosition = worldPosition.xyz;'',
     ''#endif'',
     ''}'']"

lemma meshphysical_vert_text [chunk_facts]:
  "meshphysical_vert \<noteq> []" "nesting [] meshphysical_vert = Some []" "include_list meshphysical_vert = map (\<lambda>n. (n, [])) [
       ''common'',
       ''batching_pars_vertex'',
       ''uv_pars_vertex'',
       ''displacementmap_pars_vertex'',
       ''color_pars_vertex'',
       ''fog_pars_vertex'',
       ''normal_pars_vertex'',
       ''morphtarget_pars_vertex'',
       ''skinning_pars_vertex'',
       ''shadowmap_pars_vertex'',
       ''logdepthbuf_pars_vertex'',
       ''clipping_planes_pars_vertex'',
       ''uv_vertex'',
       ''color_vertex'',
       ''morphinstance_vertex'',
       ''morphcolor_vertex'',
       ''batching_vertex'',
       ''beginnormal_vertex'',
       ''morphnormal_vertex'',
       ''skinbase_vertex'',
       ''skinnormal_vertex'',
       ''defaultnormal_vertex'',
       ''normal_vertex'',
       ''begin_vertex'',
       ''morphtarget_vertex'',
       ''skinning_vertex'',
       ''displacementmap_vertex'',
       ''project_vertex'',
       ''logdepthbuf_vertex'',
       ''clipping_planes_vertex'',
       ''worldpos_vertex'',
       ''shadowmap_vertex'',
       ''fog_vertex'']"
  unfolding meshphysical_vert_def
  by (simp_all add: line_defs cong: nesting_cong include_list_cong)

definition meshphysical_frag :: "string list" where
  "meshphysical_frag = [
     ''#define STANDARD'',
     ''#ifdef PHYSICAL'',
     tabs 1 @ ''#define IOR'',
     tabs 1 @ ''#define USE_SPECULAR'',
     ''#endif'',
     ''uniform vec3 diffuse;'',
     ''uniform vec3 emissive;'',
     ''uniform float roughness;'',
     ''uniform float metalness;'',
     ''uniform float opacity;'',
     ''#ifdef IOR'',
     tabs 1 @ ''uniform float ior;'',
     ''#endif'',
     ''#ifdef USE_SPECULAR'',
     tabs 1 @ ''uniform float specularIntensity;'',
     tabs 1 @ ''uniform vec3 specularColor;'',
     tabs 1 @ ''#ifdef USE_SPECULAR_COLORMAP'',
     tabs 2 @ ''uniform sampler2D specularColorMap;'',
     tabs 1 @ ''#endif'',
     tabs 1 @ ''#ifdef USE_SPECULAR_INTENSITYMAP'',
     tabs 2 @ ''uniform sampler2D specularIntensityMap;'',
     tabs 1 @ ''#endif'',
     ''#endif'',
     ''#ifdef USE_CLEARCOAT'',
     tabs 1 @ ''uniform float clearcoat;'',
     tabs 1 @ ''uniform float clearcoatRoughness;'',
     ''#endif'',
     ''#ifdef USE_DISPERSION'',
     tabs 1 @ ''uniform float dispersion;'',
     ''#endif'',
     ''#ifdef USE_IRIDESCENCE'',
     tabs 1 @ ''uniform float iridescence;'',
     tabs 1 @ ''uniform float iridescenceIOR;'',
     tabs 1 @ ''uniform float iridescenceThicknessMinimum;'',
     tabs 1 @ ''uniform float iridescenceThicknessMaximum;'',
     ''#endif'',
     ''#ifdef USE_SHEEN'',
     tabs 1 @ ''uniform vec3 sheenColor;'',
     tabs 1 @ ''uniform float sheenRoughness;'',
     tabs 1 @ ''#ifdef USE_SHEEN_COLORMAP'',
     tabs 2 @ ''uniform sampler2D sheenColorMap;'',
     tabs 1 @ ''#endif'',
     tabs 1 @ ''#ifdef USE_SHEEN_ROUGHNESSMAP'',
     tabs 2 @ ''uniform sampler2D sheenRoughnessMap;'',
     tabs 1 @ ''#endif'',
     ''#endif'',
     ''#ifdef USE_ANISOTROPY'',
     tabs 1 @ ''uniform vec2 anisotropyVector;'',
     tabs 1 @ ''#ifdef USE_ANISOTROPYMAP'',
     tabs 2 @ ''uniform sampler2D anisotropyMap;'',
     tabs 1 @ ''#endif'',
     ''#endif'',
     ''varying vec3 vViewPosition;'',
     ''#include <common>'',
     ''#include <packing>'',
     ''#include <dithering_pars_fragment>'',
     ''#include <color_pars_fragment>'',
     ''#include <uv_pars_fragment>'',
     ''#include <map_pars_fragment>'',
     ''#include <alphamap_pars_fragment>'',
     ''#include <alphatest_pars_fragment>'',
     ''#include <alphahash_pars_fragment>'',
     ''#include <aomap_pars_fragment>'',
     ''#include <lightmap_pars_fragment>'',
     ''#include <emissivemap_pars_fragment>'',
     ''#include <iridescence_fragment>'',
     ''#include <cube_uv_reflection_fragment>'',
     ''#include <envmap_common_pars_fragment>'',
     ''#include <envmap_physical_pars_fragment>'',
     ''#include <fog_pars_fragment>'',
     ''#include <lights_pars_begin>'',
     ''#include <normal_pars_fragment>'',
     ''#include <lights_physical_pars_fragment>'',
     ''#include <transmission_pars_fragment>'',
     ''#include <shadowmap_pars_fragment>'',
     ''#include <bumpmap_pars_fragment>'',
     ''#include <normalmap_pars_fragment>'',
     ''#include <clearcoat_pars_fragment>'',
     ''#include <iridescence_pars_fragment>'',
     ''#include <roughnessmap_pars_fragment>'',
     ''#include <metalnessmap_pars_fragment>'',
     ''#include <logdepthbuf_pars_fragment>'',
     ''#include <clipping_planes_pars_fragment>'',
     ''void main() {'',
     tabs 1 @ ''vec4 diffuseColor = vec4( diffuse, opacity );'',
     tabs 1 @ ''#include <clipping_planes_fragment>'',
     tabs 1 @ ''ReflectedLight reflectedLight = ReflectedLight( vec3( 0.0 ), vec3( 0.0 ), vec3( 0.0 ), vec3( 0.0 ) );'',
     tabs 1 @ ''vec3 totalEmissiveRadiance = emissive;'',
     tabs 1 @ ''#include <logdepthbuf_fragment>'',
     tabs 1 @ ''#include <map_fragment>'',
     tabs 1 @ ''#include <color_fragment>'',
     tabs 1 @ ''#include <alphamap_fragment>'',
     tabs 1 @ ''#include <alphatest_fragment>'',
     tabs 1 @ ''#include <alphahash_fragment>'',
     tabs 1 @ ''#include <roughnessmap_fragment>'',
     tabs 1 @ ''#include <metalnessmap_fragment>'',
     tabs 1 @ ''#include <normal_fragment_begin>'',
     tabs 1 @ ''#include <normal_fragment_maps>'',
     tabs 1 @ ''#include <clearcoat_normal_fragment_begin>'',
     tabs 1 @ ''#include <clearcoat_normal_fragment_maps>'',
     tabs 1 @ ''#include <emissivemap_fragment>'',
     tabs 1 @ ''#include <lights_physical_fragment>'',
     tabs 1 @ ''#include <lights_fragment_begin>'',
     tabs 1 @ ''#include <lights_fragment_maps>'',
     tabs 1 @ ''#include <lights_fragment_end>'',
     tabs 1 @ ''#include <aomap_fragment>'',
     tabs 1 @ ''vec3 totalDiffuse = reflectedLight.directDiffuse + reflectedLight.indirectDiffuse;'',
     tabs 1 @ ''vec3 totalSpecular = reflectedLight.directSpecular + reflectedLight.indirectSpecular;'',
     tabs 1 @ ''#include <transmission_fragment>'',
     tabs 1 @ ''vec3 outgoingLight = totalDiffuse + totalSpecular + totalEmissiveRadiance;'',
     tabs 1 @ ''#ifdef USE_SHEEN'',
     tabs 2 @ ''float sheenEnergyComp = 1.0 - 0.157 * max3( material.sheenColor );'',
     tabs 2 @ ''outgoingLight = outgoingLight * sheenEnergyComp + sheenSpecularDirect + sheenSpecularIndirect;'',
     tabs 1 @ ''#endif'',
     tabs 1 @ ''#ifdef USE_CLEARCOAT'',
     tabs 2 @ ''float dotNVcc = saturate( dot( geometryClearcoatNormal, geometryViewDir ) );'',
     tabs 2 @ ''vec3 Fcc = F_Schlick( material.clearcoatF0, material.clearcoatF90, dotNVcc );'',
     tabs 2 @ ''outgoingLight = outgoingLight * ( 1.0 - material.clearcoat * Fcc ) + ( clearcoatSpecularDirect + clearcoatSpecularIndirect ) * material.clearcoat;'',
     tabs 1 @ ''#endif'',
     tabs 1 @ ''#include <opaque_fragment>'',
     tabs 1 @ ''#include <tonemapping_fragment>'',
     tabs 1 @ ''#include <colorspace_fragment>'',
     tabs 1 @ ''#include <fog_fragment>'',
     tabs 1 @ ''#include <premultiplied_alpha_fragment>'',
     tabs 1 @ ''#include <dithering_fragment>'',
     ''}'']"

lemma meshphysical_frag_text [chunk_facts]:
  "meshphysical_frag \<noteq> []" "nesting [] meshphysical_frag = Some []" "include_list meshphysical_frag = map (\<lambda>n. (n, [])) [
       ''common'',
       ''packing'',
       ''dithering_pars_fragment'',
       ''color_pars_fragment'',
       ''uv_pars_fragment'',
       ''map_pars_fragment'',
       ''alphamap_pars_fragment'',
       ''alphatest_pars_fragment'',
       ''alphahash_pars_fragment'',
       ''aomap_pars_fragment'',
       ''lightmap_pars_fragment'',
       ''emissivemap_pars_fragment'',
       ''iridescence_fragment'',
       ''cube_uv_reflection_fragment'',
       ''envmap_common_pars_fragment'',
       ''envmap_physical_pars_fragment'',
       ''fog_pars_fragment'',
       ''lights_pars_begin'',
       ''normal_pars_fragment'',
       ''lights_physical_pars_fragment'',
       ''transmission_pars_fragment'',
       ''shadowmap_pars_fragment'',
       ''bumpmap_pars_fragment'',
       ''normalmap_pars_fragment'',
       ''clearcoat_pars_fragment'',
       ''iridescence_pars_fragment'',
       ''roughnessmap_pars_fragment'',
       ''metalnessmap_pars_fragment'',
       ''logdepthbuf_pars_fragment'',
       ''clipping_planes_pars_fragment'',
       ''clipping_planes_fragment'',
       ''logdepthbuf_fragment'',
       ''map_fragment'',
       ''color_fragment'',
       ''alphamap_fragment'',
       ''alphatest_fragment'',
       ''alphahash_fragment'',
       ''roughnessmap_fragment'',
       ''metalnessmap_fragment'',
       ''normal_fragment_begin'',
       ''normal_fragment_maps'',
       ''clearcoat_normal_fragment_begin'',
       ''clearcoat_normal_fragment_maps'',
       ''emissivemap_fragment'',
       ''lights_physical_fragment'',
       ''lights_fragment_begin'',
       ''lights_fragment_maps'',
       ''lights_fragment_end'',
       ''aomap_fragment'',
       ''transmission_fragment'',
       ''opaque_fragment'',
       ''tonemapping_fragment'',
       ''colorspace_fragment'',
       ''fog_fragment'',
       ''premultiplied_alpha_fragment'',
       ''dithering_fragment'']"
  unfolding meshphysical_frag_def
  by (simp_all add: line_defs cong: nesting_cong include_list_cong)

definition meshtoon_vert :: "string list" where
  "meshtoon_vert = [
     ''#define TOON'',
     ''varying vec3 vViewPosition;'',
     ''#include <common>'',
     ''#include <batching_pars_vertex>'',
     ''#include <uv_pars_vertex>'',
     ''#include <displacementmap_pars_vertex>'',
     ''#include <color_pars_vertex>'',
     ''#include <fog_pars_vertex>'',
     ''#include <normal_pars_vertex>'',
     ''#include <morphtarget_pars_vertex>'',
     ''#include <skinning_pars_vertex>'',
     ''#include <shadowmap_pars_vertex>'',
     ''#include <logdepthbuf_pars_vertex>'',
     ''#include <clipping_planes_pars_vertex>'',
     ''void main() {'',
     tabs 1 @ ''#include <uv_vertex>'',
     tabs 1 @ ''#include <color_vertex>'',
     tabs 1 @ ''#include <morphinstance_vertex>'',
     tabs 1 @ ''#include <morphcolor_vertex>'',
     tabs 1 @ ''#include <batching_vertex>'',
     tabs 1 @ ''#include <beginnormal_vertex>'',
     tabs 1 @ ''#include <morphnormal_vertex>'',
     tabs 1 @ ''#include <skinbase_vertex>'',
     tabs 1 @ ''#include <skinnormal_vertex>'',
     tabs 1 @ ''#include <defaultnormal_vertex>'',
     tabs 1 @ ''#include <normal_vertex>'',
     tabs 1 @ ''#include <begin_vertex>'',
     tabs 1 @ ''#include <morphtarget_vertex>'',
     tabs 1 @ ''#include <skinning_vertex>'',
     tabs 1 @ ''#include <displacementmap_vertex>'',
     tabs 1 @ ''#include <project_vertex>'',
     tabs 1 @ ''#include <logdepthbuf_vertex>'',
     tabs 1 @ ''#include <clipping_planes_vertex>'',
     tabs 1 @ ''vViewPosition = - mvPosition.xyz;'',
     tabs 1 @ ''#include <worldpos_vertex>'',
     tabs 1 @ ''#include <shadowmap_vertex>'',
     tabs 1 @ ''#include <fog_vertex>'',
     ''}'']"

lemma meshtoon_vert_text [chunk_facts]:
  "meshtoon_vert \<noteq> []" "nesting [] meshtoon_vert = Some []" "include_list meshtoon_vert = map (\<lambda>n. (n, [])) [
       ''common'',
       ''batching_pars_vertex'',
       ''uv_pars_vertex'',
       ''displacementmap_pars_vertex'',
       ''color_pars_vertex'',
       ''fog_pars_vertex'',
       ''normal_pars_vertex'',
       ''morphtarget_pars_vertex'',
       ''skinning_pars_vertex'',
       ''shadowmap_pars_vertex'',
       ''logdepthbuf_pars_vertex'',
       ''clipping_planes_pars_vertex'',
       ''uv_vertex'',
       ''color_vertex'',
       ''morphinstance_vertex'',
       ''morphcolor_vertex'',
       ''batching_vertex'',
       ''beginnormal_vertex'',
       ''morphnormal_vertex'',
       ''skinbase_vertex'',
       ''skinnormal_vertex'',
       ''defaultnormal_vertex'',
       ''normal_vertex'',
       ''begin_vertex'',
       ''morphtarget_vertex'',
       ''skinning_vertex'',
       ''displacementmap_vertex'',
       ''project_vertex'',
       ''logdepthbuf_vertex'',
       ''clipping_planes_vertex'',
       ''worldpos_vertex'',
       ''shadowmap_vertex'',
       ''fog_vertex'']"
  unfolding meshtoon_vert_def
  by (simp_all add: line_defs cong: nesting_cong include_list_cong)

definition meshtoon_frag :: "string list" where
  "meshtoon_frag = [
     ''#define TOON'',
     ''uniform vec3 diffuse;'',
     ''uniform vec3 emissive;'',
     ''uniform float opacity;'',
     ''#include <common>'',
     ''#include <packing>'',
     ''#include <dithering_pars_fragment>'',
     ''#include <color_pars_fragment>'',
     ''#include <uv_pars_fragment>'',
     ''#include <map_pars_fragment>'',
     ''#include <alphamap_pars_fragment>'',
     ''#include <alphatest_pars_fragment>'',
     ''#include <alphahash_pars_fragment>'',
     ''#include <aomap_pars_fragment>'',
     ''#include <lightmap_pars_fragment>'',
     ''#include <emissivemap_pars_fragment>'',
     ''#include <gradientmap_pars_fragment>'',
     ''#include <fog_pars_fragment>'',
     ''#include <bsdfs>'',
     ''#include <lights_pars_begin>'',
     ''#include <normal_pars_fragment>'',
     ''#include <lights_toon_pars_fragment>'',
     ''#include <shadowmap_pars_fragment>'',
     ''#include <bumpmap_pars_fragment>'',
     ''#include <normalmap_pars_fragment>'',
     ''#include <logdepthbuf_pars_fragment>'',
     ''#include <clipping_planes_pars_fragment>'',
     ''void main() {'',
     tabs 1 @ ''vec4 diffuseColor = vec4( diffuse, opacity );'',
     tabs 1 @ ''#include <clipping_planes_fragment>'',
     tabs 1 @ ''ReflectedLight reflectedLight = ReflectedLight( vec3( 0.0 ), vec3( 0.0 ), vec3( 0.0 ), vec3( 0.0 ) );'',
     tabs 1 @ ''vec3 totalEmissiveRadiance = emissive;'',
     tabs 1 @ ''#include <logdepthbuf_fragment>'',
     tabs 1 @ ''#include <map_fragment>'',
     tabs 1 @ ''#include <color_fragment>'',
     tabs 1 @ ''#include <alphamap_fragment>'',
     tabs 1 @ ''#include <alphatest_fragment>'',
     tabs 1 @ ''#include <alphahash_fragment>'',
     tabs 1 @ ''#include <normal_fragment_begin>'',
     tabs 1 @ ''#include <normal_fragment_maps>'',
     tabs 1 @ ''#include <emissivemap_fragment>'',
     tabs 1 @ ''#include <lights_toon_fragment>'',
     tabs 1 @ ''#include <lights_fragment_begin>'',
     tabs 1 @ ''#include <lights_fragment_maps>'',
     tabs 1 @ ''#include <lights_fragment_end>'',
     tabs 1 @ ''#include <aomap_fragment>'',
     tabs 1 @ ''vec3 outgoingLight = reflectedLight.directDiffuse + reflectedLight.indirectDiffuse + totalEmissiveRadiance;'',
     tabs 1 @ ''#include <opaque_fragment>'',
     tabs 1 @ ''#include <tonemapping_fragment>'',
     tabs 1 @ ''#include <colorspace_fragment>'',
     tabs 1 @ ''#include <fog_fragment>'',
     tabs 1 @ ''#include <premultiplied_alpha_fragment>'',
     tabs 1 @ ''#include <dithering_fragment>'',
     ''}'']"

lemma meshtoon_frag_text [chunk_facts]:
  "meshtoon_frag \<noteq> []" "nesting [] meshtoon_frag = Some []" "include_list meshtoon_frag = map (\<lambda>n. (n, [])) [
       ''common'',
       ''packing'',
       ''dithering_pars_fragment'',
       ''color_pars_fragment'',
       ''uv_pars_fragment'',
       ''map_pars_fragment'',
       ''alphamap_pars_fragment'',
       ''alphatest_pars_fragment'',
       ''alphahash_pars_fragment'',
       ''aomap_pars_fragment'',
       ''lightmap_pars_fragment'',
       ''emissivemap_pars_fragment'',
       ''gradientmap_pars_fragment'',
       ''fog_pars_fragment'',
       ''bsdfs'',
       ''lights_pars_begin'',
       ''normal_pars_fragment'',
       ''lights_toon_pars_fragment'',
       ''shadowmap_pars_fragment'',
       ''bumpmap_pars_fragment'',
       ''normalmap_pars_fragment'',
       ''logdepthbuf_pars_fragment'',
       ''clipping_planes_pars_fragment'',
       ''clipping_planes_fragment'',
       ''logdepthbuf_fragment'',
       ''map_fragment'',
       ''color_fragment'',
       ''alphamap_fragment'',
       ''alphatest_fragment'',
       ''alphahash_fragment'',
       ''normal_fragment_begin'',
       ''normal_fragment_maps'',
       ''emissivemap_fragment'',
       ''lights_toon_fragment'',
       ''lights_fragment_begin'',
       ''lights_fragment_maps'',
       ''lights_fragment_end'',
       ''aomap_fragment'',
       ''opaque_fragment'',
       ''tonemapping_fragment'',
       ''colorspace_fragment'',
       ''fog_fragment'',
       ''premultiplied_alpha_fragment'',
       ''dithering_fragment'']"
  unfolding meshtoon_frag_def
  by (simp_all add: line_defs cong: nesting_cong include_list_cong)

definition points_vert :: "string list" where
  "points_vert = [
     ''uniform float size;'',
     ''uniform float scale;'',
     ''#include <common>'',
     ''#include <color_pars_vertex>'',
     ''#include <fog_pars_vertex>'',
     ''#include <morphtarget_pars_vertex>'',
     ''#include <logdepthbuf_pars_vertex>'',
     ''#include <clipping_planes_pars_vertex>'',
     ''#ifdef USE_POINTS_UV'',
     tabs 1 @ ''varying vec2 vUv;'',
     tabs 1 @ ''uniform mat3 uvTransform;'',
     ''#endif'',
     ''void main() {'',
     tabs 1 @ ''#ifdef USE_POINTS_UV'',
     tabs 2 @ ''vUv = ( uvTransform * vec3( uv, 1 ) ).xy;'',
     tabs 1 @ ''#endif'',
     tabs 1 @ ''#include <color_vertex>'',
     tabs 1 @ ''#include <morphinstance_vertex>'',
     tabs 1 @ ''#include <morphcolor_vertex>'',
     tabs 1 @ ''#include <begin_vertex>'',
     tabs 1 @ ''#include <morphtarget_vertex>'',
     tabs 1 @ ''#include <project_vertex>'',
     tabs 1 @ ''gl_PointSize = size;'',
     tabs 1 @ ''#ifdef USE_SIZEATTENUATION'',
     tabs 2 @ ''bool isPerspective = isPerspectiveMatrix( projectionMatrix );'',
     tabs 2 @ ''if ( isPerspective ) gl_PointSize *= ( scale / - mvPosition.z );'',
     tabs 1 @ ''#endif'',
     tabs 1 @ ''#include <logdepthbuf_vertex>'',
     tabs 1 @ ''#include <clipping_planes_vertex>'',
     tabs 1 @ ''#include <worldpos_vertex>'',
     tabs 1 @ ''#include <fog_vertex>'',
     ''}'']"

lemma points_vert_text [chunk_facts]:
  "points_vert \<noteq> []" "nesting [] points_vert = Some []" "include_list points_vert = map (\<lambda>n. (n, [])) [
       ''common'',
       ''color_pars_vertex'',
       ''fog_pars_vertex'',
       ''morphtarget_pars_vertex'',
       ''logdepthbuf_pars_vertex'',
       ''clipping_planes_pars_vertex'',
       ''color_vertex'',
       ''morphinstance_vertex'',
       ''morphcolor_vertex'',
       ''begin_vertex'',
       ''morphtarget_vertex'',
       ''project_vertex'',
       ''logdepthbuf_vertex'',
       ''clipping_planes_vertex'',
       ''worldpos_vertex'',
       ''fog_vertex'']"
  unfolding points_vert_def
  by (simp_all add: line_defs cong: nesting_cong include_list_cong)

definition points_frag :: "string list" where
  "points_frag = [
     ''uniform vec3 diffuse;'',
     ''uniform float opacity;'',
     ''#include <common>'',
     ''#include <color_pars_fragment>'',
     ''#include <map_particle_pars_fragment>'',
     ''#include <alphatest_pars_fragment>'',
     ''#include <alphahash_pars_fragment>'',
     ''#include <fog_pars_fragment>'',
     ''#include <logdepthbuf_pars_fragment>'',
     ''#include <clipping_planes_pars_fragment>'',
     ''void main() {'',
     tabs 1 @ ''vec4 diffuseColor = vec4( diffuse, opacity );'',
     tabs 1 @ ''#include <clipping_planes_fragment>'',
     tabs 1 @ ''vec3 outgoingLight = vec3( 0.0 );'',
     tabs 1 @ ''#include <logdepthbuf_fragment>'',
     tabs 1 @ ''#include <map_particle_fragment>'',
     tabs 1 @ ''#include <color_fragment>'',
     tabs 1 @ ''#include <alphatest_fragment>'',
     tabs 1 @ ''#include <alphahash_fragment>'',
     tabs 1 @ ''outgoingLight = diffuseColor.rgb;'',
     tabs 1 @ ''#include <opaque_fragment>'',
     tabs 1 @ ''#include <tonemapping_fragment>'',
     tabs 1 @ ''#include <colorspace_fragment>'',
     tabs 1 @ ''#include <fog_fragment>'',
     tabs 1 @ ''#include <premultiplied_alpha_fragment>'',
     ''}'']"

lemma points_frag_text [chunk_facts]:
  "points_frag \<noteq> []" "nesting [] points_frag = Some []" "include_list points_frag = map (\<lambda>n. (n, [])) [
       ''common'',
       ''color_pars_fragment'',
       ''map_particle_pars_fragment'',
       ''alphatest_pars_fragment'',
       ''alphahash_pars_fragment'',
       ''fog_pars_fragment'',
       ''logdepthbuf_pars_fragment'',
       ''clipping_planes_pars_fragment'',
       ''clipping_planes_fragment'',
       ''logdepthbuf_fragment'',
       ''map_particle_fragment'',
       ''color_fragment'',
       ''alphatest_fragment'',
       ''alphahash_fragment'',
       ''opaque_fragment'',
       ''tonemapping_fragment'',
       ''colorspace_fragment'',
       ''fog_fragment'',
       ''premultiplied_alpha_fragment'']"
  unfolding points_frag_def
  by (simp_all add: line_defs cong: nesting_cong include_list_cong)

definition shadow_vert :: "string list" where
  "shadow_vert = [
     ''#include <common>'',
     ''#include <batching_pars_vertex>'',
     ''#include <fog_pars_vertex>'',
     ''#include <morphtarget_pars_vertex>'',
     ''#include <skinning_pars_vertex>'',
     ''#include <logdepthbuf_pars_vertex>'',
     ''#include <shadowmap_pars_vertex>'',
     ''void main() {'',
     tabs 1 @ ''#include <batching_vertex>'',
     tabs 1 @ ''#include <beginnormal_vertex>'',
     tabs 1 @ ''#include <morphinstance_vertex>'',
     tabs 1 @ ''#include <morphnormal_vertex>'',
     tabs 1 @ ''#include <skinbase_vertex>'',
     tabs 1 @ ''#include <skinnormal_vertex>'',
     tabs 1 @ ''#include <defaultnormal_vertex>'',
     tabs 1 @ ''#include <begin_vertex>'',
     tabs 1 @ ''#include <morphtarget_vertex>'',
     tabs 1 @ ''#include <skinning_vertex>'',
     tabs 1 @ ''#include <project_vertex>'',
     tabs 1 @ ''#include <logdepthbuf_vertex>'',
     tabs 1 @ ''#include <worldpos_vertex>'',
     tabs 1 @ ''#include <shadowmap_vertex>'',
     tabs 1 @ ''#include <fog_vertex>'',
     ''}'']"

lemma shadow_vert_text [chunk_facts]:
  "shadow_vert \<noteq> []" "nesting [] shadow_vert = Some []" "include_list shadow_vert = map (\<lambda>n. (n, [])) [
       ''common'',
       ''batching_pars_vertex'',
       ''fog_pars_vertex'',
       ''morphtarget_pars_vertex'',
       ''skinning_pars_vertex'',
       ''logdepthbuf_pars_vertex'',
       ''shadowmap_pars_vertex'',
       ''batching_vertex'',
       ''beginnormal_vertex'',
       ''morphinstance_vertex'',
       ''morphnormal_vertex'',
       ''skinbase_vertex'',
       ''skinnormal_vertex'',
       ''defaultnormal_vertex'',
       ''begin_vertex'',
       ''morphtarget_vertex'',
       ''skinning_vertex'',
       ''project_vertex'',
       ''logdepthbuf_vertex'',
       ''worldpos_vertex'',
       ''shadowmap_vertex'',
       ''fog_vertex'']"
  unfolding shadow_vert_def
  by (simp_all add: line_defs cong: nesting_cong include_list_cong)

definition shadow_frag :: "string list" where
  "shadow_frag = [
     ''uniform vec3 color;'',
     ''uniform float opacity;'',
     ''#include <common>'',
     ''#include <packing>'',
     ''#include <fog_pars_fragment>'',
     ''#include <bsdfs>'',
     ''#include <lights_pars_begin>'',
     ''#include <logdepthbuf_pars_fragment>'',
     ''#include <shadowmap_pars_fragment>'',
     ''#include <shadowmask_pars_fragment>'',
     ''void main() {'',
     tabs 1 @ ''#include <logdepthbuf_fragment>'',
     tabs 1 @ ''gl_FragColor = vec4( color, opacity * ( 1.0 - getShadowMask() ) );'',
     tabs 1 @ ''#include <tonemapping_fragment>'',
     tabs 1 @ ''#include <colorspace_fragment>'',
     tabs 1 @ ''#include <fog_fragment>'',
     ''}'']"

lemma shadow_frag_text [chunk_facts]:
  "shadow_frag \<noteq> []" "nesting [] shadow_frag = Some []" "include_list shadow_frag = map (\<lambda>n. (n, [])) [
       ''common'',
       ''packing'',
       ''fog_pars_fragment'',
       ''bsdfs'',
       ''lights_pars_begin'',
       ''logdepthbuf_pars_fragment'',
       ''shadowmap_pars_fragment'',
       ''shadowmask_pars_fragment'',
       ''logdepthbuf_fragment'',
       ''tonemapping_fragment'',
       ''colorspace_fragment'',
       ''fog_fragment'']"
  unfolding shadow_frag_def
  by (simp_all add: line_defs cong: nesting_cong include_list_cong)

definition sprite_vert :: "string list" where
  "sprite_vert = [
     ''uniform float rotation;'',
     ''uniform vec2 center;'',
     ''#include <common>'',
     ''#include <uv_pars_vertex>'',
     ''#include <fog_pars_vertex>'',
     ''#include <logdepthbuf_pars_vertex>'',
     ''#include <clipping_planes_pars_vertex>'',
     ''void main() {'',
     tabs 1 @ ''#include <uv_vertex>'',
     tabs 1 @ ''vec4 mvPosition = modelViewMatrix[ 3 ];'',
     tabs 1 @ ''vec2 scale = vec2( length( modelMatrix[ 0 ].xyz ), length( modelMatrix[ 1 ].xyz ) );'',
     tabs 1 @ ''#ifndef USE_SIZEATTENUATION'',
     tabs 2 @ ''bool isPerspective = isPerspectiveMatrix( projectionMatrix );'',
     tabs 2 @ ''if ( isPerspective ) scale *= - mvPosition.z;'',
     tabs 1 @ ''#endif'',
     tabs 1 @ ''vec2 alignedPosition = ( position.xy - ( center - vec2( 0.5 ) ) ) * scale;'',
     tabs 1 @ ''vec2 rotatedPosition;'',
     tabs 1 @ ''rotatedPosition.x = cos( rotation ) * alignedPosition.x - sin( rotation ) * alignedPosition.y;'',
     tabs 1 @ ''rotatedPosition.y = sin( rotation ) * alignedPosition.x + cos( rotation ) * alignedPosition.y;'',
     tabs 1 @ ''mvPosition.xy += rotatedPosition;'',
     tabs 1 @ ''gl_Position = projectionMatrix * mvPosition;'',
     tabs 1 @ ''#include <logdepthbuf_vertex>'',
     tabs 1 @ ''#include <clipping_planes_vertex>'',
     tabs 1 @ ''#include <fog_vertex>'',
     ''}'']"

lemma sprite_vert_text [chunk_facts]:
  "sprite_vert \<noteq> []" "nesting [] sprite_vert = Some []" "include_list sprite_vert = map (\<lambda>n. (n, [])) [
       ''common'',
       ''uv_pars_vertex'',
       ''fog_pars_vertex'',
       ''logdepthbuf_pars_vertex'',
       ''clipping_planes_pars_vertex'',
       ''uv_vertex'',
       ''logdepthbuf_vertex'',
       ''clipping_planes_vertex'',
       ''fog_vertex'']"
  unfolding sprite_vert_def
  by (simp_all add: line_defs cong: nesting_cong include_list_cong)

definition sprite_frag :: "string list" where
  "sprite_frag = [
     ''uniform vec3 diffuse;'',
     ''uniform float opacity;'',
     ''#include <common>'',
     ''#include <uv_pars_fragment>'',
     ''#include <map_pars_fragment>'',
     ''#include <alphamap_pars_fragment>'',
     ''#include <alphatest_pars_fragment>'',
     ''#include <alphahash_pars_fragment>'',
     ''#include <fog_pars_fragment>'',
     ''#include <logdepthbuf_pars_fragment>'',
     ''#include <clipping_planes_pars_fragment>'',
     ''void main() {'',
     tabs 1 @ ''vec4 diffuseColor = vec4( diffuse, opacity );'',
     tabs 1 @ ''#include <clipping_planes_fragment>'',
     tabs 1 @ ''vec3 outgoingLight = vec3( 0.0 );'',
     tabs 1 @ ''#include <logdepthbuf_fragment>'',
     tabs 1 @ ''#include <map_fragment>'',
     tabs 1 @ ''#include <alphamap_fragment>'',
     tabs 1 @ ''#include <alphatest_fragment>'',
     tabs 1 @ ''#include <alphahash_fragment>'',
     tabs 1 @ ''outgoingLight = diffuseColor.rgb;'',
     tabs 1 @ ''#include <opaque_fragment>'',
     tabs 1 @ ''#include <tonemapping_fragment>'',
     tabs 1 @ ''#include <colorspace_fragment>'',
     tabs 1 @ ''#include <fog_fragment>'',
     ''}'']"

lemma sprite_frag_text [chunk_facts]:
  "sprite_frag \<noteq> []" "nesting [] sprite_frag = Some []" "include_list sprite_frag = map (\<lambda>n. (n, [])) [
       ''common'',
       ''uv_pars_fragment'',
       ''map_pars_fragment'',
       ''alphamap_pars_fragment'',
       ''alphatest_pars_fragment'',
       ''alphahash_pars_fragment'',
       ''fog_pars_fragment'',
       ''logdepthbuf_pars_fragment'',
       ''clipping_planes_pars_fragment'',
       ''clipping_planes_fragment'',
       ''logdepthbuf_fragment'',
       ''map_fragment'',
       ''alphamap_fragment'',
       ''alphatest_fragment'',
       ''alphahash_fragment'',
       ''opaque_fragment'',
       ''tonemapping_fragment'',
       ''colorspace_fragment'',
       ''fog_fragment'']"
  unfolding sprite_frag_def
  by (simp_all add: line_defs cong: nesting_cong include_list_cong)

end
