(* ===== verification/ShaderTable.thy ===== *)
theory ShaderTable
  imports ShaderVertexChunks ShaderSurfaceChunks ShaderLightChunks ShaderOutputChunks ShaderPrograms
begin

text \<open>
  The chunk table (\<open>Ft\<close>), the shader library (\<open>Ze\<close>) with the materials it serves, and the contract of
  \<open>ShaderText\<close> discharged for them.
\<close>

definition chunk_list :: "(string \<times> string list) list" where
  "chunk_list = [
     (''alphahash_fragment'', alphahash_fragment),
     (''alphahash_pars_fragment'', alphahash_pars_fragment),
     (''alphamap_fragment'', alphamap_fragment),
     (''alphamap_pars_fragment'', alphamap_pars_fragment),
     (''alphatest_fragment'', alphatest_fragment),
     (''alphatest_pars_fragment'', alphatest_pars_fragment),
     (''aomap_fragment'', aomap_fragment),
     (''aomap_pars_fragment'', aomap_pars_fragment),
     (''batching_pars_vertex'', batching_pars_vertex),
     (''batching_vertex'', batching_vertex),
     (''begin_vertex'', begin_vertex),
     (''beginnormal_vertex'', beginnormal_vertex),
     (''bsdfs'', bsdfs),
     (''iridescence_fragment'', iridescence_fragment),
     (''bumpmap_pars_fragment'', bumpmap_pars_fragment),
     (''clipping_planes_fragment'', clipping_planes_fragment),
     (''clipping_planes_pars_fragment'', clipping_planes_pars_fragment),
     (''clipping_planes_pars_vertex'', clipping_planes_pars_vertex),
     (''clipping_planes_vertex'', clipping_planes_vertex),
     (''color_fragment'', color_fragment),
     (''color_pars_fragment'', color_pars_fragment),
     (''color_pars_vertex'', color_pars_vertex),
     (''color_vertex'', color_vertex),
     (''common'', common),
     (''cube_uv_reflection_fragment'', cube_uv_reflection_fragment),
     (''defaultnormal_vertex'', defaultnormal_vertex),
     (''displacementmap_pars_vertex'', displacementmap_pars_vertex),
     (''displacementmap_vertex'', displacementmap_vertex),
     (''emissivemap_fragment'', emissivemap_fragment),
     (''emissivemap_pars_fragment'', emissivemap_pars_fragment),
     (''colorspace_fragment'', colorspace_fragment),
     (''colorspace_pars_fragment'', colorspace_pars_fragment),
     (''envmap_fragment'', envmap_fragment),
     (''envmap_common_pars_fragment'', envmap_common_pars_fragment),
     (''envmap_pars_fragment'', envmap_pars_fragment),
     (''envmap_pars_vertex'', envmap_pars_vertex),
     (''envmap_physical_pars_fragment'', envmap_physical_pars_fragment),
     (''envmap_vertex'', envmap_vertex),
     (''fog_vertex'', fog_vertex),
     (''fog_pars_vertex'', fog_pars_vertex),
     (''fog_fragment'', fog_fragment),
     (''fog_pars_fragment'', fog_pars_fragment),
     (''gradientmap_pars_fragment'', gradientmap_pars_fragment),
     (''lightmap_pars_fragment'', lightmap_pars_fragment),
     (''lights_lambert_fragment'', lights_lambert_fragment),
     (''lights_lambert_pars_fragment'', lights_lambert_pars_fragment),
     (''lights_pars_begin'', lights_pars_begin),
     (''lights_toon_fragment'', lights_toon_fragment),
     (''lights_toon_pars_fragment'', lights_toon_pars_fragment),
     (''lights_phong_fragment'', lights_phong_fragment),
     (''lights_phong_pars_fragment'', lights_phong_pars_fragment),
     (''lights_physical_fragment'', lights_physical_fragment),
     (''lights_physical_pars_fragment'', lights_physical_pars_fragment),
     (''lights_fragment_begin'', lights_fragment_begin),
     (''lights_fragment_maps'', lights_fragment_maps),
     (''lights_fragment_end'', lights_fragment_end),
     (''logdepthbuf_fragment'', logdepthbuf_fragment),
     (''logdepthbuf_pars_fragment'', logdepthbuf_pars_fragment),
     (''logdepthbuf_pars_vertex'', logdepthbuf_pars_vertex),
     (''logdepthbuf_vertex'', logdepthbuf_vertex),
     (''map_fragment'', map_fragment),
     (''map_pars_fragment'', map_pars_fragment),
     (''map_particle_fragment'', map_particle_fragment),
     (''map_particle_pars_fragment'', map_particle_pars_fragment),
     (''metalnessmap_fragment'', metalnessmap_fragment),
     (''metalnessmap_pars_fragment'', metalnessmap_pars_fragment),
     (''morphinstance_vertex'', morphinstance_vertex),
     (''morphcolor_vertex'', morphcolor_vertex),
     (''morphnormal_vertex'', morphnormal_vertex),
     (''morphtarget_pars_vertex'', morphtarget_pars_vertex),
     (''morphtarget_vertex'', morphtarget_vertex),
     (''normal_fragment_begin'', normal_fragment_begin),
     (''normal_fragment_maps'', normal_fragment_maps),
     (''normal_pars_fragment'', normal_pars_fragment),
     (''normal_pars_vertex'', normal_pars_vertex),
     (''normal_vertex'', normal_vertex),
     (''normalmap_pars_fragment'', normalmap_pars_fragment),
     (''clearcoat_normal_fragment_begin'', clearcoat_normal_fragment_begin),
     (''clearcoat_normal_fragment_maps'', clearcoat_normal_fragment_maps),
     (''clearcoat_pars_fragment'', clearcoat_pars_fragment),
     (''iridescence_pars_fragment'', iridescence_pars_fragment),
     (''opaque_fragment'', opaque_fragment),
     (''packing'', packing),
     (''premultiplied_alpha_fragment'', premultiplied_alpha_fragment),
     (''project_vertex'', project_vertex),
     (''dithering_fragment'', dithering_fragment),
     (''dithering_pars_fragment'', dithering_pars_fragment),
     (''roughnessmap_fragment'', roughnessmap_fragment),
     (''roughnessmap_pars_fragment'', roughnessmap_pars_fragment),
     (''shadowmap_pars_fragment'', shadowmap_pars_fragment),
     (''shadowmap_pars_vertex'', shadowmap_pars_vertex),
     (''shadowmap_vertex'', shadowmap_vertex),
     (''shadowmask_pars_fragment'', shadowmask_pars_fragment),
     (''skinbase_vertex'', skinbase_vertex),
     (''skinning_pars_vertex'', skinning_pars_vertex),
     (''skinning_vertex'', skinning_vertex),
     (''skinnormal_vertex'', skinnormal_vertex),
     (''specularmap_fragment'', specularmap_fragment),
     (''specularmap_pars_fragment'', specularmap_pars_fragment),
     (''tonemapping_fragment'', tonemapping_fragment),
     (''tonemapping_pars_fragment'', tonemapping_pars_fragment),
     (''transmission_fragment'', transmission_fragment),
     (''transmission_pars_fragment'', transmission_pars_fragment),
     (''uv_pars_fragment'', uv_pars_fragment),
     (''uv_pars_vertex'', uv_pars_vertex),
     (''uv_vertex'', uv_vertex),
     (''worldpos_vertex'', worldpos_vertex),
     (''background_vert'', background_vert),
     (''background_frag'', background_frag),
     (''backgroundCube_vert'', backgroundCube_vert),
     (''backgroundCube_frag'', backgroundCube_frag),
     (''cube_vert'', cube_vert),
     (''cube_frag'', cube_frag),
     (''depth_vert'', depth_vert),
     (''depth_frag'', depth_frag),
     (''distanceRGBA_vert'', distanceRGBA_vert),
     (''distanceRGBA_frag'', distanceRGBA_frag),
     (''equirect_vert'', equirect_vert),
     (''equirect_frag'', equirect_frag),
     (''linedashed_vert'', linedashed_vert),
     (''linedashed_frag'', linedashed_frag),
     (''meshbasic_vert'', meshbasic_vert),
     (''meshbasic_frag'', meshbasic_frag),
     (''meshlambert_vert'', meshlambert_vert),
     (''meshlambert_frag'', meshlambert_frag),
     (''meshmatcap_vert'', meshmatcap_vert),
     (''meshmatcap_frag'', meshmatcap_frag),
     (''meshnormal_vert'', meshnormal_vert),
     (''meshnormal_frag'', meshnormal_frag),
     (''meshphong_vert'', meshphong_vert),
     (''meshphong_frag'', meshphong_frag),
     (''meshphysical_vert'', meshphysical_vert),
     (''meshphysical_frag'', meshphysical_frag),
     (''meshtoon_vert'', meshtoon_vert),
     (''meshtoon_frag'', meshtoon_frag),
     (''points_vert'', points_vert),
     (''points_frag'', points_frag),
     (''shadow_vert'', shadow_vert),
     (''shadow_frag'', shadow_frag),
     (''sprite_vert'', sprite_vert),
     (''sprite_frag'', sprite_frag)]"

definition chunk_table :: chunks where
  "chunk_table = map_of chunk_list"

definition shader_lib :: "(string \<times> string list \<times> string list) list" where
  "shader_lib = [
     (''basic'', meshbasic_vert, meshbasic_frag),
     (''lambert'', meshlambert_vert, meshlambert_frag),
     (''phong'', meshphong_vert, meshphong_frag),
     (''standard'', meshphysical_vert, meshphysical_frag),
     (''toon'', meshtoon_vert, meshtoon_frag),
     (''matcap'', meshmatcap_vert, meshmatcap_frag),
     (''points'', points_vert, points_frag),
     (''dashed'', linedashed_vert, linedashed_frag),
     (''depth'', depth_vert, depth_frag),
     (''normal'', meshnormal_vert, meshnormal_frag),
     (''sprite'', sprite_vert, sprite_frag),
     (''background'', background_vert, background_frag),
     (''backgroundCube'', backgroundCube_vert, backgroundCube_frag),
     (''cube'', cube_vert, cube_frag),
     (''equirect'', equirect_vert, equirect_frag),
     (''distanceRGBA'', distanceRGBA_vert, distanceRGBA_frag),
     (''shadow'', shadow_vert, shadow_frag),
     (''physical'', meshphysical_vert, meshphysical_frag)]"

text \<open>The program a material type is rendered with.\<close>

definition shader_ids :: "(string \<times> string) list" where
  "shader_ids = [
     (''MeshDepthMaterial'', ''depth''),
     (''MeshDistanceMaterial'', ''distanceRGBA''),
     (''MeshNormalMaterial'', ''normal''),
     (''MeshBasicMaterial'', ''basic''),
     (''MeshLambertMaterial'', ''lambert''),
     (''MeshPhongMaterial'', ''phong''),
     (''MeshToonMaterial'', ''toon''),
     (''MeshStandardMaterial'', ''physical''),
     (''MeshPhysicalMaterial'', ''physical''),
     (''MeshMatcapMaterial'', ''matcap''),
     (''LineBasicMaterial'', ''basic''),
     (''LineDashedMaterial'', ''dashed''),
     (''PointsMaterial'', ''points''),
     (''ShadowMaterial'', ''shadow''),
     (''SpriteMaterial'', ''sprite'')]"

section \<open>Look-up\<close>

lemma chunk_lookup [chunk_lookups]:
  "chunk_table ''alphahash_fragment'' = Some alphahash_fragment"
  "chunk_table ''alphahash_pars_fragment'' = Some alphahash_pars_fragment"
  "chunk_table ''alphamap_fragment'' = Some alphamap_fragment"
  "chunk_table ''alphamap_pars_fragment'' = Some alphamap_pars_fragment"
  "chunk_table ''alphatest_fragment'' = Some alphatest_fragment"
  "chunk_table ''alphatest_pars_fragment'' = Some alphatest_pars_fragment"
  "chunk_table ''aomap_fragment'' = Some aomap_fragment"
  "chunk_table ''aomap_pars_fragment'' = Some aomap_pars_fragment"
  "chunk_table ''batching_pars_vertex'' = Some batching_pars_vertex"
  "chunk_table ''batching_vertex'' = Some batching_vertex"
  "chunk_table ''begin_vertex'' = Some begin_vertex"
  "chunk_table ''beginnormal_vertex'' = Some beginnormal_vertex"
  "chunk_table ''bsdfs'' = Some bsdfs"
  "chunk_table ''iridescence_fragment'' = Some iridescence_fragment"
  "chunk_table ''bumpmap_pars_fragment'' = Some bumpmap_pars_fragment"
  "chunk_table ''clipping_planes_fragment'' = Some clipping_planes_fragment"
  "chunk_table ''clipping_planes_pars_fragment'' = Some clipping_planes_pars_fragment"
  "chunk_table ''clipping_planes_pars_vertex'' = Some clipping_planes_pars_vertex"
  "chunk_table ''clipping_planes_vertex'' = Some clipping_planes_vertex"
  "chunk_table ''color_fragment'' = Some color_fragment"
  "chunk_table ''color_pars_fragment'' = Some color_pars_fragment"
  "chunk_table ''color_pars_vertex'' = Some color_pars_vertex"
  "chunk_table ''color_vertex'' = Some color_vertex"
  "chunk_table ''common'' = Some common"
  "chunk_table ''cube_uv_reflection_fragment'' = Some cube_uv_reflection_fragment"
  "chunk_table ''defaultnormal_vertex'' = Some defaultnormal_vertex"
  "chunk_table ''displacementmap_pars_vertex'' = Some displacementmap_pars_vertex"
  "chunk_table ''displacementmap_vertex'' = Some displacementmap_vertex"
  "chunk_table ''emissivemap_fragment'' = Some emissivemap_fragment"
  "chunk_table ''emissivemap_pars_fragment'' = Some emissivemap_pars_fragment"
  "chunk_table ''colorspace_fragment'' = Some colorspace_fragment"
  "chunk_table ''colorspace_pars_fragment'' = Some colorspace_pars_fragment"
  "chunk_table ''envmap_fragment'' = Some envmap_fragment"
  "chunk_table ''envmap_common_pars_fragment'' = Some envmap_common_pars_fragment"
  "chunk_table ''envmap_pars_fragment'' = Some envmap_pars_fragment"
  "chunk_table ''envmap_pars_vertex'' = Some envmap_pars_vertex"
  "chunk_table ''envmap_physical_pars_fragment'' = Some envmap_physical_pars_fragment"
  "chunk_table ''envmap_vertex'' = Some envmap_vertex"
  "chunk_table ''fog_vertex'' = Some fog_vertex"
  "chunk_table ''fog_pars_vertex'' = Some fog_pars_vertex"
  "chunk_table ''fog_fragment'' = Some fog_fragment"
  "chunk_table ''fog_pars_fragment'' = Some fog_pars_fragment"
  "chunk_table ''gradientmap_pars_fragment'' = Some gradientmap_pars_fragment"
  "chunk_table ''lightmap_pars_fragment'' = Some lightmap_pars_fragment"
  "chunk_table ''lights_lambert_fragment'' = Some lights_lambert_fragment"
  "chunk_table ''lights_lambert_pars_fragment'' = Some lights_lambert_pars_fragment"
  "chunk_table ''lights_pars_begin'' = Some lights_pars_begin"
  "chunk_table ''lights_toon_fragment'' = Some lights_toon_fragment"
  "chunk_table ''lights_toon_pars_fragment'' = Some lights_toon_pars_fragment"
  "chunk_table ''lights_phong_fragment'' = Some lights_phong_fragment"
  "chunk_table ''lights_phong_pars_fragment'' = Some lights_phong_pars_fragment"
  "chunk_table ''lights_physical_fragment'' = Some lights_physical_fragment"
  "chunk_table ''lights_physical_pars_fragment'' = Some lights_physical_pars_fragment"
  "chunk_table ''lights_fragment_begin'' = Some lights_fragment_begin"
  "chunk_table ''lights_fragment_maps'' = Some lights_fragment_maps"
  "chunk_table ''lights_fragment_end'' = Some lights_fragment_end"
  "chunk_table ''logdepthbuf_fragment'' = Some logdepthbuf_fragment"
  "chunk_table ''logdepthbuf_pars_fragment'' = Some logdepthbuf_pars_fragment"
  "chunk_table ''logdepthbuf_pars_vertex'' = Some logdepthbuf_pars_vertex"
  "chunk_table ''logdepthbuf_vertex'' = Some logdepthbuf_vertex"
  "chunk_table ''map_fragment'' = Some map_fragment"
  "chunk_table ''map_pars_fragment'' = Some map_pars_fragment"
  "chunk_table ''map_particle_fragment'' = Some map_particle_fragment"
  "chunk_table ''map_particle_pars_fragment'' = Some map_particle_pars_fragment"
  "chunk_table ''metalnessmap_fragment'' = Some metalnessmap_fragment"
  "chunk_table ''metalnessmap_pars_fragment'' = Some metalnessmap_pars_fragment"
  "chunk_table ''morphinstance_vertex'' = Some morphinstance_vertex"
  "chunk_table ''morphcolor_vertex'' = Some morphcolor_vertex"
  "chunk_table ''morphnormal_vertex'' = Some morphnormal_vertex"
  "chunk_table ''morphtarget_pars_vertex'' = Some morphtarget_pars_vertex"
  "chunk_table ''morphtarget_vertex'' = Some morphtarget_vertex"
  "chunk_table ''normal_fragment_begin'' = Some normal_fragment_begin"
  "chunk_table ''normal_fragment_maps'' = Some normal_fragment_maps"
  "chunk_table ''normal_pars_fragment'' = Some normal_pars_fragment"
  "chunk_table ''normal_pars_vertex'' = Some normal_pars_vertex"
  "chunk_table ''normal_vertex'' = Some normal_vertex"
  "chunk_table ''normalmap_pars_fragment'' = Some normalmap_pars_fragment"
  "chunk_table ''clearcoat_normal_fragment_begin'' = Some clearcoat_normal_fragment_begin"
  "chunk_table ''clearcoat_normal_fragment_maps'' = Some clearcoat_normal_fragment_maps"
  "chunk_table ''clearcoat_pars_fragment'' = Some clearcoat_pars_fragment"
  "chunk_table ''iridescence_pars_fragment'' = Some iridescence_pars_fragment"
  "chunk_table ''opaque_fragment'' = Some opaque_fragment"
  "chunk_table ''packing'' = Some packing"
  "chunk_table ''premultiplied_alpha_fragment'' = Some premultiplied_alpha_fragment"
  "chunk_table ''project_vertex'' = Some project_vertex"
  "chunk_table ''dithering_fragment'' = Some dithering_fragment"
  "chunk_table ''dithering_pars_fragment'' = Some dithering_pars_fragment"
  "chunk_table ''roughnessmap_fragment'' = Some roughnessmap_fragment"
  "chunk_table ''roughnessmap_pars_fragment'' = Some roughnessmap_pars_fragment"
  "chunk_table ''shadowmap_pars_fragment'' = Some shadowmap_pars_fragment"
  "chunk_table ''shadowmap_pars_vertex'' = Some shadowmap_pars_vertex"
  "chunk_table ''shadowmap_vertex'' = Some shadowmap_vertex"
  "chunk_table ''shadowmask_pars_fragment'' = Some shadowmask_pars_fragment"
  "chunk_table ''skinbase_vertex'' = Some skinbase_vertex"
  "chunk_table ''skinning_pars_vertex'' = Some skinning_pars_vertex"
  "chunk_table ''skinning_vertex'' = Some skinning_vertex"
  "chunk_table ''skinnormal_vertex'' = Some skinnormal_vertex"
  "chunk_table ''specularmap_fragment'' = Some specularmap_fragment"
  "chunk_table ''specularmap_pars_fragment'' = Some specularmap_pars_fragment"
  "chunk_table ''tonemapping_fragment'' = Some tonemapping_fragment"
  "chunk_table ''tonemapping_pars_fragment'' = Some tonemapping_pars_fragment"
  "chunk_table ''transmission_fragment'' = Some transmission_fragment"
  "chunk_table ''transmission_pars_fragment'' = Some transmission_pars_fragment"
  "chunk_table ''uv_pars_fragment'' = Some uv_pars_fragment"
  "chunk_table ''uv_pars_vertex'' = Some uv_pars_vertex"
  "chunk_table ''uv_vertex'' = Some uv_vertex"
  "chunk_table ''worldpos_vertex'' = Some worldpos_vertex"
  "chunk_table ''background_vert'' = Some background_vert"
  "chunk_table ''background_frag'' = Some background_frag"
  "chunk_table ''backgroundCube_vert'' = Some backgroundCube_vert"
  "chunk_table ''backgroundCube_frag'' = Some backgroundCube_frag"
  "chunk_table ''cube_vert'' = Some cube_vert"
  "chunk_table ''cube_frag'' = Some cube_frag"
  "chunk_table ''depth_vert'' = Some depth_vert"
  "chunk_table ''depth_frag'' = Some depth_frag"
  "chunk_table ''distanceRGBA_vert'' = Some distanceRGBA_vert"
  "chunk_table ''distanceRGBA_frag'' = Some distanceRGBA_frag"
  "chunk_table ''equirect_vert'' = Some equirect_vert"
  "chunk_table ''equirect_frag'' = Some equirect_frag"
  "chunk_table ''linedashed_vert'' = Some linedashed_vert"
  "chunk_table ''linedashed_frag'' = Some linedashed_frag"
  "chunk_table ''meshbasic_vert'' = Some meshbasic_vert"
  "chunk_table ''meshbasic_frag'' = Some meshbasic_frag"
  "chunk_table ''meshlambert_vert'' = Some meshlambert_vert"
  "chunk_table ''meshlambert_frag'' = Some meshlambert_frag"
  "chunk_table ''meshmatcap_vert'' = Some meshmatcap_vert"
  "chunk_table ''meshmatcap_frag'' = Some meshmatcap_frag"
  "chunk_table ''meshnormal_vert'' = Some meshnormal_vert"
  "chunk_table ''meshnormal_frag'' = Some meshnormal_frag"
  "chunk_table ''meshphong_vert'' = Some meshphong_vert"
  "chunk_table ''meshphong_frag'' = Some meshphong_frag"
  "chunk_table ''meshphysical_vert'' = Some meshphysical_vert"
  "chunk_table ''meshphysical_frag'' = Some meshphysical_frag"
  "chunk_table ''meshtoon_vert'' = Some meshtoon_vert"
  "chunk_table ''meshtoon_frag'' = Some meshtoon_frag"
  "chunk_table ''points_vert'' = Some points_vert"
  "chunk_table ''points_frag'' = Some points_frag"
  "chunk_table ''shadow_vert'' = Some shadow_vert"
  "chunk_table ''shadow_frag'' = Some shadow_frag"
  "chunk_table ''sprite_vert'' = Some sprite_vert"
  "chunk_table ''sprite_frag'' = Some sprite_frag"
  unfolding chunk_table_def chunk_list_def
  by (simp_all add: map_of_step del: map_of.simps cong: map_of_key_cong)

section \<open>The contract\<close>

text \<open>A chunk with includes is above those without.\<close>

definition include_rank :: "string \<Rightarrow> nat" where
  "include_rank n = (case chunk_table n of None \<Rightarrow> 0 | Some ls \<Rightarrow> if include_list ls = [] then 0 else 1)"

definition chunk_good :: "string \<Rightarrow> string list \<Rightarrow> bool" where
  "chunk_good n ls \<longleftrightarrow> ls \<noteq> [] \<and> well_nested ls \<and>
     list_all (\<lambda>(m, rest). rest = [] \<and> chunk_table m \<noteq> None \<and> include_rank m < include_rank n) (include_list ls)"

lemma chunk_list_good: "list_all (\<lambda>(n, ls). chunk_good n ls) chunk_list"
  by (simp add: chunk_list_def chunk_good_def well_nested_def include_rank_def chunk_facts chunk_lookups)

interpretation chunks: chunk_library chunk_table include_rank
proof
  fix n ls
  assume "chunk_table n = Some ls"
  then have "(n, ls) \<in> set chunk_list" by (auto simp: chunk_table_def dest: map_of_SomeD)
  then have "chunk_good n ls" using chunk_list_good by (auto simp: list_all_iff)
  then show "ls \<noteq> [] \<and> well_nested ls \<and>
      list_all (\<lambda>(m, rest). rest = [] \<and> chunk_table m \<noteq> None \<and> include_rank m < include_rank n) (include_list ls)"
    by (simp add: chunk_good_def)
qed

end
