(* ===== verification/ShaderLaws.thy ===== *)
theory ShaderLaws
  imports ShaderTable
begin

text \<open>
  Properties of the include expansion and of the shader library: what the expansion computes, that it
  succeeds for the program of every material, and what it does with a name the table does not have.
\<close>


lemma expand_lines_plain: "list_all (\<lambda>l. include_of l = None) pre \<Longrightarrow>
    expand_lines f (pre @ ls) = map_option (map_sum id ((@) pre)) (expand_lines f ls)"
  by (induction pre) (auto simp: map_option_case map_sum_def split: option.split sum.split)

text \<open>
  A name that is not in the table: the first include line whose chunk is missing stops the expansion
  with the error that names it, whatever comes after it, and nothing is returned.
\<close>

theorem unknown_include_throws:
  assumes "list_all (\<lambda>l. include_of l = None) pre" and "include_of l = Some (n, rest)" and "tbl n = None"
  shows "resolve_includes (Suc fuel) tbl (pre @ l # post) = Some (Inl (unknown_include n))"
  using assms by (simp add: resolve_Suc expand_lines_plain chunk_at_def del: resolve_includes.simps)

lemma unknown_include_witness:
  "resolve_includes 1 chunk_table [''void main() {'', '' #include <nothing>'', ''}'']
     = Some (Inl (InvalidOperation ''Can not resolve #include <nothing>''))"
proof -
  have "chunk_table ''nothing'' = None"
    unfolding chunk_table_def chunk_list_def by (simp add: map_of_step del: map_of.simps(2) cong: map_of_key_cong)
  from unknown_include_throws [of "[''void main() {'']" "'' #include <nothing>''" "''nothing''" "[]" chunk_table 0 "[''}'']", OF _ _ this]
  show ?thesis by (simp add: line_defs unknown_include_def inherited_names_def del: resolve_includes.simps)
qed

text \<open>
  The programs: every include is on a line of its own and names a chunk without includes.
\<close>

definition program_good :: "string list \<Rightarrow> bool" where
  "program_good ls \<longleftrightarrow> well_nested ls \<and>
     list_all (\<lambda>(m, rest). rest = [] \<and> chunk_table m \<noteq> None \<and> include_rank m < 1) (include_list ls)"

lemma shader_lib_good: "list_all (\<lambda>(p, v, f). program_good v \<and> program_good f) shader_lib"
  by (simp add: shader_lib_def program_good_def well_nested_def include_rank_def chunk_facts chunk_lookups)

lemma program_resolves:
  assumes "program_good ls" and "2 \<le> fuel"
  shows "\<exists>out. resolve_includes fuel chunk_table ls = Some (Inr out) \<and> include_list out = [] \<and> well_nested out"
proof -
  obtain out where "resolve_includes (Suc 1) chunk_table ls = Some (Inr out)" "include_list out = []" "well_nested out"
    using chunks.expand_ok [of 1 ls] assms(1) by (auto simp: program_good_def well_nested_def simp del: resolve_includes.simps)
  moreover have "fuel = Suc 1 + (fuel - 2)" using assms(2) by simp
  ultimately show ?thesis
    using resolve_more_fuel [of "Suc 1" chunk_table ls "Inr out" "fuel - 2"] by metis
qed

lemma shader_ids_known: "list_all (\<lambda>(m, p). map_of shader_lib p \<noteq> None) shader_ids"
  by (simp add: shader_ids_def shader_lib_def)

text \<open>
  C15. Every built-in material renders: the program of each material type that has one exists, its vertex and
  fragment texts expand without an exception (two levels of recursion are enough), no include line is
  left, and every \<open>#if\<close> of the expanded text has its \<open>#endif\<close>, with its \<open>#elif\<close> and \<open>#else\<close> between them.
\<close>

theorem material_programs_expand:
  assumes "map_of shader_ids material = Some prog" and "2 \<le> fuel"
  shows "\<exists>vertex fragment v f. map_of shader_lib prog = Some (vertex, fragment)
    \<and> resolve_includes fuel chunk_table vertex = Some (Inr v) \<and> include_list v = [] \<and> well_nested v
    \<and> resolve_includes fuel chunk_table fragment = Some (Inr f) \<and> include_list f = [] \<and> well_nested f"
proof -
  have "(material, prog) \<in> set shader_ids" using assms(1) by (rule map_of_SomeD)
  then obtain vertex fragment where p: "map_of shader_lib prog = Some (vertex, fragment)"
    using shader_ids_known by (auto simp: list_all_iff)
  then have "(prog, vertex, fragment) \<in> set shader_lib" by (rule map_of_SomeD)
  then have "program_good vertex" "program_good fragment" using shader_lib_good by (auto simp: list_all_iff)
  with p program_resolves [OF _ assms(2)] show ?thesis by blast
qed

lemma material_programs_witness:
  "\<exists>v f. resolve_includes 2 chunk_table meshphysical_vert = Some (Inr v) \<and> include_list v = []
     \<and> resolve_includes 2 chunk_table meshphysical_frag = Some (Inr f) \<and> include_list f = []"
  using material_programs_expand [of "''MeshStandardMaterial''" "''physical''" 2]
  by (simp add: shader_ids_def shader_lib_def del: resolve_includes.simps) blast

end
