(* ===== verification/ShaderMath.thy ===== *)
theory ShaderMath
  imports Complex_Main
begin

text \<open>
  What the shader chunks compute: the functions of the shading language in
  \<open>web/viewer/dist/assets/index-BpuCcfds.js\<close> on the path from a light to a pixel, one definition per function.

  \<^item> A \<open>float\<close> is a real number and a vector a tuple. \<open>pow\<close> with a negative base and \<open>normalize\<close> of the zero
    vector are undefined in the shading language; no property uses them.
  \<^item> A function that exists in two versions under a conditional of the preprocessor is modelled for the
    viewer's materials, which set none of \<open>USE_IRIDESCENCE\<close>, \<open>USE_ANISOTROPY\<close>, \<open>USE_CLEARCOAT\<close>, \<open>USE_SHEEN\<close>,
    \<open>USE_REVERSED_DEPTH_BUFFER\<close>; \<open>HIGH_PRECISION\<close> and the shadow map type are arguments.
  \<^item> A texture is the function that reads it.
\<close>

section \<open>Vectors and built-in functions\<close>

type_synonym fvec2 = "real \<times> real"
type_synonym fvec3 = "real \<times> real \<times> real"
type_synonym fvec4 = "real \<times> real \<times> real \<times> real"

fun add2 :: "fvec2 \<Rightarrow> fvec2 \<Rightarrow> fvec2" where
  "add2 (x, y) (a, b) = (x + a, y + b)"

fun add3 :: "fvec3 \<Rightarrow> fvec3 \<Rightarrow> fvec3" where
  "add3 (x, y, z) (a, b, c) = (x + a, y + b, z + c)"

fun sub3 :: "fvec3 \<Rightarrow> fvec3 \<Rightarrow> fvec3" where
  "sub3 (x, y, z) (a, b, c) = (x - a, y - b, z - c)"

fun mul3 :: "fvec3 \<Rightarrow> fvec3 \<Rightarrow> fvec3" where
  "mul3 (x, y, z) (a, b, c) = (x * a, y * b, z * c)"

fun map3 :: "(real \<Rightarrow> real) \<Rightarrow> fvec3 \<Rightarrow> fvec3" where
  "map3 f (x, y, z) = (f x, f y, f z)"

definition scale3 :: "real \<Rightarrow> fvec3 \<Rightarrow> fvec3" where
  "scale3 k v = map3 ((*) k) v"

fun dot3 :: "fvec3 \<Rightarrow> fvec3 \<Rightarrow> real" where
  "dot3 (x, y, z) (a, b, c) = x * a + y * b + z * c"

definition length3 :: "fvec3 \<Rightarrow> real" where
  "length3 v = sqrt (dot3 v v)"

definition normalize3 :: "fvec3 \<Rightarrow> fvec3" where
  "normalize3 v = scale3 (1 / length3 v) v"

text \<open>A matrix is the list of its columns, as the constructor \<open>mat3\<close> takes them.\<close>

type_synonym mat3 = "fvec3 \<times> fvec3 \<times> fvec3"

fun mat3_mul :: "mat3 \<Rightarrow> fvec3 \<Rightarrow> fvec3" where
  "mat3_mul (a, b, c) (x, y, z) = add3 (add3 (scale3 x a) (scale3 y b)) (scale3 z c)"

definition clampf :: "real \<Rightarrow> real \<Rightarrow> real \<Rightarrow> real" where
  "clampf x lo hi = min (max x lo) hi"

definition mixf :: "real \<Rightarrow> real \<Rightarrow> real \<Rightarrow> real" where
  "mixf a b t = a * (1 - t) + b * t"

fun mix3 :: "fvec3 \<Rightarrow> fvec3 \<Rightarrow> real \<Rightarrow> fvec3" where
  "mix3 (x, y, z) (a, b, c) t = (mixf x a t, mixf y b t, mixf z c t)"

definition stepf :: "real \<Rightarrow> real \<Rightarrow> real" where
  "stepf edge x = (if x < edge then 0 else 1)"

definition smoothstep :: "real \<Rightarrow> real \<Rightarrow> real \<Rightarrow> real" where
  "smoothstep e0 e1 x = (let t = clampf ((x - e0) / (e1 - e0)) 0 1 in t * t * (3 - 2 * t))"

text \<open>\<open>modf\<close>: the fractional and the integral part, both with the sign of the argument.\<close>

definition modf :: "real \<Rightarrow> real \<times> real" where
  "modf x = (let i = (if 0 \<le> x then of_int \<lfloor>x\<rfloor> else of_int \<lceil>x\<rceil>) in (x - i, i))"

definition exp2 :: "real \<Rightarrow> real" where
  "exp2 x = 2 powr x"

section \<open>common\<close>

definition RECIPROCAL_PI :: real where
  "RECIPROCAL_PI = 0.3183098861837907"

definition EPSILON :: real where
  "EPSILON = 1 / 10 ^ 6"

definition saturate :: "real \<Rightarrow> real" where
  "saturate a = clampf a 0 1"

definition whiteComplement :: "real \<Rightarrow> real" where
  "whiteComplement a = 1 - saturate a"

definition pow2 :: "real \<Rightarrow> real" where
  "pow2 x = x * x"

definition pow3 :: "real \<Rightarrow> real" where
  "pow3 x = x * x * x"

definition pow4 :: "real \<Rightarrow> real" where
  "pow4 x = (let x2 = x * x in x2 * x2)"

fun max3 :: "fvec3 \<Rightarrow> real" where
  "max3 (x, y, z) = max (max x y) z"

definition average :: "fvec3 \<Rightarrow> real" where
  "average v = dot3 v (0.3333333, 0.3333333, 0.3333333)"

definition precisionSafeLength :: "bool \<Rightarrow> fvec3 \<Rightarrow> real" where
  "precisionSafeLength high_precision v =
     (if high_precision then length3 v
      else let maxComponent = max3 (map3 abs v) in length3 (scale3 (1 / maxComponent) v) * maxComponent)"

definition BRDF_Lambert :: "fvec3 \<Rightarrow> fvec3" where
  "BRDF_Lambert diffuseColor = scale3 RECIPROCAL_PI diffuseColor"

definition schlick_weight :: "real \<Rightarrow> real" where
  "schlick_weight dotVH = exp2 ((- 5.55473 * dotVH - 6.98316) * dotVH)"

definition F_Schlick :: "fvec3 \<Rightarrow> real \<Rightarrow> real \<Rightarrow> fvec3" where
  "F_Schlick f0 f90 dotVH = (let fresnel = schlick_weight dotVH in map3 (\<lambda>f. f * (1 - fresnel) + f90 * fresnel) f0)"

section \<open>packing\<close>

definition packNormalToRGB :: "fvec3 \<Rightarrow> fvec3" where
  "packNormalToRGB normal = map3 (\<lambda>c. c * 0.5 + 0.5) (normalize3 normal)"

definition unpackRGBToNormal :: "fvec3 \<Rightarrow> fvec3" where
  "unpackRGBToNormal rgb = map3 (\<lambda>c. 2 * c - 1) rgb"

definition PackUpscale :: real where "PackUpscale = 256 / 255"
definition UnpackDownscale :: real where "UnpackDownscale = 255 / 256"
definition ShiftRight8 :: real where "ShiftRight8 = 1 / 256"
definition Inv255 :: real where "Inv255 = 1 / 255"

definition packDepthToRGBA :: "real \<Rightarrow> fvec4" where
  "packDepthToRGBA v =
     (if v \<le> 0 then (0, 0, 0, 0)
      else if 1 \<le> v then (1, 1, 1, 1)
      else let (af, vuf) = modf (v * (256 * 256 * 256));
               (bf, vuf) = modf (vuf * ShiftRight8);
               (gf, vuf) = modf (vuf * ShiftRight8)
           in (vuf * Inv255, gf * PackUpscale, bf * PackUpscale, af))"

definition packDepthToRGB :: "real \<Rightarrow> fvec3" where
  "packDepthToRGB v =
     (if v \<le> 0 then (0, 0, 0)
      else if 1 \<le> v then (1, 1, 1)
      else let (bf, vuf) = modf (v * (256 * 256));
               (gf, vuf) = modf (vuf * ShiftRight8)
           in (vuf * Inv255, gf * PackUpscale, bf))"

definition packDepthToRG :: "real \<Rightarrow> fvec2" where
  "packDepthToRG v =
     (if v \<le> 0 then (0, 0)
      else if 1 \<le> v then (1, 1)
      else let (gf, vuf) = modf (v * 256) in (vuf * Inv255, gf))"

fun unpackRGBAToDepth :: "fvec4 \<Rightarrow> real" where
  "unpackRGBAToDepth (r, g, b, a) =
     r * UnpackDownscale + g * (UnpackDownscale / 256) + b * (UnpackDownscale / (256 * 256)) + a * (1 / (256 * 256 * 256))"

fun unpackRGBToDepth :: "fvec3 \<Rightarrow> real" where
  "unpackRGBToDepth (r, g, b) = r * UnpackDownscale + g * (UnpackDownscale / 256) + b * (1 / (256 * 256))"

fun unpackRGToDepth :: "fvec2 \<Rightarrow> real" where
  "unpackRGToDepth (r, g) = r * UnpackDownscale + g * (1 / 256)"

fun pack2HalfToRGBA :: "fvec2 \<Rightarrow> fvec4" where
  "pack2HalfToRGBA (x, y) = (x - frac (x * 255) / 255, frac (x * 255), y - frac (y * 255) / 255, frac (y * 255))"

fun unpackRGBATo2Half :: "fvec4 \<Rightarrow> fvec2" where
  "unpackRGBATo2Half (x, y, z, w) = (x + y / 255, z + w / 255)"

definition viewZToOrthographicDepth :: "real \<Rightarrow> real \<Rightarrow> real \<Rightarrow> real" where
  "viewZToOrthographicDepth viewZ near far = (viewZ + near) / (near - far)"

definition orthographicDepthToViewZ :: "real \<Rightarrow> real \<Rightarrow> real \<Rightarrow> real" where
  "orthographicDepthToViewZ depth near far = depth * (near - far) - near"

definition viewZToPerspectiveDepth :: "real \<Rightarrow> real \<Rightarrow> real \<Rightarrow> real" where
  "viewZToPerspectiveDepth viewZ near far = ((near + viewZ) * far) / ((far - near) * viewZ)"

definition perspectiveDepthToViewZ :: "real \<Rightarrow> real \<Rightarrow> real \<Rightarrow> real" where
  "perspectiveDepthToViewZ depth near far = (near * far) / ((far - near) * depth - far)"

section \<open>lights_pars_begin\<close>

definition getDistanceAttenuation :: "real \<Rightarrow> real \<Rightarrow> real \<Rightarrow> real" where
  "getDistanceAttenuation lightDistance cutoffDistance decayExponent =
     (let distanceFalloff = 1 / max (lightDistance powr decayExponent) 0.01
      in if 0 < cutoffDistance
         then distanceFalloff * pow2 (saturate (1 - pow4 (lightDistance / cutoffDistance)))
         else distanceFalloff)"

definition getSpotAttenuation :: "real \<Rightarrow> real \<Rightarrow> real \<Rightarrow> real" where
  "getSpotAttenuation coneCosine penumbraCosine angleCosine = smoothstep coneCosine penumbraCosine angleCosine"

record incident_light =
  inc_color :: fvec3
  inc_direction :: fvec3
  inc_visible :: bool

definition getDirectionalLightInfo :: "fvec3 \<Rightarrow> fvec3 \<Rightarrow> incident_light" where
  "getDirectionalLightInfo color direction = \<lparr>inc_color = color, inc_direction = direction, inc_visible = True\<rparr>"

record spot_light =
  sl_position :: fvec3
  sl_direction :: fvec3
  sl_color :: fvec3
  sl_distance :: real
  sl_decay :: real
  sl_coneCos :: real
  sl_penumbraCos :: real

record point_light =
  pl_position :: fvec3
  pl_color :: fvec3
  pl_distance :: real
  pl_decay :: real

definition getPointLightInfo :: "point_light \<Rightarrow> fvec3 \<Rightarrow> incident_light" where
  "getPointLightInfo pointLight geometryPosition =
     (let lVector = sub3 (pl_position pointLight) geometryPosition;
          color = scale3 (getDistanceAttenuation (length3 lVector) (pl_distance pointLight) (pl_decay pointLight)) (pl_color pointLight)
      in \<lparr>inc_color = color, inc_direction = normalize3 lVector, inc_visible = (color \<noteq> (0, 0, 0))\<rparr>)"

definition getSpotLightInfo :: "spot_light \<Rightarrow> fvec3 \<Rightarrow> incident_light" where
  "getSpotLightInfo spotLight geometryPosition =
     (let lVector = sub3 (sl_position spotLight) geometryPosition;
          direction = normalize3 lVector;
          spotAttenuation = getSpotAttenuation (sl_coneCos spotLight) (sl_penumbraCos spotLight) (dot3 direction (sl_direction spotLight))
      in if 0 < spotAttenuation
         then let color = scale3 (getDistanceAttenuation (length3 lVector) (sl_distance spotLight) (sl_decay spotLight))
                            (scale3 spotAttenuation (sl_color spotLight))
              in \<lparr>inc_color = color, inc_direction = direction, inc_visible = (color \<noteq> (0, 0, 0))\<rparr>
         else \<lparr>inc_color = (0, 0, 0), inc_direction = direction, inc_visible = False\<rparr>)"

definition getHemisphereLightIrradiance :: "fvec3 \<Rightarrow> fvec3 \<Rightarrow> fvec3 \<Rightarrow> fvec3 \<Rightarrow> fvec3" where
  "getHemisphereLightIrradiance direction skyColor groundColor normal =
     (let dotNL = dot3 normal direction; hemiDiffuseWeight = 0.5 * dotNL + 0.5
      in mix3 groundColor skyColor hemiDiffuseWeight)"

section \<open>lights_physical_pars_fragment\<close>

record physical_material =
  pm_diffuseColor :: fvec3
  pm_roughness :: real
  pm_specularColor :: fvec3
  pm_specularF90 :: real

definition V_GGX_SmithCorrelated :: "real \<Rightarrow> real \<Rightarrow> real \<Rightarrow> real" where
  "V_GGX_SmithCorrelated alpha dotNL dotNV =
     (let a2 = pow2 alpha;
          gv = dotNL * sqrt (a2 + (1 - a2) * pow2 dotNV);
          gl = dotNV * sqrt (a2 + (1 - a2) * pow2 dotNL)
      in 0.5 / max (gv + gl) EPSILON)"

definition D_GGX :: "real \<Rightarrow> real \<Rightarrow> real" where
  "D_GGX alpha dotNH =
     (let a2 = pow2 alpha; denom = pow2 dotNH * (a2 - 1) + 1 in RECIPROCAL_PI * a2 / pow2 denom)"

definition BRDF_GGX :: "fvec3 \<Rightarrow> fvec3 \<Rightarrow> fvec3 \<Rightarrow> physical_material \<Rightarrow> fvec3" where
  "BRDF_GGX lightDir viewDir normal material =
     (let alpha = pow2 (pm_roughness material);
          halfDir = normalize3 (add3 lightDir viewDir);
          dotNL = saturate (dot3 normal lightDir);
          dotNV = saturate (dot3 normal viewDir);
          dotNH = saturate (dot3 normal halfDir);
          dotVH = saturate (dot3 viewDir halfDir);
          F = F_Schlick (pm_specularColor material) (pm_specularF90 material) dotVH;
          V = V_GGX_SmithCorrelated alpha dotNL dotNV;
          D = D_GGX alpha dotNH
      in scale3 (V * D) F)"

record reflected_light =
  rl_directDiffuse :: fvec3
  rl_directSpecular :: fvec3
  rl_indirectDiffuse :: fvec3
  rl_indirectSpecular :: fvec3

definition RE_Direct_Physical ::
  "incident_light \<Rightarrow> fvec3 \<Rightarrow> fvec3 \<Rightarrow> physical_material \<Rightarrow> reflected_light \<Rightarrow> reflected_light" where
  "RE_Direct_Physical directLight geometryNormal geometryViewDir material r =
     (let dotNL = saturate (dot3 geometryNormal (inc_direction directLight));
          irradiance = scale3 dotNL (inc_color directLight)
      in r\<lparr>rl_directSpecular := add3 (rl_directSpecular r)
             (mul3 irradiance (BRDF_GGX (inc_direction directLight) geometryViewDir geometryNormal material)),
           rl_directDiffuse := add3 (rl_directDiffuse r) (mul3 irradiance (BRDF_Lambert (pm_diffuseColor material)))\<rparr>)"

definition RE_IndirectDiffuse_Physical :: "fvec3 \<Rightarrow> physical_material \<Rightarrow> reflected_light \<Rightarrow> reflected_light" where
  "RE_IndirectDiffuse_Physical irradiance material r =
     r\<lparr>rl_indirectDiffuse := add3 (rl_indirectDiffuse r) (mul3 irradiance (BRDF_Lambert (pm_diffuseColor material)))\<rparr>"

section \<open>shadowmap_pars_fragment\<close>

datatype shadow_map_type = SHADOWMAP_TYPE_BASIC | SHADOWMAP_TYPE_PCF | SHADOWMAP_TYPE_PCF_SOFT | SHADOWMAP_TYPE_VSM

type_synonym sampler2D = "fvec2 \<Rightarrow> fvec4"

definition texture2DCompare :: "sampler2D \<Rightarrow> fvec2 \<Rightarrow> real \<Rightarrow> real" where
  "texture2DCompare depths uv compare = stepf compare (unpackRGBAToDepth (depths uv))"

definition VSMShadow :: "sampler2D \<Rightarrow> fvec2 \<Rightarrow> real \<Rightarrow> real" where
  "VSMShadow shadow uv compare =
     (let (mean, std_dev) = unpackRGBATo2Half (shadow uv);
          hard_shadow = stepf compare mean
      in if hard_shadow \<noteq> 1
         then let distance = compare - mean;
                  variance = max 0 (std_dev * std_dev);
                  softness = clampf ((variance / (variance + distance * distance) - 0.3) / (0.95 - 0.3)) 0 1
              in clampf (max hard_shadow softness) 0 1
         else 1)"

definition shadow_pcf :: "sampler2D \<Rightarrow> fvec2 \<Rightarrow> real \<Rightarrow> fvec2 \<Rightarrow> real \<Rightarrow> real" where
  "shadow_pcf shadowMap shadowMapSize shadowRadius uv z =
     (let dx0 = - (1 / fst shadowMapSize) * shadowRadius; dy0 = - (1 / snd shadowMapSize) * shadowRadius;
          dx1 = (1 / fst shadowMapSize) * shadowRadius; dy1 = (1 / snd shadowMapSize) * shadowRadius;
          dx2 = dx0 / 2; dy2 = dy0 / 2; dx3 = dx1 / 2; dy3 = dy1 / 2;
          tap = (\<lambda>d. texture2DCompare shadowMap (add2 uv d) z)
      in (tap (dx0, dy0) + tap (0, dy0) + tap (dx1, dy0) + tap (dx2, dy2) + tap (0, dy2) + tap (dx3, dy2) +
          tap (dx0, 0) + tap (dx2, 0) + tap (0, 0) + tap (dx3, 0) + tap (dx1, 0) +
          tap (dx2, dy3) + tap (0, dy3) + tap (dx3, dy3) + tap (dx0, dy1) + tap (0, dy1) + tap (dx1, dy1)) * (1 / 17))"

definition shadow_pcf_soft :: "sampler2D \<Rightarrow> fvec2 \<Rightarrow> fvec2 \<Rightarrow> real \<Rightarrow> real" where
  "shadow_pcf_soft shadowMap shadowMapSize shadowUv z =
     (let dx = 1 / fst shadowMapSize; dy = 1 / snd shadowMapSize;
          fx = frac (fst shadowUv * fst shadowMapSize + 0.5); fy = frac (snd shadowUv * snd shadowMapSize + 0.5);
          uv = (fst shadowUv - fx * dx, snd shadowUv - fy * dy);
          tap = (\<lambda>d. texture2DCompare shadowMap (add2 uv d) z)
      in (tap (0, 0) + tap (dx, 0) + tap (0, dy) + tap (dx, dy) +
          mixf (tap (- dx, 0)) (tap (2 * dx, 0)) fx +
          mixf (tap (- dx, dy)) (tap (2 * dx, dy)) fx +
          mixf (tap (0, - dy)) (tap (0, 2 * dy)) fy +
          mixf (tap (dx, - dy)) (tap (dx, 2 * dy)) fy +
          mixf (mixf (tap (- dx, - dy)) (tap (2 * dx, - dy)) fx)
               (mixf (tap (- dx, 2 * dy)) (tap (2 * dx, 2 * dy)) fx) fy) * (1 / 9))"

definition getShadow :: "shadow_map_type \<Rightarrow> sampler2D \<Rightarrow> fvec2 \<Rightarrow> real \<Rightarrow> real \<Rightarrow> real \<Rightarrow> fvec4 \<Rightarrow> real" where
  "getShadow ty shadowMap shadowMapSize shadowIntensity shadowBias shadowRadius shadowCoord =
     (let (x, y, z, w) = shadowCoord;
          x = x / w; y = y / w; z = z / w + shadowBias;
          inFrustum = (0 \<le> x \<and> x \<le> 1 \<and> 0 \<le> y \<and> y \<le> 1);
          shadow = (if inFrustum \<and> z \<le> 1
                    then (case ty of
                        SHADOWMAP_TYPE_PCF \<Rightarrow> shadow_pcf shadowMap shadowMapSize shadowRadius (x, y) z
                      | SHADOWMAP_TYPE_PCF_SOFT \<Rightarrow> shadow_pcf_soft shadowMap shadowMapSize (x, y) z
                      | SHADOWMAP_TYPE_VSM \<Rightarrow> VSMShadow shadowMap (x, y) z
                      | SHADOWMAP_TYPE_BASIC \<Rightarrow> texture2DCompare shadowMap (x, y) z)
                    else 1)
      in mixf 1 shadow shadowIntensity)"

section \<open>fog and tone mapping\<close>

definition fog_factor_exp2 :: "real \<Rightarrow> real \<Rightarrow> real" where
  "fog_factor_exp2 fogDensity vFogDepth = 1 - exp (- fogDensity * fogDensity * vFogDepth * vFogDepth)"

definition fog_factor :: "real \<Rightarrow> real \<Rightarrow> real \<Rightarrow> real" where
  "fog_factor fogNear fogFar vFogDepth = smoothstep fogNear fogFar vFogDepth"

definition apply_fog :: "fvec3 \<Rightarrow> real \<Rightarrow> fvec3 \<Rightarrow> fvec3" where
  "apply_fog fogColor fogFactor color = mix3 color fogColor fogFactor"

definition LinearToneMapping :: "real \<Rightarrow> fvec3 \<Rightarrow> fvec3" where
  "LinearToneMapping toneMappingExposure color = map3 saturate (scale3 toneMappingExposure color)"

definition ReinhardToneMapping :: "real \<Rightarrow> fvec3 \<Rightarrow> fvec3" where
  "ReinhardToneMapping toneMappingExposure color =
     map3 (\<lambda>c. saturate (c / (1 + c))) (scale3 toneMappingExposure color)"

definition CineonToneMapping :: "real \<Rightarrow> fvec3 \<Rightarrow> fvec3" where
  "CineonToneMapping toneMappingExposure color =
     map3 (\<lambda>c. ((c * (6.2 * c + 0.5)) / (c * (6.2 * c + 1.7) + 0.06)) powr 2.2)
       (map3 (\<lambda>c. max 0 (c - 0.004)) (scale3 toneMappingExposure color))"

definition RRTAndODTFit :: "fvec3 \<Rightarrow> fvec3" where
  "RRTAndODTFit v = map3 (\<lambda>c. (c * (c + 0.0245786) - 0.000090537) / (c * (0.983729 * c + 0.4329510) + 0.238081)) v"

definition ACESFilmicToneMapping :: "real \<Rightarrow> fvec3 \<Rightarrow> fvec3" where
  "ACESFilmicToneMapping toneMappingExposure color =
     (let ACESInputMat = ((0.59719, 0.07600, 0.02840), (0.35458, 0.90834, 0.13383), (0.04823, 0.01566, 0.83777));
          ACESOutputMat = ((1.60475, - 0.10208, - 0.00327), (- 0.53108, 1.10813, - 0.07276), (- 0.07367, - 0.00605, 1.07602));
          color = scale3 (toneMappingExposure / 0.6) color
      in map3 saturate (mat3_mul ACESOutputMat (RRTAndODTFit (mat3_mul ACESInputMat color))))"

definition LINEAR_REC2020_TO_LINEAR_SRGB :: mat3 where
  "LINEAR_REC2020_TO_LINEAR_SRGB = ((1.6605, - 0.1246, - 0.0182), (- 0.5876, 1.1329, - 0.1006), (- 0.0728, - 0.0083, 1.1187))"

definition LINEAR_SRGB_TO_LINEAR_REC2020 :: mat3 where
  "LINEAR_SRGB_TO_LINEAR_REC2020 = ((0.6274, 0.0691, 0.0164), (0.3293, 0.9195, 0.0880), (0.0433, 0.0113, 0.8956))"

definition agxDefaultContrastApprox :: "fvec3 \<Rightarrow> fvec3" where
  "agxDefaultContrastApprox v = map3 (\<lambda>x. let x2 = x * x; x4 = x2 * x2 in
     15.5 * x4 * x2 - 40.14 * x4 * x + 31.96 * x4 - 6.868 * x2 * x + 0.4298 * x2 + 0.1191 * x - 0.00232) v"

definition AgXToneMapping :: "real \<Rightarrow> fvec3 \<Rightarrow> fvec3" where
  "AgXToneMapping toneMappingExposure color =
     (let AgXInsetMatrix = ((0.856627153315983, 0.137318972929847, 0.11189821299995),
                            (0.0951212405381588, 0.761241990602591, 0.0767994186031903),
                            (0.0482516061458583, 0.101439036467562, 0.811302368396859));
          AgXOutsetMatrix = ((1.1271005818144368, - 0.1413297634984383, - 0.14132976349843826),
                             (- 0.11060664309660323, 1.157823702216272, - 0.11060664309660294),
                             (- 0.016493938717834573, - 0.016493938717834257, 1.2519364065950405));
          AgxMinEv = - 12.47393; AgxMaxEv = 4.026069;
          color = mat3_mul AgXInsetMatrix (mat3_mul LINEAR_SRGB_TO_LINEAR_REC2020 (scale3 toneMappingExposure color));
          color = map3 (\<lambda>c. clampf ((log 2 (max c (1 / 10 ^ 10)) - AgxMinEv) / (AgxMaxEv - AgxMinEv)) 0 1) color;
          color = mat3_mul AgXOutsetMatrix (agxDefaultContrastApprox color);
          color = map3 (\<lambda>c. max 0 c powr 2.2) color
      in map3 (\<lambda>c. clampf c 0 1) (mat3_mul LINEAR_REC2020_TO_LINEAR_SRGB color))"

definition NeutralToneMapping :: "real \<Rightarrow> fvec3 \<Rightarrow> fvec3" where
  "NeutralToneMapping toneMappingExposure color =
     (let StartCompression = 0.8 - 0.04; Desaturation = 0.15;
          (r, g, b) = scale3 toneMappingExposure color;
          x = min r (min g b);
          offset = (if x < 0.08 then x - 6.25 * x * x else 0.04);
          (r, g, b) = map3 (\<lambda>c. c - offset) (r, g, b);
          peak = max r (max g b)
      in if peak < StartCompression then (r, g, b)
         else let d = 1 - StartCompression;
                  newPeak = 1 - d * d / (peak + d - StartCompression);
                  scaled = scale3 (newPeak / peak) (r, g, b);
                  k = 1 - 1 / (Desaturation * (peak - newPeak) + 1)
              in mix3 scaled (newPeak, newPeak, newPeak) k)"

definition CustomToneMapping :: "real \<Rightarrow> fvec3 \<Rightarrow> fvec3" where
  "CustomToneMapping toneMappingExposure color = color"

text \<open>The function that the program generator writes for the tone mapping of the renderer.\<close>

datatype tone_mapping = TM_Linear | TM_Reinhard | TM_Cineon | TM_ACESFilmic | TM_AgX | TM_Neutral | TM_Custom | TM_Unsupported

fun toneMapping :: "tone_mapping \<Rightarrow> real \<Rightarrow> fvec3 \<Rightarrow> fvec3" where
  "toneMapping TM_Linear = LinearToneMapping"
| "toneMapping TM_Reinhard = ReinhardToneMapping"
| "toneMapping TM_Cineon = CineonToneMapping"
| "toneMapping TM_ACESFilmic = ACESFilmicToneMapping"
| "toneMapping TM_AgX = AgXToneMapping"
| "toneMapping TM_Neutral = NeutralToneMapping"
| "toneMapping TM_Custom = CustomToneMapping"
| "toneMapping TM_Unsupported = LinearToneMapping"

end
