(* ===== verification/ShaderPixel.thy ===== *)
theory ShaderPixel
  imports ShaderMath
begin

text \<open>
  One fragment of a \<open>MeshStandardMaterial\<close>, the material of every mesh of the viewer: \<open>main\<close> of the program
  \<open>meshphysical\<close> in \<open>web/viewer/dist/assets/index-BpuCcfds.js\<close> with the chunks it includes, on the functions of
  ShaderMath.

  \<^item> The viewer sets no maps, no environment, no clear coat, sheen, transmission or iridescence, and has directional and
    hemisphere lights only: the chunks' code under these conditionals is left out, and a loop over no lights is none.
  \<^item> \<open>uniforms\<close> holds what the renderer sets for a draw call, \<open>fragment\<close> what the vertex stage and the rasteriser
    hand over, the screen-space derivatives of the normal included. A shadow carries its map and the coordinate in it.
  \<^item> The conditionals \<open>TONE_MAPPING\<close>, \<open>USE_FOG\<close> and \<open>OPAQUE\<close> are fields of the uniforms.
\<close>

section \<open>Lights\<close>

record directional_light =
  dl_direction :: fvec3
  dl_color :: fvec3

record directional_shadow =
  ds_intensity :: real
  ds_bias :: real
  ds_radius :: real
  ds_map_size :: fvec2
  ds_map :: sampler2D
  ds_coord :: fvec4

record hemisphere_light =
  hl_direction :: fvec3
  hl_sky :: fvec3
  hl_ground :: fvec3

text \<open>\<open>lights_physical_fragment\<close>.\<close>

definition lights_physical :: "fvec3 \<Rightarrow> real \<Rightarrow> real \<Rightarrow> fvec3 \<Rightarrow> fvec3 \<Rightarrow> physical_material" where
  "lights_physical diffuse roughnessFactor metalnessFactor dFdx dFdy =
     (let (x1, y1, z1) = dFdx; (x2, y2, z2) = dFdy;
          dxy = (max \<bar>x1\<bar> \<bar>x2\<bar>, max \<bar>y1\<bar> \<bar>y2\<bar>, max \<bar>z1\<bar> \<bar>z2\<bar>);
          geometryRoughness = max3 dxy
      in \<lparr>pm_diffuseColor = scale3 (1 - metalnessFactor) diffuse,
          pm_roughness = min (max roughnessFactor 0.0525 + geometryRoughness) 1,
          pm_specularColor = mix3 (0.04, 0.04, 0.04) diffuse metalnessFactor,
          pm_specularF90 = 1\<rparr>)"

text \<open>
  The loop over the directional lights in \<open>lights_fragment_begin\<close>; it is unrolled, and only the first
  \<open>NUM_DIR_LIGHT_SHADOWS\<close> lights have a shadow.
\<close>

definition shadow_of :: "shadow_map_type \<Rightarrow> directional_shadow \<Rightarrow> real" where
  "shadow_of ty s = getShadow ty (ds_map s) (ds_map_size s) (ds_intensity s) (ds_bias s) (ds_radius s) (ds_coord s)"

fun directional_loop ::
  "shadow_map_type \<Rightarrow> bool \<Rightarrow> fvec3 \<Rightarrow> fvec3 \<Rightarrow> physical_material \<Rightarrow> directional_light list \<Rightarrow> directional_shadow list
    \<Rightarrow> reflected_light \<Rightarrow> reflected_light" where
  "directional_loop ty receiveShadow normal viewDir material [] shadows r = r"
| "directional_loop ty receiveShadow normal viewDir material (l # ls) [] r =
     directional_loop ty receiveShadow normal viewDir material ls []
       (RE_Direct_Physical (getDirectionalLightInfo (dl_color l) (dl_direction l)) normal viewDir material r)"
| "directional_loop ty receiveShadow normal viewDir material (l # ls) (s # ss) r =
     (let directLight = getDirectionalLightInfo (dl_color l) (dl_direction l);
          directLight = directLight\<lparr>inc_color :=
            scale3 (if inc_visible directLight \<and> receiveShadow then shadow_of ty s else 1) (inc_color directLight)\<rparr>
      in directional_loop ty receiveShadow normal viewDir material ls ss
           (RE_Direct_Physical directLight normal viewDir material r))"

definition indirect_irradiance :: "fvec3 \<Rightarrow> hemisphere_light list \<Rightarrow> fvec3 \<Rightarrow> fvec3" where
  "indirect_irradiance ambientLightColor hemisphereLights normal =
     foldl (\<lambda>irradiance l. add3 irradiance (getHemisphereLightIrradiance (hl_direction l) (hl_sky l) (hl_ground l) normal))
       ambientLightColor hemisphereLights"

section \<open>Indirect specular light\<close>

definition DFGApprox :: "fvec3 \<Rightarrow> fvec3 \<Rightarrow> real \<Rightarrow> fvec2" where
  "DFGApprox normal viewDir roughness =
     (let dotNV = saturate (dot3 normal viewDir);
          rx = roughness * (- 1) + 1; ry = roughness * (- 0.0275) + 0.0425;
          rz = roughness * (- 0.572) + 1.04; rw = roughness * 0.022 + (- 0.04);
          a004 = min (rx * rx) (exp2 (- 9.28 * dotNV)) * rx + ry
      in (- 1.04 * a004 + rz, 1.04 * a004 + rw))"

definition computeMultiscattering :: "fvec3 \<Rightarrow> fvec3 \<Rightarrow> fvec3 \<Rightarrow> real \<Rightarrow> real \<Rightarrow> fvec3 \<times> fvec3" where
  "computeMultiscattering normal viewDir specularColor specularF90 roughness =
     (let (a, b) = DFGApprox normal viewDir roughness;
          FssEss = map3 (\<lambda>Fr. Fr * a + specularF90 * b) specularColor;
          Ems = 1 - (a + b);
          Fms = map3 (\<lambda>Fr. let Favg = Fr + (1 - Fr) * 0.047619
                           in (Fr * a + specularF90 * b) * Favg / (1 - Ems * Favg)) specularColor
      in (FssEss, scale3 Ems Fms))"

definition RE_IndirectSpecular_Physical ::
  "fvec3 \<Rightarrow> fvec3 \<Rightarrow> fvec3 \<Rightarrow> fvec3 \<Rightarrow> physical_material \<Rightarrow> reflected_light \<Rightarrow> reflected_light" where
  "RE_IndirectSpecular_Physical radiance irradiance normal viewDir material r =
     (let cosineWeightedIrradiance = scale3 RECIPROCAL_PI irradiance;
          (singleScattering, multiScattering) =
            computeMultiscattering normal viewDir (pm_specularColor material) (pm_specularF90 material) (pm_roughness material);
          totalScattering = add3 singleScattering multiScattering;
          diffuse = scale3 (1 - max3 totalScattering) (pm_diffuseColor material)
      in r\<lparr>rl_indirectSpecular := add3 (add3 (rl_indirectSpecular r) (mul3 radiance singleScattering))
             (mul3 multiScattering cosineWeightedIrradiance),
           rl_indirectDiffuse := add3 (rl_indirectDiffuse r) (mul3 diffuse cosineWeightedIrradiance)\<rparr>)"

section \<open>Transfer function of the output\<close>

definition eotf :: "real \<Rightarrow> real" where
  "eotf c = (if c \<le> 0.04045 then c * 0.0773993808 else (c * 0.9478672986 + 0.0521327014) powr 2.4)"

definition oetf :: "real \<Rightarrow> real" where
  "oetf c = (if c \<le> 0.0031308 then c * 12.92 else c powr 0.41666 * 1.055 - 0.055)"

fun sRGBTransferEOTF :: "fvec4 \<Rightarrow> fvec4" where
  "sRGBTransferEOTF (r, g, b, a) = (eotf r, eotf g, eotf b, a)"

fun sRGBTransferOETF :: "fvec4 \<Rightarrow> fvec4" where
  "sRGBTransferOETF (r, g, b, a) = (oetf r, oetf g, oetf b, a)"

text \<open>A row vector times a matrix.\<close>

fun mul_mat3 :: "fvec3 \<Rightarrow> mat3 \<Rightarrow> fvec3" where
  "mul_mat3 v (a, b, c) = (dot3 v a, dot3 v b, dot3 v c)"

fun linearToOutputTexel :: "mat3 \<Rightarrow> fvec4 \<Rightarrow> fvec4" where
  "linearToOutputTexel m (r, g, b, a) = (let (r, g, b) = mul_mat3 (r, g, b) m in sRGBTransferOETF (r, g, b, a))"

section \<open>The fragment\<close>

record uniforms =
  u_shadow_type :: shadow_map_type
  u_receiveShadow :: bool
  u_isOrthographic :: bool
  u_ambientLightColor :: fvec3
  u_directionalLights :: "directional_light list"
  u_directionalShadows :: "directional_shadow list"
  u_hemisphereLights :: "hemisphere_light list"
  u_diffuse :: fvec3
  u_opacity :: real
  u_emissive :: fvec3
  u_roughness :: real
  u_metalness :: real
  u_opaque :: bool
  u_toneMapping :: "(tone_mapping \<times> real) option"
  u_outputMatrix :: mat3
  u_fog :: "(fvec3 \<times> real \<times> real) option"

record fragment =
  fr_normal :: fvec3
  fr_dFdx :: fvec3
  fr_dFdy :: fvec3
  fr_vViewPosition :: fvec3
  fr_vFogDepth :: real

definition no_light :: reflected_light where
  "no_light = \<lparr>rl_directDiffuse = (0, 0, 0), rl_directSpecular = (0, 0, 0), rl_indirectDiffuse = (0, 0, 0), rl_indirectSpecular = (0, 0, 0)\<rparr>"

definition geometryViewDir :: "uniforms \<Rightarrow> fragment \<Rightarrow> fvec3" where
  "geometryViewDir u f = (if u_isOrthographic u then (0, 0, 1) else normalize3 (fr_vViewPosition f))"

definition fragment_material :: "uniforms \<Rightarrow> fragment \<Rightarrow> physical_material" where
  "fragment_material u f = lights_physical (u_diffuse u) (u_roughness u) (u_metalness u) (fr_dFdx f) (fr_dFdy f)"

definition direct_light :: "uniforms \<Rightarrow> fragment \<Rightarrow> reflected_light" where
  "direct_light u f = directional_loop (u_shadow_type u) (u_receiveShadow u) (fr_normal f) (geometryViewDir u f)
     (fragment_material u f) (u_directionalLights u) (u_directionalShadows u) no_light"

definition reflected :: "uniforms \<Rightarrow> fragment \<Rightarrow> reflected_light" where
  "reflected u f =
     (let irradiance = indirect_irradiance (u_ambientLightColor u) (u_hemisphereLights u) (fr_normal f);
          r = RE_IndirectDiffuse_Physical irradiance (fragment_material u f) (direct_light u f)
      in RE_IndirectSpecular_Physical (0, 0, 0) (0, 0, 0) (fr_normal f) (geometryViewDir u f) (fragment_material u f) r)"

definition outgoingLight :: "uniforms \<Rightarrow> fragment \<Rightarrow> fvec3" where
  "outgoingLight u f =
     (let r = reflected u f;
          totalDiffuse = add3 (rl_directDiffuse r) (rl_indirectDiffuse r);
          totalSpecular = add3 (rl_directSpecular r) (rl_indirectSpecular r)
      in add3 (add3 totalDiffuse totalSpecular) (u_emissive u))"

text \<open>\<open>opaque_fragment\<close> and \<open>tonemapping_fragment\<close>.\<close>

definition alpha_written :: "uniforms \<Rightarrow> real" where
  "alpha_written u = (if u_opaque u then 1 else u_opacity u)"

definition tone_mapped :: "uniforms \<Rightarrow> fvec3 \<Rightarrow> fvec3" where
  "tone_mapped u rgb = (case u_toneMapping u of None \<Rightarrow> rgb | Some (tm, exposure) \<Rightarrow> toneMapping tm exposure rgb)"

text \<open>\<open>fog_fragment\<close>.\<close>

fun fogged :: "uniforms \<Rightarrow> fragment \<Rightarrow> fvec4 \<Rightarrow> fvec4" where
  "fogged u f (r, g, b, a) =
     (case u_fog u of
        None \<Rightarrow> (r, g, b, a)
      | Some (fogColor, fogNear, fogFar) \<Rightarrow>
          let (r, g, b) = apply_fog fogColor (fog_factor fogNear fogFar (fr_vFogDepth f)) (r, g, b) in (r, g, b, a))"

definition gl_FragColor :: "uniforms \<Rightarrow> fragment \<Rightarrow> fvec4" where
  "gl_FragColor u f =
     (let (r, g, b) = tone_mapped u (outgoingLight u f)
      in fogged u f (linearToOutputTexel (u_outputMatrix u) (r, g, b, alpha_written u)))"

end
