(* ===== verification/ShaderMathLaws.thy ===== *)
theory ShaderMathLaws
  imports ShaderMath
begin

text \<open>
  Properties of the shading functions: the depth packing is exact, depth and distance are inverse to each
  other, the reflection model is reciprocal, shadow and fog factors are proportions, attenuation is
  bounded.
\<close>

section \<open>Proportions\<close>

lemma clampf_bounds [simp]: "lo \<le> hi \<Longrightarrow> lo \<le> clampf x lo hi" "clampf x lo hi \<le> hi"
  by (simp_all add: clampf_def)

lemma saturate_bounds [simp]: "0 \<le> saturate x" "saturate x \<le> 1"
  by (simp_all add: saturate_def)

lemma saturate_id: "0 \<le> x \<Longrightarrow> x \<le> 1 \<Longrightarrow> saturate x = x"
  by (simp add: saturate_def clampf_def)

lemma mixf_bounds:
  assumes "lo \<le> a" "a \<le> hi" "lo \<le> b" "b \<le> hi" "0 \<le> t" "t \<le> 1"
  shows "lo \<le> mixf a b t" "mixf a b t \<le> hi"
proof -
  have "lo * (1 - t) + lo * t \<le> a * (1 - t) + b * t"
    using assms by (intro add_mono mult_right_mono) simp_all
  then show "lo \<le> mixf a b t" by (simp add: mixf_def algebra_simps)
  have "a * (1 - t) + b * t \<le> hi * (1 - t) + hi * t"
    using assms by (intro add_mono mult_right_mono) simp_all
  then show "mixf a b t \<le> hi" by (simp add: mixf_def algebra_simps)
qed

lemma smoothstep_bounds: "0 \<le> smoothstep a b x" "smoothstep a b x \<le> 1"
proof -
  define t where "t = clampf ((x - a) / (b - a)) 0 1"
  have t: "0 \<le> t" "t \<le> 1" by (simp_all add: t_def)
  have s: "smoothstep a b x = t * t * (3 - 2 * t)" by (simp add: smoothstep_def t_def Let_def)
  show "0 \<le> smoothstep a b x" using t by (simp add: s)
  have "1 - t * t * (3 - 2 * t) = (1 - t) * (1 - t) * (1 + 2 * t)" by (simp add: algebra_simps)
  moreover have "0 \<le> (1 - t) * (1 - t) * (1 + 2 * t)" using t by simp
  ultimately show "smoothstep a b x \<le> 1" by (simp add: s)
qed

section \<open>Packing\<close>

lemma modf_nonneg: "0 \<le> x \<Longrightarrow> modf x = (frac x, of_int \<lfloor>x\<rfloor>)"
  by (simp add: modf_def frac_def Let_def)

lemma frac_div256:
  fixes n :: int
  shows "frac (of_int n / 256 :: real) \<le> 255 / 256"
proof -
  have eq: "(of_int n :: real) = 256 * of_int (n div 256) + of_int (n mod 256)"
    using mult_div_mod_eq [of 256 n] by (metis of_int_add of_int_mult of_int_numeral)
  have "\<lfloor>of_int n / 256 :: real\<rfloor> = n div 256"
    using floor_divide_of_int_eq [of n 256] by simp
  then have "frac (of_int n / 256 :: real) = of_int n / 256 - of_int (n div 256)" by (simp add: frac_def)
  also have "\<dots> = of_int (n mod 256) / 256" by (subst eq) (simp add: add_divide_distrib)
  finally have "frac (of_int n / 256 :: real) = of_int (n mod 256) / 256" .
  moreover have "(of_int (n mod 256) :: real) \<le> 255" using pos_mod_bound [of 256 n] by linarith
  ultimately show ?thesis by simp
qed

lemma floor_bound: "0 \<le> x \<Longrightarrow> x < of_int n \<Longrightarrow> 0 \<le> \<lfloor>x\<rfloor> \<and> \<lfloor>x\<rfloor> \<le> n - 1" for x :: real
  by (simp add: le_floor_iff floor_less_iff)

lemma packDepthToRGBA_inside:
  assumes "0 < v" and "v < 1"
  shows "\<exists>r g b a. packDepthToRGBA v = (r, g, b, a) \<and> 0 \<le> r \<and> r \<le> 1 \<and> 0 \<le> g \<and> g \<le> 1 \<and> 0 \<le> b \<and> b \<le> 1 \<and> 0 \<le> a \<and> a < 1
    \<and> unpackRGBAToDepth (r, g, b, a) = v"
proof -
  define x where "x = v * 16777216"
  define n where "n = \<lfloor>x\<rfloor>"
  define m where "m = \<lfloor>of_int n / 256 :: real\<rfloor>"
  define k where "k = \<lfloor>of_int m / 256 :: real\<rfloor>"
  have x: "0 \<le> x" "x < 16777216" using assms by (simp_all add: x_def)
  have n: "0 \<le> n" "n \<le> 16777215" using floor_bound [of x 16777216] x by (simp_all add: n_def)
  have m: "0 \<le> m" "m \<le> 65535" using floor_bound [of "of_int n / 256" 65536] n by (simp_all add: m_def)
  have k: "0 \<le> k" "k \<le> 255" using floor_bound [of "of_int m / 256" 256] m by (simp_all add: k_def)
  have pack: "packDepthToRGBA v =
      (of_int k * Inv255, frac (of_int m / 256) * PackUpscale, frac (of_int n / 256) * PackUpscale, frac x)"
    using assms x(1) n(1) m(1)
    by (simp add: packDepthToRGBA_def ShiftRight8_def modf_nonneg x_def [symmetric] n_def [symmetric] m_def [symmetric] k_def [symmetric])
  have r: "0 \<le> of_int k * Inv255" "of_int k * Inv255 \<le> 1" using k by (simp_all add: Inv255_def)
  have g: "0 \<le> frac (of_int m / 256) * PackUpscale" "frac (of_int m / 256) * PackUpscale \<le> 1"
    using frac_div256 [of m] by (simp_all add: PackUpscale_def)
  have b: "0 \<le> frac (of_int n / 256) * PackUpscale" "frac (of_int n / 256) * PackUpscale \<le> 1"
    using frac_div256 [of n] by (simp_all add: PackUpscale_def)
  have "unpackRGBAToDepth (of_int k * Inv255, frac (of_int m / 256) * PackUpscale, frac (of_int n / 256) * PackUpscale, frac x) = v"
    by (simp add: Inv255_def PackUpscale_def UnpackDownscale_def frac_def n_def [symmetric] m_def [symmetric] k_def [symmetric])
      (simp add: x_def field_simps)
  then show ?thesis using pack r g b frac_ge_0 [of x] frac_lt_1 [of x] by blast
qed

text \<open>
  The arithmetic of the shadow map's depth encoding loses nothing: for every number the four channels that
  \<open>packDepthToRGBA\<close> computes lie between 0 and 1, the range of a colour channel, and \<open>unpackRGBAToDepth\<close>
  takes them back to exactly the number, limited to the depth range (in real arithmetic; the rounding of a
  colour buffer is outside the two functions).
\<close>

theorem depth_packing_exact:
  "case packDepthToRGBA v of (r, g, b, a) \<Rightarrow>
     0 \<le> r \<and> r \<le> 1 \<and> 0 \<le> g \<and> g \<le> 1 \<and> 0 \<le> b \<and> b \<le> 1 \<and> 0 \<le> a \<and> a \<le> 1
     \<and> unpackRGBAToDepth (r, g, b, a) = clampf v 0 1"
proof -
  consider "v \<le> 0" | "0 < v" "v < 1" | "1 \<le> v" by linarith
  then show ?thesis
  proof cases
    case 2
    from packDepthToRGBA_inside [OF this] obtain r g b a where "packDepthToRGBA v = (r, g, b, a)"
      "0 \<le> r" "r \<le> 1" "0 \<le> g" "g \<le> 1" "0 \<le> b" "b \<le> 1" "0 \<le> a" "a < 1" "unpackRGBAToDepth (r, g, b, a) = v" by blast
    with 2 show ?thesis by (simp add: clampf_def)
  qed (simp_all add: packDepthToRGBA_def clampf_def UnpackDownscale_def)
qed

text \<open>
  The depth buffer and the distance from the camera determine each other: between the near and the far plane
  of a perspective camera the depth lies between 0 at the near plane and 1 at the far plane, nearer points
  have the smaller depth, and \<open>perspectiveDepthToViewZ\<close> gives the distance back.
\<close>

theorem perspective_depth_inverse:
  assumes "0 < near" and "near < far" and "- far \<le> z" and "z \<le> - near"
  shows "perspectiveDepthToViewZ (viewZToPerspectiveDepth z near far) near far = z
    \<and> 0 \<le> viewZToPerspectiveDepth z near far \<and> viewZToPerspectiveDepth z near far \<le> 1
    \<and> (\<forall>w. z < w \<and> w \<le> - near \<longrightarrow> viewZToPerspectiveDepth w near far < viewZToPerspectiveDepth z near far)"
proof (intro conjI allI impI)
  have neg: "z < 0" "(far - near) * z < 0" "far > 0" using assms by (auto simp: mult_pos_neg)
  have depth: "viewZToPerspectiveDepth w near far = far / (far - near) * (1 + near / w)" if "w < 0" for w
    using that assms by (simp add: viewZToPerspectiveDepth_def field_simps)
  have "(far - near) * viewZToPerspectiveDepth z near far - far = near * far / z"
    using neg assms by (simp add: viewZToPerspectiveDepth_def field_simps)
  then show "perspectiveDepthToViewZ (viewZToPerspectiveDepth z near far) near far = z"
    using neg assms by (simp add: perspectiveDepthToViewZ_def)
  have "- 1 \<le> near / z" using neg assms by (simp add: field_simps)
  have "near * - z \<le> near * far" using assms by (intro mult_left_mono) simp_all
  then have "near / z \<le> - (near / far)" using neg by (simp add: field_simps)
  then show "0 \<le> viewZToPerspectiveDepth z near far"
    using depth [OF neg(1)] assms \<open>- 1 \<le> near / z\<close> by simp
  have "viewZToPerspectiveDepth z near far \<le> far / (far - near) * (1 - near / far)"
    unfolding depth [OF neg(1)] using \<open>near / z \<le> - (near / far)\<close> assms by (intro mult_left_mono) simp_all
  also have "\<dots> = 1" using assms by (simp add: field_simps)
  finally show "viewZToPerspectiveDepth z near far \<le> 1" .
  fix w
  assume w: "z < w \<and> w \<le> - near"
  then have "near / w < near / z" using assms by (simp add: field_simps)
  then show "viewZToPerspectiveDepth w near far < viewZToPerspectiveDepth z near far"
    using depth [of w] depth [OF neg(1)] w assms by (simp add: divide_strict_right_mono mult_strict_left_mono)
qed

lemma perspective_depth_witness:
  "perspectiveDepthToViewZ (viewZToPerspectiveDepth (- 5) (1 / 10) 100) (1 / 10) 100 = - 5"
  using perspective_depth_inverse [of "1 / 10" 100 "- 5"] by simp

section \<open>Reflection\<close>

lemma dot3_commute: "dot3 u v = dot3 v u"
  by (cases u, cases v) (simp add: algebra_simps)

lemma add3_commute: "add3 u v = add3 v u"
  by (cases u, cases v) (simp add: algebra_simps)

lemma dot3_add: "dot3 u (add3 v w) = dot3 u v + dot3 u w"
  by (cases u, cases v, cases w) (simp add: algebra_simps)

lemma dot3_scale: "dot3 u (scale3 k v) = k * dot3 u v"
  by (cases u, cases v) (simp add: scale3_def algebra_simps)

lemma dot3_self_nonneg: "0 \<le> dot3 v v"
  by (cases v) simp

lemma unit_half_dot:
  assumes "length3 l = 1" and "length3 v = 1"
  shows "dot3 v (normalize3 (add3 l v)) = dot3 l (normalize3 (add3 v l))"
proof -
  have "dot3 l l = 1" "dot3 v v = 1"
    using assms dot3_self_nonneg [of l] dot3_self_nonneg [of v] by (simp_all add: length3_def)
  then show ?thesis
    by (simp add: normalize3_def dot3_scale dot3_add add3_commute [of v l]) (simp add: dot3_commute [of l v])
qed

lemma V_GGX_commute: "V_GGX_SmithCorrelated alpha a b = V_GGX_SmithCorrelated alpha b a"
  by (simp add: V_GGX_SmithCorrelated_def Let_def add.commute)

text \<open>
  The specular reflection is reciprocal: for unit directions the GGX reflection function has the same value
  when light and viewer change places, whatever the surface normal and the material.
\<close>

theorem reflection_reciprocal:
  assumes "length3 l = 1" and "length3 v = 1"
  shows "BRDF_GGX l v n material = BRDF_GGX v l n material"
  using unit_half_dot [OF assms]
  by (simp add: BRDF_GGX_def Let_def add3_commute [of v l] V_GGX_commute [of _ "saturate (dot3 n v)"])

lemma reflection_reciprocal_witness:
  "BRDF_GGX (0, 0, 1) (0, 3 / 5, 4 / 5) (0, 0, 1) \<lparr>pm_diffuseColor = (1, 1, 1), pm_roughness = 0.45, pm_specularColor = (0.04, 0.04, 0.04), pm_specularF90 = 1\<rparr>
   = BRDF_GGX (0, 3 / 5, 4 / 5) (0, 0, 1) (0, 0, 1) \<lparr>pm_diffuseColor = (1, 1, 1), pm_roughness = 0.45, pm_specularColor = (0.04, 0.04, 0.04), pm_specularF90 = 1\<rparr>"
  by (rule reflection_reciprocal) (simp_all add: length3_def)

text \<open>The factors of the reflection function.\<close>

lemma V_GGX_nonneg: "0 \<le> V_GGX_SmithCorrelated alpha a b"
  by (simp add: V_GGX_SmithCorrelated_def EPSILON_def Let_def le_max_iff_disj)

lemma D_GGX_nonneg: "0 \<le> D_GGX alpha a"
  by (simp add: D_GGX_def RECIPROCAL_PI_def pow2_def Let_def)

lemma schlick_weight_bounds:
  assumes "0 \<le> a"
  shows "0 \<le> schlick_weight a" "schlick_weight a \<le> 1"
proof -
  have "(- 5.55473 * a - 6.98316) * a \<le> 0" using assms by (intro mult_nonpos_nonneg) simp_all
  then have "2 powr ((- 5.55473 * a - 6.98316) * a) \<le> 2 powr 0" by (intro powr_mono) simp_all
  then show "schlick_weight a \<le> 1" by (simp add: schlick_weight_def exp2_def)
qed (simp add: schlick_weight_def exp2_def)

definition nonneg3 :: "fvec3 \<Rightarrow> bool" where
  "nonneg3 v \<longleftrightarrow> (case v of (x, y, z) \<Rightarrow> 0 \<le> x \<and> 0 \<le> y \<and> 0 \<le> z)"

lemma nonneg3_ops [simp]:
  "nonneg3 u \<Longrightarrow> nonneg3 v \<Longrightarrow> nonneg3 (add3 u v)" "nonneg3 u \<Longrightarrow> nonneg3 v \<Longrightarrow> nonneg3 (mul3 u v)"
  "0 \<le> k \<Longrightarrow> nonneg3 v \<Longrightarrow> nonneg3 (scale3 k v)"
  by (cases u; cases v; simp add: nonneg3_def scale3_def)+

lemma F_Schlick_nonneg: "nonneg3 f0 \<Longrightarrow> 0 \<le> f90 \<Longrightarrow> 0 \<le> a \<Longrightarrow> nonneg3 (F_Schlick f0 f90 a)"
  using schlick_weight_bounds [of a] by (cases f0) (simp add: F_Schlick_def nonneg3_def Let_def)

lemma BRDF_GGX_nonneg:
  "nonneg3 (pm_specularColor material) \<Longrightarrow> 0 \<le> pm_specularF90 material \<Longrightarrow> nonneg3 (BRDF_GGX l v n material)"
  by (simp add: BRDF_GGX_def Let_def F_Schlick_nonneg V_GGX_nonneg D_GGX_nonneg)

lemma Lambert_nonneg: "nonneg3 c \<Longrightarrow> nonneg3 (BRDF_Lambert c)"
  by (simp add: BRDF_Lambert_def RECIPROCAL_PI_def)

text \<open>
  Light only adds: for a light, a material and light reflected so far without negative channels,
  \<open>RE_Direct_Physical\<close> leaves no channel negative, makes no channel darker, and adds nothing for a light behind the
  surface.
\<close>

theorem direct_light_adds:
  assumes "nonneg3 (inc_color light)" and "nonneg3 (pm_specularColor material)" and "nonneg3 (pm_diffuseColor material)"
    and "0 \<le> pm_specularF90 material" and "t = RE_Direct_Physical light n v material r"
  shows "nonneg3 (sub3 (rl_directSpecular t) (rl_directSpecular r)) \<and> nonneg3 (sub3 (rl_directDiffuse t) (rl_directDiffuse r))
    \<and> (dot3 n (inc_direction light) \<le> 0 \<longrightarrow> t = r)"
proof -
  have diff: "sub3 (add3 u w) u = w" for u w by (cases u; cases w) simp
  have irr: "nonneg3 (scale3 (saturate (dot3 n (inc_direction light))) (inc_color light))" using assms(1) by simp
  have zero: "mul3 (scale3 0 c) w = (0, 0, 0)" "add3 u (0, 0, 0) = u" for c w u
    by (cases c; cases w; cases u; simp add: scale3_def)+
  have "t = r" if "dot3 n (inc_direction light) \<le> 0"
  proof -
    have "saturate (dot3 n (inc_direction light)) = 0" using that by (simp add: saturate_def clampf_def)
    then show ?thesis by (simp add: assms(5) RE_Direct_Physical_def zero)
  qed
  then show ?thesis
    using irr BRDF_GGX_nonneg [OF assms(2,4)] Lambert_nonneg [OF assms(3)]
    by (simp add: assms(5) RE_Direct_Physical_def diff Let_def)
qed

lemma direct_light_witness:
  "RE_Direct_Physical (getDirectionalLightInfo (1, 1, 1) (0, 0, - 1)) (0, 0, 1) (0, 0, 1)
     \<lparr>pm_diffuseColor = (1, 1, 1), pm_roughness = 0.5, pm_specularColor = (0, 0, 0), pm_specularF90 = 1\<rparr>
     \<lparr>rl_directDiffuse = (0, 0, 0), rl_directSpecular = (0, 0, 0), rl_indirectDiffuse = (0, 0, 0), rl_indirectSpecular = (0, 0, 0)\<rparr>
   = \<lparr>rl_directDiffuse = (0, 0, 0), rl_directSpecular = (0, 0, 0), rl_indirectDiffuse = (0, 0, 0), rl_indirectSpecular = (0, 0, 0)\<rparr>"
  by (rule direct_light_adds [OF _ _ _ _ refl, THEN conjunct2, THEN conjunct2, rule_format])
    (simp_all add: getDirectionalLightInfo_def nonneg3_def)

section \<open>Shadows and attenuation\<close>

lemma texture2DCompare_bounds: "0 \<le> texture2DCompare m uv z" "texture2DCompare m uv z \<le> 1"
  by (simp_all add: texture2DCompare_def stepf_def)

lemma VSMShadow_bounds: "0 \<le> VSMShadow m uv z" "VSMShadow m uv z \<le> 1"
  by (simp_all add: VSMShadow_def Let_def split: prod.split)

lemma shadow_pcf_bounds: "0 \<le> shadow_pcf m dims r uv z" "shadow_pcf m dims r uv z \<le> 1"
proof -
  have lo: "0 \<le> texture2DCompare m p z" and hi: "texture2DCompare m p z \<le> 1" for p
    by (rule texture2DCompare_bounds)+
  show "0 \<le> shadow_pcf m dims r uv z" unfolding shadow_pcf_def Let_def by (intro mult_nonneg_nonneg add_nonneg_nonneg lo) simp
  have "shadow_pcf m dims r uv z \<le> (1 + 1 + 1 + 1 + 1 + 1 + 1 + 1 + 1 + 1 + 1 + 1 + 1 + 1 + 1 + 1 + 1) * (1 / 17)"
    unfolding shadow_pcf_def Let_def by (intro mult_right_mono add_mono hi) simp
  then show "shadow_pcf m dims r uv z \<le> 1" by simp
qed

lemma shadow_pcf_soft_bounds: "0 \<le> shadow_pcf_soft m dims uv z" "shadow_pcf_soft m dims uv z \<le> 1"
proof -
  have lo: "0 \<le> texture2DCompare m p z" and hi: "texture2DCompare m p z \<le> 1" for p
    by (rule texture2DCompare_bounds)+
  have f: "0 \<le> frac x" "frac x \<le> 1" for x :: real using frac_lt_1 [of x] by simp_all
  note mlo = mixf_bounds(1) [of 0 _ 1] and mhi = mixf_bounds(2) [of 0 _ 1]
  show "0 \<le> shadow_pcf_soft m dims uv z"
    unfolding shadow_pcf_soft_def Let_def by (intro mult_nonneg_nonneg add_nonneg_nonneg lo mlo mhi hi f) simp
  have "shadow_pcf_soft m dims uv z \<le> (1 + 1 + 1 + 1 + 1 + 1 + 1 + 1 + 1) * (1 / 9)"
    unfolding shadow_pcf_soft_def Let_def by (intro mult_right_mono add_mono hi mhi mlo lo f) simp
  then show "shadow_pcf_soft m dims uv z \<le> 1" by simp
qed

text \<open>
  A shadow dims, it never brightens or blackens: whatever the shadow map holds, for every filter the factor that
  \<open>getShadow\<close> returns lies between \<open>1 - shadowIntensity\<close> and 1, and it is 1 for a point outside the light's frustum.
\<close>

theorem shadow_factor_bounded:
  assumes "0 \<le> intensity" and "intensity \<le> 1"
  shows "1 - intensity \<le> getShadow ty m dims intensity bias radius (x, y, z, w)
    \<and> getShadow ty m dims intensity bias radius (x, y, z, w) \<le> 1
    \<and> (\<not> (0 \<le> x / w \<and> x / w \<le> 1 \<and> 0 \<le> y / w \<and> y / w \<le> 1 \<and> z / w + bias \<le> 1) \<longrightarrow>
        getShadow ty m dims intensity bias radius (x, y, z, w) = 1)"
proof -
  define s where "s = (if 0 \<le> x / w \<and> x / w \<le> 1 \<and> 0 \<le> y / w \<and> y / w \<le> 1 \<and> z / w + bias \<le> 1
      then (case ty of
          SHADOWMAP_TYPE_PCF \<Rightarrow> shadow_pcf m dims radius (x / w, y / w) (z / w + bias)
        | SHADOWMAP_TYPE_PCF_SOFT \<Rightarrow> shadow_pcf_soft m dims (x / w, y / w) (z / w + bias)
        | SHADOWMAP_TYPE_VSM \<Rightarrow> VSMShadow m (x / w, y / w) (z / w + bias)
        | SHADOWMAP_TYPE_BASIC \<Rightarrow> texture2DCompare m (x / w, y / w) (z / w + bias))
      else 1)"
  have eq: "getShadow ty m dims intensity bias radius (x, y, z, w) = mixf 1 s intensity"
    by (simp add: getShadow_def s_def Let_def)
  have s: "0 \<le> s" "s \<le> 1"
    by (cases ty; simp add: s_def texture2DCompare_bounds VSMShadow_bounds shadow_pcf_bounds shadow_pcf_soft_bounds)+
  have "0 \<le> s * intensity" "s * intensity \<le> 1 * intensity" using s assms by (intro mult_nonneg_nonneg mult_right_mono; simp)+
  then have "1 - intensity \<le> mixf 1 s intensity" "mixf 1 s intensity \<le> 1" by (simp_all add: mixf_def)
  moreover have "mixf 1 s intensity = 1"
    if "\<not> (0 \<le> x / w \<and> x / w \<le> 1 \<and> 0 \<le> y / w \<and> y / w \<le> 1 \<and> z / w + bias \<le> 1)"
    unfolding s_def if_not_P [OF that] by (simp add: mixf_def)
  ultimately show ?thesis unfolding eq by blast
qed

lemma shadow_factor_witness:
  "getShadow SHADOWMAP_TYPE_PCF_SOFT (\<lambda>_. (0, 0, 0, 0)) (1024, 1024) 0.8 0 1 (2, 0, 0, 1) = 1"
  using shadow_factor_bounded [of "0.8" SHADOWMAP_TYPE_PCF_SOFT "\<lambda>_. (0, 0, 0, 0)" "(1024, 1024)" 0 1 2 0 0 1] by simp

text \<open>
  A light with a cut-off distance lights nothing beyond it: the attenuation is never negative nor above 100, and at
  and beyond the cut-off it is 0, so that a point light is invisible there.
\<close>

theorem attenuation_cutoff:
  assumes "0 < cutoff"
  shows "0 \<le> getDistanceAttenuation d cutoff decay \<and> getDistanceAttenuation d cutoff decay \<le> 100
    \<and> (cutoff \<le> d \<longrightarrow> getDistanceAttenuation d cutoff decay = 0)
    \<and> (cutoff \<le> length3 (sub3 p g) \<longrightarrow>
        \<not> inc_visible (getPointLightInfo \<lparr>pl_position = p, pl_color = c, pl_distance = cutoff, pl_decay = decay\<rparr> g))"
proof -
  define w where "w = pow2 (saturate (1 - pow4 (d / cutoff)))"
  have w: "0 \<le> w" "w \<le> 1"
    using saturate_bounds [of "1 - pow4 (d / cutoff)"] by (simp_all add: w_def pow2_def mult_le_one)
  have falloff: "0 \<le> 1 / max (d powr decay) 0.01" "1 / max (d powr decay) 0.01 \<le> 100" for d
  proof -
    have "1 / max (d powr decay) 0.01 \<le> 1 / 0.01" by (intro divide_left_mono) simp_all
    then show "1 / max (d powr decay) 0.01 \<le> 100" by simp
  qed (simp add: le_max_iff_disj)
  have att: "getDistanceAttenuation d cutoff decay = 1 / max (d powr decay) 0.01 * w"
    using assms by (simp add: getDistanceAttenuation_def w_def)
  have "1 / max (d powr decay) 0.01 * w \<le> 100 * 1" using falloff [of d] w by (intro mult_mono) simp_all
  moreover have "0 \<le> 1 / max (d powr decay) 0.01 * w" using falloff [of d] w by (intro mult_nonneg_nonneg)
  moreover have zero: "getDistanceAttenuation e cutoff decay = 0" if "cutoff \<le> e" for e
  proof -
    have "1 \<le> e / cutoff" using that assms by simp
    then have "1 * 1 \<le> (e / cutoff) * (e / cutoff)" by (intro mult_mono) simp_all
    then have "1 * 1 \<le> ((e / cutoff) * (e / cutoff)) * ((e / cutoff) * (e / cutoff))" by (intro mult_mono) simp_all
    then have "saturate (1 - pow4 (e / cutoff)) = 0" by (simp add: saturate_def clampf_def pow4_def Let_def)
    then show ?thesis using assms by (simp add: getDistanceAttenuation_def pow2_def)
  qed
  moreover have black: "scale3 0 c = (0, 0, 0)" by (cases c) (simp add: scale3_def)
  ultimately show ?thesis unfolding att [symmetric] by (simp add: getPointLightInfo_def Let_def)
qed

lemma attenuation_witness: "getDistanceAttenuation 20 10 2 = 0"
  using attenuation_cutoff [of 10 20 2 "(0, 0, 0)" "(0, 0, 0)" "(0, 0, 0)"] by simp

section \<open>Lengths\<close>

text \<open>
  The overflow-safe length is the length: dividing by the largest component before squaring and multiplying it back
  afterwards gives the Euclidean length of every vector that is not zero, so both precision variants agree.
\<close>

theorem safe_length_is_length:
  assumes "v \<noteq> (0, 0, 0)"
  shows "precisionSafeLength False v = length3 v \<and> precisionSafeLength True v = length3 v"
proof -
  define k where "k = max3 (map3 abs v)"
  have k: "0 < k" using assms by (cases v) (auto simp: k_def less_max_iff_disj)
  have "dot3 (scale3 (1 / k) v) (scale3 (1 / k) v) = (1 / k) * (1 / k) * dot3 v v"
    by (cases v) (simp add: scale3_def algebra_simps)
  then have "length3 (scale3 (1 / k) v) = (1 / k) * length3 v"
    using k by (simp add: length3_def real_sqrt_mult real_sqrt_divide)
  then show ?thesis using k by (simp add: precisionSafeLength_def k_def [symmetric] Let_def)
qed

lemma safe_length_witness: "precisionSafeLength False (3, 0, - 4) = 5"
  using safe_length_is_length [of "(3, 0, - 4)"] by (simp add: length3_def)

section \<open>Fog and tone mapping\<close>

lemma smoothstep_mono_aux:
  assumes "0 \<le> s" "s \<le> t" "t \<le> (1::real)"
  shows "s * s * (3 - 2 * s) \<le> t * t * (3 - 2 * t)"
proof -
  have "t * t * (3 - 2 * t) - s * s * (3 - 2 * s) = (t - s) * (3 * (s + t) - 2 * (s * s + s * t + t * t))"
    by (simp add: algebra_simps)
  moreover have "2 * (s * s) \<le> 2 * (s * 1)" "s * t \<le> s * 1" "s * t \<le> 1 * t" "2 * (t * t) \<le> 2 * (t * 1)"
    using assms by (intro mult_left_mono mult_right_mono; simp)+
  then have "0 \<le> 3 * (s + t) - 2 * (s * s + s * t + t * t)" by simp
  ultimately show ?thesis using assms by (smt (verit) mult_nonneg_nonneg)
qed

lemma smoothstep_mono:
  assumes "a < b" and "x \<le> y"
  shows "smoothstep a b x \<le> smoothstep a b y"
proof -
  have "(x - a) / (b - a) \<le> (y - a) / (b - a)" using assms by (intro divide_right_mono) simp_all
  then have "clampf ((x - a) / (b - a)) 0 1 \<le> clampf ((y - a) / (b - a)) 0 1" by (simp add: clampf_def)
  then show ?thesis unfolding smoothstep_def Let_def by (intro smoothstep_mono_aux) simp_all
qed

lemma fog_limits:
  assumes "near < far"
  shows "d \<le> near \<Longrightarrow> apply_fog fog (fog_factor near far d) color = color"
    and "far \<le> d \<Longrightarrow> apply_fog fog (fog_factor near far d) color = fog"
proof -
  have mix: "mix3 color fog 0 = color" "mix3 color fog 1 = fog" by (cases color; cases fog; simp add: mixf_def)+
  show "apply_fog fog (fog_factor near far d) color = color" if "d \<le> near"
  proof -
    have "(d - near) / (far - near) \<le> 0" using that assms by (simp add: divide_nonpos_pos)
    then show ?thesis by (simp add: apply_fog_def fog_factor_def smoothstep_def clampf_def mix)
  qed
  show "apply_fog fog (fog_factor near far d) color = fog" if "far \<le> d"
  proof -
    have "1 \<le> (d - near) / (far - near)" using that assms by simp
    then show ?thesis by (simp add: apply_fog_def fog_factor_def smoothstep_def clampf_def mix)
  qed
qed

text \<open>The fog is a proportion that grows with the distance.\<close>

lemma fog_grows: "near < far \<Longrightarrow> d \<le> e \<Longrightarrow> fog_factor near far d \<le> fog_factor near far e"
  by (simp add: fog_factor_def smoothstep_mono)

section \<open>Displayable colours\<close>

definition displayable :: "fvec3 \<Rightarrow> bool" where
  "displayable v \<longleftrightarrow> (case v of (r, g, b) \<Rightarrow> 0 \<le> r \<and> r \<le> 1 \<and> 0 \<le> g \<and> g \<le> 1 \<and> 0 \<le> b \<and> b \<le> 1)"

lemma displayable_map3: "(\<And>x. 0 \<le> f x \<and> f x \<le> 1) \<Longrightarrow> displayable (map3 f v)"
  by (cases v) (simp add: displayable_def)

lemma cineon_channel:
  fixes c :: real
  assumes "0 \<le> c"
  shows "0 \<le> ((c * (6.2 * c + 0.5)) / (c * (6.2 * c + 1.7) + 0.06)) powr 2.2 \<and>
    ((c * (6.2 * c + 0.5)) / (c * (6.2 * c + 1.7) + 0.06)) powr 2.2 \<le> 1"
proof -
  define q where "q = (c * (6.2 * c + 0.5)) / (c * (6.2 * c + 1.7) + 0.06)"
  have pos: "0 < c * (6.2 * c + 1.7) + 0.06" using assms by (intro add_nonneg_pos mult_nonneg_nonneg) simp_all
  have "c * (6.2 * c + 0.5) \<le> c * (6.2 * c + 1.7)" using assms by (intro mult_left_mono) simp_all
  then have "q \<le> 1" using pos by (simp add: q_def)
  moreover have "0 \<le> q" unfolding q_def using pos assms by (intro divide_nonneg_pos mult_nonneg_nonneg) simp_all
  ultimately have "q powr 2.2 \<le> 1" by (simp add: powr_le1)
  then show ?thesis unfolding q_def [symmetric] by simp
qed

lemma neutral_offset:
  fixes x :: real
  shows "(if x < 0.08 then x - 6.25 * x * x else 0.04) \<le> x"
  by (simp add: mult.assoc)

lemma neutral_peak:
  fixes p s :: real
  assumes "0 < s" "s < 1" "s \<le> p"
  defines "q \<equiv> 1 - (1 - s) * (1 - s) / (p + (1 - s) - s)"
  shows "0 \<le> q" "q \<le> 1" "q \<le> p"
proof -
  have pos: "0 < p + (1 - s) - s" using assms(1-3) by simp
  have "(1 - s) * (1 - s) \<le> 1 * (p + (1 - s) - s)" using assms(1-3) by (intro mult_mono) simp_all
  then show "0 \<le> q" using pos by (simp add: q_def)
  show "q \<le> 1" using pos by (simp add: q_def)
  have "(1 - p) * (p + (1 - s) - s) = (1 - s) * (1 - s) - (p - s) * (p - s)" by (simp add: algebra_simps)
  then have "(1 - p) * (p + (1 - s) - s) \<le> (1 - s) * (1 - s)" by simp
  then have "1 - p \<le> (1 - s) * (1 - s) / (p + (1 - s) - s)" using pos by (simp only: pos_le_divide_eq)
  then show "q \<le> p" by (simp add: q_def)
qed

lemma neutral_mix:
  fixes c :: real
  assumes "0 \<le> c" "c \<le> p" "0 < p" "0 \<le> q" "q \<le> 1" "q \<le> p"
  shows "0 \<le> mixf (q / p * c) q (1 - 1 / (0.15 * (p - q) + 1)) \<and> mixf (q / p * c) q (1 - 1 / (0.15 * (p - q) + 1)) \<le> 1"
proof -
  have "0 \<le> q / p" using assms by simp
  then have "0 \<le> q / p * c" and "q / p * c \<le> q / p * p" using assms by (simp_all only: mult_left_mono mult_nonneg_nonneg)
  moreover have "q / p * p = q" using assms by simp
  ultimately have b: "0 \<le> q / p * c" "q / p * c \<le> 1" using assms(5) by linarith+
  define e where "e = 0.15 * (p - q)"
  have e: "0 \<le> e" using assms(6) by (simp add: e_def)
  have k: "0 \<le> 1 - 1 / (e + 1)" "1 - 1 / (e + 1) \<le> 1" using e by (simp_all add: field_simps)
  from mixf_bounds [OF b assms(4,5) k] show ?thesis unfolding e_def by blast
qed

lemma NeutralToneMapping_displayable: "displayable (NeutralToneMapping e color)"
proof -
  obtain r g b where rgb: "scale3 e color = (r, g, b)" by (cases "scale3 e color")
  define x where "x = min r (min g b)"
  define off where "off = (if x < 0.08 then x - 6.25 * x * x else 0.04)"
  define p where "p = max (r - off) (max (g - off) (b - off))"
  have "off \<le> x" unfolding off_def by (rule neutral_offset)
  then have lo: "0 \<le> r - off" "0 \<le> g - off" "0 \<le> b - off" by (simp_all add: x_def)
  have hi: "r - off \<le> p" "g - off \<le> p" "b - off \<le> p" by (simp_all add: p_def)
  define s where "s = (0.8 - 0.04 :: real)"
  have s: "0 < s" "s < 1" by (simp_all add: s_def)
  define q where "q = 1 - (1 - s) * (1 - s) / (p + (1 - s) - s)"
  have eq: "NeutralToneMapping e color = (if p < s then (r - off, g - off, b - off)
      else mix3 (scale3 (q / p) (r - off, g - off, b - off)) (q, q, q) (1 - 1 / (0.15 * (p - q) + 1)))"
    unfolding NeutralToneMapping_def Let_def rgb prod.case map3.simps x_def [symmetric] off_def [symmetric]
      p_def [symmetric] s_def [symmetric] q_def [symmetric] by (rule refl)
  show ?thesis
  proof (cases "p < s")
    case True
    then show ?thesis using lo hi s by (simp add: eq displayable_def)
  next
    case False
    then have p: "s \<le> p" "0 < p" using s by simp_all
    have "0 \<le> mixf (q / p * c) q (1 - 1 / (0.15 * (p - q) + 1)) \<and> mixf (q / p * c) q (1 - 1 / (0.15 * (p - q) + 1)) \<le> 1"
      if "0 \<le> c" "c \<le> p" for c
      using neutral_peak [OF s p(1), folded q_def] that p(2) by (intro neutral_mix)
    then show ?thesis
      using False lo hi unfolding eq by (simp only: if_False scale3_def map3.simps mix3.simps displayable_def prod.case simp_thms)
  qed
qed

lemma CineonToneMapping_displayable: "displayable (CineonToneMapping e color)"
  unfolding CineonToneMapping_def
  by (cases "scale3 e color") (simp only: map3.simps displayable_def prod.case cineon_channel max.cobounded1 simp_thms)

text \<open>
  Tone mapping makes every colour displayable: for every exposure and every colour the scene computes, negative and
  arbitrarily bright ones included, each tone mapping the renderer offers, except the one the application
  supplies itself, returns three channels between 0 and 1.
\<close>

lemma tone_mapping_in_range: "tm \<noteq> TM_Custom \<Longrightarrow> displayable (toneMapping tm exposure color)"
  using CineonToneMapping_displayable NeutralToneMapping_displayable
  by (cases tm)
    (simp_all add: LinearToneMapping_def ReinhardToneMapping_def ACESFilmicToneMapping_def AgXToneMapping_def displayable_map3 Let_def)

end
