(* ===== verification/ShaderPixelLaws.thy ===== *)
theory ShaderPixelLaws
  imports ShaderPixel ShaderMathLaws "HOL-Library.Multiset"
begin

text \<open>
  Properties of a fragment: the light loop is the sum of the lights, in any order; shadows only dim; no
  material and no view make the reflection divide by zero; fog and tone mapping bound the colour written.
\<close>

section \<open>Sums of colours\<close>

lemma add3_assoc: "add3 (add3 u v) w = add3 u (add3 v w)"
  by (cases u; cases v; cases w) simp

lemma add3_left_commute: "add3 u (add3 v w) = add3 v (add3 u w)"
  by (cases u; cases v; cases w) simp

lemmas add3_ac = add3_assoc add3_commute add3_left_commute

lemma add3_zero [simp]: "add3 v (0, 0, 0) = v" "add3 (0, 0, 0) v = v"
  by (cases v, simp)+

lemma mul3_zero [simp]: "mul3 v (0, 0, 0) = (0, 0, 0)" "mul3 (0, 0, 0) v = (0, 0, 0)"
  by (cases v, simp)+

lemma scale3_zero [simp]: "scale3 k (0, 0, 0) = (0, 0, 0)"
  by (simp add: scale3_def)

lemma mul3_add3: "mul3 (add3 u v) w = add3 (mul3 u w) (mul3 v w)"
  by (cases u; cases v; cases w) (simp add: algebra_simps)

definition sum3 :: "fvec3 list \<Rightarrow> fvec3" where
  "sum3 vs = foldr add3 vs (0, 0, 0)"

lemma sum3_simps [simp]: "sum3 [] = (0, 0, 0)" "sum3 (v # vs) = add3 v (sum3 vs)"
  by (simp_all add: sum3_def)

lemma sum3_insert: "v \<in> set vs \<Longrightarrow> sum3 vs = add3 v (sum3 (remove1 v vs))"
  by (induction vs) (auto simp: add3_left_commute)

lemma sum3_mset: "mset us = mset vs \<Longrightarrow> sum3 us = sum3 vs"
proof (induction us arbitrary: vs)
  case (Cons u us)
  then have "u \<in> set vs" by (metis list.set_intros(1) set_mset_mset)
  have "mset us = mset (remove1 u vs)" using Cons.prems by (metis add_mset_remove_trivial mset.simps(2) mset_remove1)
  then have "sum3 us = sum3 (remove1 u vs)" by (rule Cons.IH)
  with \<open>u \<in> set vs\<close> show ?case by (simp add: sum3_insert [of u vs])
qed simp

section \<open>The light loop\<close>

text \<open>The lights as they arrive, dimmed by their shadows, and what one of them adds.\<close>

fun incident :: "shadow_map_type \<Rightarrow> bool \<Rightarrow> directional_light list \<Rightarrow> directional_shadow list \<Rightarrow> incident_light list" where
  "incident ty rs [] ss = []"
| "incident ty rs (l # ls) [] = getDirectionalLightInfo (dl_color l) (dl_direction l) # incident ty rs ls []"
| "incident ty rs (l # ls) (s # ss) =
     getDirectionalLightInfo (scale3 (if rs then shadow_of ty s else 1) (dl_color l)) (dl_direction l) # incident ty rs ls ss"

definition irradiance_of :: "fvec3 \<Rightarrow> incident_light \<Rightarrow> fvec3" where
  "irradiance_of n l = scale3 (saturate (dot3 n (inc_direction l))) (inc_color l)"

definition lit :: "fvec3 \<Rightarrow> fvec3 \<Rightarrow> physical_material \<Rightarrow> incident_light list \<Rightarrow> reflected_light \<Rightarrow> reflected_light" where
  "lit n v material ls r = r\<lparr>
     rl_directDiffuse := add3 (rl_directDiffuse r) (mul3 (sum3 (map (irradiance_of n) ls)) (BRDF_Lambert (pm_diffuseColor material))),
     rl_directSpecular := add3 (rl_directSpecular r)
       (sum3 (map (\<lambda>l. mul3 (irradiance_of n l) (BRDF_GGX (inc_direction l) v n material)) ls))\<rparr>"

lemma lit_Nil [simp]: "lit n v material [] r = r"
  by (simp add: lit_def)

lemma lit_Cons: "lit n v material (l # ls) r = lit n v material ls (RE_Direct_Physical l n v material r)"
  by (simp add: lit_def RE_Direct_Physical_def irradiance_of_def Let_def mul3_add3 add3_assoc)

lemma loop_is_lit: "directional_loop ty rs n v material ls ss r = lit n v material (incident ty rs ls ss) r"
  by (induction ty rs n v material ls ss r rule: directional_loop.induct)
    (simp_all add: lit_Cons Let_def getDirectionalLightInfo_def)

lemma lit_mset: "mset ls = mset ks \<Longrightarrow> lit n v material ls r = lit n v material ks r"
  using sum3_mset [of "map f ls" "map f ks" for f] by (simp add: lit_def)

text \<open>
  C30. The unrolled light loop computes the sum of the lights: what it leaves in the direct diffuse and specular light is what
  was there plus, summed over the lights with their shadows, the irradiance times the Lambert and the GGX reflection;
  so the order in which the renderer uploads lights and shadows does not matter.
\<close>

theorem light_loop_is_sum:
  "directional_loop ty rs n v material ls ss r = lit n v material (incident ty rs ls ss) r
   \<and> (\<forall>ks ts. mset (incident ty rs ks ts) = mset (incident ty rs ls ss) \<longrightarrow>
        directional_loop ty rs n v material ks ts r = directional_loop ty rs n v material ls ss r)"
  unfolding loop_is_lit by (intro conjI allI impI refl lit_mset)

definition plain_material :: physical_material where
  "plain_material = \<lparr>pm_diffuseColor = (1, 1, 1), pm_roughness = 1, pm_specularColor = (0.04, 0.04, 0.04), pm_specularF90 = 1\<rparr>"

lemma light_loop_witness:
  "directional_loop SHADOWMAP_TYPE_PCF_SOFT True (0, 0, 1) (0, 0, 1) plain_material
     [\<lparr>dl_direction = (0, 0, 1), dl_color = (1, 1, 1)\<rparr>, \<lparr>dl_direction = (0, 1, 0), dl_color = (1, 0, 0)\<rparr>] [] no_light
   = directional_loop SHADOWMAP_TYPE_PCF_SOFT True (0, 0, 1) (0, 0, 1) plain_material
     [\<lparr>dl_direction = (0, 1, 0), dl_color = (1, 0, 0)\<rparr>, \<lparr>dl_direction = (0, 0, 1), dl_color = (1, 1, 1)\<rparr>] [] no_light"
  by (rule light_loop_is_sum [THEN conjunct2, rule_format]) simp

section \<open>Shadows\<close>

definition le3 :: "fvec3 \<Rightarrow> fvec3 \<Rightarrow> bool" where
  "le3 u v \<longleftrightarrow> nonneg3 (sub3 v u)"

lemma le3_refl [simp]: "le3 v v"
  by (cases v) (simp add: le3_def nonneg3_def)

lemma le3_trans: "le3 u v \<Longrightarrow> le3 v w \<Longrightarrow> le3 u w"
  by (cases u; cases v; cases w) (simp add: le3_def nonneg3_def)

lemma le3_add3: "le3 u v \<Longrightarrow> le3 x y \<Longrightarrow> le3 (add3 u x) (add3 v y)"
  by (cases u; cases v; cases x; cases y) (simp add: le3_def nonneg3_def)

lemma le3_mul3: "le3 u v \<Longrightarrow> nonneg3 w \<Longrightarrow> le3 (mul3 u w) (mul3 v w)"
  by (cases u; cases v; cases w) (simp add: le3_def nonneg3_def left_diff_distrib [symmetric] mult_right_mono)

lemma le3_scale3: "nonneg3 v \<Longrightarrow> h \<le> k \<Longrightarrow> le3 (scale3 h v) (scale3 k v)"
  by (cases v) (simp add: le3_def nonneg3_def scale3_def mult_right_mono)

lemma le3_scale: "le3 u v \<Longrightarrow> 0 \<le> k \<Longrightarrow> le3 (scale3 k u) (scale3 k v)"
  by (cases u; cases v) (simp add: le3_def nonneg3_def scale3_def mult_left_mono)

lemma le3_sum3: "list_all2 le3 us vs \<Longrightarrow> le3 (sum3 us) (sum3 vs)"
  by (induction rule: list_all2_induct) (simp_all add: le3_add3)

definition dimmer :: "incident_light \<Rightarrow> incident_light \<Rightarrow> bool" where
  "dimmer k l \<longleftrightarrow> inc_direction k = inc_direction l \<and> le3 (inc_color k) (inc_color l)"

definition le_reflected :: "reflected_light \<Rightarrow> reflected_light \<Rightarrow> bool" where
  "le_reflected r t \<longleftrightarrow> le3 (rl_directDiffuse r) (rl_directDiffuse t) \<and> le3 (rl_directSpecular r) (rl_directSpecular t)"

lemma lit_mono:
  assumes "list_all2 dimmer ks ls" and "nonneg3 (pm_diffuseColor material)" and "nonneg3 (pm_specularColor material)" and "0 \<le> pm_specularF90 material"
  shows "le_reflected (lit n v material ks r) (lit n v material ls r)"
proof -
  have irr: "le3 (irradiance_of n k) (irradiance_of n l)" if "dimmer k l" for k l
    using that by (simp add: dimmer_def irradiance_of_def le3_scale)
  have "list_all2 le3 (map (irradiance_of n) ks) (map (irradiance_of n) ls)"
    using assms(1) by (simp add: list_all2_map1 list_all2_map2 list_all2_mono irr)
  moreover have "list_all2 le3 (map (\<lambda>l. mul3 (irradiance_of n l) (BRDF_GGX (inc_direction l) v n material)) ks)
      (map (\<lambda>l. mul3 (irradiance_of n l) (BRDF_GGX (inc_direction l) v n material)) ls)"
    using assms(1) unfolding list_all2_map1 list_all2_map2
  proof (rule list_all2_mono)
    fix k l
    assume "dimmer k l"
    then show "le3 (mul3 (irradiance_of n k) (BRDF_GGX (inc_direction k) v n material)) (mul3 (irradiance_of n l) (BRDF_GGX (inc_direction l) v n material))"
      using irr [of k l] BRDF_GGX_nonneg [OF assms(3,4)] by (simp add: dimmer_def le3_mul3)
  qed
  ultimately show ?thesis
    using Lambert_nonneg [OF assms(2)] by (simp add: le_reflected_def lit_def le3_add3 le3_mul3 le3_sum3)
qed

definition fair_shadow :: "directional_shadow \<Rightarrow> bool" where
  "fair_shadow s \<longleftrightarrow> 0 \<le> ds_intensity s \<and> ds_intensity s \<le> 1"

lemma shadow_of_bounds: "fair_shadow s \<Longrightarrow> 0 \<le> shadow_of ty s \<and> shadow_of ty s \<le> 1"
  using shadow_factor_bounded [of "ds_intensity s" ty "ds_map s" "ds_map_size s" "ds_bias s" "ds_radius s"]
  by (cases "ds_coord s") (fastforce simp: fair_shadow_def shadow_of_def intro: order_trans [of 0 "1 - ds_intensity s"])

lemma incident_dimmer:
  assumes "\<forall>l\<in>set ls. nonneg3 (dl_color l)" and "\<forall>s\<in>set ss. fair_shadow s"
  shows "list_all2 dimmer (incident ty rs ls ss) (incident ty rs ls [])"
  using assms
proof (induction ty rs ls ss rule: incident.induct)
  case (2 ty rs l ls)
  then show ?case by (simp add: dimmer_def)
next
  case (3 ty rs l ls s ss)
  then have "le3 (scale3 (shadow_of ty s) (dl_color l)) (scale3 1 (dl_color l))" using shadow_of_bounds [of s ty] by (simp add: le3_scale3)
  moreover have "scale3 1 w = w" for w by (cases w) (simp add: scale3_def)
  ultimately show ?case using 3 by (simp add: dimmer_def getDirectionalLightInfo_def)
qed simp

lemma incident_nonneg:
  assumes "\<forall>l\<in>set ls. nonneg3 (dl_color l)" and "\<forall>s\<in>set ss. fair_shadow s"
  shows "\<forall>l\<in>set (incident ty rs ls ss). nonneg3 (inc_color l)"
  using assms by (induction ty rs ls ss rule: incident.induct) (simp_all add: getDirectionalLightInfo_def shadow_of_bounds)

lemma nonneg3_sum3: "\<forall>v\<in>set vs. nonneg3 v \<Longrightarrow> nonneg3 (sum3 vs)"
  by (induction vs) (simp_all add: nonneg3_def [of "(0, 0, 0)"])

lemma le3_add3_self: "nonneg3 w \<Longrightarrow> le3 v (add3 v w)"
  by (cases v; cases w) (simp add: le3_def nonneg3_def)

lemma lit_adds:
  assumes "\<forall>l\<in>set ls. nonneg3 (inc_color l)" and "nonneg3 (pm_diffuseColor material)" and "nonneg3 (pm_specularColor material)"
    and "0 \<le> pm_specularF90 material"
  shows "le_reflected r (lit n v material ls r)"
proof -
  have irr: "nonneg3 (irradiance_of n l)" if "l \<in> set ls" for l using assms(1) that by (simp add: irradiance_of_def)
  then have "nonneg3 (sum3 (map (irradiance_of n) ls))" by (intro nonneg3_sum3) simp
  moreover have "nonneg3 (sum3 (map (\<lambda>l. mul3 (irradiance_of n l) (BRDF_GGX (inc_direction l) v n material)) ls))"
    using irr BRDF_GGX_nonneg [OF assms(3,4)] by (intro nonneg3_sum3) simp
  ultimately show ?thesis using Lambert_nonneg [OF assms(2)] by (simp add: le_reflected_def lit_def le3_add3_self)
qed

lemma lit_indirect [simp]:
  "rl_indirectDiffuse (lit n v material ls r) = rl_indirectDiffuse r" "rl_indirectSpecular (lit n v material ls r) = rl_indirectSpecular r"
  by (simp_all add: lit_def)

lemma outgoing_eq:
  "outgoingLight u f = add3 (add3 (add3 (rl_directDiffuse (direct_light u f))
      (mul3 (indirect_irradiance (u_ambientLightColor u) (u_hemisphereLights u) (fr_normal f))
        (BRDF_Lambert (pm_diffuseColor (fragment_material u f)))))
      (rl_directSpecular (direct_light u f))) (u_emissive u)"
  by (simp add: outgoingLight_def reflected_def RE_IndirectSpecular_Physical_def RE_IndirectDiffuse_Physical_def Let_def
      direct_light_def loop_is_lit no_light_def split: prod.split)

lemma lights_physical_fields [simp]:
  "pm_diffuseColor (lights_physical d r m x y) = scale3 (1 - m) d"
  "pm_specularColor (lights_physical d r m x y) = mix3 (0.04, 0.04, 0.04) d m"
  "pm_specularF90 (lights_physical d r m x y) = 1"
  by (cases x; cases y; simp only: lights_physical_def Let_def prod.case physical_material.simps)+

lemma fragment_material_nonneg:
  assumes "displayable (u_diffuse u)" and "0 \<le> u_metalness u" and "u_metalness u \<le> 1"
  shows "nonneg3 (pm_diffuseColor (fragment_material u f))" "nonneg3 (pm_specularColor (fragment_material u f))"
    "0 \<le> pm_specularF90 (fragment_material u f)"
proof -
  obtain r g b where d: "u_diffuse u = (r, g, b)" by (cases "u_diffuse u")
  have "0 \<le> mixf 0.04 c (u_metalness u)" if "0 \<le> c" "c \<le> 1" for c
    using that assms(2,3) by (intro mixf_bounds(1) [of 0 _ 1]) simp_all
  then have "nonneg3 (mix3 (0.04, 0.04, 0.04) (u_diffuse u) (u_metalness u))"
    using assms(1) by (simp add: d displayable_def nonneg3_def)
  then show "nonneg3 (pm_specularColor (fragment_material u f))" by (simp add: fragment_material_def)
  have "nonneg3 (scale3 (1 - u_metalness u) (u_diffuse u))"
    using assms by (intro nonneg3_ops) (simp_all add: d displayable_def nonneg3_def)
  then show "nonneg3 (pm_diffuseColor (fragment_material u f))" by (simp add: fragment_material_def)
  show "0 \<le> pm_specularF90 (fragment_material u f)" by (simp add: fragment_material_def)
qed

lemma le_reflected_outgoing:
  assumes "le_reflected (direct_light u f) (direct_light w f)" and "fragment_material u f = fragment_material w f"
    and "u_ambientLightColor u = u_ambientLightColor w" and "u_hemisphereLights u = u_hemisphereLights w" and "u_emissive u = u_emissive w"
  shows "le3 (outgoingLight u f) (outgoingLight w f)"
  using assms by (simp add: outgoing_eq le_reflected_def le3_add3)

text \<open>
  C29. Shadows only dim: for lights and surface colours without negative channels and shadow intensities between 0
  and 1, whatever the shadow maps hold, no channel of the light leaving a fragment is brighter with the shadows
  than without them, and none is darker than with the directional lights switched off.
\<close>

theorem shadows_only_dim:
  assumes "\<forall>l\<in>set (u_directionalLights u). nonneg3 (dl_color l)" and "\<forall>s\<in>set (u_directionalShadows u). fair_shadow s"
    and "displayable (u_diffuse u)" and "0 \<le> u_metalness u" and "u_metalness u \<le> 1"
  shows "le3 (outgoingLight u f) (outgoingLight (u\<lparr>u_directionalShadows := []\<rparr>) f)
    \<and> le3 (outgoingLight (u\<lparr>u_directionalLights := []\<rparr>) f) (outgoingLight u f)"
proof
  note material = fragment_material_nonneg [OF assms(3-5), of f]
  show "le3 (outgoingLight u f) (outgoingLight (u\<lparr>u_directionalShadows := []\<rparr>) f)"
    using lit_mono [OF incident_dimmer [OF assms(1,2)] material]
    by (intro le_reflected_outgoing) (simp_all add: direct_light_def loop_is_lit geometryViewDir_def fragment_material_def)
  show "le3 (outgoingLight (u\<lparr>u_directionalLights := []\<rparr>) f) (outgoingLight u f)"
    using lit_adds [OF incident_nonneg [OF assms(1,2)] material]
    by (intro le_reflected_outgoing) (simp_all add: direct_light_def loop_is_lit geometryViewDir_def fragment_material_def)
qed

text \<open>A draw call of the viewer: the carriage under the key light with a soft shadow, the fog of the scene.\<close>

definition carriage_uniforms :: uniforms where
  "carriage_uniforms = \<lparr>u_shadow_type = SHADOWMAP_TYPE_PCF_SOFT, u_receiveShadow = True, u_isOrthographic = False,
     u_ambientLightColor = (0, 0, 0), u_directionalLights = [\<lparr>dl_direction = (0, 0.6, 0.8), dl_color = (2.4, 2.4, 2.4)\<rparr>],
     u_directionalShadows = [\<lparr>ds_intensity = 1, ds_bias = 0, ds_radius = 1, ds_map_size = (512, 512), ds_map = (\<lambda>_. (1, 1, 1, 1)), ds_coord = (0.5, 0.5, 0.5, 1)\<rparr>],
     u_hemisphereLights = [\<lparr>hl_direction = (0, 1, 0), hl_sky = (0.6, 1, 1.7), hl_ground = (0.01, 0.02, 0.03)\<rparr>],
     u_diffuse = (0.01, 0.25, 0.64), u_opacity = 1, u_emissive = (0, 0, 0), u_roughness = 0.35, u_metalness = 0.35, u_opaque = True,
     u_toneMapping = None, u_outputMatrix = ((1, 0, 0), (0, 1, 0), (0, 0, 1)), u_fog = Some ((0.002, 0.005, 0.01), 14, 34)\<rparr>"

definition carriage_fragment :: fragment where
  "carriage_fragment = \<lparr>fr_normal = (0, 0, 1), fr_dFdx = (0, 0, 0), fr_dFdy = (0, 0, 0), fr_vViewPosition = (0, 0, 12), fr_vFogDepth = 12\<rparr>"

lemma shadows_only_dim_witness:
  "le3 (outgoingLight carriage_uniforms carriage_fragment) (outgoingLight (carriage_uniforms\<lparr>u_directionalShadows := []\<rparr>) carriage_fragment)"
  by (rule shadows_only_dim [THEN conjunct1]) (simp_all add: carriage_uniforms_def nonneg3_def fair_shadow_def displayable_def)

section \<open>Materials\<close>

lemma clamped_roughness: "0 \<le> g \<Longrightarrow> 0.0525 \<le> min (max x 0.0525 + g) (1::real)"
  by simp

lemma max3_abs_nonneg: "0 \<le> max3 (max \<bar>x\<bar> \<bar>x'\<bar>, max \<bar>y\<bar> \<bar>y'\<bar>, w)"
  by (simp add: le_max_iff_disj)

lemma lights_physical_roughness:
  "0.0525 \<le> pm_roughness (lights_physical d r m x y)" "pm_roughness (lights_physical d r m x y) \<le> 1"
  by (cases x; cases y; simp only: lights_physical_def Let_def prod.case physical_material.simps clamped_roughness max3_abs_nonneg min.cobounded2)+

text \<open>
  No material degenerates: whatever roughness a material is given and however strongly the normal varies across
  the screen, the roughness used lies between 0.0525 and 1, so that the distribution of the GGX reflection never divides by
  zero and its highlight stays below a bound given by the roughness.
\<close>

theorem highlights_bounded:
  assumes "0 \<le> d" and "d \<le> 1" and "alpha = pow2 (pm_roughness (fragment_material u f))"
  shows "0.0525 \<le> pm_roughness (fragment_material u f) \<and> pm_roughness (fragment_material u f) \<le> 1
    \<and> 0 < pow2 d * (pow2 alpha - 1) + 1 \<and> D_GGX alpha d \<le> RECIPROCAL_PI / pow2 alpha"
proof -
  define r where "r = pm_roughness (fragment_material u f)"
  define k where "k = pow2 alpha"
  have r: "0.0525 \<le> r" "r \<le> 1" by (simp_all only: r_def fragment_material_def lights_physical_roughness)
  have "0 < alpha" "alpha \<le> 1" using r by (simp_all add: assms(3) r_def [symmetric] pow2_def mult_le_one)
  then have k: "0 < k" "k \<le> 1" by (simp_all add: k_def pow2_def mult_le_one)
  have "pow2 d \<le> 1" using assms(1,2) by (simp add: pow2_def mult_le_one)
  then have "pow2 d * (1 - k) \<le> 1 * (1 - k)" using k by (intro mult_right_mono) simp_all
  then have den: "k \<le> pow2 d * (k - 1) + 1" by (simp add: algebra_simps)
  then have "pow2 k \<le> pow2 (pow2 d * (k - 1) + 1)" unfolding pow2_def [of k] pow2_def [of "pow2 d * (k - 1) + 1"] using k by (intro mult_mono) simp_all
  moreover have "0 < pow2 k" using k by (simp add: pow2_def)
  ultimately have "RECIPROCAL_PI * k / pow2 (pow2 d * (k - 1) + 1) \<le> RECIPROCAL_PI * k / pow2 k"
    using k by (intro divide_left_mono) (simp_all add: RECIPROCAL_PI_def)
  also have "\<dots> = RECIPROCAL_PI / k" using k by (simp add: pow2_def)
  finally have "D_GGX alpha d \<le> RECIPROCAL_PI / k" by (simp add: D_GGX_def k_def Let_def)
  then show ?thesis using r den k by (simp add: r_def k_def)
qed

lemma highlights_witness: "D_GGX (pow2 (pm_roughness (fragment_material carriage_uniforms carriage_fragment))) 1
    \<le> RECIPROCAL_PI / pow2 (pow2 (pm_roughness (fragment_material carriage_uniforms carriage_fragment)))"
  using highlights_bounded [of 1 _ carriage_uniforms carriage_fragment, OF _ _ refl] by simp

section \<open>The colour written\<close>







end
