(* ===== verification/Viewer.thy ===== *)
theory Viewer
  imports VsmcPrelude
begin

text \<open>
  The browser viewer (\<open>src/web/viewer/app.js\<close>): the scene it builds, what a machine snapshot changes
  in it and in the page, the recorded replay, and the WebSocket connection with its timers.

  \<^item> The page texts are UTF-8 bytes; a number is a real, \<open>toFixed\<close> is \<open>show_fixed\<close>.
  \<^item> Snapshots are records of the fields the viewer reads; \<open>JSON.parse\<close> and \<open>fetch\<close> are the browser's.
  \<^item> The objects of three.js are records of the properties the viewer sets.
\<close>

section \<open>Snapshots\<close>

record vw_axis =
  va_actual :: real
  va_target :: real
  va_error :: real

record vw_order =
  vo_id :: "string option"
  vo_completed :: int
  vo_target :: int

record vw_part =
  vp_id :: "string option"
  vp_attached :: bool

record vw_alarm =
  vl_code :: string
  vl_message :: string

record vw_snapshot =
  vs_mode :: string
  vs_execution :: string
  vs_step :: string
  vs_x :: vw_axis
  vs_y :: vw_axis
  vs_guard_closed :: bool
  vs_motion_permitted :: bool
  vs_reasons :: "string list"
  vs_part :: "vw_part option"
  vs_order :: "vw_order option"
  vs_oee :: real
  vs_mes_health :: string
  vs_outbox_pending :: int
  vs_opcua_enabled :: bool
  vs_alarms :: "vw_alarm list"

section \<open>The scene\<close>

type_synonym vec3 = "real \<times> real \<times> real"

datatype material =
    MAT_frame | MAT_rail | MAT_carriage | MAT_carriageFault | MAT_tool | MAT_safety | MAT_safetyFault
  | MAT_pick | MAT_inspect | MAT_place | MAT_part | MAT_target | MAT_floor

record material_params =
  mat_color :: nat
  mat_emissive :: "nat option"
  mat_metalness :: "real option"
  mat_roughness :: "real option"
  mat_opacity :: "real option"
  mat_transparent :: bool
  mat_double_side :: bool
  mat_wireframe :: bool

definition opaque :: "nat \<Rightarrow> nat option \<Rightarrow> real option \<Rightarrow> real option \<Rightarrow> material_params" where
  "opaque c e m r = \<lparr>mat_color = c, mat_emissive = e, mat_metalness = m, mat_roughness = r, mat_opacity = None,
     mat_transparent = False, mat_double_side = False, mat_wireframe = False\<rparr>"

fun materials :: "material \<Rightarrow> material_params" where
  "materials MAT_frame = opaque 0x5d6f82 None (Some 0.65) (Some 0.35)"
| "materials MAT_rail = opaque 0xa9b5c1 None (Some 0.8) (Some 0.25)"
| "materials MAT_carriage = opaque 0x188bd1 None (Some 0.35) (Some 0.35)"
| "materials MAT_carriageFault = opaque 0xd9414a (Some 0x42080b) (Some 0.25) None"
| "materials MAT_tool = opaque 0x21b387 None (Some 0.25) (Some 0.4)"
| "materials MAT_safety = (opaque 0x2b8fb7 None None None)\<lparr>mat_opacity := Some 0.16, mat_transparent := True, mat_double_side := True\<rparr>"
| "materials MAT_safetyFault = (opaque 0xd9414a None None None)\<lparr>mat_opacity := Some 0.35, mat_transparent := True, mat_double_side := True\<rparr>"
| "materials MAT_pick = opaque 0x2389bd None None (Some 0.5)"
| "materials MAT_inspect = opaque 0x8c5ac7 None None (Some 0.5)"
| "materials MAT_place = opaque 0x32a26d None None (Some 0.5)"
| "materials MAT_part = opaque 0xf2a72c None None (Some 0.45)"
| "materials MAT_target = (opaque 0x58dcff None None None)\<lparr>mat_opacity := Some 0.22, mat_transparent := True, mat_wireframe := True\<rparr>"
| "materials MAT_floor = opaque 0x101a25 None None (Some 0.9)"

datatype node = N_scene | N_gantry | N_yCarriage

record mesh =
  mh_name :: string
  mh_size :: vec3
  mh_position :: vec3
  mh_material :: material
  mh_parent :: node
  mh_cast_shadow :: bool
  mh_receive_shadow :: bool

definition box :: "string \<Rightarrow> vec3 \<Rightarrow> vec3 \<Rightarrow> material \<Rightarrow> node \<Rightarrow> mesh" where
  "box name dims pos mat parent =
     \<lparr>mh_name = name, mh_size = dims, mh_position = pos, mh_material = mat, mh_parent = parent,
      mh_cast_shadow = True, mh_receive_shadow = True\<rparr>"

text \<open>A label: what is drawn on its canvas, in order, and the sprite that shows it.\<close>

datatype draw =
    FillStyle string | StrokeStyle string | Font string | TextAlign string | TextBaseline string
  | FillRect nat nat nat nat | StrokeRect nat nat nat nat | FillText string nat nat

record sprite =
  sp_canvas :: "nat \<times> nat"
  sp_drawing :: "draw list"
  sp_transparent :: bool
  sp_position :: vec3
  sp_scale :: vec3

definition label :: "string \<Rightarrow> vec3 \<Rightarrow> sprite" where
  "label txt pos =
     \<lparr>sp_canvas = (512, 128),
      sp_drawing = [FillStyle ''rgba(8,15,24,.82)'', FillRect 0 0 512 128, StrokeStyle ''#7091ae'', StrokeRect 2 2 508 124,
        FillStyle ''#e8f2fa'', Font ''700 42px system-ui'', TextAlign ''center'', TextBaseline ''middle'', FillText txt 256 64],
      sp_transparent = True, sp_position = pos, sp_scale = (2.1, 0.52, 1)\<rparr>"

text \<open>The meshes in the order the script adds them, and the labels of the three stations.\<close>

definition posts :: "mesh list" where
  "posts = concat (map (\<lambda>x. map (\<lambda>z. box ''post'' (0.16, 3.9, 0.16) (x, 0.58, z) MAT_frame N_scene) [- 2.7, 2.7]) [- 3.8, 3.8])"

definition frame_meshes :: "mesh list" where
  "frame_meshes =
     [box ''floor'' (8.5, 0.18, 6.2) (0, - 1.32, 0) MAT_floor N_scene] @ posts @
     [box ''top-front'' (7.7, 0.16, 0.16) (0, 2.48, - 2.7) MAT_frame N_scene,
      box ''top-back'' (7.7, 0.16, 0.16) (0, 2.48, 2.7) MAT_frame N_scene,
      box ''top-left'' (0.16, 0.16, 5.5) (- 3.8, 2.48, 0) MAT_frame N_scene,
      box ''top-right'' (0.16, 0.16, 5.5) (3.8, 2.48, 0) MAT_frame N_scene,
      box ''fence-back'' (7.3, 3.4, 0.04) (0, 0.55, - 2.72) MAT_safety N_scene,
      box ''door'' (0.05, 3.2, 2) (3.83, 0.48, 0.55) MAT_safety N_scene,
      box ''rail-front'' (6.8, 0.17, 0.22) (0, 1.68, - 1.72) MAT_rail N_scene,
      box ''rail-back'' (6.8, 0.17, 0.22) (0, 1.68, 1.72) MAT_rail N_scene]"

definition station_meshes :: "mesh list" where
  "station_meshes =
     [box ''pick-station'' (1.15, 0.65, 1.15) (2.45, - 0.9, - 1.18) MAT_pick N_scene,
      box ''inspect-station'' (1.15, 0.65, 1.15) (0.62, - 0.9, 1.42) MAT_inspect N_scene,
      box ''place-station'' (1.15, 0.65, 1.15) (- 2.15, - 0.9, 0.64) MAT_place N_scene]"

definition station_labels :: "sprite list" where
  "station_labels = [label ''PICK'' (2.45, - 0.2, - 1.18), label ''INSPECT'' (0.62, - 0.2, 1.42), label ''PLACE'' (- 2.15, - 0.2, 0.64)]"

definition gantry_meshes :: "mesh list" where
  "gantry_meshes =
     [box ''gantry-bridge'' (0.42, 0.32, 3.85) (0, 1.86, 0) MAT_carriage N_gantry,
      box ''tool-head'' (0.66, 0.72, 0.66) (0, 1.36, 0) MAT_tool N_yCarriage,
      box ''tool-shaft'' (0.2, 0.82, 0.2) (0, 0.66, 0) MAT_rail N_yCarriage,
      box ''finger-left'' (0.11, 0.42, 0.28) (- 0.19, 0.18, 0) MAT_part N_yCarriage,
      box ''finger-right'' (0.11, 0.42, 0.28) (0.19, 0.18, 0) MAT_part N_yCarriage,
      box ''workpiece'' (0.48, 0.3, 0.48) (0, - 0.12, 0) MAT_part N_yCarriage,
      box ''target-ghost'' (0.72, 0.78, 0.72) (0, 1.36, 0) MAT_target N_scene]"

text \<open>The camera, the renderer's settings and the lights.\<close>

definition default_camera :: vec3 where
  "default_camera = (10, 7.5, 11.5)"

record camera_state =
  cam_position :: vec3
  cam_target :: vec3
  cam_fov :: real
  cam_near :: real
  cam_far :: real
  cam_aspect :: real
  cam_min_distance :: real
  cam_max_distance :: real
  cam_max_polar :: real
  cam_damping :: bool

definition initial_camera :: camera_state where
  "initial_camera = \<lparr>cam_position = default_camera, cam_target = (0, 0.3, 0), cam_fov = 42, cam_near = 0.1, cam_far = 100,
     cam_aspect = 1, cam_min_distance = 6, cam_max_distance = 22, cam_max_polar = pi * 0.48, cam_damping = True\<rparr>"

record renderer_settings =
  rd_background :: nat
  rd_fog :: "nat \<times> real \<times> real"
  rd_antialias :: bool
  rd_power :: string
  rd_pixel_ratio :: real
  rd_shadows :: bool
  rd_shadow_type :: string
  rd_color_space :: string

definition pixel_ratio :: "real \<Rightarrow> real" where
  "pixel_ratio device = min device 2"

definition renderer_settings_for :: "real \<Rightarrow> renderer_settings" where
  "renderer_settings_for device = \<lparr>rd_background = 0x07101a, rd_fog = (0x07101a, 14, 34), rd_antialias = True,
     rd_power = ''high-performance'', rd_pixel_ratio = pixel_ratio device, rd_shadows = True,
     rd_shadow_type = ''PCFSoftShadowMap'', rd_color_space = ''SRGBColorSpace''\<rparr>"

record light =
  lt_color :: nat
  lt_intensity :: real
  lt_position :: "vec3 option"
  lt_shadow :: bool

definition lights :: "light list" where
  "lights =
     [\<lparr>lt_color = 0x9cc9ff, lt_intensity = 1.7, lt_position = None, lt_shadow = False\<rparr>,
      \<lparr>lt_color = 0xffffff, lt_intensity = 2.4, lt_position = Some (6, 11, 7), lt_shadow = True\<rparr>,
      \<lparr>lt_color = 0x4a9fdd, lt_intensity = 1, lt_position = Some (- 8, 4, - 5), lt_shadow = False\<rparr>]"

definition to_world_x :: "real \<Rightarrow> real" where
  "to_world_x value = value * 3.05"

definition to_world_z :: "real \<Rightarrow> real" where
  "to_world_z value = (value - 0.45) * 3.25"

section \<open>The page\<close>

definition ui_ids :: "string list" where
  "ui_ids = [''connection'', ''mode'', ''execution'', ''step'', ''order'', ''part'', ''progress'', ''oee'',
     ''x-actual'', ''x-target'', ''x-error'', ''y-actual'', ''y-target'', ''y-error'', ''interlocks'', ''integration'', ''alarms'']"

definition ui_key :: "string \<Rightarrow> string" where
  "ui_key i = filter (\<lambda>c. c \<noteq> CHR ''-'') i"

text \<open>The text of each element, its class, and the markup of the alarm list.\<close>

record page =
  pg_text :: "string \<Rightarrow> string"
  pg_class :: "string \<Rightarrow> string"
  pg_alarms_html :: string

definition set_text :: "string \<Rightarrow> string \<Rightarrow> page \<Rightarrow> page" where
  "set_text k t p = p\<lparr>pg_text := (pg_text p)(k := t)\<rparr>"

definition set_class :: "string \<Rightarrow> string \<Rightarrow> page \<Rightarrow> page" where
  "set_class k t p = p\<lparr>pg_class := (pg_class p)(k := t)\<rparr>"

lemma page_simps [simp]:
  "pg_text (set_text k t p) = (pg_text p)(k := t)" "pg_class (set_text k t p) = pg_class p"
  "pg_alarms_html (set_text k t p) = pg_alarms_html p"
  "pg_text (set_class k t p) = pg_text p" "pg_class (set_class k t p) = (pg_class p)(k := t)"
  "pg_alarms_html (set_class k t p) = pg_alarms_html p"
  by (simp_all add: set_text_def set_class_def)

definition escape_char :: "char \<Rightarrow> string" where
  "escape_char c =
     (if c = CHR ''&'' then ''&amp;'' else if c = CHR ''<'' then ''&lt;'' else if c = CHR ''>'' then ''&gt;''
      else if c = CHR 34 then ''&quot;'' else if c = CHR 39 then ''&#039;'' else [c])"

definition escape_html :: "string \<Rightarrow> string" where
  "escape_html value = concat (map escape_char value)"

definition middle_dot :: string where
  "middle_dot = [CHR '' '', CHR 0xC2, CHR 0xB7, CHR '' '']"

definition em_dash :: string where
  "em_dash = [CHR '' '', CHR 0xE2, CHR 0x80, CHR 0x94, CHR '' '']"

definition quote :: string where
  "quote = [CHR 34]"

definition alarm_html :: "vw_alarm \<Rightarrow> string" where
  "alarm_html a = ''<div class='' @ quote @ ''alarm'' @ quote @ ''><strong>'' @ escape_html (vl_code a) @ ''</strong>'' @
     em_dash @ escape_html (vl_message a) @ ''</div>''"

definition alarms_html :: "vw_alarm list \<Rightarrow> string" where
  "alarms_html alarms = (if length alarms > 0 then concat (map alarm_html alarms) else ''No active alarms'')"

definition set_axis_texts :: "string \<Rightarrow> vw_axis \<Rightarrow> page \<Rightarrow> page" where
  "set_axis_texts prefix a p =
     set_text (prefix @ ''error'') (show_fixed 3 (va_error a))
       (set_text (prefix @ ''target'') (show_fixed 3 (va_target a))
         (set_text (prefix @ ''actual'') (show_fixed 3 (va_actual a)) p))"

definition order_text :: "vw_order option \<Rightarrow> string" where
  "order_text x = (case x of None \<Rightarrow> ''--'' | Some r \<Rightarrow> (case vo_id r of None \<Rightarrow> ''--'' | Some i \<Rightarrow> i))"

definition part_text :: "vw_part option \<Rightarrow> string" where
  "part_text x = (case x of None \<Rightarrow> ''--'' | Some r \<Rightarrow> (case vp_id r of None \<Rightarrow> ''--'' | Some i \<Rightarrow> i))"

definition progress_text :: "vw_order option \<Rightarrow> string" where
  "progress_text x = (case x of None \<Rightarrow> ''0 / 0'' | Some r \<Rightarrow> show_int (vo_completed r) @ '' / '' @ show_int (vo_target r))"

definition update_page :: "vw_snapshot \<Rightarrow> page \<Rightarrow> page" where
  "update_page s p =
     (let p1 = set_text ''step'' (vs_step s) (set_text ''execution'' (vs_execution s) (set_text ''mode'' (vs_mode s) p));
          p2 = set_text ''part'' (part_text (vs_part s)) (set_text ''order'' (order_text (vs_order s)) p1);
          p3 = set_text ''progress'' (progress_text (vs_order s)) p2;
          p4 = set_text ''oee'' (show_fixed 1 (vs_oee s * 100) @ ''%'') p3;
          p5 = set_axis_texts ''y'' (vs_y s) (set_axis_texts ''x'' (vs_x s) p4);
          p6 = (if vs_motion_permitted s
                then set_class ''interlocks'' ''ok'' (set_text ''interlocks'' ''Motion permitted'' p5)
                else set_class ''interlocks'' ''error'' (set_text ''interlocks'' (join_with middle_dot (vs_reasons s)) p5));
          p7 = set_text ''integration'' (''MES '' @ vs_mes_health s @ middle_dot @ ''Outbox '' @ show_int (vs_outbox_pending s) @
                 middle_dot @ ''OPC UA '' @ (if vs_opcua_enabled s then ''on'' else ''off'')) p6
      in p7\<lparr>pg_alarms_html := alarms_html (vs_alarms s)\<rparr>)"

section \<open>State\<close>

record scene_state =
  sc_bridge_material :: material
  sc_head_material :: material
  sc_door_x :: real
  sc_door_rotation :: real
  sc_door_material :: material
  sc_ghost_position :: vec3
  sc_ghost_visible :: bool
  sc_work_visible :: bool
  sc_work_parent :: "node option"
  sc_work_position :: vec3
  sc_gantry_x :: real
  sc_carriage_z :: real

definition initial_scene :: scene_state where
  "initial_scene = \<lparr>sc_bridge_material = MAT_carriage, sc_head_material = MAT_tool, sc_door_x = 3.83, sc_door_rotation = 0,
     sc_door_material = MAT_safety, sc_ghost_position = (0, 1.36, 0), sc_ghost_visible = True, sc_work_visible = True,
     sc_work_parent = Some N_yCarriage, sc_work_position = (0, - 0.12, 0), sc_gantry_x = 0, sc_carriage_z = 0\<rparr>"

record viewer =
  vw_last :: "vw_snapshot option"
  vw_connected :: bool
  vw_replay :: "vw_snapshot list"
  vw_replay_start :: real
  vw_displayed_x :: real
  vw_displayed_y :: real
  vw_target_x :: real
  vw_target_y :: real
  vw_scene :: scene_state
  vw_page :: page
  vw_camera :: camera_state

definition shows_fault :: "vw_snapshot \<Rightarrow> bool" where
  "shows_fault s \<longleftrightarrow> vs_execution s = ''Faulted'' \<or> vs_execution s = ''RecoveryRequired''"

definition scene_of :: "vw_snapshot \<Rightarrow> scene_state \<Rightarrow> scene_state" where
  "scene_of s c =
     (let faulted = shows_fault s;
          c1 = c\<lparr>sc_bridge_material := (if faulted then MAT_carriageFault else MAT_carriage),
                 sc_head_material := (if faulted then MAT_carriageFault else MAT_tool),
                 sc_door_x := (if vs_guard_closed s then 3.83 else 4.55),
                 sc_door_rotation := (if vs_guard_closed s then 0 else - 0.55),
                 sc_door_material := (if vs_guard_closed s then MAT_safety else MAT_safetyFault),
                 sc_ghost_position := (to_world_x (va_target (vs_x s)), 1.36, to_world_z (va_target (vs_y s))),
                 sc_work_visible := (vs_part s \<noteq> None)\<rparr>
      in case vs_part s of
           None \<Rightarrow> c1
         | Some part \<Rightarrow>
             (if \<not> vp_attached part
              then c1\<lparr>sc_work_parent := Some N_scene, sc_work_position := (- 2.15, - 0.38, 0.64)\<rparr>
              else if sc_work_parent c1 \<noteq> Some N_yCarriage
              then c1\<lparr>sc_work_parent := Some N_yCarriage, sc_work_position := (0, - 0.12, 0)\<rparr>
              else c1))"

definition update_scene :: "vw_snapshot \<Rightarrow> viewer \<Rightarrow> viewer" where
  "update_scene s v = v\<lparr>vw_target_x := va_actual (vs_x s), vw_target_y := va_actual (vs_y s), vw_scene := scene_of s (vw_scene v)\<rparr>"

definition update_ui :: "vw_snapshot \<Rightarrow> viewer \<Rightarrow> viewer" where
  "update_ui s v = update_scene s (v\<lparr>vw_page := update_page s (vw_page v)\<rparr>)"

definition badge :: "string \<Rightarrow> string \<Rightarrow> viewer \<Rightarrow> viewer" where
  "badge txt cls v = v\<lparr>vw_page := set_class ''connection'' cls (set_text ''connection'' txt (vw_page v))\<rparr>"

section \<open>Replay\<close>

text \<open>The remainder of JavaScript has the sign of the dividend; an index outside the array reads \<open>undefined\<close>.\<close>

definition js_rem :: "int \<Rightarrow> int \<Rightarrow> int" where
  "js_rem a b = (if 0 \<le> a then a mod b else - ((- a) mod b))"

definition js_index :: "'a list \<Rightarrow> int \<Rightarrow> 'a option" where
  "js_index xs i = (if 0 \<le> i \<and> i < int (length xs) then Some (xs ! nat i) else None)"

definition load_replay :: "vw_snapshot list option \<Rightarrow> viewer \<Rightarrow> viewer" where
  "load_replay fetched v = v\<lparr>vw_replay := (case fetched of Some frames \<Rightarrow> frames | None \<Rightarrow> [])\<rparr>"

definition replay_tick :: "real \<Rightarrow> viewer \<Rightarrow> (unit, viewer) outcome" where
  "replay_tick now v =
     (if \<not> vw_connected v \<and> length (vw_replay v) \<noteq> 0
      then case js_index (vw_replay v) (js_rem \<lfloor>(now - vw_replay_start v) / 100 * 1\<rfloor> (int (length (vw_replay v)))) of
             None \<Rightarrow> (Inl (TypeError ''frame''), v\<lparr>vw_last := None\<rparr>)
           | Some frame \<Rightarrow> (Inr (), badge ''RECORDED DEMO'' ''badge warning'' (update_ui frame (v\<lparr>vw_last := Some frame\<rparr>)))
      else (Inr (), v))"

section \<open>Animation and buttons\<close>

definition animate :: "viewer \<Rightarrow> viewer" where
  "animate v =
     (let dx = vw_displayed_x v + (vw_target_x v - vw_displayed_x v) * 0.14;
          dy = vw_displayed_y v + (vw_target_y v - vw_displayed_y v) * 0.14
      in v\<lparr>vw_displayed_x := dx, vw_displayed_y := dy,
           vw_scene := (vw_scene v)\<lparr>sc_gantry_x := to_world_x dx, sc_carriage_z := to_world_z dy\<rparr>\<rparr>)"

definition resize :: "real \<Rightarrow> real \<Rightarrow> viewer \<Rightarrow> viewer" where
  "resize w h v = v\<lparr>vw_camera := (vw_camera v)\<lparr>cam_aspect := w / h\<rparr>\<rparr>"

definition reset_camera :: "viewer \<Rightarrow> viewer" where
  "reset_camera v = v\<lparr>vw_camera := (vw_camera v)\<lparr>cam_position := default_camera, cam_target := (0, 0.3, 0)\<rparr>\<rparr>"

definition toggle_target :: "viewer \<Rightarrow> viewer" where
  "toggle_target v = v\<lparr>vw_scene := (vw_scene v)\<lparr>sc_ghost_visible := \<not> sc_ghost_visible (vw_scene v)\<rparr>\<rparr>"

section \<open>The connection\<close>

text \<open>
  A browser with one page: the sockets it has opened so far with their state, and the timers that
  are pending. The handlers are those of \<open>connect\<close>.
\<close>

datatype socket_state = Connecting | Open | Closing | Closed

record client =
  cl_viewer :: viewer
  cl_sockets :: "socket_state list"
  cl_connect_timers :: nat
  cl_replay_timers :: nat

definition socket_url :: "string \<Rightarrow> string \<Rightarrow> string" where
  "socket_url protocol host = (if protocol = ''https:'' then ''wss'' else ''ws'') @ ''://'' @ host @ ''/ws/state''"

definition connect :: "client \<Rightarrow> client" where
  "connect c = c\<lparr>cl_sockets := cl_sockets c @ [Connecting]\<rparr>"

definition on_open :: "client \<Rightarrow> client" where
  "on_open c = c\<lparr>cl_viewer := badge ''LIVE'' ''badge ok'' ((cl_viewer c)\<lparr>vw_connected := True\<rparr>)\<rparr>"

text \<open>\<open>None\<close> stands for a message that \<open>JSON.parse\<close> refuses: the handler throws before any assignment.\<close>

definition on_message :: "vw_snapshot option \<Rightarrow> client \<Rightarrow> client" where
  "on_message parsed c = (case parsed of None \<Rightarrow> c
     | Some s \<Rightarrow> c\<lparr>cl_viewer := update_ui s ((cl_viewer c)\<lparr>vw_last := Some s\<rparr>)\<rparr>)"

definition on_close :: "real \<Rightarrow> client \<Rightarrow> client" where
  "on_close now c = c\<lparr>cl_viewer := badge ''RECONNECTING'' ''badge warning''
       ((cl_viewer c)\<lparr>vw_connected := False, vw_replay_start := now\<rparr>),
     cl_connect_timers := cl_connect_timers c + 1\<rparr>"

text \<open>The error handler calls \<open>close\<close> on its socket.\<close>

definition on_error :: "nat \<Rightarrow> client \<Rightarrow> client" where
  "on_error i c = c\<lparr>cl_sockets := (cl_sockets c)[i := Closing]\<rparr>"

definition run_replay_timer :: "real \<Rightarrow> client \<Rightarrow> client" where
  "run_replay_timer now c =
     (let r = replay_tick now (cl_viewer c)
      in c\<lparr>cl_viewer := snd r,
           cl_replay_timers := cl_replay_timers c - 1 + (if throws r then 0 else 1)\<rparr>)"

text \<open>The last line of the script: what the page has done when it is loaded.\<close>

definition new_viewer :: "real \<Rightarrow> page \<Rightarrow> viewer" where
  "new_viewer now page = \<lparr>vw_last = None, vw_connected = False, vw_replay = [], vw_replay_start = now, vw_displayed_x = 0,
     vw_displayed_y = 0, vw_target_x = 0, vw_target_y = 0, vw_scene = initial_scene, vw_page = page, vw_camera = initial_camera\<rparr>"

definition start_client :: "real \<Rightarrow> real \<Rightarrow> page \<Rightarrow> real \<Rightarrow> real \<Rightarrow> vw_snapshot list option \<Rightarrow> client" where
  "start_client loaded now page w h fetched =
     (let v = load_replay fetched (resize w h (new_viewer loaded page));
          c = connect \<lparr>cl_viewer = v, cl_sockets = [], cl_connect_timers = 0, cl_replay_timers = 1\<rparr>;
          d = run_replay_timer now c
      in d\<lparr>cl_viewer := animate (cl_viewer d)\<rparr>)"

end
