(* ===== verification/ViewerLaws.thy ===== *)
theory ViewerLaws
  imports Viewer
begin

text \<open>
  Properties of the browser viewer: the connection as a state machine over every interleaving of
  socket events and timers, the escaping of alarm texts, what a snapshot shows in the scene, the
  replay and the animation.
\<close>

section \<open>Connection\<close>

text \<open>
  What can happen to the page. Socket events follow the WebSocket interface: \<open>open\<close> fires on a
  connecting socket, messages arrive on an open one, and \<open>close\<close> ends every socket once; the
  clock (\<open>performance.now\<close>) does not run backwards.
\<close>

inductive client_step :: "client \<Rightarrow> client \<Rightarrow> bool" where
  Opened: "i < length (cl_sockets c) \<Longrightarrow> cl_sockets c ! i = Connecting \<Longrightarrow>
     client_step c (on_open (c\<lparr>cl_sockets := (cl_sockets c)[i := Open]\<rparr>))"
| Message: "i < length (cl_sockets c) \<Longrightarrow> cl_sockets c ! i = Open \<Longrightarrow> client_step c (on_message parsed c)"
| Failed: "i < length (cl_sockets c) \<Longrightarrow> cl_sockets c ! i \<in> {Connecting, Open} \<Longrightarrow> client_step c (on_error i c)"
| Ended: "i < length (cl_sockets c) \<Longrightarrow> cl_sockets c ! i \<noteq> Closed \<Longrightarrow>
     client_step c (on_close now (c\<lparr>cl_sockets := (cl_sockets c)[i := Closed]\<rparr>))"
| Retry: "0 < cl_connect_timers c \<Longrightarrow> client_step c (connect (c\<lparr>cl_connect_timers := cl_connect_timers c - 1\<rparr>))"
| Replay: "0 < cl_replay_timers c \<Longrightarrow> vw_replay_start (cl_viewer c) \<le> now \<Longrightarrow> client_step c (run_replay_timer now c)"
| Frame: "client_step c (c\<lparr>cl_viewer := animate (cl_viewer c)\<rparr>)"
| Resize: "client_step c (c\<lparr>cl_viewer := resize w h (cl_viewer c)\<rparr>)"
| Reset: "client_step c (c\<lparr>cl_viewer := reset_camera (cl_viewer c)\<rparr>)"
| Toggle: "client_step c (c\<lparr>cl_viewer := toggle_target (cl_viewer c)\<rparr>)"

inductive client_reachable :: "client \<Rightarrow> client \<Rightarrow> bool" for c0 where
  Loaded: "client_reachable c0 c0"
| Step: "client_reachable c0 c \<Longrightarrow> client_step c d \<Longrightarrow> client_reachable c0 d"

definition live :: "client \<Rightarrow> nat" where
  "live c = length (filter (\<lambda>s. s \<noteq> Closed) (cl_sockets c))"

definition client_inv :: "client \<Rightarrow> bool" where
  "client_inv c \<longleftrightarrow> live c + cl_connect_timers c = 1 \<and> cl_replay_timers c = 1 \<and>
     (Open \<in> set (cl_sockets c) \<longrightarrow> vw_connected (cl_viewer c)) \<and>
     (vw_connected (cl_viewer c) \<longrightarrow> Connecting \<notin> set (cl_sockets c) \<and> live c = 1) \<and>
     (pg_text (vw_page (cl_viewer c)) ''connection'' = ''LIVE'' \<longleftrightarrow> vw_connected (cl_viewer c))"

lemma filter_update:
  "i < length xs \<Longrightarrow> length (filter P (xs[i := x])) + (if P (xs ! i) then 1 else 0) =
     length (filter P xs) + (if P x then 1 else 0)"
proof (induction xs arbitrary: i)
  case (Cons y ys)
  then show ?case by (cases i) auto
qed simp

lemma other_sockets_closed:
  assumes "length (filter (\<lambda>s. s \<noteq> Closed) xs) = 1" and "i < length xs" and "xs ! i \<noteq> Closed"
  shows "set (xs[i := x]) \<subseteq> {x, Closed}" and "length (filter (\<lambda>s. s \<noteq> Closed) (xs[i := Closed])) = 0"
proof -
  show none: "length (filter (\<lambda>s. s \<noteq> Closed) (xs[i := Closed])) = 0"
    using filter_update [OF assms(2), of "\<lambda>s. s \<noteq> Closed" Closed] assms(1,3) by simp
  then have "set (xs[i := Closed]) \<subseteq> {Closed}" by (auto simp: filter_empty_conv)
  moreover have "set (xs[i := x]) \<subseteq> insert x (set (xs[i := Closed]))"
    using set_update_subset_insert [of "xs[i := Closed]" i x] by simp
  ultimately show "set (xs[i := x]) \<subseteq> {x, Closed}" by blast
qed

lemma live_pos: "i < length (cl_sockets c) \<Longrightarrow> cl_sockets c ! i \<noteq> Closed \<Longrightarrow> 1 \<le> live c"
  using nth_mem [of i "cl_sockets c"] by (auto simp: live_def Suc_le_eq filter_empty_conv)

lemma viewer_frames [simp]:
  "vw_connected (update_ui s v) = vw_connected v" "vw_replay (update_ui s v) = vw_replay v"
  "vw_replay_start (update_ui s v) = vw_replay_start v"
  "vw_connected (badge t k v) = vw_connected v" "vw_replay (badge t k v) = vw_replay v"
  "vw_replay_start (badge t k v) = vw_replay_start v"
  "vw_connected (animate v) = vw_connected v" "vw_page (animate v) = vw_page v"
  "vw_connected (resize w h v) = vw_connected v" "vw_page (resize w h v) = vw_page v"
  "vw_connected (reset_camera v) = vw_connected v" "vw_page (reset_camera v) = vw_page v"
  "vw_connected (toggle_target v) = vw_connected v" "vw_page (toggle_target v) = vw_page v"
  by (simp_all add: update_ui_def update_scene_def badge_def animate_def resize_def reset_camera_def toggle_target_def Let_def)

lemma badge_text [simp]: "pg_text (vw_page (badge t k v)) ''connection'' = t"
  by (simp add: badge_def)

lemma update_ui_badge [simp]:
  "pg_text (vw_page (update_ui s v)) ''connection'' = pg_text (vw_page v) ''connection''"
  by (simp add: update_ui_def update_scene_def update_page_def set_axis_texts_def Let_def)

lemma js_index_rem:
  assumes "0 \<le> a" and "xs \<noteq> []"
  shows "js_index xs (js_rem a (int (length xs))) = Some (xs ! nat (a mod int (length xs)))"
  using assms by (simp add: js_rem_def js_index_def)

lemma replay_tick_cases:
  assumes "vw_replay_start v \<le> now"
  shows "replay_tick now v = (if \<not> vw_connected v \<and> vw_replay v \<noteq> []
     then let frame = vw_replay v ! nat (\<lfloor>(now - vw_replay_start v) / 100\<rfloor> mod int (length (vw_replay v)))
          in (Inr (), badge ''RECORDED DEMO'' ''badge warning'' (update_ui frame (v\<lparr>vw_last := Some frame\<rparr>)))
     else (Inr (), v))"
proof -
  have "0 \<le> \<lfloor>(now - vw_replay_start v) / 100\<rfloor>" using assms by simp
  then show ?thesis
    by (simp add: replay_tick_def js_index_rem Let_def)
qed

lemma client_step_inv: "client_step c d \<Longrightarrow> client_inv c \<Longrightarrow> client_inv d"
proof (induction rule: client_step.induct)
  case (Opened i c)
  have "live c \<ge> 1" using live_pos [OF Opened(1)] Opened(2) by simp
  then have one: "length (filter (\<lambda>s. s \<noteq> Closed) (cl_sockets c)) = 1" "cl_connect_timers c = 0"
    using Opened(3) by (auto simp: client_inv_def live_def)
  have "set ((cl_sockets c)[i := Open]) \<subseteq> {Open, Closed}"
    by (rule other_sockets_closed(1) [OF one(1) Opened(1)]) (simp add: Opened(2))
  moreover have "length (filter (\<lambda>s. s \<noteq> Closed) ((cl_sockets c)[i := Open])) = 1"
    using filter_update [OF Opened(1), of "\<lambda>s. s \<noteq> Closed" Open] one Opened(2) by simp
  ultimately show ?case
    using Opened(3) one by (auto simp: client_inv_def live_def on_open_def)
next
  case (Message i c parsed)
  then show ?case by (auto simp: client_inv_def live_def on_message_def split: option.split)
next
  case (Failed i c)
  have kept: "length (filter (\<lambda>s. s \<noteq> Closed) ((cl_sockets c)[i := Closing])) = length (filter (\<lambda>s. s \<noteq> Closed) (cl_sockets c))"
    using filter_update [OF Failed(1), of "\<lambda>s. s \<noteq> Closed" Closing] Failed(2) by auto
  have "set ((cl_sockets c)[i := Closing]) \<subseteq> insert Closing (set (cl_sockets c))"
    by (rule set_update_subset_insert)
  then show ?case using Failed(3) kept by (auto simp: client_inv_def live_def on_error_def)
next
  case (Ended i c now)
  have "live c \<ge> 1" using Ended(1,2) by (rule live_pos)
  then have one: "length (filter (\<lambda>s. s \<noteq> Closed) (cl_sockets c)) = 1" "cl_connect_timers c = 0"
    using Ended(3) by (auto simp: client_inv_def live_def)
  have "set ((cl_sockets c)[i := Closed]) \<subseteq> {Closed}"
    using other_sockets_closed(1) [OF one(1) Ended(1) Ended(2), of Closed] by simp
  then show ?case
    using Ended(3) one other_sockets_closed(2) [OF one(1) Ended(1) Ended(2)]
    by (auto simp: client_inv_def live_def on_close_def)
next
  case (Retry c)
  then have "live c = 0" "cl_connect_timers c = 1" unfolding client_inv_def by linarith+
  then show ?case using Retry(2) by (auto simp: client_inv_def live_def connect_def)
next
  case (Replay c now)
  then show ?case
    by (auto simp: client_inv_def live_def run_replay_timer_def replay_tick_cases Let_def)
qed (auto simp: client_inv_def live_def)

lemma start_client_inv:
  assumes "pg_text page ''connection'' = ''CONNECTING''" and "loaded \<le> now"
  shows "client_inv (start_client loaded now page w h fetched)"
proof -
  let ?v = "load_replay fetched (resize w h (new_viewer loaded page))"
  have v: "\<not> vw_connected ?v" "vw_replay_start ?v = loaded" "pg_text (vw_page ?v) ''connection'' = ''CONNECTING''"
    using assms(1) by (simp_all add: load_replay_def resize_def new_viewer_def)
  then show ?thesis
    using assms(2)
    by (simp add: start_client_def run_replay_timer_def replay_tick_cases Let_def connect_def client_inv_def live_def)
qed

lemma client_reachable_inv: "client_reachable c0 c \<Longrightarrow> client_inv c0 \<Longrightarrow> client_inv c"
  by (induction rule: client_reachable.induct) (auto intro: client_step_inv)

text \<open>
  C18. One feed at a time, and never a dead page: after loading, whatever order socket events, timers,
  frames and clicks come in, either exactly one socket is not closed and no reconnect is pending, or
  every socket is closed and exactly one reconnect timer is pending; and exactly one replay timer
  stays armed, so neither a lost connection nor a replayed frame ends the viewer.
\<close>

theorem one_live_socket_or_retry:
  assumes "client_reachable (start_client loaded now page w h fetched) c"
    and "pg_text page ''connection'' = ''CONNECTING''" and "loaded \<le> now"
  shows "((length (filter (\<lambda>s. s \<noteq> Closed) (cl_sockets c)) = 1 \<and> cl_connect_timers c = 0)
     \<or> (set (cl_sockets c) \<subseteq> {Closed} \<and> cl_connect_timers c = 1)) \<and> cl_replay_timers c = 1"
proof -
  have inv: "client_inv c" by (rule client_reachable_inv [OF assms(1) start_client_inv [OF assms(2,3)]])
  then consider "live c = 1" "cl_connect_timers c = 0" | "live c = 0" "cl_connect_timers c = 1"
    by (cases "live c") (auto simp: client_inv_def)
  then show ?thesis
    using inv by cases (auto simp: client_inv_def live_def filter_empty_conv)
qed

definition demo_page :: page where
  "demo_page = \<lparr>pg_text = (\<lambda>_. ''--'')(''connection'' := ''CONNECTING''), pg_class = (\<lambda>_. []), pg_alarms_html = []\<rparr>"

definition demo_client :: client where
  "demo_client = start_client 0 1 demo_page 800 600 None"

lemma demo_client_reachable:
  "client_reachable demo_client (on_open (demo_client\<lparr>cl_sockets := (cl_sockets demo_client)[0 := Open]\<rparr>))"
  by (intro client_reachable.Step [OF client_reachable.Loaded] client_step.Opened)
    (simp_all add: demo_client_def start_client_def run_replay_timer_def connect_def Let_def)

lemma one_live_socket_witness:
  "((length (filter (\<lambda>s. s \<noteq> Closed) (cl_sockets demo_client)) = 1 \<and> cl_connect_timers demo_client = 0)
     \<or> (set (cl_sockets demo_client) \<subseteq> {Closed} \<and> cl_connect_timers demo_client = 1)) \<and> cl_replay_timers demo_client = 1"
  unfolding demo_client_def
  by (rule one_live_socket_or_retry [OF client_reachable.Loaded]) (simp_all add: demo_page_def)

text \<open>
  The badge tells the truth: in every reachable state of the page it reads \<open>LIVE\<close> exactly when the
  viewer takes itself for connected, every open socket means connected, and while it is connected no
  reconnect is pending and no socket is still connecting. Recorded frames are therefore never
  mistaken for live ones.
\<close>

theorem live_badge_iff_connected:
  assumes "client_reachable (start_client loaded now page w h fetched) c"
    and "pg_text page ''connection'' = ''CONNECTING''" and "loaded \<le> now"
  shows "(pg_text (vw_page (cl_viewer c)) ''connection'' = ''LIVE'' \<longleftrightarrow> vw_connected (cl_viewer c)) \<and>
    (Open \<in> set (cl_sockets c) \<longrightarrow> vw_connected (cl_viewer c)) \<and>
    (vw_connected (cl_viewer c) \<longrightarrow> cl_connect_timers c = 0 \<and> Connecting \<notin> set (cl_sockets c))"
proof -
  have "client_inv c" by (rule client_reachable_inv [OF assms(1) start_client_inv [OF assms(2,3)]])
  then show ?thesis by (auto simp: client_inv_def)
qed

lemma live_badge_witness:
  "pg_text (vw_page (cl_viewer (on_open (demo_client\<lparr>cl_sockets := (cl_sockets demo_client)[0 := Open]\<rparr>)))) ''connection'' = ''LIVE''"
  using live_badge_iff_connected [OF demo_client_reachable [unfolded demo_client_def]]
  by (simp add: demo_client_def demo_page_def) (simp add: on_open_def)

section \<open>Escaping\<close>

text \<open>The browser's reading of the five entities the viewer writes; other text stands for itself.\<close>

fun unescape_html :: "string \<Rightarrow> string" where
  "unescape_html [] = []"
| "unescape_html (c # r) =
     (if c \<noteq> CHR ''&'' then c # unescape_html r
      else if take 4 r = ''amp;'' then CHR ''&'' # unescape_html (drop 4 r)
      else if take 3 r = ''lt;'' then CHR ''<'' # unescape_html (drop 3 r)
      else if take 3 r = ''gt;'' then CHR ''>'' # unescape_html (drop 3 r)
      else if take 5 r = ''quot;'' then CHR 34 # unescape_html (drop 5 r)
      else if take 5 r = ''#039;'' then CHR 39 # unescape_html (drop 5 r)
      else c # unescape_html r)"

lemma escape_clean: "set (escape_html v) \<inter> {CHR ''<'', CHR ''>'', CHR 34, CHR 39} = {}"
  by (induction v) (auto simp: escape_html_def escape_char_def)

text \<open>
  Escaping loses nothing and leaves no markup: reading the escaped text back gives the original
  text, and the escaped text contains no angle bracket and no quotation mark.
\<close>

theorem escape_round_trip:
  "unescape_html (escape_html value) = value \<and> set (escape_html value) \<inter> {CHR ''<'', CHR ''>'', CHR 34, CHR 39} = {}"
proof (induction "value")
  case (Cons c cs)
  have "unescape_html (escape_char c @ escape_html cs) = c # unescape_html (escape_html cs)"
    by (simp add: escape_char_def)
  moreover have "set (escape_char c) \<inter> {CHR ''<'', CHR ''>'', CHR 34, CHR 39} = {}"
    by (auto simp: escape_char_def)
  ultimately show ?case using Cons by (auto simp: escape_html_def)
qed (simp add: escape_html_def)

lemma count_escape: "count_list (escape_html v) (CHR ''<'') = 0"
  using escape_clean [of v] by (auto simp: count_list_0_iff)

text \<open>
  An alarm cannot inject markup: whatever codes and messages the alarms carry, the alarm list's
  markup has exactly four tags per alarm (a \<open>div\<close> and a \<open>strong\<close>, opened and closed) and none when
  there is no alarm.
\<close>

theorem alarm_markup_fixed:
  "count_list (alarms_html alarms) (CHR ''<'') = 4 * length alarms"
proof -
  have "count_list (alarm_html a) (CHR ''<'') = 4" for a
    by (simp add: alarm_html_def quote_def em_dash_def count_escape)
  then have "count_list (concat (map alarm_html alarms)) (CHR ''<'') = 4 * length alarms"
    by (induction alarms) simp_all
  then show ?thesis
    by (simp add: alarms_html_def)
qed

section \<open>The scene\<close>

text \<open>
  What a snapshot shows: after \<open>updateUi\<close> the bridge is red exactly for \<open>Faulted\<close> and
  \<open>RecoveryRequired\<close>, the door is open exactly when the guard is, the ghost stands at the commanded
  target, the gantry is sent to the actual position, and the workpiece is visible exactly when there
  is an active part, hanging from the carriage exactly when it is attached to the gripper.
\<close>

theorem scene_shows_snapshot:
  fixes v :: viewer
  assumes "sc_work_parent (vw_scene v) \<in> {Some N_scene, Some N_yCarriage}"
    and "c = vw_scene (update_ui s v)"
  shows "(sc_bridge_material c = MAT_carriageFault \<longleftrightarrow> vs_execution s \<in> {''Faulted'', ''RecoveryRequired''})
    \<and> (sc_head_material c = MAT_carriageFault \<longleftrightarrow> sc_bridge_material c = MAT_carriageFault)
    \<and> (sc_door_x c = 3.83 \<longleftrightarrow> vs_guard_closed s) \<and> (sc_door_material c = MAT_safetyFault \<longleftrightarrow> \<not> vs_guard_closed s)
    \<and> sc_ghost_position c = (va_target (vs_x s) * 3.05, 1.36, (va_target (vs_y s) - 0.45) * 3.25)
    \<and> vw_target_x (update_ui s v) = va_actual (vs_x s) \<and> vw_target_y (update_ui s v) = va_actual (vs_y s)
    \<and> sc_work_parent c \<in> {Some N_scene, Some N_yCarriage}
    \<and> (sc_work_visible c \<longleftrightarrow> vs_part s \<noteq> None)
    \<and> (case vs_part s of None \<Rightarrow> True | Some part \<Rightarrow> sc_work_parent c = Some N_yCarriage \<longleftrightarrow> vp_attached part)"
  using assms(1)
  by (auto simp: assms(2) update_ui_def update_scene_def scene_of_def shows_fault_def to_world_x_def to_world_z_def Let_def
      split: option.split)

definition demo_snapshot :: vw_snapshot where
  "demo_snapshot = \<lparr>vs_mode = ''Automatic'', vs_execution = ''Running'', vs_step = ''MoveToPick'',
     vs_x = \<lparr>va_actual = 0, va_target = 0.8, va_error = 0\<rparr>, vs_y = \<lparr>va_actual = 0, va_target = 0.3, va_error = 0\<rparr>,
     vs_guard_closed = True, vs_motion_permitted = True, vs_reasons = [],
     vs_part = Some \<lparr>vp_id = Some ''A-PART-000001'', vp_attached = False\<rparr>,
     vs_order = Some \<lparr>vo_id = Some ''A'', vo_completed = 0, vo_target = 1\<rparr>, vs_oee = 0.98, vs_mes_health = ''healthy'',
     vs_outbox_pending = 0, vs_opcua_enabled = False, vs_alarms = []\<rparr>"

lemma scene_shows_witness:
  "sc_bridge_material (vw_scene (update_ui demo_snapshot (new_viewer 0 demo_page))) \<noteq> MAT_carriageFault"
  using scene_shows_snapshot [of "new_viewer 0 demo_page" _ demo_snapshot, OF _ refl]
  by (simp add: new_viewer_def initial_scene_def demo_snapshot_def)

text \<open>
  A part that is not yet picked is drawn at the wrong station: for a machine moving to the pick
  position with an open gripper the workpiece is put at the place station, because an unattached
  part is always drawn there; and the tool never stands over the drawn pick station when it picks
  the default recipe's part, while it does stand over the other two.
\<close>

theorem unpicked_part_at_place_station:
  assumes "vs_part s = Some part" and "\<not> vp_attached part"
  shows "fst (sc_work_position (vw_scene (update_ui s v))) = fst (mh_position (station_meshes ! 2))
    \<and> snd (snd (sc_work_position (vw_scene (update_ui s v)))) = snd (snd (mh_position (station_meshes ! 2)))
    \<and> \<bar>to_world_z 0.3 - snd (snd (mh_position (station_meshes ! 0)))\<bar> > snd (snd (mh_size (station_meshes ! 0))) / 2
    \<and> \<bar>to_world_z 0.9 - snd (snd (mh_position (station_meshes ! 1)))\<bar> < snd (snd (mh_size (station_meshes ! 1))) / 2
    \<and> \<bar>to_world_z 0.6 - snd (snd (mh_position (station_meshes ! 2)))\<bar> < snd (snd (mh_size (station_meshes ! 2))) / 2"
  using assms by (simp add: update_ui_def update_scene_def scene_of_def station_meshes_def box_def to_world_z_def Let_def)

lemma unpicked_part_witness:
  "fst (sc_work_position (vw_scene (update_ui demo_snapshot (new_viewer 0 demo_page)))) = fst (mh_position (station_meshes ! 2))"
  using unpicked_part_at_place_station [of demo_snapshot "\<lparr>vp_id = Some ''A-PART-000001'', vp_attached = False\<rparr>" "new_viewer 0 demo_page"]
  by (simp add: demo_snapshot_def)

section \<open>Replay and animation\<close>

text \<open>
  The replay plays the recording in order at ten frames a second and starts over at its end: while
  disconnected with a recording loaded, a tick \<open>n\<close> full tenths of a second after the start shows frame
  \<open>n mod length\<close>, never fails, and marks the page as a recorded demo; while connected it changes
  nothing.
\<close>

theorem replay_frame_shown:
  assumes "vw_replay_start v + 100 * real n \<le> now" and "now < vw_replay_start v + 100 * real (n + 1)"
    and "vw_replay v \<noteq> []"
  shows "if vw_connected v then replay_tick now v = (Inr (), v)
    else \<not> throws (replay_tick now v) \<and> vw_last (snd (replay_tick now v)) = Some (vw_replay v ! (n mod length (vw_replay v)))
      \<and> pg_text (vw_page (snd (replay_tick now v))) ''connection'' = ''RECORDED DEMO''
      \<and> pg_text (vw_page (snd (replay_tick now v))) ''mode'' = vs_mode (vw_replay v ! (n mod length (vw_replay v)))"
proof -
  have "\<lfloor>(now - vw_replay_start v) / 100\<rfloor> = int n"
    using assms(1,2) by (intro floor_unique) (simp_all add: field_simps)
  moreover have "nat (int n mod int (length (vw_replay v))) = n mod length (vw_replay v)"
    by (simp add: nat_mod_as_int)
  moreover have "vw_replay_start v \<le> now"
    using assms(1) by (smt (verit) of_nat_0_le_iff)
  ultimately show ?thesis
    using assms(3)
    by (simp add: replay_tick_cases Let_def badge_def update_ui_def update_scene_def update_page_def set_axis_texts_def)
qed

lemma replay_frame_witness:
  "vw_last (snd (replay_tick 250 ((new_viewer 0 demo_page)\<lparr>vw_replay := [demo_snapshot, demo_snapshot\<lparr>vs_mode := ''Manual''\<rparr>]\<rparr>))) = Some demo_snapshot"
  using replay_frame_shown [of "(new_viewer 0 demo_page)\<lparr>vw_replay := [demo_snapshot, demo_snapshot\<lparr>vs_mode := ''Manual''\<rparr>]\<rparr>" 2 250]
  by (simp add: new_viewer_def numeral_2_eq_2)

fun animate_frames :: "nat \<Rightarrow> viewer \<Rightarrow> viewer" where
  "animate_frames 0 v = v"
| "animate_frames (Suc n) v = animate_frames n (animate v)"

lemma animate_frames_error:
  "vw_target_x (animate_frames n v) = vw_target_x v \<and> vw_target_y (animate_frames n v) = vw_target_y v \<and>
   vw_target_x v - vw_displayed_x (animate_frames n v) = 0.86 ^ n * (vw_target_x v - vw_displayed_x v) \<and>
   vw_target_y v - vw_displayed_y (animate_frames n v) = 0.86 ^ n * (vw_target_y v - vw_displayed_y v)"
proof (induction n v rule: animate_frames.induct)
  case (2 n v)
  have t: "vw_target_x (animate v) = vw_target_x v" "vw_target_y (animate v) = vw_target_y v"
    "vw_target_x v - vw_displayed_x (animate v) = 0.86 * (vw_target_x v - vw_displayed_x v)"
    "vw_target_y v - vw_displayed_y (animate v) = 0.86 * (vw_target_y v - vw_displayed_y v)"
    by (simp_all add: animate_def Let_def) (simp_all add: field_simps)
  show ?case using 2 t by simp
qed simp

text \<open>
  The drawn gantry follows the machine: after \<open>n\<close> frames without a new snapshot the displayed
  position is off by \<open>0.86 ^ n\<close> times the initial distance (so it never overshoots), and for every
  tolerance there is a number of frames after which it stays within it.
\<close>

theorem animation_converges:
  "vw_target_x v - vw_displayed_x (animate_frames n v) = 0.86 ^ n * (vw_target_x v - vw_displayed_x v)
   \<and> vw_target_y v - vw_displayed_y (animate_frames n v) = 0.86 ^ n * (vw_target_y v - vw_displayed_y v)
   \<and> (\<lambda>k. vw_displayed_x (animate_frames k v)) \<longlonglongrightarrow> vw_target_x v
   \<and> (\<lambda>k. vw_displayed_y (animate_frames k v)) \<longlonglongrightarrow> vw_target_y v"
proof -
  have lim: "(\<lambda>k. t - 0.86 ^ k * (t - d)) \<longlonglongrightarrow> t" for t d :: real
  proof -
    have "(\<lambda>k. (0.86 :: real) ^ k) \<longlonglongrightarrow> 0" by (rule LIMSEQ_power_zero) simp
    from tendsto_diff [OF tendsto_const [of t] tendsto_mult_left_zero [OF this, of "t - d"]] show ?thesis by simp
  qed
  have x: "vw_displayed_x (animate_frames k v) = vw_target_x v - 0.86 ^ k * (vw_target_x v - vw_displayed_x v)" for k
    using animate_frames_error [of k v] by simp
  have y: "vw_displayed_y (animate_frames k v) = vw_target_y v - 0.86 ^ k * (vw_target_y v - vw_displayed_y v)" for k
    using animate_frames_error [of k v] by simp
  show ?thesis
    using lim [of "vw_target_x v" "vw_displayed_x v"] lim [of "vw_target_y v" "vw_displayed_y v"] by (simp only: x y) simp
qed

end
