(* ===== verification/Wire.thy ===== *)
theory Wire
  imports CoordinatorLaws ViewerLaws
begin

text \<open>
  From the coordinator to the page: the snapshot that \<open>WebSocketStatePublisher.PublishAsync\<close> serialises
  with \<open>JsonDefaults\<close> (camel-case names, enumerations by name) as the viewer parses it, and what the
  operator sees of a reachable cell.

  \<^item> Serialising and parsing are the libraries'; the model keeps what they promise: a property arrives
    under its camel-case name with its value, an enumeration as its member's name, a string as its UTF-8
    bytes, a missing reference as \<open>null\<close>.
\<close>

definition utf8_char :: "char \<Rightarrow> string" where
  "utf8_char c = (let n = of_char c :: nat in
     if n < 128 then [c] else [char_of (192 + n div 64), char_of (128 + n mod 64)])"

definition utf8 :: "string \<Rightarrow> string" where
  "utf8 s = concat (map utf8_char s)"

definition axis_to_viewer :: "axis_snapshot \<Rightarrow> vw_axis" where
  "axis_to_viewer a = \<lparr>va_actual = ax_actual a, va_target = ax_target a, va_error = ax_following_error a\<rparr>"

definition order_to_viewer :: "order_snapshot \<Rightarrow> vw_order" where
  "order_to_viewer p = \<lparr>vo_id = Some (utf8 (os_id p)), vo_completed = os_completed p, vo_target = os_target p\<rparr>"

definition part_to_viewer :: "part_snapshot \<Rightarrow> vw_part" where
  "part_to_viewer p = \<lparr>vp_id = Some (utf8 (part_id p)), vp_attached = part_attached p\<rparr>"

definition alarm_to_viewer :: "alarm_snapshot \<Rightarrow> vw_alarm" where
  "alarm_to_viewer a = \<lparr>vl_code = utf8 (as_code a), vl_message = utf8 (as_message a)\<rparr>"

definition snapshot_to_viewer :: "machine_snapshot \<Rightarrow> vw_snapshot" where
  "snapshot_to_viewer m =
     \<lparr>vs_mode = mode_name (st_mode m), vs_execution = execution_name (st_execution m), vs_step = step_name (st_step m),
      vs_x = axis_to_viewer (st_x m), vs_y = axis_to_viewer (st_y m),
      vs_guard_closed = il_guard_closed (st_interlocks m), vs_motion_permitted = il_motion_permitted (st_interlocks m),
      vs_reasons = map utf8 (il_reasons (st_interlocks m)), vs_part = map_option part_to_viewer (st_active_part m),
      vs_order = map_option order_to_viewer (prod_order (st_production m)), vs_oee = prod_oee (st_production m),
      vs_mes_health = integration_health_name (in_mes_health (st_integration m)),
      vs_outbox_pending = in_outbox_pending (st_integration m), vs_opcua_enabled = in_opcua_enabled (st_integration m),
      vs_alarms = map alarm_to_viewer (st_alarms m)\<rparr>"

lemma execution_name_fault: "execution_name e \<in> {''Faulted'', ''RecoveryRequired''} \<longleftrightarrow> e \<in> {ES_Faulted, ES_RecoveryRequired}"
  by (cases e) simp_all

lemma snapshot_unsafe_shows:
  assumes "snapshot_unsafe ops host u = (m, t)"
  shows "st_execution m = co_exec t" "il_guard_closed (st_interlocks m) = co_guard_closed t"
    "il_motion_permitted (st_interlocks m) \<longleftrightarrow> co_estop_ok t \<and> co_guard_closed t \<and> co_bus_healthy t
       \<and> \<not> ms_any_faulted (mo_snapshot ops (co_motion t) (motion_state_for (co_exec t)))"
    "prod_order (st_production m) = map_option order_to_snapshot (co_order t)"
proof -
  have m: "m = fst (snapshot_unsafe ops host u)" and t: "t = u\<lparr>co_reads := co_reads u + 1\<rparr>"
    using assms by (simp_all add: snapshot_unsafe_def Let_def)
  show "st_execution m = co_exec t" "il_guard_closed (st_interlocks m) = co_guard_closed t"
    "il_motion_permitted (st_interlocks m) \<longleftrightarrow> co_estop_ok t \<and> co_guard_closed t \<and> co_bus_healthy t
       \<and> \<not> ms_any_faulted (mo_snapshot ops (co_motion t) (motion_state_for (co_exec t)))"
    "prod_order (st_production m) = map_option order_to_snapshot (co_order t)"
    by (simp_all add: m t snapshot_unsafe_def build_interlocks_def production_of_def Let_def)
qed

lemma step_snapshot_is_unsafe:
  assumes "step_snapshot ops host dt s = (Inr m, t)"
  shows "\<exists>u. snapshot_unsafe ops host u = (m, t)"
proof (cases "fst (step_machine ops dt s)")
  case (Inr x)
  then show ?thesis
    using assms by (intro exI [of _ "snd (step_machine ops dt s)"]) (simp add: step_snapshot_def chain_def Let_def prod_eq_iff)
qed (use assms in \<open>simp add: step_snapshot_def chain_def\<close>)

lemma page_texts:
  "pg_class (vw_page (update_ui s v)) ''interlocks'' = (if vs_motion_permitted s then ''ok'' else ''error'')"
  "pg_text (vw_page (update_ui s v)) ''order'' = order_text (vs_order s)"
  "pg_text (vw_page (update_ui s v)) ''progress'' = progress_text (vs_order s)"
  by (simp_all add: update_ui_def update_scene_def update_page_def set_axis_texts_def Let_def)

text \<open>
  C5. What the operator sees is the state of the cell: after every tick of a reachable cell, the live page
  that receives its snapshot paints the bridge and the tool head in the fault colour exactly if the
  machine is faulted or waits for recovery, draws the door closed exactly if the guard is, calls motion
  permitted exactly if no interlock blocks it, and never shows a machine in automatic operation
  without the order it works on.
\<close>

theorem page_shows_cell:
  assumes "reachable cell_ops (new_coordinator recipe new_cell_motion) s" and "recipe_ok recipe" and "0 < dt"
    and "step_snapshot cell_ops host dt s = (Inr m, t)"
    and "sc_work_parent (vw_scene (cl_viewer c)) \<in> {Some N_scene, Some N_yCarriage}"
    and "v = cl_viewer (on_message (Some (snapshot_to_viewer m)) c)"
  shows "(sc_bridge_material (vw_scene v) = MAT_carriageFault \<longleftrightarrow> co_exec t \<in> {ES_Faulted, ES_RecoveryRequired})
    \<and> (sc_head_material (vw_scene v) = MAT_carriageFault \<longleftrightarrow> co_exec t \<in> {ES_Faulted, ES_RecoveryRequired})
    \<and> (sc_door_x (vw_scene v) = 3.83 \<longleftrightarrow> co_guard_closed t)
    \<and> (pg_class (vw_page v) ''interlocks'' = ''ok'' \<longleftrightarrow> co_estop_ok t \<and> co_guard_closed t \<and> co_bus_healthy t
         \<and> \<not> sa_faulted (sm_x (fi_inner (co_motion t))) \<and> \<not> sa_faulted (sm_y (fi_inner (co_motion t))))
    \<and> (co_exec t \<in> automatic_states \<longrightarrow> (\<exists>p. co_order t = Some p \<and> pg_text (vw_page v) ''order'' = utf8 (po_id p)
         \<and> pg_text (vw_page v) ''progress'' = show_int (po_completed p) @ '' / '' @ show_int (po_target p)))"
proof -
  have "coord_call cell_ops s (snd (step_snapshot cell_ops host dt s))" using assms(3) by (rule coord_call.Tick)
  then have "reachable cell_ops (new_coordinator recipe new_cell_motion) t"
    using assms(1,4) by (auto intro: reachable.Call)
  note inv = cell_reachable_inv [OF this assms(2)]
  have v: "v = update_ui (snapshot_to_viewer m) ((cl_viewer c)\<lparr>vw_last := Some (snapshot_to_viewer m)\<rparr>)"
    by (simp add: assms(6) on_message_def)
  obtain u where u: "snapshot_unsafe cell_ops host u = (m, t)" using step_snapshot_is_unsafe [OF assms(4)] by blast
  note seen = snapshot_unsafe_shows [OF u]
  have scene: "vs_execution (snapshot_to_viewer m) = execution_name (co_exec t)" "vs_guard_closed (snapshot_to_viewer m) = co_guard_closed t"
    "vs_motion_permitted (snapshot_to_viewer m) \<longleftrightarrow> co_estop_ok t \<and> co_guard_closed t \<and> co_bus_healthy t
       \<and> \<not> sa_faulted (sm_x (fi_inner (co_motion t))) \<and> \<not> sa_faulted (sm_y (fi_inner (co_motion t)))"
    using seen(1-3) by (simp_all add: snapshot_to_viewer_def)
  have orders: "\<exists>p. co_order t = Some p \<and> vs_order (snapshot_to_viewer m) = Some (order_to_viewer (order_to_snapshot p))"
    if "co_exec t \<in> automatic_states"
    using coord_inv_open [OF inv that] seen(4) by (auto simp: open_order_def snapshot_to_viewer_def)
  have parent: "sc_work_parent (vw_scene ((cl_viewer c)\<lparr>vw_last := Some (snapshot_to_viewer m)\<rparr>)) \<in> {Some N_scene, Some N_yCarriage}"
    using assms(5) by simp
  note r = scene_shows_snapshot [OF parent refl, of "snapshot_to_viewer m", folded v, unfolded scene]
  have sc: "(sc_bridge_material (vw_scene v) = MAT_carriageFault \<longleftrightarrow> co_exec t \<in> {ES_Faulted, ES_RecoveryRequired})
      \<and> (sc_head_material (vw_scene v) = MAT_carriageFault \<longleftrightarrow> co_exec t \<in> {ES_Faulted, ES_RecoveryRequired})
      \<and> (sc_door_x (vw_scene v) = 3.83 \<longleftrightarrow> co_guard_closed t)"
    using r execution_name_fault [of "co_exec t"] by metis
  have cls: "pg_class (vw_page v) ''interlocks'' = ''ok'' \<longleftrightarrow> vs_motion_permitted (snapshot_to_viewer m)"
    by (simp add: v page_texts)
  have texts: "pg_text (vw_page v) ''order'' = utf8 (po_id p)
      \<and> pg_text (vw_page v) ''progress'' = show_int (po_completed p) @ '' / '' @ show_int (po_target p)"
    if "vs_order (snapshot_to_viewer m) = Some (order_to_viewer (order_to_snapshot p))" for p
    by (simp add: v page_texts that order_text_def progress_text_def order_to_viewer_def order_to_snapshot_def)
  show ?thesis using sc cls [unfolded scene(3)] orders texts by blast
qed

lemma page_shows_cell_witness:
  "\<forall>host. \<exists>m t. step_snapshot cell_ops host (1 / 100) resumed_cell = (Inr m, t)
     \<and> (sc_bridge_material (vw_scene (cl_viewer (on_message (Some (snapshot_to_viewer m)) demo_client))) = MAT_carriageFault
          \<longleftrightarrow> co_exec t \<in> {ES_Faulted, ES_RecoveryRequired})"
proof
  fix host
  have "\<not> throws (step_snapshot cell_ops host (1 / 100) resumed_cell)"
    using cell.step_machine_returns [OF cell_reachable_inv [OF resumed_cell_reachable default_recipe_ok], of "1 / 100"] by simp
  then obtain m t where step: "step_snapshot cell_ops host (1 / 100) resumed_cell = (Inr m, t)" by (blast elim: not_throws_cases)
  have "sc_work_parent (vw_scene (cl_viewer demo_client)) \<in> {Some N_scene, Some N_yCarriage}"
    by (simp add: demo_client_def start_client_def run_replay_timer_def connect_def replay_tick_def load_replay_def resize_def
      animate_def new_viewer_def initial_scene_def Let_def)
  from page_shows_cell [OF resumed_cell_reachable default_recipe_ok _ step this refl] step
  show "\<exists>m t. step_snapshot cell_ops host (1 / 100) resumed_cell = (Inr m, t)
     \<and> (sc_bridge_material (vw_scene (cl_viewer (on_message (Some (snapshot_to_viewer m)) demo_client))) = MAT_carriageFault
          \<longleftrightarrow> co_exec t \<in> {ES_Faulted, ES_RecoveryRequired})" by auto
qed

end
