(* ===== verification/Stores.thy ===== *)
theory Stores
  imports Cycle "HOL-Library.AList" "HOL-Library.List_Lexorder" "HOL-Library.Char_ord"
begin

text \<open>
  The file stores of \<open>src/VirtualSmartMotionCell.Infrastructure/FileStores.cs\<close>: checkpoint, outbox, recipes and
  the file gateway.

  \<^item> A directory is an association list from paths to contents. A path is a constructor with the part of
    the name that varies; the constant parts of the names are the constructors.
  \<^item> An operation is the list of the file operations it performs, so that a crash is a prefix of the list.
    Opening a file for writing truncates it: until the text is written its content is \<open>Cut\<close>, which
    no reader can parse. \<open>File.Move\<close> within a directory is atomic.
  \<^item> The JSON library is used both ways with the same options; a document read back is the one written.
  \<^item> Every method that changes files holds the semaphore of its store, so it is one step for other callers.
\<close>

section \<open>Files\<close>

datatype 'a content = Whole 'a | Cut

type_synonym ('n, 'a) files = "('n \<times> 'a content) list"

datatype ('n, 'a) file_op = Truncate 'n | Fill 'n 'a | Move 'n 'n | Remove 'n

fun apply_op :: "('n, 'a) file_op \<Rightarrow> ('n, 'a) files \<Rightarrow> ('n, 'a) files" where
  "apply_op (Truncate n) fs = AList.update n Cut fs"
| "apply_op (Fill n v) fs = AList.update n (Whole v) fs"
| "apply_op (Move a b) fs = (case map_of fs a of None \<Rightarrow> fs | Some c \<Rightarrow> AList.update b c (AList.delete a fs))"
| "apply_op (Remove n) fs = AList.delete n fs"

definition run_ops :: "('n, 'a) file_op list \<Rightarrow> ('n, 'a) files \<Rightarrow> ('n, 'a) files" where
  "run_ops ops fs = fold apply_op ops fs"

text \<open>The states in which a crash can leave the directory.\<close>

definition crash_states :: "('n, 'a) file_op list \<Rightarrow> ('n, 'a) files \<Rightarrow> ('n, 'a) files list" where
  "crash_states ops fs = map (\<lambda>k. run_ops (take k ops) fs) [0..<Suc (length ops)]"

definition file_exists :: "('n, 'a) files \<Rightarrow> 'n \<Rightarrow> bool" where
  "file_exists fs n \<longleftrightarrow> map_of fs n \<noteq> None"

text \<open>\<open>File.WriteAllTextAsync\<close>, and writing through a temporary file.\<close>

definition write_all :: "'n \<Rightarrow> 'a \<Rightarrow> ('n, 'a) file_op list" where
  "write_all n v = [Truncate n, Fill n v]"

definition write_through :: "'n \<Rightarrow> 'n \<Rightarrow> 'a \<Rightarrow> ('n, 'a) file_op list" where
  "write_through temporary n v = write_all temporary v @ [Move temporary n]"

lemmas update_map_of [simp] = AList.update_conv' AList.delete_conv'

lemma run_ops_simps [simp]:
  "run_ops [] fs = fs" "run_ops (op # ops) fs = run_ops ops (apply_op op fs)"
  "run_ops (ops @ ops') fs = run_ops ops' (run_ops ops fs)"
  by (simp_all add: run_ops_def)

lemma run_write_through:
  "t \<noteq> n \<Longrightarrow> map_of (run_ops (write_through t n v) fs) = (map_of fs)(t := None, n := Some (Whole v))"
  by (auto simp: write_through_def write_all_def)

lemma distinct_apply_op: "distinct (map fst fs) \<Longrightarrow> distinct (map fst (apply_op op fs))"
  by (cases op) (simp_all add: AList.distinct_update AList.distinct_delete split: option.split)

lemma distinct_run_ops: "distinct (map fst fs) \<Longrightarrow> distinct (map fst (run_ops ops fs))"
  by (induction ops arbitrary: fs) (simp_all add: distinct_apply_op)

text \<open>A crash while a file is written through a temporary one: the file is the old or the new one.\<close>

lemma crash_write_through:
  assumes "gs \<in> set (crash_states (write_through t n v) fs)" and "t \<noteq> n" and "m \<noteq> t"
  shows "map_of gs m = map_of fs m \<or> m = n \<and> map_of gs m = Some (Whole v)"
proof -
  have "gs \<in> {fs, apply_op (Truncate t) fs, run_ops (write_all t v) fs, run_ops (write_through t n v) fs}"
    using assms(1) by (auto simp: crash_states_def write_through_def write_all_def)
  then show ?thesis
    using assms(2,3) by (auto simp: run_write_through write_all_def split: if_splits)
qed

section \<open>Errors\<close>

datatype store_error = JsonException | FileNotFoundException string | InvalidDataException string | InvalidOperationException string

section \<open>The checkpoint store\<close>

datatype checkpoint_path = CK_path | CK_temporary

type_synonym checkpoint_files = "(checkpoint_path, recovery_checkpoint) files"

definition save_checkpoint :: "recovery_checkpoint \<Rightarrow> (checkpoint_path, recovery_checkpoint) file_op list" where
  "save_checkpoint cp = write_through CK_temporary CK_path cp"

definition load_checkpoint :: "checkpoint_files \<Rightarrow> store_error + recovery_checkpoint option" where
  "load_checkpoint fs = (case map_of fs CK_path of
       None \<Rightarrow> Inr None
     | Some (Whole cp) \<Rightarrow> Inr (Some cp)
     | Some Cut \<Rightarrow> Inl JsonException)"

definition clear_checkpoint :: "checkpoint_files \<Rightarrow> (checkpoint_path, recovery_checkpoint) file_op list" where
  "clear_checkpoint fs =
     (if file_exists fs CK_path then [Remove CK_path] else []) @
     (if file_exists fs CK_temporary then [Remove CK_temporary] else [])"

section \<open>The outbox store\<close>

text \<open>\<open>guid\<close> is the text of an event identifier.\<close>

datatype outbox_path = OB_pending string | OB_temporary string | OB_delivered string

type_synonym outbox_files = "(outbox_path, machine_event) files"

definition enqueue_event :: "(reading \<Rightarrow> string) \<Rightarrow> machine_event \<Rightarrow> outbox_files \<Rightarrow> (outbox_path, machine_event) file_op list" where
  "enqueue_event guid ev fs =
     (let name = guid (ev_id ev)
      in if file_exists fs (OB_pending name) then [] else write_through (OB_temporary name) (OB_pending name) ev)"

fun pending_name :: "outbox_path \<times> machine_event content \<Rightarrow> string list" where
  "pending_name (OB_pending n, c) = [n]"
| "pending_name _ = []"

definition pending_names :: "outbox_files \<Rightarrow> string list" where
  "pending_names fs = sort (concat (map pending_name fs))"

fun read_events :: "string list \<Rightarrow> outbox_files \<Rightarrow> store_error + machine_event list" where
  "read_events [] fs = Inr []"
| "read_events (n # ns) fs = (case map_of fs (OB_pending n) of
       Some (Whole ev) \<Rightarrow> (case read_events ns fs of Inl e \<Rightarrow> Inl e | Inr evs \<Rightarrow> Inr (ev # evs))
     | Some Cut \<Rightarrow> Inl JsonException
     | None \<Rightarrow> Inl (FileNotFoundException n))"

definition read_pending :: "int \<Rightarrow> outbox_files \<Rightarrow> store_error + machine_event list" where
  "read_pending maximum fs = read_events (take (nat (max 1 maximum)) (pending_names fs)) fs"

definition mark_delivered :: "string \<Rightarrow> outbox_files \<Rightarrow> (outbox_path, machine_event) file_op list" where
  "mark_delivered event_id fs =
     (if file_exists fs (OB_pending event_id) then [Move (OB_pending event_id) (OB_delivered event_id)] else [])"

definition count_pending :: "outbox_files \<Rightarrow> nat" where
  "count_pending fs = length (pending_names fs)"

text \<open>The store as its clients see it (\<open>IOutboxStore\<close>), and the one of files.\<close>

record 's outbox_ops =
  oo_name :: "machine_event \<Rightarrow> string"
  oo_enqueue :: "machine_event \<Rightarrow> 's \<Rightarrow> 's"
  oo_read :: "int \<Rightarrow> 's \<Rightarrow> store_error + machine_event list"
  oo_mark :: "string \<Rightarrow> 's \<Rightarrow> 's"
  oo_count :: "'s \<Rightarrow> nat"

definition file_outbox :: "(reading \<Rightarrow> string) \<Rightarrow> outbox_files outbox_ops" where
  "file_outbox guid =
     \<lparr>oo_name = (\<lambda>ev. guid (ev_id ev)),
      oo_enqueue = (\<lambda>ev fs. run_ops (enqueue_event guid ev fs) fs),
      oo_read = read_pending,
      oo_mark = (\<lambda>event_id fs. run_ops (mark_delivered event_id fs) fs),
      oo_count = count_pending\<rparr>"

lemma file_outbox_sel [simp]:
  "oo_name (file_outbox guid) ev = guid (ev_id ev)"
  "oo_enqueue (file_outbox guid) ev fs = run_ops (enqueue_event guid ev fs) fs"
  "oo_read (file_outbox guid) = read_pending"
  "oo_mark (file_outbox guid) i fs = run_ops (mark_delivered i fs) fs"
  "oo_count (file_outbox guid) = count_pending"
  by (simp_all add: file_outbox_def)

section \<open>The recipe store\<close>

text \<open>
  The directory of recipes: \<open>RP_recipe\<close> is \<open><name>.v<revision>.json\<close>, \<open>RP_pointer\<close> is \<open>active-recipe.json\<close>. The path
  of the initial recipe, a setting of the host, is an argument; it may lie in the directory.
\<close>

datatype recipe_file = RP_recipe string int | RP_temporary string int | RP_pointer | RP_other string

datatype recipe_document = RecipeDoc machine_recipe | PointerDoc string int

type_synonym recipe_files = "(recipe_file, recipe_document) files"

definition is_letter_or_digit :: "char \<Rightarrow> bool" where
  "is_letter_or_digit c = (let n = (of_char c :: nat)
     in (48 \<le> n \<and> n \<le> 57) \<or> (65 \<le> n \<and> n \<le> 90) \<or> (97 \<le> n \<and> n \<le> 122) \<or> n = 170 \<or> n = 181 \<or> n = 186 \<or>
        (192 \<le> n \<and> n \<noteq> 215 \<and> n \<noteq> 247))"

definition sanitize :: "string \<Rightarrow> string" where
  "sanitize value = map (\<lambda>c. if is_letter_or_digit c \<or> c = CHR ''-'' \<or> c = CHR ''_'' then c else CHR ''-'') value"

definition recipe_path :: "string \<Rightarrow> int \<Rightarrow> recipe_file" where
  "recipe_path recipe_id revision = RP_recipe (sanitize recipe_id) revision"

definition read_recipe :: "recipe_file \<Rightarrow> recipe_files \<Rightarrow> store_error + machine_recipe option" where
  "read_recipe path fs = (case map_of fs path of
       None \<Rightarrow> Inr None
     | Some (Whole (RecipeDoc r)) \<Rightarrow> Inr (Some r)
     | _ \<Rightarrow> Inl JsonException)"

definition load_recipe :: "recipe_file \<Rightarrow> string \<Rightarrow> int \<Rightarrow> recipe_files \<Rightarrow> store_error + machine_recipe option" where
  "load_recipe initial_path recipe_id revision fs =
     (let path = recipe_path recipe_id revision
      in if file_exists fs path then read_recipe path fs
         else if file_exists fs initial_path
         then (case read_recipe initial_path fs of
             Inl e \<Rightarrow> Inl e
           | Inr (Some r) \<Rightarrow> Inr (if eq_ignore_case (rc_id r) recipe_id \<and> rc_revision r = revision then Some r else None)
           | Inr None \<Rightarrow> Inr None)
         else Inr None)"

definition load_initial :: "recipe_file \<Rightarrow> recipe_files \<Rightarrow> store_error + machine_recipe" where
  "load_initial initial_path fs = (case read_recipe initial_path fs of
       Inl e \<Rightarrow> Inl e
     | Inr r \<Rightarrow>
         let initial = (case r of None \<Rightarrow> default_recipe | Some r \<Rightarrow> r); errors = validate_recipe False initial
         in if errors \<noteq> [] then Inl (InvalidDataException (''Invalid recipe: '' @ join_with '' | '' errors))
            else Inr (with_status RL_Active initial))"

definition load_active :: "recipe_file \<Rightarrow> recipe_files \<Rightarrow> store_error + machine_recipe" where
  "load_active initial_path fs = (case map_of fs RP_pointer of
       Some (Whole (PointerDoc recipe_id revision)) \<Rightarrow>
         (case load_recipe initial_path recipe_id revision fs of
            Inl e \<Rightarrow> Inl e
          | Inr (Some selected) \<Rightarrow> Inr (with_status RL_Active selected)
          | Inr None \<Rightarrow> load_initial initial_path fs)
     | None \<Rightarrow> load_initial initial_path fs
     | _ \<Rightarrow> Inl JsonException)"

definition write_recipe :: "machine_recipe \<Rightarrow> (recipe_file, recipe_document) file_op list" where
  "write_recipe recipe =
     write_through (RP_temporary (sanitize (rc_id recipe)) (rc_revision recipe))
       (recipe_path (rc_id recipe) (rc_revision recipe)) (RecipeDoc recipe)"

definition save_draft :: "machine_recipe \<Rightarrow> store_error + (recipe_file, recipe_document) file_op list" where
  "save_draft recipe =
     (let draft = with_status RL_Draft recipe; errors = validate_recipe False draft
      in if errors \<noteq> [] then Inl (InvalidDataException (join_with '' | '' errors)) else Inr (write_recipe draft))"

definition approve_recipe ::
  "recipe_file \<Rightarrow> string \<Rightarrow> int \<Rightarrow> recipe_files \<Rightarrow> store_error + (machine_recipe \<times> (recipe_file, recipe_document) file_op list)" where
  "approve_recipe initial_path recipe_id revision fs = (case load_recipe initial_path recipe_id revision fs of
       Inl e \<Rightarrow> Inl e
     | Inr None \<Rightarrow> Inl (FileNotFoundException ''Recipe was not found.'')
     | Inr (Some recipe) \<Rightarrow>
         let approved = with_status RL_Approved recipe; errors = validate_recipe True approved
         in if errors \<noteq> [] then Inl (InvalidDataException (join_with '' | '' errors))
            else Inr (approved, write_recipe approved))"

definition store_activate ::
  "recipe_file \<Rightarrow> string \<Rightarrow> int \<Rightarrow> recipe_files \<Rightarrow> store_error + (machine_recipe \<times> (recipe_file, recipe_document) file_op list)" where
  "store_activate initial_path recipe_id revision fs = (case load_recipe initial_path recipe_id revision fs of
       Inl e \<Rightarrow> Inl e
     | Inr None \<Rightarrow> Inl (FileNotFoundException ''Recipe was not found.'')
     | Inr (Some recipe) \<Rightarrow>
         if lifecycle_of recipe \<notin> {RL_Approved, RL_Active}
         then Inl (InvalidOperationException ''Only approved recipes may be activated.'')
         else let active = with_status RL_Active recipe
              in Inr (active, write_recipe active @ write_all RP_pointer (PointerDoc recipe_id revision)))"

section \<open>The file gateway\<close>

record file_gateway =
  fg_offline :: bool
  fg_delivered :: "machine_event list"
  fg_receipts :: "string list"

datatype gateway_op = AppendDelivery machine_event | WriteReceipt string

fun apply_gateway_op :: "gateway_op \<Rightarrow> file_gateway \<Rightarrow> file_gateway" where
  "apply_gateway_op (AppendDelivery ev) g = g\<lparr>fg_delivered := fg_delivered g @ [ev]\<rparr>"
| "apply_gateway_op (WriteReceipt name) g = g\<lparr>fg_receipts := name # fg_receipts g\<rparr>"

definition file_deliver_ops :: "(reading \<Rightarrow> string) \<Rightarrow> machine_event \<Rightarrow> file_gateway \<Rightarrow> bool \<times> gateway_op list" where
  "file_deliver_ops guid ev g =
     (if fg_offline g then (False, [])
      else if guid (ev_id ev) \<in> set (fg_receipts g) then (True, [])
      else (True, [AppendDelivery ev, WriteReceipt (guid (ev_id ev))]))"

definition file_deliver :: "(reading \<Rightarrow> string) \<Rightarrow> machine_event \<Rightarrow> file_gateway \<Rightarrow> (string + bool) \<times> file_gateway" where
  "file_deliver guid ev g = (let (accepted, ops) = file_deliver_ops guid ev g in (Inr accepted, fold apply_gateway_op ops g))"

definition file_health :: "file_gateway \<Rightarrow> (string + (integration_health \<times> string)) \<times> file_gateway" where
  "file_health g =
     (Inr (if fg_offline g then (IH_Offline, ''file MES offline marker is present'') else (IH_Healthy, ''file MES gateway ready'')), g)"

end
