(* ===== verification/Production.thy ===== *)
theory Production
  imports Cycle
begin

text \<open>
  The journals of \<open>src/VirtualSmartMotionCell.Infrastructure/FileStores.cs\<close>: files of one JSON document per line, and
  the production repository that keeps orders, parts, cycles and traceability in them.

  \<^item> A line that no reader can parse is \<open>None\<close>. A crash while a line is appended leaves the file without its
    final newline; the next document is then written on the same line.
  \<^item> The start time of a part is the completion reading and how long before it the cycle began.
\<close>

section \<open>Files of lines\<close>

record 'a jsonl =
  jl_lines :: "'a option list"
  jl_open :: bool

definition empty_jsonl :: "'a jsonl" where
  "empty_jsonl = \<lparr>jl_lines = [], jl_open = False\<rparr>"

definition append_line :: "'a \<Rightarrow> 'a jsonl \<Rightarrow> 'a jsonl" where
  "append_line x f =
     (if jl_open f then \<lparr>jl_lines = butlast (jl_lines f) @ [None], jl_open = False\<rparr>
      else f\<lparr>jl_lines := jl_lines f @ [Some x]\<rparr>)"

text \<open>An append that a crash interrupts: a part of the document is written, or all but the newline.\<close>

definition cut_line :: "'a option \<Rightarrow> 'a jsonl \<Rightarrow> 'a jsonl" where
  "cut_line x f =
     \<lparr>jl_lines = (if jl_open f then butlast (jl_lines f) @ [None] else jl_lines f @ [x]), jl_open = True\<rparr>"

definition read_lines :: "int \<Rightarrow> 'a jsonl \<Rightarrow> 'a list" where
  "read_lines maximum f =
     (let n = nat (max 1 maximum) in List.map_filter (\<lambda>x. x) (drop (length (jl_lines f) - n) (jl_lines f)))"

section \<open>Records\<close>

record part_record =
  pa_part_id :: string
  pa_order_id :: string
  pa_recipe_id :: string
  pa_recipe_revision :: int
  pa_quality :: part_quality
  pa_started :: "reading \<times> real"
  pa_completed_at :: reading

record cycle_record =
  cy_cycle_id :: reading
  cy_part_id :: string
  cy_order_id :: string
  cy_sequence :: int
  cy_duration :: real
  cy_quality :: part_quality
  cy_completed_at :: reading
  cy_correlation_id :: string

record trace_record =
  tr_trace_id :: reading
  tr_order_id :: string
  tr_part_id :: "string option"
  tr_event_name :: string
  tr_details :: string
  tr_timestamp :: reading
  tr_correlation_id :: string

record order_entry =
  oe_order_id :: string
  oe_target :: "int option"
  oe_completed :: "int option"
  oe_recipe_id :: "string option"
  oe_recipe_revision :: "int option"
  oe_status :: order_status
  oe_timestamp :: reading

definition entry_loaded :: "string \<Rightarrow> int \<Rightarrow> string \<Rightarrow> int \<Rightarrow> order_status \<Rightarrow> reading \<Rightarrow> order_entry" where
  "entry_loaded order_id quantity recipe_id recipe_revision status timestamp =
     \<lparr>oe_order_id = order_id, oe_target = Some quantity, oe_completed = Some 0, oe_recipe_id = Some recipe_id,
      oe_recipe_revision = Some recipe_revision, oe_status = status, oe_timestamp = timestamp\<rparr>"

definition entry_status :: "string \<Rightarrow> order_status \<Rightarrow> int \<Rightarrow> reading \<Rightarrow> order_entry" where
  "entry_status order_id status completed timestamp =
     \<lparr>oe_order_id = order_id, oe_target = None, oe_completed = Some completed, oe_recipe_id = None,
      oe_recipe_revision = None, oe_status = status, oe_timestamp = timestamp\<rparr>"

section \<open>The repository\<close>

record production_files =
  pr_orders :: "order_entry jsonl"
  pr_parts :: "part_record jsonl"
  pr_cycles :: "cycle_record jsonl"
  pr_trace :: "trace_record jsonl"

definition empty_production :: production_files where
  "empty_production =
     \<lparr>pr_orders = empty_jsonl, pr_parts = empty_jsonl, pr_cycles = empty_jsonl, pr_trace = empty_jsonl\<rparr>"

fun quality_name :: "part_quality \<Rightarrow> string" where
  "quality_name PQ_Unknown = ''Unknown''"
| "quality_name PQ_Good = ''Good''"
| "quality_name PQ_Reject = ''Reject''"

definition trace_of :: "machine_event \<Rightarrow> string \<Rightarrow> string option \<Rightarrow> string \<Rightarrow> string \<Rightarrow> trace_record" where
  "trace_of ev order_id part name details =
     \<lparr>tr_trace_id = ev_id ev, tr_order_id = order_id, tr_part_id = part, tr_event_name = name, tr_details = details,
      tr_timestamp = ev_timestamp ev, tr_correlation_id = ev_correlation_id ev\<rparr>"

definition append_trace :: "trace_record \<Rightarrow> production_files \<Rightarrow> production_files" where
  "append_trace t r = r\<lparr>pr_trace := append_line t (pr_trace r)\<rparr>"

definition handle_production :: "machine_event \<Rightarrow> production_files \<Rightarrow> production_files" where
  "handle_production ev r = (case ev_payload ev of
       OrderLoadedPayload order_id quantity recipe_id recipe_revision status \<Rightarrow>
         r\<lparr>pr_orders := append_line (entry_loaded order_id quantity recipe_id recipe_revision status (ev_timestamp ev)) (pr_orders r)\<rparr>
     | OrderStatusChangedPayload order_id status completed reason \<Rightarrow>
         r\<lparr>pr_orders := append_line (entry_status order_id status completed (ev_timestamp ev)) (pr_orders r)\<rparr>
     | CycleStartedPayload order_id part recipe_id recipe_revision simulation_time \<Rightarrow>
         append_trace (trace_of ev order_id (Some part) ''cycle-started'' ''Production cycle started.'') r
     | CycleCompletedPayload order_id part cycle quality duration recipe_id recipe_revision \<Rightarrow>
         append_trace
           (trace_of ev order_id (Some part) ''cycle-completed''
              (''Quality='' @ quality_name quality @ ''; duration='' @ show_fixed 3 duration @ ''s''))
           (r\<lparr>pr_parts := append_line
                \<lparr>pa_part_id = part, pa_order_id = order_id, pa_recipe_id = recipe_id, pa_recipe_revision = recipe_revision,
                 pa_quality = quality, pa_started = (ev_timestamp ev, duration), pa_completed_at = ev_timestamp ev\<rparr> (pr_parts r),
              pr_cycles := append_line
                \<lparr>cy_cycle_id = ev_id ev, cy_part_id = part, cy_order_id = order_id, cy_sequence = cycle, cy_duration = duration,
                 cy_quality = quality, cy_completed_at = ev_timestamp ev, cy_correlation_id = ev_correlation_id ev\<rparr> (pr_cycles r)\<rparr>)
     | TraceabilityPayload order_id part name details \<Rightarrow> append_trace (trace_of ev order_id part name details) r
     | _ \<Rightarrow> r)"

section \<open>The orders read back\<close>

record mutable_order =
  mu_order_id :: string
  mu_target :: int
  mu_completed :: int
  mu_recipe_id :: string
  mu_recipe_revision :: int
  mu_status :: order_status
  mu_loaded_at :: reading
  mu_completed_at :: "reading option"

definition with_default :: "'a \<Rightarrow> 'a option \<Rightarrow> 'a" where
  "with_default d x = (case x of None \<Rightarrow> d | Some v \<Rightarrow> v)"

definition new_mutable :: "order_entry \<Rightarrow> mutable_order" where
  "new_mutable e =
     \<lparr>mu_order_id = oe_order_id e, mu_target = with_default 0 (oe_target e), mu_completed = 0,
      mu_recipe_id = with_default ''unknown'' (oe_recipe_id e), mu_recipe_revision = with_default 0 (oe_recipe_revision e),
      mu_status = OS_Queued, mu_loaded_at = oe_timestamp e, mu_completed_at = None\<rparr>"

definition apply_entry :: "order_entry \<Rightarrow> mutable_order \<Rightarrow> mutable_order" where
  "apply_entry e m =
     m\<lparr>mu_target := with_default (mu_target m) (oe_target e), mu_recipe_id := with_default (mu_recipe_id m) (oe_recipe_id e),
       mu_recipe_revision := with_default (mu_recipe_revision m) (oe_recipe_revision e),
       mu_completed := with_default (mu_completed m) (oe_completed e), mu_status := oe_status e,
       mu_completed_at := (if oe_status e = OS_Completed then Some (oe_timestamp e) else mu_completed_at m)\<rparr>"

text \<open>The dictionary of the orders, its keys compared without case, in the order in which they were added.\<close>

fun put_entry :: "order_entry \<Rightarrow> (string \<times> mutable_order) list \<Rightarrow> (string \<times> mutable_order) list" where
  "put_entry e [] = [(oe_order_id e, apply_entry e (new_mutable e))]"
| "put_entry e ((k, m) # rest) =
     (if eq_ignore_case k (oe_order_id e) then (k, apply_entry e m) # rest else (k, m) # put_entry e rest)"

definition order_states :: "order_entry list \<Rightarrow> (string \<times> mutable_order) list" where
  "order_states journal = fold put_entry journal []"

definition mutable_to_snapshot :: "mutable_order \<Rightarrow> order_snapshot" where
  "mutable_to_snapshot m =
     \<lparr>os_id = mu_order_id m, os_target = mu_target m, os_completed = mu_completed m, os_recipe_id = mu_recipe_id m,
      os_recipe_revision = mu_recipe_revision m, os_status = mu_status m, os_loaded_at = mu_loaded_at m,
      os_completed_at = mu_completed_at m\<rparr>"

definition read_orders :: "int \<Rightarrow> production_files \<Rightarrow> order_snapshot list" where
  "read_orders maximum r =
     map mutable_to_snapshot (take (nat maximum)
       (sort_key (\<lambda>m. - int (mu_loaded_at m)) (map snd (order_states (read_lines (2 ^ 31 - 1) (pr_orders r))))))"

definition read_parts :: "int \<Rightarrow> production_files \<Rightarrow> part_record list" where
  "read_parts maximum r = read_lines maximum (pr_parts r)"

definition read_cycles :: "int \<Rightarrow> production_files \<Rightarrow> cycle_record list" where
  "read_cycles maximum r = read_lines maximum (pr_cycles r)"

definition read_traceability :: "int \<Rightarrow> production_files \<Rightarrow> trace_record list" where
  "read_traceability maximum r = read_lines maximum (pr_trace r)"

section \<open>The alarm history\<close>

type_synonym alarm_history = "(alarm_snapshot \<times> string) jsonl"

definition append_alarm :: "alarm_snapshot \<Rightarrow> string \<Rightarrow> alarm_history \<Rightarrow> alarm_history" where
  "append_alarm alarm action f = append_line (alarm, action) f"

definition read_alarms :: "int \<Rightarrow> alarm_history \<Rightarrow> (alarm_snapshot \<times> string) list" where
  "read_alarms maximum f = read_lines maximum f"

end
