(* ===== verification/Runtime.thy ===== *)
theory Runtime
  imports Stores Production
begin

text \<open>
  The services of \<open>src/VirtualSmartMotionCell.Runtime/MachineRuntimeServices.cs\<close> that surround the coordinator, with
  the shared objects of \<open>src/VirtualSmartMotionCell.Application\<close>: metrics, integration status, command bus.

  The services run concurrently. Each definition below is a part of a service that nothing interrupts:
  it ends where the code releases a lock or awaits. The runtime loop is cut into the step, the
  handling of the drained events and the rest of the pass; the delivery loop into the start of a
  pass and one message; sending a command into the write and the counting. Stores that fail and
  cancellation are not modelled; a service that ends by an exception is. The motion systems the host runs
  do nothing when they are initialised.
\<close>

section \<open>Shared objects\<close>

record integration_status =
  is_mes_health :: integration_health
  is_mes_status :: string
  is_outbox_pending :: int
  is_last_delivery :: "reading option"
  is_opcua_endpoint :: string
  is_opcua_enabled :: bool

definition new_integration_status :: integration_status where
  "new_integration_status = \<lparr>is_mes_health = IH_Unknown, is_mes_status = ''not checked'', is_outbox_pending = 0,
     is_last_delivery = None, is_opcua_endpoint = ''opc.tcp://localhost:4840/vsmc'', is_opcua_enabled = False\<rparr>"

definition update_mes :: "integration_health \<Rightarrow> string \<Rightarrow> integration_status \<Rightarrow> integration_status" where
  "update_mes health status s = s\<lparr>is_mes_health := health, is_mes_status := status\<rparr>"

definition set_outbox_pending :: "int \<Rightarrow> integration_status \<Rightarrow> integration_status" where
  "set_outbox_pending count s = s\<lparr>is_outbox_pending := max 0 count\<rparr>"

definition mark_delivery :: "reading \<Rightarrow> integration_status \<Rightarrow> integration_status" where
  "mark_delivery timestamp s = s\<lparr>is_last_delivery := Some timestamp\<rparr>"

definition configure_opcua :: "bool \<Rightarrow> string \<Rightarrow> integration_status \<Rightarrow> integration_status" where
  "configure_opcua enabled endpoint s = s\<lparr>is_opcua_enabled := enabled, is_opcua_endpoint := endpoint\<rparr>"

definition integration_to_snapshot :: "integration_status \<Rightarrow> integration_snapshot" where
  "integration_to_snapshot s = \<lparr>in_mes_health = is_mes_health s, in_mes_status = is_mes_status s,
     in_outbox_pending = is_outbox_pending s, in_last_delivery = is_last_delivery s,
     in_opcua_endpoint = is_opcua_endpoint s, in_opcua_enabled = is_opcua_enabled s\<rparr>"

record runtime_metrics =
  rm_started_at :: reading
  rm_deadline_misses :: int
  rm_last_loop :: real
  rm_max_loop :: real
  rm_target_loop :: real
  rm_clients :: int
  rm_queue_depth :: int

definition new_metrics :: "reading \<Rightarrow> runtime_metrics" where
  "new_metrics now = \<lparr>rm_started_at = now, rm_deadline_misses = 0, rm_last_loop = 0, rm_max_loop = 0, rm_target_loop = 10,
     rm_clients = 0, rm_queue_depth = 0\<rparr>"

definition record_loop :: "real \<Rightarrow> real \<Rightarrow> runtime_metrics \<Rightarrow> runtime_metrics" where
  "record_loop elapsed target m =
     (let m = m\<lparr>rm_target_loop := target, rm_last_loop := elapsed\<rparr>;
          m = (if rm_max_loop m < elapsed then m\<lparr>rm_max_loop := elapsed\<rparr> else m)
      in if target < elapsed then m\<lparr>rm_deadline_misses := long_inc (rm_deadline_misses m)\<rparr> else m)"

definition set_queue_depth :: "int \<Rightarrow> runtime_metrics \<Rightarrow> runtime_metrics" where
  "set_queue_depth count m = m\<lparr>rm_queue_depth := count\<rparr>"

text \<open>What a snapshot shows of them; the time since the start is read from the clock.\<close>

definition host_view_of ::
  "runtime_metrics \<Rightarrow> integration_status \<Rightarrow> real \<Rightarrow> (machine_recipe \<Rightarrow> string) \<Rightarrow> host_view" where
  "host_view_of m s uptime checksum =
     \<lparr>hv_runtime = \<lparr>rt_loop_period = rm_target_loop m, rt_last_loop = rm_last_loop m, rt_max_loop = rm_max_loop m,
        rt_deadline_misses = rm_deadline_misses m, rt_queue_depth = rm_queue_depth m, rt_clients = rm_clients m,
        rt_started_at = rm_started_at m, rt_uptime = uptime\<rparr>,
      hv_integration = integration_to_snapshot s, hv_checksum = checksum\<rparr>"

section \<open>The command bus and its processor\<close>

record command_bus =
  bu_capacity :: nat
  bu_queue :: "(string \<times> command_request) list"
  bu_uncounted :: nat
  bu_depth :: int
  bu_metrics :: runtime_metrics
  bu_answers :: "command_result list"
  bu_refused :: "command_result list"

definition new_bus :: "nat \<Rightarrow> runtime_metrics \<Rightarrow> command_bus" where
  "new_bus capacity metrics =
     \<lparr>bu_capacity = capacity, bu_queue = [], bu_uncounted = 0, bu_depth = 0, bu_metrics = metrics, bu_answers = [], bu_refused = []\<rparr>"

definition correlation_or :: "string \<Rightarrow> command_request \<Rightarrow> string" where
  "correlation_or i req = (case cr_correlation_id req of None \<Rightarrow> i | Some c \<Rightarrow> c)"

text \<open>
  \<open>SendAsync\<close>: a full queue refuses at once; \<open>i\<close> is the identifier drawn for the command. A caller
  that has written its command counts it later, when the processor may already have read it.
\<close>

definition send_command :: "string \<Rightarrow> command_request \<Rightarrow> reading \<Rightarrow> command_bus \<Rightarrow> command_bus" where
  "send_command i req now b =
     (if length (bu_queue b) < bu_capacity b
      then b\<lparr>bu_queue := bu_queue b @ [(i, req)], bu_uncounted := bu_uncounted b + 1\<rparr>
      else b\<lparr>bu_refused := bu_refused b @
             [rejected_result i 0 (correlation_or i req) ''COMMAND_QUEUE_FULL''
                 [''The bounded machine command queue is full.''] now]\<rparr>)"

definition count_command :: "command_bus \<Rightarrow> command_bus" where
  "count_command b =
     (let depth = bu_depth b + 1
      in b\<lparr>bu_uncounted := bu_uncounted b - 1, bu_depth := depth, bu_metrics := set_queue_depth depth (bu_metrics b)\<rparr>)"

definition mark_read :: "command_bus \<Rightarrow> command_bus" where
  "mark_read b =
     (let depth = bu_depth b - 1 in b\<lparr>bu_depth := depth, bu_metrics := set_queue_depth (max 0 depth) (bu_metrics b)\<rparr>)"

text \<open>\<open>message\<close> is the text of an exception.\<close>

definition failed_result :: "string \<Rightarrow> command_request \<Rightarrow> string \<Rightarrow> 'm coordinator \<Rightarrow> command_result \<times> 'm coordinator" where
  "failed_result i req reason s =
     (\<lparr>res_command_id = i, res_status = CS_Failed, res_code = ''UNHANDLED_COMMAND_ERROR'', res_reasons = [reason],
       res_completed_at = co_reads s, res_revision = co_revision s, res_correlation_id = correlation_or i req\<rparr>,
      s\<lparr>co_reads := co_reads s + 2\<rparr>)"

definition process_command ::
  "'m motion_ops \<Rightarrow> (exn + store_error \<Rightarrow> string) \<Rightarrow> recipe_file \<Rightarrow> string \<Rightarrow> command_request
    \<Rightarrow> 'm coordinator \<times> recipe_files \<Rightarrow> command_result \<times> 'm coordinator \<times> recipe_files" where
  "process_command ops message initial_path i req state =
     (let (s, recipes) = state;
          finish = (\<lambda>fs outcome. case outcome of
              (Inr result, t) \<Rightarrow> (result, t, fs)
            | (Inl e, t) \<Rightarrow> let (result, u) = failed_result i req (message (Inl e)) t in (result, u, fs))
      in if (case cr_type req of None \<Rightarrow> False | Some ty \<Rightarrow> eq_ignore_case ty ''activate-recipe'')
         then (case (cr_recipe_id req, cr_recipe_revision req) of
             (Some recipe_id, Some revision) \<Rightarrow>
               if is_blank recipe_id
               then (rejected_result i (co_revision s) (correlation_or i req) ''RECIPE_ID_REQUIRED''
                       [''RecipeId and RecipeRevision are required.''] (co_reads s + 1), s\<lparr>co_reads := co_reads s + 2\<rparr>, recipes)
               else (case store_activate initial_path recipe_id revision recipes of
                   Inl e \<Rightarrow> let (result, u) = failed_result i req (message (Inr e)) s in (result, u, recipes)
                 | Inr (recipe, file_ops) \<Rightarrow> finish (run_ops file_ops recipes) (activate_recipe i recipe (correlation_or i req) s))
           | _ \<Rightarrow> (rejected_result i (co_revision s) (correlation_or i req) ''RECIPE_ID_REQUIRED''
                     [''RecipeId and RecipeRevision are required.''] (co_reads s + 1), s\<lparr>co_reads := co_reads s + 2\<rparr>, recipes))
         else finish recipes (execute ops i req s))"

text \<open>One round of the processor: the oldest command is read, run and answered.\<close>

definition process_next ::
  "'m motion_ops \<Rightarrow> (exn + store_error \<Rightarrow> string) \<Rightarrow> recipe_file \<Rightarrow> command_bus \<Rightarrow> 'm coordinator \<times> recipe_files
    \<Rightarrow> command_bus \<times> 'm coordinator \<times> recipe_files" where
  "process_next ops message initial_path b state = (case bu_queue b of
       [] \<Rightarrow> (b, state)
     | (i, req) # rest \<Rightarrow>
         let (result, state') = process_command ops message initial_path i req state
         in ((mark_read (b\<lparr>bu_queue := rest\<rparr>))\<lparr>bu_answers := bu_answers b @ [result]\<rparr>, state'))"

section \<open>Delivery to the MES\<close>

text \<open>A gateway answers a message or throws.\<close>

record 'g gateway =
  gw_deliver :: "machine_event \<Rightarrow> 'g \<Rightarrow> (string + bool) \<times> 'g"
  gw_health :: "'g \<Rightarrow> (string + (integration_health \<times> string)) \<times> 'g"

record ('s, 'g) delivery =
  de_outbox :: 's
  de_gateway :: 'g
  de_status :: integration_status
  de_delay :: int
  de_batch :: "machine_event list"
  de_running :: bool

definition file_mes :: "(reading \<Rightarrow> string) \<Rightarrow> file_gateway gateway" where
  "file_mes guid = \<lparr>gw_deliver = file_deliver guid, gw_health = file_health\<rparr>"

text \<open>The HTTP gateway over the answers of a server: a status code or an exception.\<close>

definition http_deliver :: "(machine_event \<Rightarrow> 'n \<Rightarrow> (string + nat) \<times> 'n) \<Rightarrow> machine_event \<Rightarrow> 'n \<Rightarrow> (string + bool) \<times> 'n" where
  "http_deliver server ev n = (case server ev n of
       (Inl e, n') \<Rightarrow> (Inl e, n')
     | (Inr status, n') \<Rightarrow> (Inr ((200 \<le> status \<and> status \<le> 299) \<or> status = 409), n'))"

text \<open>Its health check catches the exceptions of the request, here those with \<open>True\<close>, and no other.\<close>

definition http_health :: "('n \<Rightarrow> (bool \<times> string + nat) \<times> 'n) \<Rightarrow> 'n \<Rightarrow> (string + (integration_health \<times> string)) \<times> 'n" where
  "http_health server n = (case server n of
       (Inl (caught, e), n') \<Rightarrow> (if caught then (Inr (IH_Offline, e), n') else (Inl e, n'))
     | (Inr status, n') \<Rightarrow>
         (Inr (if 200 \<le> status \<and> status \<le> 299 then (IH_Healthy, ''HTTP MES ready'')
               else (IH_Degraded, ''HTTP MES returned '' @ show_nat status)), n'))"

definition delivery_begin :: "'s outbox_ops \<Rightarrow> 'g gateway \<Rightarrow> ('s, 'g) delivery \<Rightarrow> ('s, 'g) delivery" where
  "delivery_begin oo gw d = (case gw_health gw (de_gateway d) of
       (Inl e, g) \<Rightarrow> d\<lparr>de_gateway := g, de_running := False\<rparr>
     | (Inr (health, status), g) \<Rightarrow>
         let d = d\<lparr>de_gateway := g, de_status := update_mes health status (de_status d)\<rparr>
         in (case oo_read oo 20 (de_outbox d) of
               Inl e \<Rightarrow> d\<lparr>de_running := False\<rparr>
             | Inr pending \<Rightarrow> d\<lparr>de_status := set_outbox_pending (int (length pending)) (de_status d), de_batch := pending\<rparr>))"

definition back_off :: "int \<Rightarrow> int" where
  "back_off delay = min 30 (delay * 2)"

definition delivery_next :: "'s outbox_ops \<Rightarrow> 'g gateway \<Rightarrow> reading \<Rightarrow> ('s, 'g) delivery \<Rightarrow> ('s, 'g) delivery" where
  "delivery_next oo gw now d = (case de_batch d of
       [] \<Rightarrow> d
     | message # rest \<Rightarrow> (case gw_deliver gw message (de_gateway d) of
           (Inr True, g) \<Rightarrow> d\<lparr>de_gateway := g, de_outbox := oo_mark oo (oo_name oo message) (de_outbox d),
               de_status := update_mes IH_Healthy ''delivery successful'' (mark_delivery now (de_status d)),
               de_delay := 1, de_batch := rest\<rparr>
         | (Inr False, g) \<Rightarrow> d\<lparr>de_gateway := g,
               de_status := update_mes IH_Degraded ''delivery rejected or unavailable'' (de_status d),
               de_delay := back_off (de_delay d), de_batch := []\<rparr>
         | (Inl e, g) \<Rightarrow> d\<lparr>de_gateway := g, de_status := update_mes IH_Offline e (de_status d),
               de_delay := back_off (de_delay d), de_batch := []\<rparr>))"

text \<open>A whole pass with nothing in between; a batch holds at most 20 messages.\<close>

definition delivery_pass :: "'s outbox_ops \<Rightarrow> 'g gateway \<Rightarrow> reading \<Rightarrow> ('s, 'g) delivery \<Rightarrow> ('s, 'g) delivery" where
  "delivery_pass oo gw now d =
     (if de_running d then let b = delivery_begin oo gw d in (delivery_next oo gw now ^^ length (de_batch b)) b else d)"

section \<open>Order polling\<close>

record mes_order =
  mo_order_id :: "string option"
  mo_quantity :: int
  mo_recipe_id :: "string option"
  mo_recipe_revision :: int

text \<open>How the request ends; \<open>OtherException\<close> stands for the ones the loop does not catch, a timeout for instance.\<close>

datatype http_answer = HttpRequestException | OtherException | NoContent | ErrorStatus | Payload string

datatype poll_result = PollWait | PollSend command_request | PollServiceEnds

definition order_open :: "machine_snapshot option \<Rightarrow> bool" where
  "order_open current \<longleftrightarrow> (case current of
       None \<Rightarrow> False
     | Some s \<Rightarrow> (case prod_order (st_production s) of None \<Rightarrow> False | Some p \<Rightarrow> os_status p \<in> {OS_Queued, OS_Active, OS_Paused}))"

definition poll_orders :: "(string \<Rightarrow> store_error + mes_order option) \<Rightarrow> machine_snapshot option \<Rightarrow> http_answer \<Rightarrow> poll_result" where
  "poll_orders parse current answer =
     (if order_open current then PollWait
      else (case answer of
          HttpRequestException \<Rightarrow> PollWait
        | OtherException \<Rightarrow> PollServiceEnds
        | NoContent \<Rightarrow> PollWait
        | ErrorStatus \<Rightarrow> PollWait
        | Payload text \<Rightarrow>
            if is_blank text then PollWait
            else (case parse text of
                Inl e \<Rightarrow> PollServiceEnds
              | Inr None \<Rightarrow> PollWait
              | Inr (Some order) \<Rightarrow> PollSend ((plain_request ''load-order'')\<lparr>cr_requested_by := Some ''mes'',
                  cr_order_id := mo_order_id order, cr_quantity := Some (mo_quantity order),
                  cr_recipe_id := mo_recipe_id order, cr_recipe_revision := Some (mo_recipe_revision order)\<rparr>))))"

section \<open>The runtime loop\<close>

record runtime_options =
  ro_simulation_period :: int
  ro_publish_period :: int
  ro_checkpoint_period :: int

definition period_ms :: "runtime_options \<Rightarrow> int" where
  "period_ms opts = max 1 (ro_simulation_period opts)"

definition publish_every :: "runtime_options \<Rightarrow> int" where
  "publish_every opts = max 1 (ro_publish_period opts div period_ms opts)"

definition checkpoint_every :: "runtime_options \<Rightarrow> int" where
  "checkpoint_every opts = max 1 (ro_checkpoint_period opts div period_ms opts)"

datatype stage = Waiting | Stepped machine_snapshot | Drained machine_snapshot bool | Halted

record ('m, 's, 'g) host =
  ho_coordinator :: "'m coordinator"
  ho_state :: "machine_snapshot option"
  ho_metrics :: runtime_metrics
  ho_event_log :: "machine_event list"
  ho_production :: production_files
  ho_alarm_history :: alarm_history
  ho_checkpoint :: checkpoint_files
  ho_publication :: "machine_snapshot option"
  ho_delivery :: "('s, 'g) delivery"
  ho_tick :: int
  ho_last_checkpoint :: int
  ho_checkpoint_present :: bool
  ho_stage :: stage

text \<open>The start of the service, up to the loop.\<close>

definition start_runtime :: "'m motion_ops \<Rightarrow> ('m, 's, 'g) host \<Rightarrow> ('m, 's, 'g) host" where
  "start_runtime ops h =
     (let h = h\<lparr>ho_tick := 0, ho_last_checkpoint := - 1\<rparr>
      in (case load_checkpoint (ho_checkpoint h) of
            Inl e \<Rightarrow> h\<lparr>ho_stage := Halted\<rparr>
          | Inr None \<Rightarrow> h\<lparr>ho_checkpoint_present := False, ho_stage := Waiting\<rparr>
          | Inr (Some cp) \<Rightarrow>
              if cp_execution cp \<notin> {ES_Stopped, ES_Ready}
              then (case restore_checkpoint ops cp (ho_coordinator h) of
                  (Inl e, t) \<Rightarrow> h\<lparr>ho_coordinator := t, ho_checkpoint_present := True, ho_stage := Halted\<rparr>
                | (Inr _, t) \<Rightarrow> h\<lparr>ho_coordinator := t, ho_checkpoint_present := True, ho_stage := Waiting\<rparr>)
              else h\<lparr>ho_checkpoint_present := True, ho_stage := Waiting\<rparr>))"

definition pass_step ::
  "'m motion_ops \<Rightarrow> runtime_options \<Rightarrow> (machine_recipe \<Rightarrow> string) \<Rightarrow> real \<Rightarrow> ('m, 's, 'g) host \<Rightarrow> ('m, 's, 'g) host" where
  "pass_step ops opts checksum uptime h = (case ho_stage h of
       Waiting \<Rightarrow>
         (case step_snapshot ops (host_view_of (ho_metrics h) (de_status (ho_delivery h)) uptime checksum)
                 (real_of_int (period_ms opts) / 1000) (ho_coordinator h) of
            (Inl e, t) \<Rightarrow> h\<lparr>ho_coordinator := t, ho_stage := Halted\<rparr>
          | (Inr snapshot, t) \<Rightarrow> h\<lparr>ho_coordinator := t, ho_state := Some snapshot, ho_stage := Stepped snapshot\<rparr>)
     | _ \<Rightarrow> h)"

definition handle_event :: "'s outbox_ops \<Rightarrow> machine_event \<Rightarrow> ('m, 's, 'g) host \<Rightarrow> ('m, 's, 'g) host" where
  "handle_event oo ev h =
     (let h = h\<lparr>ho_event_log := ho_event_log h @ [ev], ho_production := handle_production ev (ho_production h)\<rparr>;
          h = (case ev_payload ev of
                 AlarmEventPayload alarm action \<Rightarrow> h\<lparr>ho_alarm_history := append_alarm alarm action (ho_alarm_history h)\<rparr>
               | _ \<Rightarrow> h)
      in if ev_type ev = ''cycle.completed''
         then h\<lparr>ho_delivery := (ho_delivery h)\<lparr>de_outbox := oo_enqueue oo ev (de_outbox (ho_delivery h))\<rparr>\<rparr>
         else h)"

definition requests_checkpoint :: "machine_event \<Rightarrow> bool" where
  "requests_checkpoint ev \<longleftrightarrow>
     ev_type ev \<in> {''machine.transition'', ''alarm.raised'', ''cycle.completed'', ''order.loaded'', ''order.status''}"

definition pass_drain :: "'s outbox_ops \<Rightarrow> ('m, 's, 'g) host \<Rightarrow> ('m, 's, 'g) host" where
  "pass_drain oo h = (case ho_stage h of
       Stepped snapshot \<Rightarrow>
         let (events, t) = drain_events (ho_coordinator h);
             h = fold (handle_event oo) events (h\<lparr>ho_coordinator := t\<rparr>)
         in h\<lparr>ho_stage := Drained snapshot (list_ex requests_checkpoint events)\<rparr>
     | _ \<Rightarrow> h)"

definition active_state :: "machine_snapshot \<Rightarrow> bool" where
  "active_state snapshot \<longleftrightarrow> st_execution snapshot \<in> {ES_Homing, ES_Starting, ES_Running, ES_Pausing, ES_Paused, ES_Stopping,
     ES_Faulted, ES_RecoveryRequired, ES_Recovering}"

definition safe_stable :: "machine_snapshot \<Rightarrow> bool" where
  "safe_stable snapshot \<longleftrightarrow> st_execution snapshot \<in> {ES_Stopped, ES_Ready} \<and> st_active_part snapshot = None
     \<and> \<not> rec_required (st_recovery snapshot)"

definition checkpoint_due :: "runtime_options \<Rightarrow> machine_snapshot \<Rightarrow> bool \<Rightarrow> ('m, 's, 'g) host \<Rightarrow> bool" where
  "checkpoint_due opts snapshot requested h \<longleftrightarrow>
     (requested \<and> st_revision snapshot \<noteq> ho_last_checkpoint h) \<or>
     (active_state snapshot \<and> ho_tick h mod checkpoint_every opts = 0)"

definition store_checkpoint :: "'m motion_ops \<Rightarrow> machine_snapshot \<Rightarrow> ('m, 's, 'g) host \<Rightarrow> ('m, 's, 'g) host" where
  "store_checkpoint ops snapshot h =
     (let (cp, t) = create_checkpoint ops (st_last_transition snapshot) (ho_coordinator h)
      in h\<lparr>ho_coordinator := t, ho_checkpoint := run_ops (save_checkpoint cp) (ho_checkpoint h),
           ho_checkpoint_present := True, ho_last_checkpoint := st_revision snapshot\<rparr>)"

definition clear_if_safe :: "machine_snapshot \<Rightarrow> ('m, 's, 'g) host \<Rightarrow> ('m, 's, 'g) host" where
  "clear_if_safe snapshot h =
     (if safe_stable snapshot \<and> ho_checkpoint_present h
      then h\<lparr>ho_checkpoint := run_ops (clear_checkpoint (ho_checkpoint h)) (ho_checkpoint h),
             ho_checkpoint_present := False, ho_last_checkpoint := - 1\<rparr>
      else h)"

definition pass_finish ::
  "'m motion_ops \<Rightarrow> 's outbox_ops \<Rightarrow> runtime_options \<Rightarrow> real \<Rightarrow> ('m, 's, 'g) host \<Rightarrow> ('m, 's, 'g) host" where
  "pass_finish ops oo opts elapsed h = (case ho_stage h of
       Drained snapshot requested \<Rightarrow>
         let d = ho_delivery h;
             h = h\<lparr>ho_delivery := d\<lparr>de_status := set_outbox_pending (int (oo_count oo (de_outbox d))) (de_status d)\<rparr>,
                   ho_tick := long_inc (ho_tick h)\<rparr>;
             h = (if ho_tick h mod publish_every opts = 0 then h\<lparr>ho_publication := Some snapshot\<rparr> else h);
             h = (if checkpoint_due opts snapshot requested h then store_checkpoint ops snapshot h else h);
             h = clear_if_safe snapshot h
         in h\<lparr>ho_metrics := record_loop elapsed (real_of_int (period_ms opts)) (ho_metrics h), ho_stage := Waiting\<rparr>
     | _ \<Rightarrow> h)"

section \<open>The host\<close>

definition on_delivery :: "(('s, 'g) delivery \<Rightarrow> ('s, 'g) delivery) \<Rightarrow> ('m, 's, 'g) host \<Rightarrow> ('m, 's, 'g) host" where
  "on_delivery f h = h\<lparr>ho_delivery := f (ho_delivery h)\<rparr>"

definition on_coordinator :: "('m coordinator \<Rightarrow> 'm coordinator) \<Rightarrow> ('m, 's, 'g) host \<Rightarrow> ('m, 's, 'g) host" where
  "on_coordinator f h = h\<lparr>ho_coordinator := f (ho_coordinator h)\<rparr>"

text \<open>One step of the host: a part of a pass of the runtime, a command, a part of a pass of the delivery.\<close>

inductive host_step ::
  "'m motion_ops \<Rightarrow> 's outbox_ops \<Rightarrow> 'g gateway \<Rightarrow> runtime_options \<Rightarrow> (machine_recipe \<Rightarrow> string)
    \<Rightarrow> ('m, 's, 'g) host \<Rightarrow> ('m, 's, 'g) host \<Rightarrow> bool" for ops oo gw opts checksum where
  Step: "host_step ops oo gw opts checksum h (pass_step ops opts checksum uptime h)"
| Drain: "host_step ops oo gw opts checksum h (pass_drain oo h)"
| Finish: "host_step ops oo gw opts checksum h (pass_finish ops oo opts elapsed h)"
| Command: "host_step ops oo gw opts checksum h (on_coordinator (\<lambda>s. snd (execute ops i req s)) h)"
| Recipe: "host_step ops oo gw opts checksum h (on_coordinator (\<lambda>s. snd (activate_recipe i recipe corr s)) h)"
| Snapshot: "host_step ops oo gw opts checksum h (on_coordinator (\<lambda>s. snd (snapshot_unsafe ops view s)) h)"
| Begin: "de_batch (ho_delivery h) = [] \<Longrightarrow> de_running (ho_delivery h) \<Longrightarrow>
    host_step ops oo gw opts checksum h (on_delivery (delivery_begin oo gw) h)"
| Deliver: "host_step ops oo gw opts checksum h (on_delivery (delivery_next oo gw now) h)"

definition host_steps ::
  "'m motion_ops \<Rightarrow> 's outbox_ops \<Rightarrow> 'g gateway \<Rightarrow> runtime_options \<Rightarrow> (machine_recipe \<Rightarrow> string)
    \<Rightarrow> ('m, 's, 'g) host \<Rightarrow> ('m, 's, 'g) host \<Rightarrow> bool" where
  "host_steps ops oo gw opts checksum = (host_step ops oo gw opts checksum)\<^sup>*\<^sup>*"

definition new_delivery :: "'s \<Rightarrow> 'g \<Rightarrow> integration_status \<Rightarrow> ('s, 'g) delivery" where
  "new_delivery outbox gateway status =
     \<lparr>de_outbox = outbox, de_gateway = gateway, de_status = status, de_delay = 1, de_batch = [], de_running = True\<rparr>"

definition new_host :: "machine_recipe \<Rightarrow> 'm \<Rightarrow> checkpoint_files \<Rightarrow> 's \<Rightarrow> 'g \<Rightarrow> ('m, 's, 'g) host" where
  "new_host recipe motion checkpoints outbox gateway =
     \<lparr>ho_coordinator = new_coordinator recipe motion, ho_state = None, ho_metrics = new_metrics 0, ho_event_log = [],
      ho_production = empty_production, ho_alarm_history = empty_jsonl, ho_checkpoint = checkpoints, ho_publication = None,
      ho_delivery = new_delivery outbox gateway new_integration_status,
      ho_tick = 0, ho_last_checkpoint = - 1, ho_checkpoint_present = False, ho_stage = Waiting\<rparr>"

inductive_cases host_stepE: "host_step ops oo gw opts checksum h h'"

end
