(* ===== verification/StoreLaws.thy ===== *)
theory StoreLaws
  imports Stores
begin

text \<open>
  What the stores promise: a checkpoint is replaced as a whole even by a crash; the outbox is a set of
  named messages, pending or delivered (locale \<open>outbox_store\<close>, interpreted on the files); the file gateway
  records a message once.
\<close>

section \<open>The checkpoint\<close>

text \<open>
  C6. A checkpoint is written atomically: wherever a crash interrupts \<open>SaveAsync\<close>, the file that \<open>LoadAsync\<close> reads
  afterwards is the checkpoint of before or the new one, never a part of one; when the save completes it is
  the new one, whatever an earlier crash left behind; and after \<open>ClearAsync\<close> there is none.
\<close>

theorem checkpoint_save_atomic:
  "(\<forall>gs \<in> set (crash_states (save_checkpoint cp) fs). load_checkpoint gs = load_checkpoint fs \<or> load_checkpoint gs = Inr (Some cp))
   \<and> load_checkpoint (run_ops (save_checkpoint cp) fs) = Inr (Some cp)
   \<and> load_checkpoint (run_ops (clear_checkpoint fs) fs) = Inr None"
proof (intro conjI ballI)
  fix gs
  assume "gs \<in> set (crash_states (save_checkpoint cp) fs)"
  from crash_write_through [OF this [unfolded save_checkpoint_def], of CK_path]
  show "load_checkpoint gs = load_checkpoint fs \<or> load_checkpoint gs = Inr (Some cp)" by (auto simp: load_checkpoint_def)
qed (simp_all add: load_checkpoint_def save_checkpoint_def run_write_through clear_checkpoint_def file_exists_def)

section \<open>The contract of an outbox\<close>

text \<open>
  \<open>pending\<close> and \<open>delivered\<close> are the identifiers of the messages; a message is read under its identifier, in
  the order of the identifiers.
\<close>

locale outbox_store =
  fixes oo :: "'s outbox_ops"
    and good :: "'s \<Rightarrow> bool"
    and pending :: "'s \<Rightarrow> string set"
    and delivered :: "'s \<Rightarrow> string set"
  assumes good_enqueue: "good s \<Longrightarrow> good (oo_enqueue oo e s)"
    and pending_enqueue: "good s \<Longrightarrow> pending (oo_enqueue oo e s) = insert (oo_name oo e) (pending s)"
    and delivered_enqueue: "good s \<Longrightarrow> delivered (oo_enqueue oo e s) = delivered s"
    and good_mark: "good s \<Longrightarrow> good (oo_mark oo i s)"
    and pending_mark: "good s \<Longrightarrow> pending (oo_mark oo i s) = pending s - {i}"
    and delivered_mark: "good s \<Longrightarrow> delivered (oo_mark oo i s) = (if i \<in> pending s then insert i (delivered s) else delivered s)"
    and read_pending: "good s \<Longrightarrow> 0 < n \<Longrightarrow>
      \<exists>es. oo_read oo n s = Inr es \<and> map (oo_name oo) es = take (nat n) (sorted_list_of_set (pending s))"
    and count_pending: "good s \<Longrightarrow> oo_count oo s = card (pending s)"
    and finite_pending: "good s \<Longrightarrow> finite (pending s)"
begin

definition messages :: "'s \<Rightarrow> string set" where
  "messages s = pending s \<union> delivered s"

lemma messages_enqueue: "good s \<Longrightarrow> messages (oo_enqueue oo e s) = insert (oo_name oo e) (messages s)"
  by (simp add: messages_def pending_enqueue delivered_enqueue)

lemma messages_mark: "good s \<Longrightarrow> messages (oo_mark oo i s) = messages s"
  by (auto simp: messages_def pending_mark delivered_mark)

end

section \<open>The outbox of files\<close>

definition event_name :: "(reading \<Rightarrow> string) \<Rightarrow> machine_event \<Rightarrow> string" where
  "event_name guid ev = guid (ev_id ev)"

definition outbox_good :: "(reading \<Rightarrow> string) \<Rightarrow> outbox_files \<Rightarrow> bool" where
  "outbox_good guid fs \<longleftrightarrow> distinct (map fst fs) \<and>
     (\<forall>n c. map_of fs (OB_pending n) = Some c \<longrightarrow> (\<exists>ev. c = Whole ev \<and> event_name guid ev = n))"

definition pending_set :: "outbox_files \<Rightarrow> string set" where
  "pending_set fs = {n. file_exists fs (OB_pending n)}"

definition delivered_set :: "outbox_files \<Rightarrow> string set" where
  "delivered_set fs = {n. file_exists fs (OB_delivered n)}"

lemma pending_name_set: "set (concat (map pending_name fs)) = pending_set fs"
proof -
  have "n \<in> set (concat (map pending_name fs)) \<longleftrightarrow> OB_pending n \<in> fst ` set fs" for n
  proof (induction fs)
    case (Cons p fs)
    then show ?case by (cases p; cases "fst p") auto
  qed simp
  then show ?thesis by (auto simp: pending_set_def file_exists_def map_of_eq_None_iff)
qed

lemma set_pending_names: "set (pending_names fs) = pending_set fs"
  unfolding pending_names_def set_sort by (rule pending_name_set)

lemma pending_name_distinct: "distinct (map fst fs) \<Longrightarrow> distinct (concat (map pending_name fs))"
proof (induction fs)
  case (Cons p fs)
  have out: "n \<notin> set (concat (map pending_name fs))" if "fst p = OB_pending n" for n
  proof
    assume "n \<in> set (concat (map pending_name fs))"
    then have "file_exists fs (OB_pending n)" unfolding pending_name_set by (simp add: pending_set_def)
    then have "OB_pending n \<in> fst ` set fs" by (simp add: file_exists_def map_of_eq_None_iff)
    with Cons.prems that show False by simp
  qed
  show ?case
  proof (cases p)
    case (Pair q c)
    then show ?thesis using Cons out by (cases q) auto
  qed
qed simp

lemma pending_names_eq: "outbox_good guid fs \<Longrightarrow> pending_names fs = sorted_list_of_set (pending_set fs)"
  using pending_name_distinct [of fs] pending_name_set [of fs]
  by (metis outbox_good_def pending_names_def distinct_remdups_id sorted_list_of_set_sort_remdups)

lemma read_events_named:
  "outbox_good guid fs \<Longrightarrow> set ns \<subseteq> pending_set fs \<Longrightarrow> \<exists>es. read_events ns fs = Inr es \<and> map (event_name guid) es = ns"
proof (induction ns)
  case (Cons n ns)
  then obtain es where es: "read_events ns fs = Inr es" "map (event_name guid) es = ns" by auto
  obtain ev where ev: "map_of fs (OB_pending n) = Some (Whole ev)" "event_name guid ev = n"
    using Cons.prems by (force simp: pending_set_def file_exists_def outbox_good_def)
  show ?case by (intro exI [of _ "ev # es"]) (simp add: es ev)
qed simp

lemma outbox_mark_map_of:
  "map_of (run_ops (mark_delivered i fs) fs) =
     (case map_of fs (OB_pending i) of None \<Rightarrow> map_of fs
      | Some c \<Rightarrow> (map_of fs)(OB_pending i := None, OB_delivered i := Some c))"
  by (auto simp: mark_delivered_def file_exists_def split: option.split)

lemma outbox_enqueue_map_of:
  "map_of (run_ops (enqueue_event guid ev fs) fs) =
     (if file_exists fs (OB_pending (event_name guid ev)) then map_of fs
      else (map_of fs)(OB_temporary (event_name guid ev) := None, OB_pending (event_name guid ev) := Some (Whole ev)))"
  by (auto simp: enqueue_event_def event_name_def Let_def run_write_through)

lemma outbox_enqueue_views:
  "pending_set (run_ops (enqueue_event guid e fs) fs) = insert (event_name guid e) (pending_set fs)"
  "delivered_set (run_ops (enqueue_event guid e fs) fs) = delivered_set fs"
  by (auto simp: pending_set_def delivered_set_def file_exists_def outbox_enqueue_map_of)

lemma outbox_mark_views:
  "pending_set (run_ops (mark_delivered i fs) fs) = pending_set fs - {i}"
  "delivered_set (run_ops (mark_delivered i fs) fs) = (if i \<in> pending_set fs then insert i (delivered_set fs) else delivered_set fs)"
  by (auto simp: pending_set_def delivered_set_def file_exists_def outbox_mark_map_of split: option.split)

lemma outbox_keeps_good:
  assumes "outbox_good guid fs"
  shows "outbox_good guid (run_ops (enqueue_event guid e fs) fs)" "outbox_good guid (run_ops (mark_delivered i fs) fs)"
proof -
  have d: "distinct (map fst (run_ops ops fs))" for ops using assms by (simp add: outbox_good_def distinct_run_ops)
  have named: "\<exists>ev. c = Whole ev \<and> event_name guid ev = n" if "map_of fs (OB_pending n) = Some c" for n c
    using assms that unfolding outbox_good_def by blast
  show "outbox_good guid (run_ops (enqueue_event guid e fs) fs)"
    unfolding outbox_good_def outbox_enqueue_map_of using d named by auto
  show "outbox_good guid (run_ops (mark_delivered i fs) fs)"
    unfolding outbox_good_def outbox_mark_map_of using d named by (auto split: option.split if_splits)
qed

lemma read_pending_first:
  assumes good: "outbox_good guid fs" and "0 < n"
  shows "\<exists>es. read_pending n fs = Inr es \<and> map (event_name guid) es = take (nat n) (sorted_list_of_set (pending_set fs))"
proof -
  have "set (take (nat n) (pending_names fs)) \<subseteq> pending_set fs"
    using set_take_subset [of "nat n" "pending_names fs"] by (simp only: set_pending_names)
  from read_events_named [OF good this] show ?thesis
    using assms(2) by (simp add: read_pending_def pending_names_eq [OF good] max_def)
qed

lemma file_outbox_name: "oo_name (file_outbox guid) = event_name guid"
  by (simp add: event_name_def fun_eq_iff)

lemma finite_pending_set: "finite (pending_set fs)"
  unfolding set_pending_names [symmetric] by simp

interpretation files: outbox_store "file_outbox guid" "outbox_good guid" pending_set delivered_set for guid
  by unfold_locales
    (simp_all add: outbox_keeps_good outbox_enqueue_views outbox_mark_views read_pending_first finite_pending_set
      count_pending_def pending_names_eq file_outbox_name event_name_def [symmetric])

lemma outbox_empty: "outbox_good guid []" "pending_set [] = {}" "delivered_set [] = {}"
  by (simp_all add: outbox_good_def pending_set_def delivered_set_def file_exists_def)

text \<open>A crash while a message is queued leaves the message out or in, and no other message changed.\<close>

lemma enqueue_atomic:
  assumes "gs \<in> set (crash_states (enqueue_event guid ev fs) fs)" and "outbox_good guid fs"
  shows "outbox_good guid gs \<and> (pending_set gs = pending_set fs \<or> pending_set gs = insert (event_name guid ev) (pending_set fs))"
proof (cases "file_exists fs (OB_pending (event_name guid ev))")
  case True
  then show ?thesis using assms by (simp add: crash_states_def enqueue_event_def event_name_def Let_def)
next
  case False
  let ?n = "event_name guid ev"
  have gs: "gs \<in> set (crash_states (write_through (OB_temporary ?n) (OB_pending ?n) ev) fs)"
    using assms(1) False by (simp add: enqueue_event_def event_name_def Let_def)
  have "distinct (map fst gs)"
    using gs distinct_run_ops [of fs] assms(2) by (auto simp: crash_states_def outbox_good_def)
  moreover have old: "map_of gs (OB_pending n) = map_of fs (OB_pending n) \<or> n = ?n \<and> map_of gs (OB_pending n) = Some (Whole ev)" for n
    using crash_write_through [OF gs, of "OB_pending n"] by auto
  ultimately have "outbox_good guid gs" using assms(2) unfolding outbox_good_def by (metis content.inject option.inject)
  moreover have "map_of gs (OB_pending ?n) = None \<or> map_of gs (OB_pending ?n) = Some (Whole ev)"
    using old [of ?n] False by (auto simp: file_exists_def)
  ultimately show ?thesis using old False unfolding pending_set_def file_exists_def by (auto; metis)
qed

section \<open>The file gateway\<close>

definition gateway_ok :: "(reading \<Rightarrow> string) \<Rightarrow> file_gateway \<Rightarrow> bool" where
  "gateway_ok guid g \<longleftrightarrow> distinct (map (event_name guid) (fg_delivered g))
     \<and> set (fg_receipts g) = event_name guid ` set (fg_delivered g)"

lemma file_deliver_ok: "gateway_ok guid g \<Longrightarrow> gateway_ok guid (snd (file_deliver guid ev g))"
  by (auto simp: gateway_ok_def file_deliver_def file_deliver_ops_def event_name_def)

text \<open>
  A crash between the two writes of a delivery leaves the message recorded without its receipt, so that
  the next attempt records it again.
\<close>

lemma crash_duplicates_delivery:
  assumes "\<not> fg_offline g" and "guid (ev_id ev) \<notin> set (fg_receipts g)"
    and "g' = fold apply_gateway_op (take 1 (snd (file_deliver_ops guid ev g))) g"
  shows "fg_delivered (snd (file_deliver guid ev g')) = fg_delivered g @ [ev, ev]"
  using assms by (simp add: file_deliver_ops_def file_deliver_def)

section \<open>Recipes\<close>

text \<open>Two identifiers that differ only in a character that is no letter and no digit share a file.\<close>

lemma recipe_files_collide: "recipe_path ''widget a'' 1 = recipe_path ''widget-a'' 1"
  by code_simp

lemma read_written_recipe:
  "map_of (run_ops (write_recipe r) fs) (recipe_path (rc_id r) (rc_revision r)) = Some (Whole (RecipeDoc r))"
  by (simp add: write_recipe_def recipe_path_def run_write_through)

lemma with_status_twice [simp]: "with_status l (with_status l' r) = with_status l r"
  by (simp add: with_status_def)

lemma load_written_recipe:
  "load_recipe path (rc_id r) (rc_revision r) (run_ops (write_recipe (with_status l r)) fs) = Inr (Some (with_status l r))"
  using read_written_recipe [of "with_status l r" fs]
  by (simp add: load_recipe_def read_recipe_def file_exists_def Let_def)

text \<open>
  C13. The life of a recipe: a recipe with valid parameters can be saved as a draft; the draft cannot be activated; once
  approved it can, under the identifier and revision it was saved with; and the active recipe that the next start
  loads is the one that was saved, whatever else the directory holds.
\<close>

theorem recipe_life_cycle:
  assumes "recipe_ok r"
  shows "\<exists>draft approved active. save_draft r = Inr draft
    \<and> store_activate path (rc_id r) (rc_revision r) (run_ops draft fs) =
        Inl (InvalidOperationException ''Only approved recipes may be activated.'')
    \<and> approve_recipe path (rc_id r) (rc_revision r) (run_ops draft fs) = Inr (with_status RL_Approved r, approved)
    \<and> store_activate path (rc_id r) (rc_revision r) (run_ops approved (run_ops draft fs)) = Inr (with_status RL_Active r, active)
    \<and> load_active path (run_ops active (run_ops approved (run_ops draft fs))) = Inr (with_status RL_Active r)"
proof -
  let ?saved = "\<lambda>l. write_recipe (with_status l r)"
  let ?active = "?saved RL_Active @ write_all RP_pointer (PointerDoc (rc_id r) (rc_revision r))"
  have draft: "save_draft r = Inr (?saved RL_Draft)"
    using assms validate_recipe_iff [of False "with_status RL_Draft r"] by (simp add: save_draft_def Let_def)
  have refused: "store_activate path (rc_id r) (rc_revision r) (run_ops (?saved RL_Draft) gs) =
      Inl (InvalidOperationException ''Only approved recipes may be activated.'')" for gs
    by (simp add: store_activate_def load_written_recipe lifecycle_of_with_status)
  have approved: "approve_recipe path (rc_id r) (rc_revision r) (run_ops (?saved RL_Draft) gs) =
      Inr (with_status RL_Approved r, ?saved RL_Approved)" for gs
    using assms validate_recipe_iff [of True "with_status RL_Approved r"]
    by (simp add: approve_recipe_def load_written_recipe lifecycle_of_with_status Let_def)
  have active: "store_activate path (rc_id r) (rc_revision r) (run_ops (?saved RL_Approved) gs) =
      Inr (with_status RL_Active r, ?active)" for gs
    by (simp add: store_activate_def load_written_recipe lifecycle_of_with_status Let_def)
  have "load_active path (run_ops ?active gs) = Inr (with_status RL_Active r)" for gs
  proof -
    have "map_of (run_ops ?active gs) RP_pointer = Some (Whole (PointerDoc (rc_id r) (rc_revision r)))"
      by (simp add: write_all_def)
    moreover have "map_of (run_ops ?active gs) (recipe_path (rc_id r) (rc_revision r)) = Some (Whole (RecipeDoc (with_status RL_Active r)))"
      using read_written_recipe [of "with_status RL_Active r" gs] by (simp add: write_all_def recipe_path_def)
    ultimately show ?thesis by (simp add: load_active_def load_recipe_def read_recipe_def file_exists_def Let_def)
  qed
  then show ?thesis using draft refused approved active by blast
qed

lemma recipe_life_cycle_witness: "\<exists>draft. save_draft default_recipe = Inr draft"
  using recipe_life_cycle [OF default_recipe_ok, of RP_pointer "[]"] by blast

end
