(* ===== verification/DeliveryLaws.thy ===== *)
theory DeliveryLaws
  imports Runtime StoreLaws
begin

text \<open>
  Properties of the delivery service, for every outbox that keeps the contract \<open>outbox_store\<close>: no message is
  lost, the delay backs off within its bounds, a gateway that answers empties the outbox, and a
  message that is refused for good holds up the ones after it.
\<close>

section \<open>The delay\<close>

lemma delivery_begin_delay [simp]: "de_delay (delivery_begin oo gw d) = de_delay d"
  by (simp add: delivery_begin_def Let_def split: prod.split sum.split)

lemma delivery_next_delay:
  "1 \<le> de_delay d \<Longrightarrow> de_delay d \<le> 30 \<Longrightarrow> 1 \<le> de_delay (delivery_next oo gw now d) \<and> de_delay (delivery_next oo gw now d) \<le> 30"
  by (auto simp: delivery_next_def back_off_def split: list.split prod.split sum.split bool.split)

section \<open>What a pass does to the outbox\<close>

lemma delivery_begin_outbox [simp]: "de_outbox (delivery_begin oo gw d) = de_outbox d"
  by (simp add: delivery_begin_def Let_def split: prod.split sum.split)

text \<open>A gateway that accepts every message and reports its health.\<close>

definition accepting :: "'g gateway \<Rightarrow> bool" where
  "accepting gw \<longleftrightarrow> (\<forall>e g. fst (gw_deliver gw e g) = Inr True) \<and> (\<forall>g. \<exists>h. fst (gw_health gw g) = Inr h)"

text \<open>A gateway that accepts no message of this name.\<close>

definition refuses :: "('e \<Rightarrow> string) \<Rightarrow> string \<Rightarrow> ('e \<Rightarrow> 'g \<Rightarrow> (string + bool) \<times> 'g) \<Rightarrow> bool" where
  "refuses name m deliver \<longleftrightarrow> (\<forall>e g. name e = m \<longrightarrow> fst (deliver e g) \<noteq> Inr True)"

lemma delivery_next_accepted:
  assumes "accepting gw" and "de_batch d = e # es"
  obtains g status where "delivery_next oo gw now d =
    d\<lparr>de_gateway := g, de_outbox := oo_mark oo (oo_name oo e) (de_outbox d), de_status := status, de_delay := 1, de_batch := es\<rparr>"
proof -
  obtain g where "gw_deliver gw e (de_gateway d) = (Inr True, g)"
    using assms(1) by (metis accepting_def prod.collapse)
  then show ?thesis using assms(2) that by (simp add: delivery_next_def)
qed

context outbox_store
begin

lemma delivery_next_keeps:
  assumes "good (de_outbox d)"
  shows "good (de_outbox (delivery_next oo gw now d)) \<and> messages (de_outbox (delivery_next oo gw now d)) = messages (de_outbox d)"
  using assms
  by (auto simp: delivery_next_def good_mark messages_mark split: list.split prod.split sum.split bool.split)

lemma delivery_begin_batch:
  assumes "good (de_outbox d)" and "accepting gw"
  shows "map (oo_name oo) (de_batch (delivery_begin oo gw d)) = take 20 (sorted_list_of_set (pending (de_outbox d)))
    \<and> de_running (delivery_begin oo gw d) = de_running d"
proof -
  obtain h g where h: "gw_health gw (de_gateway d) = (Inr h, g)" using assms(2) by (metis accepting_def prod.collapse)
  obtain es where "oo_read oo 20 (de_outbox d) = Inr es" "map (oo_name oo) es = take 20 (sorted_list_of_set (pending (de_outbox d)))"
    using read_pending [OF assms(1), of 20] by auto
  then show ?thesis using h by (cases h) (simp add: delivery_begin_def Let_def)
qed

lemma deliver_batch:
  assumes "good (de_outbox d)" and "accepting gw"
  shows "\<exists>b. (delivery_next oo gw now ^^ length (de_batch d)) d = b \<and> good (de_outbox b) \<and> de_batch b = []
    \<and> de_running b = de_running d \<and> pending (de_outbox b) = pending (de_outbox d) - oo_name oo ` set (de_batch d)
    \<and> (if de_batch d = [] then de_delay b = de_delay d else de_delay b = 1)"
  using assms(1)
proof (induction "de_batch d" arbitrary: d)
  case Nil
  then show ?case by (auto simp flip: Nil.hyps)
next
  case (Cons e es)
  obtain g status where n: "delivery_next oo gw now d =
      d\<lparr>de_gateway := g, de_outbox := oo_mark oo (oo_name oo e) (de_outbox d), de_status := status, de_delay := 1, de_batch := es\<rparr>"
    using delivery_next_accepted [OF assms(2) Cons.hyps(2) [symmetric]] by blast
  have "(delivery_next oo gw now ^^ length (de_batch d)) d = (delivery_next oo gw now ^^ length es) (delivery_next oo gw now d)"
    using Cons.hyps(2) [symmetric] by (simp add: funpow_swap1)
  moreover have "good (de_outbox (delivery_next oo gw now d))" using Cons.prems by (simp add: n good_mark)
  then have "\<exists>b. (delivery_next oo gw now ^^ length es) (delivery_next oo gw now d) = b \<and> good (de_outbox b) \<and> de_batch b = []
      \<and> de_running b = de_running d \<and> pending (de_outbox b) = pending (de_outbox d) - {oo_name oo e} - oo_name oo ` set es
      \<and> de_delay b = 1"
    using Cons.hyps(1) [of "delivery_next oo gw now d"] Cons.prems by (auto simp: n pending_mark split: if_splits)
  ultimately show ?case using Cons.hyps(2) [symmetric] by auto
qed

lemma delivery_pass_accepted:
  assumes good: "good (de_outbox d)" and gw: "accepting gw" and "de_running d"
    and b: "b = delivery_pass oo gw now d"
  shows "good (de_outbox b)" "de_running b"
    and "pending (de_outbox b) = pending (de_outbox d) - set (take 20 (sorted_list_of_set (pending (de_outbox d))))"
    and "if pending (de_outbox d) = {} then de_delay b = de_delay d else de_delay b = 1"
proof -
  let ?c = "delivery_begin oo gw d"
  have c: "good (de_outbox ?c)" using good by simp
  note batch = delivery_begin_batch [OF good gw]
  have b: "b = (delivery_next oo gw now ^^ length (de_batch ?c)) ?c" using assms(3) by (simp add: b delivery_pass_def Let_def)
  have names: "oo_name oo ` set (de_batch ?c) = set (take 20 (sorted_list_of_set (pending (de_outbox d))))"
    using batch by (metis list.set_map)
  have "de_batch ?c = [] \<longleftrightarrow> map (oo_name oo) (de_batch ?c) = []" by simp
  then have empty: "de_batch ?c = [] \<longleftrightarrow> pending (de_outbox d) = {}"
    using batch finite_pending [OF good] by simp
  show "good (de_outbox b)" "de_running b"
    "pending (de_outbox b) = pending (de_outbox d) - set (take 20 (sorted_list_of_set (pending (de_outbox d))))"
    "if pending (de_outbox d) = {} then de_delay b = de_delay d else de_delay b = 1"
    using deliver_batch [OF c gw, of now] batch names empty assms(3) unfolding b by auto
qed

lemma pending_after_pass:
  assumes "good (de_outbox d)" and "accepting gw" and "de_running d"
  shows "card (pending (de_outbox (delivery_pass oo gw now d))) = card (pending (de_outbox d)) - 20"
proof -
  let ?p = "pending (de_outbox d)"
  have fin: "finite ?p" by (rule finite_pending [OF assms(1)])
  have sub: "set (take 20 (sorted_list_of_set ?p)) \<subseteq> ?p" using set_take_subset [of 20 "sorted_list_of_set ?p"] fin by simp
  have "card (set (take 20 (sorted_list_of_set ?p))) = min (card ?p) 20"
    using fin by (simp add: distinct_card distinct_take)
  then show ?thesis
    using sub fin by (simp add: delivery_pass_accepted(3) [OF assms refl] card_Diff_subset)
qed

lemma passes_accepted:
  assumes "good (de_outbox d)" and "accepting gw" and "de_running d"
  shows "good (de_outbox ((delivery_pass oo gw now ^^ k) d)) \<and> de_running ((delivery_pass oo gw now ^^ k) d)
    \<and> card (pending (de_outbox ((delivery_pass oo gw now ^^ k) d))) = card (pending (de_outbox d)) - 20 * k"
proof (induction k)
  case (Suc k)
  then show ?case
    using delivery_pass_accepted(1,2) [OF _ assms(2) _ refl, of "(delivery_pass oo gw now ^^ k) d"]
      pending_after_pass [OF _ assms(2), of "(delivery_pass oo gw now ^^ k) d"] by simp
qed (use assms in simp)

lemma delivery_next_keeps_n: "good (de_outbox d) \<Longrightarrow> good (de_outbox ((delivery_next oo gw now ^^ n) d))
    \<and> messages (de_outbox ((delivery_next oo gw now ^^ n) d)) = messages (de_outbox d)"
  by (induction n) (simp_all add: delivery_next_keeps)

lemma passes_keep: "good (de_outbox d) \<Longrightarrow> good (de_outbox ((delivery_pass oo gw now ^^ k) d))
    \<and> messages (de_outbox ((delivery_pass oo gw now ^^ k) d)) = messages (de_outbox d)"
  by (induction k) (simp_all add: delivery_pass_def Let_def delivery_next_keeps_n)

text \<open>A pass whose first message is refused ends with it.\<close>

lemma delivery_pass_refused:
  assumes good: "good (de_outbox d)" and ref: "refuses (oo_name oo) m (gw_deliver gw)"
    and m: "m \<in> pending (de_outbox d)" "\<forall>n\<in>pending (de_outbox d). m \<le> n" and batch: "de_batch d = []"
  shows "de_outbox (delivery_pass oo gw now d) = de_outbox d \<and> de_batch (delivery_pass oo gw now d) = []"
proof -
  let ?c = "delivery_begin oo gw d" and ?p = "pending (de_outbox d)"
  have fin: "finite ?p" by (rule finite_pending [OF good])
  have "Min ?p = m" using m fin by (intro Min_eqI) auto
  then have sorted: "sorted_list_of_set ?p = m # sorted_list_of_set (?p - {m})"
    using m fin by (metis sorted_list_of_set_nonempty empty_iff)
  obtain es where es: "oo_read oo 20 (de_outbox d) = Inr es" "map (oo_name oo) es = take 20 (sorted_list_of_set ?p)"
    using read_pending [OF good, of 20] by auto
  have shape: "de_batch ?c = [] \<or> (\<exists>e rest. de_batch ?c = e # rest \<and> oo_name oo e = m)"
    using es sorted batch by (auto simp: delivery_begin_def Let_def split: prod.split sum.split)
  have stop: "de_batch (delivery_next oo gw now c) = [] \<and> de_outbox (delivery_next oo gw now c) = de_outbox c"
    if "de_batch c = [] \<or> (\<exists>e rest. de_batch c = e # rest \<and> oo_name oo e = m)" for c
    using that ref
    by (auto simp: delivery_next_def refuses_def split: list.split prod.split sum.split bool.split) (metis fst_conv)+
  have "de_batch ((delivery_next oo gw now ^^ n) ?c) = [] \<and> de_outbox ((delivery_next oo gw now ^^ n) ?c) = de_outbox d" if "0 < n" for n
    using that
  proof (induction n)
    case (Suc n)
    then show ?case using stop [OF shape] stop [of "(delivery_next oo gw now ^^ n) ?c"] by (cases "n = 0") simp_all
  qed simp
  from this [of "length (de_batch ?c)"] show ?thesis
    using batch by (cases "de_batch ?c = []") (simp_all add: delivery_pass_def Let_def)
qed

lemma passes_refused:
  assumes "good (de_outbox d)" and "refuses (oo_name oo) m (gw_deliver gw)"
    and "m \<in> pending (de_outbox d)" and "\<forall>n\<in>pending (de_outbox d). m \<le> n" and "de_batch d = []"
  shows "de_outbox ((delivery_pass oo gw now ^^ k) d) = de_outbox d \<and> de_batch ((delivery_pass oo gw now ^^ k) d) = []"
proof (induction k)
  case (Suc k)
  then show ?case
    using delivery_pass_refused [OF _ assms(2), of "(delivery_pass oo gw now ^^ k) d"] assms by simp
qed (use assms in simp)

end

section \<open>The delivery of the host\<close>


text \<open>
  One message that the MES refuses for good stops the delivery of all others: while the pending message whose name sorts
  first is refused, no pass delivers anything, even if the gateway accepts every other message, because a pass takes
  the messages in the order of their names and ends at the first refusal.
\<close>

theorem refused_message_blocks:
  assumes "outbox_good guid (de_outbox d)" and "refuses (event_name guid) m (gw_deliver gw)"
    and "m \<in> pending_set (de_outbox d)" and "\<forall>n\<in>pending_set (de_outbox d). m \<le> n" and "de_batch d = []"
  shows "de_outbox ((delivery_pass (file_outbox guid) gw now ^^ k) d) = de_outbox d"
  using files.passes_refused [OF assms(1) _ assms(3-5), of gw k now] assms(2) by (simp add: file_outbox_name)

end
