(* ===== verification/ProductionLaws.thy ===== *)
theory ProductionLaws
  imports Production CoordinatorJournal
begin

text \<open>
  What the repository shows: the order journal read back shows the order of the coordinator, as long as the process
  has not restored a checkpoint; what an interrupted append costs; what a reused order identifier leaves behind.
\<close>

section \<open>The dictionary of the orders\<close>

fun order_lookup :: "string \<Rightarrow> (string \<times> mutable_order) list \<Rightarrow> mutable_order option" where
  "order_lookup i [] = None"
| "order_lookup i ((k, m) # rest) = (if eq_ignore_case k i then Some m else order_lookup i rest)"

lemma order_lookup_put:
  "order_lookup i (put_entry e st) =
     (if eq_ignore_case (oe_order_id e) i
      then Some (apply_entry e (case order_lookup i st of None \<Rightarrow> new_mutable e | Some m \<Rightarrow> m)) else order_lookup i st)"
  by (induction st) (auto simp: eq_ignore_case_def)

lemma order_lookup_mem: "order_lookup i st = Some m \<Longrightarrow> m \<in> set (map snd st)"
  by (induction st) (auto split: if_splits)

text \<open>The journal entries of a list of events, and the order they show.\<close>

definition entries_of :: "machine_event \<Rightarrow> order_entry list" where
  "entries_of ev = (case ev_payload ev of
       OrderLoadedPayload order_id quantity recipe_id recipe_revision status \<Rightarrow>
         [entry_loaded order_id quantity recipe_id recipe_revision status (ev_timestamp ev)]
     | OrderStatusChangedPayload order_id status completed reason \<Rightarrow> [entry_status order_id status completed (ev_timestamp ev)]
     | _ \<Rightarrow> [])"

definition shown_order :: "machine_event list \<Rightarrow> string \<Rightarrow> mutable_order option" where
  "shown_order evs i = order_lookup i (order_states (concat (map entries_of evs)))"

definition shows_order :: "mutable_order \<Rightarrow> production_order \<Rightarrow> bool" where
  "shows_order m p \<longleftrightarrow> mu_target m = po_target p \<and> mu_completed m = po_completed p \<and> mu_recipe_id m = po_recipe_id p
     \<and> mu_recipe_revision m = po_recipe_revision p \<and> mu_status m = po_status p"

lemma shown_order_snoc:
  "shown_order (evs @ [ev]) i = (case entries_of ev of
       [] \<Rightarrow> shown_order evs i
     | e # _ \<Rightarrow> if eq_ignore_case (oe_order_id e) i
         then Some (apply_entry e (case shown_order evs i of None \<Rightarrow> new_mutable e | Some m \<Rightarrow> m)) else shown_order evs i)"
  by (cases "ev_payload ev") (simp_all add: shown_order_def order_states_def entries_of_def order_lookup_put)

lemma production_entries:
  assumes "\<not> jl_open (pr_orders r)"
  shows "\<not> jl_open (pr_orders (fold handle_production evs r)) \<and>
    jl_lines (pr_orders (fold handle_production evs r)) = jl_lines (pr_orders r) @ map Some (concat (map entries_of evs))"
  using assms
proof (induction evs arbitrary: r)
  case (Cons ev evs)
  have "\<not> jl_open (pr_orders (handle_production ev r)) \<and>
      jl_lines (pr_orders (handle_production ev r)) = jl_lines (pr_orders r) @ map Some (entries_of ev)"
    using Cons.prems
    by (cases "ev_payload ev") (simp_all add: handle_production_def entries_of_def append_line_def append_trace_def)
  then show ?case using Cons.IH [of "handle_production ev r"] by simp
qed simp

text \<open>A journal without broken lines is read back as a whole.\<close>

lemma read_lines_whole: "jl_lines f = map Some xs \<Longrightarrow> length xs \<le> nat n \<Longrightarrow> 1 \<le> n \<Longrightarrow> read_lines n f = xs"
  by (simp add: read_lines_def Let_def List.map_filter_def comp_def)

lemma put_entry_keys: "\<forall>(k, m) \<in> set st. mu_order_id m = k \<Longrightarrow> \<forall>(k, m) \<in> set (put_entry e st). mu_order_id m = k"
  by (induction st) (auto simp: apply_entry_def new_mutable_def split: if_splits)

lemma order_states_keys: "\<forall>(k, m) \<in> set (order_states es). mu_order_id m = k"
proof -
  have "\<forall>(k, m) \<in> set (fold put_entry es st). mu_order_id m = k" if "\<forall>(k, m) \<in> set st. mu_order_id m = k" for st
    using that
  proof (induction es arbitrary: st)
    case (Cons e es)
    show ?case unfolding fold_simps by (rule Cons.IH) (rule put_entry_keys [OF Cons.prems])
  qed simp
  from this [of "[]"] show ?thesis by (simp add: order_states_def)
qed

lemma order_states_length: "length (order_states es) \<le> length es"
proof -
  have put: "length (put_entry e st) \<le> Suc (length st)" for e st by (induction st) auto
  have "length (fold put_entry es st) \<le> length es + length st" for st
  proof (induction es arbitrary: st)
    case (Cons e es)
    have "length (fold put_entry es (put_entry e st)) \<le> length es + length (put_entry e st)" by (rule Cons.IH)
    then show ?case using put [of e st] by simp
  qed simp
  from this [of "[]"] show ?thesis by (simp add: order_states_def)
qed

lemma order_lookup_entry: "order_lookup i st = Some m \<Longrightarrow> \<exists>k. (k, m) \<in> set st \<and> eq_ignore_case k i"
  by (induction st) (auto split: if_splits)

lemma read_orders_shown:
  assumes "jl_lines (pr_orders r) = map Some es" and "length es \<le> nat maximum" and "1 \<le> maximum" and "maximum < 2 ^ 31"
    and "order_lookup i (order_states es) = Some m"
  shows "mutable_to_snapshot m \<in> set (read_orders maximum r) \<and> eq_ignore_case (mu_order_id m) i"
proof -
  have "read_lines (2 ^ 31 - 1) (pr_orders r) = es"
    using assms(2-4) by (intro read_lines_whole [OF assms(1)]) (simp_all add: nat_le_iff)
  moreover have "length (order_states es) \<le> nat maximum" using order_states_length [of es] assms(2) by simp
  ultimately have "set (read_orders maximum r) = mutable_to_snapshot ` snd ` set (order_states es)"
    by (simp add: read_orders_def)
  moreover obtain k where k: "(k, m) \<in> set (order_states es)" "eq_ignore_case k i" using order_lookup_entry [OF assms(5)] by blast
  moreover have "mu_order_id m = k" using order_states_keys [of es] k(1) by auto
  ultimately show ?thesis by (metis imageI snd_conv)
qed

section \<open>The coordinator and its order\<close>

definition tracks :: "machine_event list \<Rightarrow> 'm coordinator \<Rightarrow> bool" where
  "tracks past s \<longleftrightarrow> co_checkpoint s = None \<and>
     (\<forall>p. co_order s = Some p \<longrightarrow> (\<exists>m. shown_order (past @ co_events s) (po_id p) = Some m \<and> shows_order m p))"

text \<open>Whatever keeps the order, the checkpoint and the events keeps it.\<close>

lemma tracks_cong:
  "co_order t = co_order s \<Longrightarrow> co_events t = co_events s \<Longrightarrow> co_checkpoint t = co_checkpoint s \<Longrightarrow> tracks past t = tracks past s"
  by (simp add: tracks_def)

lemma tracks_update [simp]:
  "tracks past (s\<lparr>co_correlation := a1\<rparr>) = tracks past s"
  "tracks past (s\<lparr>co_mode := a2\<rparr>) = tracks past s"
  "tracks past (s\<lparr>co_exec := a3\<rparr>) = tracks past s"
  "tracks past (s\<lparr>co_step := a4\<rparr>) = tracks past s"
  "tracks past (s\<lparr>co_alarms := a5\<rparr>) = tracks past s"
  "tracks past (s\<lparr>co_part := a7\<rparr>) = tracks past s"
  "tracks past (s\<lparr>co_gripper := a8\<rparr>) = tracks past s"
  "tracks past (s\<lparr>co_dwell := a9\<rparr>) = tracks past s"
  "tracks past (s\<lparr>co_cycle_started := b1\<rparr>) = tracks past s"
  "tracks past (s\<lparr>co_cycles := b2\<rparr>) = tracks past s"
  "tracks past (s\<lparr>co_good := b3\<rparr>) = tracks past s"
  "tracks past (s\<lparr>co_reject := b4\<rparr>) = tracks past s"
  "tracks past (s\<lparr>co_last_cycle := b5\<rparr>) = tracks past s"
  "tracks past (s\<lparr>co_recipe := b6\<rparr>) = tracks past s"
  "tracks past (s\<lparr>co_estop_ok := b8\<rparr>) = tracks past s"
  "tracks past (s\<lparr>co_guard_closed := b9\<rparr>) = tracks past s"
  "tracks past (s\<lparr>co_bus_healthy := c1\<rparr>) = tracks past s"
  "tracks past (s\<lparr>co_sim_time := c2\<rparr>) = tracks past s"
  "tracks past (s\<lparr>co_revision := c3\<rparr>) = tracks past s"
  "tracks past (s\<lparr>co_last_transition := c4\<rparr>) = tracks past s"
  "tracks past (s\<lparr>co_motion := c5\<rparr>) = tracks past s"
  "tracks past (s\<lparr>co_reads := c6\<rparr>) = tracks past s"
  by (rule tracks_cong; simp)+

lemma tracks_checkpoint_cleared: "tracks past s \<Longrightarrow> tracks past (s\<lparr>co_checkpoint := None\<rparr>)"
  by (simp add: tracks_def)

text \<open>An event that is not about an order keeps it; an event about the order of the moment restores it.\<close>

definition order_event :: "payload \<Rightarrow> bool" where
  "order_event p \<longleftrightarrow> (case p of OrderLoadedPayload _ _ _ _ _ \<Rightarrow> True | OrderStatusChangedPayload _ _ _ _ \<Rightarrow> True | _ \<Rightarrow> False)"

lemma shown_order_record:
  "shown_order (past @ co_events (record_event ty p s)) i =
     (case p of
        OrderLoadedPayload k q r v st \<Rightarrow>
          (if eq_ignore_case k i
           then Some (apply_entry (entry_loaded k q r v st (co_reads s + 1))
             (case shown_order (past @ co_events s) i of None \<Rightarrow> new_mutable (entry_loaded k q r v st (co_reads s + 1)) | Some m \<Rightarrow> m))
           else shown_order (past @ co_events s) i)
      | OrderStatusChangedPayload k st c why \<Rightarrow>
          (if eq_ignore_case k i
           then Some (apply_entry (entry_status k st c (co_reads s + 1))
             (case shown_order (past @ co_events s) i of None \<Rightarrow> new_mutable (entry_status k st c (co_reads s + 1)) | Some m \<Rightarrow> m))
           else shown_order (past @ co_events s) i)
      | _ \<Rightarrow> shown_order (past @ co_events s) i)"
  by (cases p) (simp_all add: record_event_def append_assoc [symmetric] shown_order_snoc entries_of_def entry_loaded_def entry_status_def
      del: append_assoc split: option.split)

lemma tracks_record: "\<not> order_event p \<Longrightarrow> tracks past s \<Longrightarrow> tracks past (record_event ty p s)"
  by (cases p) (simp_all add: tracks_def shown_order_record order_event_def)

lemmas tracks_events [simp] =
  tracks_record [of "CycleStartedPayload a b c d e" for a b c d e, simplified order_event_def payload.case]
  tracks_record [of "CycleCompletedPayload a b c d e f g" for a b c d e f g, simplified order_event_def payload.case]
  tracks_record [of "TraceabilityPayload a b c d" for a b c d, simplified order_event_def payload.case]
  tracks_record [of "RecipeActivatedPayload a b" for a b, simplified order_event_def payload.case]
  tracks_record [of "AlarmEventPayload a b" for a b, simplified order_event_def payload.case]

text \<open>A new state of the same order, followed by the event that reports it.\<close>

lemma tracks_reported:
  assumes "tracks past s" and "co_order s = Some p"
    and "po_id q = po_id p" "po_target q = po_target p" "po_recipe_id q = po_recipe_id p" "po_recipe_revision q = po_recipe_revision p"
    and "co_order t = Some q" "co_checkpoint t = None" "\<And>i. shown_order (past @ co_events t) i = shown_order (past @ co_events s) i"
  shows "tracks past (record_event ty (OrderStatusChangedPayload (po_id q) (po_status q) (po_completed q) why) t)"
proof -
  obtain m where m: "shown_order (past @ co_events s) (po_id p) = Some m" "shows_order m p"
    using assms(1,2) by (auto simp: tracks_def)
  let ?e = "entry_status (po_id q) (po_status q) (po_completed q) (co_reads t + 1)"
  have "shown_order (past @ co_events (record_event ty (OrderStatusChangedPayload (po_id q) (po_status q) (po_completed q) why) t)) (po_id q)
      = Some (apply_entry ?e m)"
    using m(1) assms(3,9) by (simp add: shown_order_record)
  moreover have "shows_order (apply_entry ?e m) q"
    using m(2) assms(4-6) by (simp add: shows_order_def apply_entry_def entry_status_def with_default_def)
  ultimately show ?thesis using assms(7,8) by (simp add: tracks_def)
qed

lemma tracks_status:
  assumes "tracks past s" and "\<And>p. po_id (f p) = po_id p \<and> po_target (f p) = po_target p
    \<and> po_recipe_id (f p) = po_recipe_id p \<and> po_recipe_revision (f p) = po_recipe_revision p"
  shows "tracks past (record_order_status why (update_order f s))"
proof (cases "co_order s")
  case None
  then show ?thesis using assms(1) by (simp add: record_order_status_def update_order_def tracks_def)
next
  case (Some p)
  then show ?thesis
    using tracks_reported [OF assms(1) Some, of "f p" "update_order f s" "''order.status''" why] assms
    by (simp add: record_order_status_def update_order_def tracks_def)
qed

lemma tracks_order_status [simp]:
  "tracks past s \<Longrightarrow> tracks past (record_order_status why (update_order activate_order s))"
  "tracks past s \<Longrightarrow> tracks past (record_order_status why (update_order pause_order s))"
  "tracks past s \<Longrightarrow> tracks past (record_order_status why (update_order resume_order s))"
  "tracks past s \<Longrightarrow> tracks past (record_order_status why (update_order cancel_order s))"
  "tracks past s \<Longrightarrow> tracks past (pause_order_in why s)"
  unfolding pause_order_in_def
  by (rule tracks_status; simp add: activate_order_def pause_order_def resume_order_def cancel_order_def)+

lemma tracks_complete: "tracks past s \<Longrightarrow> tracks past (snd (complete_cycle s))"
proof (cases "co_order s"; cases "co_part s")
  fix p part
  assume s: "tracks past s" "co_order s = Some p" "co_part s = Some part"
  let ?c = "CycleCompletedPayload (po_id p) part (long_inc (co_cycles s)) PQ_Good
    (case co_cycle_started s of None \<Rightarrow> 0 | Some t0 \<Rightarrow> max 0 (co_sim_time s - t0)) (rc_id (co_recipe s)) (rc_revision (co_recipe s))"
  let ?t = "s\<lparr>co_cycles := long_inc (co_cycles s), co_good := long_inc (co_good s),
    co_last_cycle := (case co_cycle_started s of None \<Rightarrow> 0 | Some t0 \<Rightarrow> max 0 (co_sim_time s - t0))\<rparr>"
  let ?u = "record_event ''cycle.completed'' ?c ?t"
  let ?r = "record_completed_part (co_reads ?u) p"
  let ?v = "?u\<lparr>co_order := Some (snd ?r), co_reads := co_reads ?u + (if fst ?r then 1 else 0)\<rparr>"
  have same: "po_id (snd ?r) = po_id p" "po_target (snd ?r) = po_target p" "po_recipe_id (snd ?r) = po_recipe_id p"
    "po_recipe_revision (snd ?r) = po_recipe_revision p"
    by (simp_all add: record_completed_part_def Let_def)
  have "tracks past (record_event ''order.status''
      (OrderStatusChangedPayload (po_id (snd ?r)) (po_status (snd ?r)) (po_completed (snd ?r))
        (if fst ?r then ''target-quantity-reached'' else ''part-completed'')) ?v)"
    using s(1) by (intro tracks_reported [OF s(1,2) same]) (simp_all add: tracks_def shown_order_record)
  then show ?thesis using s(2,3) by (simp add: complete_cycle_def Let_def)
qed (simp_all add: complete_cycle_def)

lemma tracks_loaded:
  assumes "tracks past s" and "new_order oid n r v now = Inr p" and "co_checkpoint t = None" "co_order t = Some p"
  shows "tracks past (record_event ty (OrderLoadedPayload (po_id p) (po_target p) (po_recipe_id p) (po_recipe_revision p) (po_status p)) t)"
proof -
  have "po_completed p = 0" using assms(2) by (auto simp: new_order_def split: if_splits)
  then show ?thesis
    using assms(3,4)
    by (auto simp: tracks_def shown_order_record shows_order_def apply_entry_def entry_loaded_def with_default_def)
qed

section \<open>Every operation\<close>

lemma tracks_accept [simp]:
  "tracks past s \<Longrightarrow> tracks past (snd (accept i c k s))"
  "tracks past s \<Longrightarrow> tracks past (snd (reject i c k rs s))"
  by (simp_all add: accept_def reject_def)

lemma tracks_primitives [simp]:
  "tracks past (on_motion f s) = tracks past s"
  "tracks past (snd (motion_call h s)) = tracks past s"
  "tracks past (increment_revision r s) = tracks past s"
  "tracks past (snd (command_position ops p s)) = tracks past s"
  "tracks past (snd (command_target_for_current_step ops s)) = tracks past s"
  by (rule tracks_cong; simp)+

lemma tracks_transition [simp]: "tracks past s \<Longrightarrow> tracks past (transition e st r s)"
  by (simp add: transition_def Let_def)

lemma tracks_composites [simp]:
  "tracks past s \<Longrightarrow> tracks past (discard_interrupted_part s)"
  "tracks past s \<Longrightarrow> tracks past (snd (begin_cycle s))"
  by (simp_all add: discard_interrupted_part_def begin_cycle_def Let_def split: option.split)

lemma tracks_raise_fault [simp]: "tracks past s \<Longrightarrow> tracks past (raise_fault ops code src sv msg act s)"
  by (simp add: raise_fault_def Let_def)

lemma tracks_clear [simp]: "tracks past s \<Longrightarrow> tracks past (clear_active_alarms done xs s)"
  by (induction "done" xs s rule: clear_active_alarms.induct) (simp_all add: Let_def)

lemma tracks_acknowledge [simp]: "tracks past s \<Longrightarrow> tracks past (acknowledge_all u done xs s)"
  by (induction u "done" xs s rule: acknowledge_all.induct) (simp_all add: Let_def)

lemmas tracks_chain = chain_keeps [where P = "tracks past" for past]

lemma tracks_load: "tracks past s \<Longrightarrow> tracks past (snd (load_order_cmd i req corr s))"
  by (auto simp: load_order_cmd_def Let_def split: option.split sum.split intro!: tracks_accept(1) tracks_loaded)
    (auto simp: tracks_def)

lemma tracks_handlers:
  assumes "tracks past s"
  shows "tracks past (snd (initialize_cmd ops i corr s))"
    and "tracks past (snd (set_mode_cmd i m corr s))"
    and "tracks past (snd (load_order_cmd i req corr s))"
    and "tracks past (snd (cancel_order_cmd i corr s))"
    and "tracks past (snd (home_cmd ops i corr s))"
    and "tracks past (snd (start_cmd ops i corr s))"
    and "tracks past (snd (pause_cmd ops i corr s))"
    and "tracks past (snd (resume_cmd ops i corr s))"
    and "tracks past (snd (stop_cmd ops i corr s))"
    and "tracks past (snd (abort_cmd i corr s))"
    and "tracks past (snd (reset_cmd ops i corr s))"
    and "tracks past (snd (jog_cmd ops i axis d corr s))"
    and "tracks past (snd (inject_fault_cmd ops i f corr s))"
    and "tracks past (snd (clear_fault_cmd ops i f corr s))"
    and "tracks past (snd (acknowledge_alarms_cmd i u corr s))"
  using assms
  by (simp_all add: initialize_cmd_def set_mode_cmd_def tracks_load cancel_order_cmd_def home_cmd_def
      start_cmd_def pause_cmd_def resume_cmd_def stop_cmd_def abort_cmd_def reset_cmd_def jog_cmd_def
      inject_fault_cmd_def clear_fault_cmd_def acknowledge_alarms_cmd_def Let_def tracks_chain
      split: option.split sum.split fault_target.split)

text \<open>Recovery is only possible after a restored checkpoint.\<close>

lemma tracks_recover: "tracks past s \<Longrightarrow> tracks past (snd (recover_cmd ops i action corr s))"
proof -
  assume t: "tracks past s"
  then have "co_checkpoint s = None" by (simp add: tracks_def)
  with t show ?thesis by (simp add: recover_cmd_def)
qed

lemma tracks_execute: "tracks past s \<Longrightarrow> tracks past (snd (execute ops i req s))"
proof -
  have "tracks past t \<Longrightarrow> tracks past (snd (dispatch ops i req corr t))" for corr t
    unfolding dispatch_def Let_def
    by (simp only: if_distrib [of snd] if_distrib [of "tracks past"] tracks_handlers tracks_recover tracks_accept if_cancel)
  then show "tracks past s \<Longrightarrow> tracks past (snd (execute ops i req s))"
    by (simp add: execute_def Let_def)
qed

lemma tracks_activate: "tracks past s \<Longrightarrow> tracks past (snd (activate_recipe i r corr s))"
  by (simp add: activate_recipe_def Let_def)

lemma tracks_checks [simp]:
  "tracks past s \<Longrightarrow> tracks past (check_permission ops motion s)"
  "tracks past s \<Longrightarrow> tracks past (check_following_error ops motion s)"
  by (simp_all add: check_permission_def check_following_error_def Let_def)

lemma tracks_next_cycle [simp]: "tracks past s \<Longrightarrow> tracks past (snd (start_next_cycle ops why s))"
  unfolding start_next_cycle_def by (rule tracks_chain) simp_all

lemma tracks_advance: "tracks past s \<Longrightarrow> tracks past (snd (advance_production ops dt motion s))"
  by (cases "co_step s") (simp_all add: advance_production_def dwell_then_def Let_def tracks_chain tracks_complete)

lemma tracks_run: "tracks past s \<Longrightarrow> tracks past (snd (run_execution ops dt motion s))"
  by (cases "co_exec s") (simp_all add: run_execution_def Let_def tracks_advance tracks_checkpoint_cleared)

lemma tracks_step: "tracks past s \<Longrightarrow> tracks past (snd (step_machine ops dt s))"
  unfolding step_machine_def Let_def by (intro tracks_chain tracks_run tracks_checks) simp_all

lemma tracks_snapshot:
  "tracks past s \<Longrightarrow> tracks past (snd (snapshot_unsafe ops host s))"
  "tracks past s \<Longrightarrow> tracks past (snd (create_checkpoint ops why s))"
  by (simp_all add: snapshot_unsafe_def create_checkpoint_def Let_def)

lemma tracks_drain: "tracks past s \<Longrightarrow> tracks (past @ co_events s) (snd (drain_events s))"
  by (simp add: drain_events_def tracks_def)

section \<open>Interrupted appends and reused identifiers\<close>

text \<open>
  The document after an interrupted append is lost too, although the code says that future lines remain readable: it
  is written on the line that the crash left unfinished.
\<close>

lemma interrupted_append_loses_next:
  assumes "\<not> jl_open f" and "n = int (length (jl_lines f)) + 1"
  shows "read_lines n (append_line y (cut_line x f)) = List.map_filter (\<lambda>x. x) (jl_lines f)"
  using assms by (simp add: read_lines_def append_line_def cut_line_def List.map_filter_def Let_def)

text \<open>An order loaded again under the identifier of a completed one is read back as queued, and completed long ago.\<close>

lemma reloaded_order_keeps_completion:
  "map snd (order_states [entry_loaded ''A'' 1 ''r'' 1 OS_Queued 3, entry_status ''A'' OS_Completed 1 5,
      entry_loaded ''A'' 2 ''r'' 1 OS_Queued 8]) =
   [\<lparr>mu_order_id = ''A'', mu_target = 2, mu_completed = 0, mu_recipe_id = ''r'', mu_recipe_revision = 1,
     mu_status = OS_Queued, mu_loaded_at = 3, mu_completed_at = Some 5\<rparr>]"
  by code_simp

end
