(* ===== verification/RuntimeLaws.thy ===== *)
theory RuntimeLaws
  imports DeliveryLaws ProductionLaws CoordinatorFindings
begin

text \<open>
  Properties of the host: what the runtime loop, the commands and the delivery service do together, in any
  interleaving.
\<close>

section \<open>The event log\<close>

lemma handle_event_sel [simp]:
  "ho_event_log (handle_event oo ev h) = ho_event_log h @ [ev]"
  "ho_coordinator (handle_event oo ev h) = ho_coordinator h"
  "ho_stage (handle_event oo ev h) = ho_stage h"
  "ho_production (handle_event oo ev h) = handle_production ev (ho_production h)"
  "ho_delivery (handle_event oo ev h) =
     (if ev_type ev = ''cycle.completed''
      then (ho_delivery h)\<lparr>de_outbox := oo_enqueue oo ev (de_outbox (ho_delivery h))\<rparr> else ho_delivery h)"
  by (simp_all add: handle_event_def Let_def split: payload.split)

lemma handle_events_sel [simp]:
  "ho_event_log (fold (handle_event oo) evs h) = ho_event_log h @ evs"
  "ho_coordinator (fold (handle_event oo) evs h) = ho_coordinator h"
  "ho_production (fold (handle_event oo) evs h) = fold handle_production evs (ho_production h)"
  by (induction evs arbitrary: h) simp_all

lemma on_delivery_sel [simp]:
  "ho_event_log (on_delivery f h) = ho_event_log h" "ho_coordinator (on_delivery f h) = ho_coordinator h"
  "ho_delivery (on_delivery f h) = f (ho_delivery h)"
  by (simp_all add: on_delivery_def)

lemma on_coordinator_sel [simp]:
  "ho_event_log (on_coordinator f h) = ho_event_log h" "ho_coordinator (on_coordinator f h) = f (ho_coordinator h)"
  "ho_delivery (on_coordinator f h) = ho_delivery h"
  by (simp_all add: on_coordinator_def)

lemma clear_if_safe_sel [simp]:
  "ho_event_log (clear_if_safe snap h) = ho_event_log h" "ho_coordinator (clear_if_safe snap h) = ho_coordinator h"
  "ho_delivery (clear_if_safe snap h) = ho_delivery h"
  by (simp_all add: clear_if_safe_def)

lemma store_checkpoint_sel [simp]:
  "ho_event_log (store_checkpoint ops snap h) = ho_event_log h"
  "ho_coordinator (store_checkpoint ops snap h) = snd (create_checkpoint ops (st_last_transition snap) (ho_coordinator h))"
  "ho_delivery (store_checkpoint ops snap h) = ho_delivery h"
  by (simp_all add: store_checkpoint_def split: prod.split)

text \<open>What a step does to the coordinator is one of its calls or nothing.\<close>

lemma pass_step_sel [simp]:
  "ho_event_log (pass_step ops opts checksum uptime h) = ho_event_log h"
  "ho_delivery (pass_step ops opts checksum uptime h) = ho_delivery h"
  by (simp_all add: pass_step_def split: stage.split prod.split sum.split)

lemma pass_step_coordinator:
  "ho_coordinator (pass_step ops opts checksum uptime h) = ho_coordinator h \<or>
   (\<exists>view. ho_coordinator (pass_step ops opts checksum uptime h) =
      snd (step_snapshot ops view (real_of_int (period_ms opts) / 1000) (ho_coordinator h)))"
proof (cases "ho_stage h")
  case Waiting
  let ?r = "step_snapshot ops (host_view_of (ho_metrics h) (de_status (ho_delivery h)) uptime checksum)
      (real_of_int (period_ms opts) / 1000) (ho_coordinator h)"
  have "ho_coordinator (pass_step ops opts checksum uptime h) = snd ?r"
    using Waiting by (simp add: pass_step_def split: prod.split sum.split)
  then show ?thesis by blast
qed (simp_all add: pass_step_def)

lemma pass_finish_sel:
  "ho_event_log (pass_finish ops oo opts elapsed h) = ho_event_log h"
  "de_outbox (ho_delivery (pass_finish ops oo opts elapsed h)) = de_outbox (ho_delivery h)"
  "de_gateway (ho_delivery (pass_finish ops oo opts elapsed h)) = de_gateway (ho_delivery h)"
  "de_batch (ho_delivery (pass_finish ops oo opts elapsed h)) = de_batch (ho_delivery h)"
  by (simp_all add: pass_finish_def Let_def split: stage.split)

lemma pass_finish_coordinator:
  "ho_coordinator (pass_finish ops oo opts elapsed h) = ho_coordinator h \<or>
   (\<exists>why. ho_coordinator (pass_finish ops oo opts elapsed h) = snd (create_checkpoint ops why (ho_coordinator h)))"
  by (auto simp: pass_finish_def Let_def split: stage.split)

definition full_log :: "('m, 's, 'g) host \<Rightarrow> machine_event list" where
  "full_log h = ho_event_log h @ co_events (ho_coordinator h)"

definition log_ok :: "('m, 's, 'g) host \<Rightarrow> bool" where
  "log_ok h \<longleftrightarrow> alarms_ok (co_alarms (ho_coordinator h)) \<and> stamps 0 (co_reads (ho_coordinator h)) (full_log h)"

lemma log_call:
  assumes "log_ok h" and "ho_event_log h' = ho_event_log h"
    and "journal (co_events (ho_coordinator h)) (co_reads (ho_coordinator h)) (ho_coordinator h')"
  shows "log_ok h' \<and> prefix (full_log h) (full_log h')"
proof -
  obtain fs where fs: "co_events (ho_coordinator h') = co_events (ho_coordinator h) @ fs"
    "stamps (co_reads (ho_coordinator h)) (co_reads (ho_coordinator h')) fs" "co_reads (ho_coordinator h) \<le> co_reads (ho_coordinator h')"
    "alarms_ok (co_alarms (ho_coordinator h'))"
    using assms(3) by (auto simp: journal_def recorded_def)
  then show ?thesis
    using stamps_append [of 0 "co_reads (ho_coordinator h)" "full_log h" "co_reads (ho_coordinator h')" fs] assms(1,2)
    by (simp add: log_ok_def full_log_def)
qed

lemma journal_step_snapshot: "journal es lo s \<Longrightarrow> journal es lo (snd (step_snapshot ops view dt s))"
  using step_snapshot_state [of ops dt s view] by (auto simp: journal_step)

lemma log_step:
  assumes "host_step ops oo gw opts checksum h h'" and "log_ok h"
  shows "log_ok h' \<and> prefix (full_log h) (full_log h')"
proof -
  let ?s = "ho_coordinator h"
  have open_: "journal (co_events ?s) (co_reads ?s) ?s" using assms(2) by (simp add: log_ok_def journal_open)
  show ?thesis
    using assms(1)
  proof cases
    case (Step uptime)
    then show ?thesis
      using pass_step_coordinator [of ops opts checksum uptime h] journal_step_snapshot [OF open_] open_
      by (intro log_call [OF assms(2)]) auto
  next
    case Drain
    then show ?thesis
      using assms(2) by (cases "ho_stage h") (simp_all add: pass_drain_def drain_events_def log_ok_def full_log_def)
  next
    case (Finish elapsed)
    then show ?thesis
      using pass_finish_coordinator [of ops oo opts elapsed h] journal_snapshot(2) [OF open_] open_
      by (intro log_call [OF assms(2)]) (auto simp: pass_finish_sel)
  qed (auto intro!: log_call [OF assms(2)] simp: open_ journal_execute journal_activate journal_snapshot)
qed

lemma log_steps: "host_steps ops oo gw opts checksum h h' \<Longrightarrow> log_ok h \<Longrightarrow> log_ok h' \<and> prefix (full_log h) (full_log h')"
  unfolding host_steps_def
  by (induction rule: rtranclp_induct) (auto dest: log_step intro: prefix_order.trans)

lemma log_new: "log_ok (new_host recipe m cps outbox g)"
  by (simp add: log_ok_def full_log_def new_host_def new_coordinator_def alarms_ok_def)

text \<open>
  The event log loses nothing and repeats nothing: whatever the interleaving of the runtime loop with commands and
  deliveries, the events written to the store followed by those still queued in the coordinator only grow at the
  end, and no two of them have the same identifier.
\<close>

theorem event_log_grows:
  assumes "host_steps ops oo gw opts checksum (new_host recipe m cps outbox g) h" and "host_step ops oo gw opts checksum h h'"
  shows "prefix (ho_event_log h @ co_events (ho_coordinator h)) (ho_event_log h' @ co_events (ho_coordinator h'))
    \<and> distinct (map ev_id (ho_event_log h' @ co_events (ho_coordinator h')))"
  using log_step [OF assms(2)] log_steps [OF assms(1) log_new] stamps_distinct
  unfolding log_ok_def full_log_def by blast

section \<open>The order journal\<close>

definition books_ok :: "('m, 's, 'g) host \<Rightarrow> bool" where
  "books_ok h \<longleftrightarrow> tracks (ho_event_log h) (ho_coordinator h) \<and> ho_production h = fold handle_production (ho_event_log h) empty_production"

lemma books_call:
  "books_ok h \<Longrightarrow> ho_event_log h' = ho_event_log h \<Longrightarrow> ho_production h' = ho_production h \<Longrightarrow>
    tracks (ho_event_log h) (ho_coordinator h') \<Longrightarrow> books_ok h'"
  by (simp add: books_ok_def)

lemma steps_production [simp]:
  "ho_production (on_delivery f h) = ho_production h" "ho_production (on_coordinator k h) = ho_production h"
  "ho_production (pass_step ops opts checksum uptime h) = ho_production h"
  "ho_production (pass_finish ops oo opts elapsed h) = ho_production h"
  by (simp_all add: on_delivery_def on_coordinator_def pass_step_def pass_finish_def clear_if_safe_def store_checkpoint_def Let_def
      split: stage.split prod.split sum.split)

lemma books_step:
  assumes "host_step ops oo gw opts checksum h h'" and "books_ok h"
  shows "books_ok h'"
proof -
  have open_: "tracks (ho_event_log h) (ho_coordinator h)" using assms(2) by (simp add: books_ok_def)
  note call = books_call [OF assms(2)]
  show ?thesis
    using assms(1)
  proof cases
    case (Step uptime)
    have "tracks (ho_event_log h) (snd (step_snapshot ops view dt (ho_coordinator h)))" for view dt
      unfolding step_snapshot_def Let_def
      by (rule tracks_chain) (simp_all add: tracks_step [OF open_] tracks_snapshot)
    then show ?thesis
      using Step pass_step_coordinator [of ops opts checksum uptime h] open_ by (intro call) auto
  next
    case Drain
    then show ?thesis
      using assms(2) tracks_drain [OF open_]
      by (cases "ho_stage h") (simp_all add: pass_drain_def drain_events_def books_ok_def)
  next
    case (Finish elapsed)
    then show ?thesis
      using pass_finish_coordinator [of ops oo opts elapsed h] open_ tracks_snapshot(2) [OF open_]
      by (intro call) (auto simp: pass_finish_sel)
  qed (auto intro!: call simp: open_ tracks_execute tracks_activate tracks_snapshot)
qed

lemma books_steps: "host_steps ops oo gw opts checksum h h' \<Longrightarrow> books_ok h \<Longrightarrow> books_ok h'"
  unfolding host_steps_def by (induction rule: rtranclp_induct) (auto intro: books_step)

text \<open>
  C12. The order journal shows the machine's order: in every run of a host that started without a checkpoint, whatever
  the interleaving, the journal read back shows, once the queued events are written, an order under the identifier of
  the loaded one with the same target, count, recipe, revision and status.
\<close>

theorem order_journal_shows_order:
  assumes "host_steps ops oo gw opts checksum (new_host recipe m cps outbox g) h" and "co_order (ho_coordinator h) = Some p"
    and "length (jl_lines (pr_orders r)) \<le> nat maximum" and "maximum < 2 ^ 31"
    and "r = fold handle_production (co_events (ho_coordinator h)) (ho_production h)"
  shows "\<exists>o' \<in> set (read_orders maximum r). eq_ignore_case (os_id o') (po_id p)
    \<and> os_target o' = po_target p \<and> os_completed o' = po_completed p \<and> os_recipe_id o' = po_recipe_id p
    \<and> os_recipe_revision o' = po_recipe_revision p \<and> os_status o' = po_status p"
proof -
  let ?evs = "ho_event_log h @ co_events (ho_coordinator h)"
  have books: "books_ok h"
    by (rule books_steps [OF assms(1)]) (simp add: books_ok_def new_host_def new_coordinator_def tracks_def)
  then obtain o' where shown: "shown_order ?evs (po_id p) = Some o'" "shows_order o' p"
    using assms(2) by (auto simp: books_ok_def tracks_def)
  have "r = fold handle_production ?evs empty_production" using books assms(5) by (simp add: books_ok_def)
  then have lines: "jl_lines (pr_orders r) = map Some (concat (map entries_of ?evs))"
    using production_entries [of empty_production ?evs] by (simp add: empty_production_def empty_jsonl_def)
  have "concat (map entries_of ?evs) \<noteq> []"
    using shown(1) unfolding shown_order_def order_states_def by (metis fold_simps(1) option.discI order_lookup.simps(1))
  then have "0 < length (jl_lines (pr_orders r))" unfolding lines by (simp del: map_append concat_append)
  then have "1 \<le> maximum" using assms(3) by linarith
  then show ?thesis
    using read_orders_shown [OF lines _ _ assms(4) shown(1) [unfolded shown_order_def]] assms(3) lines shown(2)
    by (intro bexI [of _ "mutable_to_snapshot o'"]) (auto simp: mutable_to_snapshot_def shows_order_def simp del: map_append concat_append)
qed

section \<open>Completed parts\<close>

definition completed :: "machine_event list \<Rightarrow> machine_event list" where
  "completed evs = filter (\<lambda>ev. ev_type ev = ''cycle.completed'') evs"

context outbox_store
begin

definition outbox_complete :: "('m, 's, 'g) host \<Rightarrow> bool" where
  "outbox_complete h \<longleftrightarrow> good (de_outbox (ho_delivery h)) \<and>
     messages (de_outbox (ho_delivery h)) = oo_name oo ` set (completed (ho_event_log h))"

lemma outbox_complete_event: "outbox_complete h \<Longrightarrow> outbox_complete (handle_event oo ev h)"
  by (simp add: outbox_complete_def completed_def good_enqueue messages_enqueue)

lemma outbox_complete_events: "outbox_complete h \<Longrightarrow> outbox_complete (fold (handle_event oo) evs h)"
  by (induction evs arbitrary: h) (simp_all add: outbox_complete_event)

lemma outbox_complete_cong:
  "outbox_complete h \<Longrightarrow> ho_event_log h' = ho_event_log h \<Longrightarrow> de_outbox (ho_delivery h') = de_outbox (ho_delivery h)
    \<Longrightarrow> outbox_complete h'"
  by (simp add: outbox_complete_def)

lemma outbox_complete_step:
  assumes "host_step ops oo gw opts checksum h h'" and "outbox_complete h"
  shows "outbox_complete h'"
  using assms(1)
proof cases
  case Drain
  have "outbox_complete (fold (handle_event oo) evs (h\<lparr>ho_coordinator := t\<rparr>))" for evs t
    by (rule outbox_complete_events, rule outbox_complete_cong [OF assms(2)]) simp_all
  then have "outbox_complete ((fold (handle_event oo) evs (h\<lparr>ho_coordinator := t\<rparr>))\<lparr>ho_stage := st\<rparr>)" for evs t st
    by (rule outbox_complete_cong) simp_all
  then show ?thesis using Drain assms(2) by (simp add: pass_drain_def drain_events_def split: stage.split)
next
  case (Deliver now)
  then show ?thesis
    using assms(2) delivery_next_keeps [of "ho_delivery h" gw now] by (simp add: outbox_complete_def)
qed (auto intro: outbox_complete_cong [OF assms(2)] simp: pass_finish_sel)

lemma outbox_complete_steps:
  "host_steps ops oo gw opts checksum h h' \<Longrightarrow> outbox_complete h \<Longrightarrow> outbox_complete h'"
  unfolding host_steps_def by (induction rule: rtranclp_induct) (auto intro: outbox_complete_step)

end









definition empty_gateway :: file_gateway where
  "empty_gateway = \<lparr>fg_offline = False, fg_delivered = [], fg_receipts = []\<rparr>"


section \<open>The order of the commands\<close>

text \<open>Running accepted commands one after the other, with nothing in between.\<close>

fun run_commands ::
  "'m motion_ops \<Rightarrow> (exn + store_error \<Rightarrow> string) \<Rightarrow> recipe_file \<Rightarrow> (string \<times> command_request) list
    \<Rightarrow> 'm coordinator \<times> recipe_files \<Rightarrow> command_result list \<times> 'm coordinator \<times> recipe_files" where
  "run_commands ops message initial_path [] st = ([], st)"
| "run_commands ops message initial_path ((i, req) # cmds) st =
     (let (r, st') = process_command ops message initial_path i req st;
          (rs, st'') = run_commands ops message initial_path cmds st'
      in (r # rs, st''))"

lemma run_commands_snoc:
  "run_commands ops message path (cmds @ [(i, req)]) st =
     (let (rs, st') = run_commands ops message path cmds st; (r, st'') = process_command ops message path i req st'
      in (rs @ [r], st''))"
  by (induction cmds arbitrary: st) (auto simp: Let_def split: prod.split)

text \<open>
  A run of the bus: callers send and count, the processor works; \<open>acc\<close> is what has been accepted, in order. Only the
  processor acts on the machine here.
\<close>

inductive bus_run ::
  "'m motion_ops \<Rightarrow> (exn + store_error \<Rightarrow> string) \<Rightarrow> recipe_file \<Rightarrow> command_bus \<Rightarrow> 'm coordinator \<times> recipe_files
    \<Rightarrow> (string \<times> command_request) list \<Rightarrow> command_bus \<Rightarrow> 'm coordinator \<times> recipe_files \<Rightarrow> bool"
  for ops message path b0 st0 where
  Start: "bus_run ops message path b0 st0 [] b0 st0"
| Accepted: "bus_run ops message path b0 st0 acc b st \<Longrightarrow> length (bu_queue b) < bu_capacity b \<Longrightarrow>
    bus_run ops message path b0 st0 (acc @ [(i, req)]) (send_command i req now b) st"
| Refused: "bus_run ops message path b0 st0 acc b st \<Longrightarrow> \<not> length (bu_queue b) < bu_capacity b \<Longrightarrow>
    bus_run ops message path b0 st0 acc (send_command i req now b) st"
| Counted: "bus_run ops message path b0 st0 acc b st \<Longrightarrow> 0 < bu_uncounted b \<Longrightarrow>
    bus_run ops message path b0 st0 acc (count_command b) st"
| Processed: "bus_run ops message path b0 st0 acc b st \<Longrightarrow> process_next ops message path b st = (b', st') \<Longrightarrow>
    bus_run ops message path b0 st0 acc b' st'"

lemma bus_run_order:
  assumes "bus_run ops message path b0 st0 acc b st" and "b0 = new_bus capacity metrics"
  shows "bu_queue b = drop (length (bu_answers b)) acc
    \<and> run_commands ops message path (take (length (bu_answers b)) acc) st0 = (bu_answers b, st)
    \<and> length (bu_answers b) \<le> length acc \<and> bu_depth b + int (bu_uncounted b) = int (length (bu_queue b)) \<and> length (bu_queue b) \<le> capacity
    \<and> bu_capacity b = capacity"
  using assms(1)
proof (induction)
  case Start
  show ?case by (simp add: new_bus_def assms(2))
next
  case (Accepted acc b st i req now)
  then show ?case unfolding send_command_def if_P [OF Accepted.hyps(2)] by (auto simp: Let_def)
next
  case (Refused acc b st i req now)
  then show ?case unfolding send_command_def if_not_P [OF Refused.hyps(2)] by auto
next
  case (Counted acc b st)
  then show ?case by (elim conjE) (simp add: count_command_def Let_def)
next
  case (Processed acc b st b' st')
  show ?case
  proof (cases "bu_queue b")
    case Nil
    then show ?thesis using Processed by (simp add: process_next_def)
  next
    case (Cons c rest)
    obtain i req where c: "c = (i, req)" by (cases c)
    let ?k = "length (bu_answers b)"
    have d: "drop ?k acc = (i, req) # rest" using Processed.IH Cons c by simp
    then have k: "?k < length acc" by (metis drop_all linorder_not_le list.discI)
    have "acc ! ?k = (i, req)" using d k by (metis hd_drop_conv_nth list.sel(1))
    then have "take (Suc ?k) acc = take ?k acc @ [(i, req)]" using k by (simp add: take_Suc_conv_app_nth)
    moreover have "drop (Suc ?k) acc = rest" using d by (metis drop_Suc list.sel(3) tl_drop)
    moreover obtain r t where r: "process_command ops message path i req st = (r, t)" by (metis prod.exhaust)
    then have b': "b' = (mark_read (b\<lparr>bu_queue := rest\<rparr>))\<lparr>bu_answers := bu_answers b @ [r]\<rparr>" "st' = t"
      using Processed.hyps(2) Cons c by (simp_all add: process_next_def)
    moreover have "run_commands ops message path (take ?k acc @ [(i, req)]) st0 = (bu_answers b @ [r], t)"
      using Processed.IH r by (simp add: run_commands_snoc)
    moreover have len: "length (bu_queue b) = Suc (length rest)" using Cons by simp
    moreover have "length rest \<le> capacity" using Processed.IH len by simp
    moreover have "bu_depth b - 1 + int (bu_uncounted b) = int (length rest)" using Processed.IH len by simp
    ultimately show ?thesis using Processed.IH k by (simp add: mark_read_def Let_def del: length_drop)
  qed
qed

text \<open>
  C11. The bus is a queue: whatever the interleaving of callers and processor, the commands that have run are the
  oldest accepted ones, their answers and the state of the machine are those of running them one after the other in
  the order in which they were accepted, each once; the rest waits in that order, never more than the capacity, and the
  depth counter is its length once every caller has counted its command.
\<close>

theorem commands_run_in_order:
  assumes "bus_run ops message path (new_bus capacity metrics) st0 acc b st"
  shows "bu_queue b = drop (length (bu_answers b)) acc
    \<and> run_commands ops message path (take (length (bu_answers b)) acc) st0 = (bu_answers b, st)
    \<and> bu_depth b + int (bu_uncounted b) = int (length (bu_queue b)) \<and> length (bu_queue b) \<le> capacity"
  using bus_run_order [OF assms refl] by blast

section \<open>Crash and restart\<close>





section \<open>Recipe activation\<close>

text \<open>
  A refused activation still takes effect after a restart: when the machine is neither stopped nor
  ready, activating a stored approved recipe is rejected and the machine keeps its recipe, but the store
  already holds the refused one as the active recipe, and \<open>LoadActiveAsync\<close> returns it at the next start.
\<close>

theorem rejected_activation_persists:
  assumes "cr_type req = Some ''activate-recipe''" and "cr_recipe_id req = Some (rc_id r)" and "cr_recipe_revision req = Some (rc_revision r)"
    and "\<not> is_blank (rc_id r)" and "load_recipe path (rc_id r) (rc_revision r) fs = Inr (Some r)" and "lifecycle_of r = RL_Approved"
    and "co_exec s \<notin> {ES_Stopped, ES_Ready}"
    and "process_command ops message path i req (s, fs) = (answer, t, gs)"
  shows "res_status answer = CS_Rejected \<and> co_recipe t = co_recipe s \<and> load_active path gs = Inr (with_status RL_Active r)"
proof -
  have id: "rc_id (with_status RL_Active r) = rc_id r" "rc_revision (with_status RL_Active r) = rc_revision r"
    "with_status RL_Active (with_status RL_Active r) = with_status RL_Active r"
    by (simp_all add: with_status_def)
  have "\<exists>code reasons. activate_recipe i (with_status RL_Active r) (correlation_or i req) s = reject i (correlation_or i req) code reasons s"
    unfolding activate_recipe_def if_P [OF assms(7)] by (simp; blast)
  then obtain code reasons where "activate_recipe i (with_status RL_Active r) (correlation_or i req) s = reject i (correlation_or i req) code reasons s"
    by blast
  then obtain u where rej: "activate_recipe i (with_status RL_Active r) (correlation_or i req) s = (Inr u, s\<lparr>co_reads := co_reads s + 1\<rparr>)"
    "res_status u = CS_Rejected"
    by (simp add: reject_def rejected_result_def)
  have run: "answer = u" "t = s\<lparr>co_reads := co_reads s + 1\<rparr>"
    "gs = run_ops (write_recipe (with_status RL_Active r) @ write_all RP_pointer (PointerDoc (rc_id r) (rc_revision r))) fs"
    using assms(8) rej(1) by (simp_all add: process_command_def assms(1-6) store_activate_def eq_ignore_case_def Let_def)
  have "map_of gs RP_pointer = Some (Whole (PointerDoc (rc_id r) (rc_revision r)))"
    "map_of gs (recipe_path (rc_id r) (rc_revision r)) = Some (Whole (RecipeDoc (with_status RL_Active r)))"
    using read_written_recipe [of "with_status RL_Active r" fs] unfolding run(3) id by (simp_all add: write_all_def recipe_path_def)
  then show ?thesis
    using run rej(2) by (simp add: load_active_def load_recipe_def file_exists_def read_recipe_def Let_def id)
qed

section \<open>Concrete runs\<close>

text \<open>Names of one length per event, a host just started, and a running host whose pass ends with a checkpoint.\<close>

definition demo_guid :: "reading \<Rightarrow> string" where
  "demo_guid n = replicate n CHR ''e''"

definition demo_options :: runtime_options where
  "demo_options = \<lparr>ro_simulation_period = 10, ro_publish_period = 40, ro_checkpoint_period = 10\<rparr>"

definition demo_host :: "(simulated_motion injected, outbox_files, file_gateway) host" where
  "demo_host = new_host default_recipe new_cell_motion [] [] empty_gateway"

definition demo_request :: command_request where
  "demo_request = (plain_request ''load-order'')\<lparr>cr_order_id := Some ''A'', cr_quantity := Some 2\<rparr>"

definition demo_commanded :: "(simulated_motion injected, outbox_files, file_gateway) host" where
  "demo_commanded = on_coordinator (\<lambda>s. snd (execute cell_ops ''c1'' demo_request s)) demo_host"



definition demo_cycle :: machine_event where
  "demo_cycle = \<lparr>ev_id = 3, ev_type = ''cycle.completed'', ev_timestamp = 4, ev_correlation_id = ''A'', ev_revision = 9,
     ev_payload = CycleStartedPayload ''A-PART-000001'' ''A'' ''standard-widget'' 1 5\<rparr>"

definition demo_outbox :: outbox_files where
  "demo_outbox = run_ops (enqueue_event demo_guid demo_cycle []) []"

definition demo_gateway :: "nat \<Rightarrow> unit gateway" where
  "demo_gateway status = \<lparr>gw_deliver = http_deliver (\<lambda>ev n. (Inr status, n)), gw_health = (\<lambda>g. (Inr (IH_Healthy, ''ok''), g))\<rparr>"


lemma demo_step: "host_step cell_ops (file_outbox demo_guid) (file_mes demo_guid) demo_options (\<lambda>_. []) demo_host demo_commanded"
  unfolding demo_commanded_def by (rule host_step.Command)

lemma demo_steps: "host_steps cell_ops (file_outbox demo_guid) (file_mes demo_guid) demo_options (\<lambda>_. []) demo_host demo_commanded"
  unfolding host_steps_def using demo_step by blast

lemma demo_commanded_order:
  "\<exists>p. co_order (ho_coordinator demo_commanded) = Some p \<and> po_target p = 2"
  "length (co_events (ho_coordinator demo_commanded)) = 1" "ho_production demo_commanded = empty_production"
proof -
  have "command_name demo_request = ''load-order''"
    by (simp add: demo_request_def command_name_def plain_request_def text_eval)
  note load = execute_by_name(3) [OF this]
  show "\<exists>p. co_order (ho_coordinator demo_commanded) = Some p \<and> po_target p = 2"
    "length (co_events (ho_coordinator demo_commanded)) = 1" "ho_production demo_commanded = empty_production"
    unfolding demo_commanded_def on_coordinator_def load
    by (simp_all add: demo_host_def new_host_def load_order_cmd_def Let_def demo_request_def plain_request_def new_coordinator_def default_recipe_def new_order_def is_blank_def is_space_def
        accept_def record_event_def increment_revision_def)
qed

lemma demo_outbox_views: "outbox_good demo_guid demo_outbox" "pending_set demo_outbox = {''eee''}"
  using outbox_keeps_good(1) [OF outbox_empty(1), of demo_guid demo_cycle]
  by (simp_all add: demo_outbox_def outbox_enqueue_views outbox_empty)
    (simp add: event_name_def demo_guid_def demo_cycle_def numeral_3_eq_3)

lemma checkpoint_save_atomic_witness:
  "load_checkpoint (run_ops (take 2 (save_checkpoint demo_checkpoint)) []) \<in> {Inr None, Inr (Some demo_checkpoint)}"
proof -
  have "run_ops (take 2 (save_checkpoint demo_checkpoint)) [] \<in> set (crash_states (save_checkpoint demo_checkpoint) [])"
    by (simp add: crash_states_def save_checkpoint_def write_through_def write_all_def del: run_ops_simps)
  then show ?thesis
    using checkpoint_save_atomic [of demo_checkpoint "[]"] by (auto simp: load_checkpoint_def [of "[]"])
qed

lemma event_log_grows_witness: "distinct (map ev_id (ho_event_log demo_commanded @ co_events (ho_coordinator demo_commanded)))"
  using event_log_grows [OF _ demo_step, of default_recipe new_cell_motion "[]" "[]" empty_gateway]
  by (simp add: demo_host_def host_steps_def)

lemma order_journal_shows_order_witness:
  "\<exists>o' \<in> set (read_orders 10 (fold handle_production (co_events (ho_coordinator demo_commanded)) empty_production)). os_target o' = 2"
proof -
  let ?r = "fold handle_production (co_events (ho_coordinator demo_commanded)) (ho_production demo_commanded)"
  obtain p where p: "co_order (ho_coordinator demo_commanded) = Some p" "po_target p = 2" using demo_commanded_order(1) by blast
  have entries: "length (entries_of ev) \<le> 1" for ev by (simp add: entries_of_def split: payload.split)
  obtain ev where "co_events (ho_coordinator demo_commanded) = [ev]"
    using demo_commanded_order(2) by (auto simp: length_Suc_conv)
  then have "length (jl_lines (pr_orders ?r)) \<le> nat 10"
    using production_entries [of empty_production "[ev]"] entries [of ev] demo_commanded_order(3)
    by (simp add: empty_production_def empty_jsonl_def)
  from order_journal_shows_order [OF demo_steps [unfolded demo_host_def] p(1) this _ refl] show ?thesis
    using p(2) demo_commanded_order(3) by auto
qed


lemma commands_run_in_order_witness:
  "bu_queue (send_command ''c1'' (plain_request ''home'') 0 (new_bus 256 (new_metrics 0))) = [(''c1'', plain_request ''home'')]"
proof -
  have "bus_run cell_ops (\<lambda>_. []) RP_pointer (new_bus 256 (new_metrics 0)) (resumed_cell, []) ([] @ [(''c1'', plain_request ''home'')])
      (send_command ''c1'' (plain_request ''home'') 0 (new_bus 256 (new_metrics 0))) (resumed_cell, [])"
    by (intro bus_run.Accepted bus_run.Start) (simp add: new_bus_def)
  from commands_run_in_order [OF this] show ?thesis by (simp add: send_command_def new_bus_def Let_def)
qed


lemma refused_message_blocks_witness:
  "de_outbox ((delivery_pass (file_outbox demo_guid) (demo_gateway 400) 0 ^^ 7) (new_delivery demo_outbox () new_integration_status)) = demo_outbox"
  using refused_message_blocks [where m = "''eee''" and guid = demo_guid and d = "new_delivery demo_outbox () new_integration_status"
      and gw = "demo_gateway 400" and now = 0] demo_outbox_views
  by (simp add: new_delivery_def refuses_def demo_gateway_def http_deliver_def)


lemma rejected_activation_persists_witness:
  "load_active RP_pointer (snd (snd (process_command cell_ops (\<lambda>_. []) RP_pointer ''c1''
     ((plain_request ''activate-recipe'')\<lparr>cr_recipe_id := Some (rc_id default_recipe), cr_recipe_revision := Some (rc_revision default_recipe)\<rparr>)
     (resumed_cell, [(recipe_path (rc_id default_recipe) (rc_revision default_recipe), Whole (RecipeDoc (with_status RL_Approved default_recipe)))]))))
   = Inr (with_status RL_Active (with_status RL_Approved default_recipe))"
proof -
  let ?r = "with_status RL_Approved default_recipe"
  let ?req = "(plain_request ''activate-recipe'')\<lparr>cr_recipe_id := Some (rc_id default_recipe), cr_recipe_revision := Some (rc_revision default_recipe)\<rparr>"
  let ?fs = "[(recipe_path (rc_id default_recipe) (rc_revision default_recipe), Whole (RecipeDoc ?r))]"
  obtain answer t gs where run: "process_command cell_ops (\<lambda>_. []) RP_pointer ''c1'' ?req (resumed_cell, ?fs) = (answer, t, gs)"
    by (metis prod.exhaust)
  have "\<not> is_blank (rc_id default_recipe)" using default_recipe_ok by (simp add: recipe_ok_def)
  moreover have "load_recipe RP_pointer (rc_id ?r) (rc_revision ?r) ?fs = Inr (Some ?r)"
    by (simp add: load_recipe_def file_exists_def read_recipe_def Let_def)
  ultimately have "load_active RP_pointer gs = Inr (with_status RL_Active ?r)"
    using rejected_activation_persists [OF _ _ _ _ _ lifecycle_of_with_status _ run] resumed_cell_exec
    by (simp add: plain_request_def)
  then show ?thesis by (simp only: run snd_conv)
qed

end
