(* ===== verification/MesServer.thy ===== *)
theory MesServer
  imports Runtime Studio
begin

text \<open>
  The MES simulator (\<open>tools/VirtualSmartMotionCell.MesSimulator/Program.cs\<close>) and the connection of the cell to it: its
  orders, the results it has recorded, its handlers, and the messages of \<open>HttpManufacturingGateway\<close> over a network
  that loses requests and answers.

  \<^item> A dictionary that ignores case is the list of its entries under upper-case keys; the order in which it enumerates
    them, which decides between orders created at the same time, is that of the list.
  \<^item> An update that compares and exchanges is one step; the loop around it retries until then.
  \<^item> \<open>guid\<close> and \<open>stamp\<close> are the texts of identifiers and of times.
  \<^item> Delays are left out: a request arrives before the next one is sent, or not at all.
\<close>

section \<open>State\<close>

definition wrap32 :: "int \<Rightarrow> int" where
  "wrap32 x = (x + 2 ^ 31) mod 2 ^ 32 - 2 ^ 31"

record mes_request =
  mq_order_id :: "string option"
  mq_quantity :: int
  mq_recipe_id :: string
  mq_recipe_revision :: int

record mes_row =
  mr_order_id :: string
  mr_quantity :: int
  mr_completed :: int
  mr_recipe_id :: string
  mr_recipe_revision :: int
  mr_status :: string
  mr_machine :: "string option"
  mr_created :: reading
  mr_assigned_at :: "reading option"
  mr_completed_at :: "reading option"

record mes_result =
  me_machine :: string
  me_message :: string
  me_key :: "string option"
  me_event :: json

record mes_state =
  mv_orders :: "(string \<times> mes_row) list"
  mv_results :: "(string \<times> mes_result) list"
  mv_offline :: bool
  mv_delay :: int
  mv_duplicates :: bool

definition mes_key :: "string \<Rightarrow> string" where
  "mes_key s = to_upper s"

section \<open>Operations\<close>

definition try_add_order :: "reading \<Rightarrow> string \<Rightarrow> mes_request \<Rightarrow> mes_state \<Rightarrow> bool \<times> mes_state" where
  "try_add_order now order_id rq m =
     (if map_of (mv_orders m) (mes_key order_id) \<noteq> None then (False, m)
      else (True, m\<lparr>mv_orders := mv_orders m @
        [(mes_key order_id, \<lparr>mr_order_id = order_id, mr_quantity = mq_quantity rq, mr_completed = 0, mr_recipe_id = mq_recipe_id rq,
          mr_recipe_revision = mq_recipe_revision rq, mr_status = ''queued'', mr_machine = None, mr_created = now,
          mr_assigned_at = None, mr_completed_at = None\<rparr>)]\<rparr>))"

definition try_assign :: "string \<Rightarrow> reading \<Rightarrow> mes_state \<Rightarrow> mes_row option \<times> mes_state" where
  "try_assign machine now m =
     (case filter (\<lambda>p. mr_status (snd p) = ''queued'') (sort_key (mr_created \<circ> snd) (mv_orders m)) of
        [] \<Rightarrow> (None, m)
      | (k, row) # _ \<Rightarrow>
          let updated = row\<lparr>mr_status := ''assigned'', mr_machine := Some machine, mr_assigned_at := Some now\<rparr>
          in (Some updated, m\<lparr>mv_orders := AList.update k updated (mv_orders m)\<rparr>))"

text \<open>
  \<open>TryGetProperty\<close> finds the last of several properties of one name; it and \<open>GetString\<close> throw for an element of
  another kind.
\<close>

definition json_try :: "string \<Rightarrow> json \<Rightarrow> exn + json option" where
  "json_try k v = (case v of JObj fs \<Rightarrow> Inr (map_of (rev fs) k) | _ \<Rightarrow> Inl (InvalidOperation ''The requested operation requires an object.''))"

definition json_text :: "json \<Rightarrow> exn + string option" where
  "json_text v = (case v of JStr s \<Rightarrow> Inr (Some s) | JNull \<Rightarrow> Inr None | _ \<Rightarrow> Inl (InvalidOperation ''The requested operation requires a string.''))"

text \<open>The order whose progress a result reports.\<close>

definition completed_order :: "json \<Rightarrow> exn + string option" where
  "completed_order event =
     (case json_try ''eventType'' event of
        Inl e \<Rightarrow> Inl e
      | Inr None \<Rightarrow> Inr None
      | Inr (Some t) \<Rightarrow> (case json_text t of
            Inl e \<Rightarrow> Inl e
          | Inr t \<Rightarrow>
              if (case t of None \<Rightarrow> True | Some t \<Rightarrow> \<not> eq_ignore_case t ''cycle.completed'') then Inr None
              else (case json_try ''payload'' event of
                  Inl e \<Rightarrow> Inl e
                | Inr None \<Rightarrow> Inr None
                | Inr (Some payload) \<Rightarrow> (case json_try ''orderId'' payload of
                      Inl e \<Rightarrow> Inl e
                    | Inr None \<Rightarrow> Inr None
                    | Inr (Some i) \<Rightarrow> (case json_text i of
                          Inl e \<Rightarrow> Inl e
                        | Inr None \<Rightarrow> Inr None
                        | Inr (Some order_id) \<Rightarrow> Inr (if is_blank order_id then None else Some order_id))))))"

definition advance_row :: "reading \<Rightarrow> mes_row \<Rightarrow> mes_row" where
  "advance_row now row =
     (let completed = min (mr_quantity row) (wrap32 (mr_completed row + 1)); finished = mr_quantity row \<le> completed
      in row\<lparr>mr_completed := completed, mr_status := (if finished then ''completed'' else mr_status row),
             mr_completed_at := (if finished then Some now else mr_completed_at row)\<rparr>)"

definition update_progress :: "reading \<Rightarrow> mes_result \<Rightarrow> mes_state \<Rightarrow> (unit, mes_state) outcome" where
  "update_progress now result m =
     (case completed_order (me_event result) of
        Inl e \<Rightarrow> (Inl e, m)
      | Inr None \<Rightarrow> (Inr (), m)
      | Inr (Some order_id) \<Rightarrow> (case map_of (mv_orders m) (mes_key order_id) of
            None \<Rightarrow> (Inr (), m)
          | Some row \<Rightarrow> (Inr (), m\<lparr>mv_orders := AList.update (mes_key order_id) (advance_row now row) (mv_orders m)\<rparr>)))"

definition try_add_result :: "reading \<Rightarrow> string \<Rightarrow> mes_result \<Rightarrow> mes_state \<Rightarrow> (bool, mes_state) outcome" where
  "try_add_result now key result m =
     (if map_of (mv_results m) (mes_key key) \<noteq> None then (Inr False, m)
      else (case update_progress now result (m\<lparr>mv_results := mv_results m @ [(mes_key key, result)]\<rparr>) of
          (Inl e, m') \<Rightarrow> (Inl e, m')
        | (Inr _, m') \<Rightarrow> (Inr True, m')))"

section \<open>Handlers\<close>

text \<open>A handler answers with a status code; an exception it does not catch is answered by the host with 500.\<close>

definition post_order :: "reading \<Rightarrow> mes_request \<Rightarrow> mes_state \<Rightarrow> nat \<times> mes_state" where
  "post_order now rq m =
     (case mq_order_id rq of
        None \<Rightarrow> (400, m)
      | Some order_id \<Rightarrow>
          if is_blank order_id \<or> mq_quantity rq \<le> 0 then (400, m)
          else (case try_add_order now order_id rq m of (False, m') \<Rightarrow> (409, m') | (True, m') \<Rightarrow> (201, m')))"

definition next_order :: "string \<Rightarrow> reading \<Rightarrow> mes_state \<Rightarrow> (nat \<times> mes_row option) \<times> mes_state" where
  "next_order machine now m =
     (if mv_offline m then ((503, None), m)
      else (case try_assign machine now m of (None, m') \<Rightarrow> ((204, None), m') | (Some row, m') \<Rightarrow> ((200, Some row), m')))"

definition post_result :: "reading \<Rightarrow> string option \<Rightarrow> mes_result \<Rightarrow> mes_state \<Rightarrow> nat \<times> mes_state" where
  "post_result now header result m =
     (if mv_offline m then (503, m)
      else (case (case header of Some h \<Rightarrow> Some h | None \<Rightarrow> me_key result) of
          None \<Rightarrow> (400, m)
        | Some key \<Rightarrow>
            if is_blank key then (400, m)
            else (case try_add_result now key result m of
                (Inl e, m') \<Rightarrow> (500, m')
              | (Inr False, m') \<Rightarrow> (409, m')
              | (Inr True, m') \<Rightarrow> (202, m'))))"

definition set_admin :: "bool \<Rightarrow> int \<Rightarrow> bool \<Rightarrow> mes_state \<Rightarrow> mes_state" where
  "set_admin offline delay duplicates m =
     m\<lparr>mv_offline := offline, mv_delay := clampi 0 30000 delay, mv_duplicates := duplicates\<rparr>"

definition mes_ready :: "mes_state \<Rightarrow> nat" where
  "mes_ready m = (if mv_offline m then 503 else 200)"

definition new_mes :: mes_state where
  "new_mes = \<lparr>mv_orders = [], mv_results = [], mv_offline = False, mv_delay = 0, mv_duplicates = False\<rparr>"

text \<open>One request that the MES serves, from any client.\<close>

inductive mes_step :: "mes_state \<Rightarrow> mes_state \<Rightarrow> bool" where
  PostOrder: "mes_step m (snd (post_order now rq m))"
| NextOrder: "mes_step m (snd (next_order machine now m))"
| PostResult: "mes_step m (snd (post_result now header result m))"
| SetAdmin: "mes_step m (set_admin offline delay duplicates m)"

inductive_cases mes_stepE: "mes_step m m'"

section \<open>The messages of the cell\<close>

fun alarm_lifecycle_name :: "alarm_lifecycle \<Rightarrow> string" where
  "alarm_lifecycle_name AL_ActiveUnacknowledged = ''ActiveUnacknowledged''"
| "alarm_lifecycle_name AL_ActiveAcknowledged = ''ActiveAcknowledged''"
| "alarm_lifecycle_name AL_ClearedUnacknowledged = ''ClearedUnacknowledged''"
| "alarm_lifecycle_name AL_Historical = ''Historical''"

fun alarm_severity_name :: "alarm_severity \<Rightarrow> string" where
  "alarm_severity_name SV_Information = ''Information''"
| "alarm_severity_name SV_Warning = ''Warning''"
| "alarm_severity_name SV_Error = ''Error''"
| "alarm_severity_name SV_Critical = ''Critical''"

definition json_or_null :: "('a \<Rightarrow> string) \<Rightarrow> 'a option \<Rightarrow> json" where
  "json_or_null f v = (case v of None \<Rightarrow> JNull | Some x \<Rightarrow> JStr (f x))"

definition alarm_json :: "(reading \<Rightarrow> string) \<Rightarrow> alarm_snapshot \<Rightarrow> json" where
  "alarm_json stamp a = JObj
     [(''code'', JStr (as_code a)), (''source'', JStr (as_source a)), (''severity'', JStr (alarm_severity_name (as_severity a))),
      (''lifecycle'', JStr (alarm_lifecycle_name (as_lifecycle a))), (''message'', JStr (as_message a)),
      (''recommendedAction'', JStr (as_action a)), (''raisedAt'', JStr (stamp (as_raised_at a))),
      (''acknowledgedAt'', json_or_null stamp (as_acknowledged_at a)), (''clearedAt'', json_or_null stamp (as_cleared_at a)),
      (''acknowledgedBy'', json_or_null id (as_acknowledged_by a)), (''correlationId'', JStr (as_correlation_id a))]"

fun payload_json :: "(reading \<Rightarrow> string) \<Rightarrow> payload \<Rightarrow> json" where
  "payload_json stamp (OrderLoadedPayload order_id quantity recipe revision status) = JObj
     [(''orderId'', JStr order_id), (''quantity'', JNum (of_int quantity)), (''recipeId'', JStr recipe),
      (''recipeRevision'', JNum (of_int revision)), (''status'', JStr (order_status_name status))]"
| "payload_json stamp (OrderStatusChangedPayload order_id status completed reason) = JObj
     [(''orderId'', JStr order_id), (''status'', JStr (order_status_name status)), (''completedQuantity'', JNum (of_int completed)),
      (''reason'', JStr reason)]"
| "payload_json stamp (CycleStartedPayload order_id part recipe revision time) = JObj
     [(''orderId'', JStr order_id), (''partId'', JStr part), (''recipeId'', JStr recipe), (''recipeRevision'', JNum (of_int revision)),
      (''simulationTime'', JNum time)]"
| "payload_json stamp (CycleCompletedPayload order_id part cycle quality duration recipe revision) = JObj
     [(''orderId'', JStr order_id), (''partId'', JStr part), (''cycleNumber'', JNum (of_int cycle)), (''quality'', JStr (quality_name quality)),
      (''durationSeconds'', JNum duration), (''recipeId'', JStr recipe), (''recipeRevision'', JNum (of_int revision))]"
| "payload_json stamp (TraceabilityPayload order_id part name details) = JObj
     [(''orderId'', JStr order_id), (''partId'', json_or_null id part), (''eventName'', JStr name), (''details'', JStr details)]"
| "payload_json stamp (RecipeActivatedPayload recipe revision) = JObj
     [(''recipeId'', JStr recipe), (''revision'', JNum (of_int revision))]"
| "payload_json stamp (AlarmEventPayload alarm action) = JObj [(''alarm'', alarm_json stamp alarm), (''action'', JStr action)]"

definition event_json :: "(reading \<Rightarrow> string) \<Rightarrow> (reading \<Rightarrow> string) \<Rightarrow> machine_event \<Rightarrow> json" where
  "event_json stamp guid ev = JObj
     [(''eventId'', JStr (guid (ev_id ev))), (''eventType'', JStr (ev_type ev)), (''timestamp'', JStr (stamp (ev_timestamp ev))),
      (''correlationId'', JStr (ev_correlation_id ev)), (''machineRevision'', JNum (of_int (ev_revision ev))),
      (''payload'', payload_json stamp (ev_payload ev))]"

definition result_envelope :: "(reading \<Rightarrow> string) \<Rightarrow> (reading \<Rightarrow> string) \<Rightarrow> string \<Rightarrow> machine_event \<Rightarrow> mes_result" where
  "result_envelope stamp guid machine ev =
     \<lparr>me_machine = machine, me_message = guid (ev_id ev), me_key = Some (guid (ev_id ev)), me_event = event_json stamp guid ev\<rparr>"

section \<open>The connection\<close>

text \<open>
  What happens to the next request: it is answered, it does not arrive, or its answer does not. The exception is one of
  the requests (\<open>True\<close>) or another, a timeout for instance.
\<close>

datatype link_outcome = Answered | RequestLost bool | AnswerLost bool

record mes_link =
  lk_mes :: mes_state
  lk_next :: link_outcome
  lk_clock :: reading

definition serve_result ::
  "(reading \<Rightarrow> string) \<Rightarrow> (reading \<Rightarrow> string) \<Rightarrow> string \<Rightarrow> machine_event \<Rightarrow> mes_link \<Rightarrow> (string + nat) \<times> mes_link" where
  "serve_result stamp guid machine ev lk =
     (let (status, m) = post_result (lk_clock lk) (Some (guid (ev_id ev))) (result_envelope stamp guid machine ev) (lk_mes lk)
      in case lk_next lk of
           RequestLost _ \<Rightarrow> (Inl ''request lost'', lk)
         | AnswerLost _ \<Rightarrow> (Inl ''answer lost'', lk\<lparr>lk_mes := m\<rparr>)
         | Answered \<Rightarrow> (Inr status, lk\<lparr>lk_mes := m\<rparr>))"

definition serve_ready :: "mes_link \<Rightarrow> (bool \<times> string + nat) \<times> mes_link" where
  "serve_ready lk = (case lk_next lk of
       RequestLost caught \<Rightarrow> (Inl (caught, ''request lost''), lk)
     | AnswerLost caught \<Rightarrow> (Inl (caught, ''answer lost''), lk)
     | Answered \<Rightarrow> (Inr (mes_ready (lk_mes lk)), lk))"

definition http_mes :: "(reading \<Rightarrow> string) \<Rightarrow> (reading \<Rightarrow> string) \<Rightarrow> string \<Rightarrow> mes_link gateway" where
  "http_mes stamp guid machine = \<lparr>gw_deliver = http_deliver (serve_result stamp guid machine), gw_health = http_health serve_ready\<rparr>"

section \<open>The plant\<close>

definition on_link :: "(mes_link \<Rightarrow> mes_link) \<Rightarrow> ('m, 's, mes_link) host \<Rightarrow> ('m, 's, mes_link) host" where
  "on_link f h = on_delivery (\<lambda>d. d\<lparr>de_gateway := f (de_gateway d)\<rparr>) h"

definition on_mes :: "(mes_state \<Rightarrow> mes_state) \<Rightarrow> ('m, 's, mes_link) host \<Rightarrow> ('m, 's, mes_link) host" where
  "on_mes f h = on_link (\<lambda>lk. lk\<lparr>lk_mes := f (lk_mes lk)\<rparr>) h"

definition mes_of :: "('m, 's, mes_link) host \<Rightarrow> mes_state" where
  "mes_of h = lk_mes (de_gateway (ho_delivery h))"

text \<open>
  A step of the plant: a step of the host, whatever the network does next, an order entered at the MES, an order asked
  for (its answer is a command of the host or lost), an outage of the MES. No other machine reports results.
\<close>

inductive plant_step ::
  "'m motion_ops \<Rightarrow> runtime_options \<Rightarrow> (machine_recipe \<Rightarrow> string) \<Rightarrow> (reading \<Rightarrow> string) \<Rightarrow> (reading \<Rightarrow> string) \<Rightarrow> string
    \<Rightarrow> ('m, outbox_files, mes_link) host \<Rightarrow> ('m, outbox_files, mes_link) host \<Rightarrow> bool" for ops opts checksum stamp guid machine where
  Host: "host_step ops (file_outbox guid) (http_mes stamp guid machine) opts checksum h h' \<Longrightarrow> plant_step ops opts checksum stamp guid machine h h'"
| Network: "plant_step ops opts checksum stamp guid machine h (on_link (\<lambda>lk. lk\<lparr>lk_next := outcome, lk_clock := now\<rparr>) h)"
| Enter: "plant_step ops opts checksum stamp guid machine h (on_mes (\<lambda>m. snd (post_order now rq m)) h)"
| Ask: "plant_step ops opts checksum stamp guid machine h (on_mes (\<lambda>m. snd (next_order name now m)) h)"
| Admin: "plant_step ops opts checksum stamp guid machine h (on_mes (set_admin offline delay duplicates) h)"

inductive_cases plant_stepE: "plant_step ops opts checksum stamp guid machine h h'"

definition plant_steps ::
  "'m motion_ops \<Rightarrow> runtime_options \<Rightarrow> (machine_recipe \<Rightarrow> string) \<Rightarrow> (reading \<Rightarrow> string) \<Rightarrow> (reading \<Rightarrow> string) \<Rightarrow> string
    \<Rightarrow> ('m, outbox_files, mes_link) host \<Rightarrow> ('m, outbox_files, mes_link) host \<Rightarrow> bool" where
  "plant_steps ops opts checksum stamp guid machine = (plant_step ops opts checksum stamp guid machine)\<^sup>*\<^sup>*"

end
