(* ===== verification/MesLaws.thy ===== *)
theory MesLaws
  imports MesServer RuntimeLaws
begin

text \<open>
  Properties of the cell and the MES together: every completed part counts once in the MES, whatever the network loses
  and however the services interleave, and an order is handed out once.
\<close>

section \<open>What a message reports\<close>

text \<open>The order, by its key, whose progress the message of an event reports: the MES reads it back from the JSON.\<close>

fun payload_order :: "payload \<Rightarrow> string option" where
  "payload_order (OrderLoadedPayload order_id quantity recipe revision status) = Some order_id"
| "payload_order (OrderStatusChangedPayload order_id status count reason) = Some order_id"
| "payload_order (CycleStartedPayload order_id part recipe revision time) = Some order_id"
| "payload_order (CycleCompletedPayload order_id part cycle quality duration recipe revision) = Some order_id"
| "payload_order (TraceabilityPayload order_id part name details) = Some order_id"
| "payload_order (RecipeActivatedPayload recipe revision) = None"
| "payload_order (AlarmEventPayload alarm action) = None"

definition counted_for :: "machine_event \<Rightarrow> string option" where
  "counted_for ev = (case payload_order (ev_payload ev) of
       Some order_id \<Rightarrow> if eq_ignore_case (ev_type ev) ''cycle.completed'' \<and> \<not> is_blank order_id then Some (mes_key order_id) else None
     | None \<Rightarrow> None)"


definition parts_for :: "string \<Rightarrow> machine_event list \<Rightarrow> nat" where
  "parts_for k evs = length (filter (\<lambda>ev. counted_for ev = Some k) evs)"

lemma parts_for_append [simp]:
  "parts_for k (evs @ [ev]) = parts_for k evs + (if counted_for ev = Some k then 1 else 0)"
  "parts_for k [] = 0"
  by (simp_all add: parts_for_def)


section \<open>The orders of the MES\<close>

text \<open>
  The rows after the messages \<open>seen\<close>: those of the keys \<open>K\<close> have seen all of them.
\<close>

definition row_ok :: "(string \<Rightarrow> nat) \<Rightarrow> string set \<Rightarrow> string \<times> mes_row \<Rightarrow> bool" where
  "row_ok parts K entry \<longleftrightarrow> (case entry of (k, row) \<Rightarrow> k = mes_key (mr_order_id row) \<and> 0 < mr_quantity row
     \<and> 0 \<le> mr_completed row \<and> mr_completed row \<le> min (mr_quantity row) (int (parts k))
     \<and> (k \<in> K \<longrightarrow> mr_completed row = min (mr_quantity row) (int (parts k)))
     \<and> (mr_status row = ''completed'' \<longleftrightarrow> mr_completed row = mr_quantity row))"

definition rows_ok :: "(string \<Rightarrow> nat) \<Rightarrow> string set \<Rightarrow> (string \<times> mes_row) list \<Rightarrow> bool" where
  "rows_ok parts K rows \<longleftrightarrow> distinct (map fst rows) \<and> K \<subseteq> set (map fst rows) \<and> list_all (row_ok parts K) rows"



lemma orders_keep_results [simp]:
  "mv_results (snd (post_order now rq m)) = mv_results m" "mv_results (snd (next_order name now m)) = mv_results m"
  "mv_results (set_admin offline delay duplicates m) = mv_results m" "mv_orders (set_admin offline delay duplicates m) = mv_orders m"
  by (auto simp: post_order_def try_add_order_def next_order_def try_assign_def set_admin_def Let_def
      split: option.split prod.splits list.splits bool.splits if_splits)






section \<open>The results of the MES\<close>


section \<open>The outbox holds events of the log\<close>

definition pending_from :: "machine_event set \<Rightarrow> outbox_files \<Rightarrow> bool" where
  "pending_from E fs \<longleftrightarrow> (\<forall>n ev. map_of fs (OB_pending n) = Some (Whole ev) \<longrightarrow> ev \<in> E)"

lemma pending_from_ops:
  "pending_from E fs \<Longrightarrow> E \<subseteq> E' \<Longrightarrow> pending_from E' fs"
  "pending_from E fs \<Longrightarrow> ev \<in> E \<Longrightarrow> pending_from E (run_ops (enqueue_event guid ev fs) fs)"
  "pending_from E fs \<Longrightarrow> pending_from E (run_ops (mark_delivered i fs) fs)"
  by (auto simp: pending_from_def outbox_enqueue_map_of outbox_mark_map_of split: option.split if_splits)


section \<open>The plant\<close>

definition mes_agrees ::
  "(reading \<Rightarrow> string) \<Rightarrow> string set \<Rightarrow> machine_event list \<Rightarrow> mes_state \<Rightarrow> bool" where
  "mes_agrees guid K seen m \<longleftrightarrow> map fst (mv_results m) = map (\<lambda>ev. mes_key (event_name guid ev)) seen
     \<and> distinct (map fst (mv_results m))
     \<and> (length seen < 2 ^ 31 \<longrightarrow> rows_ok (\<lambda>k. parts_for k seen) K (mv_orders m))"

definition delivery_agrees ::
  "(reading \<Rightarrow> string) \<Rightarrow> machine_event set \<Rightarrow> machine_event list \<Rightarrow> (outbox_files, mes_link) delivery \<Rightarrow> bool" where
  "delivery_agrees guid E seen d \<longleftrightarrow> outbox_good guid (de_outbox d) \<and> pending_from E (de_outbox d) \<and> set (de_batch d) \<subseteq> E
     \<and> set seen \<subseteq> E \<and> delivered_set (de_outbox d) \<subseteq> event_name guid ` set seen"

definition plant_ok ::
  "(reading \<Rightarrow> string) \<Rightarrow> string set \<Rightarrow> machine_event set \<Rightarrow> (outbox_files, mes_link) delivery \<Rightarrow> bool" where
  "plant_ok guid K E d \<longleftrightarrow>
     (\<exists>seen. mes_agrees guid K seen (lk_mes (de_gateway d)) \<and> delivery_agrees guid E seen d)"






lemma plant_ok_mono: "plant_ok guid K E d \<Longrightarrow> E \<subseteq> E' \<Longrightarrow> plant_ok guid K E' d"
  using pending_from_ops(1) [of E "de_outbox d" E'] unfolding plant_ok_def delivery_agrees_def by blast






lemma on_mes_sel [simp]:
  "ho_event_log (on_link f h) = ho_event_log h" "ho_coordinator (on_link f h) = ho_coordinator h"
  "ho_delivery (on_link f h) = (ho_delivery h)\<lparr>de_gateway := f (de_gateway (ho_delivery h))\<rparr>"
  by (simp_all add: on_link_def)











section \<open>Assignment\<close>











section \<open>Concrete runs\<close>










end
