(* ===== verification/WebApi.thy ===== *)
theory WebApi
  imports Runtime "HOL-Library.Sublist"
begin

text \<open>
  The web interface of the cell: the posts of \<open>src/VirtualSmartMotionCell.Api/Program.cs\<close> that change the machine or the
  recipe store, and the way of a snapshot from the runtime to the browsers (\<open>StatePublicationQueue.cs\<close>,
  \<open>MachineStatePublicationService\<close>, \<open>WebSocketStatePublisher.cs\<close>).

  The requests that only read, the binding of JSON and the logging are not modelled. \<open>correlation\<close> is the identifier
  the middleware gave the request.
\<close>

section \<open>Commands\<close>

datatype client_address = NoAddress | Loopback | Remote

record order_post =
  op_order_id :: "string option"
  op_quantity :: int
  op_recipe_id :: "string option"
  op_recipe_revision :: int

datatype api_post =
    PostCommand command_request
  | PostLoad order_post
  | PostDraft machine_recipe
  | PostApprove string int
  | PostActivate string int

definition api_load_order :: "string \<Rightarrow> order_post \<Rightarrow> command_request" where
  "api_load_order correlation o' = (plain_request ''load-order'')\<lparr>cr_requested_by := Some ''api'', cr_correlation_id := Some correlation,
     cr_order_id := op_order_id o', cr_quantity := Some (op_quantity o'), cr_recipe_id := op_recipe_id o',
     cr_recipe_revision := Some (op_recipe_revision o')\<rparr>"

definition api_activate :: "string \<Rightarrow> string \<Rightarrow> int \<Rightarrow> command_request" where
  "api_activate correlation recipe_id revision = (plain_request ''activate-recipe'')\<lparr>cr_requested_by := Some ''api'',
     cr_correlation_id := Some correlation, cr_recipe_id := Some recipe_id, cr_recipe_revision := Some revision\<rparr>"

definition api_command :: "bool \<Rightarrow> client_address \<Rightarrow> string \<Rightarrow> command_request \<Rightarrow> command_request option" where
  "api_command allow_remote address correlation command =
     (if \<not> allow_remote \<and> address \<noteq> NoAddress \<and> address \<noteq> Loopback then None
      else Some (command\<lparr>cr_correlation_id := Some (case cr_correlation_id command of Some c \<Rightarrow> c | None \<Rightarrow> correlation)\<rparr>))"

text \<open>
  A post is answered with a status, or it is a command that waits for its result; \<open>i\<close> is the identifier the bus draws.
  An exception of the store is answered by the host with 500.
\<close>

definition api_serve ::
  "bool \<Rightarrow> recipe_file \<Rightarrow> client_address \<Rightarrow> string \<Rightarrow> string \<Rightarrow> reading \<Rightarrow> api_post \<Rightarrow> command_bus \<times> recipe_files
    \<Rightarrow> nat option \<times> command_bus \<times> recipe_files" where
  "api_serve allow_remote initial_path address correlation i now post state =
     (let (b, fs) = state in case post of
          PostCommand command \<Rightarrow> (case api_command allow_remote address correlation command of
              None \<Rightarrow> (Some 403, b, fs)
            | Some enriched \<Rightarrow> (None, send_command i enriched now b, fs))
        | PostLoad o' \<Rightarrow> (None, send_command i (api_load_order correlation o') now b, fs)
        | PostActivate recipe_id revision \<Rightarrow> (None, send_command i (api_activate correlation recipe_id revision) now b, fs)
        | PostDraft recipe \<Rightarrow> (case save_draft recipe of
              Inl e \<Rightarrow> (Some 500, b, fs)
            | Inr file_ops \<Rightarrow> (Some 201, b, run_ops file_ops fs))
        | PostApprove recipe_id revision \<Rightarrow> (case approve_recipe initial_path recipe_id revision fs of
              Inl e \<Rightarrow> (Some 500, b, fs)
            | Inr (_, file_ops) \<Rightarrow> (Some 200, b, run_ops file_ops fs)))"

definition command_http_result :: "command_result \<Rightarrow> nat" where
  "command_http_result result = (if res_status result = CS_Accepted then 202 else 400)"

section \<open>State for the browsers\<close>

text \<open>
  Both queues hold one snapshot and drop the older one. Reading a snapshot and handing it to the socket is one step.
\<close>

record push_client =
  pc_open :: bool
  pc_slot :: "machine_snapshot option"
  pc_sent :: "machine_snapshot list"

record push_state =
  pu_queue :: "machine_snapshot option"
  pu_clients :: "(string \<times> push_client) list"
  pu_metrics :: runtime_metrics

definition new_push :: "runtime_metrics \<Rightarrow> push_state" where
  "new_push metrics = \<lparr>pu_queue = None, pu_clients = [], pu_metrics = metrics\<rparr>"

definition set_connected_clients :: "int \<Rightarrow> runtime_metrics \<Rightarrow> runtime_metrics" where
  "set_connected_clients count m = m\<lparr>rm_clients := count\<rparr>"

definition count_clients :: "push_state \<Rightarrow> push_state" where
  "count_clients p = p\<lparr>pu_metrics := set_connected_clients (int (length (pu_clients p))) (pu_metrics p)\<rparr>"

definition queue_snapshot :: "machine_snapshot \<Rightarrow> push_state \<Rightarrow> push_state" where
  "queue_snapshot snapshot p = p\<lparr>pu_queue := Some snapshot\<rparr>"

definition connect_client :: "string \<Rightarrow> push_state \<Rightarrow> push_state" where
  "connect_client i p = count_clients (p\<lparr>pu_clients := filter (\<lambda>(j, c). j \<noteq> i) (pu_clients p) @
     [(i, \<lparr>pc_open = True, pc_slot = None, pc_sent = []\<rparr>)]\<rparr>)"

definition publish_snapshot :: "machine_snapshot \<Rightarrow> push_state \<Rightarrow> push_state" where
  "publish_snapshot snapshot p =
     (if pu_clients p = [] then p
      else count_clients (p\<lparr>pu_clients := map (\<lambda>(j, c). (j, c\<lparr>pc_slot := Some snapshot\<rparr>)) (pu_clients p)\<rparr>))"

text \<open>One round of the publication service.\<close>

definition publication_next :: "push_state \<Rightarrow> push_state" where
  "publication_next p = (case pu_queue p of None \<Rightarrow> p | Some snapshot \<Rightarrow> publish_snapshot snapshot (p\<lparr>pu_queue := None\<rparr>))"

definition send_snapshot :: "push_client \<Rightarrow> push_client" where
  "send_snapshot c = (case pc_slot c of
       None \<Rightarrow> c
     | Some snapshot \<Rightarrow> if pc_open c then c\<lparr>pc_slot := None, pc_sent := pc_sent c @ [snapshot]\<rparr> else c\<lparr>pc_slot := None\<rparr>)"

definition on_client :: "string \<Rightarrow> (push_client \<Rightarrow> push_client) \<Rightarrow> push_state \<Rightarrow> push_state" where
  "on_client i f p = p\<lparr>pu_clients := map (\<lambda>(j, c). (j, if j = i then f c else c)) (pu_clients p)\<rparr>"

definition disconnect_client :: "string \<Rightarrow> push_state \<Rightarrow> push_state" where
  "disconnect_client i p = count_clients (p\<lparr>pu_clients := filter (\<lambda>(j, c). j \<noteq> i) (pu_clients p)\<rparr>)"

text \<open>
  What happens, in any order: the runtime queues a snapshot, the service takes one, a client connects, is sent its snapshot,
  closes its socket, is removed.
\<close>

datatype push_event = Queued machine_snapshot | Taken | Connected string | Sent string | Closed string | Removed string

fun push_do :: "push_event \<Rightarrow> push_state \<Rightarrow> push_state" where
  "push_do (Queued snapshot) p = queue_snapshot snapshot p"
| "push_do Taken p = publication_next p"
| "push_do (Connected i) p = connect_client i p"
| "push_do (Sent i) p = on_client i send_snapshot p"
| "push_do (Closed i) p = on_client i (\<lambda>c. c\<lparr>pc_open := False\<rparr>) p"
| "push_do (Removed i) p = disconnect_client i p"

end
