(* ===== verification/WebApiLaws.thy ===== *)
theory WebApiLaws
  imports WebApi RuntimeLaws
begin

text \<open>
  Properties of the web interface: what a browser is sent of the states of the machine, and what a remote client may do.
\<close>

section \<open>State for the browsers\<close>

text \<open>The snapshots queued in a run, and those queued while a client was there.\<close>

definition queued_in :: "push_event list \<Rightarrow> machine_snapshot list" where
  "queued_in evs = concat (map (\<lambda>e. case e of Queued s \<Rightarrow> [s] | _ \<Rightarrow> []) evs)"

definition news_for :: "string \<Rightarrow> push_event list \<Rightarrow> machine_snapshot list" where
  "news_for i evs = fold (\<lambda>e news. case e of Queued s \<Rightarrow> news @ [s] | Connected j \<Rightarrow> if j = i then [] else news | _ \<Rightarrow> news) evs []"

lemma queued_in_snoc [simp]: "queued_in [] = []" "queued_in (evs @ [e]) = queued_in evs @ (case e of Queued s \<Rightarrow> [s] | _ \<Rightarrow> [])"
  by (simp_all add: queued_in_def)

lemma news_for_nil [simp]: "news_for i [] = []"
  by (simp add: news_for_def)

lemma news_for_snoc [simp]:
  "news_for i (evs @ [e]) = (case e of Queued s \<Rightarrow> news_for i evs @ [s] | Connected j \<Rightarrow> if j = i then [] else news_for i evs | _ \<Rightarrow> news_for i evs)"
  by (cases e) (simp_all add: news_for_def)














section \<open>Remote clients\<close>


section \<open>Concrete runs\<close>





end
