(* ===== verification/Clients.thy ===== *)
theory Clients
  imports Runtime Viewer
begin

text \<open>
  Two clients of the runtime: the desktop HMI (\<open>VirtualSmartMotionCell.Hmi\<close>) with its buttons, and the values that the
  OPC UA server (\<open>MachineNodeManager.cs\<close>) shows. The windows, the address space and the sockets belong to
  libraries; the texts the HMI formats from a snapshot are not modelled.
\<close>

section \<open>The HMI\<close>

datatype hmi_button =
    B_Initialize | B_Home | B_Start | B_Pause | B_Resume | B_Stop | B_Abort | B_Reset
  | B_OfflineMode | B_ManualMode | B_AutomaticMode | B_MaintenanceMode
  | B_LoadDemoOrder | B_CancelOrder | B_ActivateDefaultRecipe
  | B_JogXPositive | B_JogXNegative | B_JogYPositive | B_JogYNegative
  | B_EmergencyStop | B_GuardOpen | B_BusLoss | B_DriveFaultX | B_DriveFaultY | B_FrozenAxisX | B_FollowingError | B_ClearFaults
  | B_Acknowledge | B_RecoverDiscard | B_RecoverRehome | B_RecoverResume

definition hmi_plain :: "string \<Rightarrow> string \<Rightarrow> command_request" where
  "hmi_plain user ty = (plain_request ty)\<lparr>cr_requested_by := Some user\<rparr>"

definition hmi_mode :: "string \<Rightarrow> string \<Rightarrow> command_request" where
  "hmi_mode user mode = (hmi_plain user ''set-mode'')\<lparr>cr_mode := Some mode\<rparr>"

definition hmi_jog :: "string \<Rightarrow> string \<Rightarrow> real \<Rightarrow> command_request" where
  "hmi_jog user axis distance = (hmi_plain user ''jog'')\<lparr>cr_axis := Some axis, cr_value := Some distance\<rparr>"

definition hmi_fault :: "string \<Rightarrow> string \<Rightarrow> command_request" where
  "hmi_fault user fault = (hmi_plain user ''inject-fault'')\<lparr>cr_fault := Some fault\<rparr>"

text \<open>\<open>day\<close> is the date as \<open>yyyyMMdd\<close>.\<close>

definition demo_order_id :: "string \<Rightarrow> nat \<Rightarrow> string" where
  "demo_order_id day sequence = ''DEMO-'' @ day @ ''-'' @ pad_left 3 (CHR ''0'') (show_nat sequence)"

definition load_demo_order :: "string \<Rightarrow> string \<Rightarrow> nat \<Rightarrow> command_request" where
  "load_demo_order user day sequence = (hmi_plain user ''load-order'')\<lparr>cr_order_id := Some (demo_order_id day sequence),
     cr_quantity := Some 5, cr_recipe_id := Some ''standard-widget'', cr_recipe_revision := Some 1\<rparr>"

fun button_request :: "string \<Rightarrow> string \<Rightarrow> nat \<Rightarrow> hmi_button \<Rightarrow> command_request" where
  "button_request user day sequence B_Initialize = hmi_plain user ''initialize''"
| "button_request user day sequence B_Home = hmi_plain user ''home''"
| "button_request user day sequence B_Start = hmi_plain user ''start''"
| "button_request user day sequence B_Pause = hmi_plain user ''pause''"
| "button_request user day sequence B_Resume = hmi_plain user ''resume''"
| "button_request user day sequence B_Stop = hmi_plain user ''stop''"
| "button_request user day sequence B_Abort = hmi_plain user ''abort''"
| "button_request user day sequence B_Reset = hmi_plain user ''reset''"
| "button_request user day sequence B_OfflineMode = hmi_mode user ''Offline''"
| "button_request user day sequence B_ManualMode = hmi_mode user ''Manual''"
| "button_request user day sequence B_AutomaticMode = hmi_mode user ''Automatic''"
| "button_request user day sequence B_MaintenanceMode = hmi_mode user ''Maintenance''"
| "button_request user day sequence B_LoadDemoOrder = load_demo_order user day sequence"
| "button_request user day sequence B_CancelOrder = hmi_plain user ''cancel-order''"
| "button_request user day sequence B_ActivateDefaultRecipe =
     (hmi_plain user ''activate-recipe'')\<lparr>cr_recipe_id := Some ''standard-widget'', cr_recipe_revision := Some 1\<rparr>"
| "button_request user day sequence B_JogXPositive = hmi_jog user ''X'' 0.05"
| "button_request user day sequence B_JogXNegative = hmi_jog user ''X'' (- 0.05)"
| "button_request user day sequence B_JogYPositive = hmi_jog user ''Y'' 0.05"
| "button_request user day sequence B_JogYNegative = hmi_jog user ''Y'' (- 0.05)"
| "button_request user day sequence B_EmergencyStop = hmi_fault user ''emergency-stop''"
| "button_request user day sequence B_GuardOpen = hmi_fault user ''guard-open''"
| "button_request user day sequence B_BusLoss = hmi_fault user ''bus-loss''"
| "button_request user day sequence B_DriveFaultX = hmi_fault user ''drive-fault-x''"
| "button_request user day sequence B_DriveFaultY = hmi_fault user ''drive-fault-y''"
| "button_request user day sequence B_FrozenAxisX = hmi_fault user ''frozen-axis-x''"
| "button_request user day sequence B_FollowingError = hmi_fault user ''following-error''"
| "button_request user day sequence B_ClearFaults = (hmi_plain user ''clear-fault'')\<lparr>cr_fault := Some ''all''\<rparr>"
| "button_request user day sequence B_Acknowledge = hmi_plain user ''acknowledge-alarms''"
| "button_request user day sequence B_RecoverDiscard = hmi_plain user ''recover-discard''"
| "button_request user day sequence B_RecoverRehome = hmi_plain user ''recover-rehome''"
| "button_request user day sequence B_RecoverResume = hmi_plain user ''recover-resume''"

text \<open>The window: \<open>hm_running\<close> are the buttons whose command waits for its answer, \<open>hm_sent\<close> the requests sent.\<close>

record hmi =
  hm_state :: "machine_snapshot option"
  hm_connection :: string
  hm_last_command :: string
  hm_sequence :: nat
  hm_running :: "hmi_button list"
  hm_sent :: "command_request list"

definition new_hmi :: hmi where
  "new_hmi = \<lparr>hm_state = None, hm_connection = ''Connecting'', hm_last_command = ''No command sent'', hm_sequence = 1, hm_running = [], hm_sent = []\<rparr>"

definition press_button :: "string \<Rightarrow> string \<Rightarrow> hmi_button \<Rightarrow> hmi \<Rightarrow> hmi" where
  "press_button user day b h =
     (if b \<in> set (hm_running h) then h
      else h\<lparr>hm_running := b # hm_running h, hm_sent := hm_sent h @ [button_request user day (hm_sequence h) b],
             hm_sequence := (if b = B_LoadDemoOrder then hm_sequence h + 1 else hm_sequence h)\<rparr>)"

fun command_status_name :: "command_status \<Rightarrow> string" where
  "command_status_name CS_Accepted = ''Accepted''"
| "command_status_name CS_Rejected = ''Rejected''"
| "command_status_name CS_Failed = ''Failed''"

definition command_message :: "command_result \<Rightarrow> string" where
  "command_message result = command_status_name (res_status result) @ '': '' @ res_code result @
     (if res_reasons result = [] then [] else em_dash @ join_with ''; '' (res_reasons result))"

text \<open>How the request of a button ends: with a result, an empty answer, an exception.\<close>

datatype command_end = Answer command_result | NoResponse | CommandFailed string

definition button_done :: "hmi_button \<Rightarrow> command_end \<Rightarrow> hmi \<Rightarrow> hmi" where
  "button_done b e h = h\<lparr>hm_running := remove1 b (hm_running h),
     hm_last_command := (case e of Answer result \<Rightarrow> command_message result | NoResponse \<Rightarrow> ''No response''
       | CommandFailed message \<Rightarrow> ''Command failed: '' @ message)\<rparr>"

definition hmi_update :: "machine_snapshot \<Rightarrow> hmi \<Rightarrow> hmi" where
  "hmi_update snapshot h = h\<lparr>hm_state := Some snapshot, hm_connection := ''Connected''\<rparr>"

text \<open>What happens to the window; a lost connection is retried without a word to it.\<close>

datatype hmi_event = Pressed string hmi_button | Done hmi_button command_end | Snapshot_arrives machine_snapshot | Connection_lost

fun hmi_do :: "string \<Rightarrow> hmi_event \<Rightarrow> hmi \<Rightarrow> hmi" where
  "hmi_do user (Pressed day b) h = press_button user day b h"
| "hmi_do user (Done b e) h = (if b \<in> set (hm_running h) then button_done b e h else h)"
| "hmi_do user (Snapshot_arrives snapshot) h = hmi_update snapshot h"
| "hmi_do user Connection_lost h = h"

section \<open>The OPC UA server\<close>

record opc_nodes =
  on_mode :: string
  on_execution_state :: string
  on_production_step :: string
  on_x_position :: real
  on_y_position :: real
  on_x_following_error :: real
  on_y_following_error :: real
  on_motion_permitted :: bool
  on_cycle_count :: int
  on_oee :: real
  on_active_alarm :: string
  on_motion_adapter :: string
  on_active_order :: string
  on_completed_quantity :: int
  on_target_quantity :: int
  on_active_recipe :: string
  on_mes_health :: string

definition new_nodes :: opc_nodes where
  "new_nodes = \<lparr>on_mode = [], on_execution_state = [], on_production_step = [], on_x_position = 0, on_y_position = 0,
     on_x_following_error = 0, on_y_following_error = 0, on_motion_permitted = False, on_cycle_count = 0, on_oee = 0,
     on_active_alarm = [], on_motion_adapter = [], on_active_order = [], on_completed_quantity = 0, on_target_quantity = 0,
     on_active_recipe = [], on_mes_health = []\<rparr>"

definition node_values :: "machine_snapshot \<Rightarrow> opc_nodes" where
  "node_values s =
     \<lparr>on_mode = mode_name (st_mode s), on_execution_state = execution_name (st_execution s), on_production_step = step_name (st_step s),
      on_x_position = ax_actual (st_x s), on_y_position = ax_actual (st_y s),
      on_x_following_error = ax_following_error (st_x s), on_y_following_error = ax_following_error (st_y s),
      on_motion_permitted = il_motion_permitted (st_interlocks s), on_cycle_count = prod_cycles (st_production s),
      on_oee = prod_oee (st_production s), on_active_alarm = (case st_alarms s of [] \<Rightarrow> [] | a # _ \<Rightarrow> as_code a),
      on_motion_adapter = ax_name (st_x s) @ ''/'' @ ax_name (st_y s),
      on_active_order = (case prod_order (st_production s) of None \<Rightarrow> [] | Some p \<Rightarrow> os_id p),
      on_completed_quantity = (case prod_order (st_production s) of None \<Rightarrow> 0 | Some p \<Rightarrow> os_completed p),
      on_target_quantity = (case prod_order (st_production s) of None \<Rightarrow> 0 | Some p \<Rightarrow> os_target p),
      on_active_recipe = rs_id (st_recipe s) @ '':v'' @ show_int (rs_revision (st_recipe s)),
      on_mes_health = integration_health_name (in_mes_health (st_integration s))\<rparr>"

text \<open>
  A tick of the timer reads the current snapshot and then, under the lock, writes all nodes; ticks may overlap. \<open>oc_held\<close>
  are the snapshots read and not yet written.
\<close>

record opc_server =
  oc_current :: "machine_snapshot option"
  oc_held :: "machine_snapshot list"
  oc_nodes :: opc_nodes

definition new_opc :: opc_server where
  "new_opc = \<lparr>oc_current = None, oc_held = [], oc_nodes = new_nodes\<rparr>"

datatype opc_event = StatePublished machine_snapshot | TickReads | TickWrites nat

fun opc_do :: "opc_event \<Rightarrow> opc_server \<Rightarrow> opc_server" where
  "opc_do (StatePublished snapshot) o' = o'\<lparr>oc_current := Some snapshot\<rparr>"
| "opc_do TickReads o' = (case oc_current o' of None \<Rightarrow> o' | Some snapshot \<Rightarrow> o'\<lparr>oc_held := oc_held o' @ [snapshot]\<rparr>)"
| "opc_do (TickWrites n) o' =
     (if n < length (oc_held o')
      then o'\<lparr>oc_nodes := node_values (oc_held o' ! n), oc_held := take n (oc_held o') @ drop (Suc n) (oc_held o')\<rparr> else o')"

end
