(* ===== verification/ClientsLaws.thy ===== *)
theory ClientsLaws
  imports Clients RuntimeLaws
begin

text \<open>
  Properties of the HMI and the OPC UA server: what the machine answers to the buttons, which commands are in flight, what
  the nodes show.
\<close>

section \<open>The buttons\<close>

text \<open>The answers to a request that the machine does not understand.\<close>

definition not_understood :: "string set" where
  "not_understood = {''UNKNOWN_COMMAND'', ''INVALID_MODE'', ''INVALID_AXIS'', ''INVALID_DISTANCE'', ''UNKNOWN_FAULT'',
     ''ORDER_ID_REQUIRED'', ''INVALID_QUANTITY'', ''RECIPE_ID_REQUIRED''}"

definition understood :: "exn + command_result \<Rightarrow> bool" where
  "understood r \<longleftrightarrow> (case r of Inl _ \<Rightarrow> True | Inr result \<Rightarrow> res_code result \<notin> not_understood)"

lemma understood_result [simp]:
  "understood (Inr (rejected_result i revision corr code reasons now)) \<longleftrightarrow> code \<notin> not_understood"
  "understood (Inr (accepted_result i revision corr code now)) \<longleftrightarrow> code \<notin> not_understood"
  by (simp_all add: understood_def rejected_result_def accepted_result_def)

lemma understood_chain: "(\<And>x t. understood (fst (f x t))) \<Longrightarrow> understood (fst (chain m f))"
  by (cases m; cases "fst m") (auto simp: understood_def chain_def split: sum.split prod.split)

lemma handlers_understood:
  "understood (fst (initialize_cmd ops i corr s))" "understood (fst (cancel_order_cmd i corr s))"
  "understood (fst (home_cmd ops i corr s))" "understood (fst (start_cmd ops i corr s))" "understood (fst (pause_cmd ops i corr s))"
  "understood (fst (resume_cmd ops i corr s))" "understood (fst (stop_cmd ops i corr s))" "understood (fst (abort_cmd i corr s))"
  "understood (fst (reset_cmd ops i corr s))" "understood (fst (recover_cmd ops i action corr s))"
  "understood (fst (acknowledge_alarms_cmd i user corr s))"
  by (auto simp: initialize_cmd_def cancel_order_cmd_def home_cmd_def start_cmd_def pause_cmd_def resume_cmd_def stop_cmd_def
      abort_cmd_def reset_cmd_def recover_cmd_def acknowledge_alarms_cmd_def Let_def not_understood_def intro!: understood_chain
      split: option.split recovery_action.split)

lemma mode_understood: "try_parse_mode mode \<noteq> None \<Longrightarrow> understood (fst (set_mode_cmd i mode corr s))"
  by (auto simp: set_mode_cmd_def Let_def not_understood_def)

lemma jog_understood:
  "axis = Some ''X'' \<or> axis = Some ''Y'' \<Longrightarrow> \<bar>d\<bar> \<le> 0.2 \<Longrightarrow> understood (fst (jog_cmd ops i axis (Some d) corr s))"
  by (auto simp: jog_cmd_def Let_def not_understood_def intro!: understood_chain)

lemma inject_understood: "fault_of_text fault \<notin> {FT_Unknown, FT_All} \<Longrightarrow> understood (fst (inject_fault_cmd ops i fault corr s))"
  by (auto simp: inject_fault_cmd_def Let_def not_understood_def split: fault_target.split)

lemma clear_understood: "fault_of_text fault \<noteq> FT_Unknown \<Longrightarrow> understood (fst (clear_fault_cmd ops i fault corr s))"
  by (auto simp: clear_fault_cmd_def Let_def not_understood_def split: fault_target.split)

lemma load_understood:
  "cr_order_id req = Some order_id \<Longrightarrow> \<not> is_blank order_id \<Longrightarrow> cr_quantity req = Some q \<Longrightarrow> 0 < q \<Longrightarrow> q \<le> 100000
    \<Longrightarrow> understood (fst (load_order_cmd i req corr s))"
  by (auto simp: load_order_cmd_def Let_def not_understood_def understood_def [of "Inl _"] split: option.split sum.split)

lemma activate_understood: "understood (fst (activate_recipe i recipe corr s))"
  by (auto simp: activate_recipe_def Let_def not_understood_def)

text \<open>The texts of the buttons.\<close>

lemma button_modes:
  "try_parse_mode (Some ''Offline'') \<noteq> None" "try_parse_mode (Some ''Manual'') \<noteq> None" "try_parse_mode (Some ''Automatic'') \<noteq> None"
  "try_parse_mode (Some ''Maintenance'') \<noteq> None"
  by (simp_all add: try_parse_mode_def is_digit_def mode_value_of_name_def text_eval)

lemma button_faults:
  "fault_of_text (Some ''emergency-stop'') = FT_EmergencyStop" "fault_of_text (Some ''guard-open'') = FT_GuardOpen"
  "fault_of_text (Some ''bus-loss'') = FT_BusLoss" "fault_of_text (Some ''drive-fault-x'') = FT_Motion MF_DriveFaultX"
  "fault_of_text (Some ''drive-fault-y'') = FT_Motion MF_DriveFaultY" "fault_of_text (Some ''frozen-axis-x'') = FT_Motion MF_FrozenAxisX"
  "fault_of_text (Some ''following-error'') = FT_Motion MF_FollowingError" "fault_of_text (Some ''all'') = FT_All"
  by (simp_all add: fault_of_text_def text_eval)

lemma button_names [simp]:
  "command_name (hmi_mode user mode) = ''set-mode''" "command_name (hmi_jog user axis d) = ''jog''"
  "command_name (hmi_fault user fault) = ''inject-fault''" "command_name (load_demo_order user day n) = ''load-order''"
  "command_name (hmi_plain user ty) = to_lower (trim ty)" "command_name (r\<lparr>cr_fault := f\<rparr>) = command_name r"
  by (simp_all add: command_name_def hmi_mode_def hmi_jog_def hmi_fault_def load_demo_order_def hmi_plain_def plain_request_def text_eval)

lemma hmi_texts [simp]:
  "to_lower (trim ''initialize'') = ''initialize''" "to_lower (trim ''home'') = ''home''" "to_lower (trim ''start'') = ''start''"
  "to_lower (trim ''pause'') = ''pause''" "to_lower (trim ''resume'') = ''resume''" "to_lower (trim ''stop'') = ''stop''"
  "to_lower (trim ''abort'') = ''abort''" "to_lower (trim ''reset'') = ''reset''" "to_lower (trim ''cancel-order'') = ''cancel-order''"
  "to_lower (trim ''clear-fault'') = ''clear-fault''" "to_lower (trim ''acknowledge-alarms'') = ''acknowledge-alarms''"
  "to_lower (trim ''recover-discard'') = ''recover-discard''" "to_lower (trim ''recover-rehome'') = ''recover-rehome''"
  "to_lower (trim ''recover-resume'') = ''recover-resume''"
  by (simp_all add: text_eval)

lemma button_fields [simp]:
  "cr_mode (hmi_mode user mode) = Some mode" "cr_axis (hmi_jog user axis d) = Some axis" "cr_value (hmi_jog user axis d) = Some d"
  "cr_fault (hmi_fault user fault) = Some fault" "cr_order_id (load_demo_order user day n) = Some (demo_order_id day n)"
  "cr_quantity (load_demo_order user day n) = Some 5"
  by (simp_all add: hmi_mode_def hmi_jog_def hmi_fault_def load_demo_order_def)

lemma demo_order_id_not_blank: "\<not> is_blank (demo_order_id day n)"
  by (simp add: demo_order_id_def is_blank_def is_space_def)

lemma button_execute:
  "b \<noteq> B_ActivateDefaultRecipe \<Longrightarrow> understood (fst (execute ops i (button_request user day n b) s))"
  by (cases b)
    (simp_all add: execute_by_name handlers_understood mode_understood button_modes jog_understood inject_understood clear_understood
      button_faults load_understood demo_order_id_not_blank)

lemma only_activation: "eq_ignore_case (the (cr_type (button_request user day n b))) ''activate-recipe'' \<longleftrightarrow> b = B_ActivateDefaultRecipe"
  "\<exists>ty. cr_type (button_request user day n b) = Some ty"
  by (cases b; simp add: hmi_plain_def hmi_mode_def hmi_jog_def hmi_fault_def load_demo_order_def plain_request_def eq_ignore_case_def text_eval)+

lemma finish_understood:
  assumes "understood (fst outcome)"
  shows "res_code (fst (case outcome of (Inr result, t) \<Rightarrow> (result, t, fs)
      | (Inl e, t) \<Rightarrow> let (result, u) = failed_result i req (message e) t in (result, u, fs))) \<notin> not_understood"
  using assms by (cases outcome; cases "fst outcome") (auto simp: understood_def failed_result_def not_understood_def)

text \<open>
  C33. The machine understands every button of the HMI: whatever the state of the machine, its recipe store and the
  window, the answer to the command of a button is never that the command, mode, axis, distance or fault is unknown, or that order, quantity or
  recipe are missing.
\<close>

theorem buttons_understood:
  "res_code (fst (process_command ops message path i (button_request user day n b) st))
    \<notin> {''UNKNOWN_COMMAND'', ''INVALID_MODE'', ''INVALID_AXIS'', ''INVALID_DISTANCE'', ''UNKNOWN_FAULT'',
       ''ORDER_ID_REQUIRED'', ''INVALID_QUANTITY'', ''RECIPE_ID_REQUIRED''}"
proof -
  obtain s fs where st: "st = (s, fs)" by fastforce
  have "res_code (fst (process_command ops message path i (button_request user day n b) st)) \<notin> not_understood"
  proof (cases "b = B_ActivateDefaultRecipe")
    case True
    define req where "req = button_request user day n b"
    have req: "cr_type req = Some ''activate-recipe''" "cr_recipe_id req = Some ''standard-widget''" "cr_recipe_revision req = Some 1"
      "\<not> is_blank ''standard-widget''"
      by (simp_all add: req_def True hmi_plain_def plain_request_def is_blank_def is_space_def)
    have failed: "res_code (fst (let (result, u) = failed_result i req m s in (result, u, fs))) \<notin> not_understood" for m
      by (simp add: failed_result_def not_understood_def)
    show ?thesis
    proof (cases "store_activate path ''standard-widget'' 1 fs")
      case (Inl e)
      then show ?thesis using failed by (simp add: st process_command_def req flip: req_def)
    next
      case (Inr r)
      then show ?thesis
        using finish_understood [OF activate_understood, where message = "\<lambda>e. message (Inl e)"]
        by (cases r) (simp add: st process_command_def req flip: req_def)
    qed
  next
    case False
    obtain ty where ty: "cr_type (button_request user day n b) = Some ty" "\<not> eq_ignore_case ty ''activate-recipe''"
      using only_activation [of user day n b] False by (metis option.sel)
    then show ?thesis
      using finish_understood [OF button_execute [OF False], where message = "\<lambda>e. message (Inl e)"]
      by (simp add: st process_command_def ty)
  qed
  then show ?thesis by (simp only: not_understood_def simp_thms)
qed

section \<open>Commands in flight\<close>

text \<open>
  The requests of the window are those of its buttons in the order they were pressed: pressing a button again while its
  command waits for the answer sends nothing, and no two demonstration orders of a day have one identifier.
\<close>

definition presses_of :: "hmi_event list \<Rightarrow> nat" where
  "presses_of evs = length (filter (\<lambda>e. case e of Pressed _ _ \<Rightarrow> True | _ \<Rightarrow> False) evs)"

lemma press_waiting: "b \<in> set (hm_running h) \<Longrightarrow> press_button user day b h = h"
  by (simp add: press_button_def)

lemma hmi_do_running: "distinct (hm_running h) \<Longrightarrow> distinct (hm_running (hmi_do user e h))"
  by (cases e) (simp_all add: press_button_def button_done_def hmi_update_def)

lemma one_command_per_button: "distinct (hm_running (fold (hmi_do user) evs new_hmi))"
proof -
  have "distinct (hm_running (fold (hmi_do user) evs h))" if "distinct (hm_running h)" for h
    using that by (induction evs arbitrary: h) (simp_all add: hmi_do_running)
  then show ?thesis by (simp add: new_hmi_def)
qed

text \<open>Once a snapshot has arrived the window shows \<open>Connected\<close> for good, also while no connection is up.\<close>

lemma hmi_stays_connected:
  assumes "Snapshot_arrives s \<in> set evs"
  shows "hm_connection (fold (hmi_do user) evs h) = ''Connected''"
proof -
  have keep: "hm_connection (fold (hmi_do user) evs h) = ''Connected''" if "hm_connection h = ''Connected''" for evs h
    using that
  proof (induction evs arbitrary: h)
    case (Cons e evs)
    then show ?case by (cases e) (simp_all add: press_button_def button_done_def hmi_update_def)
  qed simp
  obtain us vs where "evs = us @ Snapshot_arrives s # vs" using assms by (meson split_list)
  then show ?thesis using keep by (simp add: hmi_update_def)
qed

section \<open>The nodes\<close>

definition published_in :: "opc_event list \<Rightarrow> machine_snapshot set" where
  "published_in evs = {s. StatePublished s \<in> set evs}"

text \<open>The nodes show one published state, never parts of two.\<close>

lemma nodes_of_one_state:
  "oc_nodes (fold opc_do evs new_opc) \<in> insert new_nodes (node_values ` published_in evs)"
proof -
  let ?ok = "\<lambda>evs o'. oc_nodes o' \<in> insert new_nodes (node_values ` published_in evs) \<and> set (oc_held o') \<subseteq> published_in evs
    \<and> set_option (oc_current o') \<subseteq> published_in evs"
  have step: "?ok (evs @ [e]) (opc_do e o')" if "?ok evs o'" for evs e o'
  proof -
    have mono: "published_in evs \<subseteq> published_in (evs @ [e])" by (auto simp: published_in_def)
    show ?thesis
    proof (cases e)
      case (StatePublished s)
      then show ?thesis using that mono by (auto simp: published_in_def)
    next
      case TickReads
      then show ?thesis using that mono by (auto split: option.split)
    next
      case (TickWrites n)
      have held: "set (oc_held o') \<subseteq> published_in (evs @ [e])" using that mono by blast
      then have rest: "set (take n (oc_held o')) \<subseteq> published_in (evs @ [e])" "set (drop (Suc n) (oc_held o')) \<subseteq> published_in (evs @ [e])"
        by (meson set_take_subset set_drop_subset subset_trans)+
      show ?thesis
      proof (cases "n < length (oc_held o')")
        case True
        then have "oc_held o' ! n \<in> published_in (evs @ [e])" using held nth_mem by blast
        then show ?thesis using True rest that mono by (simp add: TickWrites) blast
      next
        case False
        then show ?thesis using held that mono by (simp add: TickWrites) blast
      qed
    qed
  qed
  have "?ok evs (fold opc_do evs new_opc)"
  proof (induction evs rule: rev_induct)
    case Nil
    show ?case by (simp add: new_opc_def)
  next
    case (snoc e evs)
    from step [OF snoc] show ?case by simp
  qed
  then show ?thesis by blast
qed

text \<open>But a tick that is overtaken by the next one puts the older state back.\<close>

lemma overtaken_tick_shows_old_state:
  "oc_nodes (fold opc_do [StatePublished s, TickReads, StatePublished t, TickReads, TickWrites 1, TickWrites 0] new_opc) = node_values s"
  by (simp add: new_opc_def)

end
