(* ===== verification/Research.thy ===== *)
theory Research
  imports Studio
begin

text \<open>
  The research plane behind the studio (\<open>src/research/vsmc_research\<close>): the validation of a manifest, its scenarios,
  the state of a scenario at a time, what the active scenarios do to the machine and to the network, and the
  intervals that label the data.

  \<^item> A Python dict is a \<open>JObj\<close>, a list a \<open>JArr\<close>; no document holds \<open>JUndef\<close>. An exception is a value of \<open>py_exn\<close>; the
    server turns \<open>PyValueError\<close> into an answer and lets the others through.
  \<^item> The metadata of a scenario, which nothing reads, are left out.
  \<^item> What \<open>float\<close>, \<open>int\<close> and \<open>str\<close> make of a text or value is the library's: the parameters \<open>to_float\<close>, \<open>to_int\<close> and \<open>str\<close>.
\<close>

section \<open>Python values\<close>

datatype py_exn = PyValueError string | PyTypeError | PyAttributeError | PyKeyError string | PyStructError | PyZeroDivisionError

definition py_bind :: "py_exn + 'a \<Rightarrow> ('a \<Rightarrow> py_exn + 'b) \<Rightarrow> py_exn + 'b" where
  "py_bind r k = (case r of Inl e \<Rightarrow> Inl e | Inr a \<Rightarrow> k a)"

lemma py_bind_simps [simp]: "py_bind (Inl e) k = Inl e" "py_bind (Inr a) k = k a"
  by (simp_all add: py_bind_def)

fun py_map :: "('a \<Rightarrow> py_exn + 'b) \<Rightarrow> 'a list \<Rightarrow> py_exn + 'b list" where
  "py_map f [] = Inr []"
| "py_map f (x # xs) = py_bind (f x) (\<lambda>y. py_bind (py_map f xs) (\<lambda>ys. Inr (y # ys)))"

definition py_float :: "(string \<Rightarrow> string + real) \<Rightarrow> json \<Rightarrow> py_exn + real" where
  "py_float to_float v = (case v of
       JNum x \<Rightarrow> Inr x
     | JBool b \<Rightarrow> Inr (if b then 1 else 0)
     | JStr s \<Rightarrow> (case to_float s of Inl e \<Rightarrow> Inl (PyValueError e) | Inr x \<Rightarrow> Inr x)
     | _ \<Rightarrow> Inl PyTypeError)"

definition py_trunc :: "real \<Rightarrow> int" where
  "py_trunc x = (if 0 \<le> x then \<lfloor>x\<rfloor> else \<lceil>x\<rceil>)"

definition py_int :: "(string \<Rightarrow> string + int) \<Rightarrow> json \<Rightarrow> py_exn + int" where
  "py_int to_int v = (case v of
       JNum x \<Rightarrow> Inr (py_trunc x)
     | JBool b \<Rightarrow> Inr (if b then 1 else 0)
     | JStr s \<Rightarrow> (case to_int s of Inl e \<Rightarrow> Inl (PyValueError e) | Inr x \<Rightarrow> Inr x)
     | _ \<Rightarrow> Inl PyTypeError)"

text \<open>\<open>v.get(k, fallback)\<close>, \<open>v[k]\<close> and iteration.\<close>

definition py_get :: "string \<Rightarrow> json \<Rightarrow> json \<Rightarrow> py_exn + json" where
  "py_get k fallback v = (case v of
       JObj kvs \<Rightarrow> Inr (case map_of kvs k of None \<Rightarrow> fallback | Some x \<Rightarrow> x) | _ \<Rightarrow> Inl PyAttributeError)"

definition py_item :: "string \<Rightarrow> json \<Rightarrow> py_exn + json" where
  "py_item k v = (case v of
       JObj kvs \<Rightarrow> (case map_of kvs k of None \<Rightarrow> Inl (PyKeyError k) | Some x \<Rightarrow> Inr x) | _ \<Rightarrow> Inl PyTypeError)"

definition py_iter :: "json \<Rightarrow> py_exn + json list" where
  "py_iter v = (case v of
       JArr xs \<Rightarrow> Inr xs
     | JObj kvs \<Rightarrow> Inr (map (JStr \<circ> fst) kvs)
     | JStr s \<Rightarrow> Inr (map (\<lambda>c. JStr [c]) s)
     | _ \<Rightarrow> Inl PyTypeError)"

section \<open>Validation of a manifest\<close>

definition required_fields :: "string list" where
  "required_fields = [''capture'', ''environment'', ''experiment_id'', ''schema_version'']"

definition list_repr :: "string list \<Rightarrow> string" where
  "list_repr xs = ''['' @ join_with '', '' (map (\<lambda>x. [CHR 0x27] @ x @ [CHR 0x27]) xs) @ '']''"

definition domain_names :: "string list" where
  "domain_names = [''machine'', ''network'', ''cyber_influenced'']"

text \<open>Membership of a set needs a hash, which lists and dicts do not have.\<close>

definition known_domain :: "json \<Rightarrow> py_exn + bool" where
  "known_domain v = (case v of JArr _ \<Rightarrow> Inl PyTypeError | JObj _ \<Rightarrow> Inl PyTypeError | JStr s \<Rightarrow> Inr (s \<in> set domain_names) | _ \<Rightarrow> Inr False)"

definition validate_scenario :: "(string \<Rightarrow> string + real) \<Rightarrow> (json \<Rightarrow> string) \<Rightarrow> json \<Rightarrow> py_exn + unit" where
  "validate_scenario to_float str scenario =
     py_bind (py_get ''domain'' JNull scenario) (\<lambda>domain.
     py_bind (known_domain domain) (\<lambda>known.
     if \<not> known then Inl (PyValueError (''Invalid scenario domain: '' @ str domain))
     else py_bind (py_get ''activation_time_s'' (JNum (- 1)) scenario) (\<lambda>activation.
          py_bind (py_float to_float activation) (\<lambda>t.
          if t < 0 then Inl (PyValueError ''scenario activation_time_s cannot be negative'') else Inr ()))))"

fun validate_scenarios :: "(string \<Rightarrow> string + real) \<Rightarrow> (json \<Rightarrow> string) \<Rightarrow> json list \<Rightarrow> py_exn + unit" where
  "validate_scenarios to_float str [] = Inr ()"
| "validate_scenarios to_float str (x # xs) = py_bind (validate_scenario to_float str x) (\<lambda>_. validate_scenarios to_float str xs)"

definition validate_environment :: "(string \<Rightarrow> string + real) \<Rightarrow> json \<Rightarrow> py_exn + unit" where
  "validate_environment to_float environment =
     py_bind (py_get ''id'' JNull environment) (\<lambda>env_id.
     if env_id \<noteq> JStr ''VSMC-DynamicGantry-v1''
     then Inl (PyValueError ''This release supports environment id VSMC-DynamicGantry-v1'')
     else py_bind (py_bind (py_get ''dt_ms'' (JNum 0) environment) (py_float to_float)) (\<lambda>dt.
     if dt \<le> 0 then Inl (PyValueError ''environment.dt_ms must be positive'')
     else py_bind (py_bind (py_get ''duration_s'' (JNum 0) environment) (py_float to_float)) (\<lambda>duration.
     if duration \<le> 0 then Inl (PyValueError ''environment.duration_s must be positive'') else Inr ())))"

definition validate_network :: "(string \<Rightarrow> string + real) \<Rightarrow> (json \<Rightarrow> string) \<Rightarrow> json \<Rightarrow> py_exn + unit" where
  "validate_network to_float str network =
     py_bind (py_get ''protocol'' (JStr ''ethercat'') network) (\<lambda>protocol.
     if to_lower (str protocol) \<noteq> ''ethercat'' then Inl (PyValueError ''This release requires network.protocol=ethercat'')
     else py_bind (py_get ''publish_period_ms'' (JNum 0) network) (\<lambda>publish.
          py_bind (py_bind (py_get ''cycle_period_ms'' publish network) (py_float to_float)) (\<lambda>cycle.
          if cycle \<le> 0 then Inl (PyValueError ''network.cycle_period_ms must be positive'') else Inr ())))"

definition validate_manifest_data :: "(string \<Rightarrow> string + real) \<Rightarrow> (json \<Rightarrow> string) \<Rightarrow> (string \<times> json) list \<Rightarrow> py_exn + unit" where
  "validate_manifest_data to_float str data =
     (let missing = filter (\<lambda>k. map_of data k = None) required_fields
      in if missing \<noteq> [] then Inl (PyValueError (''Manifest is missing required fields: '' @ list_repr missing))
         else py_bind (py_item ''environment'' (JObj data)) (\<lambda>environment.
              py_bind (validate_environment to_float environment) (\<lambda>_.
              py_bind (py_get ''network'' (JObj []) (JObj data)) (\<lambda>network.
              py_bind (validate_network to_float str network) (\<lambda>_.
              py_bind (py_bind (py_get ''scenarios'' (JArr []) (JObj data)) py_iter)
                (validate_scenarios to_float str))))))"

text \<open>The answer of \<open>/api/validate\<close>: 422 with the message, or an unhandled exception.\<close>

datatype validation = Valid | Refused string | ServerError

definition validate_endpoint :: "(string \<Rightarrow> string + real) \<Rightarrow> (json \<Rightarrow> string) \<Rightarrow> (string \<times> json) list \<Rightarrow> validation" where
  "validate_endpoint to_float str data = (case validate_manifest_data to_float str data of
       Inr _ \<Rightarrow> Valid | Inl (PyValueError e) \<Rightarrow> Refused e | Inl _ \<Rightarrow> ServerError)"

section \<open>Scenarios\<close>

datatype fault_domain = FD_Machine | FD_Network | FD_CyberInfluenced

datatype fault_phase =
    FP_Inactive | FP_Incipient | FP_Onset | FP_Active | FP_Propagating | FP_Detected | FP_Mitigating | FP_Recovering | FP_Cleared

record scenario =
  sc_id :: string
  sc_domain :: fault_domain
  sc_category :: string
  sc_fault_type :: string
  sc_component :: string
  sc_activation :: real
  sc_duration :: "real option"
  sc_progression :: string
  sc_magnitude :: real
  sc_severity :: string
  sc_seed :: int

definition end_time :: "real \<Rightarrow> scenario \<Rightarrow> real" where
  "end_time experiment_end sc = (case sc_duration sc of
       None \<Rightarrow> experiment_end | Some d \<Rightarrow> min experiment_end (sc_activation sc + d))"

definition domain_of :: "json \<Rightarrow> py_exn + fault_domain" where
  "domain_of v =
     (if v = JStr ''machine'' then Inr FD_Machine
      else if v = JStr ''network'' then Inr FD_Network
      else if v = JStr ''cyber_influenced'' then Inr FD_CyberInfluenced
      else Inl (PyValueError ''FaultDomain''))"

definition load_scenario ::
  "(string \<Rightarrow> string + real) \<Rightarrow> (string \<Rightarrow> string + int) \<Rightarrow> (json \<Rightarrow> string) \<Rightarrow> int \<Rightarrow> int \<Rightarrow> json \<Rightarrow> py_exn + scenario" where
  "load_scenario to_float to_int str base_seed index item =
     py_bind (py_item ''id'' item) (\<lambda>i.
     py_bind (py_bind (py_item ''domain'' item) domain_of) (\<lambda>domain.
     py_bind (py_item ''category'' item) (\<lambda>category.
     py_bind (py_item ''type'' item) (\<lambda>fault_type.
     py_bind (py_item ''component'' item) (\<lambda>component.
     py_bind (py_bind (py_item ''activation_time_s'' item) (py_float to_float)) (\<lambda>activation.
     py_bind (py_get ''duration_s'' JNull item) (\<lambda>d.
     py_bind (if d = JNull then Inr None else py_bind (py_float to_float d) (\<lambda>x. Inr (Some x))) (\<lambda>duration.
     py_bind (py_get ''progression'' (JStr ''abrupt'') item) (\<lambda>progression.
     py_bind (py_bind (py_get ''magnitude'' (JNum 1) item) (py_float to_float)) (\<lambda>magnitude.
     py_bind (py_get ''severity'' (JStr ''major'') item) (\<lambda>severity.
     py_bind (py_bind (py_get ''seed'' (JNum (of_int (base_seed + 101 * (index + 1)))) item) (py_int to_int)) (\<lambda>seed.
       Inr \<lparr>sc_id = str i, sc_domain = domain, sc_category = str category, sc_fault_type = str fault_type,
            sc_component = str component, sc_activation = activation, sc_duration = duration,
            sc_progression = str progression, sc_magnitude = magnitude, sc_severity = str severity, sc_seed = seed\<rparr>))))))))))))"

definition load_scenarios ::
  "(string \<Rightarrow> string + real) \<Rightarrow> (string \<Rightarrow> string + int) \<Rightarrow> (json \<Rightarrow> string) \<Rightarrow> int \<Rightarrow> json list \<Rightarrow> py_exn + scenario list" where
  "load_scenarios to_float to_int str base_seed raw =
     py_map (\<lambda>(index, item). load_scenario to_float to_int str base_seed (int index) item) (zip [0..<length raw] raw)"

record scenario_state =
  ss_scenario :: scenario
  ss_phase :: fault_phase
  ss_intensity :: real
  ss_active :: bool

definition fault_progress :: "scenario \<Rightarrow> real \<Rightarrow> real \<Rightarrow> real" where
  "fault_progress sc time experiment_end =
     (let elapsed = time - sc_activation sc; span = max (end_time experiment_end sc - sc_activation sc) (1 / 10 ^ 9)
      in min (max (elapsed / span) 0) 1)"

definition scenario_state_at :: "scenario \<Rightarrow> real \<Rightarrow> real \<Rightarrow> scenario_state" where
  "scenario_state_at sc time experiment_end =
     (let start = sc_activation sc; elapsed = time - start; progress = fault_progress sc time experiment_end;
          state = (\<lambda>phase intensity active.
            \<lparr>ss_scenario = sc, ss_phase = phase, ss_intensity = intensity, ss_active = active\<rparr>);
          pulse = (\<lambda>active. state (if active then FP_Active else FP_Inactive) (if active then sc_magnitude sc else 0) active)
      in if time < start \<or> end_time experiment_end sc \<le> time then state FP_Inactive 0 False
         else if sc_progression sc = ''gradual''
         then state (if progress < 4 / 10 then FP_Incipient else FP_Active) (sc_magnitude sc * progress) True
         else if sc_progression sc = ''intermittent'' then pulse (py_trunc (elapsed * 5 + of_int (sc_seed sc)) mod 4 \<noteq> 0)
         else if sc_progression sc = ''periodic'' then pulse (py_trunc (elapsed * 2 + of_int (sc_seed sc)) mod 2 = 0)
         else state (if elapsed < 2 / 10 then FP_Onset else FP_Active) (sc_magnitude sc) True)"

section \<open>What the active scenarios do\<close>

record machine_effects =
  me_x_friction :: real
  me_y_friction :: real
  me_x_sensor_bias :: real
  me_y_sensor_bias :: real
  me_drive_authority :: real
  me_failed_pick :: bool

definition no_effects :: machine_effects where
  "no_effects = \<lparr>me_x_friction = 12 / 100, me_y_friction = 12 / 100, me_x_sensor_bias = 0, me_y_sensor_bias = 0,
     me_drive_authority = 1, me_failed_pick = False\<rparr>"

definition on_x_axis :: "scenario \<Rightarrow> bool" where
  "on_x_axis sc \<longleftrightarrow> take 1 (sc_component sc) = ''x''"

text \<open>\<open>random\<close> draws a number from the state of the generator; \<open>picking\<close> tells whether the machine is in its pick state.\<close>

definition apply_effect ::
  "('r \<Rightarrow> real \<times> 'r) \<Rightarrow> bool \<Rightarrow> real \<Rightarrow> scenario_state \<Rightarrow> machine_effects \<times> 'r \<Rightarrow> machine_effects \<times> 'r" where
  "apply_effect random picking time state r =
     (let (e, g) = r; sc = ss_scenario state; intensity = ss_intensity state
      in if \<not> ss_active state \<or> sc_domain sc \<noteq> FD_Machine then r
         else if sc_fault_type sc = ''increased_friction''
         then (if on_x_axis sc then e\<lparr>me_x_friction := me_x_friction e + intensity\<rparr>
               else e\<lparr>me_y_friction := me_y_friction e + intensity\<rparr>, g)
         else if sc_fault_type sc = ''encoder_drift''
         then (let bias = intensity * max (time - sc_activation sc) 0 / 20
               in (if on_x_axis sc then e\<lparr>me_x_sensor_bias := bias\<rparr> else e\<lparr>me_y_sensor_bias := bias\<rparr>, g))
         else if sc_fault_type sc = ''drive_derating'' then (e\<lparr>me_drive_authority := max (2 / 10) (1 - intensity)\<rparr>, g)
         else if sc_fault_type sc = ''failed_pick'' \<and> picking
         then (let (u, g') = random g in (e\<lparr>me_failed_pick := u < min (95 / 100) intensity\<rparr>, g'))
         else r)"

definition machine_effects_of ::
  "('r \<Rightarrow> real \<times> 'r) \<Rightarrow> bool \<Rightarrow> real \<Rightarrow> 'r \<Rightarrow> scenario_state list \<Rightarrow> machine_effects \<times> 'r" where
  "machine_effects_of random picking time g states = fold (apply_effect random picking time) states (no_effects, g)"

record network_condition =
  nc_delay :: real
  nc_jitter :: real
  nc_loss :: real
  nc_duplicate :: real
  nc_mismatch :: real

definition apply_condition :: "scenario_state \<Rightarrow> network_condition \<Rightarrow> network_condition" where
  "apply_condition state c =
     (let sc = ss_scenario state; intensity = ss_intensity state
      in if \<not> ss_active state \<or> sc_domain sc \<noteq> FD_Network then c
         else if sc_fault_type sc = ''message_delay''
         then c\<lparr>nc_delay := nc_delay c + intensity, nc_jitter := nc_jitter c + intensity * (1 / 10)\<rparr>
         else if sc_fault_type sc = ''packet_loss'' then c\<lparr>nc_loss := min (95 / 100) (nc_loss c + intensity)\<rparr>
         else if sc_fault_type sc = ''message_duplication'' then c\<lparr>nc_duplicate := min (95 / 100) (nc_duplicate c + intensity)\<rparr>
         else if sc_fault_type sc = ''working_counter_mismatch'' then c\<lparr>nc_mismatch := min (95 / 100) (nc_mismatch c + intensity)\<rparr>
         else c)"

definition base_condition :: "(string \<Rightarrow> string + real) \<Rightarrow> json \<Rightarrow> py_exn + network_condition" where
  "base_condition to_float config =
     py_bind (py_bind (py_get ''base_delay_ms'' (JNum 1) config) (py_float to_float)) (\<lambda>delay.
     py_bind (py_bind (py_get ''base_jitter_ms'' (JNum (2 / 10)) config) (py_float to_float)) (\<lambda>jitter.
     py_bind (py_bind (py_get ''base_loss_probability'' (JNum 0) config) (py_float to_float)) (\<lambda>loss.
     py_bind (py_bind (py_get ''base_duplicate_probability'' (JNum 0) config) (py_float to_float)) (\<lambda>duplicate.
       Inr \<lparr>nc_delay = delay, nc_jitter = jitter, nc_loss = loss, nc_duplicate = duplicate, nc_mismatch = 0\<rparr>))))"

definition network_condition_of ::
  "(string \<Rightarrow> string + real) \<Rightarrow> json \<Rightarrow> scenario_state list \<Rightarrow> py_exn + network_condition" where
  "network_condition_of to_float manifest states =
     py_bind (py_get ''network'' (JObj []) manifest) (\<lambda>config.
     py_bind (base_condition to_float config) (\<lambda>c. Inr (fold apply_condition states c)))"

section \<open>Labels\<close>

text \<open>The fields of a row that depend on the interval; the others are copied from the scenario.\<close>

record label_row =
  lb_scenario :: scenario
  lb_phase :: string
  lb_start_ns :: int
  lb_end_ns :: int

definition nanoseconds :: "real \<Rightarrow> int" where
  "nanoseconds t = py_trunc (t * 10 ^ 9)"

definition scenario_intervals :: "real \<Rightarrow> scenario \<Rightarrow> (string \<times> real \<times> real) list" where
  "scenario_intervals experiment_end sc =
     (let start = sc_activation sc; stop = end_time experiment_end sc; midpoint = start + 4 / 10 * (stop - start)
      in if sc_progression sc = ''gradual'' then [(''incipient'', start, midpoint), (''active'', midpoint, stop)]
         else [(''active'', start, stop)])"

definition build_intervals :: "real \<Rightarrow> scenario list \<Rightarrow> label_row list" where
  "build_intervals experiment_end scenarios = concat (map (\<lambda>sc.
     map (\<lambda>(phase, start, stop). \<lparr>lb_scenario = sc, lb_phase = phase, lb_start_ns = nanoseconds start, lb_end_ns = nanoseconds stop\<rparr>)
       (scenario_intervals experiment_end sc)) scenarios)"

end
