(* ===== verification/ResearchLaws.thy ===== *)
theory ResearchLaws
  imports Research StudioLaws
begin

text \<open>
  Properties of the research plane: the studio's form only makes manifests the server accepts, up to the duration; a
  scenario acts only inside its time window; the labels are the phases of the faults for the abrupt and the
  gradual ones, and not for the pulsed ones.
\<close>

section \<open>Validation\<close>

lemma py_bind_Inr: "py_bind r k = Inr b \<longleftrightarrow> (\<exists>a. r = Inr a \<and> k a = Inr b)"
  by (cases r) auto

lemma py_get_object [simp]: "py_get k d (JObj fs) = Inr (case map_of fs k of None \<Rightarrow> d | Some x \<Rightarrow> x)"
  by (simp add: py_get_def)

text \<open>What acceptance says of a manifest.\<close>

lemma accepted_environment:
  assumes "validate_manifest_data to_float str fs = Inr ()"
  shows "\<exists>env. map_of fs ''environment'' = Some (JObj env) \<and> validate_environment to_float (JObj env) = Inr ()"
proof -
  obtain v where v: "map_of fs ''environment'' = Some v" "validate_environment to_float v = Inr ()"
    using assms by (auto simp: validate_manifest_data_def Let_def py_bind_Inr py_item_def split: if_splits option.splits)
  obtain env where "v = JObj env" using v(2) by (cases v) (simp_all add: validate_environment_def py_get_def)
  then show ?thesis using v by blast
qed

text \<open>A new duration changes the answer of the environment check only through its sign.\<close>

lemma environment_duration:
  assumes "validate_environment to_float (JObj env) = Inr ()"
  shows "validate_environment to_float (JObj (put_field ''duration_s'' (JNum d) env)) =
    (if d \<le> 0 then Inl (PyValueError ''environment.duration_s must be positive'') else Inr ())"
  using assms
  by (auto simp: validate_environment_def py_bind_Inr py_float_def split: if_splits)

lemma generated_scenarios_valid:
  assumes "scenarios_of mode fault = Inr xs" and "known_fault fault"
  shows "validate_scenarios to_float str xs = Inr ()"
proof -
  have net: "validate_scenario to_float str network_scenario = Inr ()"
    by (simp add: validate_scenario_def network_scenario_def known_domain_def domain_names_def py_float_def)
  have mach: "validate_scenario to_float str v = Inr ()" if "machine_scenario fault = Inr v" for v
    using that assms(2)
    by (auto simp: machine_scenario_def known_fault_def validate_scenario_def known_domain_def domain_names_def py_float_def Let_def)
  show ?thesis
    using assms(1) net mach
    by (auto simp: scenarios_of_def Let_def bind_exn_def split: if_splits sum.splits)
qed

text \<open>The manifest that a change of the form writes.\<close>

lemma sync_controls_fields:
  assumes "st_manifest s = JObj fs" and "map_of fs ''environment'' = Some (JObj env)"
    and "js_prop ''datasets'' (JObj fs) = JUndef \<or> is_object (js_prop ''datasets'' (JObj fs))"
    and "scenarios_of (fm_mode (st_form s)) (fm_fault (st_form s)) = Inr xs"
  shows "\<exists>fs'. \<not> throws (sync_controls s) \<and> st_manifest (snd (sync_controls s)) = JObj fs'
    \<and> map_of fs' ''environment'' = Some (JObj (put_field ''duration_s'' (field_number (fm_duration (st_form s))) env))
    \<and> map_of fs' ''scenarios'' = Some (JArr xs)
    \<and> (\<forall>k. map_of fs k \<noteq> None \<longrightarrow> map_of fs' k \<noteq> None) \<and> map_of fs' ''network'' = map_of fs ''network''"
proof -
  have env: "js_prop ''environment'' (JObj fs) = JObj env" using assms(2) by (simp add: js_prop_def)
  obtain data where data: "js_or (js_prop ''datasets'' (JObj fs)) (JObj []) = JObj data"
    using datasets_object [OF assms(3)] by blast
  show ?thesis
    using assms(1,4) env data
    by (simp add: sync_controls_def assign_object assign_in_object Let_def throws_def render_workflow_def render_manifest_def)
qed

text \<open>
  The form only makes manifests the server accepts: from a manifest that the validation of the research plane
  accepts, a change of any field of the form writes a manifest that it accepts too, whatever the mode, the
  fault and the numbers, except that a duration that is empty, zero or negative is refused with the message that the
  duration must be positive.
\<close>

theorem form_manifest_accepted:
  assumes "validate_manifest_data to_float str fs = Inr ()" and "st_manifest s = JObj fs"
    and "js_prop ''datasets'' (JObj fs) = JUndef \<or> is_object (js_prop ''datasets'' (JObj fs))"
    and "known_fault (fm_fault (st_form s))"
    and "d = (case fm_duration (st_form s) of None \<Rightarrow> 0 | Some x \<Rightarrow> x)"
  shows "\<exists>fs'. st_manifest (snd (sync_controls s)) = JObj fs' \<and>
    validate_endpoint to_float str fs' = (if 0 < d then Valid else Refused ''environment.duration_s must be positive'')"
proof -
  obtain env where env: "map_of fs ''environment'' = Some (JObj env)" "validate_environment to_float (JObj env) = Inr ()"
    using accepted_environment [OF assms(1)] by blast
  have "\<exists>xs. scenarios_of (fm_mode (st_form s)) (fm_fault (st_form s)) = Inr xs"
    using machine_scenario_known [OF assms(4)] by (auto simp: scenarios_of_def Let_def bind_exn_def split: sum.split)
  then obtain xs where xs: "scenarios_of (fm_mode (st_form s)) (fm_fault (st_form s)) = Inr xs" by blast
  obtain fs' where fs': "st_manifest (snd (sync_controls s)) = JObj fs'"
    "map_of fs' ''environment'' = Some (JObj (put_field ''duration_s'' (JNum d) env))"
    "map_of fs' ''scenarios'' = Some (JArr xs)" "\<forall>k. map_of fs k \<noteq> None \<longrightarrow> map_of fs' k \<noteq> None"
    "map_of fs' ''network'' = map_of fs ''network''"
    using sync_controls_fields [OF assms(2) env(1) assms(3) xs] assms(5) by (auto simp: field_number_def)
  have old: "\<forall>k \<in> set required_fields. map_of fs k \<noteq> None"
    "py_bind (py_get ''network'' (JObj []) (JObj fs)) (validate_network to_float str) = Inr ()"
    using assms(1) by (auto simp: validate_manifest_data_def Let_def py_bind_Inr filter_empty_conv split: if_splits)
  have "\<forall>k \<in> set required_fields. map_of fs' k \<noteq> None" using old(1) fs'(4) by blast
  then have "validate_manifest_data to_float str fs' =
      (if d \<le> 0 then Inl (PyValueError ''environment.duration_s must be positive'') else Inr ())"
    using environment_duration [OF env(2), of d] old(2) fs'(2,3,5) generated_scenarios_valid [OF xs assms(4), of to_float str]
    by (simp add: validate_manifest_data_def py_item_def py_iter_def filter_empty_conv py_bind_def)
  then show ?thesis using fs'(1) by (auto simp: validate_endpoint_def)
qed

section \<open>Scenarios\<close>

lemma fault_progress_range: "0 \<le> fault_progress sc t e" "fault_progress sc t e \<le> 1"
  by (simp_all add: fault_progress_def Let_def)

lemma scenario_state_window:
  "ss_active (scenario_state_at sc t e) \<Longrightarrow> sc_activation sc \<le> t \<and> t < end_time e sc"
  "ss_scenario (scenario_state_at sc t e) = sc"
  by (auto simp: scenario_state_at_def Let_def split: if_splits)

lemma scenario_state_intensity:
  assumes "0 \<le> sc_magnitude sc"
  shows "0 \<le> ss_intensity (scenario_state_at sc t e) \<and> ss_intensity (scenario_state_at sc t e) \<le> sc_magnitude sc"
  using assms fault_progress_range [of sc t e]
  by (auto simp: scenario_state_at_def Let_def mult_left_le)

lemma apply_effect_inactive: "\<not> ss_active st \<Longrightarrow> apply_effect random picking t st r = r"
  by (simp add: apply_effect_def Let_def split: prod.split)

lemma apply_condition_inactive: "\<not> ss_active st \<Longrightarrow> apply_condition st c = c"
  by (simp add: apply_condition_def Let_def)

lemma fold_inactive:
  assumes "\<And>st r. \<not> ss_active st \<Longrightarrow> f st r = r" and "\<forall>st \<in> set states. \<not> ss_active st"
  shows "fold f states r = r"
  using assms(2) by (induction states arbitrary: r) (simp_all add: assms(1))

text \<open>What holds of the effects whatever the scenarios: friction grows, the drives keep a fifth of their authority.\<close>

definition effects_ok :: "machine_effects \<Rightarrow> bool" where
  "effects_ok e \<longleftrightarrow> 12 / 100 \<le> me_x_friction e \<and> 12 / 100 \<le> me_y_friction e
     \<and> 2 / 10 \<le> me_drive_authority e \<and> me_drive_authority e \<le> 1"

lemma apply_effect_ok:
  assumes "effects_ok (fst r)" and "0 \<le> ss_intensity st"
  shows "effects_ok (fst (apply_effect random picking t st r))"
  using assms by (auto simp: apply_effect_def effects_ok_def Let_def max_def split: prod.split)

definition condition_ok :: "network_condition \<Rightarrow> network_condition \<Rightarrow> bool" where
  "condition_ok base c \<longleftrightarrow> nc_delay base \<le> nc_delay c \<and> nc_jitter base \<le> nc_jitter c
     \<and> nc_loss c \<le> max (nc_loss base) (95 / 100) \<and> nc_duplicate c \<le> max (nc_duplicate base) (95 / 100)
     \<and> nc_mismatch c \<le> max (nc_mismatch base) (95 / 100)"

lemma apply_condition_ok: "condition_ok base c \<Longrightarrow> 0 \<le> ss_intensity st \<Longrightarrow> condition_ok base (apply_condition st c)"
  by (auto simp: apply_condition_def condition_ok_def Let_def)

lemma fold_keeps:
  assumes "\<And>st r. st \<in> set states \<Longrightarrow> P r \<Longrightarrow> P (f st r)" and "P r"
  shows "P (fold f states r)"
  using assms by (induction states arbitrary: r) simp_all

text \<open>
  C28. Faults act only in their time windows and within their bounds: at a time outside the window of every scenario
  the machine and the network are those without faults and no random number is drawn; at any time, for
  magnitudes that are not negative, friction and delay are at least those without faults, the drives keep at
  least a fifth of their authority, and a probability of the network is at most 0.95 or its base value.
\<close>

theorem faults_within_windows:
  assumes "\<And>sc. sc \<in> set scenarios \<Longrightarrow> 0 \<le> sc_magnitude sc"
    and "network_condition_of to_float manifest [] = Inr base"
    and "states = map (\<lambda>sc. scenario_state_at sc t experiment_end) scenarios"
    and "machine_effects_of random picking t g states = (effects, g')"
  shows "((\<forall>sc \<in> set scenarios. t < sc_activation sc \<or> end_time experiment_end sc \<le> t) \<longrightarrow>
      (effects, g') = (no_effects, g) \<and> network_condition_of to_float manifest states = Inr base)
    \<and> effects_ok effects
    \<and> (\<exists>c. network_condition_of to_float manifest states = Inr c \<and> condition_ok base c)"
proof -
  have net: "network_condition_of to_float manifest states = Inr (fold apply_condition states base)"
    using assms(2) by (auto simp: network_condition_of_def py_bind_Inr)
  have intensity: "0 \<le> ss_intensity st" if "st \<in> set states" for st
    using that scenario_state_intensity assms(1) unfolding assms(3) by auto
  have off: "\<forall>st \<in> set states. \<not> ss_active st"
    if "\<forall>sc \<in> set scenarios. t < sc_activation sc \<or> end_time experiment_end sc \<le> t"
    using that scenario_state_window(1) unfolding assms(3) by fastforce
  have "effects_ok (fst (machine_effects_of random picking t g states))"
    unfolding machine_effects_of_def
    by (rule fold_keeps [where P = "\<lambda>r. effects_ok (fst r)"], rule apply_effect_ok, assumption, rule intensity, assumption)
      (simp add: effects_ok_def no_effects_def)
  moreover have "condition_ok base (fold apply_condition states base)"
    by (rule fold_keeps, rule apply_condition_ok, assumption, rule intensity, assumption) (simp add: condition_ok_def)
  moreover have "(effects, g') = (no_effects, g) \<and> fold apply_condition states base = base"
    if "\<forall>st \<in> set states. \<not> ss_active st"
    using assms(4) fold_inactive [where f = "apply_effect random picking t", OF apply_effect_inactive that]
      fold_inactive [where f = apply_condition, OF apply_condition_inactive that]
    by (simp add: machine_effects_of_def)
  ultimately show ?thesis using net off assms(4) by auto
qed

section \<open>Labels\<close>

lemma py_trunc_mono: "x \<le> y \<Longrightarrow> py_trunc x \<le> py_trunc y"
  unfolding py_trunc_def by (smt (verit) ceiling_mono ceiling_le_zero floor_mono zero_le_floor)

lemma nanoseconds_mono: "x \<le> y \<Longrightarrow> nanoseconds x \<le> nanoseconds y"
  unfolding nanoseconds_def by (rule py_trunc_mono) simp

text \<open>
  The labels of a gradual fault are right: while a scenario of gradual progression is incipient or active, the
  time lies in its label of that phase (to the nanosecond to which both are rounded), and the two labels
  follow each other without a gap.
\<close>

theorem gradual_labels_match:
  assumes "sc_progression sc = ''gradual''" and "ss_active (scenario_state_at sc t experiment_end)"
    and "1 / 10 ^ 9 \<le> end_time experiment_end sc - sc_activation sc"
    and "build_intervals experiment_end [sc] = [incipient, active]"
  shows "lb_end_ns incipient = lb_start_ns active \<and>
    (if ss_phase (scenario_state_at sc t experiment_end) = FP_Incipient
     then lb_phase incipient = ''incipient'' \<and> nanoseconds t \<in> {lb_start_ns incipient..lb_end_ns incipient}
     else lb_phase active = ''active'' \<and> nanoseconds t \<in> {lb_start_ns active..lb_end_ns active})"
proof -
  let ?start = "sc_activation sc" and ?stop = "end_time experiment_end sc"
  let ?mid = "?start + 4 / 10 * (?stop - ?start)"
  have t: "?start \<le> t" "t < ?stop" using scenario_state_window(1) [OF assms(2)] by auto
  have rows: "incipient = \<lparr>lb_scenario = sc, lb_phase = ''incipient'', lb_start_ns = nanoseconds ?start, lb_end_ns = nanoseconds ?mid\<rparr>"
    "active = \<lparr>lb_scenario = sc, lb_phase = ''active'', lb_start_ns = nanoseconds ?mid, lb_end_ns = nanoseconds ?stop\<rparr>"
    using assms(1,4) by (simp_all add: build_intervals_def scenario_intervals_def Let_def)
  have span: "0 < ?stop - ?start" using assms(3) by (smt (verit) divide_pos_pos zero_less_numeral zero_less_power)
  have progress: "fault_progress sc t experiment_end = (t - ?start) / (?stop - ?start)"
    using t assms(3) span by (simp add: fault_progress_def Let_def max_def min_def divide_le_eq)
  have "fault_progress sc t experiment_end < 4 / 10 \<longleftrightarrow> t < ?mid"
    unfolding progress pos_divide_less_eq [OF span] by (rule iffI) linarith+
  then have "ss_phase (scenario_state_at sc t experiment_end) = (if t < ?mid then FP_Incipient else FP_Active)"
    using t assms(1) by (simp add: scenario_state_at_def Let_def)
  then show ?thesis using t by (auto simp: rows intro: nanoseconds_mono)
qed

text \<open>
  The label of an intermittent fault also covers its pauses: every intermittent scenario that lasts longer than
  0.8 s has moments at which it is inactive and does nothing, inside the one interval that the ground truth
  labels active.
\<close>

theorem intermittent_label_covers_pause:
  assumes "sc_progression sc = ''intermittent''" and "0 \<le> sc_seed sc"
    and "8 / 10 < end_time experiment_end sc - sc_activation sc"
    and "build_intervals experiment_end [sc] = [row]"
  shows "\<exists>t. \<not> ss_active (scenario_state_at sc t experiment_end) \<and> ss_intensity (scenario_state_at sc t experiment_end) = 0
    \<and> lb_phase row = ''active'' \<and> lb_start_ns row \<le> nanoseconds t \<and> nanoseconds t \<le> lb_end_ns row
    \<and> sc_activation sc \<le> t \<and> t < end_time experiment_end sc"
proof -
  let ?k = "(- sc_seed sc) mod 4"
  let ?t = "sc_activation sc + of_int ?k / 5"
  have k: "0 \<le> ?k" "?k < 4" "(?k + sc_seed sc) mod 4 = 0"
    by (simp_all add: mod_add_left_eq)
  have rk: "0 \<le> real_of_int ?k" "real_of_int ?k \<le> 3"
    using k(1,2) by linarith+
  have t: "sc_activation sc \<le> ?t" "?t < end_time experiment_end sc"
    using rk assms(3) by linarith+
  have "(?t - sc_activation sc) * 5 + of_int (sc_seed sc) = of_int (?k + sc_seed sc)" by simp
  then have "py_trunc ((?t - sc_activation sc) * 5 + of_int (sc_seed sc)) = ?k + sc_seed sc"
    using k(1) assms(2) by (simp only: py_trunc_def) (simp del: of_int_add)
  then have "\<not> ss_active (scenario_state_at sc ?t experiment_end) \<and> ss_intensity (scenario_state_at sc ?t experiment_end) = 0"
    using assms(1) k(3) t by (simp add: scenario_state_at_def Let_def)
  moreover have "row = \<lparr>lb_scenario = sc, lb_phase = ''active'', lb_start_ns = nanoseconds (sc_activation sc),
      lb_end_ns = nanoseconds (end_time experiment_end sc)\<rparr>"
    using assms(1,4) by (simp add: build_intervals_def scenario_intervals_def Let_def)
  ultimately show ?thesis using t nanoseconds_mono by (intro exI [of _ ?t]) auto
qed

text \<open>A scenario of the third domain, which the validation admits, does nothing at all.\<close>

lemma cyber_scenarios_do_nothing:
  assumes "sc_domain sc = FD_CyberInfluenced"
  shows "apply_effect random picking t (scenario_state_at sc t e) r = r" "apply_condition (scenario_state_at sc t e) c = c"
  using assms by (simp_all add: apply_effect_def apply_condition_def scenario_state_window(2) Let_def split: prod.split)

text \<open>A scenario that starts after the end of the experiment gets a label that ends before it starts.\<close>

lemma late_scenario_label:
  "build_intervals 10 [\<lparr>sc_id = ''s'', sc_domain = FD_Machine, sc_category = ''c'', sc_fault_type = ''failed_pick'', sc_component = ''gripper'',
      sc_activation = 12, sc_duration = Some 22, sc_progression = ''abrupt'', sc_magnitude = 1, sc_severity = ''major'', sc_seed = 1\<rparr>] = [row]
    \<Longrightarrow> lb_start_ns row = 12000000000 \<and> lb_end_ns row = 10000000000"
  by (auto simp: build_intervals_def scenario_intervals_def nanoseconds_def py_trunc_def end_time_def Let_def)

section \<open>Concrete scenarios\<close>

definition demo_scenario :: "string \<Rightarrow> scenario" where
  "demo_scenario progression =
     \<lparr>sc_id = ''machine-failed_pick'', sc_domain = FD_Machine, sc_category = ''process_tooling'', sc_fault_type = ''failed_pick'',
      sc_component = ''gripper'', sc_activation = 12, sc_duration = Some 22, sc_progression = progression, sc_magnitude = 65 / 100,
      sc_severity = ''major'', sc_seed = 1102\<rparr>"

definition demo_manifest :: "(string \<times> json) list" where
  "demo_manifest =
     [(''schema_version'', JNum 1), (''experiment_id'', JStr ''e''),
      (''environment'', JObj [(''id'', JStr ''VSMC-DynamicGantry-v1''), (''duration_s'', JNum 60), (''dt_ms'', JNum 20)]),
      (''network'', JObj [(''cycle_period_ms'', JNum 20)]), (''capture'', JObj [])]"

lemma demo_manifest_accepted: "validate_manifest_data (\<lambda>_. Inl []) demo_str demo_manifest = Inr ()"
  by (simp add: validate_manifest_data_def demo_manifest_def required_fields_def py_item_def py_iter_def
      validate_environment_def validate_network_def py_float_def demo_str_def to_lower_def lower_char_def)

lemma form_manifest_accepted_witness:
  "\<exists>fs'. st_manifest (snd (sync_controls (demo_studio\<lparr>st_manifest := JObj demo_manifest\<rparr>))) = JObj fs'"
proof -
  have "js_prop ''datasets'' (JObj demo_manifest) = JUndef" by (simp add: js_prop_def demo_manifest_def)
  moreover have "known_fault (fm_fault (st_form (demo_studio\<lparr>st_manifest := JObj demo_manifest\<rparr>)))"
    by (simp add: demo_studio_def demo_form_def known_fault_def fault_profile_def)
  ultimately show ?thesis
    using form_manifest_accepted [OF demo_manifest_accepted, of "demo_studio\<lparr>st_manifest := JObj demo_manifest\<rparr>"] by auto
qed

lemma faults_within_windows_witness:
  "effects_ok (fst (machine_effects_of (\<lambda>n::nat. (1 / 2, n + 1)) True 13 0 [scenario_state_at (demo_scenario ''abrupt'') 13 60]))"
proof -
  have "\<exists>base. network_condition_of (\<lambda>_. Inl []) (JObj demo_manifest) [] = Inr base"
    by (simp add: network_condition_of_def base_condition_def demo_manifest_def py_float_def)
  then obtain base where base: "network_condition_of (\<lambda>_. Inl []) (JObj demo_manifest) [] = Inr base" by blast
  obtain effects g where r: "machine_effects_of (\<lambda>n::nat. (1 / 2, n + 1)) True 13 0
      (map (\<lambda>sc. scenario_state_at sc 13 60) [demo_scenario ''abrupt'']) = (effects, g)"
    by (metis prod.exhaust)
  have "effects_ok effects"
    using faults_within_windows [OF _ base refl r] by (simp add: demo_scenario_def)
  then show ?thesis using r by simp
qed

lemma gradual_labels_match_witness:
  "nanoseconds 13 \<in> {nanoseconds 12..nanoseconds (12 + 4 / 10 * 22)}"
proof -
  have "ss_active (scenario_state_at (demo_scenario ''gradual'') 13 60)"
    "ss_phase (scenario_state_at (demo_scenario ''gradual'') 13 60) = FP_Incipient"
    by (simp_all add: scenario_state_at_def demo_scenario_def end_time_def fault_progress_def Let_def)
  moreover have "build_intervals 60 [demo_scenario ''gradual''] =
      [\<lparr>lb_scenario = demo_scenario ''gradual'', lb_phase = ''incipient'', lb_start_ns = nanoseconds 12, lb_end_ns = nanoseconds (12 + 4 / 10 * 22)\<rparr>,
       \<lparr>lb_scenario = demo_scenario ''gradual'', lb_phase = ''active'', lb_start_ns = nanoseconds (12 + 4 / 10 * 22), lb_end_ns = nanoseconds 34\<rparr>]"
    by (simp add: build_intervals_def scenario_intervals_def demo_scenario_def end_time_def Let_def)
  ultimately show ?thesis
    using gradual_labels_match [of "demo_scenario ''gradual''" 13 60] by (simp add: demo_scenario_def end_time_def)
qed

lemma intermittent_label_covers_pause_witness: "\<exists>t. \<not> ss_active (scenario_state_at (demo_scenario ''intermittent'') t 60)"
  using intermittent_label_covers_pause [of "demo_scenario ''intermittent''" 60]
  by (auto simp: demo_scenario_def end_time_def build_intervals_def scenario_intervals_def Let_def)

end
