(* ===== verification/EtherCat.thy ===== *)
theory EtherCat
  imports Research "HOL-Library.Word"
begin

text \<open>
  The wire format of the research plane (\<open>src/research/vsmc_research/ethercat.py\<close>): process data objects of
  an axis, EtherCAT datagrams and frames, and the parser of a frame.

  \<^item> A byte string is a list of 8-bit words; \<open>struct.pack\<close> of an integer out of the range of its format is \<open>PyStructError\<close>.
  \<^item> The number of a float rounded by \<open>round\<close> is that of the real number; ties go to the even neighbour.
  \<^item> A MAC address is its six bytes; the texts of the exceptions leave out the values they quote.
\<close>

unbundle bit_operations_syntax

type_synonym bytes = "8 word list"

section \<open>Packing\<close>

fun le_bytes :: "nat \<Rightarrow> int \<Rightarrow> bytes" where
  "le_bytes 0 v = []"
| "le_bytes (Suc n) v = word_of_int v # le_bytes n (v div 256)"

fun from_le :: "bytes \<Rightarrow> int" where
  "from_le [] = 0"
| "from_le (b # bs) = uint b + 256 * from_le bs"

definition pack_unsigned :: "nat \<Rightarrow> int \<Rightarrow> py_exn + bytes" where
  "pack_unsigned n v = (if 0 \<le> v \<and> v < 256 ^ n then Inr (le_bytes n v) else Inl PyStructError)"

definition pack_signed :: "nat \<Rightarrow> int \<Rightarrow> py_exn + bytes" where
  "pack_signed n v = (if - (256 ^ n div 2) \<le> v \<and> v < 256 ^ n div 2 then Inr (le_bytes n v) else Inl PyStructError)"

fun pack_all :: "(py_exn + bytes) list \<Rightarrow> py_exn + bytes" where
  "pack_all [] = Inr []"
| "pack_all (p # ps) = py_bind p (\<lambda>b. py_bind (pack_all ps) (\<lambda>bs. Inr (b @ bs)))"

text \<open>Network byte order.\<close>

definition pack_be16 :: "int \<Rightarrow> py_exn + bytes" where
  "pack_be16 v = py_bind (pack_unsigned 2 v) (\<lambda>b. Inr (rev b))"

section \<open>Process data of an axis\<close>

record axis_pdo =
  pd_axis_id :: string
  pd_slave_position :: int
  pd_controlword :: int
  pd_mode :: int
  pd_target_position :: int
  pd_target_velocity :: int
  pd_statusword :: int
  pd_mode_display :: int
  pd_actual_position :: int
  pd_actual_velocity :: int
  pd_following_error :: int
  pd_error_code :: int

definition request_bytes :: "axis_pdo \<Rightarrow> py_exn + bytes" where
  "request_bytes p = py_bind
     (pack_all [pack_unsigned 2 (pd_controlword p), pack_signed 1 (pd_mode p), pack_signed 4 (pd_target_position p),
        pack_signed 4 (pd_target_velocity p)]) (\<lambda>b. Inr (b @ replicate 17 0))"

definition response_bytes :: "axis_pdo \<Rightarrow> py_exn + bytes" where
  "response_bytes p =
     pack_all [pack_unsigned 2 (pd_controlword p), pack_signed 1 (pd_mode p), pack_signed 4 (pd_target_position p),
       pack_signed 4 (pd_target_velocity p), pack_unsigned 2 (pd_statusword p), pack_signed 1 (pd_mode_display p),
       pack_signed 4 (pd_actual_position p), pack_signed 4 (pd_actual_velocity p), pack_signed 4 (pd_following_error p),
       pack_unsigned 2 (pd_error_code p)]"

definition build_process_image :: "axis_pdo list \<Rightarrow> bool \<Rightarrow> py_exn + bytes" where
  "build_process_image axes response =
     (if axes = [] then Inl (PyValueError ''At least one axis PDO is required'')
      else pack_all (map (if response then response_bytes else request_bytes) axes))"

definition expected_lrw_working_counter :: "int \<Rightarrow> py_exn + int" where
  "expected_lrw_working_counter slave_count =
     (if slave_count < 0 then Inl (PyValueError ''slave_count cannot be negative'') else Inr (slave_count * 3))"

definition round_even :: "real \<Rightarrow> int" where
  "round_even x = (let n = \<lfloor>x\<rfloor>; r = x - of_int n
     in if r < 1 / 2 then n else if 1 / 2 < r then n + 1 else if even n then n else n + 1)"

definition counts :: "real \<Rightarrow> int" where
  "counts x = round_even (x * 1000000)"

definition axis_pdo_from_values :: "string \<Rightarrow> int \<Rightarrow> real \<Rightarrow> real \<Rightarrow> real \<Rightarrow> real \<Rightarrow> string \<Rightarrow> axis_pdo" where
  "axis_pdo_from_values axis_id slave_position command_position actual_position velocity following_error machine_state =
     (let drive_fault = (machine_state = ''faulted'');
          status0 = (if drive_fault then 0x0008 else 0x0027);
          status1 = (if \<not> drive_fault \<and> \<bar>following_error\<bar> \<le> 25 / 1000 \<and> \<bar>velocity\<bar> \<le> 8 / 100 then status0 OR 1024 else status0);
          status2 = (if 15 / 100 < \<bar>following_error\<bar> then status1 OR 128 else status1)
      in \<lparr>pd_axis_id = axis_id, pd_slave_position = slave_position, pd_controlword = (if drive_fault then 0 else 0x000F),
          pd_mode = 8, pd_target_position = counts command_position, pd_target_velocity = 0, pd_statusword = status2,
          pd_mode_display = 8, pd_actual_position = counts actual_position, pd_actual_velocity = counts velocity,
          pd_following_error = counts following_error, pd_error_code = 0\<rparr>)"

section \<open>Datagrams and frames\<close>

record datagram =
  dg_command :: int
  dg_index :: int
  dg_logical_address :: int
  dg_data :: bytes
  dg_working_counter :: int
  dg_irq :: int
  dg_circulating :: bool
  dg_has_next :: bool

definition datagram_bytes :: "datagram \<Rightarrow> py_exn + bytes" where
  "datagram_bytes d =
     (if 0x7FF < length (dg_data d) then Inl (PyValueError ''EtherCAT datagram data exceeds 11-bit length field'')
      else let flags = int (length (dg_data d)) OR (if dg_circulating d then 16384 else 0) OR (if dg_has_next d then 32768 else 0)
           in pack_all [pack_unsigned 1 (dg_command d), pack_unsigned 1 (dg_index d), pack_unsigned 4 (dg_logical_address d),
                pack_unsigned 2 flags, pack_unsigned 2 (dg_irq d), Inr (dg_data d), pack_unsigned 2 (dg_working_counter d)])"

text \<open>The two addresses of a frame, as bytes.\<close>

definition master_mac :: bytes where
  "master_mac = [0x02, 0x00, 0x00, 0x00, 0xec, 0x01]"

definition broadcast_mac :: bytes where
  "broadcast_mac = replicate 6 0xff"

definition logical_process_image :: int where
  "logical_process_image = 0x00001000"

definition lrw_datagram :: "bytes \<Rightarrow> int \<Rightarrow> int \<Rightarrow> int \<Rightarrow> datagram" where
  "lrw_datagram process_data index working_counter address =
     \<lparr>dg_command = 0x0C, dg_index = index AND 255, dg_logical_address = address, dg_data = process_data,
      dg_working_counter = working_counter, dg_irq = 0, dg_circulating = False, dg_has_next = False\<rparr>"

definition pad_frame :: "bytes \<Rightarrow> bytes" where
  "pad_frame frame = (if length frame < 60 then frame @ replicate (60 - length frame) 0 else frame)"

definition build_frame :: "bytes \<Rightarrow> int \<Rightarrow> int \<Rightarrow> int \<Rightarrow> bytes \<Rightarrow> bytes \<Rightarrow> py_exn + bytes" where
  "build_frame process_data index working_counter address source destination =
     py_bind (datagram_bytes (lrw_datagram process_data index working_counter address)) (\<lambda>datagram.
     if 0x7FF < length datagram then Inl (PyValueError ''EtherCAT command payload exceeds 11-bit frame length field'')
     else py_bind (pack_unsigned 2 (int (length datagram) OR push_bit 12 1)) (\<lambda>frame_header.
          py_bind (pack_be16 0x88A4) (\<lambda>ether_type.
            Inr (pad_frame (destination @ source @ ether_type @ frame_header @ datagram)))))"

record parsed_frame =
  pf_destination :: bytes
  pf_source :: bytes
  pf_ether_type :: int
  pf_frame_type :: int
  pf_payload_length :: int
  pf_command :: int
  pf_index :: int
  pf_logical_address :: int
  pf_data_length :: int
  pf_circulating :: bool
  pf_has_next :: bool
  pf_irq :: int
  pf_working_counter :: int
  pf_data :: bytes

text \<open>\<open>frame[i:j]\<close>, and \<open>unpack_from\<close> of one integer of \<open>n\<close> bytes.\<close>

definition slice :: "nat \<Rightarrow> nat \<Rightarrow> bytes \<Rightarrow> bytes" where
  "slice i j bs = take (j - i) (drop i bs)"

definition unpack :: "nat \<Rightarrow> nat \<Rightarrow> bytes \<Rightarrow> py_exn + int" where
  "unpack n i bs = (if i + n \<le> length bs then Inr (from_le (slice i (i + n) bs)) else Inl PyStructError)"

definition parse_frame :: "bytes \<Rightarrow> py_exn + parsed_frame" where
  "parse_frame frame =
     (if length frame < 28 then Inl (PyValueError ''Frame is too short to contain EtherCAT LRW data'')
      else let ether_type = from_le (rev (slice 12 14 frame))
      in if ether_type \<noteq> 0x88A4 then Inl (PyValueError ''Unexpected EtherType'')
         else py_bind (unpack 2 14 frame) (\<lambda>raw_header.
         let frame_length = nat (raw_header AND 0x07FF); datagram_end = 16 + frame_length
         in if length frame < datagram_end then Inl (PyValueError ''EtherCAT frame length exceeds captured bytes'')
            else py_bind (unpack 1 16 frame) (\<lambda>command. py_bind (unpack 1 17 frame) (\<lambda>index.
                 py_bind (unpack 4 18 frame) (\<lambda>address. py_bind (unpack 2 22 frame) (\<lambda>flags. py_bind (unpack 2 24 frame) (\<lambda>irq.
                 let data_length = nat (flags AND 0x07FF); data_end = 26 + data_length
                 in if datagram_end < data_end + 2 then Inl (PyValueError ''EtherCAT datagram length is inconsistent with frame length'')
                    else py_bind (unpack 2 data_end frame) (\<lambda>working_counter.
                      Inr \<lparr>pf_destination = slice 0 6 frame, pf_source = slice 6 12 frame, pf_ether_type = ether_type,
                           pf_frame_type = drop_bit 12 raw_header AND 15, pf_payload_length = int frame_length, pf_command = command,
                           pf_index = index, pf_logical_address = address, pf_data_length = int data_length,
                           pf_circulating = bit flags 14, pf_has_next = bit flags 15, pf_irq = irq,
                           pf_working_counter = working_counter, pf_data = slice 26 data_end frame\<rparr>))))))))"

end
