(* ===== verification/Capture.thy ===== *)
theory Capture
  imports EtherCat
begin

text \<open>
  The offline network of an experiment (\<open>src/research/vsmc_research/network.py\<close>): the exchange of a cycle, a request
  and its response, with the rows it records and the capture file it writes.

  \<^item> The file is the list of its bytes; a number of the generator is drawn by \<open>random\<close>, a deviation by \<open>gauss\<close>.
  \<^item> A row keeps the fields that depend on the exchange; the constants (protocol, addresses, names of assets) and the
    context copied from the caller (experiment, episode, machine state, step, cycle, part) are left out.
  \<^item> \<open>values\<close> gives the readings of the axes by name; a name that is missing is a \<open>PyKeyError\<close>.
\<close>

section \<open>The capture file\<close>

definition pcap_pad :: "bytes \<Rightarrow> bytes" where
  "pcap_pad data = data @ replicate ((4 - length data mod 4) mod 4) 0"

definition pcap_block :: "int \<Rightarrow> bytes \<Rightarrow> bytes \<Rightarrow> py_exn + bytes" where
  "pcap_block block_type body file =
     (let padded = pcap_pad body; total_length = int (12 + length padded)
      in pack_all [Inr file, pack_unsigned 4 block_type, pack_unsigned 4 total_length, Inr padded, pack_unsigned 4 total_length])"

definition write_section_header :: "bytes \<Rightarrow> py_exn + bytes" where
  "write_section_header file =
     py_bind (pack_all [pack_unsigned 4 0x1A2B3C4D, pack_unsigned 2 1, pack_unsigned 2 0, pack_signed 8 (- 1)]) (\<lambda>body.
       pcap_block 0x0A0D0D0A body file)"

definition write_interface_description :: "bytes \<Rightarrow> py_exn + bytes" where
  "write_interface_description file =
     py_bind (pack_all [pack_unsigned 2 1, pack_unsigned 2 0, pack_unsigned 4 65535,
       pack_unsigned 2 9, pack_unsigned 2 1, Inr [9, 0, 0, 0], pack_unsigned 2 0, pack_unsigned 2 0]) (\<lambda>body.
       pcap_block 1 body file)"

definition new_capture :: "py_exn + bytes" where
  "new_capture = py_bind (write_section_header []) write_interface_description"

definition write_capture :: "bytes \<Rightarrow> int \<Rightarrow> bytes \<Rightarrow> py_exn + bytes" where
  "write_capture frame timestamp file =
     (let high = drop_bit 32 timestamp AND 0xFFFFFFFF; low = timestamp AND 0xFFFFFFFF
      in py_bind (pack_all [pack_unsigned 4 0, pack_unsigned 4 high, pack_unsigned 4 low, pack_unsigned 4 (int (length frame)),
           pack_unsigned 4 (int (length frame)), Inr frame]) (\<lambda>body. pcap_block 6 body file))"

section \<open>The network\<close>

datatype direction = MasterToSegment | SegmentToMaster

record packet_row =
  pk_packet_id :: string
  pk_message_id :: string
  pk_simulation_time :: int
  pk_capture_time :: int
  pk_direction :: direction
  pk_index :: int
  pk_working_counter :: int
  pk_expected_wkc :: int
  pk_valid :: bool
  pk_frame_length :: nat
  pk_duplicate :: bool
  pk_latency :: real

record message_row =
  ms_message_id :: string
  ms_simulation_time :: int
  ms_sequence :: nat
  ms_index :: int
  ms_latency :: real
  ms_dropped :: bool
  ms_duplicated :: bool
  ms_received :: bool
  ms_expected_wkc :: int
  ms_actual_wkc :: "int option"
  ms_valid :: bool
  ms_slave_count :: nat
  ms_payload_length :: nat

record pdo_row =
  pr_message_id :: string
  pr_simulation_time :: int
  pr_index :: int
  pr_received :: bool
  pr_valid :: bool
  pr_axis :: axis_pdo

record 'r network =
  nw_rng :: 'r
  nw_file :: bytes
  nw_sequence :: nat
  nw_packets :: "packet_row list"
  nw_messages :: "message_row list"
  nw_pdos :: "pdo_row list"

definition new_network :: "'r \<Rightarrow> py_exn + 'r network" where
  "new_network rng = py_bind new_capture (\<lambda>file.
     Inr \<lparr>nw_rng = rng, nw_file = file, nw_sequence = 0, nw_packets = [], nw_messages = [], nw_pdos = []\<rparr>)"

definition write_packet ::
  "bytes \<Rightarrow> int \<Rightarrow> string \<Rightarrow> string \<Rightarrow> int \<Rightarrow> direction \<Rightarrow> int \<Rightarrow> int \<Rightarrow> int \<Rightarrow> bool \<Rightarrow> real \<Rightarrow> 'r network \<Rightarrow> (py_exn + unit) \<times> 'r network" where
  "write_packet frame timestamp exchange_id packet_id simulation_time direction index wkc expected duplicate latency nw =
     (case write_capture frame timestamp (nw_file nw) of
        Inl e \<Rightarrow> (Inl e, nw)
      | Inr file \<Rightarrow> (Inr (), nw\<lparr>nw_file := file, nw_packets := nw_packets nw @
          [\<lparr>pk_packet_id = packet_id, pk_message_id = exchange_id, pk_simulation_time = simulation_time,
            pk_capture_time = timestamp, pk_direction = direction, pk_index = index, pk_working_counter = wkc,
            pk_expected_wkc = expected, pk_valid = (direction = MasterToSegment \<or> wkc = expected),
            pk_frame_length = length frame, pk_duplicate = duplicate, pk_latency = latency\<rparr>]\<rparr>))"

fun write_copies ::
  "nat \<Rightarrow> nat \<Rightarrow> bytes \<Rightarrow> int \<Rightarrow> string \<Rightarrow> int \<Rightarrow> int \<Rightarrow> int \<Rightarrow> int \<Rightarrow> real \<Rightarrow> 'r network \<Rightarrow> (py_exn + unit) \<times> 'r network" where
  "write_copies 0 k frame timestamp exchange_id simulation_time index wkc expected latency nw = (Inr (), nw)"
| "write_copies (Suc n) k frame timestamp exchange_id simulation_time index wkc expected latency nw =
     (case write_packet frame (timestamp + int k * 100000) exchange_id (exchange_id @ ''-RX-'' @ show_nat (k + 1)) simulation_time
         SegmentToMaster index wkc expected (0 < k) latency nw of
        (Inl e, nw') \<Rightarrow> (Inl e, nw')
      | (Inr _, nw') \<Rightarrow> write_copies n (k + 1) frame timestamp exchange_id simulation_time index wkc expected latency nw')"

section \<open>The exchange of a cycle\<close>

definition exchange_name :: "string \<Rightarrow> nat \<Rightarrow> string" where
  "exchange_name episode_id n = episode_id @ ''-ECAT-'' @ pad_left 8 (CHR ''0'') (show_nat n)"

definition axis_of :: "(string \<Rightarrow> real option) \<Rightarrow> string \<Rightarrow> string \<Rightarrow> int \<Rightarrow> py_exn + axis_pdo" where
  "axis_of readings machine_state axis slave =
     (let value = (\<lambda>k. case readings (axis @ k) of None \<Rightarrow> Inl (PyKeyError (axis @ k)) | Some x \<Rightarrow> Inr x)
      in py_bind (value ''_command_position'') (\<lambda>command_position.
         py_bind (value ''_actual_position'') (\<lambda>actual_position.
         py_bind (value ''_velocity'') (\<lambda>velocity.
         py_bind (value ''_following_error'') (\<lambda>following_error.
           Inr (axis_pdo_from_values axis slave command_position actual_position velocity following_error machine_state))))))"

definition exchange_data :: "(string \<Rightarrow> real option) \<Rightarrow> string \<Rightarrow> py_exn + axis_pdo list \<times> bytes \<times> bytes \<times> int" where
  "exchange_data readings machine_state =
     py_bind (axis_of readings machine_state ''x'' 1) (\<lambda>x.
     py_bind (axis_of readings machine_state ''y'' 2) (\<lambda>y.
     py_bind (build_process_image [x, y] False) (\<lambda>request.
     py_bind (build_process_image [x, y] True) (\<lambda>response.
     py_bind (expected_lrw_working_counter 2) (\<lambda>expected. Inr ([x, y], request, response, expected))))))"

definition lrw_frame :: "bytes \<Rightarrow> int \<Rightarrow> int \<Rightarrow> py_exn + bytes" where
  "lrw_frame process_data index wkc = build_frame process_data index wkc logical_process_image master_mac broadcast_mac"

text \<open>The packets of an exchange, its message and the process data of its axes, in the order they are recorded.\<close>

definition record_exchange ::
  "string \<Rightarrow> int \<Rightarrow> int \<Rightarrow> int \<Rightarrow> nat \<Rightarrow> int \<Rightarrow> real \<Rightarrow> bool \<Rightarrow> bool \<Rightarrow> int \<Rightarrow> int \<Rightarrow> bytes \<Rightarrow> bytes
    \<Rightarrow> axis_pdo list \<Rightarrow> nat \<Rightarrow> 'r network \<Rightarrow> (py_exn + unit) \<times> 'r network" where
  "record_exchange exchange_id simulation_time request_time response_time n index latency dropped duplicated expected actual
      request_frame response_frame axes payload nw2 =
     (case write_packet request_frame request_time exchange_id (exchange_id @ ''-TX'') simulation_time
         MasterToSegment index 0 expected False 0 nw2 of
        (Inl e, nw3) \<Rightarrow> (Inl e, nw3)
      | (Inr _, nw3) \<Rightarrow>
        (case write_copies (if dropped then 0 else if duplicated then 2 else 1) 0 response_frame response_time
            exchange_id simulation_time index actual expected latency nw3 of
           (Inl e, nw4) \<Rightarrow> (Inl e, nw4)
         | (Inr _, nw4) \<Rightarrow>
           let valid = (\<not> dropped \<and> actual = expected)
           in (Inr (), nw4
               \<lparr>nw_messages := nw_messages nw4 @
                  [\<lparr>ms_message_id = exchange_id, ms_simulation_time = simulation_time, ms_sequence = n, ms_index = index,
                    ms_latency = latency, ms_dropped = dropped, ms_duplicated = duplicated, ms_received = (\<not> dropped),
                    ms_expected_wkc = expected, ms_actual_wkc = (if dropped then None else Some actual),
                    ms_valid = valid, ms_slave_count = length axes, ms_payload_length = payload\<rparr>],
                nw_pdos := nw_pdos nw4 @ map (\<lambda>axis.
                  \<lparr>pr_message_id = exchange_id, pr_simulation_time = simulation_time, pr_index = index,
                   pr_received = (\<not> dropped), pr_valid = valid, pr_axis = axis\<rparr>) axes\<rparr>)))"

definition exchange ::
  "('r \<Rightarrow> real \<times> 'r) \<Rightarrow> (real \<Rightarrow> 'r \<Rightarrow> real \<times> 'r) \<Rightarrow> string \<Rightarrow> int \<Rightarrow> real \<Rightarrow> string \<Rightarrow> (string \<Rightarrow> real option)
    \<Rightarrow> network_condition \<Rightarrow> 'r network \<Rightarrow> (py_exn + unit) \<times> 'r network" where
  "exchange random gauss episode_id simulation_time wall_time machine_state readings condition nw0 =
     (let n = nw_sequence nw0 + 1;
          index = int n AND 255;
          (u, r1) = random (nw_rng nw0);
          dropped = u < nc_loss condition;
          (v, r2) = random r1;
          duplicated = v < nc_duplicate condition;
          (deviation, r3) = gauss (nc_jitter condition) r2;
          latency = max 0 (nc_delay condition + deviation);
          nw1 = nw0\<lparr>nw_sequence := n, nw_rng := r3\<rparr>
      in case exchange_data readings machine_state of
           Inl e \<Rightarrow> (Inl e, nw1)
         | Inr (axes, request, response, expected) \<Rightarrow>
           let (w, r4) = (if dropped then (1, r3) else random r3);
               mismatch = (\<not> dropped \<and> w < nc_mismatch condition);
               actual = (if mismatch then max 0 (expected - 3) else expected);
               nw2 = nw1\<lparr>nw_rng := r4\<rparr>
           in case py_bind (lrw_frame request index 0) (\<lambda>f. py_bind (lrw_frame response index actual) (\<lambda>g. Inr (f, g))) of
                Inl e \<Rightarrow> (Inl e, nw2)
              | Inr (request_frame, response_frame) \<Rightarrow>
                record_exchange (exchange_name episode_id n) simulation_time (nanoseconds wall_time)
                  (nanoseconds (wall_time + latency / 1000)) n index latency dropped duplicated expected actual
                  request_frame response_frame axes (length response) nw2)"

end
