(* ===== verification/EtherCatLaws.thy ===== *)
theory EtherCatLaws
  imports EtherCat
begin

text \<open>
  A frame of the research plane parses to what it was built from, and what the two functions refuse.
  Integers and bytes first, then the fields of a frame at their offsets, then the round trip.
\<close>

section \<open>Integers as bytes\<close>

lemma length_le_bytes [simp]: "length (le_bytes n v) = n"
  by (induction n v rule: le_bytes.induct) simp_all

lemma uint_byte: "uint (word_of_int v :: 8 word) = v mod 256"
  by (simp add: unsigned_of_int take_bit_eq_mod)

lemma from_le_bytes [simp]: "from_le (le_bytes n v) = v mod 256 ^ n"
proof (induction n v rule: le_bytes.induct)
  case (2 n v)
  then show ?case by (simp add: uint_byte zmod_zmult2_eq)
qed simp

text \<open>A number of eleven bits, and the type that a frame header holds above it.\<close>

lemma header_fields:
  assumes "0 \<le> x" and "x < 2048"
  shows "(x OR push_bit 12 1) AND 2047 = x" "drop_bit 12 (x OR push_bit 12 1) AND 15 = (1::int)"
    "0 \<le> x OR push_bit 12 1" "x OR push_bit 12 1 < 65536"
proof -
  have m: "(2047::int) = mask 11" "(15::int) = mask 4" by (simp_all add: mask_eq_exp_minus_1)
  have t: "take_bit 11 x = x" using assms by (simp add: take_bit_int_eq_self_iff)
  have "drop_bit 12 x = 0" using assms by (simp add: drop_bit_eq_div)
  then show "(x OR push_bit 12 1) AND 2047 = x" "drop_bit 12 (x OR push_bit 12 1) AND 15 = (1::int)"
    unfolding m take_bit_eq_mask [symmetric] using t by (simp_all add: take_bit_or drop_bit_or take_bit_push_bit)
  show "0 \<le> x OR push_bit 12 1" using assms by simp
  show "x OR push_bit 12 1 < 65536" using OR_upper [of x 16 "push_bit 12 1"] assms by (simp add: push_bit_eq_mult)
qed

lemma length_flags:
  assumes "0 \<le> x" and "x < 2048"
  shows "x AND 2047 = (x::int)" "\<not> bit x 14" "\<not> bit x 15"
proof -
  have m: "(2047::int) = mask 11" by (simp add: mask_eq_exp_minus_1)
  show "x AND 2047 = x" unfolding m take_bit_eq_mask [symmetric] using assms by (simp add: take_bit_int_eq_self_iff)
  show "\<not> bit x 14" "\<not> bit x 15" using assms by (simp_all add: bit_iff_odd)
qed

lemma byte_mask: "0 \<le> x AND 255" "x AND 255 < (256::int)"
proof -
  have m: "(255::int) = mask 8" by (simp add: mask_eq_exp_minus_1)
  show "0 \<le> x AND 255" "x AND 255 < (256::int)"
    unfolding m take_bit_eq_mask [symmetric] by (simp_all add: take_bit_eq_mod)
qed

section \<open>Building\<close>

lemma pack_unsigned_ok: "0 \<le> v \<Longrightarrow> v < 256 ^ n \<Longrightarrow> pack_unsigned n v = Inr (le_bytes n v)"
  by (simp add: pack_unsigned_def)

definition lrw_bytes :: "bytes \<Rightarrow> int \<Rightarrow> int \<Rightarrow> int \<Rightarrow> bytes" where
  "lrw_bytes data i wkc address =
     le_bytes 1 12 @ le_bytes 1 (i AND 255) @ le_bytes 4 address @ le_bytes 2 (int (length data)) @ le_bytes 2 0 @ data
     @ le_bytes 2 wkc"

lemma length_lrw_bytes [simp]: "length (lrw_bytes data i wkc address) = 12 + length data"
  by (simp add: lrw_bytes_def)

definition frame_bytes :: "bytes \<Rightarrow> int \<Rightarrow> int \<Rightarrow> int \<Rightarrow> bytes \<Rightarrow> bytes \<Rightarrow> bytes" where
  "frame_bytes data i wkc address source destination =
     destination @ source @ rev (le_bytes 2 0x88A4) @ le_bytes 2 (int (12 + length data) OR push_bit 12 1)
     @ lrw_bytes data i wkc address"

definition frame_fits :: "bytes \<Rightarrow> int \<Rightarrow> int \<Rightarrow> bool" where
  "frame_fits data wkc address \<longleftrightarrow>
     length data \<le> 2035 \<and> 0 \<le> wkc \<and> wkc < 65536 \<and> 0 \<le> address \<and> address < 2 ^ 32"

lemma datagram_built:
  assumes "frame_fits data wkc address"
  shows "datagram_bytes (lrw_datagram data i wkc address) = Inr (lrw_bytes data i wkc address)"
  using assms byte_mask [of i]
  by (simp add: frame_fits_def datagram_bytes_def lrw_datagram_def lrw_bytes_def pack_unsigned_ok Let_def)

lemma frame_built:
  assumes "frame_fits data wkc address"
  shows "build_frame data i wkc address source destination
    = Inr (pad_frame (frame_bytes data i wkc address source destination))"
proof -
  have "int (12 + length data) < 2048" using assms by (simp add: frame_fits_def)
  from header_fields(3,4) [OF _ this] have "pack_unsigned 2 (int (12 + length data) OR push_bit 12 1)
      = Inr (le_bytes 2 (int (12 + length data) OR push_bit 12 1))"
    by (intro pack_unsigned_ok) simp_all
  moreover have "pack_be16 0x88A4 = Inr (rev (le_bytes 2 0x88A4))" by (simp add: pack_be16_def pack_unsigned_ok)
  ultimately show ?thesis
    using assms by (simp add: build_frame_def datagram_built [OF assms] frame_fits_def frame_bytes_def del: of_nat_add)
qed

section \<open>The round trip\<close>

lemma padded: "\<exists>k. pad_frame f = f @ replicate k 0"
  by (cases "length f < 60") (auto simp: pad_frame_def intro: exI [of _ 0])

lemma unpack_at:
  assumes "f = pre @ le_bytes n v @ post" and "length pre = i"
  shows "unpack n i f = Inr (v mod 256 ^ n)"
  using assms by (simp add: unpack_def slice_def)

lemma parse_fields:
  assumes "28 + n \<le> length f" and "from_le (rev (slice 12 14 f)) = 0x88A4" and "unpack 2 14 f = Inr h"
    and "h AND 2047 = 12 + int n" and "drop_bit 12 h AND 15 = 1" and "unpack 1 16 f = Inr c" and "unpack 1 17 f = Inr i"
    and "unpack 4 18 f = Inr address" and "unpack 2 22 f = Inr (int n)" and "unpack 2 24 f = Inr irq"
    and "int n < 2048" and "unpack 2 (26 + n) f = Inr wkc"
  shows "parse_frame f = Inr
    \<lparr>pf_destination = slice 0 6 f, pf_source = slice 6 12 f, pf_ether_type = 0x88A4, pf_frame_type = 1,
     pf_payload_length = 12 + int n, pf_command = c, pf_index = i, pf_logical_address = address,
     pf_data_length = int n, pf_circulating = False, pf_has_next = False, pf_irq = irq,
     pf_working_counter = wkc, pf_data = slice 26 (26 + n) f\<rparr>"
proof -
  have "nat (12 + int n) = 12 + n" by simp
  with assms length_flags [of "int n"] show ?thesis
    unfolding parse_frame_def by (simp add: Let_def del: One_nat_def)
qed

lemma frame_parsed:
  assumes "frame_fits data wkc address" and "length source = 6" and "length destination = 6"
  shows "parse_frame (frame_bytes data i wkc address source destination @ replicate k 0) = Inr
    \<lparr>pf_destination = destination, pf_source = source, pf_ether_type = 0x88A4, pf_frame_type = 1,
     pf_payload_length = 12 + int (length data), pf_command = 12, pf_index = i AND 255, pf_logical_address = address,
     pf_data_length = int (length data), pf_circulating = False, pf_has_next = False, pf_irq = 0,
     pf_working_counter = wkc, pf_data = data\<rparr>"
proof -
  let ?f = "frame_bytes data i wkc address source destination @ replicate k 0"
  let ?h = "int (12 + length data) OR push_bit 12 1" and ?z = "replicate k (0 :: 8 word)"
  let ?pre = "destination @ source @ rev (le_bytes 2 0x88A4)"
  have fits: "length data \<le> 2035" "0 \<le> wkc" "wkc < 65536" "0 \<le> address" "address < 2 ^ 32"
    using assms(1) by (simp_all add: frame_fits_def)
  have n: "int (12 + length data) < 2048" "int (length data) < 2048" using fits by simp_all
  note h = header_fields [OF _ n(1), simplified]
  have len: "28 + length data \<le> length ?f" using assms by (simp add: frame_bytes_def)
  have et: "from_le (rev (slice 12 14 ?f)) = 0x88A4" using assms by (simp add: frame_bytes_def slice_def)
  have u1: "unpack 2 14 ?f = Inr (?h mod 256 ^ 2)"
    by (rule unpack_at [where pre = ?pre]) (simp_all add: frame_bytes_def assms)
  have u2: "unpack 1 16 ?f = Inr (12 mod 256 ^ 1)"
    by (rule unpack_at [where pre = "?pre @ le_bytes 2 ?h"]) (simp_all add: frame_bytes_def lrw_bytes_def assms)
  have u3: "unpack 1 17 ?f = Inr ((i AND 255) mod 256 ^ 1)"
    by (rule unpack_at [where pre = "?pre @ le_bytes 2 ?h @ le_bytes 1 12"]) (simp_all add: frame_bytes_def lrw_bytes_def assms)
  have u4: "unpack 4 18 ?f = Inr (address mod 256 ^ 4)"
    by (rule unpack_at [where pre = "?pre @ le_bytes 2 ?h @ le_bytes 1 12 @ le_bytes 1 (i AND 255)"])
      (simp_all add: frame_bytes_def lrw_bytes_def assms)
  have u5: "unpack 2 22 ?f = Inr (int (length data) mod 256 ^ 2)"
    by (rule unpack_at [where pre = "?pre @ le_bytes 2 ?h @ le_bytes 1 12 @ le_bytes 1 (i AND 255) @ le_bytes 4 address"])
      (simp_all add: frame_bytes_def lrw_bytes_def assms)
  let ?pre = "?pre @ le_bytes 2 ?h @ le_bytes 1 12 @ le_bytes 1 (i AND 255) @ le_bytes 4 address @ le_bytes 2 (int (length data))"
  have u6: "unpack 2 24 ?f = Inr (0 mod 256 ^ 2)"
    by (rule unpack_at [where pre = "?pre"]) (simp_all add: frame_bytes_def lrw_bytes_def assms)
  have u7: "unpack 2 (26 + length data) ?f = Inr (wkc mod 256 ^ 2)"
    by (rule unpack_at [where pre = "?pre @ le_bytes 2 0 @ data"]) (simp_all add: frame_bytes_def lrw_bytes_def assms)
  have sl: "slice 26 (26 + length data) ?f = data" "slice 0 6 ?f = destination" "slice 6 12 ?f = source"
    by (simp_all add: slice_def frame_bytes_def lrw_bytes_def assms)
  have mods: "?h mod 256 ^ 2 = ?h" "(i AND 255) mod 256 ^ 1 = i AND 255" "address mod 256 ^ 4 = address"
    "int (length data) mod 256 ^ 2 = int (length data)" "wkc mod 256 ^ 2 = wkc" "12 mod 256 ^ 1 = (12::int)" "0 mod 256 ^ 2 = (0::int)"
    using h byte_mask [of i] fits by simp_all
  have "h AND 2047 = 12 + int (length data)" "drop_bit 12 h AND 15 = 1" if "h = ?h" for h
    using that header_fields(1,2) [OF _ n(1)] by simp_all
  from parse_fields [OF len et u1 [unfolded mods] this [OF refl] u2 [unfolded mods] u3 [unfolded mods] u4 [unfolded mods]
      u5 [unfolded mods] u6 [unfolded mods] n(2) u7 [unfolded mods]]
  show ?thesis by (simp only: sl)
qed

text \<open>
  C27. A process image that fits an EtherCAT frame (2035 bytes) is sent in a frame of at least 60 bytes that the parser
  reads back: the addresses, the frame type, the LRW command, the low byte of the index, the logical address, the
  data and the working counter are those it was built from, whether the frame was padded or not; a longer image is
  refused with an exception and never truncated.
\<close>

theorem ethercat_round_trip:
  assumes "0 \<le> wkc" and "wkc < 65536" and "0 \<le> address" and "address < 2 ^ 32"
    and "length source = 6" and "length destination = 6"
  shows "case build_frame data i wkc address source destination of
      Inr frame \<Rightarrow> length data \<le> 2035 \<and> 60 \<le> length frame \<and> parse_frame frame = Inr
        \<lparr>pf_destination = destination, pf_source = source, pf_ether_type = 0x88A4, pf_frame_type = 1,
         pf_payload_length = 12 + int (length data), pf_command = 12, pf_index = i AND 255, pf_logical_address = address,
         pf_data_length = int (length data), pf_circulating = False, pf_has_next = False, pf_irq = 0,
         pf_working_counter = wkc, pf_data = data\<rparr>
    | Inl e \<Rightarrow> 2035 < length data \<and> (\<exists>m. e = PyValueError m)"
proof (cases "length data \<le> 2035")
  case True
  then have fits: "frame_fits data wkc address" using assms by (simp add: frame_fits_def)
  let ?f = "pad_frame (frame_bytes data i wkc address source destination)"
  obtain k where "?f = frame_bytes data i wkc address source destination @ replicate k 0"
    using padded by blast
  note parsed = frame_parsed [OF fits assms(5,6), of i k, folded this]
  have "60 \<le> length ?f" by (simp add: pad_frame_def)
  with parsed show ?thesis
    unfolding frame_built [OF fits] sum.case using True by (intro conjI)
next
  case False
  have "\<exists>m. build_frame data i wkc address source destination = Inl (PyValueError m)"
  proof (cases "length data \<le> 2047")
    case True
    then have "datagram_bytes (lrw_datagram data i wkc address) = Inr (lrw_bytes data i wkc address)"
      using assms byte_mask [of i]
      by (simp add: datagram_bytes_def lrw_datagram_def lrw_bytes_def pack_unsigned_ok Let_def)
    then show ?thesis using False by (simp add: build_frame_def)
  qed (simp add: build_frame_def datagram_bytes_def lrw_datagram_def)
  then show ?thesis using False by auto
qed

lemma ethercat_round_trip_witness:
  "\<exists>frame pf. build_frame [1, 2, 3] 257 6 logical_process_image master_mac broadcast_mac = Inr frame
    \<and> parse_frame frame = Inr pf \<and> pf_index pf = 1 \<and> pf_data pf = [1, 2, 3] \<and> pf_working_counter pf = 6"
proof -
  have "\<exists>frame. build_frame [1, 2, 3] 257 6 logical_process_image master_mac broadcast_mac = Inr frame"
    by (subst frame_built) (simp_all add: frame_fits_def logical_process_image_def)
  then show ?thesis
    using ethercat_round_trip [of 6 logical_process_image master_mac broadcast_mac "[1, 2, 3]" 257]
    by (auto simp: logical_process_image_def master_mac_def broadcast_mac_def)
qed

end
