(* ===== verification/CaptureLaws.thy ===== *)
theory CaptureLaws
  imports Capture EtherCatLaws
begin

text \<open>
  The capture file of an experiment against the rows it records. A reader of the format (blocks with their length at
  both ends, packets with a capture time) is the specification: it recovers from the file one frame for each packet
  row, and the packet rows are those of the messages, exchange by exchange.
\<close>

section \<open>A reader of capture files\<close>

fun read_blocks :: "nat \<Rightarrow> bytes \<Rightarrow> (int \<times> bytes) list option" where
  "read_blocks 0 bs = (if bs = [] then Some [] else None)"
| "read_blocks (Suc n) bs =
     (if bs = [] then Some []
      else case unpack 4 0 bs of Inl _ \<Rightarrow> None | Inr block_type \<Rightarrow>
           (case unpack 4 4 bs of Inl _ \<Rightarrow> None | Inr whole \<Rightarrow>
             if 12 \<le> whole \<and> unpack 4 (nat whole - 4) bs = Inr whole
             then map_option (Cons (block_type, slice 8 (nat whole - 4) bs)) (read_blocks n (drop (nat whole) bs))
             else None))"

definition read_packet :: "bytes \<Rightarrow> (int \<times> bytes) option" where
  "read_packet body = (case (unpack 4 4 body, unpack 4 8 body, unpack 4 12 body) of
       (Inr high, Inr low, Inr captured) \<Rightarrow> Some (high * 2 ^ 32 + low, slice 20 (20 + nat captured) body)
     | _ \<Rightarrow> None)"

definition read_capture :: "bytes \<Rightarrow> (int \<times> bytes) option list option" where
  "read_capture file = map_option (\<lambda>blocks. map (read_packet \<circ> snd) (filter (\<lambda>(t, _). t = 6) blocks)) (read_blocks (length file) file)"

section \<open>Blocks\<close>

definition block_bytes :: "int \<Rightarrow> bytes \<Rightarrow> bytes" where
  "block_bytes block_type body =
     (let whole = int (12 + length (pcap_pad body))
      in le_bytes 4 block_type @ le_bytes 4 whole @ pcap_pad body @ le_bytes 4 whole)"

definition block_ok :: "int \<Rightarrow> bytes \<Rightarrow> bool" where
  "block_ok block_type body \<longleftrightarrow> 0 \<le> block_type \<and> block_type < 2 ^ 32 \<and> length body \<le> 2 ^ 20"

lemma length_pcap_pad: "length body \<le> length (pcap_pad body)" "length (pcap_pad body) \<le> length body + 3"
  by (simp_all add: pcap_pad_def)

lemma length_block_bytes: "length (block_bytes t body) = 12 + length (pcap_pad body)"
  by (simp add: block_bytes_def Let_def)

lemma block_written:
  assumes "block_ok t body"
  shows "pcap_block t body file = Inr (file @ block_bytes t body)"
  using assms length_pcap_pad(2) [of body]
  by (simp add: pcap_block_def block_bytes_def block_ok_def pack_unsigned_ok Let_def)

lemma block_read:
  assumes "block_ok t body"
  shows "read_blocks (Suc n) (block_bytes t body @ rest) = map_option (Cons (t, pcap_pad body)) (read_blocks n rest)"
proof -
  let ?bs = "block_bytes t body @ rest" and ?p = "pcap_pad body"
  let ?whole = "int (12 + length ?p)"
  have small: "?whole < 256 ^ 4" "0 \<le> t" "t < 256 ^ 4" using assms length_pcap_pad(2) [of body] by (simp_all add: block_ok_def)
  have u0: "unpack 4 0 ?bs = Inr t"
    using unpack_at [of ?bs "[]" 4 t "le_bytes 4 ?whole @ ?p @ le_bytes 4 ?whole @ rest"] small by (simp add: block_bytes_def Let_def)
  have u4: "unpack 4 4 ?bs = Inr ?whole"
    using unpack_at [of ?bs "le_bytes 4 t" 4 ?whole "?p @ le_bytes 4 ?whole @ rest"] small by (simp add: block_bytes_def Let_def)
  have ue: "unpack 4 (8 + length ?p) ?bs = Inr ?whole"
    using unpack_at [of ?bs "le_bytes 4 t @ le_bytes 4 ?whole @ ?p" 4 ?whole rest] small by (simp add: block_bytes_def Let_def)
  have body: "slice 8 (8 + length ?p) ?bs = ?p" by (simp add: slice_def block_bytes_def Let_def)
  have rest: "drop (12 + length ?p) ?bs = rest" by (simp add: length_block_bytes)
  have "?bs \<noteq> []" using length_block_bytes [of t body] by auto
  moreover have "nat ?whole - 4 = 8 + length ?p" "nat ?whole = 12 + length ?p" by simp_all
  ultimately show ?thesis
    unfolding read_blocks.simps(2) u0 u4 sum.case by (simp only: ue body rest) simp
qed

lemma blocks_read:
  assumes "\<And>t body. (t, body) \<in> set blocks \<Longrightarrow> block_ok t body" and "length blocks \<le> n"
  shows "read_blocks n (concat (map (\<lambda>(t, body). block_bytes t body) blocks)) = Some (map (\<lambda>(t, body). (t, pcap_pad body)) blocks)"
  using assms
proof (induction blocks arbitrary: n)
  case Nil
  then show ?case by (cases n) simp_all
next
  case (Cons b blocks)
  obtain t body where b: "b = (t, body)" by fastforce
  obtain m where n: "n = Suc m" "length blocks \<le> m" using Cons.prems(2) by (cases n) auto
  have "block_ok t body" using Cons.prems(1) b by simp
  with Cons.IH [OF Cons.prems(1) n(2)] show ?case
    by (simp add: b n(1) block_read del: read_blocks.simps)
qed

lemma blocks_no_longer_than_file:
  "length blocks \<le> length (concat (map (\<lambda>(t, body). block_bytes t body) blocks))"
  by (induction blocks) (auto simp: length_block_bytes)

section \<open>Packets\<close>

definition packet_body :: "int \<times> bytes \<Rightarrow> bytes" where
  "packet_body p = (let (timestamp, frame) = p
     in le_bytes 4 0 @ le_bytes 4 (drop_bit 32 timestamp) @ le_bytes 4 timestamp @ le_bytes 4 (int (length frame))
        @ le_bytes 4 (int (length frame)) @ frame)"

lemma le_bytes_mod: "le_bytes n (v mod 256 ^ n) = le_bytes n v"
proof (induction n v rule: le_bytes.induct)
  case (2 n v)
  have "(v mod 256 ^ Suc n) div 256 = (v div 256) mod 256 ^ n" by (simp add: zmod_zmult2_eq)
  moreover have "(word_of_int (v mod 256 ^ Suc n) :: 8 word) = word_of_int v"
    unfolding word_uint_eq_iff uint_byte by (simp add: mod_mod_cancel)
  ultimately show ?case using 2 by simp
qed simp

lemma low_word: "x AND 0xFFFFFFFF = x mod 256 ^ 4" for x :: int
proof -
  have "(0xFFFFFFFF :: int) = mask 32" by (simp add: mask_eq_exp_minus_1)
  then show ?thesis by (simp only: take_bit_eq_mask [symmetric] take_bit_eq_mod) simp
qed

lemma packet_ok: "length frame \<le> 65535 \<Longrightarrow> block_ok 6 (packet_body (timestamp, frame))"
  by (simp add: block_ok_def packet_body_def)

lemma packet_written:
  assumes "length frame \<le> 65535"
  shows "write_capture frame timestamp file = Inr (file @ block_bytes 6 (packet_body (timestamp, frame)))"
proof -
  have "pack_unsigned 4 (x AND 0xFFFFFFFF) = Inr (le_bytes 4 x)" for x
    unfolding low_word by (simp add: pack_unsigned_ok le_bytes_mod flip: le_bytes_mod [of 4 x, simplified])
  then have "pack_all [pack_unsigned 4 0, pack_unsigned 4 (drop_bit 32 timestamp AND 0xFFFFFFFF),
      pack_unsigned 4 (timestamp AND 0xFFFFFFFF), pack_unsigned 4 (int (length frame)),
      pack_unsigned 4 (int (length frame)), Inr frame] = Inr (packet_body (timestamp, frame))"
    using assms by (simp add: packet_body_def pack_unsigned_ok)
  then show ?thesis
    unfolding write_capture_def Let_def by (simp only: py_bind_simps block_written [OF packet_ok [OF assms]])
qed

lemma packet_read:
  assumes "length frame \<le> 65535"
  shows "read_packet (pcap_pad (packet_body (timestamp, frame))) = Some (timestamp mod 2 ^ 64, frame)"
proof -
  let ?n = "int (length frame)" and ?h = "drop_bit 32 timestamp"
  obtain pad where p: "pcap_pad (packet_body (timestamp, frame)) = packet_body (timestamp, frame) @ pad"
    by (simp add: pcap_pad_def)
  let ?b = "packet_body (timestamp, frame) @ pad"
  have u4: "unpack 4 4 ?b = Inr (?h mod 256 ^ 4)"
    by (rule unpack_at [where pre = "le_bytes 4 0"]) (simp_all add: packet_body_def)
  have u8: "unpack 4 8 ?b = Inr (timestamp mod 256 ^ 4)"
    by (rule unpack_at [where pre = "le_bytes 4 0 @ le_bytes 4 ?h"]) (simp_all add: packet_body_def)
  have u12: "unpack 4 12 ?b = Inr (?n mod 256 ^ 4)"
    by (rule unpack_at [where pre = "le_bytes 4 0 @ le_bytes 4 ?h @ le_bytes 4 timestamp"]) (simp_all add: packet_body_def)
  have body: "slice 20 (20 + nat (?n mod 256 ^ 4)) ?b = frame"
    using assms by (simp add: slice_def packet_body_def)
  have "?h mod 256 ^ 4 * 2 ^ 32 + timestamp mod 256 ^ 4 = timestamp mod 2 ^ 64"
    using zmod_zmult2_eq [of "2 ^ 32" timestamp "2 ^ 32"] by (simp add: drop_bit_eq_div)
  with body show ?thesis unfolding p read_packet_def u4 u8 u12 prod.case sum.case by (simp only:)
qed

section \<open>One exchange\<close>

definition packets_bytes :: "(int \<times> bytes) list \<Rightarrow> bytes" where
  "packets_bytes ps = concat (map (\<lambda>p. block_bytes 6 (packet_body p)) ps)"

lemma packets_bytes_simps [simp]:
  "packets_bytes [] = []" "packets_bytes (p # ps) = block_bytes 6 (packet_body p) @ packets_bytes ps"
  "packets_bytes (ps @ qs) = packets_bytes ps @ packets_bytes qs"
  by (simp_all add: packets_bytes_def)

definition packet_row_of :: "bytes \<Rightarrow> int \<Rightarrow> string \<Rightarrow> string \<Rightarrow> int \<Rightarrow> direction \<Rightarrow> int \<Rightarrow> int \<Rightarrow> int \<Rightarrow> bool \<Rightarrow> real \<Rightarrow> packet_row" where
  "packet_row_of frame timestamp exchange_id packet_id simulation_time direction i wkc expected duplicate latency =
     \<lparr>pk_packet_id = packet_id, pk_message_id = exchange_id, pk_simulation_time = simulation_time,
      pk_capture_time = timestamp, pk_direction = direction, pk_index = i, pk_working_counter = wkc,
      pk_expected_wkc = expected, pk_valid = (direction = MasterToSegment \<or> wkc = expected),
      pk_frame_length = length frame, pk_duplicate = duplicate, pk_latency = latency\<rparr>"

lemma write_packet_appends:
  assumes "length frame \<le> 65535"
  shows "write_packet frame timestamp exchange_id packet_id simulation_time dir i wkc expected duplicate latency nw =
    (Inr (), nw\<lparr>nw_file := nw_file nw @ packets_bytes [(timestamp, frame)], nw_packets := nw_packets nw @
      [packet_row_of frame timestamp exchange_id packet_id simulation_time dir i wkc expected duplicate latency]\<rparr>)"
  by (simp add: write_packet_def packet_written [OF assms] packet_row_of_def)

definition copy_rows :: "nat \<Rightarrow> nat \<Rightarrow> bytes \<Rightarrow> int \<Rightarrow> string \<Rightarrow> int \<Rightarrow> int \<Rightarrow> int \<Rightarrow> int \<Rightarrow> real \<Rightarrow> packet_row list" where
  "copy_rows n k frame timestamp exchange_id simulation_time i wkc expected latency = map (\<lambda>j.
     packet_row_of frame (timestamp + int j * 100000) exchange_id (exchange_id @ ''-RX-'' @ show_nat (j + 1)) simulation_time
       SegmentToMaster i wkc expected (0 < j) latency) [k..<k + n]"

lemma write_copies_appends:
  assumes "length frame \<le> 65535"
  shows "write_copies n k frame timestamp exchange_id simulation_time i wkc expected latency nw =
    (Inr (), nw\<lparr>nw_file := nw_file nw @ packets_bytes (map (\<lambda>j. (timestamp + int j * 100000, frame)) [k..<k + n]),
      nw_packets := nw_packets nw @ copy_rows n k frame timestamp exchange_id simulation_time i wkc expected latency\<rparr>)"
proof (induction n arbitrary: k nw)
  case 0
  then show ?case by (simp add: copy_rows_def)
next
  case (Suc n)
  have "[k..<k + Suc n] = [k] @ [k + 1..<k + 1 + n]" by (simp add: upt_conv_Cons)
  then show ?case
    by (simp add: write_packet_appends [OF assms] Suc.IH copy_rows_def del: upt_Suc)
qed

text \<open>The two process images of a gantry have 56 bytes, and their frames are always built.\<close>

lemma length_packed: "pack_all ps = Inr bs \<Longrightarrow> \<exists>bss. bs = concat bss \<and> ps = map Inr bss"
proof (induction ps arbitrary: bs)
  case (Cons p ps)
  then obtain b cs where "p = Inr b" "pack_all ps = Inr cs" "bs = b @ cs"
    by (cases p; cases "pack_all ps") auto
  with Cons.IH [of cs] show ?case by (auto intro: exI [of _ "b # _"])
qed (auto intro: exI [of _ "[]"])

lemma pack_length: "pack_unsigned n v = Inr b \<Longrightarrow> length b = n" "pack_signed n v = Inr b \<Longrightarrow> length b = n"
  by (auto simp: pack_unsigned_def pack_signed_def split: if_splits)

lemma image_lengths:
  "request_bytes p = Inr b \<Longrightarrow> length b = 28" "response_bytes p = Inr b \<Longrightarrow> length b = 28"
  by (auto simp: request_bytes_def response_bytes_def py_bind_def pack_length split: sum.splits)

lemma exchange_data_sizes:
  assumes "exchange_data readings machine_state = Inr (axes, request, response, expected)"
  shows "length axes = 2" "length request = 56" "length response = 56" "expected = 6"
  using assms
  by (auto simp: exchange_data_def build_process_image_def expected_lrw_working_counter_def py_bind_def image_lengths
      split: sum.splits)

definition frame_matches :: "bytes \<Rightarrow> packet_row \<Rightarrow> bool" where
  "frame_matches frame row \<longleftrightarrow> length frame = pk_frame_length row \<and> length frame \<le> 65535 \<and>
     (case parse_frame frame of Inl _ \<Rightarrow> False | Inr pf \<Rightarrow>
        pf_index pf = pk_index row \<and> pf_working_counter pf = pk_working_counter row \<and> pf_command pf = 12
        \<and> pf_logical_address pf = logical_process_image \<and> length (pf_data pf) = 56)"

lemma lrw_frame_built:
  assumes "length data = 56" and "0 \<le> wkc" and "wkc < 65536"
  shows "\<exists>frame. lrw_frame data (i AND 255) wkc = Inr frame \<and> length frame \<le> 65535 \<and>
    (\<forall>row. pk_index row = i AND 255 \<and> pk_working_counter row = wkc \<and> pk_frame_length row = length frame \<longrightarrow> frame_matches frame row)"
proof -
  let ?f = "frame_bytes data (i AND 255) wkc logical_process_image master_mac broadcast_mac"
  have fits: "frame_fits data wkc logical_process_image"
    using assms by (simp add: frame_fits_def logical_process_image_def)
  have macs: "length master_mac = 6" "length broadcast_mac = 6" by (simp_all add: master_mac_def broadcast_mac_def)
  have len: "length ?f = 84" using assms macs by (simp add: frame_bytes_def)
  have mask: "(i AND 255) AND 255 = i AND 255" by (simp only: and.assoc and.idem)
  have "lrw_frame data (i AND 255) wkc = Inr ?f"
    unfolding lrw_frame_def frame_built [OF fits] by (simp only: pad_frame_def len) simp
  moreover note parsed = frame_parsed [OF fits macs, of "i AND 255" 0, unfolded mask assms(1) replicate_0 append_Nil2]
  have "frame_matches ?f row" if "pk_index row = i AND 255" "pk_working_counter row = wkc" "pk_frame_length row = length ?f" for row
    unfolding frame_matches_def parsed using that len assms(1) by simp
  ultimately show ?thesis using len by (intro exI [of _ ?f] conjI allI impI) auto
qed

definition exchange_matches :: "message_row \<Rightarrow> packet_row list \<Rightarrow> bool" where
  "exchange_matches m rows \<longleftrightarrow> (case rows of [] \<Rightarrow> False | tx # rxs \<Rightarrow>
     pk_direction tx = MasterToSegment \<and> pk_working_counter tx = 0
     \<and> length rxs = (if ms_dropped m then 0 else if ms_duplicated m then 2 else 1)
     \<and> (\<forall>r\<in>set rows. pk_message_id r = ms_message_id m \<and> pk_index r = ms_index m)
     \<and> (\<forall>r\<in>set rxs. pk_direction r = SegmentToMaster \<and> ms_actual_wkc m = Some (pk_working_counter r) \<and> pk_valid r = ms_valid m))"

definition row_captured :: "int \<times> bytes \<Rightarrow> packet_row \<Rightarrow> bool" where
  "row_captured p row \<longleftrightarrow> fst p = pk_capture_time row \<and> frame_matches (snd p) row"

text \<open>The process data rows of a message: its axes, in order.\<close>

definition pdo_rows :: "message_row \<Rightarrow> axis_pdo list \<Rightarrow> pdo_row list" where
  "pdo_rows m axes = map (\<lambda>axis. \<lparr>pr_message_id = ms_message_id m, pr_simulation_time = ms_simulation_time m, pr_index = ms_index m,
     pr_received = ms_received m, pr_valid = ms_valid m, pr_axis = axis\<rparr>) axes"

text \<open>What an exchange leaves: nothing in the file and the rows when it throws, otherwise its packets and its message.\<close>

definition exchange_left :: "bool \<Rightarrow> int \<Rightarrow> axis_pdo list \<Rightarrow> 'r network \<Rightarrow> (py_exn + unit) \<times> 'r network \<Rightarrow> bool" where
  "exchange_left ok s axes nw r \<longleftrightarrow> (case r of
       (Inl _, nw') \<Rightarrow> \<not> ok \<and> nw_file nw' = nw_file nw \<and> nw_packets nw' = nw_packets nw \<and> nw_messages nw' = nw_messages nw
     | (Inr _, nw') \<Rightarrow> \<exists>m ps rows. nw_file nw' = nw_file nw @ packets_bytes ps \<and> nw_packets nw' = nw_packets nw @ rows
         \<and> nw_messages nw' = nw_messages nw @ [m] \<and> exchange_matches m rows
         \<and> list_all2 row_captured ps rows \<and> ms_simulation_time m = s \<and> nw_pdos nw' = nw_pdos nw @ pdo_rows m axes)"

lemma exchange_leftI:
  assumes "\<exists>nw'. r = (Inr (), nw') \<and> nw_file nw' = nw_file nw @ packets_bytes ps \<and> nw_packets nw' = nw_packets nw @ rows
      \<and> nw_messages nw' = nw_messages nw @ [m] \<and> nw_pdos nw' = nw_pdos nw @ pdo_rows m axes"
    and "exchange_matches m rows" and "list_all2 row_captured ps rows" and "ms_simulation_time m = s"
  shows "exchange_left ok s axes nw r"
  using assms unfolding exchange_left_def by fastforce

lemma rows_captured:
  assumes "\<And>row. pk_index row = i \<Longrightarrow> pk_working_counter row = 0 \<Longrightarrow> pk_frame_length row = length f \<Longrightarrow> frame_matches f row"
    and "\<And>row. pk_index row = i \<Longrightarrow> pk_working_counter row = a \<Longrightarrow> pk_frame_length row = length g \<Longrightarrow> frame_matches g row"
  shows "list_all2 row_captured ((t0, f) # map (\<lambda>j. (t + int j * 100000, g)) [0..<n])
    (packet_row_of f t0 exchange_id packet_id s MasterToSegment i 0 e d l # copy_rows n 0 g t exchange_id s i a e l')"
  using assms by (simp add: copy_rows_def packet_row_of_def row_captured_def list.rel_map list_all2_same)

lemma recorded:
  assumes "length f \<le> 65535" and "length g \<le> 65535"
    and "\<And>row. pk_index row = i \<Longrightarrow> pk_working_counter row = 0 \<Longrightarrow> pk_frame_length row = length f \<Longrightarrow> frame_matches f row"
    and "\<And>row. pk_index row = i \<Longrightarrow> pk_working_counter row = a \<Longrightarrow> pk_frame_length row = length g \<Longrightarrow> frame_matches g row"
    and "nw_file nw' = nw_file nw" and "nw_packets nw' = nw_packets nw" and "nw_messages nw' = nw_messages nw"
    and "nw_pdos nw' = nw_pdos nw"
  shows "exchange_left ok s axes nw
    (record_exchange exchange_id s t0 t n i latency dropped duplicated e a f g axes payload nw')"
proof -
  let ?n = "if dropped then 0 else if duplicated then 2 else 1 :: nat"
  let ?ps = "(t0, f) # map (\<lambda>j. (t + int j * 100000, g)) [0..<?n]"
  let ?rows = "packet_row_of f t0 exchange_id (exchange_id @ ''-TX'') s MasterToSegment i 0 e False 0
    # copy_rows ?n 0 g t exchange_id s i a e latency"
  let ?m = "\<lparr>ms_message_id = exchange_id, ms_simulation_time = s, ms_sequence = n, ms_index = i,
      ms_latency = latency, ms_dropped = dropped, ms_duplicated = duplicated, ms_received = (\<not> dropped),
      ms_expected_wkc = e, ms_actual_wkc = (if dropped then None else Some a),
      ms_valid = (\<not> dropped \<and> a = e), ms_slave_count = length axes, ms_payload_length = payload\<rparr>"
  have "list_all2 row_captured ?ps ?rows" using assms(3,4) by (rule rows_captured)
  moreover have "exchange_matches ?m ?rows"
    by (simp add: exchange_matches_def copy_rows_def packet_row_of_def)
  moreover have "\<exists>nw''. record_exchange exchange_id s t0 t n i latency dropped duplicated e a f g axes payload nw' = (Inr (), nw'')
      \<and> nw_file nw'' = nw_file nw @ packets_bytes ?ps \<and> nw_packets nw'' = nw_packets nw @ ?rows \<and> nw_messages nw'' = nw_messages nw @ [?m]
      \<and> nw_pdos nw'' = nw_pdos nw @ pdo_rows ?m axes"
    by (simp add: pdo_rows_def record_exchange_def assms write_packet_appends write_copies_appends Let_def del: upt_Suc)
  ultimately show ?thesis by (intro exchange_leftI [of _ nw ?ps ?rows ?m]) simp_all
qed

lemma exchange_outcome:
  "exchange_left (\<exists>d. exchange_data readings machine_state = Inr d) simulation_time
     (case exchange_data readings machine_state of Inl _ \<Rightarrow> [] | Inr (axes, _) \<Rightarrow> axes) nw
     (exchange random gauss episode_id simulation_time wall_time machine_state readings condition nw)"
proof (cases "exchange_data readings machine_state")
  case (Inl e)
  then show ?thesis by (simp add: exchange_def exchange_left_def Let_def split: prod.split)
next
  case (Inr d)
  obtain axes request response expected where d: "d = (axes, request, response, expected)" by (metis prod.exhaust)
  note sizes = exchange_data_sizes [OF Inr [unfolded d]]
  obtain u r1 where r1: "random (nw_rng nw) = (u, r1)" by fastforce
  obtain v r2 where r2: "random r1 = (v, r2)" by fastforce
  obtain deviation r3 where r3: "gauss (nc_jitter condition) r2 = (deviation, r3)" by fastforce
  let ?dropped = "u < nc_loss condition"
  obtain w r4 where r4: "(if ?dropped then (1, r3) else random r3) = (w, r4)" by fastforce
  let ?i = "int (nw_sequence nw + 1) AND 255"
  let ?actual = "if \<not> ?dropped \<and> w < nc_mismatch condition then max 0 (expected - 3) else expected"
  obtain f where f: "lrw_frame request ?i 0 = Inr f" "length f \<le> 65535" "\<And>row. pk_index row = ?i
      \<Longrightarrow> pk_working_counter row = 0 \<Longrightarrow> pk_frame_length row = length f \<Longrightarrow> frame_matches f row"
    using lrw_frame_built [OF sizes(2) order_refl, of "int (nw_sequence nw + 1)"] by auto
  have "0 \<le> ?actual" "?actual < 65536" by (simp_all add: sizes(4))
  then obtain g where g: "lrw_frame response ?i ?actual = Inr g" "length g \<le> 65535" "\<And>row. pk_index row = ?i
      \<Longrightarrow> pk_working_counter row = ?actual \<Longrightarrow> pk_frame_length row = length g \<Longrightarrow> frame_matches g row"
    using lrw_frame_built [OF sizes(3), of ?actual "int (nw_sequence nw + 1)"] by blast
  show ?thesis
    unfolding exchange_def Let_def Inr d sum.case prod.case r1 r2 r3 r4 f(1) g(1) py_bind_simps
    by (rule recorded [OF f(2) g(2) f(3) g(3)]) simp_all
qed

section \<open>A whole experiment\<close>

inductive network_run :: "('r \<Rightarrow> real \<times> 'r) \<Rightarrow> (real \<Rightarrow> 'r \<Rightarrow> real \<times> 'r) \<Rightarrow> 'r network \<Rightarrow> bool"
  for random :: "'r \<Rightarrow> real \<times> 'r" and gauss :: "real \<Rightarrow> 'r \<Rightarrow> real \<times> 'r" where
  network_start: "new_network rng = Inr nw \<Longrightarrow> network_run random gauss nw"
| network_exchange: "network_run random gauss nw
    \<Longrightarrow> exchange random gauss episode_id simulation_time wall_time machine_state readings condition nw = (r, nw')
    \<Longrightarrow> network_run random gauss nw'"

definition section_body :: bytes where
  "section_body = le_bytes 4 0x1A2B3C4D @ le_bytes 2 1 @ le_bytes 2 0 @ le_bytes 8 (- 1)"

definition interface_body :: bytes where
  "interface_body = le_bytes 2 1 @ le_bytes 2 0 @ le_bytes 4 65535 @ le_bytes 2 9 @ le_bytes 2 1 @ [9, 0, 0, 0] @ le_bytes 2 0 @ le_bytes 2 0"

definition capture_header :: "(int \<times> bytes) list" where
  "capture_header = [(0x0A0D0D0A, section_body), (1, interface_body)]"

definition blocks_bytes :: "(int \<times> bytes) list \<Rightarrow> bytes" where
  "blocks_bytes blocks = concat (map (\<lambda>(t, body). block_bytes t body) blocks)"

lemma header_ok: "(t, body) \<in> set capture_header \<Longrightarrow> block_ok t body"
  by (auto simp: capture_header_def block_ok_def section_body_def interface_body_def)

lemma new_capture_bytes: "new_capture = Inr (blocks_bytes capture_header)"
proof -
  have "pack_signed 8 (- 1) = Inr (le_bytes 8 (- 1))" by (simp add: pack_signed_def)
  then have "write_section_header f = pcap_block 0x0A0D0D0A section_body f"
    "write_interface_description f = pcap_block 1 interface_body f" for f
    by (simp_all add: write_section_header_def write_interface_description_def section_body_def interface_body_def pack_unsigned_ok)
  then show ?thesis
    using header_ok by (simp add: new_capture_def blocks_bytes_def capture_header_def block_written)
qed

definition network_ok :: "'r network \<Rightarrow> bool" where
  "network_ok nw \<longleftrightarrow> (\<exists>ps groups.
     nw_file nw = blocks_bytes capture_header @ packets_bytes ps \<and> list_all2 row_captured ps (nw_packets nw)
     \<and> nw_packets nw = concat groups \<and> list_all2 exchange_matches (nw_messages nw) groups)"

lemma network_ok_exchange:
  assumes "network_ok nw" and "exchange_left ok s axes nw (r, nw')"
  shows "network_ok nw'"
proof (cases r)
  case (Inl e)
  then show ?thesis using assms by (simp add: exchange_left_def network_ok_def)
next
  case (Inr u)
  then obtain m ps rows where new: "nw_file nw' = nw_file nw @ packets_bytes ps" "nw_packets nw' = nw_packets nw @ rows"
      "nw_messages nw' = nw_messages nw @ [m]" "exchange_matches m rows" "list_all2 row_captured ps rows"
    using assms(2) by (auto simp: exchange_left_def)
  obtain ps0 groups where old: "nw_file nw = blocks_bytes capture_header @ packets_bytes ps0"
      "list_all2 row_captured ps0 (nw_packets nw)" "nw_packets nw = concat groups" "list_all2 exchange_matches (nw_messages nw) groups"
    using assms(1) by (auto simp: network_ok_def)
  show ?thesis
    unfolding network_ok_def using new old
    by (intro exI [of _ "ps0 @ ps"] exI [of _ "groups @ [rows]"]) (auto intro: list_all2_appendI)
qed

lemma network_run_ok: "network_run random gauss nw \<Longrightarrow> network_ok nw"
proof (induction rule: network_run.induct)
  case (network_start rng nw)
  then show ?case
    by (auto simp: new_network_def new_capture_bytes network_ok_def intro!: exI [of _ "[]"])
next
  case (network_exchange nw episode_id simulation_time wall_time machine_state readings condition r nw')
  then show ?case
    using exchange_outcome [of readings machine_state simulation_time nw random gauss episode_id wall_time condition]
    by (simp add: network_ok_exchange)
qed

text \<open>The reader finds the packets behind the header.\<close>

lemma capture_read:
  assumes "\<And>p. p \<in> set ps \<Longrightarrow> length (snd p) \<le> 65535"
  shows "read_capture (blocks_bytes capture_header @ packets_bytes ps) = Some (map (\<lambda>(t, frame). Some (t mod 2 ^ 64, frame)) ps)"
proof -
  let ?blocks = "capture_header @ map (\<lambda>p. (6, packet_body p)) ps"
  have whole: "blocks_bytes capture_header @ packets_bytes ps = blocks_bytes ?blocks"
    by (simp add: blocks_bytes_def packets_bytes_def comp_def)
  have "block_ok t body" if "(t, body) \<in> set ?blocks" for t body
    using that header_ok assms by (auto simp: packet_ok split_paired_all)
  then have "read_blocks (length (blocks_bytes ?blocks)) (blocks_bytes ?blocks) = Some (map (\<lambda>(t, body). (t, pcap_pad body)) ?blocks)"
    unfolding blocks_bytes_def by (intro blocks_read blocks_no_longer_than_file)
  then show ?thesis
    unfolding whole read_capture_def using assms
    by (auto simp: capture_header_def comp_def filter_map packet_read split_beta)
qed

text \<open>
  C23. After any number of exchanges, also of ones that threw, the capture file and the recorded rows agree: a reader of the
  format recovers from the file exactly one frame for each packet row, in order, with its capture time (modulo 2^64), and the
  frame parses to the datagram index and working counter of the row; and the packet rows are those of the messages,
  exchange by exchange: one request and the number of responses that the message tells (none when dropped, two
  when duplicated), each with the message's index, working counter and validity.
\<close>

theorem capture_agrees:
  assumes "network_run random gauss nw"
  shows "\<exists>captured groups. read_capture (nw_file nw) = Some captured
    \<and> list_all2 (\<lambda>c row. \<exists>frame. c = Some (pk_capture_time row mod 2 ^ 64, frame) \<and> frame_matches frame row) captured (nw_packets nw)
    \<and> nw_packets nw = concat groups \<and> list_all2 exchange_matches (nw_messages nw) groups"
proof -
  obtain ps groups where ok: "nw_file nw = blocks_bytes capture_header @ packets_bytes ps"
      "list_all2 row_captured ps (nw_packets nw)" "nw_packets nw = concat groups" "list_all2 exchange_matches (nw_messages nw) groups"
    using network_run_ok [OF assms] by (auto simp: network_ok_def)
  have "length (snd p) \<le> 65535" if "p \<in> set ps" for p
    using that ok(2) by (auto simp: list_all2_conv_all_nth in_set_conv_nth row_captured_def frame_matches_def)
  from capture_read [OF this] have "read_capture (nw_file nw) = Some (map (\<lambda>(t, frame). Some (t mod 2 ^ 64, frame)) ps)"
    by (simp add: ok(1))
  moreover have "list_all2 (\<lambda>c row. \<exists>frame. c = Some (pk_capture_time row mod 2 ^ 64, frame) \<and> frame_matches frame row)
      (map (\<lambda>(t, frame). Some (t mod 2 ^ 64, frame)) ps) (nw_packets nw)"
    using ok(2) by (auto simp: list_all2_conv_all_nth row_captured_def split_beta)
  ultimately show ?thesis using ok(3,4) by blast
qed

section \<open>A concrete exchange\<close>

definition demo_readings :: "string \<Rightarrow> real option" where
  "demo_readings k = Some 0"

definition demo_condition :: network_condition where
  "demo_condition = \<lparr>nc_delay = 1, nc_jitter = 0, nc_loss = 0, nc_duplicate = 1, nc_mismatch = 0\<rparr>"

definition demo_random :: "nat \<Rightarrow> real \<times> nat" where
  "demo_random n = (1 / 2, n + 1)"

definition demo_gauss :: "real \<Rightarrow> nat \<Rightarrow> real \<times> nat" where
  "demo_gauss s n = (0, n + 1)"

lemma demo_data: "\<exists>d. exchange_data demo_readings ''running'' = Inr d"
  by (simp add: exchange_data_def axis_of_def demo_readings_def axis_pdo_from_values_def counts_def round_even_def
      build_process_image_def request_bytes_def response_bytes_def pack_unsigned_def pack_signed_def
      expected_lrw_working_counter_def Let_def)

lemma capture_agrees_witness:
  "\<exists>(nw :: nat network) m captured groups. nw_messages nw = [m] \<and> read_capture (nw_file nw) = Some captured
    \<and> length captured = length (nw_packets nw) \<and> nw_packets nw = concat groups \<and> list_all2 exchange_matches [m] groups"
proof -
  obtain nw0 :: "nat network" where nw0: "new_network 0 = Inr nw0"
    by (simp add: new_network_def new_capture_bytes)
  obtain r nw where ex: "exchange demo_random demo_gauss ''EP'' 0 1 ''running'' demo_readings demo_condition nw0 = (r, nw)"
    by fastforce
  have run: "network_run demo_random demo_gauss nw"
    using network_exchange [OF network_start [OF nw0] ex] .
  have "exchange_left True 0 (case exchange_data demo_readings ''running'' of Inl _ \<Rightarrow> [] | Inr (axes, _) \<Rightarrow> axes) nw0 (r, nw)"
    using exchange_outcome [of demo_readings "''running''" 0 nw0 demo_random demo_gauss "''EP''" 1 demo_condition] demo_data ex
    by simp
  then obtain m where "nw_messages nw = nw_messages nw0 @ [m]" by (auto simp: exchange_left_def split: sum.splits)
  moreover have "nw_messages nw0 = []" using nw0 by (auto simp: new_network_def new_capture_bytes)
  ultimately have m: "nw_messages nw = [m]" by simp
  from capture_agrees [OF run] show ?thesis using m by (auto dest: list_all2_lengthD)
qed

end
