(* ===== verification/Environment.thy ===== *)
theory Environment
  imports Research
begin

text \<open>
  The machine of an experiment, \<open>DynamicGantryEnvironment\<close> of \<open>src/research/vsmc_research/environment.py\<close>: orders and
  recipes of a manifest, arrivals of parts, two servo axes, the production sequence and the telemetry of a step.

  \<^item> A step that throws ends the experiment and its state is lost: \<open>py_exn + state\<close>.
  \<^item> The active order is shared with the list of orders; it is its index there.
  \<^item> \<open>random\<close> and \<open>expovariate\<close> draw from the state of the generator, which \<open>en_rng\<close> holds.
  \<^item> A value of the manifest that the code reads at each use is read once, at the start.
  \<^item> The wall-clock duration of a step and the messages of log entries are left out.
\<close>

section \<open>Recipes, orders, configuration\<close>

record product_recipe =
  pc_product_id :: string
  pc_payload :: real
  pc_pick :: "real \<times> real"
  pc_inspect :: "real \<times> real"
  pc_place :: "real \<times> real"
  pc_inspect_s :: real
  pc_changeover_s :: real
  pc_quality_threshold :: real

record env_order =
  eo_order_id :: string
  eo_product_id :: string
  eo_quantity :: int
  eo_priority :: int
  eo_due :: real
  eo_produced :: int

text \<open>\<open>v or fallback\<close>\<close>

definition py_truthy :: "json \<Rightarrow> bool" where
  "py_truthy v = (case v of
       JBool b \<Rightarrow> b | JNum x \<Rightarrow> x \<noteq> 0 | JStr s \<Rightarrow> s \<noteq> [] | JArr xs \<Rightarrow> xs \<noteq> [] | JObj kvs \<Rightarrow> kvs \<noteq> [] | _ \<Rightarrow> False)"

definition default_products :: "json list" where
  "default_products =
     [JObj [(''id'', JStr ''P1''), (''payload_kg'', JNum 1), (''inspect_s'', JNum (35 / 100))],
      JObj [(''id'', JStr ''P2''), (''payload_kg'', JNum (18 / 10)), (''inspect_s'', JNum (55 / 100))]]"

definition default_orders :: "json list" where
  "default_orders =
     [JObj [(''id'', JStr ''ORDER-P1''), (''product_id'', JStr ''P1''), (''quantity'', JNum 20), (''priority'', JNum 2)],
      JObj [(''id'', JStr ''ORDER-P2''), (''product_id'', JStr ''P2''), (''quantity'', JNum 15), (''priority'', JNum 1)]]"

definition items_or :: "json list \<Rightarrow> json \<Rightarrow> py_exn + json list" where
  "items_or fallback v = (if py_truthy v then py_iter v else Inr fallback)"

definition get_float :: "(string \<Rightarrow> string + real) \<Rightarrow> string \<Rightarrow> real \<Rightarrow> json \<Rightarrow> py_exn + real" where
  "get_float to_float k d v = py_bind (py_get k (JNum d) v) (py_float to_float)"

definition get_int :: "(string \<Rightarrow> string + int) \<Rightarrow> string \<Rightarrow> int \<Rightarrow> json \<Rightarrow> py_exn + int" where
  "get_int to_int k d v = py_bind (py_get k (JNum (of_int d)) v) (py_int to_int)"

definition build_recipe :: "(string \<Rightarrow> string + real) \<Rightarrow> (json \<Rightarrow> string) \<Rightarrow> nat \<times> json \<Rightarrow> py_exn + (string \<times> product_recipe)" where
  "build_recipe to_float str entry =
     (let (index, item) = entry; shift = 5 / 100 * real index
      in py_bind (py_item ''id'' item) (\<lambda>product.
         py_bind (get_float to_float ''payload_kg'' 1 item) (\<lambda>payload.
         py_bind (get_float to_float ''inspect_s'' (4 / 10) item) (\<lambda>inspect.
         py_bind (get_float to_float ''changeover_s'' (8 / 10) item) (\<lambda>changeover.
         py_bind (get_float to_float ''quality_threshold'' (94 / 100) item) (\<lambda>threshold.
           Inr (str product, \<lparr>pc_product_id = str product, pc_payload = payload, pc_pick = (75 / 100, 25 / 100 + shift),
             pc_inspect = (15 / 100, 85 / 100), pc_place = (- (65 / 100), 55 / 100 + shift), pc_inspect_s = inspect,
             pc_changeover_s = changeover, pc_quality_threshold = threshold\<rparr>)))))))"

text \<open>The dictionary of recipes: a later product of the same id replaces an earlier one.\<close>

definition build_recipes :: "(string \<Rightarrow> string + real) \<Rightarrow> (json \<Rightarrow> string) \<Rightarrow> json \<Rightarrow> py_exn + (string \<rightharpoonup> product_recipe)" where
  "build_recipes to_float str production =
     py_bind (py_bind (py_get ''products'' JNull production) (items_or default_products)) (\<lambda>raw.
     py_bind (py_map (build_recipe to_float str) (zip [0..<length raw] raw)) (\<lambda>recipes. Inr (map_of (rev recipes))))"

definition build_order ::
  "(string \<Rightarrow> string + real) \<Rightarrow> (string \<Rightarrow> string + int) \<Rightarrow> (json \<Rightarrow> string) \<Rightarrow> json \<Rightarrow> py_exn + env_order" where
  "build_order to_float to_int str item =
     py_bind (py_item ''id'' item) (\<lambda>i.
     py_bind (py_item ''product_id'' item) (\<lambda>product.
     py_bind (py_bind (py_item ''quantity'' item) (py_int to_int)) (\<lambda>quantity.
     py_bind (get_int to_int ''priority'' 1 item) (\<lambda>priority.
     py_bind (get_float to_float ''due_time_s'' (10 ^ 9) item) (\<lambda>due.
       Inr \<lparr>eo_order_id = str i, eo_product_id = str product, eo_quantity = quantity, eo_priority = priority,
            eo_due = due, eo_produced = 0\<rparr>)))))"

text \<open>Sorted by descending priority, then by due time; sorting twice, stably, is sorting by the pair.\<close>

definition build_orders ::
  "(string \<Rightarrow> string + real) \<Rightarrow> (string \<Rightarrow> string + int) \<Rightarrow> (json \<Rightarrow> string) \<Rightarrow> json \<Rightarrow> py_exn + env_order list" where
  "build_orders to_float to_int str production =
     py_bind (py_bind (py_get ''orders'' JNull production) (items_or default_orders)) (\<lambda>raw.
     py_bind (py_map (build_order to_float to_int str) raw) (\<lambda>orders.
       Inr (sort_key (\<lambda>order. - eo_priority order) (sort_key eo_due orders))))"

record env_config =
  cf_episode_id :: string
  cf_dt :: real
  cf_duration :: real
  cf_recipes :: "string \<rightharpoonup> product_recipe"
  cf_network_period :: real
  cf_maintenance_interval :: real
  cf_maintenance_duration :: real
  cf_mean_arrival :: real
  cf_capacity :: int

section \<open>State\<close>

datatype gantry_state =
    GS_Idle | GS_Changeover | GS_MoveToPick | GS_Pick | GS_MoveToInspect | GS_Inspect | GS_MoveToPlace | GS_Place
  | GS_Blocked | GS_Maintenance | GS_Faulted

fun gantry_state_name :: "gantry_state \<Rightarrow> string" where
  "gantry_state_name GS_Idle = ''idle''"
| "gantry_state_name GS_Changeover = ''changeover''"
| "gantry_state_name GS_MoveToPick = ''move_to_pick''"
| "gantry_state_name GS_Pick = ''pick''"
| "gantry_state_name GS_MoveToInspect = ''move_to_inspect''"
| "gantry_state_name GS_Inspect = ''inspect''"
| "gantry_state_name GS_MoveToPlace = ''move_to_place''"
| "gantry_state_name GS_Place = ''place''"
| "gantry_state_name GS_Blocked = ''blocked''"
| "gantry_state_name GS_Maintenance = ''maintenance''"
| "gantry_state_name GS_Faulted = ''faulted''"

record servo =
  sv_actual :: real
  sv_command :: real
  sv_velocity :: real
  sv_effort :: real
  sv_integral :: real
  sv_previous_error :: real
  sv_bias :: real

definition new_servo :: servo where
  "new_servo = \<lparr>sv_actual = 0, sv_command = 0, sv_velocity = 0, sv_effort = 0, sv_integral = 0, sv_previous_error = 0, sv_bias = 0\<rparr>"

definition servo_error :: "servo \<Rightarrow> real" where
  "servo_error a = sv_command a - (sv_actual a + sv_bias a)"

record env_part =
  pt_part_id :: string
  pt_product_id :: string
  pt_order_id :: string
  pt_arrival :: real
  pt_score :: "real option"

datatype env_what =
    OrderActivated string
  | PartArrived env_part nat
  | StateChanged gantry_state gantry_state
  | MaintenanceStarted
  | MaintenanceCompleted
  | CycleStarted string
  | RecipeChanged string
  | PartPicked
  | InspectionCompleted real
  | CycleCompleted bool string nat nat

record env_event =
  ee_what :: env_what
  ee_time :: int
  ee_state :: gantry_state
  ee_cycle_id :: "string option"
  ee_part_id :: "string option"

record env_log =
  el_code :: string
  el_severity :: string
  el_time :: int
  el_state :: gantry_state
  el_cycle_id :: "string option"

record 'r env =
  en_rng :: 'r
  en_time :: real
  en_step_index :: nat
  en_state :: gantry_state
  en_elapsed :: real
  en_x :: servo
  en_y :: servo
  en_queue :: "env_part list"
  en_output :: nat
  en_rework :: nat
  en_part :: "env_part option"
  en_cycle_id :: "string option"
  en_cycles :: nat
  en_good :: nat
  en_rejected :: nat
  en_failed_picks :: nat
  en_last_product :: "string option"
  en_active :: "nat option"
  en_orders :: "env_order list"
  en_next_arrival :: real
  en_arrivals :: nat
  en_next_publish :: real
  en_next_maintenance :: real
  en_maintenance_left :: real
  en_events :: "env_event list"
  en_logs :: "env_log list"

definition new_environment ::
  "(string \<Rightarrow> string + real) \<Rightarrow> (string \<Rightarrow> string + int) \<Rightarrow> (json \<Rightarrow> string) \<Rightarrow> json \<Rightarrow> 'r \<Rightarrow> string \<Rightarrow> py_exn + (env_config \<times> 'r env)" where
  "new_environment to_float to_int str manifest rng episode_id =
     py_bind (py_item ''environment'' manifest) (\<lambda>environment.
     py_bind (get_float to_float ''dt_ms'' 20 environment) (\<lambda>dt_ms.
     py_bind (get_float to_float ''duration_s'' 60 environment) (\<lambda>duration.
     py_bind (py_get ''production'' (JObj []) manifest) (\<lambda>production.
     py_bind (build_orders to_float to_int str production) (\<lambda>orders.
     py_bind (build_recipes to_float str production) (\<lambda>recipes.
     py_bind (py_get ''network'' (JObj []) manifest) (\<lambda>network.
     py_bind (py_get ''publish_period_ms'' (JNum 100) network) (\<lambda>publish.
     py_bind (py_bind (py_get ''cycle_period_ms'' publish network) (py_float to_float)) (\<lambda>period_ms.
     py_bind (get_float to_float ''maintenance_interval_s'' (10 ^ 12) production) (\<lambda>interval.
     py_bind (get_float to_float ''maintenance_duration_s'' 3 production) (\<lambda>maintenance.
     py_bind (get_float to_float ''mean_arrival_interval_s'' (8 / 10) production) (\<lambda>mean.
     py_bind (get_int to_int ''input_buffer_capacity'' 12 production) (\<lambda>capacity.
       Inr (\<lparr>cf_episode_id = episode_id, cf_dt = dt_ms / 1000, cf_duration = duration, cf_recipes = recipes,
             cf_network_period = period_ms / 1000, cf_maintenance_interval = interval, cf_maintenance_duration = maintenance,
             cf_mean_arrival = mean, cf_capacity = capacity\<rparr>,
            \<lparr>en_rng = rng, en_time = 0, en_step_index = 0, en_state = GS_Idle, en_elapsed = 0, en_x = new_servo, en_y = new_servo,
             en_queue = [], en_output = 0, en_rework = 0, en_part = None, en_cycle_id = None, en_cycles = 0, en_good = 0,
             en_rejected = 0, en_failed_picks = 0, en_last_product = None, en_active = None, en_orders = orders,
             en_next_arrival = 0, en_arrivals = 0, en_next_publish = 0, en_next_maintenance = interval, en_maintenance_left = 0,
             en_events = [], en_logs = []\<rparr>))))))))))))))"

section \<open>Events, orders, arrivals\<close>

definition add_env_event :: "env_what \<Rightarrow> 'r env \<Rightarrow> 'r env" where
  "add_env_event what e = e\<lparr>en_events := en_events e @
     [\<lparr>ee_what = what, ee_time = nanoseconds (en_time e), ee_state = en_state e, ee_cycle_id = en_cycle_id e,
       ee_part_id = (case what of PartArrived part _ \<Rightarrow> Some (pt_part_id part) | _ \<Rightarrow> map_option pt_part_id (en_part e))\<rparr>]\<rparr>"

definition add_env_log :: "string \<Rightarrow> string \<Rightarrow> 'r env \<Rightarrow> 'r env" where
  "add_env_log severity code e = e\<lparr>en_logs := en_logs e @
     [\<lparr>el_code = code, el_severity = severity, el_time = nanoseconds (en_time e), el_state = en_state e, el_cycle_id = en_cycle_id e\<rparr>]\<rparr>"

definition order_needs :: "env_order \<Rightarrow> bool" where
  "order_needs order \<longleftrightarrow> eo_produced order < eo_quantity order"

definition first_needing :: "env_order list \<Rightarrow> nat option" where
  "first_needing orders = (case filter (\<lambda>i. order_needs (orders ! i)) [0..<length orders] of [] \<Rightarrow> None | i # _ \<Rightarrow> Some i)"

definition select_order :: "'r env \<Rightarrow> 'r env" where
  "select_order e =
     (if (case en_active e of None \<Rightarrow> False | Some i \<Rightarrow> order_needs (en_orders e ! i)) then e
      else let active = first_needing (en_orders e); e1 = e\<lparr>en_active := active\<rparr>
           in case active of None \<Rightarrow> e1 | Some i \<Rightarrow> add_env_event (OrderActivated (eo_order_id (en_orders e ! i))) e1)"

definition pad5 :: "nat \<Rightarrow> string" where
  "pad5 n = pad_left 5 (CHR ''0'') (show_nat n)"

definition arrive :: "env_config \<Rightarrow> env_order \<Rightarrow> 'r env \<Rightarrow> 'r env" where
  "arrive cf order e =
     (if int (length (en_queue e)) < cf_capacity cf
      then let n = en_arrivals e + 1;
               part = \<lparr>pt_part_id = cf_episode_id cf @ ''-PART-'' @ pad5 n, pt_product_id = eo_product_id order,
                       pt_order_id = eo_order_id order, pt_arrival = en_time e, pt_score = None\<rparr>;
               queue = en_queue e @ [part]
           in add_env_event (PartArrived part (length queue)) (e\<lparr>en_arrivals := n, en_queue := queue\<rparr>)
      else e)"

lemma arrivals_time: "en_time (add_env_event w e) = en_time e" "en_time (select_order e) = en_time e" "en_time (arrive cf p e) = en_time e"
  "en_next_arrival (add_env_event w e) = en_next_arrival e" "en_next_arrival (select_order e) = en_next_arrival e"
  "en_next_arrival (arrive cf p e) = en_next_arrival e"
  by (simp_all add: add_env_event_def select_order_def arrive_def Let_def split: option.splits)

function arrivals_loop :: "(real \<Rightarrow> 'r \<Rightarrow> real \<times> 'r) \<Rightarrow> env_config \<Rightarrow> 'r env \<Rightarrow> py_exn + 'r env" where
  "arrivals_loop expovariate cf e =
     (if en_time e < en_next_arrival e then Inr e
      else let e1 = select_order e
           in case en_active e1 of
                None \<Rightarrow> Inr e1
              | Some i \<Rightarrow>
                  let e2 = arrive cf (en_orders e1 ! i) e1
                  in if cf_mean_arrival cf = 0 then Inl PyZeroDivisionError
                     else let (x, r) = expovariate (1 / cf_mean_arrival cf) (en_rng e2)
                          in arrivals_loop expovariate cf
                               (e2\<lparr>en_rng := r, en_next_arrival := en_next_arrival e2 + max (15 / 100) x\<rparr>))"
  by pat_completeness auto

text \<open>Every pass moves the next arrival on by at least 0.15 s, so the loop ends.\<close>

termination
proof (relation "measure (\<lambda>(_, cf, e). nat \<lceil>(en_time e - en_next_arrival e) / (15 / 100) + 1\<rceil>)", goal_cases)
  case (2 expovariate cf e e1 i e2 p x r)
  then have time: "en_time e2 = en_time e" "en_next_arrival e2 = en_next_arrival e"
    by (simp_all add: arrivals_time)
  let ?d = "(en_time e - en_next_arrival e) / (15 / 100)"
  have "(en_time e - (en_next_arrival e + max (15 / 100) x)) / (15 / 100) \<le> ?d - 1" by (simp add: field_simps)
  then have "(en_time e - (en_next_arrival e + max (15 / 100) x)) / (15 / 100) + 1 \<le> ?d" by linarith
  then have "\<lceil>(en_time e - (en_next_arrival e + max (15 / 100) x)) / (15 / 100) + 1\<rceil> \<le> \<lceil>?d\<rceil>" by (rule ceiling_mono)
  moreover have "0 \<le> ?d" using 2 by simp
  then have "\<lceil>?d\<rceil> < \<lceil>?d + 1\<rceil>" "0 < \<lceil>?d + 1\<rceil>" by simp_all
  ultimately show ?case using time by simp
qed simp

declare arrivals_loop.simps [simp del]

definition generate_arrivals :: "(real \<Rightarrow> 'r \<Rightarrow> real \<times> 'r) \<Rightarrow> env_config \<Rightarrow> 'r env \<Rightarrow> py_exn + 'r env" where
  "generate_arrivals expovariate cf e = arrivals_loop expovariate cf e"

section \<open>Axes\<close>

definition set_gantry_state :: "gantry_state \<Rightarrow> 'r env \<Rightarrow> 'r env" where
  "set_gantry_state state e =
     (if state = en_state e then e
      else add_env_event (StateChanged (en_state e) state) (e\<lparr>en_state := state, en_elapsed := 0\<rparr>))"

definition recipe_of :: "env_config \<Rightarrow> env_part \<Rightarrow> py_exn + product_recipe" where
  "recipe_of cf part = (case cf_recipes cf (pt_product_id part) of
       None \<Rightarrow> Inl (PyKeyError (pt_product_id part)) | Some recipe \<Rightarrow> Inr recipe)"

definition gantry_target :: "env_config \<Rightarrow> 'r env \<Rightarrow> py_exn + (real \<times> real)" where
  "gantry_target cf e = (case en_part e of
       None \<Rightarrow> Inr (0, 0)
     | Some part \<Rightarrow> py_bind (recipe_of cf part) (\<lambda>recipe. Inr (
         if en_state e = GS_MoveToPick then pc_pick recipe
         else if en_state e = GS_MoveToInspect then pc_inspect recipe
         else if en_state e = GS_MoveToPlace then pc_place recipe
         else (sv_command (en_x e), sv_command (en_y e)))))"

definition servo_effort :: "real \<Rightarrow> real \<Rightarrow> real \<Rightarrow> real \<Rightarrow> servo \<Rightarrow> real" where
  "servo_effort dt error integral authority a =
     (let derivative = (error - sv_previous_error a) / dt
      in max (- 8) (min 8 (12 * error + 12 / 10 * integral + 6 / 10 * derivative)) * authority)"

definition servo_mass :: "real \<Rightarrow> real" where
  "servo_mass payload = 1 + payload * (35 / 100)"

definition servo_velocity :: "real \<Rightarrow> real \<Rightarrow> real \<Rightarrow> real \<Rightarrow> servo \<Rightarrow> real" where
  "servo_velocity dt effort payload friction a =
     (let damping = 16 / 10 + friction * 2;
          acceleration = (effort - damping * sv_velocity a - friction * tanh (sv_velocity a * 20)) / servo_mass payload
      in sv_velocity a + acceleration * dt)"

definition update_servo :: "real \<Rightarrow> real \<Rightarrow> real \<Rightarrow> real \<Rightarrow> real \<Rightarrow> servo \<Rightarrow> py_exn + servo" where
  "update_servo dt target payload friction authority a =
     (let measured = sv_actual a + sv_bias a;
          error = target - measured;
          integral = max (- 2) (min 2 (sv_integral a + error * dt));
          effort = servo_effort dt error integral authority a;
          velocity = servo_velocity dt effort payload friction a
      in if dt = 0 \<or> servo_mass payload = 0 then Inl PyZeroDivisionError
         else Inr (a\<lparr>sv_command := target, sv_integral := integral, sv_velocity := velocity,
           sv_actual := sv_actual a + velocity * dt, sv_effort := effort, sv_previous_error := error\<rparr>))"

definition servo_settled :: "servo \<Rightarrow> bool" where
  "servo_settled a \<longleftrightarrow> \<bar>servo_error a\<bar> < 25 / 1000 \<and> \<bar>sv_velocity a\<bar> < 8 / 100"

definition at_target :: "'r env \<Rightarrow> bool" where
  "at_target e \<longleftrightarrow> servo_settled (en_x e) \<and> servo_settled (en_y e)"

section \<open>The production sequence\<close>

definition finish_cycle :: "bool \<Rightarrow> string \<Rightarrow> 'r env \<Rightarrow> 'r env" where
  "finish_cycle good reason e = (case en_part e of
       None \<Rightarrow> e
     | Some part \<Rightarrow>
       let e1 = e\<lparr>en_cycles := en_cycles e + 1\<rparr>;
           e2 = (if good then e1\<lparr>en_good := en_good e1 + 1, en_output := en_output e1 + 1\<rparr>
                 else e1\<lparr>en_rejected := en_rejected e1 + 1, en_rework := en_rework e1 + 1\<rparr>);
           e3 = (case en_active e2 of
                   None \<Rightarrow> e2
                 | Some i \<Rightarrow> e2\<lparr>en_orders := (en_orders e2)[i := (en_orders e2 ! i)\<lparr>eo_produced := eo_produced (en_orders e2 ! i) + 1\<rparr>]\<rparr>);
           e4 = add_env_event (CycleCompleted good reason (en_output e3) (en_rework e3)) e3
       in set_gantry_state GS_Idle (e4\<lparr>en_part := None, en_cycle_id := None\<rparr>))"

definition maintenance_step :: "env_config \<Rightarrow> 'r env \<Rightarrow> 'r env" where
  "maintenance_step cf e =
     (let e1 = set_gantry_state GS_Maintenance (e\<lparr>en_maintenance_left := en_maintenance_left e - cf_dt cf\<rparr>)
      in if en_maintenance_left e1 \<le> 0
         then let e2 = add_env_event MaintenanceCompleted e1
              in set_gantry_state GS_Idle (e2\<lparr>en_next_maintenance := en_next_maintenance e2 + cf_maintenance_interval cf\<rparr>)
         else e1)"

definition maintenance_start :: "env_config \<Rightarrow> 'r env \<Rightarrow> 'r env" where
  "maintenance_start cf e =
     set_gantry_state GS_Maintenance (add_env_event MaintenanceStarted (e\<lparr>en_maintenance_left := cf_maintenance_duration cf\<rparr>))"

definition start_cycle :: "env_config \<Rightarrow> 'r env \<Rightarrow> 'r env" where
  "start_cycle cf e = (case en_queue e of
       [] \<Rightarrow> e
     | part # queue \<Rightarrow>
       let e1 = e\<lparr>en_queue := queue, en_part := Some part,
             en_cycle_id := Some (cf_episode_id cf @ ''-CYCLE-'' @ pad5 (en_cycles e + 1))\<rparr>;
           e2 = set_gantry_state (if en_last_product e1 \<noteq> Some (pt_product_id part) then GS_Changeover else GS_MoveToPick) e1
       in add_env_event (CycleStarted (pt_order_id part)) e2)"

definition pick_done :: "machine_effects \<Rightarrow> 'r env \<Rightarrow> 'r env" where
  "pick_done effects e =
     (if me_failed_pick effects
      then finish_cycle False ''failed_pick''
        (add_env_log ''warning'' ''PICK_FAILED'' (e\<lparr>en_failed_picks := en_failed_picks e + 1, en_rework := en_rework e + 1\<rparr>))
      else set_gantry_state GS_MoveToInspect (add_env_event PartPicked e))"

definition inspection_done :: "('r \<Rightarrow> real \<times> 'r) \<Rightarrow> env_part \<Rightarrow> 'r env \<Rightarrow> 'r env" where
  "inspection_done random part e =
     (let position_error = \<bar>servo_error (en_x e)\<bar> + \<bar>servo_error (en_y e)\<bar>;
          (u, r) = random (en_rng e);
          score = max 0 (1 - position_error * 3 - u * (2 / 100));
          e1 = e\<lparr>en_rng := r, en_part := Some (part\<lparr>pt_score := Some score\<rparr>)\<rparr>
      in set_gantry_state GS_MoveToPlace (add_env_event (InspectionCompleted score) e1))"

definition work_part :: "('r \<Rightarrow> real \<times> 'r) \<Rightarrow> machine_effects \<Rightarrow> env_part \<Rightarrow> product_recipe \<Rightarrow> 'r env \<Rightarrow> 'r env" where
  "work_part random effects part recipe e =
     (if en_state e = GS_Changeover \<and> pc_changeover_s recipe \<le> en_elapsed e
      then set_gantry_state GS_MoveToPick
        (add_env_event (RecipeChanged (pc_product_id recipe)) (e\<lparr>en_last_product := Some (pc_product_id recipe)\<rparr>))
      else if en_state e = GS_MoveToPick \<and> at_target e then set_gantry_state GS_Pick e
      else if en_state e = GS_Pick \<and> 25 / 100 \<le> en_elapsed e then pick_done effects e
      else if en_state e = GS_MoveToInspect \<and> at_target e then set_gantry_state GS_Inspect e
      else if en_state e = GS_Inspect \<and> pc_inspect_s recipe \<le> en_elapsed e then inspection_done random part e
      else if en_state e = GS_MoveToPlace \<and> at_target e then set_gantry_state GS_Place e
      else if en_state e = GS_Place \<and> 25 / 100 \<le> en_elapsed e
      then finish_cycle (pc_quality_threshold recipe \<le> (case pt_score part of None \<Rightarrow> 0 | Some s \<Rightarrow> s)) ''quality'' e
      else e)"

definition advance_sequence :: "('r \<Rightarrow> real \<times> 'r) \<Rightarrow> env_config \<Rightarrow> machine_effects \<Rightarrow> 'r env \<Rightarrow> py_exn + 'r env" where
  "advance_sequence random cf effects e =
     (if 0 < en_maintenance_left e then Inr (maintenance_step cf e)
      else if en_next_maintenance e \<le> en_time e \<and> en_state e = GS_Idle then Inr (maintenance_start cf e)
      else if en_state e = GS_Idle then Inr (start_cycle cf e)
      else case en_part e of
             None \<Rightarrow> Inr e
           | Some part \<Rightarrow> py_bind (recipe_of cf part) (\<lambda>recipe. Inr (work_part random effects part recipe e)))"

section \<open>A step\<close>

record telemetry_row =
  tl_time :: int
  tl_step_index :: nat
  tl_state :: gantry_state
  tl_cycle_id :: "string option"
  tl_part :: "env_part option"
  tl_input_queue :: nat
  tl_output :: nat
  tl_rework :: nat
  tl_cycles :: nat
  tl_good :: nat
  tl_rejected :: nat
  tl_payload :: real
  tl_x :: servo
  tl_y :: servo
  tl_max_following_error :: real

record step_output =
  so_telemetry :: telemetry_row
  so_events :: "env_event list"
  so_logs :: "env_log list"
  so_publish_due :: bool
  so_states :: "scenario_state list"

definition payload_of :: "env_config \<Rightarrow> 'r env \<Rightarrow> py_exn + real" where
  "payload_of cf e = (case en_part e of
       None \<Rightarrow> Inr 0 | Some part \<Rightarrow> py_bind (recipe_of cf part) (\<lambda>recipe. Inr (pc_payload recipe)))"

definition move_axes :: "env_config \<Rightarrow> machine_effects \<Rightarrow> real \<Rightarrow> 'r env \<Rightarrow> py_exn + 'r env" where
  "move_axes cf effects payload e =
     py_bind (gantry_target cf e) (\<lambda>(tx, ty).
     py_bind (update_servo (cf_dt cf) tx payload (me_x_friction effects) (me_drive_authority effects)
       ((en_x e)\<lparr>sv_bias := me_x_sensor_bias effects\<rparr>)) (\<lambda>x.
     py_bind (update_servo (cf_dt cf) ty payload (me_y_friction effects) (me_drive_authority effects)
       ((en_y e)\<lparr>sv_bias := me_y_sensor_bias effects\<rparr>)) (\<lambda>y. Inr (e\<lparr>en_x := x, en_y := y\<rparr>))))"

definition max_following_error :: "'r env \<Rightarrow> real" where
  "max_following_error e = max \<bar>servo_error (en_x e)\<bar> \<bar>servo_error (en_y e)\<bar>"

definition check_following :: "'r env \<Rightarrow> 'r env" where
  "check_following e = (if 38 / 100 < max_following_error e then add_env_log ''error'' ''FOLLOWING_ERROR'' e else e)"

definition telemetry_of :: "real \<Rightarrow> 'r env \<Rightarrow> telemetry_row" where
  "telemetry_of payload e =
     \<lparr>tl_time = nanoseconds (en_time e), tl_step_index = en_step_index e, tl_state = en_state e, tl_cycle_id = en_cycle_id e,
      tl_part = en_part e, tl_input_queue = length (en_queue e), tl_output = en_output e, tl_rework = en_rework e,
      tl_cycles = en_cycles e, tl_good = en_good e, tl_rejected = en_rejected e, tl_payload = payload, tl_x = en_x e, tl_y = en_y e,
      tl_max_following_error = max_following_error e\<rparr>"

definition env_step ::
  "('r \<Rightarrow> real \<times> 'r) \<Rightarrow> (real \<Rightarrow> 'r \<Rightarrow> real \<times> 'r) \<Rightarrow> env_config \<Rightarrow> scenario list \<Rightarrow> 'r env \<Rightarrow> py_exn + (step_output \<times> 'r env)" where
  "env_step random expovariate cf scenarios e =
     py_bind (generate_arrivals expovariate cf (e\<lparr>en_events := [], en_logs := []\<rparr>)) (\<lambda>e1.
     let states = map (\<lambda>sc. scenario_state_at sc (en_time e1) (cf_duration cf)) scenarios;
         (effects, r) = machine_effects_of random (en_state e1 = GS_Pick) (en_time e1) (en_rng e1) states;
         e2 = e1\<lparr>en_rng := r\<rparr>
     in py_bind (payload_of cf e2) (\<lambda>payload.
        py_bind (move_axes cf effects payload e2) (\<lambda>e3.
        py_bind (advance_sequence random cf effects e3) (\<lambda>e4.
        let e5 = check_following e4;
            due = (en_next_publish e5 \<le> en_time e5);
            e6 = e5\<lparr>en_next_publish := (if due then en_next_publish e5 + cf_network_period cf else en_next_publish e5),
                   en_time := en_time e5 + cf_dt cf, en_elapsed := en_elapsed e5 + cf_dt cf, en_step_index := en_step_index e5 + 1\<rparr>
        in Inr (\<lparr>so_telemetry = telemetry_of payload e5, so_events = en_events e5, so_logs = en_logs e5, so_publish_due = due,
                 so_states = states\<rparr>, e6)))))"

end
