(* ===== verification/Experiment.thy ===== *)
theory Experiment
  imports Environment Capture
begin

text \<open>
  The run of an experiment (\<open>run_experiment\<close> of \<open>src/research/vsmc_research/runner.py\<close>): the episodes of a manifest, their
  steps, the exchange with the network when one is due, and the rows that are recorded.

  \<^item> \<open>random\<close>, \<open>gauss\<close>, \<open>expovariate\<close> draw from a generator, \<open>seeded\<close> makes one; \<open>start_wall\<close> is the clock at the start.
  \<^item> Pacing in real time, provenance, metrics and data sets are left out; the rows keep the number of their episode.
\<close>

record 'r experiment_run =
  ex_network :: "'r network"
  ex_telemetry :: "(nat \<times> telemetry_row) list"
  ex_production :: "(nat \<times> env_event) list"
  ex_logs :: "(nat \<times> env_log) list"
  ex_sync :: "(string \<times> int \<times> int) list"
  ex_intervals :: "(nat \<times> label_row) list"
  ex_total_steps :: nat

record 'r draws =
  dr_random :: "'r \<Rightarrow> real \<times> 'r"
  dr_gauss :: "real \<Rightarrow> 'r \<Rightarrow> real \<times> 'r"
  dr_expovariate :: "real \<Rightarrow> 'r \<Rightarrow> real \<times> 'r"
  dr_seeded :: "int \<Rightarrow> 'r"

definition readings_of :: "telemetry_row \<Rightarrow> string \<Rightarrow> real option" where
  "readings_of row = map_of
     [(''x_command_position'', sv_command (tl_x row)), (''x_actual_position'', sv_actual (tl_x row) + sv_bias (tl_x row)),
      (''x_velocity'', sv_velocity (tl_x row)), (''x_following_error'', servo_error (tl_x row)),
      (''y_command_position'', sv_command (tl_y row)), (''y_actual_position'', sv_actual (tl_y row) + sv_bias (tl_y row)),
      (''y_velocity'', sv_velocity (tl_y row)), (''y_following_error'', servo_error (tl_y row))]"

definition sync_every :: "real \<Rightarrow> nat" where
  "sync_every dt = nat (max 1 (py_trunc (1 / dt)))"

definition sync_event :: "string \<Rightarrow> real \<Rightarrow> telemetry_row \<Rightarrow> string \<times> int \<times> int" where
  "sync_event episode_id wall row =
     (episode_id @ ''-SYNC-'' @ pad_left 8 (CHR ''0'') (show_nat (tl_step_index row)), tl_time row, nanoseconds wall)"

definition record_step :: "nat \<Rightarrow> env_config \<Rightarrow> real \<Rightarrow> step_output \<Rightarrow> 'r experiment_run \<Rightarrow> 'r experiment_run" where
  "record_step episode cf wall out ex =
     (let row = so_telemetry out
      in ex\<lparr>ex_total_steps := ex_total_steps ex + 1, ex_telemetry := ex_telemetry ex @ [(episode, row)],
        ex_production := ex_production ex @ map (Pair episode) (so_events out), ex_logs := ex_logs ex @ map (Pair episode) (so_logs out),
        ex_sync := (if tl_step_index row mod sync_every (cf_dt cf) = 0 then ex_sync ex @ [sync_event (cf_episode_id cf) wall row]
                    else ex_sync ex)\<rparr>)"

definition publish ::
  "(string \<Rightarrow> string + real) \<Rightarrow> json \<Rightarrow> 'r draws \<Rightarrow> env_config \<Rightarrow> real \<Rightarrow> step_output \<Rightarrow> 'r experiment_run \<Rightarrow> py_exn + 'r experiment_run" where
  "publish to_float manifest dr cf wall out ex =
     py_bind (network_condition_of to_float manifest (so_states out)) (\<lambda>condition.
     case exchange (dr_random dr) (dr_gauss dr) (cf_episode_id cf) (tl_time (so_telemetry out)) wall
         (gantry_state_name (tl_state (so_telemetry out))) (readings_of (so_telemetry out)) condition (ex_network ex) of
       (Inl e, _) \<Rightarrow> Inl e
     | (Inr _, nw) \<Rightarrow> Inr (ex\<lparr>ex_network := nw\<rparr>))"

definition experiment_step ::
  "(string \<Rightarrow> string + real) \<Rightarrow> json \<Rightarrow> 'r draws \<Rightarrow> env_config \<Rightarrow> scenario list \<Rightarrow> nat \<Rightarrow> real \<Rightarrow> 'r env \<times> 'r experiment_run
    \<Rightarrow> py_exn + ('r env \<times> 'r experiment_run)" where
  "experiment_step to_float manifest dr cf scenarios episode offset s =
     py_bind (env_step (dr_random dr) (dr_expovariate dr) cf scenarios (fst s)) (\<lambda>(out, e).
     let wall = offset + en_time e; ex = record_step episode cf wall out (snd s)
     in py_bind (if so_publish_due out then publish to_float manifest dr cf wall out ex else Inr ex) (\<lambda>ex'. Inr (e, ex')))"

fun run_steps ::
  "(string \<Rightarrow> string + real) \<Rightarrow> json \<Rightarrow> 'r draws \<Rightarrow> env_config \<Rightarrow> scenario list \<Rightarrow> nat \<Rightarrow> real \<Rightarrow> nat \<Rightarrow> 'r env \<times> 'r experiment_run
    \<Rightarrow> py_exn + ('r env \<times> 'r experiment_run)" where
  "run_steps to_float manifest dr cf scenarios episode offset 0 s = Inr s"
| "run_steps to_float manifest dr cf scenarios episode offset (Suc n) s =
     py_bind (experiment_step to_float manifest dr cf scenarios episode offset s)
       (run_steps to_float manifest dr cf scenarios episode offset n)"

definition episode_name :: "string \<Rightarrow> nat \<Rightarrow> string" where
  "episode_name experiment_id i = experiment_id @ ''-EP-'' @ pad_left 4 (CHR ''0'') (show_nat (i + 1))"

definition run_episode ::
  "(string \<Rightarrow> string + real) \<Rightarrow> (string \<Rightarrow> string + int) \<Rightarrow> (json \<Rightarrow> string) \<Rightarrow> json \<Rightarrow> 'r draws \<Rightarrow> string \<Rightarrow> real \<Rightarrow> nat \<times> int
    \<Rightarrow> 'r experiment_run \<Rightarrow> py_exn + 'r experiment_run" where
  "run_episode to_float to_int str manifest dr experiment_id start_wall entry ex =
     (let (i, seed) = entry; episode_id = episode_name experiment_id i
      in py_bind (new_environment to_float to_int str manifest (dr_seeded dr seed) episode_id) (\<lambda>(cf, e).
         py_bind (py_bind (py_get ''scenarios'' (JArr []) manifest) py_iter) (\<lambda>raw.
         py_bind (load_scenarios to_float to_int str seed raw) (\<lambda>scenarios.
         let ex1 = ex\<lparr>ex_intervals := ex_intervals ex @ map (Pair i) (build_intervals (cf_duration cf) scenarios)\<rparr>;
             offset = start_wall + real i * (cf_duration cf + 1)
         in if cf_dt cf = 0 then Inl PyZeroDivisionError
            else py_bind (run_steps to_float manifest dr cf scenarios i offset (nat \<lceil>cf_duration cf / cf_dt cf\<rceil>) (e, ex1))
              (\<lambda>(_, ex2). Inr ex2)))))"

fun run_episodes ::
  "(string \<Rightarrow> string + real) \<Rightarrow> (string \<Rightarrow> string + int) \<Rightarrow> (json \<Rightarrow> string) \<Rightarrow> json \<Rightarrow> 'r draws \<Rightarrow> string \<Rightarrow> real \<Rightarrow> (nat \<times> int) list
    \<Rightarrow> 'r experiment_run \<Rightarrow> py_exn + 'r experiment_run" where
  "run_episodes to_float to_int str manifest dr experiment_id start_wall [] ex = Inr ex"
| "run_episodes to_float to_int str manifest dr experiment_id start_wall (entry # entries) ex =
     py_bind (run_episode to_float to_int str manifest dr experiment_id start_wall entry ex)
       (run_episodes to_float to_int str manifest dr experiment_id start_wall entries)"

definition run_experiment ::
  "(string \<Rightarrow> string + real) \<Rightarrow> (string \<Rightarrow> string + int) \<Rightarrow> (json \<Rightarrow> string) \<Rightarrow> json \<Rightarrow> 'r draws \<Rightarrow> real \<Rightarrow> py_exn + 'r experiment_run" where
  "run_experiment to_float to_int str manifest dr start_wall =
     py_bind (py_item ''experiment_id'' manifest) (\<lambda>experiment_id.
     py_bind (get_int to_int ''base_seed'' 1001 manifest) (\<lambda>base_seed.
     py_bind (get_int to_int ''episodes'' 1 manifest) (\<lambda>episodes.
     py_bind (new_network (dr_seeded dr (base_seed + 9001))) (\<lambda>nw.
       run_episodes to_float to_int str manifest dr (str experiment_id) start_wall
         (map (\<lambda>i. (i, base_seed + int i * 1009)) [0..<nat episodes])
         \<lparr>ex_network = nw, ex_telemetry = [], ex_production = [], ex_logs = [], ex_sync = [], ex_intervals = [], ex_total_steps = 0\<rparr>))))"

end
