(* ===== verification/Dataset.thy ===== *)
theory Dataset
  imports Experiment "HOL-Library.AList" "HOL-Library.List_Lexorder" "HOL-Library.Char_ord"
begin

text \<open>
  What an experiment is summarised to: the windows of its data set with their targets
  (\<open>src/research/vsmc_research/dataset.py\<close>) and its metrics (\<open>runner.py\<close>).

  \<^item> \<open>group_by\<close> stands for the \<open>groupby\<close> of pandas: the rows of every key. \<open>grouping\<close> states what is documented of it.
  \<^item> \<open>digest_prefix\<close> stands for the number that the first eight digits of a SHA-256 digest make.
  \<^item> The columns that are means, quantiles or modes, and those of messages and logs, are left out.
\<close>

section \<open>Windows\<close>

definition window_index :: "real \<Rightarrow> int \<Rightarrow> int" where
  "window_index window_s ns = py_trunc (of_int ns / (window_s * 10 ^ 9))"

definition window_key :: "real \<Rightarrow> nat \<times> telemetry_row \<Rightarrow> nat \<times> int" where
  "window_key window_s r = (fst r, window_index window_s (tl_time (snd r)))"

record window_row =
  wn_episode :: nat
  wn_index :: int
  wn_start :: int
  wn_end :: int
  wn_x_error_max :: real
  wn_y_error_max :: real
  wn_cycle_count :: nat
  wn_output_count :: nat
  wn_rework_count :: nat

definition window_of :: "(nat \<times> int) \<times> (nat \<times> telemetry_row) list \<Rightarrow> window_row" where
  "window_of g =
     (let rows = map snd (snd g); column = (\<lambda>f. set (map f rows))
      in \<lparr>wn_episode = fst (fst g), wn_index = snd (fst g), wn_start = Min (set (map tl_time rows)), wn_end = Max (set (map tl_time rows)),
          wn_x_error_max = Max (set (map (\<lambda>row. \<bar>servo_error (tl_x row)\<bar>) rows)),
          wn_y_error_max = Max (set (map (\<lambda>row. \<bar>servo_error (tl_y row)\<bar>) rows)),
          wn_cycle_count = Max (column tl_cycles), wn_output_count = Max (column tl_output), wn_rework_count = Max (column tl_rework)\<rparr>)"

type_synonym row_groups = "((nat \<times> int) \<times> (nat \<times> telemetry_row) list) list"

definition grouping :: "((nat \<times> telemetry_row \<Rightarrow> nat \<times> int) \<Rightarrow> (nat \<times> telemetry_row) list \<Rightarrow> row_groups) \<Rightarrow> bool" where
  "grouping group_by \<longleftrightarrow> (\<forall>key rows. distinct (map fst (group_by key rows)) \<and> set (map fst (group_by key rows)) = key ` set rows
     \<and> (\<forall>(k, g) \<in> set (group_by key rows). g = filter (\<lambda>r. key r = k) rows))"

section \<open>Targets\<close>

fun domain_value :: "fault_domain \<Rightarrow> string" where
  "domain_value FD_Machine = ''machine''"
| "domain_value FD_Network = ''network''"
| "domain_value FD_CyberInfluenced = ''cyber_influenced''"

record window_target =
  wt_condition :: string
  wt_domain :: string
  wt_category :: string
  wt_fault_type :: string
  wt_component :: string
  wt_severity :: string
  wt_multi_label :: string

definition normal_target :: window_target where
  "normal_target = \<lparr>wt_condition = ''normal'', wt_domain = ''none'', wt_category = ''none'', wt_fault_type = ''none'',
     wt_component = ''none'', wt_severity = ''none'', wt_multi_label = []\<rparr>"

definition in_window :: "window_row \<Rightarrow> nat \<times> label_row \<Rightarrow> bool" where
  "in_window w interval \<longleftrightarrow> fst interval = wn_episode w \<and> lb_start_ns (snd interval) \<le> wn_end w
     \<and> wn_start w < lb_end_ns (snd interval) \<and> lb_phase (snd interval) \<noteq> ''inactive''"

definition active_scenarios :: "(nat \<times> label_row) list \<Rightarrow> window_row \<Rightarrow> scenario list" where
  "active_scenarios intervals w = map (lb_scenario \<circ> snd) (filter (in_window w) intervals)"

definition window_condition :: "scenario list \<Rightarrow> string" where
  "window_condition active =
     (let domains = sort (remdups (map (domain_value \<circ> sc_domain) active))
      in if domains = [''machine''] then ''machine_fault'' else if domains = [''network''] then ''network_fault'' else ''combined'')"

definition primary_scenario :: "scenario list \<Rightarrow> scenario" where
  "primary_scenario active = (case filter (\<lambda>sc. domain_value (sc_domain sc) = ''machine'') active of sc # _ \<Rightarrow> sc | [] \<Rightarrow> hd active)"

definition scenario_label :: "scenario \<Rightarrow> string" where
  "scenario_label sc = domain_value (sc_domain sc) @ '':'' @ sc_fault_type sc @ '':'' @ sc_component sc"

definition target_of :: "(nat \<times> label_row) list \<Rightarrow> window_row \<Rightarrow> window_target" where
  "target_of intervals w =
     (let active = active_scenarios intervals w; primary = primary_scenario active
      in if active = [] then normal_target
         else \<lparr>wt_condition = window_condition active, wt_domain = domain_value (sc_domain primary), wt_category = sc_category primary,
               wt_fault_type = sc_fault_type primary, wt_component = sc_component primary, wt_severity = sc_severity primary,
               wt_multi_label = join_with ''|'' (sort (map scenario_label active))\<rparr>)"

definition dataset_split :: "(string \<Rightarrow> nat) \<Rightarrow> string \<Rightarrow> string" where
  "dataset_split digest_prefix episode_id =
     (let number = digest_prefix episode_id mod 10 in if number < 7 then ''train'' else if number < 9 then ''validation'' else ''test'')"

text \<open>A window length of zero makes the window indices infinite, which the conversion to integers refuses.\<close>

definition build_windows ::
  "((nat \<times> telemetry_row \<Rightarrow> nat \<times> int) \<Rightarrow> (nat \<times> telemetry_row) list \<Rightarrow> row_groups) \<Rightarrow> (string \<Rightarrow> nat) \<Rightarrow> string \<Rightarrow> real
    \<Rightarrow> (nat \<times> telemetry_row) list \<Rightarrow> (nat \<times> label_row) list \<Rightarrow> py_exn + (window_row \<times> window_target \<times> string) list" where
  "build_windows group_by digest_prefix experiment_id window_s telemetry intervals =
     (if telemetry = [] then Inr []
      else if window_s = 0 then Inl (PyValueError ''astype'')
      else Inr (map (\<lambda>g. let w = window_of g
                         in (w, target_of intervals w, dataset_split digest_prefix (episode_name experiment_id (wn_episode w))))
                 (group_by (window_key window_s) telemetry)))"

section \<open>Metrics\<close>

text \<open>The loop that keeps the highest count of every episode.\<close>

definition keep_highest :: "(telemetry_row \<Rightarrow> nat) \<Rightarrow> nat \<times> telemetry_row \<Rightarrow> (nat \<times> nat) list \<Rightarrow> (nat \<times> nat) list" where
  "keep_highest f r kept =
     AList.update (fst r) (max (case map_of kept (fst r) of None \<Rightarrow> 0 | Some n \<Rightarrow> n) (f (snd r))) kept"

definition by_episode :: "(telemetry_row \<Rightarrow> nat) \<Rightarrow> (nat \<times> telemetry_row) list \<Rightarrow> (nat \<times> nat) list" where
  "by_episode f telemetry = fold (keep_highest f) telemetry []"

definition transition_sequence :: "(nat \<times> env_event) list \<Rightarrow> string" where
  "transition_sequence production = join_with ''|''
     (concat (map (\<lambda>(_, ev). case ee_what ev of StateChanged _ state \<Rightarrow> [gantry_state_name state] | _ \<Rightarrow> []) production))"

record metrics =
  mt_steps :: nat
  mt_telemetry_rows :: nat
  mt_messages :: nat
  mt_packets :: nat
  mt_pdo_rows :: nat
  mt_production_events :: nat
  mt_intervals :: nat
  mt_windows :: nat
  mt_completed_cycles :: nat
  mt_good_parts :: nat
  mt_rejected_parts :: nat
  mt_max_following_error :: real
  mt_transitions :: string

definition metrics_of :: "'r experiment_run \<Rightarrow> nat \<Rightarrow> metrics" where
  "metrics_of ex windows =
     (let sum_of = (\<lambda>f. sum_list (map snd (by_episode f (ex_telemetry ex))))
      in \<lparr>mt_steps = ex_total_steps ex, mt_telemetry_rows = length (ex_telemetry ex), mt_messages = length (nw_messages (ex_network ex)),
          mt_packets = length (nw_packets (ex_network ex)), mt_pdo_rows = length (nw_pdos (ex_network ex)),
          mt_production_events = length (ex_production ex), mt_intervals = length (ex_intervals ex), mt_windows = windows,
          mt_completed_cycles = sum_of tl_cycles, mt_good_parts = sum_of tl_good, mt_rejected_parts = sum_of tl_rejected,
          mt_max_following_error = (if ex_telemetry ex = [] then 0 else Max (set (map (tl_max_following_error \<circ> snd) (ex_telemetry ex)))),
          mt_transitions = transition_sequence (ex_production ex)\<rparr>)"

text \<open>What \<open>run_experiment\<close> does with its rows after the last episode.\<close>

definition summarise ::
  "(string \<Rightarrow> string + real) \<Rightarrow> ((nat \<times> telemetry_row \<Rightarrow> nat \<times> int) \<Rightarrow> (nat \<times> telemetry_row) list \<Rightarrow> row_groups) \<Rightarrow> (string \<Rightarrow> nat)
    \<Rightarrow> json \<Rightarrow> string \<Rightarrow> 'r experiment_run \<Rightarrow> py_exn + ((window_row \<times> window_target \<times> string) list \<times> metrics)" where
  "summarise to_float group_by digest_prefix manifest experiment_id ex =
     py_bind (py_bind (py_get ''datasets'' (JObj []) manifest) (get_float to_float ''window_s'' 1)) (\<lambda>window_s.
     py_bind (build_windows group_by digest_prefix experiment_id window_s (ex_telemetry ex) (ex_intervals ex)) (\<lambda>windows.
       Inr (windows, metrics_of ex (length windows))))"

end
