(* ===== verification/EnvironmentLaws.thy ===== *)
theory EnvironmentLaws
  imports Environment ResearchLaws
begin

text \<open>
  The books of the simulated machine (\<open>gantry_ok\<close>), kept by every step; the edges of its sequence; when a step
  throws; what the manifest can do to it.
\<close>

section \<open>The invariant\<close>

definition cycle_name :: "env_config \<Rightarrow> nat \<Rightarrow> string" where
  "cycle_name cf n = cf_episode_id cf @ ''-CYCLE-'' @ pad5 n"

definition part_name :: "env_config \<Rightarrow> nat \<Rightarrow> string" where
  "part_name cf n = cf_episode_id cf @ ''-PART-'' @ pad5 n"

definition counts_ok :: "'r env \<Rightarrow> bool" where
  "counts_ok e \<longleftrightarrow> en_cycles e = en_good e + en_rejected e \<and> en_output e = en_good e
     \<and> en_rework e = en_rejected e + en_failed_picks e \<and> en_failed_picks e \<le> en_rejected e"

definition work_ok :: "env_config \<Rightarrow> 'r env \<Rightarrow> bool" where
  "work_ok cf e \<longleftrightarrow> (en_part e = None \<longleftrightarrow> en_state e \<in> {GS_Idle, GS_Maintenance}) \<and> en_state e \<notin> {GS_Blocked, GS_Faulted}
     \<and> en_cycle_id e = map_option (\<lambda>_. cycle_name cf (en_cycles e + 1)) (en_part e)
     \<and> (0 < en_maintenance_left e \<longrightarrow> en_state e = GS_Maintenance)"

definition parts_of :: "'r env \<Rightarrow> env_part list" where
  "parts_of e = (case en_part e of None \<Rightarrow> [] | Some part \<Rightarrow> [part]) @ en_queue e"

definition parts_ok :: "env_config \<Rightarrow> 'r env \<Rightarrow> bool" where
  "parts_ok cf e \<longleftrightarrow> en_cycles e \<le> en_arrivals e
     \<and> map pt_part_id (parts_of e) = map (part_name cf) [en_cycles e + 1..<en_arrivals e + 1]
     \<and> int (length (en_queue e)) \<le> max 0 (cf_capacity cf)"

definition orders_ok :: "'r env \<Rightarrow> bool" where
  "orders_ok e \<longleftrightarrow> (\<forall>i. en_active e = Some i \<longrightarrow> i < length (en_orders e))
     \<and> (\<forall>order \<in> set (en_orders e). 0 \<le> eo_produced order) \<and> sum_list (map eo_produced (en_orders e)) \<le> int (en_cycles e)"

definition axes_ok :: "'r env \<Rightarrow> bool" where
  "axes_ok e \<longleftrightarrow> \<bar>sv_integral (en_x e)\<bar> \<le> 2 \<and> \<bar>sv_integral (en_y e)\<bar> \<le> 2"

definition gantry_ok :: "env_config \<Rightarrow> 'r env \<Rightarrow> bool" where
  "gantry_ok cf e \<longleftrightarrow> counts_ok e \<and> work_ok cf e \<and> parts_ok cf e \<and> orders_ok e \<and> axes_ok e"

lemmas books_defs = counts_ok_def work_ok_def parts_ok_def orders_ok_def axes_ok_def parts_of_def

text \<open>What the books do not look at.\<close>

lemma gantry_ok_frame [simp]:
  "gantry_ok cf (e\<lparr>en_events := ev\<rparr>) = gantry_ok cf e" "gantry_ok cf (e\<lparr>en_logs := l\<rparr>) = gantry_ok cf e"
  "gantry_ok cf (e\<lparr>en_rng := r\<rparr>) = gantry_ok cf e" "gantry_ok cf (e\<lparr>en_time := t\<rparr>) = gantry_ok cf e"
  "gantry_ok cf (e\<lparr>en_elapsed := t\<rparr>) = gantry_ok cf e" "gantry_ok cf (e\<lparr>en_step_index := n\<rparr>) = gantry_ok cf e"
  "gantry_ok cf (e\<lparr>en_next_publish := t\<rparr>) = gantry_ok cf e" "gantry_ok cf (e\<lparr>en_next_arrival := t\<rparr>) = gantry_ok cf e"
  "gantry_ok cf (e\<lparr>en_next_maintenance := t\<rparr>) = gantry_ok cf e" "gantry_ok cf (e\<lparr>en_last_product := p\<rparr>) = gantry_ok cf e"
  "gantry_ok cf (add_env_event what e) = gantry_ok cf e" "gantry_ok cf (add_env_log severity code e) = gantry_ok cf e"
  by (simp_all add: gantry_ok_def books_defs add_env_event_def add_env_log_def del: upt_Suc)

lemma books_frame [simp]:
  "counts_ok (e\<lparr>en_state := s\<rparr>) = counts_ok e" "counts_ok (e\<lparr>en_maintenance_left := m\<rparr>) = counts_ok e"
  "counts_ok (e\<lparr>en_part := p\<rparr>) = counts_ok e" "counts_ok (e\<lparr>en_cycle_id := c\<rparr>) = counts_ok e" "counts_ok (e\<lparr>en_queue := q\<rparr>) = counts_ok e"
  "counts_ok (add_env_event w e) = counts_ok e" "counts_ok (add_env_log sv l e) = counts_ok e"
  "parts_ok cf (e\<lparr>en_state := s\<rparr>) = parts_ok cf e" "parts_ok cf (e\<lparr>en_maintenance_left := m\<rparr>) = parts_ok cf e"
  "parts_ok cf (e\<lparr>en_cycle_id := c\<rparr>) = parts_ok cf e" "parts_ok cf (add_env_event w e) = parts_ok cf e"
  "parts_ok cf (add_env_log sv l e) = parts_ok cf e"
  "orders_ok (e\<lparr>en_state := s\<rparr>) = orders_ok e" "orders_ok (e\<lparr>en_maintenance_left := m\<rparr>) = orders_ok e"
  "orders_ok (e\<lparr>en_part := p\<rparr>) = orders_ok e" "orders_ok (e\<lparr>en_cycle_id := c\<rparr>) = orders_ok e" "orders_ok (e\<lparr>en_queue := q\<rparr>) = orders_ok e"
  "orders_ok (add_env_event w e) = orders_ok e" "orders_ok (add_env_log sv l e) = orders_ok e"
  "axes_ok (e\<lparr>en_state := s\<rparr>) = axes_ok e" "axes_ok (e\<lparr>en_maintenance_left := m\<rparr>) = axes_ok e"
  "axes_ok (e\<lparr>en_part := p\<rparr>) = axes_ok e" "axes_ok (e\<lparr>en_cycle_id := c\<rparr>) = axes_ok e" "axes_ok (e\<lparr>en_queue := q\<rparr>) = axes_ok e"
  "axes_ok (add_env_event w e) = axes_ok e" "axes_ok (add_env_log sv l e) = axes_ok e"
  "counts_ok (e\<lparr>en_next_maintenance := t\<rparr>) = counts_ok e" "parts_ok cf (e\<lparr>en_next_maintenance := t\<rparr>) = parts_ok cf e"
  "orders_ok (e\<lparr>en_next_maintenance := t\<rparr>) = orders_ok e" "axes_ok (e\<lparr>en_next_maintenance := t\<rparr>) = axes_ok e"
  by (simp_all add: counts_ok_def parts_ok_def parts_of_def orders_ok_def axes_ok_def add_env_event_def add_env_log_def del: upt_Suc)

section \<open>Arrivals\<close>

lemma first_needing_length:
  assumes "first_needing orders = Some i"
  shows "i < length orders" "order_needs (orders ! i)"
proof -
  let ?is = "filter (\<lambda>i. order_needs (orders ! i)) [0..<length orders]"
  obtain js where "?is = i # js" using assms by (auto simp: first_needing_def split: list.splits)
  then have "i \<in> set ?is" by (simp only: list.set_intros(1))
  then show "i < length orders" "order_needs (orders ! i)" by simp_all
qed

lemma select_order_ok:
  assumes "gantry_ok cf e"
  shows "gantry_ok cf (select_order e)"
proof (cases "first_needing (en_orders e)")
  case None
  then show ?thesis using assms
    by (auto simp: select_order_def gantry_ok_def books_defs Let_def simp del: upt_Suc split: option.splits)
next
  case (Some i)
  then have "gantry_ok cf (e\<lparr>en_active := Some i\<rparr>)"
    using assms first_needing_length(1) [OF Some] by (simp add: gantry_ok_def books_defs del: upt_Suc)
  then show ?thesis using assms Some by (simp add: select_order_def Let_def)
qed

lemma arrive_ok:
  assumes "gantry_ok cf e"
  shows "gantry_ok cf (arrive cf order e)"
proof (cases "int (length (en_queue e)) < cf_capacity cf")
  case True
  let ?part = "\<lparr>pt_part_id = part_name cf (en_arrivals e + 1), pt_product_id = eo_product_id order, pt_order_id = eo_order_id order,
      pt_arrival = en_time e, pt_score = None\<rparr>"
  have le: "en_cycles e \<le> en_arrivals e"
    and ids: "map pt_part_id (parts_of e) = map (part_name cf) [en_cycles e + 1..<en_arrivals e + 1]"
    using assms by (simp_all add: gantry_ok_def parts_ok_def)
  have "parts_ok cf (e\<lparr>en_arrivals := en_arrivals e + 1, en_queue := en_queue e @ [?part]\<rparr>)"
    using True le ids by (simp add: parts_ok_def parts_of_def)
  then have "gantry_ok cf (e\<lparr>en_arrivals := en_arrivals e + 1, en_queue := en_queue e @ [?part]\<rparr>)"
    using assms by (simp add: gantry_ok_def counts_ok_def work_ok_def orders_ok_def axes_ok_def)
  then show ?thesis using True by (simp add: arrive_def part_name_def Let_def)
qed (use assms in \<open>simp add: arrive_def\<close>)

text \<open>What holds of a state and is kept by selecting an order, by an arrival and by the bookkeeping of the loop holds after it.\<close>

lemma arrivals_loop_keeps:
  assumes "\<And>cf e. P cf e \<Longrightarrow> P cf (select_order e)" and "\<And>cf e r t. P cf e \<Longrightarrow> P cf (e\<lparr>en_rng := r, en_next_arrival := t\<rparr>)"
    and "\<And>cf e i. P cf e \<Longrightarrow> en_active e = Some i \<Longrightarrow> P cf (arrive cf (en_orders e ! i) e)"
  shows "P cf e \<Longrightarrow> arrivals_loop expovariate cf e = Inr e' \<Longrightarrow> P cf e'"
proof (induction expovariate cf e rule: arrivals_loop.induct)
  case (1 expovariate cf e)
  let ?e1 = "select_order e"
  show ?case
  proof (cases "en_time e < en_next_arrival e")
    case False
    have sel: "P cf ?e1" using assms(1) 1 by blast
    show ?thesis
    proof (cases "en_active ?e1")
      case None
      then show ?thesis using 1(3) False sel by (simp add: arrivals_loop.simps [of expovariate cf e] Let_def)
    next
      case (Some i)
      let ?e2 = "arrive cf (en_orders ?e1 ! i) ?e1"
      obtain x r where x: "expovariate (1 / cf_mean_arrival cf) (en_rng ?e2) = (x, r)" by fastforce
      let ?e3 = "?e2\<lparr>en_rng := r, en_next_arrival := en_next_arrival ?e2 + max (15 / 100) x\<rparr>"
      have mean: "cf_mean_arrival cf \<noteq> 0" and rest: "arrivals_loop expovariate cf ?e3 = Inr e'"
        using 1(3) False Some x by (simp_all add: arrivals_loop.simps [of expovariate cf e] Let_def split: if_splits)
      have "P cf ?e3" by (intro assms(2) assms(3) [OF sel Some])
      then show ?thesis using rest by (rule 1(1) [OF False refl Some refl mean x [symmetric] refl])
    qed
  qed (use 1 in \<open>simp add: arrivals_loop.simps [of expovariate cf e]\<close>)
qed

lemma generate_arrivals_ok:
  assumes "gantry_ok cf e" and "generate_arrivals expovariate cf e = Inr e'"
  shows "gantry_ok cf e'"
  using assms arrivals_loop_keeps [of gantry_ok cf e expovariate e']
  by (simp add: generate_arrivals_def select_order_ok arrive_ok)

section \<open>Axes\<close>

lemma update_servo_ok:
  assumes "update_servo dt target payload friction authority a = Inr a'"
  shows "\<bar>sv_integral a'\<bar> \<le> 2" "sv_command a' = target" "dt \<noteq> 0" "servo_mass payload \<noteq> 0"
  using assms by (auto simp: update_servo_def Let_def split: if_splits)

lemma py_bind_Inr_iff: "py_bind r k = Inr b \<longleftrightarrow> (\<exists>a. r = Inr a \<and> k a = Inr b)"
  by (cases r) simp_all

lemma move_axes_moves:
  assumes "move_axes cf effects payload e = Inr e'"
  obtains x y where "e' = e\<lparr>en_x := x, en_y := y\<rparr>" "\<bar>sv_integral x\<bar> \<le> 2" "\<bar>sv_integral y\<bar> \<le> 2"
  using assms update_servo_ok(1) by (fastforce simp: move_axes_def py_bind_Inr_iff)

lemma gantry_ok_axes:
  assumes "gantry_ok cf e" and "\<bar>sv_integral x\<bar> \<le> 2" and "\<bar>sv_integral y\<bar> \<le> 2"
  shows "gantry_ok cf (e\<lparr>en_x := x, en_y := y\<rparr>)"
proof -
  let ?e = "e\<lparr>en_x := x, en_y := y\<rparr>"
  have "counts_ok ?e = counts_ok e" "work_ok cf ?e = work_ok cf e" "orders_ok ?e = orders_ok e"
    by (simp_all add: counts_ok_def work_ok_def orders_ok_def)
  moreover have "parts_ok cf ?e = parts_ok cf e" by (simp add: parts_ok_def parts_of_def del: upt_Suc)
  moreover have "axes_ok ?e" using assms(2,3) by (simp add: axes_ok_def)
  ultimately show ?thesis using assms(1) unfolding gantry_ok_def by blast
qed

lemma move_axes_ok:
  assumes "gantry_ok cf e" and "move_axes cf effects payload e = Inr e'"
  shows "gantry_ok cf e'"
  by (rule move_axes_moves [OF assms(2)]) (simp add: gantry_ok_axes assms(1))

section \<open>The sequence\<close>

lemma set_state_sel [simp]:
  "en_part (set_gantry_state s e) = en_part e" "en_state (set_gantry_state s e) = s" "en_cycles (set_gantry_state s e) = en_cycles e"
  "en_good (set_gantry_state s e) = en_good e" "en_maintenance_left (set_gantry_state s e) = en_maintenance_left e"
  "en_orders (set_gantry_state s e) = en_orders e" "en_queue (set_gantry_state s e) = en_queue e"
  "en_time (set_gantry_state s e) = en_time e" "en_active (set_gantry_state s e) = en_active e"
  by (simp_all add: set_gantry_state_def add_env_event_def)

lemma event_log_sel [simp]:
  "en_cycle_id (add_env_event w e) = en_cycle_id e" "en_time (add_env_event w e) = en_time e"
  "en_next_maintenance (add_env_event w e) = en_next_maintenance e" "en_part (add_env_event w e) = en_part e" "en_state (add_env_event w e) = en_state e" "en_cycles (add_env_event w e) = en_cycles e"
  "en_good (add_env_event w e) = en_good e" "en_maintenance_left (add_env_event w e) = en_maintenance_left e"
  "en_orders (add_env_event w e) = en_orders e" "en_queue (add_env_event w e) = en_queue e"
  "en_active (add_env_event w e) = en_active e" "en_output (add_env_event w e) = en_output e" "en_rework (add_env_event w e) = en_rework e"
  "en_state (add_env_log sv c e) = en_state e" "en_part (add_env_log sv c e) = en_part e" "en_cycles (add_env_log sv c e) = en_cycles e"
  "en_good (add_env_log sv c e) = en_good e" "en_maintenance_left (add_env_log sv c e) = en_maintenance_left e"
  "en_active (add_env_log sv c e) = en_active e" "en_orders (add_env_log sv c e) = en_orders e"
  by (simp_all add: add_env_event_def add_env_log_def)

lemma gantry_ok_set_state:
  "gantry_ok cf (set_gantry_state s e) = gantry_ok cf (e\<lparr>en_state := s\<rparr>)"
proof (cases "s = en_state e")
  case True
  then have "e\<lparr>en_state := s\<rparr> = e" by (cases e) simp
  then show ?thesis using True by (simp add: set_gantry_state_def)
qed (simp add: set_gantry_state_def)

text \<open>A state between two others while a part is worked on.\<close>

lemma gantry_ok_working:
  assumes "gantry_ok cf e" and "en_part e = Some part" and "s \<notin> {GS_Idle, GS_Maintenance, GS_Blocked, GS_Faulted}"
  shows "gantry_ok cf (set_gantry_state s e)"
  unfolding gantry_ok_set_state using assms by (auto simp: gantry_ok_def books_defs simp del: upt_Suc)

lemma sum_produced:
  fixes orders :: "env_order list"
  assumes "i < length orders"
  shows "sum_list (map eo_produced (orders[i := (orders ! i)\<lparr>eo_produced := eo_produced (orders ! i) + 1\<rparr>])) = sum_list (map eo_produced orders) + 1"
proof -
  have "sum_list (xs[i := xs ! i + 1]) = sum_list xs + 1" if "i < length xs" for xs :: "int list"
    using that by (induction xs arbitrary: i) (auto split: nat.split)
  from this [of "map eo_produced orders"] show ?thesis using assms by (simp add: map_update)
qed

definition count_part :: "'r env \<Rightarrow> 'r env" where
  "count_part e = (case en_active e of
       None \<Rightarrow> e
     | Some i \<Rightarrow> e\<lparr>en_orders := (en_orders e)[i := (en_orders e ! i)\<lparr>eo_produced := eo_produced (en_orders e ! i) + 1\<rparr>]\<rparr>)"

definition count_cycle :: "bool \<Rightarrow> 'r env \<Rightarrow> 'r env" where
  "count_cycle good e = (if good then e\<lparr>en_cycles := en_cycles e + 1, en_good := en_good e + 1, en_output := en_output e + 1\<rparr>
     else e\<lparr>en_cycles := en_cycles e + 1, en_rejected := en_rejected e + 1, en_rework := en_rework e + 1\<rparr>)"

lemma finish_cycle_eq:
  assumes "en_part e = Some part"
  shows "finish_cycle good reason e = (let e3 = count_part (count_cycle good e)
    in set_gantry_state GS_Idle ((add_env_event (CycleCompleted good reason (en_output e3) (en_rework e3)) e3)
      \<lparr>en_part := None, en_cycle_id := None\<rparr>))"
  using assms by (simp add: finish_cycle_def count_part_def count_cycle_def Let_def split: option.split)

lemma count_sel [simp]:
  "en_part (count_part e) = en_part e" "en_state (count_part e) = en_state e" "en_cycles (count_part e) = en_cycles e"
  "en_good (count_part e) = en_good e" "en_rejected (count_part e) = en_rejected e" "en_output (count_part e) = en_output e"
  "en_rework (count_part e) = en_rework e" "en_failed_picks (count_part e) = en_failed_picks e" "en_queue (count_part e) = en_queue e"
  "en_arrivals (count_part e) = en_arrivals e" "en_maintenance_left (count_part e) = en_maintenance_left e"
  "en_x (count_part e) = en_x e" "en_y (count_part e) = en_y e" "en_active (count_part e) = en_active e"
  "en_cycles (count_cycle good e) = en_cycles e + 1" "en_part (count_cycle good e) = en_part e"
  "en_state (count_cycle good e) = en_state e" "en_queue (count_cycle good e) = en_queue e"
  "en_arrivals (count_cycle good e) = en_arrivals e" "en_maintenance_left (count_cycle good e) = en_maintenance_left e"
  "en_x (count_cycle good e) = en_x e" "en_y (count_cycle good e) = en_y e" "en_orders (count_cycle good e) = en_orders e"
  "en_active (count_cycle good e) = en_active e" "en_failed_picks (count_cycle good e) = en_failed_picks e"
  by (simp_all add: count_part_def count_cycle_def split: option.split)

lemma counts_ok_count_part [simp]: "counts_ok (count_part e) = counts_ok e"
  by (simp add: counts_ok_def)

lemma count_part_orders:
  assumes "orders_ok e" and "en_cycles e' = en_cycles e + 1" and "en_orders e' = en_orders e" and "en_active e' = en_active e"
  shows "orders_ok (count_part e')"
proof (cases "en_active e")
  case None
  then show ?thesis using assms by (auto simp: orders_ok_def count_part_def)
next
  case (Some i)
  then have i: "i < length (en_orders e)" using assms(1) by (simp add: orders_ok_def)
  then show ?thesis
    using assms Some sum_produced [OF i] by (auto simp: orders_ok_def count_part_def dest!: set_update_subset_insert [THEN subsetD])
qed

lemma parts_ok_finish:
  assumes "parts_ok cf e" and "en_part e = Some part"
    and "en_cycles e' = en_cycles e + 1" and "en_arrivals e' = en_arrivals e" and "en_queue e' = en_queue e" and "en_part e' = None"
  shows "parts_ok cf e'"
proof -
  have le: "en_cycles e \<le> en_arrivals e"
    and ids: "pt_part_id part # map pt_part_id (en_queue e) = map (part_name cf) [en_cycles e + 1..<en_arrivals e + 1]"
    using assms(1,2) by (simp_all add: parts_ok_def parts_of_def del: upt_Suc)
  from ids have "[en_cycles e + 1..<en_arrivals e + 1] \<noteq> []" by (metis list.distinct(1) list.simps(8))
  then have lt: "en_cycles e < en_arrivals e" by (simp add: upt_eq_Nil_conv del: upt_Suc)
  then have "[en_cycles e + 1..<en_arrivals e + 1] = (en_cycles e + 1) # [en_cycles e + 2..<en_arrivals e + 1]"
    by (simp add: upt_conv_Cons del: upt_Suc)
  with ids have "map pt_part_id (en_queue e) = map (part_name cf) [en_cycles e + 2..<en_arrivals e + 1]" by (simp del: upt_Suc)
  then show ?thesis using lt assms by (simp add: parts_ok_def parts_of_def del: upt_Suc)
qed

lemma finish_cycle_ok:
  assumes "work_ok cf e" and "parts_ok cf e" and "orders_ok e" and "axes_ok e" and "counts_ok (count_cycle good e)"
    and "en_part e = Some part"
  shows "gantry_ok cf (finish_cycle good reason e)"
proof -
  let ?e3 = "count_part (count_cycle good e)"
  let ?e4 = "add_env_event (CycleCompleted good reason (en_output ?e3) (en_rework ?e3)) ?e3"
  let ?e5 = "?e4\<lparr>en_part := None, en_cycle_id := None, en_state := GS_Idle\<rparr>"
  have "\<not> 0 < en_maintenance_left e" using assms(1,6) by (auto simp: work_ok_def)
  then have "work_ok cf ?e5" by (simp add: work_ok_def)
  moreover have "counts_ok ?e5" using assms(5) by simp
  moreover have "parts_ok cf ?e5"
    by (rule parts_ok_finish [OF assms(2,6)]) (simp_all add: add_env_event_def)
  moreover have "orders_ok ?e5"
    using count_part_orders [OF assms(3), of "count_cycle good e"] by simp
  moreover have "axes_ok ?e5" using assms(4) by (simp add: axes_ok_def add_env_event_def)
  ultimately show ?thesis
    unfolding finish_cycle_eq [OF assms(6)] Let_def gantry_ok_set_state by (simp add: gantry_ok_def)
qed

lemma maintenance_ok:
  assumes "gantry_ok cf e"
  shows "0 < en_maintenance_left e \<Longrightarrow> gantry_ok cf (maintenance_step cf e)"
    and "en_state e = GS_Idle \<Longrightarrow> gantry_ok cf (maintenance_start cf e)"
proof -
  assume "0 < en_maintenance_left e"
  then have "en_state e = GS_Maintenance" "en_part e = None" "en_cycle_id e = None"
    using assms by (auto simp: gantry_ok_def work_ok_def)
  then show "gantry_ok cf (maintenance_step cf e)"
    using assms by (simp add: maintenance_step_def Let_def gantry_ok_set_state)
      (simp add: set_gantry_state_def gantry_ok_def work_ok_def)
next
  assume "en_state e = GS_Idle"
  then show "gantry_ok cf (maintenance_start cf e)"
    using assms unfolding maintenance_start_def gantry_ok_set_state
    by (simp add: gantry_ok_def work_ok_def)
qed

lemma start_cycle_ok:
  assumes "gantry_ok cf e" and "en_state e = GS_Idle" and "\<not> 0 < en_maintenance_left e"
  shows "gantry_ok cf (start_cycle cf e)"
proof (cases "en_queue e")
  case (Cons part queue)
  let ?e1 = "e\<lparr>en_queue := queue, en_part := Some part, en_cycle_id := Some (cycle_name cf (en_cycles e + 1))\<rparr>"
  have "en_part e = None" using assms by (simp add: gantry_ok_def work_ok_def)
  then have "parts_ok cf ?e1" using assms(1) Cons by (simp add: gantry_ok_def parts_ok_def parts_of_def del: upt_Suc)
  then have "gantry_ok cf (?e1\<lparr>en_state := s\<rparr>)" if "s \<in> {GS_Changeover, GS_MoveToPick}" for s
    using assms that by (auto simp: gantry_ok_def work_ok_def)
  then show ?thesis
    by (simp add: start_cycle_def Cons Let_def gantry_ok_set_state cycle_name_def)
qed (use assms in \<open>simp add: start_cycle_def\<close>)

lemma pick_done_ok:
  assumes "gantry_ok cf e" and "en_part e = Some part"
  shows "gantry_ok cf (pick_done effects e)"
proof (cases "me_failed_pick effects")
  case True
  let ?e1 = "e\<lparr>en_failed_picks := en_failed_picks e + 1, en_rework := en_rework e + 1\<rparr>"
  have "work_ok cf ?e1" "parts_ok cf ?e1" "orders_ok ?e1" "axes_ok ?e1" "counts_ok (count_cycle False ?e1)"
    using assms(1) by (simp_all add: gantry_ok_def books_defs count_cycle_def del: upt_Suc)
  then show ?thesis using True assms(2)
    by (simp add: pick_done_def) (intro finish_cycle_ok [where part = part]; simp add: add_env_log_def books_defs count_cycle_def del: upt_Suc)
next
  case False
  then show ?thesis
    using assms by (auto simp: pick_done_def intro!: gantry_ok_working [where part = part])
qed

lemma inspection_done_ok:
  assumes "gantry_ok cf e" and "en_part e = Some part"
  shows "gantry_ok cf (inspection_done random part e)"
proof -
  have "gantry_ok cf (e\<lparr>en_part := Some (part\<lparr>pt_score := s\<rparr>)\<rparr>)" for s
    using assms by (simp add: gantry_ok_def books_defs del: upt_Suc)
  then show ?thesis
    by (auto simp: inspection_done_def Let_def split: prod.split intro!: gantry_ok_working)
      (simp add: gantry_ok_def books_defs del: upt_Suc)
qed

lemma work_part_ok:
  assumes "gantry_ok cf e" and "en_part e = Some part"
  shows "gantry_ok cf (work_part random effects part recipe e)"
proof -
  have "work_ok cf e" "parts_ok cf e" "orders_ok e" "axes_ok e" "counts_ok (count_cycle good e)" for good
    using assms(1) by (auto simp: gantry_ok_def counts_ok_def count_cycle_def)
  then have "gantry_ok cf (finish_cycle good reason e)" for good reason using assms(2) by (intro finish_cycle_ok)
  then show ?thesis
    using assms pick_done_ok [OF assms] inspection_done_ok [OF assms]
    by (simp add: work_part_def gantry_ok_working)
qed

lemma advance_sequence_ok:
  assumes "gantry_ok cf e" and "advance_sequence random cf effects e = Inr e'"
  shows "gantry_ok cf e'"
  using assms
  by (auto simp: advance_sequence_def py_bind_Inr_iff maintenance_ok start_cycle_ok work_part_ok split: if_splits option.splits)

section \<open>Steps\<close>

lemma check_following_sel [simp]:
  "gantry_ok cf (check_following e) = gantry_ok cf e" "en_state (check_following e) = en_state e" "en_part (check_following e) = en_part e"
  "en_cycles (check_following e) = en_cycles e" "en_good (check_following e) = en_good e" "en_queue (check_following e) = en_queue e"
  "en_orders (check_following e) = en_orders e" "en_active (check_following e) = en_active e"
  "en_maintenance_left (check_following e) = en_maintenance_left e" "en_time (check_following e) = en_time e"
  by (simp_all add: check_following_def add_env_log_def)

text \<open>A step that returns is its parts in order.\<close>

lemma env_step_parts:
  assumes "env_step random expovariate cf scenarios e = Inr (out, e')"
  obtains e1 effects r payload e3 e4 where
    "generate_arrivals expovariate cf (e\<lparr>en_events := [], en_logs := []\<rparr>) = Inr e1"
    "machine_effects_of random (en_state e1 = GS_Pick) (en_time e1) (en_rng e1)
       (map (\<lambda>sc. scenario_state_at sc (en_time e1) (cf_duration cf)) scenarios) = (effects, r)"
    "payload_of cf (e1\<lparr>en_rng := r\<rparr>) = Inr payload" "move_axes cf effects payload (e1\<lparr>en_rng := r\<rparr>) = Inr e3"
    "advance_sequence random cf effects e3 = Inr e4"
    "out = \<lparr>so_telemetry = telemetry_of payload (check_following e4),
       so_events = en_events e4, so_logs = en_logs (check_following e4),
       so_publish_due = (en_next_publish e4 \<le> en_time e4),
       so_states = map (\<lambda>sc. scenario_state_at sc (en_time e1) (cf_duration cf)) scenarios\<rparr>"
    "e' = (check_following e4)
       \<lparr>en_next_publish := (if en_next_publish e4 \<le> en_time e4 then en_next_publish e4 + cf_network_period cf else en_next_publish e4),
        en_time := en_time e4 + cf_dt cf, en_elapsed := en_elapsed e4 + cf_dt cf, en_step_index := en_step_index e4 + 1\<rparr>"
proof -
  from assms obtain e1 where e1: "generate_arrivals expovariate cf (e\<lparr>en_events := [], en_logs := []\<rparr>) = Inr e1"
    by (auto simp: env_step_def py_bind_Inr_iff)
  let ?states = "map (\<lambda>sc. scenario_state_at sc (en_time e1) (cf_duration cf)) scenarios"
  obtain effects r where eff: "machine_effects_of random (en_state e1 = GS_Pick) (en_time e1) (en_rng e1) ?states = (effects, r)"
    by fastforce
  from assms e1 eff obtain payload e3 e4 where rest: "payload_of cf (e1\<lparr>en_rng := r\<rparr>) = Inr payload"
      "move_axes cf effects payload (e1\<lparr>en_rng := r\<rparr>) = Inr e3" "advance_sequence random cf effects e3 = Inr e4"
    by (auto simp: env_step_def py_bind_Inr_iff Let_def)
  with assms e1 eff show ?thesis
    by (intro that [OF e1 eff rest]) (auto simp: env_step_def Let_def check_following_def add_env_log_def)
qed

lemma env_step_ok:
  assumes "gantry_ok cf e" and "env_step random expovariate cf scenarios e = Inr (out, e')"
  shows "gantry_ok cf e'"
proof (rule env_step_parts [OF assms(2)])
  fix e1 effects r payload e3 e4
  assume arrivals: "generate_arrivals expovariate cf (e\<lparr>en_events := [], en_logs := []\<rparr>) = Inr e1"
    and moved: "move_axes cf effects payload (e1\<lparr>en_rng := r\<rparr>) = Inr e3" and advanced: "advance_sequence random cf effects e3 = Inr e4"
    and e': "e' = (check_following e4)
       \<lparr>en_next_publish := (if en_next_publish e4 \<le> en_time e4 then en_next_publish e4 + cf_network_period cf else en_next_publish e4),
        en_time := en_time e4 + cf_dt cf, en_elapsed := en_elapsed e4 + cf_dt cf, en_step_index := en_step_index e4 + 1\<rparr>"
  have "gantry_ok cf (e\<lparr>en_events := [], en_logs := []\<rparr>)" using assms(1) by simp
  from generate_arrivals_ok [OF this arrivals] have "gantry_ok cf (e1\<lparr>en_rng := r\<rparr>)" by simp
  from advance_sequence_ok [OF move_axes_ok [OF this moved] advanced] show "gantry_ok cf e'" unfolding e' by simp
qed

inductive gantry_run ::
  "('r \<Rightarrow> real \<times> 'r) \<Rightarrow> (real \<Rightarrow> 'r \<Rightarrow> real \<times> 'r) \<Rightarrow> env_config \<Rightarrow> scenario list \<Rightarrow> 'r env \<Rightarrow> bool"
  for random :: "'r \<Rightarrow> real \<times> 'r" and expovariate :: "real \<Rightarrow> 'r \<Rightarrow> real \<times> 'r" and cf :: env_config and scenarios :: "scenario list" where
  gantry_start: "new_environment to_float to_int str manifest rng episode_id = Inr (cf, e) \<Longrightarrow> gantry_run random expovariate cf scenarios e"
| gantry_step: "gantry_run random expovariate cf scenarios e \<Longrightarrow> env_step random expovariate cf scenarios e = Inr (out, e')
    \<Longrightarrow> gantry_run random expovariate cf scenarios e'"

lemma py_map_range: "py_map f xs = Inr ys \<Longrightarrow> y \<in> set ys \<Longrightarrow> \<exists>x \<in> set xs. f x = Inr y"
  by (induction xs arbitrary: ys) (auto simp: py_bind_Inr_iff)

lemma build_orders_fresh:
  assumes "build_orders to_float to_int str production = Inr orders" and "order \<in> set orders"
  shows "eo_produced order = 0"
proof -
  obtain raw built where built: "py_map (build_order to_float to_int str) raw = Inr built"
      "orders = sort_key (\<lambda>order. - eo_priority order) (sort_key eo_due built)"
    using assms(1) unfolding build_orders_def py_bind_Inr_iff sum.inject by (elim exE conjE) (rule that, assumption, rule sym)
  then have "order \<in> set built" using assms(2) by simp
  from py_map_range [OF built(1) this] obtain item where "build_order to_float to_int str item = Inr order" by (rule bexE)
  then show ?thesis by (auto simp: build_order_def py_bind_Inr_iff)
qed

lemma new_environment_fields:
  assumes "new_environment to_float to_int str manifest rng episode_id = Inr (cf, e)"
  shows "en_cycles e = 0 \<and> en_good e = 0 \<and> en_rejected e = 0 \<and> en_output e = 0 \<and> en_rework e = 0 \<and> en_failed_picks e = 0
      \<and> en_part e = None \<and> en_cycle_id e = None \<and> en_state e = GS_Idle \<and> en_maintenance_left e = 0 \<and> en_queue e = []
      \<and> en_arrivals e = 0 \<and> en_active e = None \<and> en_x e = new_servo \<and> en_y e = new_servo \<and> en_time e = 0 \<and> en_step_index e = 0"
    and "\<exists>production. build_orders to_float to_int str production = Inr (en_orders e) \<and> build_recipes to_float str production = Inr (cf_recipes cf)"
  using assms unfolding new_environment_def py_bind_Inr_iff sum.inject prod.inject by (elim exE conjE, hypsubst, simp only: env.simps env_config.simps simp_thms, (blast)?)+

lemma new_environment_ok:
  assumes "new_environment to_float to_int str manifest rng episode_id = Inr (cf, e)"
  shows "gantry_ok cf e"
proof -
  have fresh: "eo_produced order = 0" if "order \<in> set (en_orders e)" for order
    using new_environment_fields(2) [OF assms] build_orders_fresh that by blast
  then have "map eo_produced (en_orders e) = map (\<lambda>_. 0) (en_orders e)" by simp
  then have "sum_list (map eo_produced (en_orders e)) = 0" by (simp only: sum_list_0)
  then show ?thesis
    using new_environment_fields(1) [OF assms] fresh by (simp add: gantry_ok_def books_defs new_servo_def)
qed

lemma gantry_run_ok: "gantry_run random expovariate cf scenarios e \<Longrightarrow> gantry_ok cf e"
  by (induction rule: gantry_run.induct) (auto intro: new_environment_ok env_step_ok)

text \<open>
  C20. The books of the simulated machine agree after every step of every run, whatever the manifest and the draws: completed
  cycles are the good and the rejected parts, the output is the good ones, and rework counts the rejected parts and
  once more those whose pick failed; parts leave in the order they arrived, the part worked on and the queue being
  exactly the arrivals after the completed cycles, with consecutive identifiers, and the cycle in progress carries the
  number of its part; the queue never exceeds the buffer, a part is in work exactly outside idle and maintenance, the
  states blocked and faulted never occur, the orders together count no more parts than cycles, and no integrator
  leaves its limits.
\<close>

theorem gantry_accounts:
  assumes "gantry_run random expovariate cf scenarios e"
  shows "en_cycles e = en_good e + en_rejected e \<and> en_output e = en_good e
    \<and> en_rework e = en_rejected e + en_failed_picks e \<and> en_failed_picks e \<le> en_rejected e
    \<and> map pt_part_id (parts_of e) = map (part_name cf) [en_cycles e + 1..<en_arrivals e + 1]
    \<and> en_cycle_id e = map_option (\<lambda>_. cycle_name cf (en_cycles e + 1)) (en_part e)
    \<and> int (length (en_queue e)) \<le> max 0 (cf_capacity cf)
    \<and> (en_part e = None \<longleftrightarrow> en_state e \<in> {GS_Idle, GS_Maintenance}) \<and> en_state e \<notin> {GS_Blocked, GS_Faulted}
    \<and> sum_list (map eo_produced (en_orders e)) \<le> int (en_cycles e)
    \<and> \<bar>sv_integral (en_x e)\<bar> \<le> 2 \<and> \<bar>sv_integral (en_y e)\<bar> \<le> 2"
  using gantry_run_ok [OF assms]
  by (simp add: gantry_ok_def counts_ok_def work_ok_def parts_ok_def orders_ok_def axes_ok_def del: upt_Suc)

section \<open>The edges of the sequence\<close>

definition change_of :: "env_event \<Rightarrow> (gantry_state \<times> gantry_state) option" where
  "change_of ev = (case ee_what ev of StateChanged s s' \<Rightarrow> Some (s, s') | _ \<Rightarrow> None)"

definition changes :: "env_event list \<Rightarrow> (gantry_state \<times> gantry_state) list" where
  "changes evs = List.map_filter change_of evs"

definition gantry_edges :: "(gantry_state \<times> gantry_state) list" where
  "gantry_edges =
     [(GS_Idle, GS_Maintenance), (GS_Maintenance, GS_Idle), (GS_Idle, GS_Changeover), (GS_Idle, GS_MoveToPick),
      (GS_Changeover, GS_MoveToPick), (GS_MoveToPick, GS_Pick), (GS_Pick, GS_Idle), (GS_Pick, GS_MoveToInspect),
      (GS_MoveToInspect, GS_Inspect), (GS_Inspect, GS_MoveToPlace), (GS_MoveToPlace, GS_Place), (GS_Place, GS_Idle)]"

lemma changes_append [simp]: "changes (evs @ evs') = changes evs @ changes evs'"
  by (simp add: changes_def List.map_filter_def)

lemma changes_Nil [simp]: "changes [] = []"
  by (simp add: changes_def List.map_filter_def)

lemma changes_event [simp]:
  "changes (en_events (add_env_event w e)) = changes (en_events e) @ (case w of StateChanged s s' \<Rightarrow> [(s, s')] | _ \<Rightarrow> [])"
  by (simp add: add_env_event_def) (simp add: changes_def change_of_def List.map_filter_def split: env_what.split)

lemma changes_state [simp]:
  "changes (en_events (set_gantry_state s e)) = changes (en_events e) @ (if s = en_state e then [] else [(en_state e, s)])"
  by (simp add: set_gantry_state_def)

lemma events_frame [simp]:
  "en_events (count_part e) = en_events e" "en_events (count_cycle good e) = en_events e" "en_events (add_env_log sv c e) = en_events e"
  by (simp_all add: count_part_def count_cycle_def add_env_log_def split: option.split)

text \<open>What a part of a step may do to the state: stay, or take one edge and tell it.\<close>

definition follows :: "'r env \<Rightarrow> 'r env \<Rightarrow> bool" where
  "follows e e' \<longleftrightarrow>
     changes (en_events e') = changes (en_events e) @ (if en_state e' = en_state e then [] else [(en_state e, en_state e')])
     \<and> (en_state e' = en_state e \<or> (en_state e, en_state e') \<in> set gantry_edges)
     \<and> (en_cycles e' = en_cycles e \<or> en_cycles e' = en_cycles e + 1 \<and> en_state e \<in> {GS_Pick, GS_Place} \<and> en_state e' = GS_Idle)
     \<and> (en_good e' = en_good e \<or> en_good e' = en_good e + 1 \<and> en_state e = GS_Place \<and> en_cycles e' = en_cycles e + 1)"

lemma follows_refl [simp]: "follows e e"
  by (simp add: follows_def)

lemma follows_from:
  assumes "follows e1 e'" and "en_events e1 = en_events e" and "en_state e1 = en_state e" and "en_cycles e1 = en_cycles e" and "en_good e1 = en_good e"
  shows "follows e e'"
  using assms by (simp add: follows_def)

lemma good_count_cycle [simp]: "en_good (count_cycle good e) = (if good then en_good e + 1 else en_good e)"
  by (simp add: count_cycle_def)

lemma follows_finish:
  assumes "en_part e = Some part" and "en_state e = GS_Place \<or> en_state e = GS_Pick \<and> \<not> good"
  shows "follows e (finish_cycle good reason e)"
  using assms
  by (auto simp: finish_cycle_eq [OF assms(1)] Let_def follows_def gantry_edges_def split: if_splits)

lemma follows_work:
  assumes "en_part e = Some part"
  shows "follows e (work_part random effects part recipe e)"
proof -
  have "follows e (pick_done effects e)" if "en_state e = GS_Pick"
  proof (cases "me_failed_pick effects")
    case True
    show ?thesis unfolding pick_done_def if_P [OF True]
      by (rule follows_from [OF follows_finish [of _ part]]) (use that assms in \<open>simp_all add: add_env_log_def\<close>)
  qed (use that in \<open>simp add: pick_done_def follows_def gantry_edges_def\<close>)
  moreover have "follows e (inspection_done random part e)" if "en_state e = GS_Inspect"
    using that by (simp add: inspection_done_def Let_def follows_def gantry_edges_def split: prod.split)
  moreover have "follows e (finish_cycle good reason e)" if "en_state e = GS_Place" for good reason
    using that assms by (simp add: follows_finish)
  ultimately show ?thesis
    by (auto simp: work_part_def) (auto simp: follows_def gantry_edges_def)
qed

lemma follows_advance:
  assumes "gantry_ok cf e" and "advance_sequence random cf effects e = Inr e'"
  shows "follows e e'"
proof -
  have "follows e (maintenance_step cf e)" if "0 < en_maintenance_left e"
    using that assms(1) by (auto simp: maintenance_step_def Let_def follows_def gantry_edges_def gantry_ok_def work_ok_def)
  moreover have "follows e (maintenance_start cf e)" if "en_state e = GS_Idle"
    using that by (simp add: maintenance_start_def follows_def gantry_edges_def)
  moreover have "follows e (start_cycle cf e)" if "en_state e = GS_Idle"
    using that by (simp add: start_cycle_def follows_def gantry_edges_def Let_def split: list.split)
  ultimately show ?thesis
    using assms(2) follows_work
    by (auto simp: advance_sequence_def py_bind_Inr_iff split: if_splits option.splits)
qed

lemma arrival_frame [simp]:
  "en_state (select_order e) = en_state e" "en_cycles (select_order e) = en_cycles e" "en_good (select_order e) = en_good e"
  "en_part (select_order e) = en_part e" "en_queue (select_order e) = en_queue e" "en_maintenance_left (select_order e) = en_maintenance_left e"
  "en_orders (select_order e) = en_orders e" "changes (en_events (select_order e)) = changes (en_events e)"
  "en_state (arrive cf p e) = en_state e" "en_cycles (arrive cf p e) = en_cycles e" "en_good (arrive cf p e) = en_good e"
  "en_part (arrive cf p e) = en_part e" "en_maintenance_left (arrive cf p e) = en_maintenance_left e"
  "en_next_maintenance (select_order e) = en_next_maintenance e" "en_time (select_order e) = en_time e"
  "en_next_maintenance (arrive cf p e) = en_next_maintenance e" "en_time (arrive cf p e) = en_time e"
  "en_orders (arrive cf p e) = en_orders e" "changes (en_events (arrive cf p e)) = changes (en_events e)"
  by (simp_all add: select_order_def arrive_def Let_def split: option.split)

definition same_work :: "'r env \<Rightarrow> 'r env \<Rightarrow> bool" where
  "same_work e e' \<longleftrightarrow> en_state e' = en_state e \<and> en_cycles e' = en_cycles e \<and> en_good e' = en_good e \<and> en_part e' = en_part e
     \<and> en_maintenance_left e' = en_maintenance_left e \<and> en_next_maintenance e' = en_next_maintenance e \<and> en_time e' = en_time e
     \<and> changes (en_events e') = changes (en_events e)"

lemma generate_arrivals_same:
  assumes "generate_arrivals expovariate cf e = Inr e'"
  shows "same_work e e'"
  using arrivals_loop_keeps [of "\<lambda>_. same_work e" cf e expovariate e'] assms
  by (simp add: generate_arrivals_def same_work_def)

lemma same_work_moved:
  assumes "same_work e e1" and "move_axes cf effects payload (e1\<lparr>en_rng := r\<rparr>) = Inr e3"
  shows "same_work e e3"
  by (rule move_axes_moves [OF assms(2)]) (use assms(1) in \<open>simp add: same_work_def\<close>)

text \<open>
  C21. Every step of the simulated machine stays in its state or takes one edge of the production sequence, and the
  events of the step tell exactly that change: a part is picked, inspected and placed in this order, a cycle
  ends only from pick or place into idle, and a part is good only when it was placed.
\<close>

theorem gantry_follows_sequence:
  assumes "gantry_run random expovariate cf scenarios e" and "env_step random expovariate cf scenarios e = Inr (out, e')"
  shows "changes (so_events out) = (if en_state e' = en_state e then [] else [(en_state e, en_state e')])
    \<and> (en_state e' \<noteq> en_state e \<longrightarrow> (en_state e, en_state e') \<in> set gantry_edges)
    \<and> (en_cycles e' \<noteq> en_cycles e \<longrightarrow> en_cycles e' = en_cycles e + 1 \<and> en_state e \<in> {GS_Pick, GS_Place} \<and> en_state e' = GS_Idle)
    \<and> (en_good e' \<noteq> en_good e \<longrightarrow> en_good e' = en_good e + 1 \<and> en_state e = GS_Place \<and> en_cycles e' = en_cycles e + 1)"
proof (rule env_step_parts [OF assms(2)])
  fix e1 effects r payload e3 e4
  assume arrivals: "generate_arrivals expovariate cf (e\<lparr>en_events := [], en_logs := []\<rparr>) = Inr e1"
    and moved: "move_axes cf effects payload (e1\<lparr>en_rng := r\<rparr>) = Inr e3" and advanced: "advance_sequence random cf effects e3 = Inr e4"
    and out: "out = \<lparr>so_telemetry = telemetry_of payload (check_following e4),
       so_events = en_events e4, so_logs = en_logs (check_following e4),
       so_publish_due = (en_next_publish e4 \<le> en_time e4),
       so_states = map (\<lambda>sc. scenario_state_at sc (en_time e1) (cf_duration cf)) scenarios\<rparr>"
    and e': "e' = (check_following e4)
       \<lparr>en_next_publish := (if en_next_publish e4 \<le> en_time e4 then en_next_publish e4 + cf_network_period cf else en_next_publish e4),
        en_time := en_time e4 + cf_dt cf, en_elapsed := en_elapsed e4 + cf_dt cf, en_step_index := en_step_index e4 + 1\<rparr>"
  have "gantry_ok cf (e\<lparr>en_events := [], en_logs := []\<rparr>)" using gantry_run_ok [OF assms(1)] by simp
  from generate_arrivals_ok [OF this arrivals] have "gantry_ok cf (e1\<lparr>en_rng := r\<rparr>)" by simp
  from follows_advance [OF move_axes_ok [OF this moved] advanced] have "follows e3 e4" .
  moreover have "same_work (e\<lparr>en_events := [], en_logs := []\<rparr>) e3"
    by (rule same_work_moved [OF generate_arrivals_same [OF arrivals] moved])
  ultimately show ?thesis
    unfolding e' out by (auto simp: follows_def same_work_def split: if_splits)
qed

section \<open>When a step returns\<close>

text \<open>Every part at hand comes from an order.\<close>

definition from_orders :: "'r env \<Rightarrow> bool" where
  "from_orders e \<longleftrightarrow> (\<forall>part \<in> set (parts_of e). \<exists>order \<in> set (en_orders e). pt_product_id part = eo_product_id order \<and> pt_order_id part = eo_order_id order)
     \<and> (\<forall>i. en_active e = Some i \<longrightarrow> i < length (en_orders e))"

lemma order_list_update:
  assumes "i < length (orders :: env_order list)"
  shows "(\<exists>order \<in> set (orders[i := (orders ! i)\<lparr>eo_produced := n\<rparr>]). a = eo_product_id order \<and> b = eo_order_id order)
    \<longleftrightarrow> (\<exists>order \<in> set orders. a = eo_product_id order \<and> b = eo_order_id order)"
proof -
  have "map (\<lambda>order. (eo_product_id order, eo_order_id order)) (orders[i := (orders ! i)\<lparr>eo_produced := n\<rparr>])
      = map (\<lambda>order. (eo_product_id order, eo_order_id order)) orders"
    using assms by (simp add: map_update list_update_same_conv)
  from arg_cong [OF this, of set] have "(a, b) \<in> (\<lambda>order. (eo_product_id order, eo_order_id order)) ` set (orders[i := (orders ! i)\<lparr>eo_produced := n\<rparr>])
      \<longleftrightarrow> (a, b) \<in> (\<lambda>order. (eo_product_id order, eo_order_id order)) ` set orders"
    by (simp only: set_map)
  then show ?thesis by (auto simp: image_iff)
qed

lemma from_orders_frame [simp]:
  "from_orders (e\<lparr>en_events := ev\<rparr>) = from_orders e" "from_orders (e\<lparr>en_logs := l\<rparr>) = from_orders e"
  "from_orders (e\<lparr>en_rng := r\<rparr>) = from_orders e" "from_orders (e\<lparr>en_next_arrival := t\<rparr>) = from_orders e"
  "from_orders (add_env_event w e) = from_orders e" "from_orders (add_env_log sv c e) = from_orders e"
  "from_orders (set_gantry_state s e) = from_orders e" "from_orders (e\<lparr>en_x := x, en_y := y\<rparr>) = from_orders e"
  "from_orders (e\<lparr>en_cycle_id := cid\<rparr>) = from_orders e" "from_orders (e\<lparr>en_last_product := p\<rparr>) = from_orders e"
  "from_orders (e\<lparr>en_maintenance_left := m\<rparr>) = from_orders e" "from_orders (e\<lparr>en_next_maintenance := m\<rparr>) = from_orders e"
  by (simp_all add: from_orders_def parts_of_def add_env_event_def add_env_log_def set_gantry_state_def)

lemma select_order_from: "from_orders e \<Longrightarrow> from_orders (select_order e)"
  by (auto simp: select_order_def Let_def from_orders_def parts_of_def add_env_event_def dest: first_needing_length split: option.splits)

lemma arrive_from: "from_orders e \<Longrightarrow> en_active e = Some i \<Longrightarrow> from_orders (arrive cf (en_orders e ! i) e)"
  by (force simp: arrive_def Let_def from_orders_def parts_of_def add_env_event_def split: option.splits)

lemma generate_arrivals_from:
  assumes "from_orders e" and "generate_arrivals expovariate cf e = Inr e'"
  shows "from_orders e'"
  using assms arrivals_loop_keeps [of "\<lambda>_. from_orders" cf e expovariate e']
  by (simp add: generate_arrivals_def select_order_from arrive_from)

lemma from_orders_fewer:
  assumes "from_orders e" and "en_orders e' = en_orders e" and "en_active e' = en_active e"
    and "\<And>part. part \<in> set (parts_of e') \<Longrightarrow> \<exists>part' \<in> set (parts_of e). pt_product_id part = pt_product_id part' \<and> pt_order_id part = pt_order_id part'"
  shows "from_orders e'"
  using assms by (fastforce simp: from_orders_def)

lemma count_part_from:
  assumes "from_orders e"
  shows "from_orders (count_part e)"
proof (cases "en_active e")
  case (Some i)
  then have i: "i < length (en_orders e)" using assms by (simp add: from_orders_def)
  then show ?thesis
    using assms Some by (simp add: from_orders_def count_part_def parts_of_def order_list_update [OF i])
qed (use assms in \<open>simp add: count_part_def\<close>)

lemma finish_cycle_from:
  assumes "from_orders e"
  shows "from_orders (finish_cycle good reason e)"
proof (cases "en_part e")
  case (Some part)
  have "from_orders (count_cycle good e)"
    by (rule from_orders_fewer [OF assms]) (auto simp: parts_of_def)
  then have "from_orders (add_env_event w (count_part (count_cycle good e)))" for w by (simp add: count_part_from)
  then have "from_orders ((add_env_event w (count_part (count_cycle good e)))\<lparr>en_part := None\<rparr>)" for w
    by (rule from_orders_fewer) (auto simp: parts_of_def)
  then show ?thesis unfolding finish_cycle_eq [OF Some] Let_def by simp
qed (use assms in \<open>simp add: finish_cycle_def\<close>)

lemma start_cycle_from:
  assumes "from_orders e" and "en_part e = None"
  shows "from_orders (start_cycle cf e)"
proof (cases "en_queue e")
  case (Cons part queue)
  have "from_orders (e\<lparr>en_queue := queue, en_part := Some part\<rparr>)"
    by (rule from_orders_fewer [OF assms(1)]) (auto simp: parts_of_def assms(2) Cons)
  then have "from_orders (e\<lparr>en_queue := queue, en_part := Some part, en_cycle_id := cid\<rparr>)" for cid by simp
  then show ?thesis by (simp add: start_cycle_def Cons Let_def)
qed (use assms in \<open>simp add: start_cycle_def\<close>)

lemma work_part_from:
  assumes "from_orders e" and "en_part e = Some part"
  shows "from_orders (work_part random effects part recipe e)"
proof -
  have "from_orders (e\<lparr>en_rng := r, en_part := Some (part\<lparr>pt_score := s\<rparr>)\<rparr>)" for r s
    by (rule from_orders_fewer [OF assms(1)]) (auto simp: parts_of_def assms(2))
  then have "from_orders (inspection_done random part e)"
    by (simp add: inspection_done_def Let_def split: prod.split)
  moreover have "from_orders (e\<lparr>en_failed_picks := f, en_rework := n\<rparr>)" for f n
    by (rule from_orders_fewer [OF assms(1)]) (auto simp: parts_of_def)
  then have "from_orders (pick_done effects e)"
    using assms(1) by (simp add: pick_done_def finish_cycle_from)
  ultimately show ?thesis
    using assms(1) by (simp add: work_part_def finish_cycle_from)
qed

lemma maintenance_from:
  assumes "from_orders e"
  shows "from_orders (maintenance_step cf e)" "from_orders (maintenance_start cf e)"
  using assms by (simp_all add: maintenance_step_def maintenance_start_def Let_def)

lemma advance_sequence_from:
  assumes "from_orders e" and "gantry_ok cf e" and "advance_sequence random cf effects e = Inr e'"
  shows "from_orders e'"
proof -
  have "en_part e = None" if "en_state e = GS_Idle" using that assms(2) by (simp add: gantry_ok_def work_ok_def)
  then show ?thesis
    using assms(1,3) start_cycle_from work_part_from maintenance_from
    by (auto simp: advance_sequence_def py_bind_Inr_iff split: if_splits option.splits)
qed

lemma gantry_run_from: "gantry_run random expovariate cf scenarios e \<Longrightarrow> from_orders e"
proof (induction rule: gantry_run.induct)
  case (gantry_start to_float to_int str manifest rng episode_id e)
  then show ?case using new_environment_fields(1) [OF gantry_start] by (simp add: from_orders_def parts_of_def)
next
  case (gantry_step e out e')
  show ?case
  proof (rule env_step_parts [OF gantry_step(2)])
    fix e1 effects r payload e3 e4
    assume arrivals: "generate_arrivals expovariate cf (e\<lparr>en_events := [], en_logs := []\<rparr>) = Inr e1"
      and moved: "move_axes cf effects payload (e1\<lparr>en_rng := r\<rparr>) = Inr e3" and advanced: "advance_sequence random cf effects e3 = Inr e4"
      and e': "e' = (check_following e4)
       \<lparr>en_next_publish := (if en_next_publish e4 \<le> en_time e4 then en_next_publish e4 + cf_network_period cf else en_next_publish e4),
        en_time := en_time e4 + cf_dt cf, en_elapsed := en_elapsed e4 + cf_dt cf, en_step_index := en_step_index e4 + 1\<rparr>"
    have "gantry_ok cf (e\<lparr>en_events := [], en_logs := []\<rparr>)" "from_orders (e\<lparr>en_events := [], en_logs := []\<rparr>)"
      using gantry_run_ok [OF gantry_step(1)] gantry_step(3) by simp_all
    from generate_arrivals_ok [OF this(1) arrivals] generate_arrivals_from [OF this(2) arrivals]
    have ok: "gantry_ok cf (e1\<lparr>en_rng := r\<rparr>)" "from_orders (e1\<lparr>en_rng := r\<rparr>)" by simp_all
    have "from_orders e3" by (rule move_axes_moves [OF moved]) (use ok(2) in simp)
    from advance_sequence_from [OF this move_axes_ok [OF ok(1) moved] advanced] have "from_orders e4" .
    then show "from_orders e'" unfolding e' by (simp add: check_following_def from_orders_def parts_of_def add_env_log_def)
  qed
qed

section \<open>Steps return\<close>

lemma arrivals_loop_returns: "cf_mean_arrival cf \<noteq> 0 \<Longrightarrow> \<exists>e'. arrivals_loop expovariate cf e = Inr e'"
proof (induction expovariate cf e rule: arrivals_loop.induct)
  case (1 expovariate cf e)
  show ?case
  proof (cases "en_time e < en_next_arrival e")
    case False
    show ?thesis
    proof (cases "en_active (select_order e)")
      case (Some i)
      let ?e1 = "select_order e"
      let ?e2 = "arrive cf (en_orders ?e1 ! i) ?e1"
      obtain x r where x: "expovariate (1 / cf_mean_arrival cf) (en_rng ?e2) = (x, r)" by fastforce
      from 1(1) [OF False refl Some refl 1(2) x [symmetric] refl 1(2)] show ?thesis
        using False Some x 1(2) by (simp add: arrivals_loop.simps [of expovariate cf e] Let_def)
    qed (use False in \<open>simp add: arrivals_loop.simps [of expovariate cf e] Let_def\<close>)
  qed (simp add: arrivals_loop.simps [of expovariate cf e])
qed

text \<open>What the manifest has to give: a recipe with a possible payload for every product that is ordered.\<close>

definition makeable :: "env_config \<Rightarrow> 'r env \<Rightarrow> bool" where
  "makeable cf e \<longleftrightarrow> (\<forall>order \<in> set (en_orders e). \<exists>recipe. cf_recipes cf (eo_product_id order) = Some recipe \<and> servo_mass (pc_payload recipe) \<noteq> 0)"

lemma update_servo_returns: "dt \<noteq> 0 \<Longrightarrow> servo_mass payload \<noteq> 0 \<Longrightarrow> \<exists>a'. update_servo dt target payload friction authority a = Inr a'"
  by (simp add: update_servo_def Let_def)

lemma part_recipe:
  assumes "from_orders e" and "makeable cf e" and "en_part e = Some part"
  obtains recipe where "recipe_of cf part = Inr recipe" "servo_mass (pc_payload recipe) \<noteq> 0"
proof -
  have "part \<in> set (parts_of e)" using assms(3) by (simp add: parts_of_def)
  then obtain order where "order \<in> set (en_orders e)" "pt_product_id part = eo_product_id order"
    using assms(1) by (auto simp: from_orders_def)
  with assms(2) that show thesis by (auto simp: makeable_def recipe_of_def)
qed

lemma payload_returns:
  assumes "from_orders e" and "makeable cf e"
  shows "\<exists>payload target. payload_of cf e = Inr payload \<and> servo_mass payload \<noteq> 0 \<and> gantry_target cf e = Inr target"
proof (cases "en_part e")
  case None
  then show ?thesis by (simp add: payload_of_def gantry_target_def servo_mass_def)
next
  case (Some part)
  then obtain recipe where "recipe_of cf part = Inr recipe" "servo_mass (pc_payload recipe) \<noteq> 0"
    using part_recipe [OF assms] by blast
  with Some show ?thesis by (simp add: payload_of_def gantry_target_def)
qed

lemma env_step_returns:
  assumes "from_orders e" and "makeable cf e" and "cf_dt cf \<noteq> 0" and "cf_mean_arrival cf \<noteq> 0"
  shows "\<exists>out e'. env_step random expovariate cf scenarios e = Inr (out, e')"
proof -
  let ?e0 = "e\<lparr>en_events := [], en_logs := []\<rparr>"
  obtain e1 where e1: "generate_arrivals expovariate cf ?e0 = Inr e1"
    using arrivals_loop_returns [OF assms(4), of expovariate ?e0] unfolding generate_arrivals_def by blast
  have same: "en_orders e1 = en_orders e"
    using arrivals_loop_keeps [of "\<lambda>_ e1. en_orders e1 = en_orders e" cf ?e0 expovariate e1] e1 by (simp add: generate_arrivals_def)
  obtain effects r where eff: "machine_effects_of random (en_state e1 = GS_Pick) (en_time e1) (en_rng e1)
      (map (\<lambda>sc. scenario_state_at sc (en_time e1) (cf_duration cf)) scenarios) = (effects, r)" by fastforce
  let ?e2 = "e1\<lparr>en_rng := r\<rparr>"
  have from2: "from_orders ?e2" using generate_arrivals_from [OF _ e1] assms(1) by simp
  have make2: "makeable cf ?e2" using assms(2) same by (simp add: makeable_def)
  obtain payload tx ty where p: "payload_of cf ?e2 = Inr payload" "servo_mass payload \<noteq> 0" "gantry_target cf ?e2 = Inr (tx, ty)"
    using payload_returns [OF from2 make2] by force
  obtain x y where e3: "move_axes cf effects payload ?e2 = Inr (?e2\<lparr>en_x := x, en_y := y\<rparr>)"
    using p update_servo_returns [OF assms(3) p(2)] unfolding move_axes_def p(3) py_bind_simps prod.case by (metis py_bind_simps(2))
  have "\<exists>e4. advance_sequence random cf effects (?e2\<lparr>en_x := x, en_y := y\<rparr>) = Inr e4"
  proof (cases "en_part e1")
    case (Some part)
    then obtain recipe where "recipe_of cf part = Inr recipe" using part_recipe [OF from2 make2, of part] by auto
    then show ?thesis using Some by (simp add: advance_sequence_def)
  qed (simp add: advance_sequence_def)
  then show ?thesis using e1 eff p(1) e3 by (auto simp: env_step_def Let_def)
qed

text \<open>
  C22. A step of the simulated machine returns from every state of a run, whatever the scenarios and the draws, when the
  step and the mean interval of arrivals are not zero and every ordered product has a recipe of possible mass: the loop that
  generates arrivals ends, no recipe is missing and nothing is divided by zero.
\<close>

theorem gantry_step_returns:
  assumes "gantry_run random expovariate cf scenarios e" and "cf_dt cf \<noteq> 0" and "cf_mean_arrival cf \<noteq> 0"
    and "\<And>order. order \<in> set (en_orders e) \<Longrightarrow>
      \<exists>recipe. cf_recipes cf (eo_product_id order) = Some recipe \<and> 1 + pc_payload recipe * (35 / 100) \<noteq> 0"
  shows "\<exists>out e'. env_step random expovariate cf scenarios e = Inr (out, e')"
  using env_step_returns [OF gantry_run_from [OF assms(1)] _ assms(2,3)] assms(4) by (simp add: makeable_def servo_mass_def)

section \<open>A maintenance without duration\<close>

inductive gantry_steps ::
  "('r \<Rightarrow> real \<times> 'r) \<Rightarrow> (real \<Rightarrow> 'r \<Rightarrow> real \<times> 'r) \<Rightarrow> env_config \<Rightarrow> scenario list \<Rightarrow> 'r env \<Rightarrow> 'r env \<Rightarrow> bool"
  for random :: "'r \<Rightarrow> real \<times> 'r" and expovariate :: "real \<Rightarrow> 'r \<Rightarrow> real \<times> 'r" and cf :: env_config and scenarios :: "scenario list" where
  gantry_steps_refl: "gantry_steps random expovariate cf scenarios e e"
| gantry_steps_step: "gantry_steps random expovariate cf scenarios e e' \<Longrightarrow> env_step random expovariate cf scenarios e' = Inr (out, e'')
    \<Longrightarrow> gantry_steps random expovariate cf scenarios e e''"

definition stuck :: "nat \<Rightarrow> 'r env \<Rightarrow> bool" where
  "stuck n e \<longleftrightarrow> en_state e = GS_Maintenance \<and> en_maintenance_left e \<le> 0 \<and> en_part e = None \<and> en_cycles e = n"

text \<open>A step in terms of its last part.\<close>

lemma env_step_last:
  assumes "env_step random expovariate cf scenarios e = Inr (out, e')"
  obtains effects e3 e4 where "same_work (e\<lparr>en_events := [], en_logs := []\<rparr>) e3" "advance_sequence random cf effects e3 = Inr e4"
    "en_state e' = en_state e4" "en_maintenance_left e' = en_maintenance_left e4" "en_part e' = en_part e4" "en_cycles e' = en_cycles e4"
  using assms by (rule env_step_parts) (rule that, rule same_work_moved [OF generate_arrivals_same], simp_all)

lemma stuck_step:
  assumes "stuck n e" and "env_step random expovariate cf scenarios e = Inr (out, e')"
  shows "stuck n e'"
  by (rule env_step_last [OF assms(2)]) (use assms(1) in \<open>simp add: stuck_def same_work_def advance_sequence_def\<close>)

lemma empty_maintenance_stuck:
  assumes "gantry_ok cf e" and "cf_maintenance_duration cf \<le> 0" and "en_state e = GS_Idle" and "en_next_maintenance e \<le> en_time e"
    and "env_step random expovariate cf scenarios e = Inr (out, e')"
  shows "stuck (en_cycles e) e'"
proof -
  have idle: "en_part e = None" "\<not> 0 < en_maintenance_left e"
    using assms(1,3) by (auto simp: gantry_ok_def work_ok_def)
  show ?thesis
    by (rule env_step_last [OF assms(5)])
      (use idle assms(2-4) in \<open>auto simp: stuck_def same_work_def advance_sequence_def maintenance_start_def\<close>)
qed

text \<open>
  C39. A maintenance whose configured duration is zero never ends: once it starts, in an idle machine when it is due, the
  machine stays in maintenance and completes no further cycle, in every continuation of the run.
\<close>

theorem empty_maintenance_blocks:
  assumes "gantry_run random expovariate cf scenarios e" and "cf_maintenance_duration cf \<le> 0"
    and "en_state e = GS_Idle" and "en_next_maintenance e \<le> en_time e"
    and "env_step random expovariate cf scenarios e = Inr (out, e')" and "gantry_steps random expovariate cf scenarios e' e''"
  shows "en_state e'' = GS_Maintenance \<and> en_part e'' = None \<and> en_cycles e'' = en_cycles e"
proof -
  have "stuck (en_cycles e) e'" by (rule empty_maintenance_stuck [OF gantry_run_ok [OF assms(1)] assms(2-5)])
  with assms(6) have "stuck (en_cycles e) e''"
    by (induction rule: gantry_steps.induct) (auto intro: stuck_step)
  then show ?thesis by (simp add: stuck_def)
qed

section \<open>A concrete machine\<close>

definition demo_production :: json where
  "demo_production = JObj ((''production'', JObj [(''maintenance_interval_s'', JNum 0), (''maintenance_duration_s'', JNum 0)]) # demo_manifest)"

definition demo_gantry :: "py_exn + (env_config \<times> nat env)" where
  "demo_gantry = new_environment (\<lambda>_. Inl []) (\<lambda>_. Inl []) demo_str demo_production 0 ''EP''"

definition demo_uniform :: "nat \<Rightarrow> real \<times> nat" where
  "demo_uniform n = (1 / 2, n + 1)"

definition demo_interval :: "real \<Rightarrow> nat \<Rightarrow> real \<times> nat" where
  "demo_interval rate n = (1, n + 1)"

lemma demo_gantry_starts:
  "\<exists>cf e. demo_gantry = Inr (cf, e) \<and> cf_dt cf = 20 / 1000 \<and> cf_mean_arrival cf = 8 / 10 \<and> cf_maintenance_duration cf = 0
    \<and> makeable cf e \<and> en_next_maintenance e = 0"
  by (simp add: demo_gantry_def demo_production_def demo_manifest_def new_environment_def py_item_def get_float_def get_int_def py_get_def
      py_float_def py_int_def py_trunc_def build_orders_def build_recipes_def items_or_def py_truthy_def default_orders_def
      default_products_def build_order_def build_recipe_def demo_str_def makeable_def servo_mass_def numeral_2_eq_2)

text \<open>Its first step, from the idle state at time zero, starts the maintenance.\<close>

lemma demo_first_step:
  obtains cf e out e' where "gantry_run demo_uniform demo_interval cf [] e" "env_step demo_uniform demo_interval cf [] e = Inr (out, e')"
    "cf_dt cf \<noteq> 0" "cf_mean_arrival cf \<noteq> 0" "cf_maintenance_duration cf \<le> 0" "makeable cf e" "en_state e = GS_Idle"
    "en_next_maintenance e \<le> en_time e" "en_cycles e = 0"
proof -
  obtain cf e where g: "demo_gantry = Inr (cf, e)" "cf_dt cf = 20 / 1000" "cf_mean_arrival cf = 8 / 10"
      "cf_maintenance_duration cf = 0" "makeable cf e" "en_next_maintenance e = 0"
    using demo_gantry_starts by blast
  note fields = new_environment_fields(1) [OF g(1) [unfolded demo_gantry_def]]
  have run: "gantry_run demo_uniform demo_interval cf [] e" using g(1) unfolding demo_gantry_def by (rule gantry_start)
  have "cf_dt cf \<noteq> 0" "cf_mean_arrival cf \<noteq> 0" using g by simp_all
  from env_step_returns [OF gantry_run_from [OF run] g(5) this] obtain out e'
    where "env_step demo_uniform demo_interval cf [] e = Inr (out, e')" by blast
  then show thesis using that run g fields by simp
qed

lemma gantry_accounts_witness:
  "\<exists>cf (e :: nat env) out e'. env_step demo_uniform demo_interval cf [] e = Inr (out, e') \<and> en_cycles e' = en_good e' + en_rejected e'
    \<and> map pt_part_id (parts_of e') = map (part_name cf) [en_cycles e' + 1..<en_arrivals e' + 1]"
proof (rule demo_first_step)
  fix cf e out e'
  assume run: "gantry_run demo_uniform demo_interval cf [] e" and s: "env_step demo_uniform demo_interval cf [] e = Inr (out, e')"
  from gantry_accounts [OF gantry_step [OF run s]] s show ?thesis by blast
qed

lemma gantry_follows_sequence_witness:
  "\<exists>(out :: step_output) (e :: nat env) (e' :: nat env). en_state e = GS_Idle \<and> en_state e' = GS_Maintenance \<and> changes (so_events out) = [(GS_Idle, GS_Maintenance)]"
proof (rule demo_first_step)
  fix cf e out e'
  assume run: "gantry_run demo_uniform demo_interval cf [] e" and s: "env_step demo_uniform demo_interval cf [] e = Inr (out, e')"
    and m: "cf_maintenance_duration cf \<le> 0" "en_state e = GS_Idle" "en_next_maintenance e \<le> en_time e"
  have "en_state e' = GS_Maintenance"
    using empty_maintenance_stuck [OF gantry_run_ok [OF run] m s] by (simp add: stuck_def)
  with gantry_follows_sequence [OF run s] m(2) show ?thesis by auto
qed

lemma gantry_step_returns_witness:
  "\<exists>cf (e :: nat env) out e'. en_state e = GS_Idle \<and> env_step demo_uniform demo_interval cf [] e = Inr (out, e')"
proof (rule demo_first_step)
  fix cf e
  assume "gantry_run demo_uniform demo_interval cf [] e" and "cf_dt cf \<noteq> 0" and "cf_mean_arrival cf \<noteq> 0" and "makeable cf e"
    and "en_state e = GS_Idle"
  with gantry_step_returns [of demo_uniform demo_interval cf "[]" e] show ?thesis
    unfolding makeable_def servo_mass_def by blast
qed

lemma empty_maintenance_blocks_witness:
  "\<exists>cf (e :: nat env) out e'. en_state e = GS_Idle \<and> env_step demo_uniform demo_interval cf [] e = Inr (out, e')
    \<and> en_state e' = GS_Maintenance \<and> en_cycles e' = 0"
proof (rule demo_first_step)
  fix cf e out e'
  assume "gantry_run demo_uniform demo_interval cf [] e" and "env_step demo_uniform demo_interval cf [] e = Inr (out, e')"
    and "cf_maintenance_duration cf \<le> 0" and "en_state e = GS_Idle" and "en_next_maintenance e \<le> en_time e" and "en_cycles e = 0"
  with empty_maintenance_blocks [of demo_uniform demo_interval cf "[]" e out e' e'] gantry_steps_refl show ?thesis by metis
qed

end
