(* ===== verification/ExperimentLaws.thy ===== *)
theory ExperimentLaws
  imports Experiment EnvironmentLaws CaptureLaws "HOL-Library.Sublist"
begin

text \<open>
  What an experiment that finishes has recorded: the telemetry of every step of every episode, the messages among
  them, the process data of the messages, and the capture file.
\<close>

section \<open>The clock of a step\<close>

definition same_clock :: "'r env \<Rightarrow> 'r env \<Rightarrow> bool" where
  "same_clock e e' \<longleftrightarrow> en_time e' = en_time e \<and> en_step_index e' = en_step_index e"

lemma same_clock_ops [simp]:
  "same_clock e0 (e\<lparr>en_x := x, en_y := y\<rparr>) = same_clock e0 e" "same_clock e0 (add_env_event w e) = same_clock e0 e"
  "same_clock e0 (add_env_log sv c e) = same_clock e0 e" "same_clock e0 (set_gantry_state s e) = same_clock e0 e"
  "same_clock e0 (e\<lparr>en_rng := r\<rparr>) = same_clock e0 e" "same_clock e0 (select_order e) = same_clock e0 e"
  "same_clock e0 (arrive cf p e) = same_clock e0 e" "same_clock e0 (finish_cycle good reason e) = same_clock e0 e"
  "same_clock e0 (maintenance_step cf e) = same_clock e0 e" "same_clock e0 (maintenance_start cf e) = same_clock e0 e"
  "same_clock e0 (start_cycle cf e) = same_clock e0 e" "same_clock e0 (check_following e) = same_clock e0 e"
  by (simp_all add: same_clock_def add_env_event_def add_env_log_def set_gantry_state_def select_order_def arrive_def finish_cycle_def
      maintenance_step_def maintenance_start_def start_cycle_def check_following_def Let_def split: option.split list.split)

lemma same_clock_work [simp]: "same_clock e0 (work_part random effects part recipe e) = same_clock e0 e"
proof -
  have "same_clock e0 (pick_done effects e) = same_clock e0 e"
    by (simp add: pick_done_def) (simp add: same_clock_def)
  moreover have "same_clock e0 (inspection_done random part e) = same_clock e0 e"
    by (simp add: inspection_done_def Let_def split: prod.split) (simp add: same_clock_def)
  moreover have "same_clock e0 (e\<lparr>en_last_product := p\<rparr>) = same_clock e0 e" for p by (simp add: same_clock_def)
  ultimately show ?thesis by (simp add: work_part_def)
qed

lemma env_step_row:
  assumes "env_step random expovariate cf scenarios e = Inr (out, e')"
  shows "tl_step_index (so_telemetry out) = en_step_index e \<and> tl_time (so_telemetry out) = nanoseconds (en_time e)
    \<and> tl_state (so_telemetry out) = en_state e' \<and> en_time e' = en_time e + cf_dt cf \<and> en_step_index e' = en_step_index e + 1"
proof (rule env_step_parts [OF assms])
  fix e1 effects r payload e3 e4
  assume arrivals: "generate_arrivals expovariate cf (e\<lparr>en_events := [], en_logs := []\<rparr>) = Inr e1"
    and moved: "move_axes cf effects payload (e1\<lparr>en_rng := r\<rparr>) = Inr e3" and advanced: "advance_sequence random cf effects e3 = Inr e4"
    and out: "out = \<lparr>so_telemetry = telemetry_of payload (check_following e4),
       so_events = en_events e4, so_logs = en_logs (check_following e4),
       so_publish_due = (en_next_publish e4 \<le> en_time e4),
       so_states = map (\<lambda>sc. scenario_state_at sc (en_time e1) (cf_duration cf)) scenarios\<rparr>"
    and e': "e' = (check_following e4)
       \<lparr>en_next_publish := (if en_next_publish e4 \<le> en_time e4 then en_next_publish e4 + cf_network_period cf else en_next_publish e4),
        en_time := en_time e4 + cf_dt cf, en_elapsed := en_elapsed e4 + cf_dt cf, en_step_index := en_step_index e4 + 1\<rparr>"
  have "same_clock e e1"
  proof (rule arrivals_loop_keeps [where P = "\<lambda>_. same_clock e"])
    show "arrivals_loop expovariate cf (e\<lparr>en_events := [], en_logs := []\<rparr>) = Inr e1" using arrivals by (simp add: generate_arrivals_def)
  qed (simp_all, simp_all add: same_clock_def)
  then have "same_clock e e3" using move_axes_moves [OF moved] same_clock_ops by metis
  then have "same_clock e (check_following e4)"
    using advanced by (auto simp: advance_sequence_def py_bind_Inr_iff split: if_splits option.splits)
  moreover have "same_clock e4 (check_following e4)" by simp (simp add: same_clock_def)
  ultimately show ?thesis unfolding out e' by (simp add: same_clock_def telemetry_of_def)
qed

section \<open>The rows of an exchange\<close>

lemma exchange_rows:
  assumes "exchange random gauss episode_id s wall machine_state readings condition nw = (Inr u, nw')"
  shows "\<exists>m x y. nw_messages nw' = nw_messages nw @ [m] \<and> nw_pdos nw' = nw_pdos nw @ pdo_rows m [x, y] \<and> ms_simulation_time m = s
    \<and> axis_of readings machine_state ''x'' 1 = Inr x \<and> axis_of readings machine_state ''y'' 2 = Inr y"
proof -
  obtain axes request response expected where d: "exchange_data readings machine_state = Inr (axes, request, response, expected)"
    using assms by (cases "exchange_data readings machine_state") (auto simp: exchange_def Let_def split: prod.splits)
  then obtain x y where axes: "axes = [x, y]" "axis_of readings machine_state ''x'' 1 = Inr x" "axis_of readings machine_state ''y'' 2 = Inr y"
    by (auto simp: exchange_data_def py_bind_Inr_iff)
  from exchange_outcome [of readings machine_state s nw random gauss episode_id wall condition]
  have "exchange_left True s [x, y] nw (Inr u, nw')" by (simp add: d axes assms)
  then show ?thesis using axes by (auto simp: exchange_left_def)
qed

section \<open>The experiment\<close>

definition moment :: "nat \<times> telemetry_row \<Rightarrow> nat \<times> nat \<times> int" where
  "moment r = (fst r, tl_step_index (snd r), tl_time (snd r))"

text \<open>Every message has the process data of two axes, both enabled.\<close>

definition pdos_ok :: "'r network \<Rightarrow> bool" where
  "pdos_ok nw \<longleftrightarrow> (\<exists>axes. length axes = length (nw_messages nw) \<and> nw_pdos nw = concat (map2 pdo_rows (nw_messages nw) axes)
     \<and> (\<forall>as \<in> set axes. length as = 2 \<and> (\<forall>a \<in> set as. pd_controlword a = 15)))"

definition experiment_ok :: "'r draws \<Rightarrow> 'r experiment_run \<Rightarrow> bool" where
  "experiment_ok dr ex \<longleftrightarrow> network_run (dr_random dr) (dr_gauss dr) (ex_network ex) \<and> ex_total_steps ex = length (ex_telemetry ex)
     \<and> subseq (map ms_simulation_time (nw_messages (ex_network ex))) (map (tl_time \<circ> snd) (ex_telemetry ex)) \<and> pdos_ok (ex_network ex)"

lemma pdos_ok_exchange:
  assumes "pdos_ok nw" and "nw_messages nw' = nw_messages nw @ [m]" and "nw_pdos nw' = nw_pdos nw @ pdo_rows m [x, y]"
    and "pd_controlword x = 15" and "pd_controlword y = 15"
  shows "pdos_ok nw'"
proof -
  obtain axes where old: "length axes = length (nw_messages nw)" "nw_pdos nw = concat (map2 pdo_rows (nw_messages nw) axes)"
      "\<forall>as \<in> set axes. length as = 2 \<and> (\<forall>a \<in> set as. pd_controlword a = 15)"
    using assms(1) by (auto simp: pdos_ok_def)
  then show ?thesis
    unfolding pdos_ok_def using assms(2-5) by (intro exI [of _ "axes @ [[x, y]]"]) simp
qed

lemma axis_of_controlword:
  assumes "axis_of readings machine_state axis slave = Inr a" and "machine_state \<noteq> ''faulted''"
  shows "pd_controlword a = 15"
  using assms by (auto simp: axis_of_def py_bind_Inr_iff axis_pdo_from_values_def Let_def)

lemma gantry_state_name_faulted: "gantry_state_name s = ''faulted'' \<Longrightarrow> s = GS_Faulted"
  by (cases s) simp_all

lemma experiment_ok_record:
  assumes "experiment_ok dr ex"
  shows "experiment_ok dr (record_step episode cf wall out ex)"
  using assms by (auto simp: experiment_ok_def record_step_def Let_def)

lemma publish_exchange:
  assumes "publish to_float manifest dr cf wall out ex = Inr ex'"
  obtains condition u nw where "exchange (dr_random dr) (dr_gauss dr) (cf_episode_id cf) (tl_time (so_telemetry out)) wall
      (gantry_state_name (tl_state (so_telemetry out))) (readings_of (so_telemetry out)) condition (ex_network ex) = (Inr u, nw)"
    "ex' = ex\<lparr>ex_network := nw\<rparr>"
proof -
  obtain condition where condition: "network_condition_of to_float manifest (so_states out) = Inr condition"
    using assms unfolding publish_def py_bind_Inr_iff by (elim exE conjE)
  obtain r nw where r: "exchange (dr_random dr) (dr_gauss dr) (cf_episode_id cf) (tl_time (so_telemetry out)) wall
      (gantry_state_name (tl_state (so_telemetry out))) (readings_of (so_telemetry out)) condition (ex_network ex) = (r, nw)"
    by fastforce
  with assms condition that show thesis by (cases r) (simp_all add: publish_def)
qed

lemma experiment_ok_publish:
  assumes "experiment_ok dr ex" and "publish to_float manifest dr cf wall out (record_step episode cf wall out ex) = Inr ex'"
    and "tl_state (so_telemetry out) \<noteq> GS_Faulted"
  shows "experiment_ok dr ex'"
proof -
  let ?ex = "record_step episode cf wall out ex" and ?name = "gantry_state_name (tl_state (so_telemetry out))"
  obtain condition u nw where ex: "exchange (dr_random dr) (dr_gauss dr) (cf_episode_id cf) (tl_time (so_telemetry out)) wall ?name
      (readings_of (so_telemetry out)) condition (ex_network ex) = (Inr u, nw)" and ex': "ex' = ?ex\<lparr>ex_network := nw\<rparr>"
    by (rule publish_exchange [OF assms(2)]) (simp add: record_step_def Let_def)
  obtain m x y where new: "nw_messages nw = nw_messages (ex_network ex) @ [m]" "nw_pdos nw = nw_pdos (ex_network ex) @ pdo_rows m [x, y]"
      "ms_simulation_time m = tl_time (so_telemetry out)"
      "axis_of (readings_of (so_telemetry out)) ?name ''x'' 1 = Inr x" "axis_of (readings_of (so_telemetry out)) ?name ''y'' 2 = Inr y"
    using exchange_rows [OF ex] by blast
  have "?name \<noteq> ''faulted''" using gantry_state_name_faulted assms(3) by blast
  then have cw: "pd_controlword x = 15" "pd_controlword y = 15" using axis_of_controlword new(4,5) by blast+
  have "network_run (dr_random dr) (dr_gauss dr) nw"
    using network_exchange [OF _ ex] assms(1) by (simp add: experiment_ok_def)
  moreover have "pdos_ok nw" using pdos_ok_exchange [OF _ new(1,2) cw] assms(1) by (simp add: experiment_ok_def)
  moreover have "subseq (map ms_simulation_time (nw_messages nw)) (map (tl_time \<circ> snd) (ex_telemetry ?ex))"
    using assms(1) new by (simp add: experiment_ok_def record_step_def Let_def list_emb_append_mono)
  ultimately show ?thesis
    using assms(1) unfolding experiment_ok_def ex' by (simp add: record_step_def Let_def)
qed

lemma record_step_telemetry: "ex_telemetry (record_step episode cf wall out ex) = ex_telemetry ex @ [(episode, so_telemetry out)]"
  by (simp add: record_step_def Let_def)

lemma experiment_step_ok:
  assumes "experiment_step to_float manifest dr cf scenarios episode offset (e, ex) = Inr (e', ex')"
    and "gantry_run (dr_random dr) (dr_expovariate dr) cf scenarios e" and "experiment_ok dr ex"
  shows "gantry_run (dr_random dr) (dr_expovariate dr) cf scenarios e' \<and> experiment_ok dr ex'
    \<and> map moment (ex_telemetry ex') = map moment (ex_telemetry ex) @ [(episode, en_step_index e, nanoseconds (en_time e))]
    \<and> en_time e' = en_time e + cf_dt cf \<and> en_step_index e' = en_step_index e + 1"
proof -
  obtain out where step: "env_step (dr_random dr) (dr_expovariate dr) cf scenarios e = Inr (out, e')"
    and rest: "(if so_publish_due out then publish to_float manifest dr cf (offset + en_time e') out
        (record_step episode cf (offset + en_time e') out ex) else Inr (record_step episode cf (offset + en_time e') out ex)) = Inr ex'"
    using assms(1) by (auto simp: experiment_step_def py_bind_Inr_iff Let_def)
  have run: "gantry_run (dr_random dr) (dr_expovariate dr) cf scenarios e'" using assms(2) step by (rule gantry_step)
  note row = env_step_row [OF step]
  have "tl_state (so_telemetry out) \<noteq> GS_Faulted"
    using gantry_run_ok [OF run] row by (simp add: gantry_ok_def work_ok_def)
  then have ok: "experiment_ok dr ex'"
    using rest assms(3) experiment_ok_publish experiment_ok_record by (cases "so_publish_due out") auto
  have "ex_telemetry ex' = ex_telemetry ex @ [(episode, so_telemetry out)]"
  proof (cases "so_publish_due out")
    case True
    with rest obtain nw where "ex' = (record_step episode cf (offset + en_time e') out ex)\<lparr>ex_network := nw\<rparr>"
      by (simp) (erule publish_exchange)
    then show ?thesis by (simp add: record_step_telemetry)
  qed (use rest in \<open>auto simp: record_step_telemetry\<close>)
  then show ?thesis using run ok row by (simp add: moment_def)
qed

lemma run_steps_ok:
  assumes "run_steps to_float manifest dr cf scenarios episode offset n (e, ex) = Inr (e', ex')"
    and "gantry_run (dr_random dr) (dr_expovariate dr) cf scenarios e" and "experiment_ok dr ex"
  shows "experiment_ok dr ex' \<and> map moment (ex_telemetry ex') = map moment (ex_telemetry ex)
    @ map (\<lambda>k. (episode, en_step_index e + k, nanoseconds (en_time e + real k * cf_dt cf))) [0..<n]"
  using assms
proof (induction n arbitrary: e ex)
  case (Suc n)
  then obtain e1 ex1 where step: "experiment_step to_float manifest dr cf scenarios episode offset (e, ex) = Inr (e1, ex1)"
    and rest: "run_steps to_float manifest dr cf scenarios episode offset n (e1, ex1) = Inr (e', ex')"
    by (auto simp: py_bind_Inr_iff)
  note s = experiment_step_ok [OF step Suc.prems(2,3)]
  have "[0..<Suc n] = 0 # map Suc [0..<n]" by (simp add: map_Suc_upt upt_conv_Cons del: upt_Suc)
  moreover note Suc.IH [OF rest] s
  ultimately show ?case by (simp add: comp_def algebra_simps del: upt_Suc)
qed simp

text \<open>The length of a step and of an episode.\<close>

lemma new_environment_lengths:
  assumes "new_environment to_float to_int str manifest rng episode_id = Inr (cf, e)" and "py_item ''environment'' manifest = Inr environment"
    and "get_float to_float ''dt_ms'' 20 environment = Inr dt_ms" and "get_float to_float ''duration_s'' 60 environment = Inr duration"
  shows "cf_dt cf = dt_ms / 1000" "cf_duration cf = duration"
  using assms(1) unfolding new_environment_def py_bind_Inr_iff sum.inject prod.inject
  by (elim exE conjE, hypsubst, use assms(2-4) in simp)+

lemma run_episode_ok:
  assumes "run_episode to_float to_int str manifest dr experiment_id start_wall (i, seed) ex = Inr ex'" and "experiment_ok dr ex"
    and "py_item ''environment'' manifest = Inr environment"
    and "get_float to_float ''dt_ms'' 20 environment = Inr dt_ms" and "get_float to_float ''duration_s'' 60 environment = Inr duration"
  shows "experiment_ok dr ex' \<and> map moment (ex_telemetry ex') = map moment (ex_telemetry ex)
    @ map (\<lambda>k. (i, k, nanoseconds (real k * (dt_ms / 1000)))) [0..<nat \<lceil>duration / (dt_ms / 1000)\<rceil>]"
proof -
  obtain cf e where env: "new_environment to_float to_int str manifest (dr_seeded dr seed) (episode_name experiment_id i) = Inr (cf, e)"
    using assms(1) by (auto simp: run_episode_def Let_def py_bind_Inr_iff)
  with assms(1) obtain scenarios where scenarios: "py_bind (py_bind (py_get ''scenarios'' (JArr []) manifest) py_iter) (load_scenarios to_float to_int str seed) = Inr scenarios"
    by (auto simp: run_episode_def Let_def py_bind_Inr_iff)
  let ?ex = "ex\<lparr>ex_intervals := ex_intervals ex @ map (Pair i) (build_intervals (cf_duration cf) scenarios)\<rparr>"
  obtain e' where steps: "run_steps to_float manifest dr cf scenarios i (start_wall + real i * (cf_duration cf + 1))
      (nat \<lceil>cf_duration cf / cf_dt cf\<rceil>) (e, ?ex) = Inr (e', ex')"
    using assms(1) env scenarios by (auto simp: run_episode_def Let_def py_bind_Inr_iff split: if_splits)
  have "experiment_ok dr ?ex" using assms(2) by (simp add: experiment_ok_def)
  from run_steps_ok [OF steps gantry_start [OF env] this] show ?thesis
    using new_environment_fields(1) [OF env] new_environment_lengths [OF env assms(3-5)] by simp
qed

lemma run_episodes_ok:
  assumes "run_episodes to_float to_int str manifest dr experiment_id start_wall entries ex = Inr ex'" and "experiment_ok dr ex"
    and "py_item ''environment'' manifest = Inr environment"
    and "get_float to_float ''dt_ms'' 20 environment = Inr dt_ms" and "get_float to_float ''duration_s'' 60 environment = Inr duration"
  shows "experiment_ok dr ex' \<and> map moment (ex_telemetry ex') = map moment (ex_telemetry ex)
    @ concat (map (\<lambda>(i, _). map (\<lambda>k. (i, k, nanoseconds (real k * (dt_ms / 1000)))) [0..<nat \<lceil>duration / (dt_ms / 1000)\<rceil>]) entries)"
  using assms(1,2)
proof (induction entries arbitrary: ex)
  case (Cons entry entries)
  obtain i seed where entry: "entry = (i, seed)" by fastforce
  from Cons.prems(1) obtain ex1 where one: "run_episode to_float to_int str manifest dr experiment_id start_wall (i, seed) ex = Inr ex1"
    and rest: "run_episodes to_float to_int str manifest dr experiment_id start_wall entries ex1 = Inr ex'"
    by (auto simp: entry py_bind_Inr_iff)
  from run_episode_ok [OF one Cons.prems(2) assms(3-5)] Cons.IH [OF rest] show ?case by (simp add: entry)
qed simp

lemma experiment_run_ok:
  assumes "run_experiment to_float to_int str manifest dr start_wall = Inr ex"
    and "py_item ''environment'' manifest = Inr environment" and "get_float to_float ''dt_ms'' 20 environment = Inr dt_ms"
    and "get_float to_float ''duration_s'' 60 environment = Inr duration" and "get_int to_int ''episodes'' 1 manifest = Inr episodes"
  shows "experiment_ok dr ex" and "map moment (ex_telemetry ex) = concat (map (\<lambda>i. map (\<lambda>k. (i, k, nanoseconds (real k * (dt_ms / 1000))))
      [0..<nat \<lceil>duration / (dt_ms / 1000)\<rceil>]) [0..<nat episodes])"
proof -
  from assms(1,5) obtain experiment_id base_seed nw where nw: "new_network (dr_seeded dr (base_seed + 9001)) = Inr nw"
    and run: "run_episodes to_float to_int str manifest dr (str experiment_id) start_wall
         (map (\<lambda>i. (i, base_seed + int i * 1009)) [0..<nat episodes])
         \<lparr>ex_network = nw, ex_telemetry = [], ex_production = [], ex_logs = [], ex_sync = [], ex_intervals = [], ex_total_steps = 0\<rparr> = Inr ex"
    by (auto simp: run_experiment_def py_bind_Inr_iff)
  have "nw_messages nw = []" "nw_pdos nw = []" using nw by (auto simp: new_network_def py_bind_Inr_iff)
  then have "experiment_ok dr \<lparr>ex_network = nw, ex_telemetry = [], ex_production = [], ex_logs = [], ex_sync = [], ex_intervals = [], ex_total_steps = 0\<rparr>"
    using network_start [OF nw] by (simp add: experiment_ok_def pdos_ok_def)
  from run_episodes_ok [OF run this assms(2-4)]
  show "experiment_ok dr ex" "map moment (ex_telemetry ex) = concat (map (\<lambda>i. map (\<lambda>k. (i, k, nanoseconds (real k * (dt_ms / 1000))))
      [0..<nat \<lceil>duration / (dt_ms / 1000)\<rceil>]) [0..<nat episodes])"
    by (simp_all add: comp_def)
qed

text \<open>
  C24. An experiment that finishes has recorded one telemetry row for every step of every episode, in order and at the
  multiples of the step; its messages are exchanged at moments of this telemetry; every message has the process data of
  two enabled axes (the state faulted, which would disable them, never occurs); and the capture file and the packet
  rows are those of the messages.
\<close>

theorem experiment_recorded:
  assumes "run_experiment to_float to_int str manifest dr start_wall = Inr ex"
    and "py_item ''environment'' manifest = Inr environment" and "get_float to_float ''dt_ms'' 20 environment = Inr dt_ms"
    and "get_float to_float ''duration_s'' 60 environment = Inr duration" and "get_int to_int ''episodes'' 1 manifest = Inr episodes"
  shows "map moment (ex_telemetry ex) = concat (map (\<lambda>i. map (\<lambda>k. (i, k, nanoseconds (real k * (dt_ms / 1000))))
      [0..<nat \<lceil>duration / (dt_ms / 1000)\<rceil>]) [0..<nat episodes])
    \<and> subseq (map ms_simulation_time (nw_messages (ex_network ex))) (map (tl_time \<circ> snd) (ex_telemetry ex))
    \<and> pdos_ok (ex_network ex) \<and> network_ok (ex_network ex) \<and> ex_total_steps ex = length (ex_telemetry ex)"
  using experiment_run_ok [OF assms] network_run_ok by (auto simp: experiment_ok_def)

section \<open>A concrete experiment\<close>

text \<open>The first step of a machine without scenarios of its own leaves its axes at rest.\<close>

lemma servo_at_rest: "dt \<noteq> 0 \<Longrightarrow> update_servo dt 0 0 f a (new_servo\<lparr>sv_bias := 0\<rparr>) = Inr new_servo"
  by (simp add: update_servo_def new_servo_def servo_effort_def servo_velocity_def servo_mass_def Let_def)

lemma other_domains_idle:
  assumes "\<forall>sc \<in> set scenarios. sc_domain sc \<noteq> FD_Machine"
  shows "machine_effects_of random picking t g (map (\<lambda>sc. scenario_state_at sc t' d) scenarios) = (no_effects, g)"
proof -
  have "fold (apply_effect random picking t) (map (\<lambda>sc. scenario_state_at sc t' d) scenarios) r = r" for r
    using assms by (induction scenarios) (simp_all add: apply_effect_def scenario_state_window(2) Let_def split: prod.split)
  then show ?thesis by (simp add: machine_effects_of_def)
qed

lemma first_step_at_rest:
  assumes "env_step random expovariate cf scenarios e = Inr (out, e')" and "\<forall>sc \<in> set scenarios. sc_domain sc \<noteq> FD_Machine" and "gantry_ok cf e" and "en_state e = GS_Idle" and "cf_dt cf \<noteq> 0"
    and "en_x e = new_servo" and "en_y e = new_servo"
  shows "tl_x (so_telemetry out) = new_servo" "tl_y (so_telemetry out) = new_servo"
proof -
  have "tl_x (so_telemetry out) = new_servo \<and> tl_y (so_telemetry out) = new_servo"
  proof (rule env_step_parts [OF assms(1)])
    fix e1 effects r payload e3 e4
    assume arrivals: "generate_arrivals expovariate cf (e\<lparr>en_events := [], en_logs := []\<rparr>) = Inr e1"
      and eff: "machine_effects_of random (en_state e1 = GS_Pick) (en_time e1) (en_rng e1)
         (map (\<lambda>sc. scenario_state_at sc (en_time e1) (cf_duration cf)) scenarios) = (effects, r)"
      and payload: "payload_of cf (e1\<lparr>en_rng := r\<rparr>) = Inr payload"
      and moved: "move_axes cf effects payload (e1\<lparr>en_rng := r\<rparr>) = Inr e3" and advanced: "advance_sequence random cf effects e3 = Inr e4"
      and out: "out = \<lparr>so_telemetry = telemetry_of payload (check_following e4),
         so_events = en_events e4, so_logs = en_logs (check_following e4),
         so_publish_due = (en_next_publish e4 \<le> en_time e4),
         so_states = map (\<lambda>sc. scenario_state_at sc (en_time e1) (cf_duration cf)) scenarios\<rparr>"
    have idle: "en_part e = None" "en_maintenance_left e \<le> 0" using assms(3,4) by (auto simp: gantry_ok_def work_ok_def)
    note work = generate_arrivals_same [OF arrivals]
    have axes: "en_x e1 = new_servo" "en_y e1 = new_servo"
      using arrivals_loop_keeps [of "\<lambda>_ e1. en_x e1 = new_servo \<and> en_y e1 = new_servo" cf "e\<lparr>en_events := [], en_logs := []\<rparr>" expovariate e1]
        arrivals assms(6,7)
      by (simp_all add: generate_arrivals_def select_order_def arrive_def add_env_event_def Let_def split: option.split)
    have "effects = no_effects"
      using eff unfolding other_domains_idle [OF assms(2)] by blast
    moreover have "payload = 0" "gantry_target cf (e1\<lparr>en_rng := r\<rparr>) = Inr (0, 0)"
      using payload work idle by (simp_all add: payload_of_def gantry_target_def same_work_def)
    ultimately have "e3 = e1\<lparr>en_rng := r, en_x := new_servo, en_y := new_servo\<rparr>"
      using moved axes servo_at_rest [OF assms(5)] by (simp add: move_axes_def no_effects_def)
    then have "en_x e4 = new_servo" "en_y e4 = new_servo"
      using advanced work idle assms(4)
      by (auto simp: advance_sequence_def same_work_def maintenance_start_def start_cycle_def set_gantry_state_def add_env_event_def Let_def
          split: if_splits list.splits)
    then show ?thesis unfolding out by (simp add: telemetry_of_def check_following_def add_env_log_def)
  qed
  then show "tl_x (so_telemetry out) = new_servo" "tl_y (so_telemetry out) = new_servo" by simp_all
qed

lemma exchange_data_at_rest:
  assumes "tl_x row = new_servo" and "tl_y row = new_servo"
  shows "\<exists>d. exchange_data (readings_of row) machine_state = Inr d"
  using assms
  by (simp add: exchange_data_def axis_of_def readings_of_def new_servo_def servo_error_def axis_pdo_from_values_def counts_def round_even_def
      build_process_image_def request_bytes_def response_bytes_def pack_unsigned_def pack_signed_def
      expected_lrw_working_counter_def Let_def)

text \<open>One step of an experiment whose network loses packets.\<close>

definition demo_short :: json where
  "demo_short = JObj
     [(''schema_version'', JNum 1), (''experiment_id'', JStr ''e''), (''capture'', JObj []),
      (''scenarios'', JArr [JObj [(''id'', JStr ''loss''), (''domain'', JStr ''network''), (''category'', JStr ''communication''),
        (''type'', JStr ''packet_loss''), (''component'', JStr ''ethercat''), (''activation_time_s'', JNum 0), (''magnitude'', JNum (1 / 2))]]),
      (''network'', JObj [(''cycle_period_ms'', JNum 20)]),
      (''environment'', JObj [(''id'', JStr ''VSMC-DynamicGantry-v1''), (''duration_s'', JNum (20 / 1000)), (''dt_ms'', JNum 20)])]"

definition demo_loss :: scenario where
  "demo_loss = \<lparr>sc_id = ''loss'', sc_domain = FD_Network, sc_category = ''communication'', sc_fault_type = ''packet_loss'', sc_component = ''ethercat'',
     sc_activation = 0, sc_duration = None, sc_progression = ''abrupt'', sc_magnitude = 1 / 2, sc_severity = ''major'', sc_seed = 1102\<rparr>"

lemma demo_short_scenarios:
  "py_bind (py_get ''scenarios'' (JArr []) demo_short) py_iter = Inr raw
    \<Longrightarrow> load_scenarios (\<lambda>_. Inl []) (\<lambda>_. Inl []) demo_str 1001 raw = Inr [demo_loss]"
  by (auto simp: demo_short_def py_iter_def load_scenarios_def load_scenario_def py_item_def py_get_def py_float_def py_int_def py_trunc_def
      domain_of_def demo_str_def demo_loss_def)

lemma demo_short_raw: "\<exists>raw. py_bind (py_get ''scenarios'' (JArr []) demo_short) py_iter = Inr raw"
  by (simp add: demo_short_def py_iter_def)

definition demo_draws :: "nat draws" where
  "demo_draws = \<lparr>dr_random = demo_uniform, dr_gauss = (\<lambda>s n. (0, n + 1)), dr_expovariate = demo_interval, dr_seeded = nat\<rparr>"

lemma demo_short_starts:
  "\<exists>cf e. new_environment (\<lambda>_. Inl []) (\<lambda>_. Inl []) demo_str demo_short rng i = Inr (cf, e) \<and> cf_dt cf = 20 / 1000 \<and> cf_duration cf = 20 / 1000
    \<and> cf_mean_arrival cf = 8 / 10 \<and> makeable cf e"
  by (simp add: demo_short_def new_environment_def py_item_def get_float_def get_int_def py_get_def
      py_float_def py_int_def py_trunc_def build_orders_def build_recipes_def items_or_def py_truthy_def default_orders_def
      default_products_def build_order_def build_recipe_def demo_str_def makeable_def servo_mass_def numeral_2_eq_2)

lemma demo_experiment_finishes: "\<exists>ex. run_experiment (\<lambda>_. Inl []) (\<lambda>_. Inl []) demo_str demo_short demo_draws 0 = Inr ex"
proof -
  obtain cf and e :: "nat env" where env: "new_environment (\<lambda>_. Inl []) (\<lambda>_. Inl []) demo_str demo_short 1001 (episode_name ''e'' 0) = Inr (cf, e)"
      "cf_dt cf = 20 / 1000" "cf_duration cf = 20 / 1000" "cf_mean_arrival cf = 8 / 10" "makeable cf e"
    using demo_short_starts [of 1001 "episode_name ''e'' 0"] by blast
  note fields = new_environment_fields(1) [OF env(1)]
  have run: "gantry_run demo_uniform demo_interval cf [demo_loss] e" using env(1) by (rule gantry_start)
  have "cf_dt cf \<noteq> 0" "cf_mean_arrival cf \<noteq> 0" using env by simp_all
  from env_step_returns [OF gantry_run_from [OF run] env(5) this] obtain out e'
    where step: "env_step demo_uniform demo_interval cf [demo_loss] e = Inr (out, e')" by blast
  have rest: "tl_x (so_telemetry out) = new_servo" "tl_y (so_telemetry out) = new_servo"
    using first_step_at_rest [OF step _ gantry_run_ok [OF run]] fields env(2) by (simp_all add: demo_loss_def)
  have "\<exists>condition. network_condition_of (\<lambda>_. Inl []) demo_short (so_states out) = Inr condition"
    by (simp add: network_condition_of_def base_condition_def demo_short_def py_float_def)
  then obtain condition where condition: "network_condition_of (\<lambda>_. Inl []) demo_short (so_states out) = Inr condition" by blast
  have published: "\<exists>ex'. publish (\<lambda>_. Inl []) demo_short demo_draws cf wall out ex = Inr ex'" for wall ex
  proof -
    let ?x = "exchange (dr_random demo_draws) (dr_gauss demo_draws) (cf_episode_id cf) (tl_time (so_telemetry out)) wall
      (gantry_state_name (tl_state (so_telemetry out))) (readings_of (so_telemetry out)) condition (ex_network ex)"
    obtain r nw where r: "?x = (r, nw)" by fastforce
    have "r \<noteq> Inl err" for err
      using exchange_outcome [of "readings_of (so_telemetry out)" "gantry_state_name (tl_state (so_telemetry out))" "tl_time (so_telemetry out)"
        "ex_network ex" "dr_random demo_draws" "dr_gauss demo_draws" "cf_episode_id cf" wall condition] r exchange_data_at_rest [OF rest(1,2)]
      by (auto simp: exchange_left_def)
    then obtain u where "r = Inr u" by (cases r) blast+
    then show ?thesis using r condition by (simp add: publish_def)
  qed
  have stepped: "\<exists>e' ex'. experiment_step (\<lambda>_. Inl []) demo_short demo_draws cf [demo_loss] 0 offset (e, ex) = Inr (e', ex')" for offset ex
    using step published by (simp add: experiment_step_def demo_draws_def Let_def) (metis py_bind_simps(2))
  obtain nw :: "nat network" where nw: "new_network 10002 = Inr nw" by (simp add: new_network_def new_capture_bytes)
  obtain raw where raw: "py_bind (py_get ''scenarios'' (JArr []) demo_short) py_iter = Inr raw" using demo_short_raw by blast
  note scenarios = raw demo_short_scenarios [OF raw]
  have one: "nat \<lceil>cf_duration cf / cf_dt cf\<rceil> = Suc 0" by (simp add: env(2,3))
  have "\<exists>ex'. run_episode (\<lambda>_. Inl []) (\<lambda>_. Inl []) demo_str demo_short demo_draws ''e'' 0 (0, 1001) ex = Inr ex'" for ex
  proof -
    have seed: "dr_seeded demo_draws 1001 = 1001" by (simp add: demo_draws_def)
    let ?ex = "ex\<lparr>ex_intervals := ex_intervals ex @ map (Pair 0) (build_intervals (cf_duration cf) [demo_loss])\<rparr>"
    obtain e' ex' where s: "experiment_step (\<lambda>_. Inl []) demo_short demo_draws cf [demo_loss] 0 (0 + real 0 * (cf_duration cf + 1)) (e, ?ex) = Inr (e', ex')"
      using stepped by blast
    have "cf_dt cf \<noteq> 0" by (simp add: env(2))
    with s show ?thesis
      unfolding run_episode_def Let_def prod.case seed env(1) py_bind_simps scenarios one by simp
  qed
  then obtain ex where episode: "run_episode (\<lambda>_. Inl []) (\<lambda>_. Inl []) demo_str demo_short demo_draws ''e'' 0 (0, 1001)
      \<lparr>ex_network = nw, ex_telemetry = [], ex_production = [], ex_logs = [], ex_sync = [], ex_intervals = [], ex_total_steps = 0\<rparr> = Inr ex"
    by blast
  have named: "py_item ''experiment_id'' demo_short = Inr (JStr ''e'')" "demo_str (JStr ''e'') = ''e''"
    by (simp_all add: demo_short_def py_item_def demo_str_def)
  have counts: "get_int (\<lambda>_. Inl []) ''base_seed'' 1001 demo_short = Inr 1001" "get_int (\<lambda>_. Inl []) ''episodes'' 1 demo_short = Inr 1"
    by (simp_all add: demo_short_def get_int_def py_get_def py_int_def py_trunc_def)
  have seeded: "dr_seeded demo_draws (1001 + 9001) = 10002" by (simp add: demo_draws_def)
  have entries: "map (\<lambda>i. (i, 1001 + int i * 1009)) [0..<nat 1] = [(0, 1001)]" by simp
  have "run_experiment (\<lambda>_. Inl []) (\<lambda>_. Inl []) demo_str demo_short demo_draws 0 = Inr ex"
    unfolding run_experiment_def named counts py_bind_simps seeded nw entries run_episodes.simps episode ..
  then show ?thesis by blast
qed

lemma experiment_recorded_witness:
  "\<exists>ex. run_experiment (\<lambda>_. Inl []) (\<lambda>_. Inl []) demo_str demo_short demo_draws 0 = Inr ex
    \<and> map moment (ex_telemetry ex) = [(0, 0, 0)] \<and> network_ok (ex_network ex)"
proof -
  obtain ex where ex: "run_experiment (\<lambda>_. Inl []) (\<lambda>_. Inl []) demo_str demo_short demo_draws 0 = Inr ex"
    using demo_experiment_finishes by blast
  have data: "py_item ''environment'' demo_short
      = Inr (JObj [(''id'', JStr ''VSMC-DynamicGantry-v1''), (''duration_s'', JNum (20 / 1000)), (''dt_ms'', JNum 20)])"
    by (simp add: demo_short_def py_item_def)
  have floats: "get_float (\<lambda>_. Inl []) ''dt_ms'' 20 (JObj [(''id'', JStr ''VSMC-DynamicGantry-v1''), (''duration_s'', JNum (20 / 1000)), (''dt_ms'', JNum 20)]) = Inr 20"
    "get_float (\<lambda>_. Inl []) ''duration_s'' 60 (JObj [(''id'', JStr ''VSMC-DynamicGantry-v1''), (''duration_s'', JNum (20 / 1000)), (''dt_ms'', JNum 20)]) = Inr (20 / 1000)"
    by (simp_all add: get_float_def py_get_def py_float_def)
  have episodes: "get_int (\<lambda>_. Inl []) ''episodes'' 1 demo_short = Inr 1"
    by (simp add: demo_short_def get_int_def py_get_def py_int_def py_trunc_def)
  from experiment_recorded [OF ex data floats episodes] ex show ?thesis
    by (auto simp: nanoseconds_def py_trunc_def)
qed

end
