(* ===== verification/DatasetLaws.thy ===== *)
theory DatasetLaws
  imports Dataset ExperimentLaws
begin

text \<open>
  Properties of the summary of an experiment: its metrics are those of the production log, and no fault acts in a window
  that is labelled normal.
\<close>

section \<open>The production log counts what the machine counts\<close>

definition outcome_of :: "env_what \<Rightarrow> bool option" where
  "outcome_of w = (case w of CycleCompleted good _ _ _ \<Rightarrow> Some good | _ \<Rightarrow> None)"

definition completed :: "env_event list \<Rightarrow> nat" where
  "completed evs = length (filter (\<lambda>ev. outcome_of (ee_what ev) \<noteq> None) evs)"

definition completed_good :: "env_event list \<Rightarrow> nat" where
  "completed_good evs = length (filter (\<lambda>ev. outcome_of (ee_what ev) = Some True) evs)"

lemma completed_append [simp]:
  "completed (xs @ ys) = completed xs + completed ys" "completed_good (xs @ ys) = completed_good xs + completed_good ys"
  "completed [] = 0" "completed_good [] = 0"
  by (simp_all add: completed_def completed_good_def)

lemma completed_single [simp]:
  "outcome_of (ee_what ev) = None \<Longrightarrow> completed [ev] = 0" "outcome_of (ee_what ev) = None \<Longrightarrow> completed_good [ev] = 0"
  "outcome_of (ee_what ev) = Some good \<Longrightarrow> completed [ev] = 1"
  "outcome_of (ee_what ev) = Some good \<Longrightarrow> completed_good [ev] = (if good then 1 else 0)"
  by (simp_all add: completed_def completed_good_def)

text \<open>The events so far tell how far the counters are from where the step started.\<close>

definition told :: "'r env \<Rightarrow> 'r env \<Rightarrow> bool" where
  "told e0 e \<longleftrightarrow> en_cycles e = en_cycles e0 + completed (en_events e) \<and> en_good e = en_good e0 + completed_good (en_events e)"

lemma told_event [simp]: "outcome_of w = None \<Longrightarrow> told e0 (add_env_event w e) = told e0 e"
  by (simp add: told_def add_env_event_def)

lemma silent_events [simp]:
  "outcome_of (OrderActivated s) = None" "outcome_of (PartArrived p n) = None" "outcome_of (StateChanged a b) = None"
  "outcome_of MaintenanceStarted = None" "outcome_of MaintenanceCompleted = None" "outcome_of (CycleStarted s) = None"
  "outcome_of (RecipeChanged s) = None" "outcome_of PartPicked = None" "outcome_of (InspectionCompleted x) = None"
  "outcome_of (CycleCompleted good reason n m) = Some good"
  by (simp_all add: outcome_of_def)

lemma told_frame [simp]:
  "told e0 (e\<lparr>en_rng := r\<rparr>) = told e0 e" "told e0 (e\<lparr>en_next_arrival := t\<rparr>) = told e0 e"
  "told e0 (e\<lparr>en_active := i\<rparr>) = told e0 e" "told e0 (e\<lparr>en_arrivals := n\<rparr>) = told e0 e"
  "told e0 (e\<lparr>en_queue := q\<rparr>) = told e0 e" "told e0 (e\<lparr>en_state := s\<rparr>) = told e0 e"
  "told e0 (e\<lparr>en_elapsed := u\<rparr>) = told e0 e" "told e0 (e\<lparr>en_x := ax\<rparr>) = told e0 e"
  "told e0 (e\<lparr>en_y := ay\<rparr>) = told e0 e" "told e0 (e\<lparr>en_maintenance_left := v\<rparr>) = told e0 e"
  "told e0 (e\<lparr>en_next_maintenance := w\<rparr>) = told e0 e" "told e0 (e\<lparr>en_last_product := lp\<rparr>) = told e0 e"
  "told e0 (e\<lparr>en_part := p\<rparr>) = told e0 e" "told e0 (e\<lparr>en_cycle_id := c\<rparr>) = told e0 e"
  "told e0 (e\<lparr>en_failed_picks := m\<rparr>) = told e0 e" "told e0 (e\<lparr>en_rework := k\<rparr>) = told e0 e"
  "told e0 (add_env_log sv code e) = told e0 e"
  by (simp_all add: told_def add_env_log_def)

lemma told_ops [simp]:
  "told e0 (set_gantry_state s e) = told e0 e" "told e0 (select_order e) = told e0 e" "told e0 (arrive cf p e) = told e0 e"
  "told e0 (maintenance_step cf e) = told e0 e" "told e0 (maintenance_start cf e) = told e0 e" "told e0 (start_cycle cf e) = told e0 e"
  "told e0 (check_following e) = told e0 e" "told e0 (inspection_done random part e) = told e0 e"
  by (simp_all add: set_gantry_state_def select_order_def arrive_def maintenance_step_def maintenance_start_def start_cycle_def
      check_following_def inspection_done_def Let_def split: option.split list.split prod.split)

lemma told_finish [simp]: "told e0 (finish_cycle good reason e) = told e0 e"
proof (cases "en_part e")
  case (Some part)
  have *: "told e0 (add_env_event (CycleCompleted good reason n m) e') \<longleftrightarrow> told e0 e"
    if "en_cycles e' = en_cycles e + 1" "en_good e' = en_good e + (if good then 1 else 0)" "en_events e' = en_events e" for e' n m
    using that by (simp add: told_def add_env_event_def)
  show ?thesis using Some by (simp add: finish_cycle_def Let_def * split: option.split)
qed (simp add: finish_cycle_def)

lemma told_work [simp]: "told e0 (work_part random effects part recipe e) = told e0 e"
  by (simp add: work_part_def pick_done_def)

lemma env_step_tells:
  assumes "env_step random expovariate cf scenarios e = Inr (out, e')"
  shows "en_cycles e' = en_cycles e + completed (so_events out) \<and> en_good e' = en_good e + completed_good (so_events out)
    \<and> tl_cycles (so_telemetry out) = en_cycles e' \<and> tl_good (so_telemetry out) = en_good e' \<and> tl_rejected (so_telemetry out) = en_rejected e'"
proof (rule env_step_parts [OF assms])
  fix e1 effects r payload e3 e4
  assume arrivals: "generate_arrivals expovariate cf (e\<lparr>en_events := [], en_logs := []\<rparr>) = Inr e1"
    and moved: "move_axes cf effects payload (e1\<lparr>en_rng := r\<rparr>) = Inr e3" and advanced: "advance_sequence random cf effects e3 = Inr e4"
    and out: "out = \<lparr>so_telemetry = telemetry_of payload (check_following e4),
       so_events = en_events e4, so_logs = en_logs (check_following e4),
       so_publish_due = (en_next_publish e4 \<le> en_time e4),
       so_states = map (\<lambda>sc. scenario_state_at sc (en_time e1) (cf_duration cf)) scenarios\<rparr>"
    and e': "e' = (check_following e4)
       \<lparr>en_next_publish := (if en_next_publish e4 \<le> en_time e4 then en_next_publish e4 + cf_network_period cf else en_next_publish e4),
        en_time := en_time e4 + cf_dt cf, en_elapsed := en_elapsed e4 + cf_dt cf, en_step_index := en_step_index e4 + 1\<rparr>"
  have "told e e1"
  proof (rule arrivals_loop_keeps [where P = "\<lambda>_. told e"])
    show "arrivals_loop expovariate cf (e\<lparr>en_events := [], en_logs := []\<rparr>) = Inr e1" using arrivals by (simp add: generate_arrivals_def)
  qed (simp_all, simp add: told_def)
  then have "told e e3" using move_axes_moves [OF moved] told_frame by metis
  then have "told e e4" using advanced by (auto simp: advance_sequence_def py_bind_Inr_iff split: if_splits option.splits)
  then show ?thesis unfolding out e' by (simp add: told_def telemetry_of_def check_following_def add_env_log_def)
qed

lemma completed_good_le: "completed_good evs \<le> completed evs"
  unfolding completed_def completed_good_def by (induction evs) auto

section \<open>Metrics\<close>

definition highest :: "(nat \<times> nat) list \<Rightarrow> nat \<Rightarrow> nat" where
  "highest kept i = (case map_of kept i of None \<Rightarrow> 0 | Some n \<Rightarrow> n)"

definition sum_of :: "(telemetry_row \<Rightarrow> nat) \<Rightarrow> (nat \<times> telemetry_row) list \<Rightarrow> nat" where
  "sum_of f telemetry = sum_list (map snd (by_episode f telemetry))"

lemma sum_update: "sum_list (map snd (AList.update i n kept)) + highest kept i = sum_list (map snd kept) + n"
  by (induction kept) (auto simp: highest_def)

lemma keep_row:
  assumes "highest (by_episode f telemetry) i \<le> f row"
  shows "highest (by_episode f (telemetry @ [(i, row)])) i = f row"
    "sum_of f (telemetry @ [(i, row)]) + highest (by_episode f telemetry) i = sum_of f telemetry + f row"
proof -
  have *: "by_episode f (telemetry @ [(i, row)]) = AList.update i (f row) (by_episode f telemetry)"
    using assms by (simp add: by_episode_def keep_highest_def highest_def max_absorb2)
  show "highest (by_episode f (telemetry @ [(i, row)])) i = f row" unfolding * by (simp add: highest_def update_conv)
  show "sum_of f (telemetry @ [(i, row)]) + highest (by_episode f telemetry) i = sum_of f telemetry + f row"
    unfolding sum_of_def * by (rule sum_update)
qed

text \<open>An episode without rows has no count yet.\<close>

lemma highest_fresh: "i \<notin> fst ` set telemetry \<Longrightarrow> highest (by_episode f telemetry) i = 0"
proof (induction telemetry rule: rev_induct)
  case (snoc r telemetry)
  then show ?case by (cases r) (simp add: by_episode_def keep_highest_def highest_def update_conv)
qed (simp add: by_episode_def highest_def)

definition sums_agree :: "'r experiment_run \<Rightarrow> bool" where
  "sums_agree ex \<longleftrightarrow> sum_of tl_cycles (ex_telemetry ex) = completed (map snd (ex_production ex))
     \<and> sum_of tl_good (ex_telemetry ex) = completed_good (map snd (ex_production ex))
     \<and> sum_of tl_cycles (ex_telemetry ex) = sum_of tl_good (ex_telemetry ex) + sum_of tl_rejected (ex_telemetry ex)
     \<and> ex_total_steps ex = length (ex_telemetry ex)"

definition tallied :: "nat \<Rightarrow> 'r env \<Rightarrow> 'r experiment_run \<Rightarrow> bool" where
  "tallied i e ex \<longleftrightarrow> sums_agree ex \<and> highest (by_episode tl_cycles (ex_telemetry ex)) i = en_cycles e
     \<and> highest (by_episode tl_good (ex_telemetry ex)) i = en_good e \<and> highest (by_episode tl_rejected (ex_telemetry ex)) i = en_rejected e"

lemma experiment_step_rows:
  assumes "experiment_step to_float manifest dr cf scenarios episode offset (e, ex) = Inr (e', ex')"
  obtains out where "env_step (dr_random dr) (dr_expovariate dr) cf scenarios e = Inr (out, e')"
    "ex_telemetry ex' = ex_telemetry ex @ [(episode, so_telemetry out)]"
    "ex_production ex' = ex_production ex @ map (Pair episode) (so_events out)" "ex_intervals ex' = ex_intervals ex"
    "ex_total_steps ex' = Suc (ex_total_steps ex)"
proof -
  obtain out where step: "env_step (dr_random dr) (dr_expovariate dr) cf scenarios e = Inr (out, e')"
    and rest: "(if so_publish_due out then publish to_float manifest dr cf (offset + en_time e') out
        (record_step episode cf (offset + en_time e') out ex) else Inr (record_step episode cf (offset + en_time e') out ex)) = Inr ex'"
    using assms by (auto simp: experiment_step_def py_bind_Inr_iff Let_def)
  let ?ex = "record_step episode cf (offset + en_time e') out ex"
  have "\<exists>nw. ex' = ?ex\<lparr>ex_network := nw\<rparr>"
  proof (cases "so_publish_due out")
    case True
    with rest show ?thesis by simp (erule publish_exchange, blast)
  next
    case False
    with rest have "ex' = ?ex\<lparr>ex_network := ex_network ?ex\<rparr>" by simp
    then show ?thesis ..
  qed
  then obtain nw where "ex' = ?ex\<lparr>ex_network := nw\<rparr>" ..
  then show thesis by (intro that [OF step]) (simp_all add: record_step_def Let_def)
qed

lemma tallied_step:
  assumes "experiment_step to_float manifest dr cf scenarios i offset (e, ex) = Inr (e', ex')"
    and "gantry_ok cf e" and "gantry_ok cf e'" and "tallied i e ex"
  shows "tallied i e' ex'"
proof (rule experiment_step_rows [OF assms(1)])
  fix out
  assume step: "env_step (dr_random dr) (dr_expovariate dr) cf scenarios e = Inr (out, e')"
    and rows: "ex_telemetry ex' = ex_telemetry ex @ [(i, so_telemetry out)]"
      "ex_production ex' = ex_production ex @ map (Pair i) (so_events out)"
      "ex_total_steps ex' = Suc (ex_total_steps ex)"
  note tells = env_step_tells [OF step] completed_good_le [of "so_events out"]
  have count: "en_cycles e = en_good e + en_rejected e" "en_cycles e' = en_good e' + en_rejected e'"
    using assms(2,3) by (simp_all add: gantry_ok_def counts_ok_def)
  have old: "highest (by_episode tl_cycles (ex_telemetry ex)) i = en_cycles e" "highest (by_episode tl_good (ex_telemetry ex)) i = en_good e"
    "highest (by_episode tl_rejected (ex_telemetry ex)) i = en_rejected e" using assms(4) by (simp_all add: tallied_def)
  have le: "highest (by_episode tl_cycles (ex_telemetry ex)) i \<le> tl_cycles (so_telemetry out)"
    "highest (by_episode tl_good (ex_telemetry ex)) i \<le> tl_good (so_telemetry out)"
    "highest (by_episode tl_rejected (ex_telemetry ex)) i \<le> tl_rejected (so_telemetry out)"
    using old tells count by linarith+
  note kept = keep_row [OF le(1)] keep_row [OF le(2)] keep_row [OF le(3)]
  have "map snd (ex_production ex') = map snd (ex_production ex) @ so_events out" unfolding rows by (simp add: comp_def)
  then have "sums_agree ex'"
    using kept(2,4,6) old tells count assms(4) unfolding sums_agree_def tallied_def rows(1,3) by simp
  then show ?thesis using kept(1,3,5) tells unfolding tallied_def rows(1) by simp
qed

text \<open>What a run of steps, an episode and the episodes keep: a rule for each.\<close>

lemma run_steps_keeps:
  assumes "run_steps to_float manifest dr cf scenarios i offset n (e, ex) = Inr (e', ex')"
    and "gantry_run (dr_random dr) (dr_expovariate dr) cf scenarios e" and "P e ex"
    and "\<And>e ex e' ex'. experiment_step to_float manifest dr cf scenarios i offset (e, ex) = Inr (e', ex') \<Longrightarrow>
      gantry_run (dr_random dr) (dr_expovariate dr) cf scenarios e \<Longrightarrow> gantry_run (dr_random dr) (dr_expovariate dr) cf scenarios e' \<Longrightarrow>
      P e ex \<Longrightarrow> P e' ex'"
  shows "P e' ex'"
  using assms(1-3)
proof (induction n arbitrary: e ex)
  case (Suc n)
  then obtain e1 ex1 where step: "experiment_step to_float manifest dr cf scenarios i offset (e, ex) = Inr (e1, ex1)"
    and rest: "run_steps to_float manifest dr cf scenarios i offset n (e1, ex1) = Inr (e', ex')"
    by (auto simp: py_bind_Inr_iff)
  have "gantry_run (dr_random dr) (dr_expovariate dr) cf scenarios e1"
    by (rule experiment_step_rows [OF step]) (use Suc.prems(2) in \<open>rule gantry_step\<close>)
  with Suc.IH [OF rest] assms(4) [OF step] Suc.prems show ?case by blast
qed simp

lemma run_episode_parts:
  assumes "run_episode to_float to_int str manifest dr experiment_id start_wall (i, seed) ex = Inr ex'"
  obtains cf e e' raw scenarios where
    "new_environment to_float to_int str manifest (dr_seeded dr seed) (episode_name experiment_id i) = Inr (cf, e)"
    "py_bind (py_get ''scenarios'' (JArr []) manifest) py_iter = Inr raw" "load_scenarios to_float to_int str seed raw = Inr scenarios"
    "run_steps to_float manifest dr cf scenarios i (start_wall + real i * (cf_duration cf + 1)) (nat \<lceil>cf_duration cf / cf_dt cf\<rceil>)
       (e, ex\<lparr>ex_intervals := ex_intervals ex @ map (Pair i) (build_intervals (cf_duration cf) scenarios)\<rparr>) = Inr (e', ex')"
  using assms by (auto simp: run_episode_def Let_def py_bind_Inr_iff split: if_splits)

lemma run_episode_sums:
  fixes dr :: "'r draws" and ex ex' :: "'r experiment_run"
  assumes "run_episode to_float to_int str manifest dr experiment_id start_wall (i, seed) ex = Inr ex'"
    and "sums_agree ex" and "i \<notin> fst ` set (ex_telemetry ex)"
  shows "sums_agree ex' \<and> fst ` set (ex_telemetry ex') \<subseteq> insert i (fst ` set (ex_telemetry ex))"
proof (rule run_episode_parts [OF assms(1)])
  fix cf :: env_config and e e' :: "'r env" and raw scenarios
  let ?ex = "ex\<lparr>ex_intervals := ex_intervals ex @ map (Pair i) (build_intervals (cf_duration cf) scenarios)\<rparr>"
  let ?P = "\<lambda>e ex1. tallied i e ex1 \<and> fst ` set (ex_telemetry ex1) \<subseteq> insert i (fst ` set (ex_telemetry ex))"
  assume env: "new_environment to_float to_int str manifest (dr_seeded dr seed) (episode_name experiment_id i) = Inr (cf, e)"
    and steps: "run_steps to_float manifest dr cf scenarios i (start_wall + real i * (cf_duration cf + 1)) (nat \<lceil>cf_duration cf / cf_dt cf\<rceil>)
       (e, ?ex) = Inr (e', ex')"
  have "sums_agree ?ex" using assms(2) by (simp add: sums_agree_def)
  then have start: "?P e ?ex"
    using new_environment_fields(1) [OF env] highest_fresh [OF assms(3)] by (auto simp: tallied_def)
  have "?P e' ex'"
  proof (rule run_steps_keeps [where P = ?P, OF steps gantry_start [OF env] start])
    fix e1 e2 :: "'r env" and ex1 ex2 :: "'r experiment_run"
    assume step: "experiment_step to_float manifest dr cf scenarios i (start_wall + real i * (cf_duration cf + 1)) (e1, ex1) = Inr (e2, ex2)"
      and runs: "gantry_run (dr_random dr) (dr_expovariate dr) cf scenarios e1" "gantry_run (dr_random dr) (dr_expovariate dr) cf scenarios e2"
      and old: "?P e1 ex1"
    have "fst ` set (ex_telemetry ex2) \<subseteq> insert i (fst ` set (ex_telemetry ex1))"
      by (rule experiment_step_rows [OF step]) auto
    then show "?P e2 ex2" using tallied_step [OF step runs [THEN gantry_run_ok]] old by blast
  qed
  then show ?thesis by (simp add: tallied_def)
qed

lemma run_episodes_sums:
  assumes "run_episodes to_float to_int str manifest dr experiment_id start_wall entries ex = Inr ex'" and "sums_agree ex"
    and "distinct (map fst entries)" and "fst ` set entries \<inter> fst ` set (ex_telemetry ex) = {}"
  shows "sums_agree ex'"
  using assms
proof (induction entries arbitrary: ex)
  case (Cons entry entries)
  obtain i seed where entry: "entry = (i, seed)" by fastforce
  from Cons.prems(1) obtain ex1 where one: "run_episode to_float to_int str manifest dr experiment_id start_wall (i, seed) ex = Inr ex1"
    and rest: "run_episodes to_float to_int str manifest dr experiment_id start_wall entries ex1 = Inr ex'"
    by (auto simp: entry py_bind_Inr_iff)
  have "i \<notin> fst ` set (ex_telemetry ex)" using Cons.prems(4) by (auto simp: entry)
  note first = run_episode_sums [OF one Cons.prems(2) this]
  have fresh: "i \<notin> fst ` set entries" "fst ` set entries \<inter> fst ` set (ex_telemetry ex) = {}"
    using Cons.prems(3,4) by (simp_all add: entry)
  have "A \<inter> C = {}" if "C \<subseteq> insert i B" "i \<notin> A" "A \<inter> B = {}" for A B C :: "nat set" using that by blast
  from this [OF first [THEN conjunct2] fresh] have "fst ` set entries \<inter> fst ` set (ex_telemetry ex1) = {}" .
  then show ?case using first Cons.IH [OF rest] Cons.prems(3) by simp
qed simp

text \<open>
  C25. The metrics of an experiment are those of its production log: the completed cycles, taken as the highest count of
  every episode's telemetry, are the completed cycles of the log, the good parts are those the log calls good, the
  rejected parts are the others, and every step has a row.
\<close>

theorem metrics_agree:
  assumes "run_experiment to_float to_int str manifest dr start_wall = Inr ex"
  shows "mt_completed_cycles (metrics_of ex n) = completed (map snd (ex_production ex))
    \<and> mt_good_parts (metrics_of ex n) = completed_good (map snd (ex_production ex))
    \<and> mt_completed_cycles (metrics_of ex n) = mt_good_parts (metrics_of ex n) + mt_rejected_parts (metrics_of ex n)
    \<and> mt_steps (metrics_of ex n) = mt_telemetry_rows (metrics_of ex n)"
proof -
  obtain experiment_id seed episodes nw where
    "run_episodes to_float to_int str manifest dr (str experiment_id) start_wall
      (map (\<lambda>i. (i, seed + int i * 1009)) [0..<nat episodes])
      \<lparr>ex_network = nw, ex_telemetry = [], ex_production = [], ex_logs = [], ex_sync = [], ex_intervals = [], ex_total_steps = 0\<rparr> = Inr ex"
    using assms by (auto simp: run_experiment_def py_bind_Inr_iff)
  then have "sums_agree ex"
    by (rule run_episodes_sums) (simp_all add: sums_agree_def sum_of_def by_episode_def comp_def)
  then show ?thesis by (simp add: sums_agree_def sum_of_def metrics_of_def Let_def)
qed

lemma metrics_agree_witness:
  "\<exists>ex. run_experiment (\<lambda>_. Inl []) (\<lambda>_. Inl []) demo_str demo_short demo_draws 0 = Inr ex
    \<and> mt_completed_cycles (metrics_of ex 1) = completed (map snd (ex_production ex))"
proof -
  obtain ex where ex: "run_experiment (\<lambda>_. Inl []) (\<lambda>_. Inl []) demo_str demo_short demo_draws 0 = Inr ex"
    using demo_experiment_finishes by blast
  from metrics_agree [OF ex, of 1] ex show ?thesis by blast
qed

section \<open>The labels of an experiment\<close>






section \<open>The targets of a window\<close>



section \<open>No fault in a normal window\<close>








end
